(* ===== verification/Go_Prelude.thy ===== *)
theory Go_Prelude imports Complex_Main "HOL-Library.AList" "HOL-Library.Multiset" "HOL-Library.State_Monad" begin

text \<open>
  Shared vocabulary of the development: the hint collections, Go's error values, Go maps and
  the small facts about lists, options and association lists that the component theories use.

  A Go \<^verbatim>\<open>error\<close> is its message (\<^verbatim>\<open>err.Error()\<close>, the only thing the program ever reads of
  it), so a function that returns only an \<^verbatim>\<open>error\<close> returns a \<open>string option\<close> (\<open>None\<close> is
  \<^verbatim>\<open>nil\<close>) and a function that returns \<^verbatim>\<open>(T, error)\<close> returns \<open>string + 'a\<close>
  (\<open>Inl\<close> is the error branch, where the code returns Go's zero value beside the error).

  A Go map is an association list with distinct keys: the order of the list is the order in
  which \<^verbatim>\<open>range\<close> happens to visit the keys, which Go leaves open.
\<close>

section \<open>Hint collections\<close>

named_theorems go_defs \<open>definitions of the runtime that a symbolic run unfolds\<close>
named_theorems path_simps \<open>equations of lexical path processing\<close>
named_theorems json_simps \<open>equations of the JSON encoders and decoders\<close>
named_theorems frame_simps \<open>fields that an operation leaves alone\<close>

section \<open>Error values\<close>

type_synonym err = string
type_synonym 'a res = "err + 'a"

abbreviation Ok :: "'a \<Rightarrow> 'a res" where "Ok \<equiv> Inr"
abbreviation Err :: "err \<Rightarrow> 'a res" where "Err \<equiv> Inl"

definition is_ok :: "'a res \<Rightarrow> bool" where
  "is_ok r = (case r of Inl _ \<Rightarrow> False | Inr _ \<Rightarrow> True)"

lemma is_ok_simps [simp]: "is_ok (Ok x)" "\<not> is_ok (Err e)"
  by (simp_all add: is_ok_def)

lemma is_okE: "is_ok r \<Longrightarrow> (\<And>x. r = Ok x \<Longrightarrow> P) \<Longrightarrow> P"
  by (cases r) (auto simp: is_ok_def)

text \<open>\<^verbatim>\<open>fmt.Errorf("prefix: %w", err)\<close>: the wrapped message after a colon and a space.\<close>

definition wrapf :: "string \<Rightarrow> err \<Rightarrow> err" where
  "wrapf p e = p @ '': '' @ e"

definition wrap_err :: "string \<Rightarrow> 'a res \<Rightarrow> 'a res" where
  "wrap_err p r = (case r of Inl e \<Rightarrow> Inl (wrapf p e) | Inr x \<Rightarrow> Inr x)"

lemma wrap_err_simps [simp]: "wrap_err p (Ok x) = Ok x" "wrap_err p (Err e) = Err (wrapf p e)"
  by (simp_all add: wrap_err_def)

lemma wrap_err_Ok_iff [simp]: "(wrap_err p r = Ok x) = (r = Ok x)"
  by (cases r) simp_all

lemma wrapf_nonempty [simp]: "wrapf p e \<noteq> []"
  by (simp add: wrapf_def)

section \<open>Go maps\<close>

type_synonym ('k, 'v) gomap = "('k \<times> 'v) list"

abbreviation mget :: "('k, 'v) gomap \<Rightarrow> 'k \<Rightarrow> 'v option" where "mget \<equiv> map_of"
abbreviation mput :: "'k \<Rightarrow> 'v \<Rightarrow> ('k, 'v) gomap \<Rightarrow> ('k, 'v) gomap" where "mput \<equiv> AList.update"
abbreviation mdel :: "'k \<Rightarrow> ('k, 'v) gomap \<Rightarrow> ('k, 'v) gomap" where "mdel \<equiv> AList.delete"
abbreviation mkeys :: "('k, 'v) gomap \<Rightarrow> 'k list" where "mkeys \<equiv> map fst"

definition mhas :: "('k, 'v) gomap \<Rightarrow> 'k \<Rightarrow> bool" where
  "mhas m k = (mget m k \<noteq> None)"

definition gomap_ok :: "('k, 'v) gomap \<Rightarrow> bool" where
  "gomap_ok m = distinct (mkeys m)"

lemma gomap_ok_Nil [simp, intro]: "gomap_ok []"
  by (simp add: gomap_ok_def)

lemma gomap_ok_mput [simp, intro]: "gomap_ok m \<Longrightarrow> gomap_ok (mput k v m)"
  by (simp add: gomap_ok_def distinct_update)

lemma gomap_ok_mdel [simp, intro]: "gomap_ok m \<Longrightarrow> gomap_ok (mdel k m)"
  by (simp add: gomap_ok_def distinct_delete)

lemma mget_mput [simp]: "mget (mput k v m) k' = (if k' = k then Some v else mget m k')"
  by (simp add: update_conv')

lemma mget_mdel [simp]: "mget (mdel k m) k' = (if k' = k then None else mget m k')"
  by (simp add: delete_conv')

lemma mhas_simps [simp]:
  "\<not> mhas [] k" "mhas (mput k v m) k' = (k' = k \<or> mhas m k')"
  "mhas (mdel k m) k' = (k' \<noteq> k \<and> mhas m k')"
  by (auto simp: mhas_def)

lemma mhas_iff_key: "mhas m k \<longleftrightarrow> k \<in> set (mkeys m)"
  by (auto simp: mhas_def map_of_eq_None_iff)

lemma mkeys_mput: "set (mkeys (mput k v m)) = insert k (set (mkeys m))"
  by (simp add: dom_update)

lemma mem_gomap_iff: "gomap_ok m \<Longrightarrow> (k, v) \<in> set m \<longleftrightarrow> mget m k = Some v"
  by (simp add: gomap_ok_def)

lemma length_mput: "gomap_ok m \<Longrightarrow> length (mput k v m) = (if mhas m k then length m else Suc (length m))"
  by (induction m) (auto simp: gomap_ok_def mhas_def split: if_splits)

text \<open>
  \<open>mappend\<close> is Go's \<^verbatim>\<open>m[k] = append(m[k], x)\<close> on a map of slices; \<open>mcount\<close> is
  \<^verbatim>\<open>m[k]++\<close> on a map of numbers. Both start from the zero value of a missing key.
\<close>

definition mappend :: "'k \<Rightarrow> 'a \<Rightarrow> ('k, 'a list) gomap \<Rightarrow> ('k, 'a list) gomap" where
  "mappend k x m = mput k ((case mget m k of None \<Rightarrow> [] | Some xs \<Rightarrow> xs) @ [x]) m"

definition mcount :: "'k \<Rightarrow> ('k, int) gomap \<Rightarrow> ('k, int) gomap" where
  "mcount k m = mput k ((case mget m k of None \<Rightarrow> 0 | Some n \<Rightarrow> n) + 1) m"

definition mlist :: "('k, 'a list) gomap \<Rightarrow> 'k \<Rightarrow> 'a list" where
  "mlist m k = (case mget m k of None \<Rightarrow> [] | Some xs \<Rightarrow> xs)"

lemma mlist_mappend [simp]: "mlist (mappend k x m) k' = (if k' = k then mlist m k @ [x] else mlist m k')"
  by (simp add: mlist_def mappend_def)

lemma mlist_Nil [simp]: "mlist [] k = []"
  by (simp add: mlist_def)

lemma gomap_ok_mappend [simp, intro]: "gomap_ok m \<Longrightarrow> gomap_ok (mappend k x m)"
  by (simp add: mappend_def)

lemma mhas_mappend [simp]: "mhas (mappend k x m) k' = (k' = k \<or> mhas m k')"
  by (simp add: mappend_def)

text \<open>Grouping a list by a key is a fold of \<open>mappend\<close>: each group is a filter of the list.\<close>

fun group_by :: "('a \<Rightarrow> 'k) \<Rightarrow> ('a \<Rightarrow> 'b) \<Rightarrow> 'a list \<Rightarrow> ('k, 'b list) gomap \<Rightarrow> ('k, 'b list) gomap" where
  "group_by f g [] m = m"
| "group_by f g (x # xs) m = group_by f g xs (mappend (f x) (g x) m)"

lemma mlist_group_by:
  "mlist (group_by f g xs m) k = mlist m k @ map g (filter (\<lambda>x. f x = k) xs)"
  by (induction xs arbitrary: m) auto

lemma gomap_ok_group_by: "gomap_ok m \<Longrightarrow> gomap_ok (group_by f g xs m)"
  by (induction xs arbitrary: m) auto

lemma mhas_group_by: "mhas (group_by f g xs m) k \<longleftrightarrow> mhas m k \<or> k \<in> f ` set xs"
  by (induction xs arbitrary: m) auto

section \<open>Loops that stop at the first error\<close>

text \<open>A \<^verbatim>\<open>for\<close> loop whose body may return an error and otherwise updates a local variable.\<close>

fun fold_res :: "('a \<Rightarrow> 's \<Rightarrow> 's res) \<Rightarrow> 'a list \<Rightarrow> 's \<Rightarrow> 's res" where
  "fold_res f [] s = Ok s"
| "fold_res f (x # xs) s = (case f x s of Inl e \<Rightarrow> Err e | Inr s' \<Rightarrow> fold_res f xs s')"

lemma fold_res_append:
  "fold_res f (xs @ ys) s = (case fold_res f xs s of Inl e \<Rightarrow> Err e | Inr s' \<Rightarrow> fold_res f ys s')"
  by (induction xs arbitrary: s) (auto split: sum.splits)

lemma fold_res_inv:
  assumes "fold_res f xs s = Ok t" "P s" "\<And>x s s'. x \<in> set xs \<Longrightarrow> P s \<Longrightarrow> f x s = Ok s' \<Longrightarrow> P s'"
  shows "P t"
  using assms
proof (induction xs arbitrary: s)
  case (Cons x xs)
  from Cons.prems(1) obtain s' where s': "f x s = Ok s'" "fold_res f xs s' = Ok t"
    by (auto split: sum.splits)
  have "P s'" by (rule Cons.prems(3) [OF _ Cons.prems(2) s'(1)]) simp
  then show ?case
    by (rule Cons.IH [OF s'(2)]) (rule Cons.prems(3), simp_all)
qed simp

section \<open>Weakest preconditions of state-passing programs\<close>

text \<open>
  Effectful Go functions are programs of the library's state monad. \<open>wp m Q s\<close> says that running
  \<open>m\<close> from \<open>s\<close> ends in a result and a state that satisfy \<open>Q\<close>; it is computed through binds
  and case distinctions by the simplifier, so a proof about a handler is a proof about its calls.
\<close>

definition wp :: "('s, 'a) state \<Rightarrow> ('a \<Rightarrow> 's \<Rightarrow> bool) \<Rightarrow> 's \<Rightarrow> bool" where
  "wp m Q s = (case run_state m s of (r, s') \<Rightarrow> Q r s')"

lemma wp_bind [simp]: "wp (State_Monad.bind m f) Q s = wp m (\<lambda>x. wp (f x) Q) s"
  by (simp add: wp_def split: prod.splits)

lemma wp_return [simp]: "wp (State_Monad.return x) Q s = Q x s"
  by (simp add: wp_def)

lemma wp_return_fun [simp]: "wp (State_Monad.return x) Q = Q x"
  by (rule ext) simp

lemma wp_if [simp]: "wp (if b then m else n) Q s = (if b then wp m Q s else wp n Q s)"
  by simp

lemma wp_case_option [simp]:
  "wp (case x of None \<Rightarrow> m | Some y \<Rightarrow> f y) Q s = (case x of None \<Rightarrow> wp m Q s | Some y \<Rightarrow> wp (f y) Q s)"
  by (cases x) simp_all

lemma wp_case_sum [simp]:
  "wp (case x of Inl y \<Rightarrow> f y | Inr z \<Rightarrow> g z) Q s = (case x of Inl y \<Rightarrow> wp (f y) Q s | Inr z \<Rightarrow> wp (g z) Q s)"
  by (cases x) simp_all

lemma wp_case_prod [simp]:
  "wp (case x of (y, z) \<Rightarrow> f y z) Q s = (case x of (y, z) \<Rightarrow> wp (f y z) Q s)"
  by (cases x) simp_all

lemma wp_case_list [simp]:
  "wp (case x of [] \<Rightarrow> m | y # ys \<Rightarrow> f y ys) Q s = (case x of [] \<Rightarrow> wp m Q s | y # ys \<Rightarrow> wp (f y ys) Q s)"
  by (cases x) simp_all

lemma wp_Let [simp]: "wp (Let x f) Q s = wp (f x) Q s"
  by simp

lemma wp_mono: "wp m Q s \<Longrightarrow> (\<And>r s'. Q r s' \<Longrightarrow> R r s') \<Longrightarrow> wp m R s"
  by (auto simp: wp_def)

lemma wp_conj: "wp m (\<lambda>r s. Q r s \<and> R r s) s \<longleftrightarrow> wp m Q s \<and> wp m R s"
  by (auto simp: wp_def split: prod.splits)

lemma wpD: "wp m Q s \<Longrightarrow> run_state m s = (r, s') \<Longrightarrow> Q r s'"
  by (simp add: wp_def)

lemma wpI: "(\<And>r s'. run_state m s = (r, s') \<Longrightarrow> Q r s') \<Longrightarrow> wp m Q s"
  by (auto simp: wp_def split: prod.splits)

lemma wp_trivial [simp]: "wp m (\<lambda>r _. True) s" "wp m (\<lambda>r _. True) = (\<lambda>_. True)"
  by (simp_all add: wp_def case_prod_unfold fun_eq_iff)

text \<open>An invariant of a program: every run from a state that satisfies it ends in one.\<close>

definition keeps :: "('s \<Rightarrow> bool) \<Rightarrow> ('s, 'a) state \<Rightarrow> bool" where
  "keeps P m = (\<forall>s. P s \<longrightarrow> wp m (\<lambda>_. P) s)"

lemma keepsI: "(\<And>s. P s \<Longrightarrow> wp m (\<lambda>_. P) s) \<Longrightarrow> keeps P m"
  by (simp add: keeps_def)

lemma keepsD: "keeps P m \<Longrightarrow> P s \<Longrightarrow> wp m (\<lambda>_. P) s"
  by (simp add: keeps_def)

lemma keeps_return [simp, intro]: "keeps P (State_Monad.return x)"
  by (simp add: keeps_def)

lemma keeps_bind [intro]: "keeps P m \<Longrightarrow> (\<And>x. keeps P (f x)) \<Longrightarrow> keeps P (State_Monad.bind m f)"
  by (auto simp: keeps_def elim!: wp_mono)

lemma keeps_if [intro]: "(b \<Longrightarrow> keeps P m) \<Longrightarrow> (\<not> b \<Longrightarrow> keeps P n) \<Longrightarrow> keeps P (if b then m else n)"
  by simp

lemma keeps_case_option [intro]:
  "(x = None \<Longrightarrow> keeps P m) \<Longrightarrow> (\<And>y. x = Some y \<Longrightarrow> keeps P (f y)) \<Longrightarrow>
   keeps P (case x of None \<Rightarrow> m | Some y \<Rightarrow> f y)"
  by (cases x) simp_all

lemma keeps_case_sum [intro]:
  "(\<And>y. x = Inl y \<Longrightarrow> keeps P (f y)) \<Longrightarrow> (\<And>y. x = Inr y \<Longrightarrow> keeps P (g y)) \<Longrightarrow>
   keeps P (case x of Inl y \<Rightarrow> f y | Inr y \<Rightarrow> g y)"
  by (cases x) simp_all

lemma keeps_case_prod [intro]:
  "(\<And>y z. x = (y, z) \<Longrightarrow> keeps P (f y z)) \<Longrightarrow> keeps P (case x of (y, z) \<Rightarrow> f y z)"
  by (cases x) simp_all

text \<open>A loop in the monad that stops at the first error.\<close>

fun for_each :: "('a \<Rightarrow> ('s, err option) state) \<Rightarrow> 'a list \<Rightarrow> ('s, err option) state" where
  "for_each f [] = State_Monad.return None"
| "for_each f (x # xs) = do { e \<leftarrow> f x; case e of Some m \<Rightarrow> State_Monad.return (Some m) | None \<Rightarrow> for_each f xs }"

lemma keeps_for_each: "(\<And>x. x \<in> set xs \<Longrightarrow> keeps P (f x)) \<Longrightarrow> keeps P (for_each f xs)"
  by (induction xs) auto

section \<open>Lists\<close>

lemma distinct_map_filter_key:
  "distinct (map f (filter P xs)) \<Longrightarrow> x \<in> set xs \<Longrightarrow> y \<in> set xs \<Longrightarrow> P x \<Longrightarrow> P y \<Longrightarrow> f x = f y \<Longrightarrow> x = y"
  by (auto simp: distinct_map inj_on_def)

lemma find_append: "find P (xs @ ys) = (case find P xs of None \<Rightarrow> find P ys | Some x \<Rightarrow> Some x)"
  by (induction xs) auto

lemma find_Some_mem: "find P xs = Some x \<Longrightarrow> x \<in> set xs \<and> P x"
  by (auto simp: find_Some_iff)

text \<open>The position of the first element that satisfies a predicate, as a range loop finds it.\<close>

fun find_index :: "('a \<Rightarrow> bool) \<Rightarrow> 'a list \<Rightarrow> nat option" where
  "find_index P [] = None"
| "find_index P (x # xs) = (if P x then Some 0 else map_option Suc (find_index P xs))"

lemma find_index_Some:
  "find_index P xs = Some i \<Longrightarrow> i < length xs \<and> P (xs ! i) \<and> (\<forall>j < i. \<not> P (xs ! j))"
proof (induction xs arbitrary: i)
  case (Cons x xs)
  then show ?case
    by (cases i) (auto split: if_splits simp: less_Suc_eq_0_disj)
qed simp

lemma find_index_None: "find_index P xs = None \<longleftrightarrow> (\<forall>x \<in> set xs. \<not> P x)"
  by (induction xs) auto

end
