(* ===== verification/Go_Strings.thy ===== *)
theory Go_Strings imports Go_Prelude "HOL-Library.Char_ord" "HOL-Library.List_Lexorder" begin

text \<open>
  The parts of Go's \<^verbatim>\<open>strings\<close>, \<^verbatim>\<open>strconv\<close>, \<^verbatim>\<open>fmt\<close> and \<^verbatim>\<open>path/filepath\<close> that the program uses,
  on byte strings: decimal printing and parsing, zero padding, splitting and joining, and the
  lexical path functions. Paths follow the Unix rules of \<^verbatim>\<open>filepath.Clean\<close>: components are
  processed left to right over a stack.
\<close>

section \<open>Decimal numbers\<close>

definition digit_char :: "nat \<Rightarrow> char" where
  "digit_char d = ''0123456789'' ! d"

definition is_digit :: "char \<Rightarrow> bool" where
  "is_digit c = (48 \<le> (of_char c :: nat) \<and> (of_char c :: nat) \<le> 57)"

definition digit_val :: "char \<Rightarrow> nat" where
  "digit_val c = of_char c - 48"

fun show_nat :: "nat \<Rightarrow> string" where
  "show_nat n = (if n < 10 then [digit_char n] else show_nat (n div 10) @ [digit_char (n mod 10)])"

declare show_nat.simps [simp del]

text \<open>\<^verbatim>\<open>%d\<close> and \<^verbatim>\<open>strconv.Itoa\<close>.\<close>

definition itoa :: "int \<Rightarrow> string" where
  "itoa i = (if i < 0 then CHR ''-'' # show_nat (nat (- i)) else show_nat (nat i))"

lemmas number_eval = show_nat.simps digit_char_def itoa_def

text \<open>\<^verbatim>\<open>%0wd\<close> of a number that is not negative.\<close>

definition pad_zeros :: "nat \<Rightarrow> string \<Rightarrow> string" where
  "pad_zeros w s = replicate (w - length s) CHR ''0'' @ s"

fun digits_val :: "nat \<Rightarrow> string \<Rightarrow> nat" where
  "digits_val acc [] = acc"
| "digits_val acc (c # cs) = digits_val (10 * acc + digit_val c) cs"

lemma of_char_digit: "d < 10 \<Longrightarrow> of_char (digit_char d) = (48 + d :: nat)"
proof -
  assume "d < 10"
  then have "d \<in> {0, 1, 2, 3, 4, 5, 6, 7, 8, 9}" by auto
  then show ?thesis by (auto simp: digit_char_def)
qed

lemma is_digit_digit_char [simp]: "d < 10 \<Longrightarrow> is_digit (digit_char d)"
  by (simp add: is_digit_def of_char_digit)

lemma digit_val_digit_char [simp]: "d < 10 \<Longrightarrow> digit_val (digit_char d) = d"
  by (simp add: digit_val_def of_char_digit)

lemma show_nat_digits: "\<forall>c \<in> set (show_nat n). is_digit c"
proof (induction n rule: show_nat.induct)
  case (1 n)
  then show ?case by (cases "n < 10") (auto simp: show_nat.simps [of n])
qed

lemma show_nat_nonempty [simp]: "show_nat n \<noteq> []"
  by (simp add: show_nat.simps)

lemma digits_val_append: "digits_val acc (xs @ ys) = digits_val (digits_val acc xs) ys"
  by (induction xs arbitrary: acc) auto

lemma digits_val_show_nat [simp]: "digits_val 0 (show_nat n) = n"
proof (induction n rule: show_nat.induct)
  case (1 n)
  then show ?case by (cases "n < 10") (auto simp: show_nat.simps [of n] digits_val_append)
qed

lemma show_nat_inject [simp]: "show_nat m = show_nat n \<longleftrightarrow> m = n"
  by (metis digits_val_show_nat)

lemma not_digit_minus: "\<not> is_digit CHR ''-''"
  by (simp add: is_digit_def)

lemma show_nat_no_minus: "show_nat n \<noteq> CHR ''-'' # s"
  using show_nat_digits [of n] not_digit_minus by auto

lemma itoa_nonempty [simp]: "itoa i \<noteq> []"
  by (simp add: itoa_def)

lemma itoa_inject [simp]: "itoa i = itoa j \<longleftrightarrow> i = j"
  using show_nat_no_minus by (auto simp: itoa_def show_nat_no_minus [symmetric])

lemma itoa_nonneg_digits: "0 \<le> i \<Longrightarrow> c \<in> set (itoa i) \<Longrightarrow> is_digit c"
  using show_nat_digits by (auto simp: itoa_def)

lemma itoa_chars: "c \<in> set (itoa i) \<Longrightarrow> is_digit c \<or> c = CHR ''-''"
  using show_nat_digits by (auto simp: itoa_def split: if_splits)

lemma digits_val_replicate0: "digits_val 0 (replicate k CHR ''0'' @ s) = digits_val 0 s"
  by (induction k) (auto simp: digit_val_def)

text \<open>Zero padding keeps numbers apart, whatever the width.\<close>

lemma pad_zeros_show_nat_inject [simp]:
  "pad_zeros w (show_nat m) = pad_zeros w (show_nat n) \<longleftrightarrow> m = n"
  by (metis digits_val_replicate0 digits_val_show_nat pad_zeros_def)

lemma pad_zeros_digits: "c \<in> set (pad_zeros w (show_nat n)) \<Longrightarrow> is_digit c"
  using show_nat_digits [of n] by (auto simp: pad_zeros_def is_digit_def split: if_splits)

subsection \<open>Parsing\<close>

definition int64_min :: int where "int64_min = - (2 ^ 63)"
definition int64_max :: int where "int64_max = 2 ^ 63 - 1"

definition in_int64 :: "int \<Rightarrow> bool" where
  "in_int64 i = (int64_min \<le> i \<and> i \<le> int64_max)"

text \<open>The optional sign and the digits after it.\<close>

definition split_sign :: "string \<Rightarrow> bool \<times> string" where
  "split_sign s = (case s of [] \<Rightarrow> (False, [])
     | c # cs \<Rightarrow> if c = CHR ''-'' then (True, cs) else if c = CHR ''+'' then (False, cs) else (False, s))"

definition signed_val :: "bool \<Rightarrow> string \<Rightarrow> int" where
  "signed_val neg ds = (if neg then - int (digits_val 0 ds) else int (digits_val 0 ds))"

text \<open>\<^verbatim>\<open>strconv.Atoi\<close>: the whole string is a number that fits 64 bits.\<close>

definition atoi :: "string \<Rightarrow> int option" where
  "atoi s = (case split_sign s of (neg, ds) \<Rightarrow>
     if ds \<noteq> [] \<and> list_all is_digit ds \<and> in_int64 (signed_val neg ds)
     then Some (signed_val neg ds) else None)"

definition is_space :: "char \<Rightarrow> bool" where
  "is_space c = (c \<in> {CHR '' '', CHR 0x09, CHR 0x0B, CHR 0x0C, CHR 0x0D})"

text \<open>
  \<^verbatim>\<open>fmt.Sscanf(s, "%d", &n)\<close>: leading blanks are skipped (a newline is an error), then an
  optional sign and the longest run of digits; what follows the digits is not looked at.
\<close>

definition sscanf_d :: "string \<Rightarrow> int option" where
  "sscanf_d s = (case split_sign (dropWhile is_space s) of (neg, ds) \<Rightarrow>
     let tok = takeWhile is_digit ds in
     if tok \<noteq> [] \<and> in_int64 (signed_val neg tok) then Some (signed_val neg tok) else None)"

lemma split_sign_show_nat: "split_sign (show_nat n) = (False, show_nat n)"
proof (cases "show_nat n")
  case (Cons c cs)
  then have "is_digit c" using show_nat_digits [of n] by auto
  then have "c \<noteq> CHR ''-''" "c \<noteq> CHR ''+''" by (auto simp: is_digit_def)
  with Cons show ?thesis by (simp add: split_sign_def)
qed simp

lemma split_sign_itoa: "split_sign (itoa i) = (i < 0, show_nat (nat \<bar>i\<bar>))"
  by (simp add: itoa_def split_sign_show_nat) (simp add: split_sign_def)

lemma signed_val_itoa: "signed_val (i < 0) (show_nat (nat \<bar>i\<bar>)) = i"
  by (simp add: signed_val_def)

lemma list_all_digit_show_nat [simp]: "list_all is_digit (show_nat n)"
  using show_nat_digits [of n] by (simp add: list_all_iff)

lemma takeWhile_digit_show_nat [simp]: "takeWhile is_digit (show_nat n) = show_nat n"
  using show_nat_digits [of n] by simp

lemma atoi_itoa [simp]: "in_int64 i \<Longrightarrow> atoi (itoa i) = Some i"
  by (simp add: atoi_def split_sign_itoa signed_val_itoa)

lemma not_space_itoa: "dropWhile is_space (itoa i) = itoa i"
proof (cases "itoa i")
  case (Cons c cs)
  then have "is_digit c \<or> c = CHR ''-''" using itoa_chars [of c i] by auto
  then have "\<not> is_space c" by (auto simp: is_space_def is_digit_def)
  with Cons show ?thesis by simp
qed simp

lemma sscanf_d_itoa [simp]: "in_int64 i \<Longrightarrow> sscanf_d (itoa i) = Some i"
  by (simp add: sscanf_d_def not_space_itoa split_sign_itoa signed_val_itoa)

section \<open>Splitting and joining\<close>

text \<open>\<^verbatim>\<open>strings.Split(s, sep)\<close> for a one-byte separator: never the empty list.\<close>

fun split_on :: "char \<Rightarrow> string \<Rightarrow> string list" where
  "split_on sep [] = [[]]"
| "split_on sep (c # cs) =
     (if c = sep then [] # split_on sep cs
      else case split_on sep cs of [] \<Rightarrow> [[c]] | w # ws \<Rightarrow> (c # w) # ws)"

text \<open>\<^verbatim>\<open>strings.Join(xs, sep)\<close>.\<close>

fun join_with :: "string \<Rightarrow> string list \<Rightarrow> string" where
  "join_with sep [] = []"
| "join_with sep [x] = x"
| "join_with sep (x # y # ys) = x @ sep @ join_with sep (y # ys)"

lemma split_on_nonempty [simp]: "split_on sep s \<noteq> []"
  by (cases s) (auto split: list.splits)

lemma join_split [simp]: "join_with [sep] (split_on sep s) = s"
proof (induction s)
  case (Cons c cs)
  obtain w ws where w: "split_on sep cs = w # ws"
    by (cases "split_on sep cs") auto
  with Cons show ?case by (cases ws) auto
qed simp

lemma split_on_no_sep: "sep \<notin> set s \<Longrightarrow> split_on sep s = [s]"
  by (induction s) auto

lemma split_on_append: "sep \<notin> set x \<Longrightarrow> split_on sep (x @ sep # ys) = x # split_on sep ys"
  by (induction x) auto

lemma split_join:
  "xs \<noteq> [] \<Longrightarrow> (\<And>x. x \<in> set xs \<Longrightarrow> sep \<notin> set x) \<Longrightarrow> split_on sep (join_with [sep] xs) = xs"
proof (induction xs)
  case (Cons x xs)
  then show ?case
    by (cases xs) (auto simp: split_on_no_sep split_on_append)
qed simp

lemma split_on_pieces: "w \<in> set (split_on sep s) \<Longrightarrow> sep \<notin> set w"
  by (induction s arbitrary: w) (fastforce split: list.splits if_splits)+

lemma join_with_append:
  "xs \<noteq> [] \<Longrightarrow> ys \<noteq> [] \<Longrightarrow> join_with sep (xs @ ys) = join_with sep xs @ sep @ join_with sep ys"
  by (induction sep xs rule: join_with.induct) (auto simp: neq_Nil_conv)

section \<open>Lexical paths\<close>

abbreviation slash :: char where "slash \<equiv> CHR ''/''"

definition dot :: string where "dot = ''.''"
definition dotdot :: string where "dotdot = ''..''"

text \<open>
  The component loop of \<^verbatim>\<open>filepath.Clean\<close>: empty components and \<^verbatim>\<open>.\<close> are skipped, \<^verbatim>\<open>..\<close>
  backtracks over a component that is not itself \<^verbatim>\<open>..\<close>, is dropped at the root of a rooted
  path and kept at the start of a relative one. The stack is held in reverse.
\<close>

fun clean_comps :: "bool \<Rightarrow> string list \<Rightarrow> string list \<Rightarrow> string list" where
  "clean_comps rooted st [] = rev st"
| "clean_comps rooted st (c # cs) =
     (if c = [] \<or> c = dot then clean_comps rooted st cs
      else if c = dotdot then
        (case st of
           [] \<Rightarrow> if rooted then clean_comps rooted [] cs else clean_comps rooted [dotdot] cs
         | t # ts \<Rightarrow> if t = dotdot then clean_comps rooted (dotdot # st) cs
                     else clean_comps rooted ts cs)
      else clean_comps rooted (c # st) cs)"

definition is_abs :: "string \<Rightarrow> bool" where
  "is_abs p = (case p of [] \<Rightarrow> False | c # _ \<Rightarrow> c = slash)"

definition path_clean :: "string \<Rightarrow> string" where
  "path_clean p =
     (if p = [] then dot
      else let body = join_with [slash] (clean_comps (is_abs p) [] (split_on slash p)) in
           if is_abs p then slash # body else if body = [] then dot else body)"

text \<open>\<^verbatim>\<open>filepath.Join\<close>: leading empty elements are ignored, the rest joined and cleaned.\<close>

definition path_join :: "string list \<Rightarrow> string" where
  "path_join es = (case dropWhile (\<lambda>e. e = []) es of [] \<Rightarrow> [] | xs \<Rightarrow> path_clean (join_with [slash] xs))"

text \<open>\<^verbatim>\<open>filepath.Dir\<close>: what precedes the last separator, cleaned.\<close>

definition path_dir :: "string \<Rightarrow> string" where
  "path_dir p = path_clean (rev (dropWhile (\<lambda>c. c \<noteq> slash) (rev p)))"

text \<open>\<^verbatim>\<open>filepath.Ext\<close>: from the last dot of the last component.\<close>

definition path_ext :: "string \<Rightarrow> string" where
  "path_ext p = (let b = takeWhile (\<lambda>c. c \<noteq> slash) (rev p) in
     if CHR ''.'' \<in> set b then CHR ''.'' # rev (takeWhile (\<lambda>c. c \<noteq> CHR ''.'') b) else [])"

subsection \<open>Components and clean paths\<close>

text \<open>
  A plain component is one that \<^verbatim>\<open>Clean\<close> keeps as it is; \<open>abs_path\<close> is the clean rooted
  path of a list of plain components.
\<close>

definition comp_ok :: "string \<Rightarrow> bool" where
  "comp_ok c = (c \<noteq> [] \<and> c \<noteq> dot \<and> c \<noteq> dotdot \<and> slash \<notin> set c)"

definition abs_path :: "string list \<Rightarrow> string" where
  "abs_path cs = slash # join_with [slash] cs"

definition comps_ok :: "string list \<Rightarrow> bool" where
  "comps_ok cs = list_all comp_ok cs"

lemma comps_ok_simps [simp]:
  "comps_ok []" "comps_ok (c # cs) = (comp_ok c \<and> comps_ok cs)"
  "comps_ok (cs @ ds) = (comps_ok cs \<and> comps_ok ds)"
  by (auto simp: comps_ok_def)

lemma comp_ok_simps:
  "comp_ok c \<Longrightarrow> c \<noteq> []" "comp_ok c \<Longrightarrow> c \<noteq> dot" "comp_ok c \<Longrightarrow> c \<noteq> dotdot"
  "comp_ok c \<Longrightarrow> slash \<notin> set c"
  by (auto simp: comp_ok_def)

lemma comps_ok_no_slash: "comps_ok cs \<Longrightarrow> c \<in> set cs \<Longrightarrow> slash \<notin> set c"
  by (auto simp: comps_ok_def list_all_iff comp_ok_def)

lemma clean_comps_ok:
  "comps_ok cs \<Longrightarrow> clean_comps r st (cs @ ds) = clean_comps r (rev cs @ st) ds"
  by (induction cs arbitrary: st) (auto simp: comp_ok_def)

lemma clean_comps_ok' [simp]: "comps_ok cs \<Longrightarrow> clean_comps r st cs = rev st @ cs"
  using clean_comps_ok [of cs r st "[]"] by simp

lemma is_abs_simps [simp]: "is_abs (slash # s)" "\<not> is_abs []" "is_abs (abs_path cs)"
  by (simp_all add: is_abs_def abs_path_def)

lemma split_abs_path: "comps_ok cs \<Longrightarrow> split_on slash (abs_path cs) = [] # (if cs = [] then [[]] else cs)"
proof (cases "cs = []")
  case False
  assume "comps_ok cs"
  then have "split_on slash (join_with [slash] cs) = cs"
    using False by (intro split_join) (auto dest: comps_ok_no_slash)
  with False show ?thesis by (simp add: abs_path_def)
qed (simp add: abs_path_def)

lemma path_clean_abs_path [path_simps, simp]: "comps_ok cs \<Longrightarrow> path_clean (abs_path cs) = abs_path cs"
  by (simp add: path_clean_def split_abs_path) (simp add: abs_path_def)

lemma abs_path_inject [simp]:
  assumes "comps_ok cs" "comps_ok ds"
  shows "abs_path cs = abs_path ds \<longleftrightarrow> cs = ds"
proof
  assume "abs_path cs = abs_path ds"
  then have eq: "(if cs = [] then [[]] else cs) = (if ds = [] then [[]] else ds)"
    using split_abs_path [OF assms(1)] split_abs_path [OF assms(2)] by simp
  have "cs \<noteq> [[]]" "ds \<noteq> [[]]" using assms by (auto simp: comp_ok_def)
  with eq show "cs = ds" by (metis (full_types))
qed simp

lemma abs_path_nonempty [simp]: "abs_path cs \<noteq> []"
  by (simp add: abs_path_def)

lemma split_on_append_abs:
  "split_on slash (s @ slash # t) = split_on slash s @ split_on slash t"
proof (induction s)
  case (Cons c s)
  obtain w ws where "split_on slash s = w # ws"
    by (cases "split_on slash s") auto
  with Cons show ?case by auto
qed simp

lemma clean_comps_skip [simp]: "clean_comps r st ([] # cs) = clean_comps r st cs"
  by simp

lemma path_join_abs [path_simps]:
  assumes "comps_ok cs" "comps_ok ds" "ds \<noteq> []"
  shows "path_join (abs_path cs # ds) = abs_path (cs @ ds)"
proof -
  have "split_on slash (join_with [slash] ds) = ds"
    using assms by (intro split_join) (auto dest: comps_ok_no_slash)
  moreover have "join_with [slash] (abs_path cs # ds) = abs_path cs @ slash # join_with [slash] ds"
    using assms(3) by (cases ds) auto
  ultimately have "split_on slash (join_with [slash] (abs_path cs # ds))
      = [] # (if cs = [] then [[]] else cs) @ ds"
    using assms(1) by (simp add: split_on_append_abs split_abs_path)
  then have "clean_comps True [] (split_on slash (join_with [slash] (abs_path cs # ds))) = cs @ ds"
    using assms by (simp add: clean_comps_ok)
  moreover have "is_abs (join_with [slash] (abs_path cs # ds))"
    using assms(3) by (cases ds) (auto simp: abs_path_def)
  ultimately show ?thesis
    using assms(3) by (cases ds) (auto simp: path_join_def path_clean_def abs_path_def Let_def)
qed

lemma path_dir_abs [path_simps, simp]:
  assumes "comps_ok cs" "comp_ok c"
  shows "path_dir (abs_path (cs @ [c])) = abs_path cs"
proof -
  have c: "\<forall>x \<in> set (rev c). x \<noteq> slash" using assms(2) by (auto simp: comp_ok_def)
  have "abs_path (cs @ [c]) = (if cs = [] then [slash] else abs_path cs @ [slash]) @ c"
    by (cases "cs = []") (auto simp: abs_path_def join_with_append)
  then have "rev (dropWhile (\<lambda>x. x \<noteq> slash) (rev (abs_path (cs @ [c]))))
      = (if cs = [] then [slash] else abs_path cs @ [slash])"
    using c by (auto simp: dropWhile_append3)
  moreover have "path_clean (abs_path cs @ [slash]) = abs_path cs" if "cs \<noteq> []"
  proof -
    have "split_on slash (abs_path cs @ [slash]) = [] # cs @ [[]]"
      using that assms(1) split_on_append_abs [of "abs_path cs" "[]"] by (simp add: split_abs_path)
    then show ?thesis
      using assms(1) by (simp add: path_clean_def clean_comps_ok) (simp add: abs_path_def)
  qed
  moreover have "path_clean [slash] = abs_path []"
    by (simp add: path_clean_def abs_path_def)
  ultimately show ?thesis
    using assms(1) by (auto simp: path_dir_def)
qed

lemma comp_ok_itoa_suffix: "x \<noteq> [] \<Longrightarrow> slash \<notin> set x \<Longrightarrow> comp_ok (x @ CHR ''-'' # itoa n)"
  using itoa_chars by (fastforce simp: comp_ok_def dot_def dotdot_def is_digit_def append_eq_Cons_conv)

lemma comp_ok_long: "length c > 2 \<Longrightarrow> slash \<notin> set c \<Longrightarrow> comp_ok c"
  by (auto simp: comp_ok_def dot_def dotdot_def)

text \<open>Appending text to a clean path extends its last component.\<close>

lemma abs_path_snoc_append [path_simps]: "abs_path (cs @ [x]) @ y = abs_path (cs @ [x @ y])"
  by (cases "cs = []") (auto simp: abs_path_def join_with_append)

section \<open>Durations\<close>

text \<open>
  \<^verbatim>\<open>time.Duration.String\<close>: hours, minutes and seconds with the fraction trimmed, or a single
  smaller unit below one second.
\<close>

definition drop_trailing_zeros :: "string \<Rightarrow> string" where
  "drop_trailing_zeros s = rev (dropWhile (\<lambda>c. c = CHR ''0'') (rev s))"

definition fmt_frac :: "nat \<Rightarrow> nat \<Rightarrow> string" where
  "fmt_frac u k = (let frac = drop_trailing_zeros (pad_zeros k (show_nat (u mod 10 ^ k))) in
     show_nat (u div 10 ^ k) @ (if frac = [] then [] else CHR ''.'' # frac))"

definition duration_string :: "int \<Rightarrow> string" where
  "duration_string d =
     (let u = nat \<bar>d\<bar>; sign = (if d < 0 then ''-'' else []);
          h = u div 3600000000000; m = u div 60000000000 mod 60 in
      if u = 0 then ''0s''
      else sign @
        (if u < 1000 then show_nat u @ ''ns''
         else if u < 1000000 then fmt_frac u 3 @ [CHR 0xC2, CHR 0xB5] @ ''s''
         else if u < 1000000000 then fmt_frac u 6 @ ''ms''
         else (if h > 0 then show_nat h @ ''h'' else [])
           @ (if u \<ge> 60000000000 then show_nat m @ ''m'' else [])
           @ fmt_frac (u mod 60000000000) 9 @ ''s''))"

end
