(* ===== verification/Go_World.thy ===== *)
theory Go_World imports Go_Strings begin

text \<open>
  The operating system as the program sees it: a file system, the wall clock, the UUID source,
  and a supply of failures. Every system call asks the failure supply whether it fails, so a
  theorem about all worlds covers every place at which the disk can let the program down.

  A file holds bytes, or a JSON document kept as its syntax tree (\<^verbatim>\<open>encoding/json\<close> prints and
  parses it; layout plays no role in the program). Path lookups are lexical: a symbolic link is
  followed when it is the last component, never in the middle of a path. Time is in nanoseconds.
  Text printed to the terminal is not part of the world.
\<close>

section \<open>JSON documents\<close>

datatype json = JNull | JBool bool | JNum rat | JStr string | JTime int
  | JArr "json list" | JObj "(string \<times> json) list"

datatype fcontent = Text string | Json json

datatype fnode = FFile (fcontents: fcontent) (fmtime: int) | FDir | FLink string

type_synonym fs = "(string, fnode) gomap"

text \<open>
  A value of Go's empty interface, as the program's untyped maps hold them. An \<^verbatim>\<open>int\<close> and a
  \<^verbatim>\<open>float64\<close> are different dynamic types, and so are
  \<^verbatim>\<open>[]string\<close> (\<open>GStrs\<close>) and \<^verbatim>\<open>[]interface{}\<close> (\<open>GList\<close>); \<^verbatim>\<open>float64\<close> values are exact rationals here.
\<close>

datatype goval = GNil | GBool bool | GInt int | GFloat rat | GStr string | GStrs "string list"
  | GTime int \<comment> \<open>a string that is the text of an instant\<close>
  | GList "goval list" | GMap "(string \<times> goval) list"

section \<open>World\<close>

text \<open>
  A failing call returns the error text of the fault. A failing write may in addition leave the
  file truncated to some bytes, which is the second component.
\<close>

datatype fault = Fault (fault_msg: string) (fault_partial: "string option")

record world =
  w_fs :: fs
  w_clock :: "nat \<Rightarrow> int"   \<comment> \<open>the readings of the clock, in order\<close>
  w_tick :: nat            \<comment> \<open>readings taken so far\<close>
  w_uuids :: "nat \<Rightarrow> string"
  w_nuuid :: nat
  w_faults :: "nat \<Rightarrow> fault option"  \<comment> \<open>which system call fails\<close>
  w_nio :: nat

type_synonym 'a io = "(world, 'a) state"

abbreviation ret :: "'a \<Rightarrow> ('s, 'a) state" where "ret \<equiv> State_Monad.return"

text \<open>An \<^verbatim>\<open>error\<close> of the \<^verbatim>\<open>os\<close> package: \<^verbatim>\<open>os.IsNotExist\<close> tells the two kinds apart.\<close>

datatype os_err = NotExist (os_msg: string) | OsFail (os_msg: string)

definition is_not_exist :: "os_err \<Rightarrow> bool" where
  "is_not_exist e = (case e of NotExist _ \<Rightarrow> True | OsFail _ \<Rightarrow> False)"

lemma is_not_exist_simps [simp]: "is_not_exist (NotExist m)" "\<not> is_not_exist (OsFail m)"
  by (simp_all add: is_not_exist_def)

definition enoent :: "string \<Rightarrow> string \<Rightarrow> os_err" where
  "enoent call p = NotExist (call @ '' '' @ p @ '': no such file or directory'')"

section \<open>Clock, identifiers, failures\<close>

definition time_now :: "int io" where
  "time_now = State (\<lambda>w. (w_clock w (w_tick w), w\<lparr>w_tick := Suc (w_tick w)\<rparr>))"

definition new_uuid :: "string io" where
  "new_uuid = State (\<lambda>w. (w_uuids w (w_nuuid w), w\<lparr>w_nuuid := Suc (w_nuuid w)\<rparr>))"

definition io_fault :: "fault option io" where
  "io_fault = State (\<lambda>w. (w_faults w (w_nio w), w\<lparr>w_nio := Suc (w_nio w)\<rparr>))"

definition get_fs :: "fs io" where
  "get_fs = State (\<lambda>w. (w_fs w, w))"

definition put_fs :: "fs \<Rightarrow> unit io" where
  "put_fs f = State (\<lambda>w. ((), w\<lparr>w_fs := f\<rparr>))"

lemma run_clock [simp]:
  "run_state time_now w = (w_clock w (w_tick w), w\<lparr>w_tick := Suc (w_tick w)\<rparr>)"
  "run_state new_uuid w = (w_uuids w (w_nuuid w), w\<lparr>w_nuuid := Suc (w_nuuid w)\<rparr>)"
  "run_state io_fault w = (w_faults w (w_nio w), w\<lparr>w_nio := Suc (w_nio w)\<rparr>)"
  "run_state get_fs w = (w_fs w, w)"
  "run_state (put_fs f) w = ((), w\<lparr>w_fs := f\<rparr>)"
  by (simp_all add: time_now_def new_uuid_def io_fault_def get_fs_def put_fs_def)

section \<open>Directories and links\<close>

definition is_dir :: "fs \<Rightarrow> string \<Rightarrow> bool" where
  "is_dir f p = (p = [slash] \<or> p = dot \<or> mget f p = Some FDir)"

fun resolve_link :: "nat \<Rightarrow> fs \<Rightarrow> string \<Rightarrow> string option" where
  "resolve_link 0 f p = None"
| "resolve_link (Suc n) f p =
     (case mget f p of
        Some (FLink t) \<Rightarrow> resolve_link n f (if is_abs t then path_clean t else path_join [path_dir p, t])
      | _ \<Rightarrow> Some p)"

definition fs_follow :: "fs \<Rightarrow> string \<Rightarrow> string option" where
  "fs_follow f p = resolve_link 40 f (path_clean p)"

definition is_link :: "fs \<Rightarrow> string \<Rightarrow> bool" where
  "is_link f p = (case mget f p of Some (FLink _) \<Rightarrow> True | _ \<Rightarrow> False)"

lemma resolve_link_plain: "\<not> is_link f p \<Longrightarrow> resolve_link (Suc n) f p = Some p"
  by (auto simp: is_link_def split: option.splits fnode.splits)

lemma fs_follow_plain: "\<not> is_link f (path_clean p) \<Longrightarrow> fs_follow f p = Some (path_clean p)"
  using resolve_link_plain [of f "path_clean p" 39] by (simp add: fs_follow_def)

text \<open>The directories that \<^verbatim>\<open>MkdirAll\<close> has to provide, outermost first.\<close>

definition path_prefixes :: "string \<Rightarrow> string list" where
  "path_prefixes p =
     (let c = path_clean p; cs = split_on slash c in
      if is_abs c then map (\<lambda>k. abs_path (take k (tl cs))) [1..<length cs]
      else map (\<lambda>k. join_with [slash] (take k cs)) [1..<Suc (length cs)])"

fun mkdirs :: "string list \<Rightarrow> fs \<Rightarrow> os_err option \<times> fs" where
  "mkdirs [] f = (None, f)"
| "mkdirs (p # ps) f =
     (if is_dir f p then mkdirs ps f
      else if mhas f p then (Some (OsFail (''mkdir '' @ p @ '': not a directory'')), f)
      else mkdirs ps (mput p FDir f))"

definition path_base :: "string \<Rightarrow> string" where
  "path_base p = rev (takeWhile (\<lambda>c. c \<noteq> slash) (rev p))"

definition fs_children :: "fs \<Rightarrow> string \<Rightarrow> (string \<times> fnode) list" where
  "fs_children f d = sort_key fst (map (\<lambda>(k, n). (path_base k, n)) (filter (\<lambda>(k, n). k \<noteq> d \<and> path_dir k = d) f))"

section \<open>System calls\<close>

definition os_read_file :: "string \<Rightarrow> (os_err + fcontent) io" where
  "os_read_file p = do {
     flt \<leftarrow> io_fault;
     f \<leftarrow> get_fs;
     ret (case flt of
       Some e \<Rightarrow> Inl (OsFail (fault_msg e))
     | None \<Rightarrow> (case fs_follow f p of
         None \<Rightarrow> Inl (OsFail (''open '' @ p @ '': too many levels of symbolic links''))
       | Some q \<Rightarrow> (case mget f q of
           Some (FFile c _) \<Rightarrow> Inr c
         | None \<Rightarrow> Inl (enoent ''open'' p)
         | _ \<Rightarrow> Inl (OsFail (''read '' @ p @ '': is a directory''))))) }"

definition os_write_file :: "string \<Rightarrow> fcontent \<Rightarrow> os_err option io" where
  "os_write_file p c = do {
     flt \<leftarrow> io_fault;
     f \<leftarrow> get_fs;
     t \<leftarrow> time_now;
     case fs_follow f p of
       None \<Rightarrow> ret (Some (OsFail (''open '' @ p @ '': too many levels of symbolic links'')))
     | Some q \<Rightarrow>
         if is_dir f q then ret (Some (OsFail (''open '' @ p @ '': is a directory'')))
         else if \<not> is_dir f (path_dir q) then ret (Some (enoent ''open'' p))
         else (case flt of
           None \<Rightarrow> do { _ \<leftarrow> put_fs (mput q (FFile c t) f); ret None }
         | Some (Fault m None) \<Rightarrow> ret (Some (OsFail m))
         | Some (Fault m (Some bytes)) \<Rightarrow>
             do { _ \<leftarrow> put_fs (mput q (FFile (Text bytes) t) f); ret (Some (OsFail m)) }) }"

definition os_rename :: "string \<Rightarrow> string \<Rightarrow> os_err option io" where
  "os_rename p0 q0 = do {
     flt \<leftarrow> io_fault;
     f \<leftarrow> get_fs;
     let p = path_clean p0;
     let q = path_clean q0;
     case flt of
       Some e \<Rightarrow> ret (Some (OsFail (fault_msg e)))
     | None \<Rightarrow> (case mget f p of
         None \<Rightarrow> ret (Some (enoent ''rename'' p0))
       | Some FDir \<Rightarrow> ret (Some (OsFail (''rename '' @ p0 @ '': directories are not renamed'')))
       | Some n \<Rightarrow>
           if is_dir f q then ret (Some (OsFail (''rename '' @ p0 @ '': file exists'')))
           else if \<not> is_dir f (path_dir q) then ret (Some (enoent ''rename'' q0))
           else do { _ \<leftarrow> put_fs (mput q n (mdel p f)); ret None }) }"

definition os_remove :: "string \<Rightarrow> os_err option io" where
  "os_remove p0 = do {
     flt \<leftarrow> io_fault;
     f \<leftarrow> get_fs;
     let p = path_clean p0;
     case flt of
       Some e \<Rightarrow> ret (Some (OsFail (fault_msg e)))
     | None \<Rightarrow> (case mget f p of
         None \<Rightarrow> ret (Some (enoent ''remove'' p0))
       | Some n \<Rightarrow>
           if n = FDir \<and> fs_children f p \<noteq> [] then ret (Some (OsFail (''remove '' @ p0 @ '': directory not empty'')))
           else do { _ \<leftarrow> put_fs (mdel p f); ret None }) }"

definition os_mkdir_all :: "string \<Rightarrow> os_err option io" where
  "os_mkdir_all p = do {
     flt \<leftarrow> io_fault;
     f \<leftarrow> get_fs;
     case flt of
       Some e \<Rightarrow> ret (Some (OsFail (fault_msg e)))
     | None \<Rightarrow> (case mkdirs (path_prefixes p) f of (e, f') \<Rightarrow> do { _ \<leftarrow> put_fs f'; ret e }) }"

definition os_stat :: "string \<Rightarrow> (os_err + fnode) io" where
  "os_stat p = do {
     flt \<leftarrow> io_fault;
     f \<leftarrow> get_fs;
     ret (case flt of
       Some e \<Rightarrow> Inl (OsFail (fault_msg e))
     | None \<Rightarrow> (case fs_follow f p of
         None \<Rightarrow> Inl (OsFail (''stat '' @ p @ '': too many levels of symbolic links''))
       | Some q \<Rightarrow> if is_dir f q then Inr FDir
                   else (case mget f q of None \<Rightarrow> Inl (enoent ''stat'' p) | Some n \<Rightarrow> Inr n))) }"

definition os_lstat :: "string \<Rightarrow> (os_err + fnode) io" where
  "os_lstat p = do {
     flt \<leftarrow> io_fault;
     f \<leftarrow> get_fs;
     ret (case flt of
       Some e \<Rightarrow> Inl (OsFail (fault_msg e))
     | None \<Rightarrow> if is_dir f (path_clean p) then Inr FDir
                else (case mget f (path_clean p) of None \<Rightarrow> Inl (enoent ''lstat'' p) | Some n \<Rightarrow> Inr n)) }"

definition os_readlink :: "string \<Rightarrow> (os_err + string) io" where
  "os_readlink p = do {
     flt \<leftarrow> io_fault;
     f \<leftarrow> get_fs;
     ret (case flt of
       Some e \<Rightarrow> Inl (OsFail (fault_msg e))
     | None \<Rightarrow> (case mget f (path_clean p) of
         None \<Rightarrow> Inl (enoent ''readlink'' p)
       | Some (FLink t) \<Rightarrow> Inr t
       | Some _ \<Rightarrow> Inl (OsFail (''readlink '' @ p @ '': invalid argument'')))) }"

definition os_symlink :: "string \<Rightarrow> string \<Rightarrow> os_err option io" where
  "os_symlink target p0 = do {
     flt \<leftarrow> io_fault;
     f \<leftarrow> get_fs;
     let p = path_clean p0;
     case flt of
       Some e \<Rightarrow> ret (Some (OsFail (fault_msg e)))
     | None \<Rightarrow>
         if is_dir f p \<or> mhas f p then ret (Some (OsFail (''symlink '' @ p0 @ '': file exists'')))
         else if \<not> is_dir f (path_dir p) then ret (Some (enoent ''symlink'' p0))
         else do { _ \<leftarrow> put_fs (mput p (FLink target) f); ret None } }"

text \<open>\<^verbatim>\<open>os.ReadDir\<close>: the entries sorted by name.\<close>

definition os_read_dir :: "string \<Rightarrow> (os_err + (string \<times> fnode) list) io" where
  "os_read_dir p = do {
     flt \<leftarrow> io_fault;
     f \<leftarrow> get_fs;
     ret (case flt of
       Some e \<Rightarrow> Inl (OsFail (fault_msg e))
     | None \<Rightarrow> (case fs_follow f p of
         None \<Rightarrow> Inl (OsFail (''open '' @ p @ '': too many levels of symbolic links''))
       | Some q \<Rightarrow> if is_dir f q then Inr (fs_children f q)
                   else if mhas f q then Inl (OsFail (''open '' @ p @ '': not a directory''))
                   else Inl (enoent ''open'' p))) }"

lemmas os_defs [go_defs] = os_read_file_def os_write_file_def os_rename_def os_remove_def
  os_mkdir_all_def os_stat_def os_lstat_def os_readlink_def os_symlink_def os_read_dir_def

lemma wp_clock [simp]:
  "wp time_now Q w = Q (w_clock w (w_tick w)) (w\<lparr>w_tick := Suc (w_tick w)\<rparr>)"
  "wp new_uuid Qu w = Qu (w_uuids w (w_nuuid w)) (w\<lparr>w_nuuid := Suc (w_nuuid w)\<rparr>)"
  "wp io_fault Qf w = Qf (w_faults w (w_nio w)) (w\<lparr>w_nio := Suc (w_nio w)\<rparr>)"
  "wp get_fs Qg w = Qg (w_fs w) w"
  "wp (put_fs f) Qp w = Qp () (w\<lparr>w_fs := f\<rparr>)"
  by (simp_all add: wp_def)

section \<open>What the system calls do to the files\<close>

text \<open>
  \<open>fs_eq_on\<close> compares two file systems outside a set of paths. Each lemma below holds whether or
  not the call fails.
\<close>

definition fs_same_except :: "string set \<Rightarrow> fs \<Rightarrow> fs \<Rightarrow> bool" where
  "fs_same_except A f g = (\<forall>q. q \<notin> A \<longrightarrow> mget g q = mget f q)"

lemma fs_same_except_refl [simp]: "fs_same_except A f f"
  by (simp add: fs_same_except_def)

lemma fs_same_exceptD: "fs_same_except A f g \<Longrightarrow> q \<notin> A \<Longrightarrow> mget g q = mget f q"
  by (simp add: fs_same_except_def)

lemma fs_same_except_trans:
  "fs_same_except A f g \<Longrightarrow> fs_same_except B g h \<Longrightarrow> A \<union> B \<subseteq> C \<Longrightarrow> fs_same_except C f h"
  unfolding fs_same_except_def by (metis UnCI subsetD)

lemma fs_same_except_mput: "q \<in> A \<Longrightarrow> fs_same_except A f (mput q n f)"
  by (auto simp: fs_same_except_def)

lemma fs_same_except_mdel: "q \<in> A \<Longrightarrow> fs_same_except A f (mdel q f)"
  by (auto simp: fs_same_except_def)

text \<open>No new symbolic links.\<close>

definition links_sub :: "fs \<Rightarrow> fs \<Rightarrow> bool" where
  "links_sub f g = (\<forall>q. is_link g q \<longrightarrow> is_link f q)"

lemma links_sub_refl [simp]: "links_sub f f"
  by (simp add: links_sub_def)

lemma links_sub_trans: "links_sub f g \<Longrightarrow> links_sub g h \<Longrightarrow> links_sub f h"
  by (simp add: links_sub_def)

lemma links_subD: "links_sub f g \<Longrightarrow> \<not> is_link f q \<Longrightarrow> \<not> is_link g q"
  by (auto simp: links_sub_def)

lemma is_link_mput: "is_link (mput p n f) q = (if q = p then (case n of FLink _ \<Rightarrow> True | _ \<Rightarrow> False) else is_link f q)"
  by (simp add: is_link_def)

lemma is_link_mdel: "is_link (mdel p f) q = (q \<noteq> p \<and> is_link f q)"
  by (simp add: is_link_def)

lemma wp_read_file:
  assumes "\<And>r w'. w_fs w' = w_fs w \<Longrightarrow>
     (\<And>c q t. r = Inr c \<Longrightarrow> fs_follow (w_fs w) p = Some q \<Longrightarrow> \<exists>t. mget (w_fs w) q = Some (FFile c t)) \<Longrightarrow> Q r w'"
  shows "wp (os_read_file p) Q w"
  unfolding os_read_file_def wp_bind wp_clock wp_return
  by (rule assms) (auto split: option.splits fnode.splits)

lemma wp_write_file:
  assumes "fs_follow (w_fs w) p = Some q"
    and "\<And>e w'. fs_same_except {q} (w_fs w) (w_fs w') \<Longrightarrow>
          (e = None \<Longrightarrow> \<exists>t. mget (w_fs w') q = Some (FFile c t)) \<Longrightarrow>
          links_sub (w_fs w) (w_fs w') \<Longrightarrow> Q e w'"
  shows "wp (os_write_file p c) Q w"
proof (rule wpI)
  fix e w'
  assume run: "run_state (os_write_file p c) w = (e, w')"
  show "Q e w'"
    by (rule assms(2)) (use run assms(1) in \<open>auto simp: os_write_file_def fs_same_except_mput links_sub_def is_link_mput
        split: option.splits fault.splits if_splits\<close>)
qed

lemma wp_rename:
  assumes "\<And>e w'. fs_same_except {path_clean p, path_clean q} (w_fs w) (w_fs w') \<Longrightarrow>
          (e \<noteq> None \<Longrightarrow> w_fs w' = w_fs w) \<Longrightarrow>
          (e = None \<Longrightarrow> mget (w_fs w') (path_clean q) = mget (w_fs w) (path_clean p)) \<Longrightarrow>
          (\<not> is_link (w_fs w) (path_clean p) \<Longrightarrow> links_sub (w_fs w) (w_fs w')) \<Longrightarrow> Q e w'"
  shows "wp (os_rename p q) Q w"
proof (rule wpI)
  fix e w'
  assume run: "run_state (os_rename p q) w = (e, w')"
  show "Q e w'"
    by (rule assms) (use run in \<open>auto simp: os_rename_def fs_same_except_def Let_def links_sub_def is_link_def
        split: option.splits fnode.splits if_splits\<close>)
qed

lemma wp_remove:
  assumes "\<And>e w'. fs_same_except {path_clean p} (w_fs w) (w_fs w') \<Longrightarrow>
          (e = None \<Longrightarrow> mget (w_fs w') (path_clean p) = None) \<Longrightarrow> links_sub (w_fs w) (w_fs w') \<Longrightarrow> Q e w'"
  shows "wp (os_remove p) Q w"
proof (rule wpI)
  fix e w'
  assume run: "run_state (os_remove p) w = (e, w')"
  show "Q e w'"
    by (rule assms) (use run in \<open>auto simp: os_remove_def fs_same_except_def Let_def links_sub_def is_link_mdel
        split: option.splits if_splits\<close>)
qed

lemma mkdirs_keeps: "mget f q = Some n \<Longrightarrow> mget (snd (mkdirs ps f)) q = Some n"
proof (induction ps f rule: mkdirs.induct)
  case (2 p ps f)
  then show ?case by (cases "q = p") (auto simp: mhas_def)
qed simp

lemma mkdirs_new: "mget f q = None \<Longrightarrow> mget (snd (mkdirs ps f)) q \<in> {None, Some FDir}"
proof (induction ps f rule: mkdirs.induct)
  case (2 p ps f)
  then show ?case
    by (cases "p = q") (auto simp: mkdirs_keeps [of "mput q FDir f" q FDir])
qed simp

lemma mkdirs_provided: "mkdirs ps f = (None, f') \<Longrightarrow> p \<in> set ps \<Longrightarrow> is_dir f' p"
proof (induction ps f rule: mkdirs.induct)
  case (2 d ps f)
  have keep: "mkdirs ps g = (None, f') \<Longrightarrow> is_dir g d \<Longrightarrow> is_dir f' d" for g
    using mkdirs_keeps [of g d FDir ps] by (auto simp: is_dir_def)
  from "2.prems" consider "is_dir f d" "mkdirs ps f = (None, f')"
    | "\<not> is_dir f d" "\<not> mhas f d" "mkdirs ps (mput d FDir f) = (None, f')"
    by (auto split: if_splits)
  then show ?case
  proof cases
    case 1
    then show ?thesis using 2 keep by auto
  next
    case 2
    then show ?thesis using "2.IH"(2) "2.prems" keep [OF 2(3)] by (auto simp: is_dir_def)
  qed
qed simp

text \<open>\<^verbatim>\<open>MkdirAll\<close> only ever adds directories, and provides all it was asked for when it succeeds.\<close>

lemma wp_mkdir_all:
  assumes "\<And>e w'. (e = None \<Longrightarrow> \<forall>d \<in> set (path_prefixes p). is_dir (w_fs w') d) \<Longrightarrow> (\<And>q n. mget (w_fs w) q = Some n \<Longrightarrow> mget (w_fs w') q = Some n) \<Longrightarrow>
     (\<And>q. mget (w_fs w) q = None \<Longrightarrow> mget (w_fs w') q \<in> {None, Some FDir}) \<Longrightarrow> Q e w'"
  shows "wp (os_mkdir_all p) Q w"
proof (rule wpI)
  fix e w'
  assume run: "run_state (os_mkdir_all p) w = (e, w')"
  then have "w_fs w' = w_fs w \<and> e \<noteq> None \<or> mkdirs (path_prefixes p) (w_fs w) = (e, w_fs w')"
    by (auto simp: os_mkdir_all_def split: option.splits prod.splits)
  then show "Q e w'"
  proof (elim disjE conjE)
    assume m: "mkdirs (path_prefixes p) (w_fs w) = (e, w_fs w')"
    show ?thesis
      using mkdirs_keeps [of "w_fs w" _ _ "path_prefixes p"] mkdirs_new [of "w_fs w" _ "path_prefixes p"]
        mkdirs_provided [of "path_prefixes p" "w_fs w" "w_fs w'"] m
      by (intro assms) auto
  qed (intro assms, auto)
qed

lemma wp_stat: "(\<And>r w'. w_fs w' = w_fs w \<Longrightarrow> Q r w') \<Longrightarrow> wp (os_stat p) Q w"
  unfolding os_stat_def by simp

lemma wp_read_dir: "(\<And>r w'. w_fs w' = w_fs w \<Longrightarrow> Q r w') \<Longrightarrow> wp (os_read_dir p) Q w"
  unfolding os_read_dir_def by simp

lemma path_prefixes_abs:
  "comps_ok cs \<Longrightarrow> cs \<noteq> [] \<Longrightarrow> path_prefixes (abs_path cs) = map (\<lambda>k. abs_path (take k cs)) [1..<Suc (length cs)]"
  by (simp add: path_prefixes_def split_abs_path Let_def)

lemma path_prefixes_self: "comps_ok cs \<Longrightarrow> cs \<noteq> [] \<Longrightarrow> abs_path cs \<in> set (path_prefixes (abs_path cs))"
  by (auto simp: path_prefixes_abs Suc_le_eq intro!: image_eqI [of _ _ "length cs"])

section \<open>Quiet worlds\<close>

text \<open>No system call fails from here on.\<close>

definition quiet :: "world \<Rightarrow> bool" where
  "quiet w = (\<forall>n \<ge> w_nio w. w_faults w n = None)"

lemma quietD [simp]: "quiet w \<Longrightarrow> w_nio w \<le> n \<Longrightarrow> w_faults w n = None"
  by (simp add: quiet_def)

lemma is_link_file [simp]: "mget f p = Some (FFile c t) \<Longrightarrow> \<not> is_link f p"
  by (simp add: is_link_def)

lemma fs_follow_file [simp]:
  "mget f p = Some (FFile c t) \<Longrightarrow> path_clean p = p \<Longrightarrow> fs_follow f p = Some p"
  using fs_follow_plain [of f p] by simp

lemma not_dir_file: "mget f p = Some (FFile c t) \<Longrightarrow> p \<noteq> [slash] \<Longrightarrow> p \<noteq> dot \<Longrightarrow> \<not> is_dir f p"
  by (simp add: is_dir_def)

lemma read_file_quiet [simp]:
  "quiet w \<Longrightarrow> path_clean p = p \<Longrightarrow> mget (w_fs w) p = Some (FFile c t) \<Longrightarrow>
   run_state (os_read_file p) w = (Inr c, w\<lparr>w_nio := Suc (w_nio w)\<rparr>)"
  by (simp add: os_read_file_def)

lemma wp_read_file_quiet:
  "quiet w \<Longrightarrow> path_clean p = p \<Longrightarrow> mget (w_fs w) p = Some (FFile c t) \<Longrightarrow>
   wp (os_read_file p) Q w = Q (Inr c) (w\<lparr>w_nio := Suc (w_nio w)\<rparr>)"
  by (simp add: wp_def)

lemma wp_stat_file_quiet:
  "quiet w \<Longrightarrow> path_clean p = p \<Longrightarrow> mget (w_fs w) p = Some (FFile c t) \<Longrightarrow> p \<noteq> [slash] \<Longrightarrow> p \<noteq> dot \<Longrightarrow>
   wp (os_stat p) Q w = Q (Inr (FFile c t)) (w\<lparr>w_nio := Suc (w_nio w)\<rparr>)"
  by (simp add: os_stat_def not_dir_file)

lemma quiet_nio [simp]: "quiet w \<Longrightarrow> w_nio w \<le> n \<Longrightarrow> quiet (w\<lparr>w_nio := n\<rparr>)"
  by (simp add: quiet_def)

lemma mkdirs_present: "\<forall>d \<in> set ps. is_dir f d \<Longrightarrow> mkdirs ps f = (None, f)"
  by (induction ps) simp_all

lemma quiet_simps [simp]:
  "quiet w \<Longrightarrow> quiet (w\<lparr>w_tick := n\<rparr>)" "quiet w \<Longrightarrow> quiet (w\<lparr>w_fs := f\<rparr>)"
  by (simp_all add: quiet_def)

text \<open>An empty machine on which nothing fails, used to try the models out.\<close>

definition example_world :: world where
  "example_world = \<lparr>w_fs = [], w_clock = (\<lambda>n. 1000000000 * (1700000000 + int n)), w_tick = 0,
     w_uuids = (\<lambda>n. ''id'' @ show_nat n), w_nuuid = 0, w_faults = (\<lambda>_. None), w_nio = 0\<rparr>"

lemma quiet_example [simp]: "quiet (example_world\<lparr>w_fs := f, w_tick := t, w_nio := n\<rparr>)" "quiet example_world"
  by (simp_all add: quiet_def example_world_def)

lemma is_digit_slash: "\<not> is_digit slash"
  by (simp add: is_digit_def)

lemma no_slash_show_nat [simp]: "slash \<notin> set (show_nat n)"
  using show_nat_digits [of n] is_digit_slash by blast

end
