(* ===== verification/Topology.thy ===== *)
theory Topology imports Go_World begin

text \<open>
  \<^verbatim>\<open>pkg/topology/topology.go\<close>: the cluster description, the cascade of global defaults into
  the nodes, validation, the topology kind and the textual node identifiers.
\<close>

section \<open>Data\<close>

record resource_control =
  rc_memory_limit :: string
  rc_cpu_quota :: string
  rc_io_weight :: nat

record global_config =
  g_user :: string
  g_ssh_port :: int
  g_deploy_dir :: string
  g_data_dir :: string
  g_log_dir :: string
  g_config_dir :: string
  g_runtime_config :: "(string, goval) gomap option"
  g_systemd_config :: "(string, string) gomap option"
  g_os_config :: "(string, string) gomap option"
  g_resource_control :: "resource_control option"

record mongod_node =
  md_host :: string
  md_port :: int
  md_replica_set :: string
  md_priority :: "rat option"
  md_hidden :: "bool option"
  md_votes :: "int option"
  md_deploy_dir :: string
  md_data_dir :: string
  md_log_dir :: string
  md_config_dir :: string
  md_runtime_config :: "(string, goval) gomap option"

record mongos_node =
  ms_host :: string
  ms_port :: int
  ms_deploy_dir :: string
  ms_log_dir :: string
  ms_config_dir :: string
  ms_runtime_config :: "(string, goval) gomap option"

record config_node =
  cs_host :: string
  cs_port :: int
  cs_replica_set :: string
  cs_deploy_dir :: string
  cs_data_dir :: string
  cs_log_dir :: string
  cs_config_dir :: string
  cs_runtime_config :: "(string, goval) gomap option"

record replica_set_spec =
  rs_name :: string
  rs_members :: "string list"

record topology =
  t_global :: global_config
  t_mongod :: "mongod_node list"
  t_mongos :: "mongos_node list"
  t_config_svr :: "config_node list"
  t_replica_sets :: "replica_set_spec list"

section \<open>Defaults\<close>

definition default_to :: "string \<Rightarrow> string \<Rightarrow> string" where
  "default_to s d = (if s = [] then d else s)"

text \<open>
  The runtime-configuration merge of each node loop: a nil map is made when there is something
  to merge, and a key of the node wins over the global one.
\<close>

fun merge_missing :: "(string, goval) gomap \<Rightarrow> (string, goval) gomap \<Rightarrow> (string, goval) gomap" where
  "merge_missing [] m = m"
| "merge_missing ((k, v) # g) m = merge_missing g (if mhas m k then m else mput k v m)"

definition merge_runtime :: "(string, goval) gomap option \<Rightarrow> (string, goval) gomap option \<Rightarrow> (string, goval) gomap option" where
  "merge_runtime g n = (case g of None \<Rightarrow> n
     | Some gm \<Rightarrow> Some (merge_missing gm (case n of None \<Rightarrow> [] | Some m \<Rightarrow> m)))"

definition mongod_defaults :: "global_config \<Rightarrow> mongod_node \<Rightarrow> mongod_node" where
  "mongod_defaults g n = n\<lparr>
     md_deploy_dir := default_to (md_deploy_dir n) (g_deploy_dir g),
     md_data_dir := default_to (md_data_dir n) (g_data_dir g),
     md_log_dir := default_to (md_log_dir n) (g_log_dir g),
     md_config_dir := default_to (md_config_dir n) (g_config_dir g),
     md_runtime_config := merge_runtime (g_runtime_config g) (md_runtime_config n)\<rparr>"

definition mongos_defaults :: "global_config \<Rightarrow> mongos_node \<Rightarrow> mongos_node" where
  "mongos_defaults g n = n\<lparr>
     ms_deploy_dir := default_to (ms_deploy_dir n) (g_deploy_dir g),
     ms_log_dir := default_to (ms_log_dir n) (g_log_dir g),
     ms_config_dir := default_to (ms_config_dir n) (g_config_dir g),
     ms_runtime_config := merge_runtime (g_runtime_config g) (ms_runtime_config n)\<rparr>"

definition config_defaults :: "global_config \<Rightarrow> config_node \<Rightarrow> config_node" where
  "config_defaults g n = n\<lparr>
     cs_deploy_dir := default_to (cs_deploy_dir n) (g_deploy_dir g),
     cs_data_dir := default_to (cs_data_dir n) (g_data_dir g),
     cs_log_dir := default_to (cs_log_dir n) (g_log_dir g),
     cs_config_dir := default_to (cs_config_dir n) (g_config_dir g),
     cs_runtime_config := merge_runtime (g_runtime_config g) (cs_runtime_config n)\<rparr>"

definition apply_defaults :: "topology \<Rightarrow> topology" where
  "apply_defaults t = t\<lparr>
     t_mongod := map (mongod_defaults (t_global t)) (t_mongod t),
     t_mongos := map (mongos_defaults (t_global t)) (t_mongos t),
     t_config_svr := map (config_defaults (t_global t)) (t_config_svr t)\<rparr>"

text \<open>\<^verbatim>\<open>ParseTopologyFile\<close>, over the YAML package's decoder.\<close>

definition parse_topology_file :: "(fcontent \<Rightarrow> topology res) \<Rightarrow> string \<Rightarrow> topology res io" where
  "parse_topology_file yaml path = do {
     r \<leftarrow> os_read_file path;
     ret (case r of
       Inl e \<Rightarrow> Err (wrapf ''failed to read topology file'' (os_msg e))
     | Inr c \<Rightarrow> (case yaml c of
         Inl e \<Rightarrow> Err (wrapf ''failed to parse topology YAML'' e)
       | Inr t \<Rightarrow> Ok (apply_defaults t))) }"

section \<open>Kind and locality\<close>

definition is_local_host :: "string \<Rightarrow> bool" where
  "is_local_host h = (h = ''localhost'' \<or> h = ''127.0.0.1'' \<or> h = ''::1'')"

definition is_local_deployment :: "topology \<Rightarrow> bool" where
  "is_local_deployment t =
     (list_all (\<lambda>n. is_local_host (md_host n)) (t_mongod t)
      \<and> list_all (\<lambda>n. is_local_host (ms_host n)) (t_mongos t)
      \<and> list_all (\<lambda>n. is_local_host (cs_host n)) (t_config_svr t))"

definition get_topology_type :: "topology \<Rightarrow> string" where
  "get_topology_type t =
     (if t_mongos t \<noteq> [] \<or> t_config_svr t \<noteq> [] then ''sharded''
      else if list_ex (\<lambda>n. md_replica_set n \<noteq> []) (t_mongod t) then ''replica_set''
      else ''standalone'')"

text \<open>\<^verbatim>\<open>hostMap\<close> filled node by node, then its keys.\<close>

definition host_map :: "topology \<Rightarrow> (string, bool) gomap" where
  "host_map t =
     fold (\<lambda>h m. mput h True m)
       (map md_host (t_mongod t) @ map ms_host (t_mongos t) @ map cs_host (t_config_svr t)) []"

definition get_all_hosts :: "topology \<Rightarrow> string list" where
  "get_all_hosts t = mkeys (host_map t)"

section \<open>Validation\<close>

definition node_key :: "string \<Rightarrow> int \<Rightarrow> string" where
  "node_key h p = h @ '':'' @ itoa p"

definition claim_port :: "string \<Rightarrow> int \<Rightarrow> (string, bool) gomap \<Rightarrow> (string, bool) gomap res" where
  "claim_port h p seen =
     (if p > 0 then
        if mhas seen (node_key h p)
        then Err (''duplicate port '' @ itoa p @ '' on host '' @ h)
        else Ok (mput (node_key h p) True seen)
      else Ok seen)"

definition check_mongod :: "bool \<Rightarrow> mongod_node \<Rightarrow> (string, bool) gomap \<Rightarrow> (string, bool) gomap res" where
  "check_mongod loc n seen =
     (if md_host n = [] then Err ''mongod node missing host''
      else if md_port n = 0 \<and> \<not> loc then Err (''mongod node '' @ md_host n @ '' missing port'')
      else claim_port (md_host n) (md_port n) seen)"

definition check_mongos :: "bool \<Rightarrow> mongos_node \<Rightarrow> (string, bool) gomap \<Rightarrow> (string, bool) gomap res" where
  "check_mongos loc n seen =
     (if ms_host n = [] then Err ''mongos node missing host''
      else if ms_port n = 0 \<and> \<not> loc then Err (''mongos node '' @ ms_host n @ '' missing port'')
      else claim_port (ms_host n) (ms_port n) seen)"

definition check_config :: "bool \<Rightarrow> config_node \<Rightarrow> (string, bool) gomap \<Rightarrow> (string, bool) gomap res" where
  "check_config loc n seen =
     (if cs_host n = [] then Err ''config server node missing host''
      else if cs_port n = 0 \<and> \<not> loc then Err (''config server node '' @ cs_host n @ '' missing port'')
      else if cs_replica_set n = [] then Err (''config server node '' @ cs_host n @ '' missing replica_set'')
      else claim_port (cs_host n) (cs_port n) seen)"

definition fill_global_dirs :: "global_config \<Rightarrow> global_config" where
  "fill_global_dirs g = g\<lparr>
     g_data_dir := default_to (g_data_dir g) (path_join [g_deploy_dir g, ''data'']),
     g_log_dir := default_to (g_log_dir g) (path_join [g_deploy_dir g, ''logs'']),
     g_config_dir := default_to (g_config_dir g) (path_join [g_deploy_dir g, ''conf''])\<rparr>"

text \<open>
  \<^verbatim>\<open>Validate\<close> returns its error and the topology, whose global directories it fills in on the
  way (also when a later check fails).
\<close>

definition topo_validate :: "topology \<Rightarrow> err option \<times> topology" where
  "topo_validate t =
     (if t_mongod t = [] \<and> t_mongos t = [] \<and> t_config_svr t = []
      then (Some ''topology must contain at least one node'', t)
      else if g_user (t_global t) = [] then (Some ''global.user is required'', t)
      else if g_deploy_dir (t_global t) = [] then (Some ''global.deploy_dir is required'', t)
      else
        let t' = t\<lparr>t_global := fill_global_dirs (t_global t)\<rparr>;
            loc = is_local_deployment t' in
        case fold_res (check_mongod loc) (t_mongod t') [] of
          Inl e \<Rightarrow> (Some e, t')
        | Inr seen \<Rightarrow>
          (case fold_res (check_mongos loc) (t_mongos t') seen of
             Inl e \<Rightarrow> (Some e, t')
           | Inr seen' \<Rightarrow>
             (case fold_res (check_config loc) (t_config_svr t') seen' of
                Inl e \<Rightarrow> (Some e, t')
              | Inr _ \<Rightarrow> (None, t'))))"

section \<open>Node identifiers\<close>

definition get_node_id :: "string \<Rightarrow> int \<Rightarrow> string" where
  "get_node_id h p = h @ '':'' @ itoa p"

definition parse_node_id :: "string \<Rightarrow> (string \<times> int) res" where
  "parse_node_id s = (case split_on CHR '':'' s of
       [h, p] \<Rightarrow> (case sscanf_d p of
           None \<Rightarrow> Err (''invalid port in node ID: '' @ s)
         | Some n \<Rightarrow> Ok (h, n))
     | _ \<Rightarrow> Err (''invalid node ID format: '' @ s))"

section \<open>Lemmas\<close>

lemma merge_missing_get:
  "distinct (map fst g) \<Longrightarrow>
   mget (merge_missing g m) k = (case mget m k of Some v \<Rightarrow> Some v | None \<Rightarrow> mget g k)"
proof (induction g arbitrary: m)
  case (Cons kv g)
  obtain k' v where kv: "kv = (k', v)" by (cases kv)
  have "mget g k' = None" using Cons.prems by (simp add: kv map_of_eq_None_iff)
  then show ?case using Cons
    by (cases "k = k'") (auto simp: kv mhas_def split: option.splits)
qed (auto split: option.splits)

lemma gomap_ok_merge_missing: "gomap_ok m \<Longrightarrow> gomap_ok (merge_missing g m)"
  by (induction g m rule: merge_missing.induct) auto

lemma default_to_simps [simp]: "default_to [] d = d" "s \<noteq> [] \<Longrightarrow> default_to s d = s"
  "default_to (default_to s d) d = default_to s d"
  by (auto simp: default_to_def)

lemma merge_missing_present: "\<forall>k \<in> fst ` set g. mhas m k \<Longrightarrow> merge_missing g m = m"
  by (induction g m rule: merge_missing.induct) auto

lemma merge_missing_has: "mhas (merge_missing g m) k \<longleftrightarrow> mhas m k \<or> k \<in> fst ` set g"
  by (induction g m rule: merge_missing.induct) auto

lemma merge_missing_idem [simp]: "merge_missing g (merge_missing g m) = merge_missing g m"
  by (rule merge_missing_present) (simp add: merge_missing_has)

lemma merge_runtime_idem [simp]: "merge_runtime g (merge_runtime g n) = merge_runtime g n"
  by (simp add: merge_runtime_def split: option.splits)

lemma node_defaults_idem [simp]:
  "mongod_defaults g (mongod_defaults g n) = mongod_defaults g n"
  "mongos_defaults g (mongos_defaults g s) = mongos_defaults g s"
  "config_defaults g (config_defaults g c) = config_defaults g c"
  by (simp_all add: mongod_defaults_def mongos_defaults_def config_defaults_def)

lemma host_map_keys: "set (mkeys (fold (\<lambda>h m. mput h True m) hs m)) = set hs \<union> set (mkeys m)"
  by (induction hs arbitrary: m) (auto simp: dom_update)

lemma host_map_ok: "gomap_ok m \<Longrightarrow> gomap_ok (fold (\<lambda>h m. mput h True m) hs m)"
  by (induction hs arbitrary: m) auto

text \<open>A \<^verbatim>\<open>host:port\<close> key determines the host and the port: the digits hold no colon.\<close>

lemma colon_not_in_itoa: "CHR '':'' \<notin> set (itoa p)"
  using itoa_chars [of "CHR '':''" p] by (auto simp: is_digit_def)

lemma node_key_inject [simp]: "node_key h p = node_key h' p' \<longleftrightarrow> h = h' \<and> p = p'"
proof
  assume eq: "node_key h p = node_key h' p'"
  have drop: "dropWhile (\<lambda>c. c \<noteq> CHR '':'') (rev (node_key x q)) = CHR '':'' # rev x" for x q
    using colon_not_in_itoa [of q] by (auto simp: node_key_def dropWhile_append3)
  have take: "takeWhile (\<lambda>c. c \<noteq> CHR '':'') (rev (node_key x q)) = rev (itoa q)" for x q
    using colon_not_in_itoa [of q] by (auto simp: node_key_def takeWhile_append)
  have "rev h = rev h'" using drop [of h p] drop [of h' p'] eq by simp
  moreover have "rev (itoa p) = rev (itoa p')" using take [of h p] take [of h' p'] eq by simp
  ultimately show "h = h' \<and> p = p'" by simp
qed simp

text \<open>The nodes of a topology as \<^verbatim>\<open>(host, port)\<close> pairs, in the order validation visits them.\<close>

definition all_addrs :: "topology \<Rightarrow> (string \<times> int) list" where
  "all_addrs t = map (\<lambda>n. (md_host n, md_port n)) (t_mongod t)
     @ map (\<lambda>n. (ms_host n, ms_port n)) (t_mongos t)
     @ map (\<lambda>n. (cs_host n, cs_port n)) (t_config_svr t)"

definition used_addrs :: "(string \<times> int) list \<Rightarrow> (string \<times> int) list" where
  "used_addrs as = filter (\<lambda>(h, p). p > 0) as"

lemma used_addrs_simps [simp]:
  "used_addrs [] = []"
  "used_addrs ((h, p) # as) = (if p > 0 then (h, p) # used_addrs as else used_addrs as)"
  "used_addrs (as @ bs) = used_addrs as @ used_addrs bs"
  by (simp_all add: used_addrs_def)

text \<open>The three node loops share one shape: node conditions, then a port claim.\<close>

definition claims :: "(string \<times> int) list \<Rightarrow> (string, bool) gomap \<Rightarrow> (string, bool) gomap res" where
  "claims as seen = fold_res (\<lambda>(h, p). claim_port h p) as seen"

lemma claims_Ok_iff:
  "is_ok (claims as seen) \<longleftrightarrow>
     distinct (used_addrs as) \<and> (\<forall>(h, p) \<in> set (used_addrs as). \<not> mhas seen (node_key h p))"
proof (induction as arbitrary: seen)
  case (Cons a as)
  obtain h p where "a = (h, p)" by (cases a)
  with Cons show ?case
    by (auto simp: claims_def claim_port_def)
qed (simp add: claims_def)

lemma fold_check_claims:
  assumes "\<And>n seen. f n seen = (if bad n then Err (msg n) else claim_port (host n) (port n) seen)"
  shows "is_ok (fold_res f ns seen) \<longleftrightarrow>
      (\<forall>n \<in> set ns. \<not> bad n) \<and> is_ok (claims (map (\<lambda>n. (host n, port n)) ns) seen)"
    and "(\<forall>n \<in> set ns. \<not> bad n) \<Longrightarrow>
      fold_res f ns seen = claims (map (\<lambda>n. (host n, port n)) ns) seen"
  by (induction ns arbitrary: seen) (auto simp: assms claims_def split: sum.splits)

lemma claims_append:
  "claims (as @ bs) seen = (case claims as seen of Inl e \<Rightarrow> Err e | Inr s \<Rightarrow> claims bs s)"
  by (simp add: claims_def fold_res_append split: sum.splits)

definition mongod_bad :: "bool \<Rightarrow> mongod_node \<Rightarrow> bool" where
  "mongod_bad loc n = (md_host n = [] \<or> (md_port n = 0 \<and> \<not> loc))"

definition mongos_bad :: "bool \<Rightarrow> mongos_node \<Rightarrow> bool" where
  "mongos_bad loc n = (ms_host n = [] \<or> (ms_port n = 0 \<and> \<not> loc))"

definition config_bad :: "bool \<Rightarrow> config_node \<Rightarrow> bool" where
  "config_bad loc n = (cs_host n = [] \<or> (cs_port n = 0 \<and> \<not> loc) \<or> cs_replica_set n = [])"

lemma check_mongod_form:
  "check_mongod loc n seen = (if mongod_bad loc n then
     Err (if md_host n = [] then ''mongod node missing host'' else ''mongod node '' @ md_host n @ '' missing port'')
   else claim_port (md_host n) (md_port n) seen)"
  by (auto simp: check_mongod_def mongod_bad_def)

lemma check_mongos_form:
  "check_mongos loc n seen = (if mongos_bad loc n then
     Err (if ms_host n = [] then ''mongos node missing host'' else ''mongos node '' @ ms_host n @ '' missing port'')
   else claim_port (ms_host n) (ms_port n) seen)"
  by (auto simp: check_mongos_def mongos_bad_def)

lemma check_config_form:
  "check_config loc n seen = (if config_bad loc n then
     Err (if cs_host n = [] then ''config server node missing host''
          else if cs_port n = 0 \<and> \<not> loc then ''config server node '' @ cs_host n @ '' missing port''
          else ''config server node '' @ cs_host n @ '' missing replica_set'')
   else claim_port (cs_host n) (cs_port n) seen)"
  by (auto simp: check_config_def config_bad_def)

lemmas fold_check_mongod = fold_check_claims [OF check_mongod_form]
lemmas fold_check_mongos = fold_check_claims [OF check_mongos_form]
lemmas fold_check_config = fold_check_claims [OF check_config_form]

lemma nodes_bad:
  "(\<forall>(h, p) \<in> set (all_addrs t). h \<noteq> [] \<and> (p = 0 \<longrightarrow> loc)) \<and> (\<forall>n \<in> set (t_config_svr t). cs_replica_set n \<noteq> [])
     \<and> Q \<longleftrightarrow>
   (\<forall>n \<in> set (t_mongod t). \<not> mongod_bad loc n) \<and> (\<forall>n \<in> set (t_mongos t). \<not> mongos_bad loc n)
     \<and> (\<forall>n \<in> set (t_config_svr t). \<not> config_bad loc n) \<and> Q"
  unfolding all_addrs_def set_append set_map ball_Un ball_simps mongod_bad_def mongos_bad_def config_bad_def
  by fastforce

text \<open>What a caller of \<^verbatim>\<open>Validate\<close> may rely on, written without the loops.\<close>

definition topo_wf :: "topology \<Rightarrow> bool" where
  "topo_wf t =
     (all_addrs t \<noteq> [] \<and> g_user (t_global t) \<noteq> [] \<and> g_deploy_dir (t_global t) \<noteq> []
      \<and> (\<forall>(h, p) \<in> set (all_addrs t). h \<noteq> [] \<and> (p = 0 \<longrightarrow> is_local_deployment t))
      \<and> (\<forall>n \<in> set (t_config_svr t). cs_replica_set n \<noteq> [])
      \<and> distinct (used_addrs (all_addrs t)))"

lemma is_local_deployment_global [simp]: "is_local_deployment (t\<lparr>t_global := g\<rparr>) = is_local_deployment t"
  by (simp add: is_local_deployment_def)

lemma fold_checks_ok:
  "is_ok (fold_res (check_mongod loc) ms [])
   \<Longrightarrow> is_ok (claims (map (\<lambda>n. (md_host n, md_port n)) ms) [])"
  by (simp add: fold_check_mongod)

lemma all_checks_ok:
  "(\<exists>s1 s2 s3. fold_res (check_mongod loc) ms [] = Ok s1 \<and> fold_res (check_mongos loc) ss s1 = Ok s2
      \<and> fold_res (check_config loc) cs s2 = Ok s3) \<longleftrightarrow>
   (\<forall>n \<in> set ms. \<not> mongod_bad loc n) \<and> (\<forall>n \<in> set ss. \<not> mongos_bad loc n) \<and> (\<forall>n \<in> set cs. \<not> config_bad loc n)
   \<and> is_ok (claims (map (\<lambda>n. (md_host n, md_port n)) ms @ map (\<lambda>n. (ms_host n, ms_port n)) ss
        @ map (\<lambda>n. (cs_host n, cs_port n)) cs) [])" (is "?L = ?R")
proof
  assume ?L
  then obtain s1 s2 s3 where s: "fold_res (check_mongod loc) ms [] = Ok s1"
    "fold_res (check_mongos loc) ss s1 = Ok s2" "fold_res (check_config loc) cs s2 = Ok s3" by blast
  then have "is_ok (fold_res (check_mongod loc) ms [])" "is_ok (fold_res (check_mongos loc) ss s1)"
    "is_ok (fold_res (check_config loc) cs s2)" by simp_all
  then have bad: "\<forall>n \<in> set ms. \<not> mongod_bad loc n" "\<forall>n \<in> set ss. \<not> mongos_bad loc n"
    "\<forall>n \<in> set cs. \<not> config_bad loc n"
    unfolding fold_check_mongod(1) fold_check_mongos(1) fold_check_config(1) by blast+
  then show ?R using s
    by (simp add: fold_check_mongod(2) fold_check_mongos(2) fold_check_config(2) claims_append)
next
  assume R: ?R
  then show ?L
    by (auto simp: fold_check_mongod(2) fold_check_mongos(2) fold_check_config(2) claims_append
        is_ok_def split: sum.splits)
qed

text \<open>
  C21. \<^verbatim>\<open>Validate\<close> accepts exactly the well-formed topologies: some node, a user and a deploy
  directory, a host on every node, a port wherever the deployment is not local, a replica set on
  every config server, and no host:port pair claimed twice across all three kinds of nodes.
\<close>
theorem topo_validate_iff: "fst (topo_validate t) = None \<longleftrightarrow> topo_wf t"
proof (cases "all_addrs t = [] \<or> g_user (t_global t) = [] \<or> g_deploy_dir (t_global t) = []")
  case True
  then show ?thesis by (auto simp: topo_validate_def topo_wf_def all_addrs_def)
next
  case False
  let ?loc = "is_local_deployment t"
  have "fst (topo_validate t) = None \<longleftrightarrow>
    (\<exists>s1 s2 s3. fold_res (check_mongod ?loc) (t_mongod t) [] = Ok s1
      \<and> fold_res (check_mongos ?loc) (t_mongos t) s1 = Ok s2
      \<and> fold_res (check_config ?loc) (t_config_svr t) s2 = Ok s3)"
    using False by (auto simp: topo_validate_def all_addrs_def Let_def split: sum.splits)
  also have "\<dots> \<longleftrightarrow> (\<forall>n \<in> set (t_mongod t). \<not> mongod_bad ?loc n)
      \<and> (\<forall>n \<in> set (t_mongos t). \<not> mongos_bad ?loc n) \<and> (\<forall>n \<in> set (t_config_svr t). \<not> config_bad ?loc n)
      \<and> distinct (used_addrs (all_addrs t))"
    unfolding all_checks_ok by (simp only: claims_Ok_iff all_addrs_def) simp
  also have "\<dots> \<longleftrightarrow> topo_wf t"
    unfolding topo_wf_def nodes_bad using False by blast
  finally show ?thesis .
qed

text \<open>
  Validation only ever fills in empty global directories, from the deploy directory: the
  nodes and every other global setting stay as they were, whether or not it succeeds.
\<close>
theorem topo_validate_frame:
  "snd (topo_validate t) = t \<or> snd (topo_validate t) = t\<lparr>t_global := fill_global_dirs (t_global t)\<rparr>"
  by (auto simp: topo_validate_def Let_def split: sum.splits)

definition mongod_cascade :: "global_config \<Rightarrow> mongod_node \<Rightarrow> mongod_node \<Rightarrow> bool" where
  "mongod_cascade g n n' =
     (md_deploy_dir n' = (if md_deploy_dir n = [] then g_deploy_dir g else md_deploy_dir n)
      \<and> md_data_dir n' = (if md_data_dir n = [] then g_data_dir g else md_data_dir n)
      \<and> (\<forall>k. mget (case md_runtime_config n' of None \<Rightarrow> [] | Some m \<Rightarrow> m) k =
            (case mget (case md_runtime_config n of None \<Rightarrow> [] | Some m \<Rightarrow> m) k of
               Some v \<Rightarrow> Some v
             | None \<Rightarrow> mget (case g_runtime_config g of None \<Rightarrow> [] | Some m \<Rightarrow> m) k)))"

lemma merge_runtime_get:
  assumes "\<forall>m. g = Some m \<longrightarrow> gomap_ok m"
  shows "mget (case merge_runtime g n of None \<Rightarrow> [] | Some m \<Rightarrow> m) k =
     (case mget (case n of None \<Rightarrow> [] | Some m \<Rightarrow> m) k of Some v \<Rightarrow> Some v
      | None \<Rightarrow> mget (case g of None \<Rightarrow> [] | Some m \<Rightarrow> m) k)"
  using assms by (auto simp: merge_runtime_def merge_missing_get gomap_ok_def split: option.splits)


definition example_global :: global_config where
  "example_global = \<lparr>g_user = ''mongodb'', g_ssh_port = 22, g_deploy_dir = ''/opt/mup'', g_data_dir = [],
     g_log_dir = ''/var/log'', g_config_dir = [], g_runtime_config = Some [(''net.ipv6'', GBool True)],
     g_systemd_config = None, g_os_config = None, g_resource_control = None\<rparr>"

definition example_mongod :: "string \<Rightarrow> int \<Rightarrow> mongod_node" where
  "example_mongod h p = \<lparr>md_host = h, md_port = p, md_replica_set = ''rs0'', md_priority = None,
     md_hidden = None, md_votes = None, md_deploy_dir = [], md_data_dir = ''/data'', md_log_dir = [],
     md_config_dir = [], md_runtime_config = None\<rparr>"

definition example_topology :: topology where
  "example_topology = \<lparr>t_global = example_global,
     t_mongod = [example_mongod ''localhost'' 0, example_mongod ''localhost'' 27017],
     t_mongos = [], t_config_svr = [], t_replica_sets = []\<rparr>"


text \<open>
  Node identifiers round trip: for a host name without a colon and a port in Go's range
  \<^verbatim>\<open>ParseNodeID(GetNodeID(h, p))\<close> gives back \<open>h\<close> and \<open>p\<close>.
\<close>
theorem parse_get_node_id:
  assumes "CHR '':'' \<notin> set h" "in_int64 p"
  shows "parse_node_id (get_node_id h p) = Ok (h, p)"
  using assms colon_not_in_itoa [of p]
  by (simp add: parse_node_id_def get_node_id_def split_on_append split_on_no_sep)

lemma parse_get_node_id_witness:
  "parse_node_id (get_node_id ''db-1.example'' 27017) = Ok (''db-1.example'', 27017)"
  by (rule parse_get_node_id) (simp_all add: in_int64_def int64_min_def int64_max_def)

text \<open>
  \<^verbatim>\<open>IsLocalDeployment\<close> accepts the host \<^verbatim>\<open>::1\<close>, and no identifier made for that
  host can be parsed back, whatever the port.
\<close>
theorem parse_node_id_ipv6: "is_local_host ''::1'' \<and> \<not> is_ok (parse_node_id (get_node_id ''::1'' p))"
  using colon_not_in_itoa [of p]
  by (simp add: is_local_host_def parse_node_id_def get_node_id_def split_on_no_sep)

text \<open>
  \<^verbatim>\<open>GetAllHosts\<close> lists every host of the topology, and each only once.
\<close>
theorem get_all_hosts_correct:
  "set (get_all_hosts t) = fst ` set (all_addrs t) \<and> distinct (get_all_hosts t)"
proof
  show "set (get_all_hosts t) = fst ` set (all_addrs t)"
    unfolding get_all_hosts_def host_map_def host_map_keys
    by (simp add: all_addrs_def image_Un image_image)
  show "distinct (get_all_hosts t)"
    unfolding get_all_hosts_def host_map_def by (rule host_map_ok [OF gomap_ok_Nil, unfolded gomap_ok_def])
qed

end
