(* ===== verification/Port_Alloc.thy ===== *)
theory Port_Alloc imports Topology begin

text \<open>
  \<^verbatim>\<open>pkg/topology/port_allocator.go\<close>: the sequential allocator of node ports and the allocation
  of a contiguous block for a local topology.

  The \<^verbatim>\<open>PortChecker\<close> callback and the bind test \<^verbatim>\<open>isPortAvailable\<close> ask the operating system, and
  may answer differently each time: they are functions of the number of the probe and the port.
\<close>

type_synonym port_checker = "nat \<Rightarrow> int \<Rightarrow> bool res"

record port_allocator =
  pa_base :: int
  pa_next :: int
  pa_allocs :: "(string, int) gomap"
  pa_checker :: "port_checker option"
  pa_probes :: nat  \<comment> \<open>calls of the checker so far\<close>

definition default_base_port :: int where "default_base_port = 30000"
definition mongod_port_offset :: int where "mongod_port_offset = 0"
definition mongos_port_offset :: int where "mongos_port_offset = 1000"
definition config_svr_port_offset :: int where "config_svr_port_offset = 2000"
definition max_port_scan_attempts :: nat where "max_port_scan_attempts = 1000"

lemmas port_constants = default_base_port_def mongod_port_offset_def mongos_port_offset_def
  config_svr_port_offset_def max_port_scan_attempts_def

definition new_port_allocator_with_checker :: "int \<Rightarrow> port_checker option \<Rightarrow> port_allocator" where
  "new_port_allocator_with_checker b c =
     (let base = (if b = 0 then default_base_port else b) in
      \<lparr>pa_base = base, pa_next = base, pa_allocs = [], pa_checker = c, pa_probes = 0\<rparr>)"

definition new_port_allocator :: "int \<Rightarrow> port_allocator" where
  "new_port_allocator b = new_port_allocator_with_checker b None"

text \<open>The scan of \<^verbatim>\<open>findAvailablePort\<close>: ports left to try, ports taken, next port, probe number.\<close>

fun scan_ports :: "nat \<Rightarrow> port_checker \<Rightarrow> int list \<Rightarrow> int \<Rightarrow> int \<Rightarrow> nat \<Rightarrow> int res \<times> nat" where
  "scan_ports 0 chk taken start port k =
     (Err (''failed to find available port after '' @ itoa (int max_port_scan_attempts)
        @ '' attempts starting from '' @ itoa start), k)"
| "scan_ports (Suc n) chk taken start port k =
     (if port \<in> set taken then scan_ports n chk taken start (port + 1) k
      else case chk k port of
          Inl e \<Rightarrow> (Err (wrapf (''failed to check port '' @ itoa port) e), Suc k)
        | Inr True \<Rightarrow> (Ok port, Suc k)
        | Inr False \<Rightarrow> scan_ports n chk taken start (port + 1) (Suc k))"

definition find_available_port :: "port_checker \<Rightarrow> port_allocator \<Rightarrow> int \<Rightarrow> int res \<times> nat" where
  "find_available_port chk pa start =
     scan_ports max_port_scan_attempts chk (map snd (pa_allocs pa)) start start (pa_probes pa)"

definition update_next_port :: "int \<Rightarrow> port_allocator \<Rightarrow> port_allocator" where
  "update_next_port p pa = (if p \<ge> pa_next pa then pa\<lparr>pa_next := p + 1\<rparr> else pa)"

text \<open>The body the three \<^verbatim>\<open>Allocate...Port\<close> methods share, for a node key and a port offset.\<close>

definition alloc_port :: "string \<Rightarrow> int \<Rightarrow> port_allocator \<Rightarrow> int res \<times> port_allocator" where
  "alloc_port key off pa =
     (case mget (pa_allocs pa) key of
        Some port \<Rightarrow> (Ok port, pa)
      | None \<Rightarrow>
         (let start = pa_base pa + off;
              found = (case pa_checker pa of None \<Rightarrow> (Ok start, pa_probes pa)
                       | Some chk \<Rightarrow> find_available_port chk pa start);
              pa' = pa\<lparr>pa_probes := snd found\<rparr> in
          case fst found of
            Inl e \<Rightarrow> (Err e, pa')
          | Inr port \<Rightarrow> (Ok port, update_next_port port (pa'\<lparr>pa_allocs := mput key port (pa_allocs pa')\<rparr>))))"

definition kind_key :: "string \<Rightarrow> string \<Rightarrow> int \<Rightarrow> string" where
  "kind_key host kind i = host @ '':'' @ kind @ '':'' @ itoa i"

definition allocate_mongod_port :: "string \<Rightarrow> int \<Rightarrow> port_allocator \<Rightarrow> int res \<times> port_allocator" where
  "allocate_mongod_port host i = alloc_port (kind_key host ''mongod'' i) (mongod_port_offset + i)"

definition allocate_mongos_port :: "string \<Rightarrow> int \<Rightarrow> port_allocator \<Rightarrow> int res \<times> port_allocator" where
  "allocate_mongos_port host i = alloc_port (kind_key host ''mongos'' i) (mongos_port_offset + i)"

definition allocate_config_svr_port :: "string \<Rightarrow> int \<Rightarrow> port_allocator \<Rightarrow> int res \<times> port_allocator" where
  "allocate_config_svr_port host i = alloc_port (kind_key host ''config'' i) (config_svr_port_offset + i)"

definition get_allocated_ports :: "port_allocator \<Rightarrow> int list" where
  "get_allocated_ports pa = sort (map snd (pa_allocs pa))"

section \<open>Allocation for a topology\<close>

definition ports_needed :: "topology \<Rightarrow> nat" where
  "ports_needed t = length (filter (\<lambda>n. md_port n = 0) (t_mongod t))
     + length (filter (\<lambda>n. ms_port n = 0) (t_mongos t))
     + length (filter (\<lambda>n. cs_port n = 0) (t_config_svr t))"

text \<open>One attempt: the ports from \<open>port\<close> on are probed until one is busy.\<close>

fun probe_block :: "(nat \<Rightarrow> int \<Rightarrow> bool) \<Rightarrow> nat \<Rightarrow> int \<Rightarrow> nat \<Rightarrow> bool \<times> nat" where
  "probe_block avail 0 port k = (True, k)"
| "probe_block avail (Suc n) port k =
     (if avail k port then probe_block avail n (port + 1) (Suc k) else (False, Suc k))"

definition max_block_attempts :: nat where "max_block_attempts = 10"
definition port_increment :: int where "port_increment = 100"

fun search_block :: "(nat \<Rightarrow> int \<Rightarrow> bool) \<Rightarrow> nat \<Rightarrow> nat \<Rightarrow> int \<Rightarrow> nat \<Rightarrow> int option" where
  "search_block avail 0 need base k = None"
| "search_block avail (Suc n) need base k =
     (case probe_block avail need base k of
        (True, _) \<Rightarrow> Some base
      | (False, k') \<Rightarrow> search_block avail n need (base + port_increment) k')"

text \<open>Fill the nodes whose port is 0, in order, from a counter of the block.\<close>

fun fill_ports :: "('n \<Rightarrow> int) \<Rightarrow> (int \<Rightarrow> 'n \<Rightarrow> 'n) \<Rightarrow> 'n list \<Rightarrow> int \<Rightarrow> 'n list \<times> int" where
  "fill_ports port set_port [] p = ([], p)"
| "fill_ports port set_port (n # ns) p =
     (if port n = 0
      then (case fill_ports port set_port ns (p + 1) of (ns', q) \<Rightarrow> (set_port p n # ns', q))
      else (case fill_ports port set_port ns p of (ns', q) \<Rightarrow> (n # ns', q)))"

definition set_cs_port :: "int \<Rightarrow> config_node \<Rightarrow> config_node" where "set_cs_port p n = n\<lparr>cs_port := p\<rparr>"
definition set_md_port :: "int \<Rightarrow> mongod_node \<Rightarrow> mongod_node" where "set_md_port p n = n\<lparr>md_port := p\<rparr>"
definition set_ms_port :: "int \<Rightarrow> mongos_node \<Rightarrow> mongos_node" where "set_ms_port p n = n\<lparr>ms_port := p\<rparr>"

definition assign_block :: "int \<Rightarrow> topology \<Rightarrow> topology" where
  "assign_block base t =
     (case fill_ports cs_port set_cs_port (t_config_svr t) base of (cs, p1) \<Rightarrow>
      case fill_ports md_port set_md_port (t_mongod t) p1 of (ms, p2) \<Rightarrow>
      case fill_ports ms_port set_ms_port (t_mongos t) p2 of (ss, _) \<Rightarrow>
        t\<lparr>t_config_svr := cs, t_mongod := ms, t_mongos := ss\<rparr>)"

definition allocate_ports_for_topology :: "(nat \<Rightarrow> int \<Rightarrow> bool) \<Rightarrow> topology \<Rightarrow> err option \<times> topology" where
  "allocate_ports_for_topology avail t =
     (if \<not> is_local_deployment t then (Some ''port allocation is only for local deployments'', t)
      else if ports_needed t = 0 then (None, t)
      else case search_block avail max_block_attempts (ports_needed t) default_base_port 0 of
          None \<Rightarrow> (Some (''failed to find '' @ itoa (int (ports_needed t))
                   @ '' contiguous available ports after '' @ itoa (int max_block_attempts) @ '' attempts''), t)
        | Some base \<Rightarrow> (None, assign_block base t))"

section \<open>The allocator\<close>

lemma scan_ports_Ok:
  "scan_ports n chk taken start port k = (Ok p, k') \<Longrightarrow>
   port \<le> p \<and> p < port + int n \<and> p \<notin> set taken \<and> (\<exists>j. k \<le> j \<and> j < k' \<and> chk j p = Ok True)"
proof (induction n chk taken start port k rule: scan_ports.induct)
  case (2 n chk taken start port k)
  from "2.prems" consider
      (skip) "port \<in> set taken" "scan_ports n chk taken start (port + 1) k = (Ok p, k')"
    | (found) "port \<notin> set taken" "chk k port = Ok True" "p = port" "k' = Suc k"
    | (busy) "port \<notin> set taken" "chk k port = Ok False" "scan_ports n chk taken start (port + 1) (Suc k) = (Ok p, k')"
    by (auto split: if_splits sum.splits bool.splits)
  then show ?case
  proof cases
    case skip then show ?thesis using "2.IH"(1) by fastforce
  next
    case found then show ?thesis by auto
  next
    case busy
    then show ?thesis using "2.IH"(2) [OF busy(1,2)] by (fastforce dest: Suc_leD)
  qed
qed simp

text \<open>Every port below the one the scan settles on was taken or busy when it was probed.\<close>

lemma scan_ports_first:
  "scan_ports n chk taken start port k = (Ok p, k') \<Longrightarrow> port \<le> q \<Longrightarrow> q < p \<Longrightarrow>
   q \<in> set taken \<or> (\<exists>j \<ge> k. chk j q = Ok False)"
proof (induction n chk taken start port k rule: scan_ports.induct)
  case (2 n chk taken start port k)
  show ?case
  proof (cases "q = port")
    case True
    then show ?thesis using 2 by (auto split: if_splits sum.splits bool.splits)
  next
    case False
    then have "port + 1 \<le> q" using "2.prems" by simp
    then show ?thesis using 2
      by (auto split: if_splits sum.splits bool.splits) (meson Suc_leD)+
  qed
qed simp

definition allocs_below :: "port_allocator \<Rightarrow> bool" where
  "allocs_below pa = (gomap_ok (pa_allocs pa) \<and> (\<forall>(k, p) \<in> set (pa_allocs pa). p < pa_next pa))"

definition allocs_distinct :: "port_allocator \<Rightarrow> bool" where
  "allocs_distinct pa = distinct (map snd (pa_allocs pa))"

lemma update_fresh: "\<not> mhas m k \<Longrightarrow> mput k v m = m @ [(k, v)]"
  by (induction m) (auto simp: mhas_def split: if_splits)

lemma update_next_port_simps [simp]:
  "pa_next (update_next_port p pa) = max (pa_next pa) (p + 1)"
  "pa_allocs (update_next_port p pa) = pa_allocs pa" "pa_checker (update_next_port p pa) = pa_checker pa"
  "pa_base (update_next_port p pa) = pa_base pa"
  by (auto simp: update_next_port_def)

lemma alloc_port_run:
  assumes "alloc_port key off pa = (r, pa')"
  shows "(\<exists>p. mget (pa_allocs pa) key = Some p \<and> r = Ok p \<and> pa' = pa)
    \<or> (mget (pa_allocs pa) key = None \<and> (\<exists>e. r = Err e) \<and> pa_allocs pa' = pa_allocs pa \<and> pa_next pa' = pa_next pa
        \<and> pa_checker pa' = pa_checker pa \<and> pa_base pa' = pa_base pa)
    \<or> (\<exists>p. mget (pa_allocs pa) key = None \<and> r = Ok p \<and> pa_allocs pa' = pa_allocs pa @ [(key, p)]
        \<and> pa_next pa' = max (pa_next pa) (p + 1) \<and> pa_checker pa' = pa_checker pa \<and> pa_base pa' = pa_base pa
        \<and> (case pa_checker pa of None \<Rightarrow> p = pa_base pa + off
           | Some chk \<Rightarrow> p \<notin> set (map snd (pa_allocs pa)) \<and> pa_base pa + off \<le> p
               \<and> p < pa_base pa + off + int max_port_scan_attempts \<and> (\<exists>j. chk j p = Ok True)))"
proof (cases "mget (pa_allocs pa) key")
  case None
  then have fresh: "mput key p (pa_allocs pa) = pa_allocs pa @ [(key, p)]" for p
    by (simp add: update_fresh mhas_def)
  show ?thesis
  proof (cases "pa_checker pa")
    case c: None
    then show ?thesis using assms None fresh
      by (auto simp: alloc_port_def Let_def)
  next
    case (Some chk)
    obtain q k' where f: "find_available_port chk pa (pa_base pa + off) = (q, k')" by fastforce
    show ?thesis
    proof (cases q)
      case (Inl e)
      then show ?thesis using assms None Some f by (auto simp: alloc_port_def Let_def)
    next
      case (Inr p)
      have "pa_base pa + off \<le> p \<and> p < pa_base pa + off + int max_port_scan_attempts
        \<and> p \<notin> set (map snd (pa_allocs pa)) \<and> (\<exists>j. chk j p = Ok True)"
        using scan_ports_Ok [OF f [unfolded find_available_port_def Inr]] by blast
      then show ?thesis using assms None Some f Inr fresh
        by (auto simp: alloc_port_def Let_def)
    qed
  qed
qed (use assms in \<open>auto simp: alloc_port_def\<close>)

text \<open>The three entry points as one request, so that sequences of requests can be stated.\<close>

datatype node_kind = KMongod | KMongos | KConfig

definition allocate_port :: "node_kind \<times> string \<times> int \<Rightarrow> port_allocator \<Rightarrow> int res \<times> port_allocator" where
  "allocate_port rq = (case rq of (kind, host, i) \<Rightarrow> (case kind of
       KMongod \<Rightarrow> allocate_mongod_port host i
     | KMongos \<Rightarrow> allocate_mongos_port host i
     | KConfig \<Rightarrow> allocate_config_svr_port host i))"

definition run_allocs :: "(node_kind \<times> string \<times> int) list \<Rightarrow> port_allocator \<Rightarrow> port_allocator" where
  "run_allocs rqs pa = fold (\<lambda>rq pa. snd (allocate_port rq pa)) rqs pa"

definition alloc_inv :: "port_allocator \<Rightarrow> bool" where
  "alloc_inv pa = (gomap_ok (pa_allocs pa) \<and> (\<forall>p \<in> set (map snd (pa_allocs pa)). p < pa_next pa)
     \<and> (pa_checker pa \<noteq> None \<longrightarrow> distinct (map snd (pa_allocs pa))))"

lemma alloc_inv_new [simp]: "alloc_inv (new_port_allocator_with_checker b c)"
  by (simp add: alloc_inv_def new_port_allocator_with_checker_def Let_def)

lemma alloc_inv_alloc_port: "alloc_inv pa \<Longrightarrow> alloc_port key off pa = (r, pa') \<Longrightarrow> alloc_inv pa'"
  by (drule alloc_port_run)
    (fastforce simp: alloc_inv_def gomap_ok_def map_of_eq_None_iff split: option.splits)

lemma allocate_port_eq: "\<exists>key off. allocate_port rq = alloc_port key off"
  by (cases rq) (auto simp: allocate_port_def allocate_mongod_port_def allocate_mongos_port_def
      allocate_config_svr_port_def split: node_kind.splits)

lemma alloc_inv_allocate: "alloc_inv pa \<Longrightarrow> alloc_inv (snd (allocate_port rq pa))"
  using allocate_port_eq [of rq] alloc_inv_alloc_port by (metis prod.collapse)

lemma alloc_inv_run: "alloc_inv pa \<Longrightarrow> alloc_inv (run_allocs rqs pa)"
  by (induction rqs arbitrary: pa) (simp_all add: run_allocs_def alloc_inv_allocate)

lemma checker_allocate [simp]: "(pa_checker (snd (allocate_port rq pa)) = None) = (pa_checker pa = None)"
proof -
  obtain key off where "allocate_port rq = alloc_port key off" using allocate_port_eq by blast
  moreover obtain r pa' where "alloc_port key off pa = (r, pa')" by fastforce
  ultimately show ?thesis using alloc_port_run [of key off pa r pa'] by auto
qed

lemma checker_run [simp]: "(pa_checker (run_allocs rqs pa) = None) = (pa_checker pa = None)"
  by (induction rqs arbitrary: pa) (simp_all add: run_allocs_def)

text \<open>
  C23. With an availability checker, no sequence of requests, whatever the kinds of nodes, the
  answers of the operating system and the failures on the way, ever hands one port to two nodes,
  and every allocated port stays below \<^verbatim>\<open>nextPort\<close>.
\<close>
theorem allocated_ports_distinct:
  fixes rqs b chk
  defines "pa \<equiv> run_allocs rqs (new_port_allocator_with_checker b (Some chk))"
  shows "sorted_wrt (<) (get_allocated_ports pa) \<and> (\<forall>p. p \<in> set (get_allocated_ports pa) \<longrightarrow> p < pa_next pa)"
proof -
  have "alloc_inv pa" unfolding pa_def by (rule alloc_inv_run) simp
  moreover have "pa_checker pa \<noteq> None"
    unfolding pa_def by (simp add: new_port_allocator_with_checker_def Let_def)
  ultimately show ?thesis
    by (auto simp: alloc_inv_def get_allocated_ports_def strict_sorted_iff)
qed

definition example_checker :: port_checker where
  "example_checker k p = (if p = 30000 then Ok False else Ok True)"

lemma allocated_ports_distinct_witness:
  "sorted_wrt (<) (get_allocated_ports (run_allocs [(KMongod, ''a'', 0), (KMongod, ''a'', 1)]
      (new_port_allocator_with_checker 0 (Some example_checker))))"
  using allocated_ports_distinct [of "[(KMongod, ''a'', 0), (KMongod, ''a'', 1)]" 0 example_checker] by blast

text \<open>
  Allocation is idempotent: once a node has its port, the same request returns it again and
  leaves the allocator as it is.
\<close>
theorem allocate_port_idempotent:
  assumes "allocate_port rq pa = (Ok p, pa')"
  shows "allocate_port rq pa' = (Ok p, pa')"
proof -
  obtain key off where eq: "allocate_port rq = alloc_port key off" using allocate_port_eq by blast
  from alloc_port_run [OF assms [unfolded eq]] have "mget (pa_allocs pa') key = Some p"
    by (auto simp: map_add_def split: option.splits)
  then show ?thesis by (simp add: eq alloc_port_def)
qed

lemma allocate_port_idempotent_witness:
  "allocate_port (KMongod, ''a'', 0) \<lparr>pa_base = 5, pa_next = 6, pa_allocs = [(''a:mongod:0'', 5)],
      pa_checker = None, pa_probes = 0\<rparr> = (Ok 5, \<lparr>pa_base = 5, pa_next = 6,
      pa_allocs = [(''a:mongod:0'', 5)], pa_checker = None, pa_probes = 0\<rparr>)"
  by (rule allocate_port_idempotent [where pa = "new_port_allocator 5"])
    (simp add: allocate_port_def allocate_mongod_port_def alloc_port_def new_port_allocator_def
      new_port_allocator_with_checker_def kind_key_def number_eval update_next_port_def
      mongod_port_offset_def Let_def)

text \<open>
  C24. The scan takes the lowest free port: it is at most \<^verbatim>\<open>MaxPortScanAttempts - 1\<close> above the
  requested one, unallocated and reported free, and every lower candidate was allocated or busy.
\<close>
theorem find_available_port_lowest:
  assumes "find_available_port chk pa start = (Ok p, k)"
  shows "start \<le> p \<and> p < start + 1000 \<and> p \<notin> set (map snd (pa_allocs pa)) \<and> (\<exists>j. chk j p = Ok True)
    \<and> (\<forall>q. start \<le> q \<and> q < p \<longrightarrow> q \<in> set (map snd (pa_allocs pa)) \<or> (\<exists>j. chk j q = Ok False))"
  using scan_ports_Ok [OF assms [unfolded find_available_port_def]]
    scan_ports_first [OF assms [unfolded find_available_port_def]]
  by (simp add: max_port_scan_attempts_def) blast

lemma scan_1000: "scan_ports max_port_scan_attempts chk taken start port k =
  (if port \<in> set taken then scan_ports 999 chk taken start (port + 1) k
   else case chk k port of
       Inl e \<Rightarrow> (Err (wrapf (''failed to check port '' @ itoa port) e), Suc k)
     | Inr True \<Rightarrow> (Ok port, Suc k)
     | Inr False \<Rightarrow> scan_ports 999 chk taken start (port + 1) (Suc k))"
  using scan_ports.simps(2) [of 999] by (simp add: max_port_scan_attempts_def)

lemma find_available_port_lowest_witness:
  "(30001::int) < 30000 + 1000 \<and> (\<exists>j. example_checker j 30001 = Ok True)"
proof -
  have "scan_ports 999 example_checker [] 30000 30001 1 = (Ok 30001, 2)"
    using scan_ports.simps(2) [of 998 example_checker "[]" 30000 30001 1] by (simp add: example_checker_def)
  then have "find_available_port example_checker (new_port_allocator 0) 30000 = (Ok 30001, 2)"
    by (simp add: find_available_port_def scan_1000 new_port_allocator_def
        new_port_allocator_with_checker_def Let_def example_checker_def)
  from find_available_port_lowest [OF this] show ?thesis by blast
qed

section \<open>The block of a topology\<close>

lemma probe_block_True: "probe_block avail n p k = (True, k') \<Longrightarrow> i < n \<Longrightarrow> avail (k + i) (p + int i)"
proof (induction n arbitrary: p k i)
  case (Suc n)
  then have a: "avail k p" and run: "probe_block avail n (p + 1) (Suc k) = (True, k')"
    by (auto split: if_splits)
  show ?case
  proof (cases i)
    case (Suc j)
    then show ?thesis using Suc.IH [OF run, of j] Suc.prems by (simp add: algebra_simps)
  qed (simp add: a)
qed simp

lemma search_block_Some:
  "search_block avail n need b k = Some base \<Longrightarrow>
   \<exists>a < n. base = b + int a * port_increment \<and> (\<exists>k'. \<forall>i < need. avail (k' + i) (base + int i))"
proof (induction n arbitrary: b k)
  case (Suc n)
  obtain ok k' where pb: "probe_block avail need b k = (ok, k')" by fastforce
  show ?case
  proof (cases ok)
    case True
    then show ?thesis using Suc.prems pb probe_block_True [of avail need b k k'] by auto
  next
    case False
    with Suc.prems pb have "search_block avail n need (b + port_increment) k' = Some base" by simp
    from Suc.IH [OF this] obtain a where "a < n" "base = b + port_increment + int a * port_increment"
      "\<exists>k'. \<forall>i < need. avail (k' + i) (base + int i)" by blast
    then show ?thesis by (intro exI [of _ "Suc a"]) (simp add: algebra_simps)
  qed
qed simp

definition zeros :: "int list \<Rightarrow> nat" where "zeros ps = length (filter (\<lambda>p. p = 0) ps)"

lemma zeros_simps [simp]: "zeros [] = 0" "zeros (p # ps) = (if p = 0 then 1 else 0) + zeros ps"
  "zeros (ps @ qs) = zeros ps + zeros qs"
  by (simp_all add: zeros_def)

text \<open>The ports after filling: the zeros are replaced by consecutive ports, the others stay.\<close>

fun filled :: "int list \<Rightarrow> int \<Rightarrow> int list" where
  "filled [] p = []"
| "filled (q # qs) p = (if q = 0 then p # filled qs (p + 1) else q # filled qs p)"

lemma fill_ports_filled:
  assumes "\<And>p n. port (set_port p n) = p"
  shows "map port (fst (fill_ports port set_port ns p)) = filled (map port ns) p
    \<and> snd (fill_ports port set_port ns p) = p + int (zeros (map port ns))"
  by (induction ns arbitrary: p) (auto simp: assms case_prod_unfold)

lemma filled_append: "filled (ps @ qs) p = filled ps p @ filled qs (p + int (zeros ps))"
  by (induction ps arbitrary: p) (auto simp: algebra_simps)

lemma length_filled [simp]: "length (filled ps p) = length ps"
  by (induction ps arbitrary: p) auto

lemma filled_kept: "i < length ps \<Longrightarrow> ps ! i \<noteq> 0 \<Longrightarrow> filled ps p ! i = ps ! i"
  by (induction ps arbitrary: p i) (auto simp: nth_Cons split: nat.splits)

lemma filled_new: "i < length ps \<Longrightarrow> ps ! i = 0 \<Longrightarrow> filled ps p ! i = p + int (zeros (take i ps))"
  by (induction ps arbitrary: p i) (auto simp: nth_Cons algebra_simps split: nat.splits)

text \<open>The nodes' ports in the order of allocation: config servers, then mongods, then routers.\<close>

definition alloc_order_ports :: "topology \<Rightarrow> int list" where
  "alloc_order_ports t = map cs_port (t_config_svr t) @ map md_port (t_mongod t) @ map ms_port (t_mongos t)"

lemma ports_needed_zeros: "ports_needed t = zeros (alloc_order_ports t)"
  by (simp add: ports_needed_def alloc_order_ports_def zeros_def filter_map o_def)

lemma assign_block_ports: "alloc_order_ports (assign_block base t) = filled (alloc_order_ports t) base"
proof -
  let ?c = "fill_ports cs_port set_cs_port (t_config_svr t) base"
  let ?m = "fill_ports md_port set_md_port (t_mongod t) (snd ?c)"
  let ?s = "fill_ports ms_port set_ms_port (t_mongos t) (snd ?m)"
  have "alloc_order_ports (assign_block base t) =
      map cs_port (fst ?c) @ map md_port (fst ?m) @ map ms_port (fst ?s)"
    by (simp add: assign_block_def alloc_order_ports_def case_prod_unfold)
  then show ?thesis
    by (simp add: fill_ports_filled set_cs_port_def set_md_port_def set_ms_port_def filled_append
        alloc_order_ports_def algebra_simps)
qed

lemma zeros_take_less: "i < length ps \<Longrightarrow> ps ! i = 0 \<Longrightarrow> zeros (take i ps) < zeros ps"
  by (induction ps arbitrary: i) (auto simp: nth_Cons split: nat.splits)

text \<open>
  A successful allocation gives every node a port: an explicit port is kept, and the nodes
  without one get, in the order config servers, mongods, routers, consecutive ports of one block
  that was probed free, whose base is the default base plus a multiple of 100 below ten.
\<close>
theorem allocate_ports_block:
  assumes "allocate_ports_for_topology avail t = (None, t')" and "ports_needed t > 0"
  shows "\<exists>base a. a < 10 \<and> base = 30000 + 100 * int a
    \<and> length (alloc_order_ports t') = length (alloc_order_ports t)
    \<and> (\<forall>i < length (alloc_order_ports t). alloc_order_ports t' ! i =
          (if alloc_order_ports t ! i = 0 then base + int (zeros (take i (alloc_order_ports t)))
           else alloc_order_ports t ! i))
    \<and> (\<exists>k. \<forall>j < ports_needed t. avail (k + j) (base + int j))"
proof -
  from assms obtain base where base: "search_block avail max_block_attempts (ports_needed t) default_base_port 0 = Some base"
    and t': "t' = assign_block base t"
    by (auto simp: allocate_ports_for_topology_def split: if_splits option.splits)
  from search_block_Some [OF base] obtain a where "a < 10" "base = 30000 + 100 * int a"
    "\<exists>k. \<forall>j < ports_needed t. avail (k + j) (base + int j)"
    by (auto simp: max_block_attempts_def default_base_port_def port_increment_def mult.commute)
  then show ?thesis
    by (intro exI [of _ base] exI [of _ a]) (simp add: t' assign_block_ports filled_kept filled_new)
qed

definition all_free :: "nat \<Rightarrow> int \<Rightarrow> bool" where "all_free k p = True"

lemma search_all_free: "search_block all_free max_block_attempts n b k = Some b"
proof -
  have "probe_block all_free n b k = (True, k + n)"
    by (induction n arbitrary: b k) (simp_all add: all_free_def)
  then show ?thesis
    using search_block.simps(2) [of all_free 9] by (simp add: max_block_attempts_def)
qed

lemma allocate_ports_block_witness:
  "\<exists>t'. allocate_ports_for_topology all_free example_topology = (None, t')
     \<and> length (alloc_order_ports t') = 2 \<and> ports_needed example_topology > 0"
proof -
  let ?t' = "assign_block 30000 example_topology"
  have need: "ports_needed example_topology > 0"
    by (simp add: ports_needed_def example_topology_def example_mongod_def)
  have run: "allocate_ports_for_topology all_free example_topology = (None, ?t')"
    using need by (simp add: allocate_ports_for_topology_def search_all_free default_base_port_def)
      (simp add: is_local_deployment_def is_local_host_def example_topology_def example_mongod_def)
  from allocate_ports_block [OF run need] show ?thesis
    using run need by (auto simp: alloc_order_ports_def example_topology_def)
qed

text \<open>
  The block is not checked against the explicit ports of the topology: a local topology that
  passes validation can come out of the allocation with the same port on two nodes of one host,
  so that it no longer validates, although every port was free.
\<close>
theorem allocation_may_collide:
  "\<exists>t t'. fst (topo_validate t) = None \<and> allocate_ports_for_topology all_free t = (None, t')
     \<and> fst (topo_validate t') \<noteq> None"
proof -
  let ?t = "example_topology\<lparr>t_mongod := [example_mongod ''localhost'' 0, example_mongod ''localhost'' 30000]\<rparr>"
  have "fst (topo_validate ?t) = None"
    by (simp add: topo_validate_iff topo_wf_def all_addrs_def example_topology_def example_global_def
        example_mongod_def is_local_deployment_def is_local_host_def)
  moreover have "ports_needed ?t = 1" "is_local_deployment ?t"
    by (simp_all add: ports_needed_def example_topology_def example_mongod_def is_local_deployment_def
        is_local_host_def)
  then have "allocate_ports_for_topology all_free ?t = (None, assign_block 30000 ?t)"
    by (simp add: allocate_ports_for_topology_def search_all_free default_base_port_def)
  moreover have "\<not> topo_wf (assign_block 30000 ?t)"
    by (simp add: topo_wf_def all_addrs_def example_topology_def example_mongod_def assign_block_def
        set_md_port_def)
  ultimately show ?thesis by (meson topo_validate_iff)
qed

end
