(* ===== verification/Go_Json.thy ===== *)
theory Go_Json imports Go_World begin

text \<open>
  \<^verbatim>\<open>encoding/json\<close> on the structs of the program. An encoder gives the document of a value, a
  decoder fails on a document of the wrong shape. Struct fields are matched by their exact tag; a
  missing field or a \<^verbatim>\<open>null\<close> leaves the zero value. Slices and maps are lists, so \<^verbatim>\<open>nil\<close> and
  empty are one value, and the order of the keys of an object is immaterial.

  What a program gets back is not always what it wrote: an untyped map holds every number as a
  \<^verbatim>\<open>float64\<close> and every slice as \<^verbatim>\<open>[]interface{}\<close> after a round trip. \<open>norm_val\<close> is that change, and
  the locale \<open>codec\<close> below states the contract up to it.
\<close>

section \<open>Objects\<close>

text \<open>The fields of a struct: an omitted one (\<^verbatim>\<open>omitempty\<close>) is \<open>None\<close>.\<close>

definition jobj :: "(string \<times> json option) list \<Rightarrow> json" where
  "jobj fs = JObj (List.map_filter (\<lambda>(k, v). map_option (Pair k) v) fs)"

definition unless_zero :: "bool \<Rightarrow> json \<Rightarrow> json option" where
  "unless_zero z j = (if z then None else Some j)"

definition jfield :: "string \<Rightarrow> 'a \<Rightarrow> (json \<Rightarrow> 'a option) \<Rightarrow> json \<Rightarrow> 'a option" where
  "jfield k d dec j = (case j of
     JObj fs \<Rightarrow> (case map_of fs k of None \<Rightarrow> Some d | Some JNull \<Rightarrow> Some d | Some v \<Rightarrow> dec v)
   | JNull \<Rightarrow> Some d
   | _ \<Rightarrow> None)"

text \<open>A field that is itself a struct: its zero value is what an empty object gives.\<close>

definition jstruct :: "string \<Rightarrow> (json \<Rightarrow> 'a option) \<Rightarrow> json \<Rightarrow> 'a option" where
  "jstruct k dec j = (case j of
     JObj fs \<Rightarrow> (case map_of fs k of None \<Rightarrow> dec (JObj []) | Some JNull \<Rightarrow> dec (JObj []) | Some v \<Rightarrow> dec v)
   | JNull \<Rightarrow> dec (JObj [])
   | _ \<Rightarrow> None)"

lemma map_of_map_filter:
  "distinct (map fst fs) \<Longrightarrow>
   map_of (List.map_filter (\<lambda>(k, v). map_option (Pair k) v) fs) k = Option.bind (map_of fs k) id"
proof (induction fs)
  case (Cons f fs)
  obtain k' v where f: "f = (k', v)" by (cases f)
  show ?case
  proof (cases "k = k'")
    case True
    then have "map_of fs k = None" using Cons.prems by (simp add: f map_of_eq_None_iff)
    then show ?thesis using Cons True by (cases v) (simp_all add: f map_filter_simps)
  qed (use Cons in \<open>cases v; simp add: f map_filter_simps\<close>)
qed (simp add: map_filter_simps)

lemma jfield_jobj [json_simps]:
  "distinct (map fst fs) \<Longrightarrow> jfield k d dec (jobj fs) =
     (case map_of fs k of Some (Some v) \<Rightarrow> (if v = JNull then Some d else dec v) | _ \<Rightarrow> Some d)"
  by (simp add: jfield_def jobj_def map_of_map_filter split: option.splits json.splits)

lemma jstruct_jobj [json_simps]:
  "distinct (map fst fs) \<Longrightarrow> jstruct k dec (jobj fs) =
     (case map_of fs k of Some (Some v) \<Rightarrow> (if v = JNull then dec (JObj []) else dec v) | _ \<Rightarrow> dec (JObj []))"
  by (simp add: jstruct_def jobj_def map_of_map_filter split: option.splits json.splits)

lemma jobj_not_null [json_simps, simp]: "jobj fs \<noteq> JNull" "JNull \<noteq> jobj fs"
  by (simp_all add: jobj_def)

lemma unless_zero_case [json_simps, simp]:
  "(case unless_zero z j of None \<Rightarrow> d | Some v \<Rightarrow> f v) = (if z then d else f j)"
  by (simp add: unless_zero_def)

section \<open>Values\<close>

definition dec_str :: "json \<Rightarrow> string option" where "dec_str j = (case j of JStr s \<Rightarrow> Some s | _ \<Rightarrow> None)"
definition dec_bool :: "json \<Rightarrow> bool option" where "dec_bool j = (case j of JBool b \<Rightarrow> Some b | _ \<Rightarrow> None)"
definition dec_time :: "json \<Rightarrow> int option" where "dec_time j = (case j of JTime t \<Rightarrow> Some t | _ \<Rightarrow> None)"
definition enc_int :: "int \<Rightarrow> json" where "enc_int i = JNum (of_int i)"
definition dec_int :: "json \<Rightarrow> int option" where
  "dec_int j = (case j of JNum r \<Rightarrow> if of_int \<lfloor>r\<rfloor> = r then Some \<lfloor>r\<rfloor> else None | _ \<Rightarrow> None)"
definition dec_float :: "json \<Rightarrow> rat option" where "dec_float j = (case j of JNum r \<Rightarrow> Some r | _ \<Rightarrow> None)"

text \<open>Pointers: \<^verbatim>\<open>nil\<close> is \<^verbatim>\<open>null\<close>.\<close>

definition enc_ptr :: "('a \<Rightarrow> json) \<Rightarrow> 'a option \<Rightarrow> json" where
  "enc_ptr e x = (case x of None \<Rightarrow> JNull | Some v \<Rightarrow> e v)"
definition dec_ptr :: "(json \<Rightarrow> 'a option) \<Rightarrow> json \<Rightarrow> 'a option option" where
  "dec_ptr d j = (case j of JNull \<Rightarrow> Some None | _ \<Rightarrow> map_option Some (d j))"

definition enc_list :: "('a \<Rightarrow> json) \<Rightarrow> 'a list \<Rightarrow> json" where "enc_list e xs = JArr (map e xs)"
definition dec_list :: "(json \<Rightarrow> 'a option) \<Rightarrow> json \<Rightarrow> 'a list option" where
  "dec_list d j = (case j of JArr js \<Rightarrow> those (map d js) | _ \<Rightarrow> None)"

definition enc_map :: "('a \<Rightarrow> json) \<Rightarrow> (string, 'a) gomap \<Rightarrow> json" where
  "enc_map e m = JObj (map (\<lambda>(k, v). (k, e v)) m)"
definition dec_map :: "(json \<Rightarrow> 'a option) \<Rightarrow> json \<Rightarrow> (string, 'a) gomap option" where
  "dec_map d j = (case j of JObj fs \<Rightarrow> those (map (\<lambda>(k, v). map_option (Pair k) (d v)) fs) | _ \<Rightarrow> None)"

lemma those_map_Some: "(\<And>x. x \<in> set xs \<Longrightarrow> f x = Some (g x)) \<Longrightarrow> those (map f xs) = Some (map g xs)"
  by (induction xs) auto

lemma dec_enc_basic [json_simps]:
  "dec_str (JStr s) = Some s" "dec_bool (JBool b) = Some b" "dec_time (JTime t) = Some t"
  "dec_int (enc_int i) = Some i" "dec_float (JNum r) = Some r" "enc_int i \<noteq> JNull"
  by (simp_all add: dec_str_def dec_bool_def dec_time_def dec_int_def enc_int_def dec_float_def)

lemma dec_enc_list:
  "(\<And>x. x \<in> set xs \<Longrightarrow> dec (enc x) = Some (f x)) \<Longrightarrow> dec_list dec (enc_list enc xs) = Some (map f xs)"
  by (simp add: dec_list_def enc_list_def those_map_Some o_def)

lemma dec_enc_map:
  "(\<And>k v. (k, v) \<in> set m \<Longrightarrow> dec (enc v) = Some (f v)) \<Longrightarrow>
   dec_map dec (enc_map enc m) = Some (map (\<lambda>(k, v). (k, f v)) m)"
  unfolding dec_map_def enc_map_def
  by (simp add: o_def case_prod_unfold) (rule those_map_Some, auto)

lemma enc_not_null [json_simps]: "enc_list e xs \<noteq> JNull" "enc_map f m \<noteq> JNull"
  by (simp_all add: enc_list_def enc_map_def)

section \<open>Untyped values\<close>

fun enc_val :: "goval \<Rightarrow> json" where
  "enc_val GNil = JNull"
| "enc_val (GBool b) = JBool b"
| "enc_val (GInt i) = JNum (of_int i)"
| "enc_val (GFloat r) = JNum r"
| "enc_val (GStr s) = JStr s"
| "enc_val (GStrs ss) = JArr (map JStr ss)"
| "enc_val (GTime t) = JTime t"
| "enc_val (GList vs) = JArr (map enc_val vs)"
| "enc_val (GMap m) = JObj (map (\<lambda>(k, v). (k, enc_val v)) m)"

fun dec_val :: "json \<Rightarrow> goval" where
  "dec_val JNull = GNil"
| "dec_val (JBool b) = GBool b"
| "dec_val (JNum r) = GFloat r"
| "dec_val (JStr s) = GStr s"
| "dec_val (JTime t) = GTime t"
| "dec_val (JArr js) = GList (map dec_val js)"
| "dec_val (JObj m) = GMap (map (\<lambda>(k, v). (k, dec_val v)) m)"

fun norm_val :: "goval \<Rightarrow> goval" where
  "norm_val (GInt i) = GFloat (of_int i)"
| "norm_val (GStrs ss) = GList (map GStr ss)"
| "norm_val (GList vs) = GList (map norm_val vs)"
| "norm_val (GMap m) = GMap (map (\<lambda>(k, v). (k, norm_val v)) m)"
| "norm_val v = v"

lemma dec_enc_val [json_simps, simp]: "dec_val (enc_val v) = norm_val v"
  by (induction v) auto

lemma norm_val_idem [simp]: "norm_val (norm_val v) = norm_val v"
  by (induction v) auto

lemma enc_val_null [json_simps, simp]: "enc_val v = JNull \<longleftrightarrow> v = GNil"
  by (cases v) simp_all

text \<open>The field of a pointer, and of a value, whose zero is written as \<^verbatim>\<open>null\<close>.\<close>

lemma dec_enc_ptr [json_simps]:
  "(\<And>v. x = Some v \<Longrightarrow> dec (enc v) = Some (f v) \<and> enc v \<noteq> JNull) \<Longrightarrow>
   (if enc_ptr enc x = JNull then Some None else dec_ptr dec (enc_ptr enc x)) = Some (map_option f x)"
  by (cases x) (auto simp: enc_ptr_def dec_ptr_def split: json.splits)

text \<open>A map of untyped values, \<^verbatim>\<open>map[string]interface{}\<close>, with or without \<^verbatim>\<open>omitempty\<close>.\<close>

definition norm_vals :: "(string, goval) gomap \<Rightarrow> (string, goval) gomap" where
  "norm_vals m = map (\<lambda>(k, v). (k, norm_val v)) m"

lemma norm_vals_idem [simp]: "norm_vals (norm_vals m) = norm_vals m"
  by (simp add: norm_vals_def o_def case_prod_unfold)

lemma dec_enc_vals [json_simps]: "dec_map (\<lambda>j. Some (dec_val j)) (enc_map enc_val m) = Some (norm_vals m)"
  unfolding norm_vals_def by (rule dec_enc_map) simp

lemma mget_norm_vals: "mget (norm_vals m) k = map_option norm_val (mget m k)"
  by (induction m) (auto simp: norm_vals_def)

section \<open>Files\<close>

text \<open>The message \<^verbatim>\<open>encoding/json\<close> gives for a document it cannot decode.\<close>

definition json_error :: err where "json_error = ''json: cannot unmarshal document''"

definition unmarshal :: "(json \<Rightarrow> 'a option) \<Rightarrow> fcontent \<Rightarrow> 'a res" where
  "unmarshal dec c = (case c of Text _ \<Rightarrow> Err json_error
     | Json j \<Rightarrow> (case dec j of None \<Rightarrow> Err json_error | Some x \<Rightarrow> Ok x))"

locale codec =
  fixes enc :: "'a \<Rightarrow> json" and dec :: "json \<Rightarrow> 'a option" and norm :: "'a \<Rightarrow> 'a"
  assumes dec_enc: "dec (enc x) = Some (norm x)" and norm_idem: "norm (norm x) = norm x"
begin

lemma unmarshal_enc: "unmarshal dec (Json (enc x)) = Ok (norm x)"
  by (simp add: unmarshal_def dec_enc)

lemma enc_inj: "norm x = x \<Longrightarrow> norm y = y \<Longrightarrow> enc x = enc y \<Longrightarrow> x = y"
  by (metis dec_enc option.inject)

text \<open>A value that came from a file is stored and read back unchanged.\<close>

lemma stable: "unmarshal dec (Json (enc x)) = Ok y \<Longrightarrow> unmarshal dec (Json (enc y)) = Ok y"
  by (auto simp: unmarshal_enc norm_idem)

text \<open>Whoever reads a plain file that holds a document gets the value back, unless the read fails.\<close>

lemma wp_read_enc:
  assumes "fs_follow (w_fs w) p = Some q" and "mget (w_fs w) q = Some (FFile (Json (enc x)) t)"
    and "\<And>r w'. w_fs w' = w_fs w \<Longrightarrow>
       (\<And>c. r = Inr c \<Longrightarrow> unmarshal dec c = Ok (norm x)) \<Longrightarrow>
       (w_faults w (w_nio w) = None \<Longrightarrow> r = Inr (Json (enc x))) \<Longrightarrow> Q r w'"
  shows "wp (os_read_file p) Q w"
proof (rule wpI)
  fix r w'
  assume run: "run_state (os_read_file p) w = (r, w')"
  show "Q r w'"
    by (rule assms(3)) (use run assms(1,2) in \<open>auto simp: os_read_file_def unmarshal_enc split: option.splits\<close>)
qed

end

section \<open>Replacing a file\<close>

text \<open>
  The sequence the program uses for an atomic save: write \<^verbatim>\<open>path.tmp\<close>, rename it over the file,
  remove it when the rename fails. The result tells which of the two steps failed.
\<close>

datatype save_err = WriteFailed os_err | RenameFailed os_err

definition write_rename :: "string \<Rightarrow> fcontent \<Rightarrow> save_err option io" where
  "write_rename path c = do {
     let tmp = path @ ''.tmp'';
     e \<leftarrow> os_write_file tmp c;
     case e of
       Some m \<Rightarrow> ret (Some (WriteFailed m))
     | None \<Rightarrow> do {
         e2 \<leftarrow> os_rename tmp path;
         case e2 of
           Some m \<Rightarrow> do { _ \<leftarrow> os_remove tmp; ret (Some (RenameFailed m)) }
         | None \<Rightarrow> ret None } }"

text \<open>
  The save is atomic in every world: the file is either untouched (when an error is reported) or
  holds the new contents, and nothing else but the temporary file changes.
\<close>

lemma wp_write_rename:
  assumes clean: "path_clean path = path" "path_clean (path @ ''.tmp'') = path @ ''.tmp''"
    and plain: "\<not> is_link (w_fs w) (path @ ''.tmp'')"
    and Q: "\<And>e w'. fs_same_except {path, path @ ''.tmp''} (w_fs w) (w_fs w') \<Longrightarrow>
        (e = None \<Longrightarrow> \<exists>t. mget (w_fs w') path = Some (FFile c t)) \<Longrightarrow>
        (e \<noteq> None \<Longrightarrow> mget (w_fs w') path = mget (w_fs w) path) \<Longrightarrow>
        links_sub (w_fs w) (w_fs w') \<Longrightarrow> Q e w'"
  shows "wp (write_rename path c) Q w"
  unfolding write_rename_def Let_def wp_bind
proof (rule wp_write_file)
  show "fs_follow (w_fs w) (path @ ''.tmp'') = Some (path @ ''.tmp'')"
    using fs_follow_plain [of "w_fs w" "path @ ''.tmp''"] clean plain by simp
next
  fix e :: "os_err option" and w1 :: world
  assume w1: "fs_same_except {path @ ''.tmp''} (w_fs w) (w_fs w1)"
    and ok: "e = None \<Longrightarrow> \<exists>t. mget (w_fs w1) (path @ ''.tmp'') = Some (FFile c t)"
    and l1: "links_sub (w_fs w) (w_fs w1)"
  have path1: "mget (w_fs w1) path = mget (w_fs w) path" using fs_same_exceptD [OF w1] by simp
  show "wp (case e of Some m \<Rightarrow> ret (Some (WriteFailed m)) | None \<Rightarrow>
          os_rename (path @ ''.tmp'') path \<bind> (\<lambda>e2. case e2 of
             Some m \<Rightarrow> os_remove (path @ ''.tmp'') \<bind> (\<lambda>_. ret (Some (RenameFailed m)))
           | None \<Rightarrow> ret None)) Q w1"
  proof (cases e)
    case (Some m)
    then show ?thesis using w1 path1 l1
      by (simp, intro Q) (auto simp: fs_same_except_def)
  next
    case None
    then obtain t where tmp: "mget (w_fs w1) (path @ ''.tmp'') = Some (FFile c t)" using ok by blast
    show ?thesis
      unfolding None option.case wp_bind
    proof (rule wp_rename, unfold clean)
      fix e2 :: "os_err option" and w2 :: world
      assume w2: "fs_same_except {path @ ''.tmp'', path} (w_fs w1) (w_fs w2)"
        and fail: "e2 \<noteq> None \<Longrightarrow> w_fs w2 = w_fs w1"
        and lk: "\<not> is_link (w_fs w1) (path @ ''.tmp'') \<Longrightarrow> links_sub (w_fs w1) (w_fs w2)"
        and moved: "e2 = None \<Longrightarrow> mget (w_fs w2) path = mget (w_fs w1) (path @ ''.tmp'')"
      have l2: "links_sub (w_fs w) (w_fs w2)" using l1 lk tmp by (simp add: links_sub_trans)
      show "wp (case e2 of Some m \<Rightarrow> os_remove (path @ ''.tmp'') \<bind> (\<lambda>_. ret (Some (RenameFailed m)))
           | None \<Rightarrow> ret None) Q w2"
      proof (cases e2)
        case None
        then show ?thesis using moved tmp w1 w2 l2 by (simp, intro Q) (auto simp: fs_same_except_def)
      next
        case (Some m)
        show ?thesis unfolding Some option.case wp_bind
        proof (rule wp_remove, unfold clean wp_return)
          fix e3 :: "os_err option" and w3 :: world
          assume w3: "fs_same_except {path @ ''.tmp''} (w_fs w2) (w_fs w3)"
            and l3: "links_sub (w_fs w2) (w_fs w3)"
          show "Q (Some (RenameFailed m)) w3"
            using Some fail w1 w3 links_sub_trans [OF l2 l3] by (intro Q) (auto simp: fs_same_except_def)
        qed
      qed
    qed
  qed
qed

text \<open>
  With the directories provided first, as all saves of the program do: the file is replaced as a
  whole or stays (a missing one may have become a directory), and every other file is kept.
\<close>

definition replaced :: "string \<Rightarrow> fcontent \<Rightarrow> fs \<Rightarrow> bool \<Rightarrow> fs \<Rightarrow> bool" where
  "replaced path c f ok g =
     ((if ok then \<exists>t. mget g path = Some (FFile c t)
       else case mget f path of Some n \<Rightarrow> mget g path = Some n | None \<Rightarrow> mget g path \<in> {None, Some FDir})
      \<and> (\<forall>q n. mget f q = Some n \<longrightarrow> q \<notin> {path, path @ ''.tmp''} \<longrightarrow> mget g q = Some n) \<and> links_sub f g)"

lemma replaced_links: "replaced path c f ok g \<Longrightarrow> links_sub f g"
  by (simp add: replaced_def)

lemma replaced_ok: "replaced path c f True g \<Longrightarrow> \<exists>t. mget g path = Some (FFile c t)"
  by (simp add: replaced_def)

lemma replaced_kept: "replaced path c f ok g \<Longrightarrow> mget f q = Some n \<Longrightarrow> q \<notin> {path, path @ ''.tmp''} \<Longrightarrow> mget g q = Some n"
  by (simp add: replaced_def)

lemma replaced_failed: "replaced path c f False g \<Longrightarrow> mget f path = Some n \<Longrightarrow> mget g path = Some n"
  by (simp add: replaced_def)

lemma replaced_step:
  assumes r: "replaced path c f False g" and same: "fs_same_except {path, path @ ''.tmp''} g h"
    and "ok \<Longrightarrow> \<exists>t. mget h path = Some (FFile c t)" "\<not> ok \<Longrightarrow> mget h path = mget g path"
    and l: "links_sub g h"
  shows "replaced path c f ok h"
proof -
  have "mget h q = mget g q" if "q \<notin> {path, path @ ''.tmp''}" for q
    using fs_same_exceptD [OF same that] .
  then have "\<forall>q n. mget f q = Some n \<longrightarrow> q \<notin> {path, path @ ''.tmp''} \<longrightarrow> mget h q = Some n"
    using replaced_kept [OF r] by metis
  then show ?thesis
    using assms(3,4) r links_sub_trans [OF replaced_links [OF r] l] unfolding replaced_def by (cases ok) (simp_all split: option.splits)
qed

lemma is_link_mkdir:
  assumes "\<And>q n. mget f q = Some n \<Longrightarrow> mget g q = Some n" "\<And>q. mget f q = None \<Longrightarrow> mget g q \<in> {None, Some FDir}"
  shows "is_link g q = is_link f q"
  using assms(1) [of q] assms(2) [of q] by (cases "mget f q") (auto simp: is_link_def)

lemma wp_mkdir_write_rename:
  assumes clean: "path_clean path = path" "path_clean (path @ ''.tmp'') = path @ ''.tmp''"
    and plain: "\<not> is_link (w_fs w) (path @ ''.tmp'')"
    and mk: "\<And>m w'. replaced path c (w_fs w) False (w_fs w') \<Longrightarrow> Q (f m) w'"
    and sv: "\<And>s w'. replaced path c (w_fs w) (s = None) (w_fs w') \<Longrightarrow> Q (g s) w'"
  shows "wp (do { e \<leftarrow> os_mkdir_all d; case e of Some m \<Rightarrow> ret (f m)
       | None \<Rightarrow> do { s \<leftarrow> write_rename path c; ret (g s) } }) Q w"
  unfolding wp_bind
proof (rule wp_mkdir_all)
  fix e :: "os_err option" and w2 :: world
  assume keep: "\<And>q n. mget (w_fs w) q = Some n \<Longrightarrow> mget (w_fs w2) q = Some n"
    and new: "\<And>q. mget (w_fs w) q = None \<Longrightarrow> mget (w_fs w2) q \<in> {None, Some FDir}"
  have frame: "replaced path c (w_fs w) False (w_fs w2)"
    using keep new [of path] is_link_mkdir [OF keep new] by (simp add: replaced_def links_sub_def split: option.split)
  show "wp (case e of Some m \<Rightarrow> ret (f m) | None \<Rightarrow> write_rename path c \<bind> (\<lambda>s. ret (g s))) Q w2"
  proof (cases e)
    case None
    show ?thesis unfolding None option.case wp_bind wp_return
    proof (rule wp_write_rename [OF clean])
      show "\<not> is_link (w_fs w2) (path @ ''.tmp'')" using plain is_link_mkdir [OF keep new] by simp
      fix s :: "save_err option" and w3 :: world
      assume w3: "fs_same_except {path, path @ ''.tmp''} (w_fs w2) (w_fs w3)"
        and "s = None \<Longrightarrow> \<exists>t. mget (w_fs w3) path = Some (FFile c t)"
        and "s \<noteq> None \<Longrightarrow> mget (w_fs w3) path = mget (w_fs w2) path" and "links_sub (w_fs w2) (w_fs w3)"
      then have "replaced path c (w_fs w) (s = None) (w_fs w3)"
        by (intro replaced_step [OF frame]) simp_all
      then show "Q (g s) w3" by (rule sv)
    qed
  qed (use mk frame in simp)
qed

text \<open>When the directory is there and nothing fails, the save succeeds.\<close>

lemma write_rename_quiet:
  assumes "quiet w" "path_clean path = path" "path_clean (path @ ''.tmp'') = path @ ''.tmp''"
    "path_dir (path @ ''.tmp'') = path_dir path" "is_dir (w_fs w) (path_dir path)" "path_dir path \<noteq> path @ ''.tmp''"
    "\<not> is_dir (w_fs w) path" "\<not> is_dir (w_fs w) (path @ ''.tmp'')" "\<not> is_link (w_fs w) (path @ ''.tmp'')"
  shows "\<exists>w' t. run_state (write_rename path c) w = (None, w') \<and> quiet w' \<and> w_clock w' = w_clock w
    \<and> w_fs w' = mput path (FFile c t) (mdel (path @ ''.tmp'') (mput (path @ ''.tmp'') (FFile c t) (w_fs w)))"
proof -
  have "is_dir (mput (path @ ''.tmp'') n (w_fs w)) d = is_dir (w_fs w) d" if "d \<noteq> path @ ''.tmp''" for d n
    using that by (simp add: is_dir_def)
  then show ?thesis
    using assms fs_follow_plain [of "w_fs w" "path @ ''.tmp''"]
    by (simp add: write_rename_def os_write_file_def os_rename_def Let_def) blast
qed

end
