(* ===== verification/Plan.thy ===== *)
theory Plan imports Topology Go_Json begin

text \<open>
  \<^verbatim>\<open>pkg/plan/plan.go\<close> and \<^verbatim>\<open>pkg/plan/planner.go\<close>: the data of an operation plan, its queries and
  the identifiers of operations. Typed string constants of the source stay strings, since a plan
  read from a file may hold any.
\<close>

section \<open>Constants\<close>

type_synonym operation_type = string
type_synonym hook_event = string

definition op_download_binary :: operation_type where "op_download_binary = ''download_binary''"
definition op_copy_binary :: operation_type where "op_copy_binary = ''copy_binary''"
definition op_create_directory :: operation_type where "op_create_directory = ''create_directory''"
definition op_create_symlink :: operation_type where "op_create_symlink = ''create_symlink''"
definition op_upload_file :: operation_type where "op_upload_file = ''upload_file''"
definition op_generate_config :: operation_type where "op_generate_config = ''generate_config''"
definition op_generate_supervisor_cfg :: operation_type where
  "op_generate_supervisor_cfg = ''generate_supervisor_config''"
definition op_start_supervisor :: operation_type where "op_start_supervisor = ''start_supervisor''"
definition op_start_process :: operation_type where "op_start_process = ''start_process''"
definition op_wait_for_process :: operation_type where "op_wait_for_process = ''wait_for_process''"
definition op_init_replica_set :: operation_type where "op_init_replica_set = ''init_replica_set''"
definition op_add_shard :: operation_type where "op_add_shard = ''add_shard''"
definition op_verify_health :: operation_type where "op_verify_health = ''verify_health''"
definition op_save_metadata :: operation_type where "op_save_metadata = ''save_metadata''"
definition op_stop_process :: operation_type where "op_stop_process = ''stop_process''"
definition op_remove_directory :: operation_type where "op_remove_directory = ''remove_directory''"
definition op_wait_for_ready :: operation_type where "op_wait_for_ready = ''wait_for_ready''"

lemmas op_type_defs = op_download_binary_def op_copy_binary_def op_create_directory_def
  op_create_symlink_def op_upload_file_def op_generate_config_def op_generate_supervisor_cfg_def
  op_start_supervisor_def op_start_process_def op_wait_for_process_def op_init_replica_set_def
  op_add_shard_def op_verify_health_def op_save_metadata_def op_stop_process_def
  op_remove_directory_def op_wait_for_ready_def

definition hook_before_apply :: hook_event where "hook_before_apply = ''before_apply''"
definition hook_after_apply :: hook_event where "hook_after_apply = ''after_apply''"
definition hook_on_error :: hook_event where "hook_on_error = ''on_error''"
definition hook_on_success :: hook_event where "hook_on_success = ''on_success''"

section \<open>Data\<close>

text \<open>
  A value of \<^verbatim>\<open>Params\<close>: plain data, or the pointer to the topology that the planner stores there.
\<close>

datatype pval = PV goval | PTopology topology

record hook =
  hk_name :: string
  hk_command :: string
  hk_timeout :: int
  hk_env :: "(string, string) gomap"
  hk_continue :: bool

record safety_check =
  sc_id :: string
  sc_description :: string
  sc_type :: string
  sc_target :: string
  sc_params :: "(string, goval) gomap"
  sc_required :: bool

record change =
  ch_type :: string
  ch_id :: string
  ch_action :: string
  ch_before :: goval
  ch_after :: goval

record op_target =
  tg_type :: string
  tg_name :: string
  tg_host :: string
  tg_port :: int
  tg_params :: "(string, string) gomap"

record planned_operation =
  po_id :: string
  po_type :: operation_type
  po_description :: string
  po_target :: op_target
  po_pre :: "safety_check list"
  po_changes :: "change list"
  po_depends :: "string list"
  po_parallel :: bool
  po_params :: "(string, pval) gomap"

record planned_phase =
  ph_name :: string
  ph_description :: string
  ph_order :: int
  ph_operations :: "planned_operation list"
  ph_before :: "hook option"
  ph_after :: "hook option"
  ph_duration :: string

record validation_issue =
  vi_code :: string
  vi_message :: string
  vi_host :: string
  vi_severity :: string

record check_result =
  cr_name :: string
  cr_status :: string
  cr_message :: string
  cr_host :: string
  cr_duration :: int
  cr_details :: goval

record validation_result =
  vr_valid :: bool
  vr_errors :: "validation_issue list"
  vr_warnings :: "validation_issue list"
  vr_checks :: "check_result list"

record resource_estimate =
  re_hosts :: int
  re_total_processes :: int
  re_ports_used :: "int list"
  re_disk_space_gb :: rat
  re_memory_mb :: int
  re_download_size_mb :: int
  re_processes_per_host :: "(string, int) gomap"

record plan =
  pl_id :: string
  pl_operation :: string
  pl_cluster :: string
  pl_created_at :: int
  pl_version :: string
  pl_variant :: string
  pl_topology_file :: string
  pl_topology :: "topology option"
  pl_config :: "(string, goval) gomap"
  pl_validation :: validation_result
  pl_phases :: "planned_phase list"
  pl_resources :: resource_estimate
  pl_dry_run :: bool
  pl_environment :: "(string, string) gomap"

section \<open>Queries\<close>

definition plan_is_valid :: "plan \<Rightarrow> bool" where "plan_is_valid p = vr_valid (pl_validation p)"
definition has_errors :: "plan \<Rightarrow> bool" where "has_errors p = (length (vr_errors (pl_validation p)) > 0)"
definition has_warnings :: "plan \<Rightarrow> bool" where "has_warnings p = (length (vr_warnings (pl_validation p)) > 0)"

fun sum_operations :: "planned_phase list \<Rightarrow> nat \<Rightarrow> nat" where
  "sum_operations [] n = n"
| "sum_operations (ph # phs) n = sum_operations phs (n + length (ph_operations ph))"

definition total_operations :: "plan \<Rightarrow> nat" where
  "total_operations p = sum_operations (pl_phases p) 0"

fun find_operation :: "string \<Rightarrow> planned_phase list \<Rightarrow> planned_operation option" where
  "find_operation i [] = None"
| "find_operation i (ph # phs) = (case find (\<lambda>op. po_id op = i) (ph_operations ph) of
       Some op \<Rightarrow> Some op
     | None \<Rightarrow> find_operation i phs)"

definition get_operation_by_id :: "plan \<Rightarrow> string \<Rightarrow> planned_operation option" where
  "get_operation_by_id p i = find_operation i (pl_phases p)"

definition get_phase_by_name :: "plan \<Rightarrow> string \<Rightarrow> planned_phase option" where
  "get_phase_by_name p name = find (\<lambda>ph. ph_name ph = name) (pl_phases p)"

definition all_operations :: "plan \<Rightarrow> planned_operation list" where
  "all_operations p = concat (map ph_operations (pl_phases p))"

definition new_plan_id :: "string io" where "new_plan_id = new_uuid"

definition new_operation_id :: "string \<Rightarrow> nat \<Rightarrow> string" where
  "new_operation_id phase i = phase @ ''-'' @ pad_zeros 3 (show_nat i)"

text \<open>\<^verbatim>\<open>ValidationError.Error\<close>\<close>

definition validation_error :: "validation_issue list \<Rightarrow> err" where
  "validation_error issues = (case issues of
     [] \<Rightarrow> ''validation failed''
   | i # _ \<Rightarrow> ''validation failed: '' @ vi_message i)"

section \<open>Lemmas\<close>

lemma sum_operations_eq: "sum_operations phs n = n + length (concat (map ph_operations phs))"
  by (induction phs arbitrary: n) simp_all

lemma find_operation_eq: "find_operation i phs = find (\<lambda>op. po_id op = i) (concat (map ph_operations phs))"
  by (induction phs) (simp_all add: find_append split: option.splits)

lemma total_operations_eq: "total_operations p = length (all_operations p)"
  by (simp add: total_operations_def all_operations_def sum_operations_eq)

lemma get_operation_eq: "get_operation_by_id p i = find (\<lambda>op. po_id op = i) (all_operations p)"
  by (simp add: get_operation_by_id_def all_operations_def find_operation_eq)

text \<open>When identifiers are unique the lookup returns exactly the operation with the identifier.\<close>

lemma get_operation_unique:
  assumes "distinct (map po_id (all_operations p))" "op \<in> set (all_operations p)"
  shows "get_operation_by_id p (po_id op) = Some op"
proof -
  obtain op' where op': "get_operation_by_id p (po_id op) = Some op'"
    using assms(2) by (cases "get_operation_by_id p (po_id op)") (auto simp: get_operation_eq find_None_iff)
  then have "op' \<in> set (all_operations p)" "po_id op' = po_id op"
    unfolding get_operation_eq by (auto dest!: find_Some_mem)
  then show ?thesis using op' assms by (metis distinct_map inj_onD)
qed

lemma new_operation_id_inject:
  assumes "CHR ''-'' \<notin> set ph" "CHR ''-'' \<notin> set ph'"
  shows "new_operation_id ph i = new_operation_id ph' j \<longleftrightarrow> ph = ph' \<and> i = j"
proof
  assume eq: "new_operation_id ph i = new_operation_id ph' j"
  have "takeWhile (\<lambda>c. c \<noteq> CHR ''-'') (new_operation_id p n) = p" if "CHR ''-'' \<notin> set p" for p n
    unfolding new_operation_id_def using that by (subst takeWhile_append2) auto
  then have "ph = ph'" using eq assms by metis
  with eq show "ph = ph' \<and> i = j" by (simp add: new_operation_id_def)
qed simp

end
