(* ===== verification/Plan_Json.thy ===== *)
theory Plan_Json imports Plan begin

text \<open>
  The JSON documents of plans: the struct tags of \<^verbatim>\<open>pkg/plan/plan.go\<close> and, for the topology inside a
  plan, the field names of \<^verbatim>\<open>pkg/topology/topology.go\<close> (its structs carry only YAML tags). Each
  struct has an encoder, a decoder and, where untyped values occur, the change \<open>norm_...\<close> that a round
  trip makes; the last section interprets the codec contract.
\<close>

named_theorems norm_idems

lemma enc_val_ne [json_simps]: "v \<noteq> GNil \<Longrightarrow> enc_val v \<noteq> JNull"
  by simp

lemmas [norm_idems] = norm_vals_idem norm_val_idem

lemma map_norm_idem [norm_idems]:
  "(\<And>x. f (f x) = f x) \<Longrightarrow> map f (map f xs) = map f xs"
  "(\<And>x. f (f x) = f x) \<Longrightarrow> map_option f (map_option f y) = map_option f y"
  by (simp_all add: option.map_comp o_def)

definition enc_nat :: "nat \<Rightarrow> json" where "enc_nat n = enc_int (int n)"
definition dec_nat :: "json \<Rightarrow> nat option" where "dec_nat j = map_option nat (dec_int j)"

lemma dec_enc_nat [json_simps]: "dec_nat (enc_nat n) = Some n" "enc_nat n \<noteq> JNull"
  by (simp_all add: dec_nat_def enc_nat_def json_simps)

lemma dec_enc_map_id [json_simps]:
  "(\<And>v. d (e v) = Some v) \<Longrightarrow> dec_map d (enc_map e m) = Some m"
  by (subst dec_enc_map [where f = "\<lambda>v. v"]) simp_all

lemma dec_enc_list_id [json_simps]:
  "(\<And>v. d (e v) = Some v) \<Longrightarrow> dec_list d (enc_list e xs) = Some xs"
  by (subst dec_enc_list [where f = "\<lambda>v. v"]) simp_all

lemma dec_enc_list_norm [json_simps]:
  "(\<And>v. d (e v) = Some (f v)) \<Longrightarrow> dec_list d (enc_list e xs) = Some (map f xs)"
  by (rule dec_enc_list)

lemma dec_enc_ptr_id [json_simps]:
  "(\<And>v. d (e v) = Some v \<and> e v \<noteq> JNull) \<Longrightarrow>
   (if enc_ptr e x = JNull then Some None else dec_ptr d (enc_ptr e x)) = Some x"
  by (subst dec_enc_ptr [where f = "\<lambda>v. v"]) (simp_all add: option.map_ident)

lemma dec_enc_ptr_norm [json_simps]:
  "(\<And>v. d (e v) = Some (f v) \<and> e v \<noteq> JNull) \<Longrightarrow>
   (if enc_ptr e x = JNull then Some None else dec_ptr d (enc_ptr e x)) = Some (map_option f x)"
  by (rule dec_enc_ptr)

text \<open>An omitted field was the zero value.\<close>

lemma omitted [json_simps]:
  "(if x = d then Some d else Some x) = Some x"
  "(if xs = [] then Some [] else Some (map f xs)) = Some (map f xs)"
  "(if y = None then Some None else Some (map_option g y)) = Some (map_option g y)"
  "(if v = GNil then Some GNil else Some (norm_val v)) = Some (norm_val v)"
  "norm_vals [] = []"
  by (simp_all add: norm_vals_def)

lemmas [json_simps] = option.map_ident list.map_ident

section \<open>The topology\<close>

definition enc_resource_control :: "resource_control \<Rightarrow> json" where
  "enc_resource_control x = jobj [
     (''MemoryLimit'', Some (JStr (rc_memory_limit x))),
     (''CPUQuota'', Some (JStr (rc_cpu_quota x))),
     (''IOWeight'', Some (enc_nat (rc_io_weight x)))]"

definition dec_resource_control :: "json \<Rightarrow> resource_control option" where
  "dec_resource_control j = do {
     a0 \<leftarrow> jfield ''MemoryLimit'' [] dec_str j;
     a1 \<leftarrow> jfield ''CPUQuota'' [] dec_str j;
     a2 \<leftarrow> jfield ''IOWeight'' 0 dec_nat j;
     Some \<lparr>rc_memory_limit = a0, rc_cpu_quota = a1, rc_io_weight = a2\<rparr> }"

lemma codec_resource_control [json_simps, simp]: "dec_resource_control (enc_resource_control x) = Some (x)" "enc_resource_control x \<noteq> JNull"
  by (simp_all add: dec_resource_control_def enc_resource_control_def  json_simps)

definition enc_global_config :: "global_config \<Rightarrow> json" where
  "enc_global_config x = jobj [
     (''User'', Some (JStr (g_user x))),
     (''SSHPort'', Some (enc_int (g_ssh_port x))),
     (''DeployDir'', Some (JStr (g_deploy_dir x))),
     (''DataDir'', Some (JStr (g_data_dir x))),
     (''LogDir'', Some (JStr (g_log_dir x))),
     (''ConfigDir'', Some (JStr (g_config_dir x))),
     (''RuntimeConfig'', Some ((enc_ptr (enc_map enc_val)) (g_runtime_config x))),
     (''SystemdConfig'', Some ((enc_ptr (enc_map JStr)) (g_systemd_config x))),
     (''OSConfig'', Some ((enc_ptr (enc_map JStr)) (g_os_config x))),
     (''ResourceControl'', Some ((enc_ptr enc_resource_control) (g_resource_control x)))]"

definition dec_global_config :: "json \<Rightarrow> global_config option" where
  "dec_global_config j = do {
     a0 \<leftarrow> jfield ''User'' [] dec_str j;
     a1 \<leftarrow> jfield ''SSHPort'' 0 dec_int j;
     a2 \<leftarrow> jfield ''DeployDir'' [] dec_str j;
     a3 \<leftarrow> jfield ''DataDir'' [] dec_str j;
     a4 \<leftarrow> jfield ''LogDir'' [] dec_str j;
     a5 \<leftarrow> jfield ''ConfigDir'' [] dec_str j;
     a6 \<leftarrow> jfield ''RuntimeConfig'' None (dec_ptr (dec_map (\<lambda>j. Some (dec_val j)))) j;
     a7 \<leftarrow> jfield ''SystemdConfig'' None (dec_ptr (dec_map dec_str)) j;
     a8 \<leftarrow> jfield ''OSConfig'' None (dec_ptr (dec_map dec_str)) j;
     a9 \<leftarrow> jfield ''ResourceControl'' None (dec_ptr dec_resource_control) j;
     Some \<lparr>g_user = a0, g_ssh_port = a1, g_deploy_dir = a2, g_data_dir = a3, g_log_dir = a4, g_config_dir = a5, g_runtime_config = a6, g_systemd_config = a7, g_os_config = a8, g_resource_control = a9\<rparr> }"

definition norm_global_config :: "global_config \<Rightarrow> global_config" where
  "norm_global_config x = x\<lparr>g_runtime_config := (map_option norm_vals) (g_runtime_config x)\<rparr>"

lemma codec_global_config [json_simps, simp]: "dec_global_config (enc_global_config x) = Some (norm_global_config x)" "enc_global_config x \<noteq> JNull"
  by (simp_all add: dec_global_config_def enc_global_config_def norm_global_config_def  json_simps)

lemma norm_global_config_idem [simp]: "norm_global_config (norm_global_config x) = norm_global_config x"
  by (simp add: norm_global_config_def norm_idems)

definition enc_mongod_node :: "mongod_node \<Rightarrow> json" where
  "enc_mongod_node x = jobj [
     (''Host'', Some (JStr (md_host x))),
     (''Port'', Some (enc_int (md_port x))),
     (''ReplicaSet'', Some (JStr (md_replica_set x))),
     (''Priority'', Some ((enc_ptr JNum) (md_priority x))),
     (''Hidden'', Some ((enc_ptr JBool) (md_hidden x))),
     (''Votes'', Some ((enc_ptr enc_int) (md_votes x))),
     (''DeployDir'', Some (JStr (md_deploy_dir x))),
     (''DataDir'', Some (JStr (md_data_dir x))),
     (''LogDir'', Some (JStr (md_log_dir x))),
     (''ConfigDir'', Some (JStr (md_config_dir x))),
     (''RuntimeConfig'', Some ((enc_ptr (enc_map enc_val)) (md_runtime_config x)))]"

definition dec_mongod_node :: "json \<Rightarrow> mongod_node option" where
  "dec_mongod_node j = do {
     a0 \<leftarrow> jfield ''Host'' [] dec_str j;
     a1 \<leftarrow> jfield ''Port'' 0 dec_int j;
     a2 \<leftarrow> jfield ''ReplicaSet'' [] dec_str j;
     a3 \<leftarrow> jfield ''Priority'' None (dec_ptr dec_float) j;
     a4 \<leftarrow> jfield ''Hidden'' None (dec_ptr dec_bool) j;
     a5 \<leftarrow> jfield ''Votes'' None (dec_ptr dec_int) j;
     a6 \<leftarrow> jfield ''DeployDir'' [] dec_str j;
     a7 \<leftarrow> jfield ''DataDir'' [] dec_str j;
     a8 \<leftarrow> jfield ''LogDir'' [] dec_str j;
     a9 \<leftarrow> jfield ''ConfigDir'' [] dec_str j;
     a10 \<leftarrow> jfield ''RuntimeConfig'' None (dec_ptr (dec_map (\<lambda>j. Some (dec_val j)))) j;
     Some \<lparr>md_host = a0, md_port = a1, md_replica_set = a2, md_priority = a3, md_hidden = a4, md_votes = a5, md_deploy_dir = a6, md_data_dir = a7, md_log_dir = a8, md_config_dir = a9, md_runtime_config = a10\<rparr> }"

definition norm_mongod_node :: "mongod_node \<Rightarrow> mongod_node" where
  "norm_mongod_node x = x\<lparr>md_runtime_config := (map_option norm_vals) (md_runtime_config x)\<rparr>"

lemma codec_mongod_node [json_simps, simp]: "dec_mongod_node (enc_mongod_node x) = Some (norm_mongod_node x)" "enc_mongod_node x \<noteq> JNull"
  by (simp_all add: dec_mongod_node_def enc_mongod_node_def norm_mongod_node_def  json_simps)

lemma norm_mongod_node_idem [simp]: "norm_mongod_node (norm_mongod_node x) = norm_mongod_node x"
  by (simp add: norm_mongod_node_def norm_idems)

definition enc_mongos_node :: "mongos_node \<Rightarrow> json" where
  "enc_mongos_node x = jobj [
     (''Host'', Some (JStr (ms_host x))),
     (''Port'', Some (enc_int (ms_port x))),
     (''DeployDir'', Some (JStr (ms_deploy_dir x))),
     (''LogDir'', Some (JStr (ms_log_dir x))),
     (''ConfigDir'', Some (JStr (ms_config_dir x))),
     (''RuntimeConfig'', Some ((enc_ptr (enc_map enc_val)) (ms_runtime_config x)))]"

definition dec_mongos_node :: "json \<Rightarrow> mongos_node option" where
  "dec_mongos_node j = do {
     a0 \<leftarrow> jfield ''Host'' [] dec_str j;
     a1 \<leftarrow> jfield ''Port'' 0 dec_int j;
     a2 \<leftarrow> jfield ''DeployDir'' [] dec_str j;
     a3 \<leftarrow> jfield ''LogDir'' [] dec_str j;
     a4 \<leftarrow> jfield ''ConfigDir'' [] dec_str j;
     a5 \<leftarrow> jfield ''RuntimeConfig'' None (dec_ptr (dec_map (\<lambda>j. Some (dec_val j)))) j;
     Some \<lparr>ms_host = a0, ms_port = a1, ms_deploy_dir = a2, ms_log_dir = a3, ms_config_dir = a4, ms_runtime_config = a5\<rparr> }"

definition norm_mongos_node :: "mongos_node \<Rightarrow> mongos_node" where
  "norm_mongos_node x = x\<lparr>ms_runtime_config := (map_option norm_vals) (ms_runtime_config x)\<rparr>"

lemma codec_mongos_node [json_simps, simp]: "dec_mongos_node (enc_mongos_node x) = Some (norm_mongos_node x)" "enc_mongos_node x \<noteq> JNull"
  by (simp_all add: dec_mongos_node_def enc_mongos_node_def norm_mongos_node_def  json_simps)

lemma norm_mongos_node_idem [simp]: "norm_mongos_node (norm_mongos_node x) = norm_mongos_node x"
  by (simp add: norm_mongos_node_def norm_idems)

definition enc_config_node :: "config_node \<Rightarrow> json" where
  "enc_config_node x = jobj [
     (''Host'', Some (JStr (cs_host x))),
     (''Port'', Some (enc_int (cs_port x))),
     (''ReplicaSet'', Some (JStr (cs_replica_set x))),
     (''DeployDir'', Some (JStr (cs_deploy_dir x))),
     (''DataDir'', Some (JStr (cs_data_dir x))),
     (''LogDir'', Some (JStr (cs_log_dir x))),
     (''ConfigDir'', Some (JStr (cs_config_dir x))),
     (''RuntimeConfig'', Some ((enc_ptr (enc_map enc_val)) (cs_runtime_config x)))]"

definition dec_config_node :: "json \<Rightarrow> config_node option" where
  "dec_config_node j = do {
     a0 \<leftarrow> jfield ''Host'' [] dec_str j;
     a1 \<leftarrow> jfield ''Port'' 0 dec_int j;
     a2 \<leftarrow> jfield ''ReplicaSet'' [] dec_str j;
     a3 \<leftarrow> jfield ''DeployDir'' [] dec_str j;
     a4 \<leftarrow> jfield ''DataDir'' [] dec_str j;
     a5 \<leftarrow> jfield ''LogDir'' [] dec_str j;
     a6 \<leftarrow> jfield ''ConfigDir'' [] dec_str j;
     a7 \<leftarrow> jfield ''RuntimeConfig'' None (dec_ptr (dec_map (\<lambda>j. Some (dec_val j)))) j;
     Some \<lparr>cs_host = a0, cs_port = a1, cs_replica_set = a2, cs_deploy_dir = a3, cs_data_dir = a4, cs_log_dir = a5, cs_config_dir = a6, cs_runtime_config = a7\<rparr> }"

definition norm_config_node :: "config_node \<Rightarrow> config_node" where
  "norm_config_node x = x\<lparr>cs_runtime_config := (map_option norm_vals) (cs_runtime_config x)\<rparr>"

lemma codec_config_node [json_simps, simp]: "dec_config_node (enc_config_node x) = Some (norm_config_node x)" "enc_config_node x \<noteq> JNull"
  by (simp_all add: dec_config_node_def enc_config_node_def norm_config_node_def  json_simps)

lemma norm_config_node_idem [simp]: "norm_config_node (norm_config_node x) = norm_config_node x"
  by (simp add: norm_config_node_def norm_idems)

definition enc_replica_set_spec :: "replica_set_spec \<Rightarrow> json" where
  "enc_replica_set_spec x = jobj [
     (''Name'', Some (JStr (rs_name x))),
     (''Members'', Some ((enc_list JStr) (rs_members x)))]"

definition dec_replica_set_spec :: "json \<Rightarrow> replica_set_spec option" where
  "dec_replica_set_spec j = do {
     a0 \<leftarrow> jfield ''Name'' [] dec_str j;
     a1 \<leftarrow> jfield ''Members'' [] (dec_list dec_str) j;
     Some \<lparr>rs_name = a0, rs_members = a1\<rparr> }"

lemma codec_replica_set_spec [json_simps, simp]: "dec_replica_set_spec (enc_replica_set_spec x) = Some (x)" "enc_replica_set_spec x \<noteq> JNull"
  by (simp_all add: dec_replica_set_spec_def enc_replica_set_spec_def dec_enc_list json_simps)

definition enc_topology :: "topology \<Rightarrow> json" where
  "enc_topology x = jobj [
     (''Global'', Some (enc_global_config (t_global x))),
     (''Mongod'', Some ((enc_list enc_mongod_node) (t_mongod x))),
     (''Mongos'', Some ((enc_list enc_mongos_node) (t_mongos x))),
     (''ConfigSvr'', Some ((enc_list enc_config_node) (t_config_svr x))),
     (''ReplicaSets'', Some ((enc_list enc_replica_set_spec) (t_replica_sets x)))]"

definition dec_topology :: "json \<Rightarrow> topology option" where
  "dec_topology j = do {
     a0 \<leftarrow> jstruct ''Global'' dec_global_config j;
     a1 \<leftarrow> jfield ''Mongod'' [] (dec_list dec_mongod_node) j;
     a2 \<leftarrow> jfield ''Mongos'' [] (dec_list dec_mongos_node) j;
     a3 \<leftarrow> jfield ''ConfigSvr'' [] (dec_list dec_config_node) j;
     a4 \<leftarrow> jfield ''ReplicaSets'' [] (dec_list dec_replica_set_spec) j;
     Some \<lparr>t_global = a0, t_mongod = a1, t_mongos = a2, t_config_svr = a3, t_replica_sets = a4\<rparr> }"

definition norm_topology :: "topology \<Rightarrow> topology" where
  "norm_topology x = x\<lparr>t_global := norm_global_config (t_global x), t_mongod := (map norm_mongod_node) (t_mongod x), t_mongos := (map norm_mongos_node) (t_mongos x), t_config_svr := (map norm_config_node) (t_config_svr x)\<rparr>"

lemma codec_topology [json_simps, simp]: "dec_topology (enc_topology x) = Some (norm_topology x)" "enc_topology x \<noteq> JNull"
  by (simp_all add: dec_topology_def enc_topology_def norm_topology_def dec_enc_list json_simps)

lemma norm_topology_idem [simp]: "norm_topology (norm_topology x) = norm_topology x"
  by (simp add: norm_topology_def norm_idems)


section \<open>The plan\<close>

text \<open>Parameters: a topology pointer is written as its document and read back as an untyped map.\<close>

definition enc_pval :: "pval \<Rightarrow> json" where
  "enc_pval v = (case v of PV g \<Rightarrow> enc_val g | PTopology t \<Rightarrow> enc_topology t)"

definition norm_pval :: "pval \<Rightarrow> pval" where
  "norm_pval v = PV (dec_val (enc_pval v))"

definition norm_pvals :: "(string, pval) gomap \<Rightarrow> (string, pval) gomap" where
  "norm_pvals m = map (\<lambda>(k, v). (k, norm_pval v)) m"

lemma norm_val_dec [simp]: "norm_val (dec_val j) = dec_val j"
  by (induction j) auto

lemma norm_pvals_idem [simp, norm_idems]: "norm_pvals (norm_pvals m) = norm_pvals m"
  by (simp add: norm_pvals_def norm_pval_def enc_pval_def o_def case_prod_unfold)

lemma norm_pvals_Nil [json_simps]: "norm_pvals [] = []"
  by (simp add: norm_pvals_def)

lemma mget_norm_pvals: "mget (norm_pvals m) k = map_option norm_pval (mget m k)"
  by (induction m) (auto simp: norm_pvals_def)

lemma dec_enc_pvals [json_simps]:
  "dec_map (\<lambda>j. Some (PV (dec_val j))) (enc_map enc_pval m) = Some (norm_pvals m)"
  unfolding norm_pvals_def by (rule dec_enc_map) (simp add: norm_pval_def)

definition enc_hook :: "hook \<Rightarrow> json" where
  "enc_hook x = jobj [
     (''name'', Some (JStr (hk_name x))),
     (''command'', Some (JStr (hk_command x))),
     (''timeout'', Some (enc_int (hk_timeout x))),
     (''environment'', unless_zero (hk_env x = []) ((enc_map JStr) (hk_env x))),
     (''continue_on_error'', Some (JBool (hk_continue x)))]"

definition dec_hook :: "json \<Rightarrow> hook option" where
  "dec_hook j = do {
     a0 \<leftarrow> jfield ''name'' [] dec_str j;
     a1 \<leftarrow> jfield ''command'' [] dec_str j;
     a2 \<leftarrow> jfield ''timeout'' 0 dec_int j;
     a3 \<leftarrow> jfield ''environment'' [] (dec_map dec_str) j;
     a4 \<leftarrow> jfield ''continue_on_error'' False dec_bool j;
     Some \<lparr>hk_name = a0, hk_command = a1, hk_timeout = a2, hk_env = a3, hk_continue = a4\<rparr> }"

lemma codec_hook [json_simps, simp]: "dec_hook (enc_hook x) = Some (x)" "enc_hook x \<noteq> JNull"
  by (simp_all add: dec_hook_def enc_hook_def dec_enc_map json_simps)

definition enc_safety_check :: "safety_check \<Rightarrow> json" where
  "enc_safety_check x = jobj [
     (''id'', Some (JStr (sc_id x))),
     (''description'', Some (JStr (sc_description x))),
     (''check_type'', Some (JStr (sc_type x))),
     (''target'', Some (JStr (sc_target x))),
     (''params'', Some ((enc_map enc_val) (sc_params x))),
     (''required'', Some (JBool (sc_required x)))]"

definition dec_safety_check :: "json \<Rightarrow> safety_check option" where
  "dec_safety_check j = do {
     a0 \<leftarrow> jfield ''id'' [] dec_str j;
     a1 \<leftarrow> jfield ''description'' [] dec_str j;
     a2 \<leftarrow> jfield ''check_type'' [] dec_str j;
     a3 \<leftarrow> jfield ''target'' [] dec_str j;
     a4 \<leftarrow> jfield ''params'' [] (dec_map (\<lambda>j. Some (dec_val j))) j;
     a5 \<leftarrow> jfield ''required'' False dec_bool j;
     Some \<lparr>sc_id = a0, sc_description = a1, sc_type = a2, sc_target = a3, sc_params = a4, sc_required = a5\<rparr> }"

definition norm_safety_check :: "safety_check \<Rightarrow> safety_check" where
  "norm_safety_check x = x\<lparr>sc_params := norm_vals (sc_params x)\<rparr>"

lemma codec_safety_check [json_simps, simp]: "dec_safety_check (enc_safety_check x) = Some (norm_safety_check x)" "enc_safety_check x \<noteq> JNull"
  by (simp_all add: dec_safety_check_def enc_safety_check_def norm_safety_check_def  json_simps)

lemma norm_safety_check_idem [simp]: "norm_safety_check (norm_safety_check x) = norm_safety_check x"
  by (simp add: norm_safety_check_def norm_idems)

definition enc_change :: "change \<Rightarrow> json" where
  "enc_change x = jobj [
     (''resource_type'', Some (JStr (ch_type x))),
     (''resource_id'', Some (JStr (ch_id x))),
     (''action'', Some (JStr (ch_action x))),
     (''before'', unless_zero (ch_before x = GNil) (enc_val (ch_before x))),
     (''after'', unless_zero (ch_after x = GNil) (enc_val (ch_after x)))]"

definition dec_change :: "json \<Rightarrow> change option" where
  "dec_change j = do {
     a0 \<leftarrow> jfield ''resource_type'' [] dec_str j;
     a1 \<leftarrow> jfield ''resource_id'' [] dec_str j;
     a2 \<leftarrow> jfield ''action'' [] dec_str j;
     a3 \<leftarrow> jfield ''before'' GNil (\<lambda>j. Some (dec_val j)) j;
     a4 \<leftarrow> jfield ''after'' GNil (\<lambda>j. Some (dec_val j)) j;
     Some \<lparr>ch_type = a0, ch_id = a1, ch_action = a2, ch_before = a3, ch_after = a4\<rparr> }"

definition norm_change :: "change \<Rightarrow> change" where
  "norm_change x = x\<lparr>ch_before := norm_val (ch_before x), ch_after := norm_val (ch_after x)\<rparr>"

lemma codec_change [json_simps, simp]: "dec_change (enc_change x) = Some (norm_change x)" "enc_change x \<noteq> JNull"
  by (simp_all add: dec_change_def enc_change_def norm_change_def  json_simps)

lemma norm_change_idem [simp]: "norm_change (norm_change x) = norm_change x"
  by (simp add: norm_change_def norm_idems)

definition enc_op_target :: "op_target \<Rightarrow> json" where
  "enc_op_target x = jobj [
     (''type'', Some (JStr (tg_type x))),
     (''name'', Some (JStr (tg_name x))),
     (''host'', unless_zero (tg_host x = []) (JStr (tg_host x))),
     (''port'', unless_zero (tg_port x = 0) (enc_int (tg_port x))),
     (''params'', unless_zero (tg_params x = []) ((enc_map JStr) (tg_params x)))]"

definition dec_op_target :: "json \<Rightarrow> op_target option" where
  "dec_op_target j = do {
     a0 \<leftarrow> jfield ''type'' [] dec_str j;
     a1 \<leftarrow> jfield ''name'' [] dec_str j;
     a2 \<leftarrow> jfield ''host'' [] dec_str j;
     a3 \<leftarrow> jfield ''port'' 0 dec_int j;
     a4 \<leftarrow> jfield ''params'' [] (dec_map dec_str) j;
     Some \<lparr>tg_type = a0, tg_name = a1, tg_host = a2, tg_port = a3, tg_params = a4\<rparr> }"

lemma codec_op_target [json_simps, simp]: "dec_op_target (enc_op_target x) = Some (x)" "enc_op_target x \<noteq> JNull"
  by (simp_all add: dec_op_target_def enc_op_target_def dec_enc_map json_simps)

definition enc_planned_operation :: "planned_operation \<Rightarrow> json" where
  "enc_planned_operation x = jobj [
     (''id'', Some (JStr (po_id x))),
     (''type'', Some (JStr (po_type x))),
     (''description'', Some (JStr (po_description x))),
     (''target'', Some (enc_op_target (po_target x))),
     (''pre_conditions'', unless_zero (po_pre x = []) ((enc_list enc_safety_check) (po_pre x))),
     (''changes'', Some ((enc_list enc_change) (po_changes x))),
     (''depends_on'', unless_zero (po_depends x = []) ((enc_list JStr) (po_depends x))),
     (''parallel'', Some (JBool (po_parallel x))),
     (''params'', unless_zero (po_params x = []) ((enc_map enc_pval) (po_params x)))]"

definition dec_planned_operation :: "json \<Rightarrow> planned_operation option" where
  "dec_planned_operation j = do {
     a0 \<leftarrow> jfield ''id'' [] dec_str j;
     a1 \<leftarrow> jfield ''type'' [] dec_str j;
     a2 \<leftarrow> jfield ''description'' [] dec_str j;
     a3 \<leftarrow> jstruct ''target'' dec_op_target j;
     a4 \<leftarrow> jfield ''pre_conditions'' [] (dec_list dec_safety_check) j;
     a5 \<leftarrow> jfield ''changes'' [] (dec_list dec_change) j;
     a6 \<leftarrow> jfield ''depends_on'' [] (dec_list dec_str) j;
     a7 \<leftarrow> jfield ''parallel'' False dec_bool j;
     a8 \<leftarrow> jfield ''params'' [] (dec_map (\<lambda>j. Some (PV (dec_val j)))) j;
     Some \<lparr>po_id = a0, po_type = a1, po_description = a2, po_target = a3, po_pre = a4, po_changes = a5, po_depends = a6, po_parallel = a7, po_params = a8\<rparr> }"

definition norm_planned_operation :: "planned_operation \<Rightarrow> planned_operation" where
  "norm_planned_operation x = x\<lparr>po_pre := (map norm_safety_check) (po_pre x), po_changes := (map norm_change) (po_changes x), po_params := norm_pvals (po_params x)\<rparr>"

lemma codec_planned_operation [json_simps, simp]: "dec_planned_operation (enc_planned_operation x) = Some (norm_planned_operation x)" "enc_planned_operation x \<noteq> JNull"
  by (simp_all add: dec_planned_operation_def enc_planned_operation_def norm_planned_operation_def dec_enc_list json_simps)

lemma norm_planned_operation_idem [simp]: "norm_planned_operation (norm_planned_operation x) = norm_planned_operation x"
  by (simp add: norm_planned_operation_def norm_idems)

definition enc_planned_phase :: "planned_phase \<Rightarrow> json" where
  "enc_planned_phase x = jobj [
     (''name'', Some (JStr (ph_name x))),
     (''description'', Some (JStr (ph_description x))),
     (''order'', Some (enc_int (ph_order x))),
     (''operations'', Some ((enc_list enc_planned_operation) (ph_operations x))),
     (''before_hook'', unless_zero (ph_before x = None) ((enc_ptr enc_hook) (ph_before x))),
     (''after_hook'', unless_zero (ph_after x = None) ((enc_ptr enc_hook) (ph_after x))),
     (''estimated_duration'', unless_zero (ph_duration x = []) (JStr (ph_duration x)))]"

definition dec_planned_phase :: "json \<Rightarrow> planned_phase option" where
  "dec_planned_phase j = do {
     a0 \<leftarrow> jfield ''name'' [] dec_str j;
     a1 \<leftarrow> jfield ''description'' [] dec_str j;
     a2 \<leftarrow> jfield ''order'' 0 dec_int j;
     a3 \<leftarrow> jfield ''operations'' [] (dec_list dec_planned_operation) j;
     a4 \<leftarrow> jfield ''before_hook'' None (dec_ptr dec_hook) j;
     a5 \<leftarrow> jfield ''after_hook'' None (dec_ptr dec_hook) j;
     a6 \<leftarrow> jfield ''estimated_duration'' [] dec_str j;
     Some \<lparr>ph_name = a0, ph_description = a1, ph_order = a2, ph_operations = a3, ph_before = a4, ph_after = a5, ph_duration = a6\<rparr> }"

definition norm_planned_phase :: "planned_phase \<Rightarrow> planned_phase" where
  "norm_planned_phase x = x\<lparr>ph_operations := (map norm_planned_operation) (ph_operations x)\<rparr>"

lemma codec_planned_phase [json_simps, simp]: "dec_planned_phase (enc_planned_phase x) = Some (norm_planned_phase x)" "enc_planned_phase x \<noteq> JNull"
  by (simp_all add: dec_planned_phase_def enc_planned_phase_def norm_planned_phase_def dec_enc_list json_simps)

lemma norm_planned_phase_idem [simp]: "norm_planned_phase (norm_planned_phase x) = norm_planned_phase x"
  by (simp add: norm_planned_phase_def norm_idems)

definition enc_validation_issue :: "validation_issue \<Rightarrow> json" where
  "enc_validation_issue x = jobj [
     (''code'', Some (JStr (vi_code x))),
     (''message'', Some (JStr (vi_message x))),
     (''host'', unless_zero (vi_host x = []) (JStr (vi_host x))),
     (''severity'', Some (JStr (vi_severity x)))]"

definition dec_validation_issue :: "json \<Rightarrow> validation_issue option" where
  "dec_validation_issue j = do {
     a0 \<leftarrow> jfield ''code'' [] dec_str j;
     a1 \<leftarrow> jfield ''message'' [] dec_str j;
     a2 \<leftarrow> jfield ''host'' [] dec_str j;
     a3 \<leftarrow> jfield ''severity'' [] dec_str j;
     Some \<lparr>vi_code = a0, vi_message = a1, vi_host = a2, vi_severity = a3\<rparr> }"

lemma codec_validation_issue [json_simps, simp]: "dec_validation_issue (enc_validation_issue x) = Some (x)" "enc_validation_issue x \<noteq> JNull"
  by (simp_all add: dec_validation_issue_def enc_validation_issue_def  json_simps)

definition enc_check_result :: "check_result \<Rightarrow> json" where
  "enc_check_result x = jobj [
     (''name'', Some (JStr (cr_name x))),
     (''status'', Some (JStr (cr_status x))),
     (''message'', Some (JStr (cr_message x))),
     (''host'', unless_zero (cr_host x = []) (JStr (cr_host x))),
     (''duration'', Some (enc_int (cr_duration x))),
     (''details'', unless_zero (cr_details x = GNil) (enc_val (cr_details x)))]"

definition dec_check_result :: "json \<Rightarrow> check_result option" where
  "dec_check_result j = do {
     a0 \<leftarrow> jfield ''name'' [] dec_str j;
     a1 \<leftarrow> jfield ''status'' [] dec_str j;
     a2 \<leftarrow> jfield ''message'' [] dec_str j;
     a3 \<leftarrow> jfield ''host'' [] dec_str j;
     a4 \<leftarrow> jfield ''duration'' 0 dec_int j;
     a5 \<leftarrow> jfield ''details'' GNil (\<lambda>j. Some (dec_val j)) j;
     Some \<lparr>cr_name = a0, cr_status = a1, cr_message = a2, cr_host = a3, cr_duration = a4, cr_details = a5\<rparr> }"

definition norm_check_result :: "check_result \<Rightarrow> check_result" where
  "norm_check_result x = x\<lparr>cr_details := norm_val (cr_details x)\<rparr>"

lemma codec_check_result [json_simps, simp]: "dec_check_result (enc_check_result x) = Some (norm_check_result x)" "enc_check_result x \<noteq> JNull"
  by (simp_all add: dec_check_result_def enc_check_result_def norm_check_result_def  json_simps)

lemma norm_check_result_idem [simp]: "norm_check_result (norm_check_result x) = norm_check_result x"
  by (simp add: norm_check_result_def norm_idems)

definition enc_validation_result :: "validation_result \<Rightarrow> json" where
  "enc_validation_result x = jobj [
     (''valid'', Some (JBool (vr_valid x))),
     (''errors'', Some ((enc_list enc_validation_issue) (vr_errors x))),
     (''warnings'', Some ((enc_list enc_validation_issue) (vr_warnings x))),
     (''checks'', Some ((enc_list enc_check_result) (vr_checks x)))]"

definition dec_validation_result :: "json \<Rightarrow> validation_result option" where
  "dec_validation_result j = do {
     a0 \<leftarrow> jfield ''valid'' False dec_bool j;
     a1 \<leftarrow> jfield ''errors'' [] (dec_list dec_validation_issue) j;
     a2 \<leftarrow> jfield ''warnings'' [] (dec_list dec_validation_issue) j;
     a3 \<leftarrow> jfield ''checks'' [] (dec_list dec_check_result) j;
     Some \<lparr>vr_valid = a0, vr_errors = a1, vr_warnings = a2, vr_checks = a3\<rparr> }"

definition norm_validation_result :: "validation_result \<Rightarrow> validation_result" where
  "norm_validation_result x = x\<lparr>vr_checks := (map norm_check_result) (vr_checks x)\<rparr>"

lemma codec_validation_result [json_simps, simp]: "dec_validation_result (enc_validation_result x) = Some (norm_validation_result x)" "enc_validation_result x \<noteq> JNull"
  by (simp_all add: dec_validation_result_def enc_validation_result_def norm_validation_result_def dec_enc_list json_simps)

lemma norm_validation_result_idem [simp]: "norm_validation_result (norm_validation_result x) = norm_validation_result x"
  by (simp add: norm_validation_result_def norm_idems)

definition enc_resource_estimate :: "resource_estimate \<Rightarrow> json" where
  "enc_resource_estimate x = jobj [
     (''hosts'', Some (enc_int (re_hosts x))),
     (''total_processes'', Some (enc_int (re_total_processes x))),
     (''ports_used'', Some ((enc_list enc_int) (re_ports_used x))),
     (''disk_space_gb'', Some (JNum (re_disk_space_gb x))),
     (''memory_mb'', unless_zero (re_memory_mb x = 0) (enc_int (re_memory_mb x))),
     (''download_size_mb'', unless_zero (re_download_size_mb x = 0) (enc_int (re_download_size_mb x))),
     (''processes_per_host'', Some ((enc_map enc_int) (re_processes_per_host x)))]"

definition dec_resource_estimate :: "json \<Rightarrow> resource_estimate option" where
  "dec_resource_estimate j = do {
     a0 \<leftarrow> jfield ''hosts'' 0 dec_int j;
     a1 \<leftarrow> jfield ''total_processes'' 0 dec_int j;
     a2 \<leftarrow> jfield ''ports_used'' [] (dec_list dec_int) j;
     a3 \<leftarrow> jfield ''disk_space_gb'' 0 dec_float j;
     a4 \<leftarrow> jfield ''memory_mb'' 0 dec_int j;
     a5 \<leftarrow> jfield ''download_size_mb'' 0 dec_int j;
     a6 \<leftarrow> jfield ''processes_per_host'' [] (dec_map dec_int) j;
     Some \<lparr>re_hosts = a0, re_total_processes = a1, re_ports_used = a2, re_disk_space_gb = a3, re_memory_mb = a4, re_download_size_mb = a5, re_processes_per_host = a6\<rparr> }"

lemma codec_resource_estimate [json_simps, simp]: "dec_resource_estimate (enc_resource_estimate x) = Some (x)" "enc_resource_estimate x \<noteq> JNull"
  by (simp_all add: dec_resource_estimate_def enc_resource_estimate_def dec_enc_list dec_enc_map json_simps)

definition enc_plan :: "plan \<Rightarrow> json" where
  "enc_plan x = jobj [
     (''plan_id'', Some (JStr (pl_id x))),
     (''operation'', Some (JStr (pl_operation x))),
     (''cluster_name'', Some (JStr (pl_cluster x))),
     (''created_at'', Some (JTime (pl_created_at x))),
     (''version'', unless_zero (pl_version x = []) (JStr (pl_version x))),
     (''variant'', unless_zero (pl_variant x = []) (JStr (pl_variant x))),
     (''topology_file'', unless_zero (pl_topology_file x = []) (JStr (pl_topology_file x))),
     (''topology'', unless_zero (pl_topology x = None) ((enc_ptr enc_topology) (pl_topology x))),
     (''config'', unless_zero (pl_config x = []) ((enc_map enc_val) (pl_config x))),
     (''validation'', Some (enc_validation_result (pl_validation x))),
     (''phases'', Some ((enc_list enc_planned_phase) (pl_phases x))),
     (''resources'', Some (enc_resource_estimate (pl_resources x))),
     (''dry_run'', Some (JBool (pl_dry_run x))),
     (''environment'', unless_zero (pl_environment x = []) ((enc_map JStr) (pl_environment x)))]"

definition dec_plan :: "json \<Rightarrow> plan option" where
  "dec_plan j = do {
     a0 \<leftarrow> jfield ''plan_id'' [] dec_str j;
     a1 \<leftarrow> jfield ''operation'' [] dec_str j;
     a2 \<leftarrow> jfield ''cluster_name'' [] dec_str j;
     a3 \<leftarrow> jfield ''created_at'' 0 dec_time j;
     a4 \<leftarrow> jfield ''version'' [] dec_str j;
     a5 \<leftarrow> jfield ''variant'' [] dec_str j;
     a6 \<leftarrow> jfield ''topology_file'' [] dec_str j;
     a7 \<leftarrow> jfield ''topology'' None (dec_ptr dec_topology) j;
     a8 \<leftarrow> jfield ''config'' [] (dec_map (\<lambda>j. Some (dec_val j))) j;
     a9 \<leftarrow> jstruct ''validation'' dec_validation_result j;
     a10 \<leftarrow> jfield ''phases'' [] (dec_list dec_planned_phase) j;
     a11 \<leftarrow> jstruct ''resources'' dec_resource_estimate j;
     a12 \<leftarrow> jfield ''dry_run'' False dec_bool j;
     a13 \<leftarrow> jfield ''environment'' [] (dec_map dec_str) j;
     Some \<lparr>pl_id = a0, pl_operation = a1, pl_cluster = a2, pl_created_at = a3, pl_version = a4, pl_variant = a5, pl_topology_file = a6, pl_topology = a7, pl_config = a8, pl_validation = a9, pl_phases = a10, pl_resources = a11, pl_dry_run = a12, pl_environment = a13\<rparr> }"

definition norm_plan :: "plan \<Rightarrow> plan" where
  "norm_plan x = x\<lparr>pl_topology := (map_option norm_topology) (pl_topology x), pl_config := norm_vals (pl_config x), pl_validation := norm_validation_result (pl_validation x), pl_phases := (map norm_planned_phase) (pl_phases x)\<rparr>"

lemma codec_plan [json_simps, simp]: "dec_plan (enc_plan x) = Some (norm_plan x)" "enc_plan x \<noteq> JNull"
  by (simp_all add: dec_plan_def enc_plan_def norm_plan_def dec_enc_list dec_enc_map json_simps)

lemma norm_plan_idem [simp]: "norm_plan (norm_plan x) = norm_plan x"
  by (simp add: norm_plan_def norm_idems)

section \<open>The contract\<close>

interpretation plan_codec: codec enc_plan dec_plan norm_plan
  by unfold_locales simp_all

interpretation topology_codec: codec enc_topology dec_topology norm_topology
  by unfold_locales simp_all

end
