(* ===== verification/Apply_State.thy ===== *)
theory Apply_State imports Plan_Json begin

text \<open>
  \<^verbatim>\<open>pkg/apply/state.go\<close>: the progress of an apply, its transitions, and its file.

  Every method of \<^verbatim>\<open>ApplyState\<close> holds the state's mutex from its first to its last line, so a method
  is one step; it takes the state and returns it, reading the clock as often as the code does.
\<close>

section \<open>Data\<close>

definition status_pending :: string where "status_pending = ''pending''"
definition status_running :: string where "status_running = ''running''"
definition status_paused :: string where "status_paused = ''paused''"
definition status_completed :: string where "status_completed = ''completed''"
definition status_failed :: string where "status_failed = ''failed''"
definition status_rolled_back :: string where "status_rolled_back = ''rolled_back''"

lemmas status_defs = status_pending_def status_running_def status_paused_def status_completed_def
  status_failed_def status_rolled_back_def

record phase_state =
  ps_name :: string
  ps_status :: string
  ps_started :: "int option"
  ps_completed :: "int option"
  ps_error :: string

record operation_result =
  or_success :: bool
  or_output :: string
  or_changes :: "change list"
  or_metadata :: "(string, goval) gomap"

record operation_state =
  opst_id :: string
  opst_status :: string
  opst_started :: "int option"
  opst_completed :: "int option"
  opst_error :: string
  opst_result :: "operation_result option"
  opst_retries :: int

record checkpoint =
  cp_id :: string
  cp_description :: string
  cp_timestamp :: int
  cp_phase :: string
  cp_operation :: string
  cp_state_path :: string

record execution_error =
  ee_timestamp :: int
  ee_phase :: string
  ee_operation :: string
  ee_error :: string
  ee_recoverable :: bool

record log_entry =
  le_timestamp :: int
  le_level :: string
  le_phase :: string
  le_operation :: string
  le_message :: string

record apply_state =
  as_id :: string
  as_plan :: string
  as_cluster :: string
  as_operation :: string
  as_status :: string
  as_started :: int
  as_updated :: int
  as_completed :: "int option"
  as_phase :: string
  as_phases :: "(string, phase_state) gomap"
  as_ops :: "(string, operation_state) gomap"
  as_checkpoints :: "checkpoint list"
  as_errors :: "execution_error list"
  as_log :: "log_entry list"

section \<open>Transitions\<close>

definition log_unsafe :: "string \<Rightarrow> string \<Rightarrow> string \<Rightarrow> string \<Rightarrow> apply_state \<Rightarrow> apply_state io" where
  "log_unsafe level phase oper msg s = do {
     t \<leftarrow> time_now;
     now \<leftarrow> time_now;
     ret (s\<lparr>as_log := as_log s @ [\<lparr>le_timestamp = t, le_level = level, le_phase = phase, le_operation = oper,
            le_message = msg\<rparr>], as_updated := now\<rparr>) }"

definition new_apply_state :: "string \<Rightarrow> string \<Rightarrow> string \<Rightarrow> apply_state io" where
  "new_apply_state plan_id cluster oper = do {
     now \<leftarrow> time_now;
     u \<leftarrow> new_uuid;
     ret \<lparr>as_id = u, as_plan = plan_id, as_cluster = cluster, as_operation = oper,
       as_status = status_pending, as_started = now, as_updated = now, as_completed = None, as_phase = [],
       as_phases = [], as_ops = [], as_checkpoints = [], as_errors = [], as_log = []\<rparr> }"

definition is_terminal :: "string \<Rightarrow> bool" where
  "is_terminal st = (st = status_completed \<or> st = status_failed \<or> st = status_rolled_back)"

definition update_status :: "string \<Rightarrow> apply_state \<Rightarrow> apply_state io" where
  "update_status st s = do {
     t \<leftarrow> time_now;
     let s1 = s\<lparr>as_status := st, as_updated := t\<rparr>;
     if is_terminal st then do { now \<leftarrow> time_now; ret (s1\<lparr>as_completed := Some now\<rparr>) } else ret s1 }"

definition start_phase :: "string \<Rightarrow> apply_state \<Rightarrow> apply_state io" where
  "start_phase name s = do {
     now \<leftarrow> time_now;
     let ps = \<lparr>ps_name = name, ps_status = status_running, ps_started = Some now, ps_completed = None, ps_error = []\<rparr>;
     log_unsafe ''info'' name [] (''Starting phase: '' @ name)
       (s\<lparr>as_phase := name, as_phases := mput name ps (as_phases s), as_updated := now\<rparr>) }"

text \<open>A change to the entry of a map of pointers, if there is one.\<close>

definition mmodify :: "'k \<Rightarrow> ('v \<Rightarrow> 'v) \<Rightarrow> ('k, 'v) gomap \<Rightarrow> ('k, 'v) gomap" where
  "mmodify k f m = (case mget m k of None \<Rightarrow> m | Some v \<Rightarrow> mput k (f v) m)"

definition complete_phase :: "string \<Rightarrow> apply_state \<Rightarrow> apply_state io" where
  "complete_phase name s = do {
     now \<leftarrow> time_now;
     log_unsafe ''info'' name [] (''Completed phase: '' @ name)
       (s\<lparr>as_phases := mmodify name (\<lambda>p. p\<lparr>ps_status := status_completed, ps_completed := Some now\<rparr>) (as_phases s),
          as_updated := now\<rparr>) }"

definition fail_phase :: "string \<Rightarrow> err \<Rightarrow> apply_state \<Rightarrow> apply_state io" where
  "fail_phase name e s = do {
     now \<leftarrow> time_now;
     log_unsafe ''error'' name [] (''Phase failed: '' @ name @ '' - '' @ e)
       (s\<lparr>as_phases := mmodify name (\<lambda>p. p\<lparr>ps_status := status_failed, ps_completed := Some now, ps_error := e\<rparr>) (as_phases s),
          as_updated := now\<rparr>) }"

definition start_operation :: "string \<Rightarrow> apply_state \<Rightarrow> apply_state io" where
  "start_operation i s = do {
     now \<leftarrow> time_now;
     ret (s\<lparr>as_ops := mput i \<lparr>opst_id = i, opst_status = status_running, opst_started = Some now,
              opst_completed = None, opst_error = [], opst_result = None, opst_retries = 0\<rparr> (as_ops s),
            as_updated := now\<rparr>) }"

definition complete_operation :: "string \<Rightarrow> operation_result \<Rightarrow> apply_state \<Rightarrow> apply_state io" where
  "complete_operation i r s = do {
     now \<leftarrow> time_now;
     ret (s\<lparr>as_ops := mmodify i (\<lambda>p. p\<lparr>opst_status := status_completed, opst_completed := Some now, opst_result := Some r\<rparr>) (as_ops s),
            as_updated := now\<rparr>) }"

definition fail_operation :: "string \<Rightarrow> err \<Rightarrow> bool \<Rightarrow> apply_state \<Rightarrow> apply_state io" where
  "fail_operation i e recoverable s = do {
     now \<leftarrow> time_now;
     ret (s\<lparr>as_ops := mmodify i (\<lambda>p. p\<lparr>opst_status := status_failed, opst_completed := Some now, opst_error := e\<rparr>) (as_ops s),
            as_errors := as_errors s @ [\<lparr>ee_timestamp = now, ee_phase = as_phase s, ee_operation = i, ee_error = e,
              ee_recoverable = recoverable\<rparr>],
            as_updated := now\<rparr>) }"

definition state_create_checkpoint :: "string \<Rightarrow> string \<Rightarrow> apply_state \<Rightarrow> apply_state io" where
  "state_create_checkpoint desc path s = do {
     u \<leftarrow> new_uuid;
     t \<leftarrow> time_now;
     log_unsafe ''info'' (as_phase s) [] (''Checkpoint created: '' @ desc)
       (s\<lparr>as_checkpoints := as_checkpoints s @ [\<lparr>cp_id = u, cp_description = desc, cp_timestamp = t,
          cp_phase = as_phase s, cp_operation = [], cp_state_path = path\<rparr>]\<rparr>) }"

definition get_last_checkpoint :: "apply_state \<Rightarrow> checkpoint option" where
  "get_last_checkpoint s = (if as_checkpoints s = [] then None else Some (last (as_checkpoints s)))"

definition state_log :: "string \<Rightarrow> string \<Rightarrow> string \<Rightarrow> string \<Rightarrow> apply_state \<Rightarrow> apply_state io" where
  "state_log level phase oper msg s = log_unsafe level phase oper msg s"

definition state_is_complete :: "apply_state \<Rightarrow> bool" where
  "state_is_complete s = is_terminal (as_status s)"

definition can_resume :: "apply_state \<Rightarrow> bool" where
  "can_resume s = (as_status s = status_paused \<or> as_status s = status_failed)"

definition get_phase_progress :: "string \<Rightarrow> apply_state \<Rightarrow> nat \<times> nat" where
  "get_phase_progress name s = (case mget (as_phases s) name of
     Some p \<Rightarrow> if ps_status p = status_completed then (1, 1) else (0, 1)
   | None \<Rightarrow> (0, 1))"

section \<open>JSON documents\<close>

lemma norm_entry_idem [norm_idems]:
  "(\<And>v. f (f v) = f v) \<Longrightarrow> map (\<lambda>(k, v). (k, f v)) (map (\<lambda>(k, v). (k, f v)) m) = map (\<lambda>(k, v). (k, f v)) m"
  by (induction m) auto

definition enc_phase_state :: "phase_state \<Rightarrow> json" where
  "enc_phase_state x = jobj [
     (''name'', Some (JStr (ps_name x))),
     (''status'', Some (JStr (ps_status x))),
     (''started_at'', unless_zero (ps_started x = None) ((enc_ptr JTime) (ps_started x))),
     (''completed_at'', unless_zero (ps_completed x = None) ((enc_ptr JTime) (ps_completed x))),
     (''error'', unless_zero (ps_error x = []) (JStr (ps_error x)))]"

definition dec_phase_state :: "json \<Rightarrow> phase_state option" where
  "dec_phase_state j = do {
     a0 \<leftarrow> jfield ''name'' [] dec_str j;
     a1 \<leftarrow> jfield ''status'' [] dec_str j;
     a2 \<leftarrow> jfield ''started_at'' None (dec_ptr dec_time) j;
     a3 \<leftarrow> jfield ''completed_at'' None (dec_ptr dec_time) j;
     a4 \<leftarrow> jfield ''error'' [] dec_str j;
     Some \<lparr>ps_name = a0, ps_status = a1, ps_started = a2, ps_completed = a3, ps_error = a4\<rparr> }"

lemma codec_phase_state [json_simps, simp]: "dec_phase_state (enc_phase_state x) = Some (x)" "enc_phase_state x \<noteq> JNull"
  by (simp_all add: dec_phase_state_def enc_phase_state_def  json_simps)

definition enc_operation_result :: "operation_result \<Rightarrow> json" where
  "enc_operation_result x = jobj [
     (''success'', Some (JBool (or_success x))),
     (''output'', unless_zero (or_output x = []) (JStr (or_output x))),
     (''changes'', Some ((enc_list enc_change) (or_changes x))),
     (''metadata'', unless_zero (or_metadata x = []) ((enc_map enc_val) (or_metadata x)))]"

definition dec_operation_result :: "json \<Rightarrow> operation_result option" where
  "dec_operation_result j = do {
     a0 \<leftarrow> jfield ''success'' False dec_bool j;
     a1 \<leftarrow> jfield ''output'' [] dec_str j;
     a2 \<leftarrow> jfield ''changes'' [] (dec_list dec_change) j;
     a3 \<leftarrow> jfield ''metadata'' [] (dec_map (\<lambda>j. Some (dec_val j))) j;
     Some \<lparr>or_success = a0, or_output = a1, or_changes = a2, or_metadata = a3\<rparr> }"

definition norm_operation_result :: "operation_result \<Rightarrow> operation_result" where
  "norm_operation_result x = x\<lparr>or_changes := (map norm_change) (or_changes x), or_metadata := norm_vals (or_metadata x)\<rparr>"

lemma codec_operation_result [json_simps, simp]: "dec_operation_result (enc_operation_result x) = Some (norm_operation_result x)" "enc_operation_result x \<noteq> JNull"
  by (simp_all add: dec_operation_result_def enc_operation_result_def norm_operation_result_def dec_enc_list json_simps)

lemma norm_operation_result_idem [simp]: "norm_operation_result (norm_operation_result x) = norm_operation_result x"
  by (simp add: norm_operation_result_def norm_idems)

definition enc_operation_state :: "operation_state \<Rightarrow> json" where
  "enc_operation_state x = jobj [
     (''id'', Some (JStr (opst_id x))),
     (''status'', Some (JStr (opst_status x))),
     (''started_at'', unless_zero (opst_started x = None) ((enc_ptr JTime) (opst_started x))),
     (''completed_at'', unless_zero (opst_completed x = None) ((enc_ptr JTime) (opst_completed x))),
     (''error'', unless_zero (opst_error x = []) (JStr (opst_error x))),
     (''result'', unless_zero (opst_result x = None) ((enc_ptr enc_operation_result) (opst_result x))),
     (''retries'', Some (enc_int (opst_retries x)))]"

definition dec_operation_state :: "json \<Rightarrow> operation_state option" where
  "dec_operation_state j = do {
     a0 \<leftarrow> jfield ''id'' [] dec_str j;
     a1 \<leftarrow> jfield ''status'' [] dec_str j;
     a2 \<leftarrow> jfield ''started_at'' None (dec_ptr dec_time) j;
     a3 \<leftarrow> jfield ''completed_at'' None (dec_ptr dec_time) j;
     a4 \<leftarrow> jfield ''error'' [] dec_str j;
     a5 \<leftarrow> jfield ''result'' None (dec_ptr dec_operation_result) j;
     a6 \<leftarrow> jfield ''retries'' 0 dec_int j;
     Some \<lparr>opst_id = a0, opst_status = a1, opst_started = a2, opst_completed = a3, opst_error = a4, opst_result = a5, opst_retries = a6\<rparr> }"

definition norm_operation_state :: "operation_state \<Rightarrow> operation_state" where
  "norm_operation_state x = x\<lparr>opst_result := (map_option norm_operation_result) (opst_result x)\<rparr>"

lemma codec_operation_state [json_simps, simp]: "dec_operation_state (enc_operation_state x) = Some (norm_operation_state x)" "enc_operation_state x \<noteq> JNull"
  by (simp_all add: dec_operation_state_def enc_operation_state_def norm_operation_state_def  json_simps)

lemma norm_operation_state_idem [simp]: "norm_operation_state (norm_operation_state x) = norm_operation_state x"
  by (simp add: norm_operation_state_def norm_idems)

definition enc_checkpoint :: "checkpoint \<Rightarrow> json" where
  "enc_checkpoint x = jobj [
     (''id'', Some (JStr (cp_id x))),
     (''description'', Some (JStr (cp_description x))),
     (''timestamp'', Some (JTime (cp_timestamp x))),
     (''phase'', Some (JStr (cp_phase x))),
     (''operation'', unless_zero (cp_operation x = []) (JStr (cp_operation x))),
     (''state_path'', Some (JStr (cp_state_path x)))]"

definition dec_checkpoint :: "json \<Rightarrow> checkpoint option" where
  "dec_checkpoint j = do {
     a0 \<leftarrow> jfield ''id'' [] dec_str j;
     a1 \<leftarrow> jfield ''description'' [] dec_str j;
     a2 \<leftarrow> jfield ''timestamp'' 0 dec_time j;
     a3 \<leftarrow> jfield ''phase'' [] dec_str j;
     a4 \<leftarrow> jfield ''operation'' [] dec_str j;
     a5 \<leftarrow> jfield ''state_path'' [] dec_str j;
     Some \<lparr>cp_id = a0, cp_description = a1, cp_timestamp = a2, cp_phase = a3, cp_operation = a4, cp_state_path = a5\<rparr> }"

lemma codec_checkpoint [json_simps, simp]: "dec_checkpoint (enc_checkpoint x) = Some (x)" "enc_checkpoint x \<noteq> JNull"
  by (simp_all add: dec_checkpoint_def enc_checkpoint_def  json_simps)

definition enc_execution_error :: "execution_error \<Rightarrow> json" where
  "enc_execution_error x = jobj [
     (''timestamp'', Some (JTime (ee_timestamp x))),
     (''phase'', Some (JStr (ee_phase x))),
     (''operation'', Some (JStr (ee_operation x))),
     (''error'', Some (JStr (ee_error x))),
     (''recoverable'', Some (JBool (ee_recoverable x)))]"

definition dec_execution_error :: "json \<Rightarrow> execution_error option" where
  "dec_execution_error j = do {
     a0 \<leftarrow> jfield ''timestamp'' 0 dec_time j;
     a1 \<leftarrow> jfield ''phase'' [] dec_str j;
     a2 \<leftarrow> jfield ''operation'' [] dec_str j;
     a3 \<leftarrow> jfield ''error'' [] dec_str j;
     a4 \<leftarrow> jfield ''recoverable'' False dec_bool j;
     Some \<lparr>ee_timestamp = a0, ee_phase = a1, ee_operation = a2, ee_error = a3, ee_recoverable = a4\<rparr> }"

lemma codec_execution_error [json_simps, simp]: "dec_execution_error (enc_execution_error x) = Some (x)" "enc_execution_error x \<noteq> JNull"
  by (simp_all add: dec_execution_error_def enc_execution_error_def  json_simps)

definition enc_log_entry :: "log_entry \<Rightarrow> json" where
  "enc_log_entry x = jobj [
     (''timestamp'', Some (JTime (le_timestamp x))),
     (''level'', Some (JStr (le_level x))),
     (''phase'', Some (JStr (le_phase x))),
     (''operation'', unless_zero (le_operation x = []) (JStr (le_operation x))),
     (''message'', Some (JStr (le_message x)))]"

definition dec_log_entry :: "json \<Rightarrow> log_entry option" where
  "dec_log_entry j = do {
     a0 \<leftarrow> jfield ''timestamp'' 0 dec_time j;
     a1 \<leftarrow> jfield ''level'' [] dec_str j;
     a2 \<leftarrow> jfield ''phase'' [] dec_str j;
     a3 \<leftarrow> jfield ''operation'' [] dec_str j;
     a4 \<leftarrow> jfield ''message'' [] dec_str j;
     Some \<lparr>le_timestamp = a0, le_level = a1, le_phase = a2, le_operation = a3, le_message = a4\<rparr> }"

lemma codec_log_entry [json_simps, simp]: "dec_log_entry (enc_log_entry x) = Some (x)" "enc_log_entry x \<noteq> JNull"
  by (simp_all add: dec_log_entry_def enc_log_entry_def  json_simps)

definition enc_apply_state :: "apply_state \<Rightarrow> json" where
  "enc_apply_state x = jobj [
     (''state_id'', Some (JStr (as_id x))),
     (''plan_id'', Some (JStr (as_plan x))),
     (''cluster_name'', Some (JStr (as_cluster x))),
     (''operation'', Some (JStr (as_operation x))),
     (''status'', Some (JStr (as_status x))),
     (''started_at'', Some (JTime (as_started x))),
     (''updated_at'', Some (JTime (as_updated x))),
     (''completed_at'', unless_zero (as_completed x = None) ((enc_ptr JTime) (as_completed x))),
     (''current_phase'', Some (JStr (as_phase x))),
     (''phase_states'', Some ((enc_map enc_phase_state) (as_phases x))),
     (''operation_states'', Some ((enc_map enc_operation_state) (as_ops x))),
     (''checkpoints'', Some ((enc_list enc_checkpoint) (as_checkpoints x))),
     (''errors'', Some ((enc_list enc_execution_error) (as_errors x))),
     (''execution_log'', Some ((enc_list enc_log_entry) (as_log x)))]"

definition dec_apply_state :: "json \<Rightarrow> apply_state option" where
  "dec_apply_state j = do {
     a0 \<leftarrow> jfield ''state_id'' [] dec_str j;
     a1 \<leftarrow> jfield ''plan_id'' [] dec_str j;
     a2 \<leftarrow> jfield ''cluster_name'' [] dec_str j;
     a3 \<leftarrow> jfield ''operation'' [] dec_str j;
     a4 \<leftarrow> jfield ''status'' [] dec_str j;
     a5 \<leftarrow> jfield ''started_at'' 0 dec_time j;
     a6 \<leftarrow> jfield ''updated_at'' 0 dec_time j;
     a7 \<leftarrow> jfield ''completed_at'' None (dec_ptr dec_time) j;
     a8 \<leftarrow> jfield ''current_phase'' [] dec_str j;
     a9 \<leftarrow> jfield ''phase_states'' [] (dec_map dec_phase_state) j;
     a10 \<leftarrow> jfield ''operation_states'' [] (dec_map dec_operation_state) j;
     a11 \<leftarrow> jfield ''checkpoints'' [] (dec_list dec_checkpoint) j;
     a12 \<leftarrow> jfield ''errors'' [] (dec_list dec_execution_error) j;
     a13 \<leftarrow> jfield ''execution_log'' [] (dec_list dec_log_entry) j;
     Some \<lparr>as_id = a0, as_plan = a1, as_cluster = a2, as_operation = a3, as_status = a4, as_started = a5, as_updated = a6, as_completed = a7, as_phase = a8, as_phases = a9, as_ops = a10, as_checkpoints = a11, as_errors = a12, as_log = a13\<rparr> }"

definition norm_apply_state :: "apply_state \<Rightarrow> apply_state" where
  "norm_apply_state x = x\<lparr>as_ops := (map (\<lambda>(k, v). (k, norm_operation_state v))) (as_ops x)\<rparr>"

lemma codec_apply_state [json_simps, simp]: "dec_apply_state (enc_apply_state x) = Some (norm_apply_state x)" "enc_apply_state x \<noteq> JNull"
  by (simp_all add: dec_apply_state_def enc_apply_state_def norm_apply_state_def dec_enc_list dec_enc_map json_simps)

lemma norm_apply_state_idem [simp]: "norm_apply_state (norm_apply_state x) = norm_apply_state x"
  by (simp add: norm_apply_state_def norm_idems o_def case_prod_unfold)

interpretation state_codec: codec enc_apply_state dec_apply_state norm_apply_state
  by unfold_locales simp_all

section \<open>Files\<close>

text \<open>\<^verbatim>\<open>SaveToFile\<close> writes the file in place.\<close>

definition state_save_to_file :: "apply_state \<Rightarrow> string \<Rightarrow> err option io" where
  "state_save_to_file s path = do {
     e \<leftarrow> os_mkdir_all (path_dir path);
     case e of
       Some m \<Rightarrow> ret (Some (wrapf ''failed to create state directory'' (os_msg m)))
     | None \<Rightarrow> do {
         e2 \<leftarrow> os_write_file path (Json (enc_apply_state s));
         ret (map_option (\<lambda>m. wrapf ''failed to write state file'' (os_msg m)) e2) } }"

definition load_state_from_file :: "string \<Rightarrow> apply_state res io" where
  "load_state_from_file path = do {
     r \<leftarrow> os_read_file path;
     ret (case r of
       Inl e \<Rightarrow> Err (wrapf ''failed to read state file'' (os_msg e))
     | Inr c \<Rightarrow> wrap_err ''failed to unmarshal state'' (unmarshal dec_apply_state c)) }"

text \<open>The state manager is its directory.\<close>

definition get_state_dir :: "string \<Rightarrow> string" where
  "get_state_dir cd = path_join [cd, ''state'']"

definition get_state_path :: "string \<Rightarrow> string \<Rightarrow> string" where
  "get_state_path cd i = path_join [get_state_dir cd, i @ ''.json'']"

definition get_checkpoint_dir :: "string \<Rightarrow> string \<Rightarrow> string" where
  "get_checkpoint_dir cd i = path_join [get_state_dir cd, i @ ''-checkpoints'']"

definition get_checkpoint_path :: "string \<Rightarrow> string \<Rightarrow> string \<Rightarrow> string" where
  "get_checkpoint_path cd i cid = path_join [get_checkpoint_dir cd i, cid @ ''.json'']"

definition manager_plan_path :: "string \<Rightarrow> string \<Rightarrow> string" where
  "manager_plan_path cd i = cd @ ''/plans/'' @ i @ ''.json''"

definition save_state :: "string \<Rightarrow> apply_state \<Rightarrow> err option io" where
  "save_state cd s = state_save_to_file s (get_state_path cd (as_id s))"

definition load_state :: "string \<Rightarrow> string \<Rightarrow> apply_state res io" where
  "load_state cd i = load_state_from_file (get_state_path cd i)"

definition save_checkpoint :: "string \<Rightarrow> apply_state \<Rightarrow> string \<Rightarrow> (err option \<times> apply_state) io" where
  "save_checkpoint cd s desc = do {
     e \<leftarrow> os_mkdir_all (get_checkpoint_dir cd (as_id s));
     case e of
       Some m \<Rightarrow> ret (Some (wrapf ''failed to create checkpoint directory'' (os_msg m)), s)
     | None \<Rightarrow> do {
         cid \<leftarrow> new_uuid;
         let path = get_checkpoint_path cd (as_id s) cid;
         e2 \<leftarrow> state_save_to_file s path;
         case e2 of
           Some m \<Rightarrow> ret (Some (wrapf ''failed to save checkpoint'' m), s)
         | None \<Rightarrow> do {
             s' \<leftarrow> state_create_checkpoint desc path s;
             e3 \<leftarrow> save_state cd s';
             ret (e3, s') } } }"

fun load_states :: "string \<Rightarrow> (string \<times> fnode) list \<Rightarrow> apply_state list io" where
  "load_states dir [] = ret []"
| "load_states dir ((name, n) # es) =
     (if n = FDir \<or> path_ext name \<noteq> ''.json'' then load_states dir es
      else do {
        r \<leftarrow> load_state_from_file (path_join [dir, name]);
        ss \<leftarrow> load_states dir es;
        ret (case r of Inl _ \<Rightarrow> ss | Inr s \<Rightarrow> s # ss) })"

definition list_states :: "string \<Rightarrow> apply_state list res io" where
  "list_states cd = do {
     r \<leftarrow> os_read_dir (get_state_dir cd);
     case r of
       Inl e \<Rightarrow> ret (if is_not_exist e then Ok [] else Err (wrapf ''failed to read state directory'' (os_msg e)))
     | Inr es \<Rightarrow> do { ss \<leftarrow> load_states (get_state_dir cd) es; ret (Ok ss) } }"

fun latest_state :: "apply_state option \<Rightarrow> apply_state list \<Rightarrow> apply_state option" where
  "latest_state best [] = best"
| "latest_state best (s # ss) =
     latest_state (case best of None \<Rightarrow> Some s | Some b \<Rightarrow> if as_started b < as_started s then Some s else Some b) ss"

definition get_current_state :: "string \<Rightarrow> apply_state res io" where
  "get_current_state cd = do {
     r \<leftarrow> list_states cd;
     ret (case r of
       Inl e \<Rightarrow> Err e
     | Inr ss \<Rightarrow> (case latest_state None ss of None \<Rightarrow> Err ''no state found'' | Some s \<Rightarrow> Ok s)) }"

end
