(* ===== verification/Checkpoints.thy ===== *)
theory Checkpoints imports Apply_State begin

text \<open>
  \<^verbatim>\<open>pkg/apply/checkpoint.go\<close>: snapshots of an apply's state beside its state file.
\<close>

definition unix_seconds :: "int \<Rightarrow> int" where "unix_seconds t = t div 1000000000"

definition create_checkpoint :: "string \<Rightarrow> apply_state \<Rightarrow> string \<Rightarrow> (err option \<times> apply_state) io" where
  "create_checkpoint cd s desc = do {
     e \<leftarrow> os_mkdir_all (get_checkpoint_dir cd (as_id s));
     case e of
       Some m \<Rightarrow> ret (Some (wrapf ''failed to create checkpoint directory'' (os_msg m)), s)
     | None \<Rightarrow> do {
         now \<leftarrow> time_now;
         let cid = ''checkpoint-'' @ itoa (unix_seconds now);
         let path = get_checkpoint_path cd (as_id s) cid;
         e2 \<leftarrow> state_save_to_file s path;
         case e2 of
           Some m \<Rightarrow> ret (Some (wrapf ''failed to save checkpoint'' m), s)
         | None \<Rightarrow> do {
             t \<leftarrow> time_now;
             let s' = s\<lparr>as_checkpoints := as_checkpoints s @ [\<lparr>cp_id = cid, cp_description = desc, cp_timestamp = t,
                cp_phase = as_phase s, cp_operation = [], cp_state_path = path\<rparr>]\<rparr>;
             e3 \<leftarrow> save_state cd s';
             ret (map_option (wrapf ''failed to save state after checkpoint'') e3, s') } } }"

definition load_checkpoint :: "string \<Rightarrow> string \<Rightarrow> string \<Rightarrow> apply_state res io" where
  "load_checkpoint cd i cid = do {
     r \<leftarrow> load_state_from_file (get_checkpoint_path cd i cid);
     ret (wrap_err ''failed to load checkpoint'' r) }"

definition list_checkpoints :: "string \<Rightarrow> string \<Rightarrow> checkpoint list res io" where
  "list_checkpoints cd i = do {
     r \<leftarrow> load_state cd i;
     ret (case r of Inl e \<Rightarrow> Err (wrapf ''failed to load state'' e) | Inr s \<Rightarrow> Ok (as_checkpoints s)) }"

text \<open>\<^verbatim>\<open>sort.Slice\<close>, newest first; among equal times the sort may put any first.\<close>

definition get_latest_checkpoint :: "string \<Rightarrow> string \<Rightarrow> checkpoint res io" where
  "get_latest_checkpoint cd i = do {
     r \<leftarrow> list_checkpoints cd i;
     ret (case r of
       Inl e \<Rightarrow> Err e
     | Inr cs \<Rightarrow> (case sort_key (\<lambda>c. - cp_timestamp c) cs of [] \<Rightarrow> Err ''no checkpoints found'' | c # _ \<Rightarrow> Ok c)) }"

definition restore_from_checkpoint :: "string \<Rightarrow> string \<Rightarrow> string \<Rightarrow> apply_state res io" where
  "restore_from_checkpoint cd i cid = do {
     r \<leftarrow> load_checkpoint cd i cid;
     case r of
       Inl e \<Rightarrow> ret (Err (wrapf ''failed to load checkpoint'' e))
     | Inr s0 \<Rightarrow> do {
         s1 \<leftarrow> update_status status_paused s0;
         s \<leftarrow> state_log ''info'' (as_phase s1) [] (''Restored from checkpoint: '' @ cid) s1;
         e \<leftarrow> save_state cd s;
         ret (case e of Some m \<Rightarrow> Err (wrapf ''failed to save restored state'' m) | None \<Rightarrow> Ok s) } }"

fun remove_old :: "string \<Rightarrow> int \<Rightarrow> (string \<times> fnode) list \<Rightarrow> unit io" where
  "remove_old dir cutoff [] = ret ()"
| "remove_old dir cutoff ((name, n) # es) =
     (case n of
        FFile _ t \<Rightarrow>
          if t < cutoff then do { _ \<leftarrow> os_remove (path_join [dir, name]); remove_old dir cutoff es }
          else remove_old dir cutoff es
      | _ \<Rightarrow> remove_old dir cutoff es)"

definition cleanup_old_checkpoints :: "string \<Rightarrow> string \<Rightarrow> int \<Rightarrow> err option io" where
  "cleanup_old_checkpoints cd i older_than = do {
     let dir = get_checkpoint_dir cd i;
     r \<leftarrow> os_read_dir dir;
     case r of
       Inl e \<Rightarrow> ret (if is_not_exist e then None else Some (wrapf ''failed to read checkpoint directory'' (os_msg e)))
     | Inr es \<Rightarrow> do {
         now \<leftarrow> time_now;
         _ \<leftarrow> remove_old dir (now - older_than) es;
         ret None } }"

record checkpoint_info =
  ci_id :: string
  ci_description :: string
  ci_timestamp :: int
  ci_phase :: string
  ci_operation :: string
  ci_status :: string
  ci_errors :: nat
  ci_completed :: nat
  ci_total :: nat

definition count_completed_operations :: "apply_state \<Rightarrow> nat" where
  "count_completed_operations s = length (filter (\<lambda>(k, p). opst_status p = status_completed) (as_ops s))"

definition get_checkpoint_info :: "string \<Rightarrow> string \<Rightarrow> string \<Rightarrow> checkpoint_info res io" where
  "get_checkpoint_info cd i cid = do {
     r \<leftarrow> load_checkpoint cd i cid;
     case r of
       Inl e \<Rightarrow> ret (Err e)
     | Inr cps \<Rightarrow> do {
         r2 \<leftarrow> load_state cd i;
         ret (case r2 of
           Inl e \<Rightarrow> Err e
         | Inr cur \<Rightarrow> (case find (\<lambda>c. cp_id c = cid) (as_checkpoints cur) of
             None \<Rightarrow> Err ''checkpoint metadata not found''
           | Some c \<Rightarrow> Ok \<lparr>ci_id = cp_id c, ci_description = cp_description c, ci_timestamp = cp_timestamp c,
               ci_phase = cp_phase c, ci_operation = cp_operation c, ci_status = as_status cps,
               ci_errors = length (as_errors cps), ci_completed = count_completed_operations cps,
               ci_total = length (as_ops cps)\<rparr>)) } }"

definition checkpoint_info_string :: "checkpoint_info \<Rightarrow> string" where
  "checkpoint_info_string i = ''Checkpoint '' @ ci_id i @ '': '' @ ci_description i @ '' (Phase: '' @ ci_phase i
     @ '', Status: '' @ ci_status i @ '', Progress: '' @ itoa (int (ci_completed i)) @ ''/''
     @ itoa (int (ci_total i)) @ '', Errors: '' @ itoa (int (ci_errors i)) @ '')''"

end
