(* ===== verification/Hooks.thy ===== *)
theory Hooks imports Apply_State begin

text \<open>
  \<^verbatim>\<open>pkg/apply/hooks.go\<close>: user scripts around an apply. The shell is a parameter: it is given the
  command, the timeout (0 for none) and the environment, and answers with the output and an error.
\<close>

type_synonym shell = "string \<Rightarrow> int \<Rightarrow> string list \<Rightarrow> (string \<times> err option) io"

type_synonym hook_manager = "(hook_event, hook) gomap"

definition new_hook_manager :: hook_manager where "new_hook_manager = []"

definition register_hook :: "hook_event \<Rightarrow> hook \<Rightarrow> hook_manager \<Rightarrow> hook_manager" where
  "register_hook ev h m = mput ev h m"

definition env_entry :: "string \<Rightarrow> string \<Rightarrow> string" where "env_entry k v = k @ ''='' @ v"

definition prepare_hook_environment :: "hook \<Rightarrow> plan \<Rightarrow> apply_state \<Rightarrow> string list" where
  "prepare_hook_environment h p s =
     [env_entry ''MUP_CLUSTER_NAME'' (pl_cluster p), env_entry ''MUP_OPERATION'' (pl_operation p),
      env_entry ''MUP_PLAN_ID'' (pl_id p), env_entry ''MUP_STATE_ID'' (as_id s),
      env_entry ''MUP_CURRENT_PHASE'' (as_phase s), env_entry ''MUP_STATUS'' (as_status s)]
     @ (if pl_version p \<noteq> [] then [env_entry ''MUP_VERSION'' (pl_version p)] else [])
     @ (if pl_variant p \<noteq> [] then [env_entry ''MUP_VARIANT'' (pl_variant p)] else [])
     @ map (\<lambda>(k, v). env_entry k v) (pl_environment p)
     @ map (\<lambda>(k, v). env_entry k v) (hk_env h)"

definition execute_custom_hook :: "shell \<Rightarrow> hook \<Rightarrow> plan \<Rightarrow> apply_state \<Rightarrow> (err option \<times> apply_state) io" where
  "execute_custom_hook sh h p s = do {
     s1 \<leftarrow> state_log ''info'' (as_phase s) [] (''Executing hook: '' @ hk_name h) s;
     r \<leftarrow> sh (hk_command h) (if hk_timeout h > 0 then hk_timeout h else 0) (prepare_hook_environment h p s1);
     case r of
       (out, Some e) \<Rightarrow> do {
         s2 \<leftarrow> state_log ''error'' (as_phase s1) []
           (''Hook '' @ hk_name h @ '' failed: '' @ e @ [CHR 0x0A] @ ''Output: '' @ out) s1;
         if \<not> hk_continue h then ret (Some (wrapf (''hook '' @ hk_name h @ '' failed'') e), s2)
         else do {
           s3 \<leftarrow> state_log ''warn'' (as_phase s2) []
             (''Hook '' @ hk_name h @ '' failed but continuing due to continue_on_error'') s2;
           ret (None, s3) } }
     | (out, None) \<Rightarrow> do {
         s2 \<leftarrow> state_log ''info'' (as_phase s1) []
           (''Hook '' @ hk_name h @ '' completed successfully'' @ [CHR 0x0A] @ ''Output: '' @ out) s1;
         ret (None, s2) } }"

definition execute_hook ::
  "shell \<Rightarrow> hook_manager \<Rightarrow> hook_event \<Rightarrow> plan \<Rightarrow> apply_state \<Rightarrow> (err option \<times> apply_state) io" where
  "execute_hook sh m ev p s = (case mget m ev of
     None \<Rightarrow> ret (None, s)
   | Some h \<Rightarrow> execute_custom_hook sh h p s)"

record hook_context =
  hc_cluster :: string
  hc_operation :: string
  hc_plan :: string
  hc_state :: string
  hc_phase :: string
  hc_status :: string
  hc_version :: string
  hc_variant :: string

definition to_environment :: "hook_context \<Rightarrow> string list" where
  "to_environment c =
     [env_entry ''MUP_CLUSTER_NAME'' (hc_cluster c), env_entry ''MUP_OPERATION'' (hc_operation c),
      env_entry ''MUP_PLAN_ID'' (hc_plan c), env_entry ''MUP_STATE_ID'' (hc_state c),
      env_entry ''MUP_CURRENT_PHASE'' (hc_phase c), env_entry ''MUP_STATUS'' (hc_status c)]
     @ (if hc_version c \<noteq> [] then [env_entry ''MUP_VERSION'' (hc_version c)] else [])
     @ (if hc_variant c \<noteq> [] then [env_entry ''MUP_VARIANT'' (hc_variant c)] else [])"

end
