(* ===== verification/Applier.thy ===== *)
theory Applier imports Checkpoints Hooks begin

text \<open>
  \<^verbatim>\<open>pkg/apply/applier.go\<close>: carrying out a plan, phase by phase.

  The operation executor (an interface of the source) is a pair of programs. A group of parallel
  operations runs as one goroutine per operation; each goroutine is a sequence of calls that hold
  the mutex of the state, and a schedule, a list of goroutine numbers, interleaves the calls. Once
  the schedule is used up the goroutines that are left run to their end in turn, so every list is a
  schedule. Whether \<^verbatim>\<open>Pause\<close> has been called by the time a phase ends is asked of \<open>ap_paused\<close>.
\<close>

section \<open>The applier\<close>

record op_executor =
  ox_validate :: "planned_operation \<Rightarrow> err option io"
  ox_execute :: "planned_operation \<Rightarrow> operation_result res io"

record applier =
  ap_executor :: op_executor
  ap_dir :: string                    \<comment> \<open>the state manager\<close>
  ap_hooks :: hook_manager
  ap_shell :: shell
  ap_schedule :: "string \<Rightarrow> nat list"  \<comment> \<open>the schedule of the group that starts with an operation\<close>
  ap_paused :: "string \<Rightarrow> bool"

definition set_ret :: "'a \<Rightarrow> 'b io \<Rightarrow> ('a \<times> 'b) io" where
  "set_ret a m = do { b \<leftarrow> m; ret (a, b) }"

section \<open>Grouping\<close>

text \<open>The loop of the grouping: finished groups, and the group under construction.\<close>

fun group_loop :: "planned_operation list \<Rightarrow> planned_operation list list \<Rightarrow> planned_operation list
    \<Rightarrow> planned_operation list list" where
  "group_loop [] groups cur = (if cur \<noteq> [] then groups @ [cur] else groups)"
| "group_loop (op # ops) groups cur =
     (if po_parallel op \<and> cur \<noteq> [] \<and> po_parallel (hd cur) then group_loop ops groups (cur @ [op])
      else group_loop ops (if cur \<noteq> [] then groups @ [cur] else groups) [op])"

definition group_operations :: "planned_operation list \<Rightarrow> planned_operation list list" where
  "group_operations ops = (if ops = [] then [] else group_loop ops [] [])"

section \<open>One operation\<close>

text \<open>Saving the state, with a log entry when that fails.\<close>

definition save_or_log :: "applier \<Rightarrow> string \<Rightarrow> string \<Rightarrow> apply_state \<Rightarrow> apply_state io" where
  "save_or_log a level i s = do {
     e \<leftarrow> save_state (ap_dir a) s;
     case e of
       None \<Rightarrow> ret s
     | Some m \<Rightarrow> state_log level (as_phase s) i (''failed to save state: '' @ m) s }"

definition execute_operation :: "applier \<Rightarrow> planned_operation \<Rightarrow> apply_state \<Rightarrow> (err option \<times> apply_state) io" where
  "execute_operation a op s0 = do {
     s1 \<leftarrow> start_operation (po_id op) s0;
     s2 \<leftarrow> state_log ''info'' (as_phase s1) (po_id op) (''Executing: '' @ po_description op) s1;
     v \<leftarrow> ox_validate (ap_executor a) op;
     case v of
       Some e \<Rightarrow> do {
         s3 \<leftarrow> fail_operation (po_id op) (wrapf ''pre-condition check failed'' e) True s2;
         s4 \<leftarrow> save_or_log a ''error'' (po_id op) s3;
         ret (Some (wrapf (''operation '' @ po_id op @ '' pre-condition check failed'') e), s4) }
     | None \<Rightarrow> do {
         r \<leftarrow> ox_execute (ap_executor a) op;
         case r of
           Inl e \<Rightarrow> do {
             s3 \<leftarrow> fail_operation (po_id op) e False s2;
             s4 \<leftarrow> save_or_log a ''error'' (po_id op) s3;
             ret (Some (wrapf (''operation '' @ po_id op @ '' failed'') e), s4) }
         | Inr result \<Rightarrow> do {
             s3 \<leftarrow> complete_operation (po_id op) result s2;
             s4 \<leftarrow> state_log ''info'' (as_phase s3) (po_id op) (''Completed: '' @ po_description op) s3;
             s5 \<leftarrow> save_or_log a ''warn'' (po_id op) s4;
             ret (None, s5) } } }"

section \<open>Goroutines\<close>

text \<open>The same function as a machine that stops between the calls.\<close>

datatype op_pc = PcStart | PcLog | PcValidate | PcFail err bool err | PcSaveFailed err | PcExecute
  | PcComplete operation_result | PcLogDone | PcSave | PcLogSave string err "err option" | PcDone "err option"

definition op_step :: "applier \<Rightarrow> planned_operation \<Rightarrow> op_pc \<Rightarrow> apply_state \<Rightarrow> (op_pc \<times> apply_state) io" where
  "op_step a op pc s = (case pc of
     PcStart \<Rightarrow> set_ret PcLog (start_operation (po_id op) s)
   | PcLog \<Rightarrow> set_ret PcValidate (state_log ''info'' (as_phase s) (po_id op) (''Executing: '' @ po_description op) s)
   | PcValidate \<Rightarrow> do {
       v \<leftarrow> ox_validate (ap_executor a) op;
       ret (case v of
           Some e \<Rightarrow> PcFail (wrapf ''pre-condition check failed'' e) True
             (wrapf (''operation '' @ po_id op @ '' pre-condition check failed'') e)
         | None \<Rightarrow> PcExecute, s) }
   | PcFail e rec m \<Rightarrow> set_ret (PcSaveFailed m) (fail_operation (po_id op) e rec s)
   | PcSaveFailed m \<Rightarrow> do {
       e \<leftarrow> save_state (ap_dir a) s;
       ret (case e of None \<Rightarrow> PcDone (Some m) | Some m' \<Rightarrow> PcLogSave ''error'' m' (Some m), s) }
   | PcExecute \<Rightarrow> do {
       r \<leftarrow> ox_execute (ap_executor a) op;
       ret (case r of
           Inl e \<Rightarrow> PcFail e False (wrapf (''operation '' @ po_id op @ '' failed'') e)
         | Inr result \<Rightarrow> PcComplete result, s) }
   | PcComplete result \<Rightarrow> set_ret PcLogDone (complete_operation (po_id op) result s)
   | PcLogDone \<Rightarrow> set_ret PcSave (state_log ''info'' (as_phase s) (po_id op) (''Completed: '' @ po_description op) s)
   | PcSave \<Rightarrow> do {
       e \<leftarrow> save_state (ap_dir a) s;
       ret (case e of None \<Rightarrow> PcDone None | Some m' \<Rightarrow> PcLogSave ''warn'' m' None, s) }
   | PcLogSave level m r \<Rightarrow>
       set_ret (PcDone r) (state_log level (as_phase s) (po_id op) (''failed to save state: '' @ m) s)
   | PcDone e \<Rightarrow> ret (PcDone e, s))"

text \<open>The steps still to come, at most.\<close>

fun pc_rank :: "op_pc \<Rightarrow> nat" where
  "pc_rank PcStart = 8" | "pc_rank PcLog = 7" | "pc_rank PcValidate = 6" | "pc_rank PcExecute = 5"
| "pc_rank (PcFail _ _ _) = 3" | "pc_rank (PcSaveFailed _) = 2" | "pc_rank (PcComplete _) = 4"
| "pc_rank PcLogDone = 3" | "pc_rank PcSave = 2" | "pc_rank (PcLogSave _ _ _) = 1" | "pc_rank (PcDone _) = 0"

type_synonym gorout = "planned_operation \<times> op_pc"

text \<open>
  The collector of \<^verbatim>\<open>executeParallel\<close>: the results come in the order in which the goroutines end, and
  the first error is kept.
\<close>

definition keep_first :: "op_pc \<Rightarrow> op_pc \<Rightarrow> err option \<Rightarrow> err option" where
  "keep_first old new first = (case (old, new) of
     (PcDone _, _) \<Rightarrow> first
   | (_, PcDone (Some e)) \<Rightarrow> (if first = None then Some e else first)
   | _ \<Rightarrow> first)"

definition par_step :: "applier \<Rightarrow> nat \<Rightarrow> gorout list \<Rightarrow> err option \<Rightarrow> apply_state
    \<Rightarrow> (gorout list \<times> err option \<times> apply_state) io" where
  "par_step a i gs first s =
     (if i < length gs then do {
        let g = gs ! i;
        r \<leftarrow> op_step a (fst g) (snd g) s;
        ret (gs[i := (fst g, fst r)], keep_first (snd g) (fst r) first, snd r) }
      else ret (gs, first, s))"

fun par_run :: "applier \<Rightarrow> nat list \<Rightarrow> gorout list \<Rightarrow> err option \<Rightarrow> apply_state
    \<Rightarrow> (gorout list \<times> err option \<times> apply_state) io" where
  "par_run a [] gs first s = ret (gs, first, s)"
| "par_run a (i # is) gs first s = do {
     r \<leftarrow> par_step a i gs first s;
     par_run a is (fst r) (fst (snd r)) (snd (snd r)) }"

text \<open>Eight steps end any goroutine, so this tail ends them all.\<close>

definition drain :: "nat \<Rightarrow> nat list" where
  "drain n = concat (map (\<lambda>i. replicate 8 i) [0..<n])"

definition execute_parallel :: "applier \<Rightarrow> nat list \<Rightarrow> planned_operation list \<Rightarrow> apply_state
    \<Rightarrow> (err option \<times> apply_state) io" where
  "execute_parallel a sched ops s = do {
     r \<leftarrow> par_run a (sched @ drain (length ops)) (map (\<lambda>op. (op, PcStart)) ops) None s;
     ret (fst (snd r), snd (snd r)) }"

section \<open>Groups and phases\<close>

fun execute_sequential :: "applier \<Rightarrow> planned_operation list \<Rightarrow> apply_state \<Rightarrow> (err option \<times> apply_state) io" where
  "execute_sequential a [] s = ret (None, s)"
| "execute_sequential a (op # ops) s = do {
     r \<leftarrow> execute_operation a op s;
     case fst r of
       Some e \<Rightarrow> ret (Some e, snd r)
     | None \<Rightarrow> execute_sequential a ops (snd r) }"

definition execute_operation_group :: "applier \<Rightarrow> planned_operation list \<Rightarrow> apply_state \<Rightarrow> (err option \<times> apply_state) io" where
  "execute_operation_group a ops s = (case ops of
     [] \<Rightarrow> ret (None, s)
   | op # _ \<Rightarrow>
       if po_parallel op \<and> length ops > 1 then execute_parallel a (ap_schedule a (po_id op)) ops s
       else execute_sequential a ops s)"

fun execute_groups :: "applier \<Rightarrow> nat \<Rightarrow> planned_operation list list \<Rightarrow> apply_state \<Rightarrow> (err option \<times> apply_state) io" where
  "execute_groups a k [] s = ret (None, s)"
| "execute_groups a k (g # gs) s = do {
     r \<leftarrow> execute_operation_group a g s;
     case fst r of
       Some e \<Rightarrow> ret (Some (wrapf (''operation group '' @ itoa (int k) @ '' failed'') e), snd r)
     | None \<Rightarrow> execute_groups a (Suc k) gs (snd r) }"

text \<open>A hook of a phase: \<^verbatim>\<open>when\<close> is \<^verbatim>\<open>before_phase\<close> or \<^verbatim>\<open>after_phase\<close>.\<close>

definition phase_hook :: "applier \<Rightarrow> string \<Rightarrow> hook option \<Rightarrow> planned_phase \<Rightarrow> plan \<Rightarrow> apply_state
    \<Rightarrow> (err option \<times> apply_state) io" where
  "phase_hook a when h ph p s = (case h of
     None \<Rightarrow> ret (None, s)
   | Some hk \<Rightarrow> do {
       r \<leftarrow> execute_custom_hook (ap_shell a) hk p s;
       case fst r of
         None \<Rightarrow> ret (None, snd r)
       | Some e \<Rightarrow>
           if \<not> hk_continue hk then ret (Some (wrapf (when @ '' hook failed'') e), snd r)
           else set_ret None (state_log ''warn'' (ph_name ph) [] (when @ '' hook failed but continuing: '' @ e) (snd r)) })"

text \<open>The three parts of \<^verbatim>\<open>executePhase\<close>, last part first.\<close>

definition end_phase :: "applier \<Rightarrow> planned_phase \<Rightarrow> apply_state \<Rightarrow> (err option \<times> apply_state) io" where
  "end_phase a ph s4 = do {
     c \<leftarrow> create_checkpoint (ap_dir a) s4 (''Completed phase: '' @ ph_name ph);
     s5 \<leftarrow> (case c of
         (None, s') \<Rightarrow> ret s'
       | (Some e, s') \<Rightarrow> state_log ''warn'' (ph_name ph) [] (''failed to create checkpoint: '' @ e) s');
     s6 \<leftarrow> complete_phase (ph_name ph) s5;
     e \<leftarrow> save_state (ap_dir a) s6;
     ret (map_option (wrapf ''failed to save state after phase'') e, s6) }"

definition run_phase :: "applier \<Rightarrow> planned_phase \<Rightarrow> plan \<Rightarrow> apply_state \<Rightarrow> (err option \<times> apply_state) io" where
  "run_phase a ph p s2 = do {
     g \<leftarrow> execute_groups a 0 (group_operations (ph_operations ph)) s2;
     case g of
       (Some e, s3) \<Rightarrow> ret (Some e, s3)
     | (None, s3) \<Rightarrow> do {
         h \<leftarrow> phase_hook a ''after_phase'' (ph_after ph) ph p s3;
         case h of
           (Some e, s4) \<Rightarrow> ret (Some e, s4)
         | (None, s4) \<Rightarrow> end_phase a ph s4 } }"

definition execute_phase :: "applier \<Rightarrow> planned_phase \<Rightarrow> plan \<Rightarrow> apply_state \<Rightarrow> (err option \<times> apply_state) io" where
  "execute_phase a ph p s0 = do {
     s1 \<leftarrow> start_phase (ph_name ph) s0;
     b \<leftarrow> phase_hook a ''before_phase'' (ph_before ph) ph p s1;
     case b of
       (Some e, s2) \<Rightarrow> ret (Some e, s2)
     | (None, s2) \<Rightarrow> run_phase a ph p s2 }"

section \<open>Apply and resume\<close>

text \<open>The state returned is the caller's pointer, \<^verbatim>\<open>nil\<close> (\<open>None\<close>) on some error paths.\<close>

type_synonym apply_result = "apply_state option \<times> err option"

definition hook_or_log :: "applier \<Rightarrow> hook_event \<Rightarrow> string \<Rightarrow> plan \<Rightarrow> apply_state \<Rightarrow> apply_state io" where
  "hook_or_log a ev phase p s = do {
     r \<leftarrow> execute_hook (ap_shell a) (ap_hooks a) ev p s;
     case r of
       (None, s') \<Rightarrow> ret s'
     | (Some e, s') \<Rightarrow> state_log ''error'' phase [] (ev @ '' hook failed: '' @ e) s' }"

fun apply_phases :: "applier \<Rightarrow> plan \<Rightarrow> planned_phase list \<Rightarrow> apply_state \<Rightarrow> (apply_result option \<times> apply_state) io" where
  "apply_phases a p [] s = ret (None, s)"
| "apply_phases a p (ph # phs) s = do {
     r \<leftarrow> execute_phase a ph p s;
     case r of
       (Some e, s1) \<Rightarrow> do {
         s2 \<leftarrow> update_status status_failed s1;
         s3 \<leftarrow> fail_phase (ph_name ph) e s2;
         sv \<leftarrow> save_state (ap_dir a) s3;
         s4 \<leftarrow> (case sv of None \<Rightarrow> ret s3
              | Some m \<Rightarrow> state_log ''error'' (ph_name ph) [] (''failed to save state: '' @ m) s3);
         s5 \<leftarrow> hook_or_log a hook_on_error (ph_name ph) p s4;
         ret (Some (Some s5, Some (wrapf (''phase '' @ ph_name ph @ '' failed'') e)), s5) }
     | (None, s1) \<Rightarrow>
         if ap_paused a (ph_name ph) then do {
           s2 \<leftarrow> update_status status_paused s1;
           sv \<leftarrow> save_state (ap_dir a) s2;
           ret (Some (case sv of Some m \<Rightarrow> (None, Some (wrapf ''failed to save paused state'' m))
                      | None \<Rightarrow> (Some s2, Some ''apply paused by user'')), s2) }
         else apply_phases a p phs s1 }"

definition apply_plan :: "applier \<Rightarrow> plan \<Rightarrow> apply_result io" where
  "apply_plan a p = do {
     s0 \<leftarrow> new_apply_state (pl_id p) (pl_cluster p) (pl_operation p);
     s1 \<leftarrow> update_status status_running s0;
     sv \<leftarrow> save_state (ap_dir a) s1;
     case sv of
       Some m \<Rightarrow> ret (None, Some (wrapf ''failed to save initial state'' m))
     | None \<Rightarrow> do {
         s2 \<leftarrow> hook_or_log a hook_before_apply [] p s1;
         r \<leftarrow> apply_phases a p (pl_phases p) s2;
         case r of
           (Some res, _) \<Rightarrow> ret res
         | (None, s3) \<Rightarrow> do {
             s4 \<leftarrow> update_status status_completed s3;
             sv2 \<leftarrow> save_state (ap_dir a) s4;
             case sv2 of
               Some m \<Rightarrow> ret (None, Some (wrapf ''failed to save completed state'' m))
             | None \<Rightarrow> do {
                 s5 \<leftarrow> hook_or_log a hook_after_apply [] p s4;
                 s6 \<leftarrow> hook_or_log a hook_on_success [] p s5;
                 ret (Some s6, None) } } } }"

definition find_phase_index :: "plan \<Rightarrow> string \<Rightarrow> nat option" where
  "find_phase_index p name = find_index (\<lambda>ph. ph_name ph = name) (pl_phases p)"

fun resume_phases :: "applier \<Rightarrow> plan \<Rightarrow> planned_phase list \<Rightarrow> apply_state \<Rightarrow> (err option \<times> apply_state) io" where
  "resume_phases a p [] s = ret (None, s)"
| "resume_phases a p (ph # phs) s = do {
     r \<leftarrow> execute_phase a ph p s;
     case r of
       (Some e, s1) \<Rightarrow> do {
         s2 \<leftarrow> update_status status_failed s1;
         sv \<leftarrow> save_state (ap_dir a) s2;
         s3 \<leftarrow> (case sv of None \<Rightarrow> ret s2
              | Some m \<Rightarrow> state_log ''error'' (ph_name ph) [] (''failed to save state: '' @ m) s2);
         ret (Some (wrapf (''phase '' @ ph_name ph @ '' failed'') e), s3) }
     | (None, s1) \<Rightarrow> resume_phases a p phs s1 }"

definition resume_apply :: "applier \<Rightarrow> apply_state \<Rightarrow> apply_result io" where
  "resume_apply a s0 =
     (if \<not> can_resume s0 then ret (None, Some (''cannot resume apply in status: '' @ as_status s0))
      else do {
        s1 \<leftarrow> update_status status_running s0;
        sv \<leftarrow> save_state (ap_dir a) s1;
        case sv of
          Some m \<Rightarrow> ret (None, Some (wrapf ''failed to save resumed state'' m))
        | None \<Rightarrow> do {
            r \<leftarrow> os_read_file (manager_plan_path (ap_dir a) (as_plan s1));
            case (case r of Inl e \<Rightarrow> Err (os_msg e) | Inr c \<Rightarrow> unmarshal dec_plan c) of
              Inl e \<Rightarrow> ret (None, Some (wrapf ''failed to load plan'' e))
            | Inr p \<Rightarrow>
                (case find_phase_index p (as_phase s1) of
                   None \<Rightarrow> ret (None, Some (''could not find current phase: '' @ as_phase s1))
                 | Some k \<Rightarrow> do {
                     q \<leftarrow> resume_phases a p (drop k (pl_phases p)) s1;
                     case q of
                       (Some e, s2) \<Rightarrow> ret (Some s2, Some e)
                     | (None, s2) \<Rightarrow> do {
                         s3 \<leftarrow> update_status status_completed s2;
                         sv2 \<leftarrow> save_state (ap_dir a) s3;
                         ret (case sv2 of
                           Some m \<Rightarrow> (None, Some (wrapf ''failed to save completed state'' m))
                         | None \<Rightarrow> (Some s3, None)) } }) } })"

definition rollback :: "string \<Rightarrow> err option" where
  "rollback cid = Some ''rollback not yet implemented''"

section \<open>What each call does to the state\<close>

text \<open>The part of the state that decides what happens next: everything but the log and the time stamp.\<close>

definition core :: "apply_state \<Rightarrow> apply_state" where
  "core s = s\<lparr>as_log := [], as_updated := 0\<rparr>"

lemma core_fields:
  "core s = core s' \<Longrightarrow> as_ops s = as_ops s'" "core s = core s' \<Longrightarrow> as_phases s = as_phases s'"
  "core s = core s' \<Longrightarrow> as_phase s = as_phase s'" "core s = core s' \<Longrightarrow> as_status s = as_status s'"
  "core s = core s' \<Longrightarrow> as_errors s = as_errors s'" "core s = core s' \<Longrightarrow> as_id s = as_id s'"
  "core s = core s' \<Longrightarrow> as_plan s = as_plan s'" "core s = core s' \<Longrightarrow> as_checkpoints s = as_checkpoints s'"
  "core s = core s' \<Longrightarrow> as_completed s = as_completed s'"
  by (auto simp: core_def dest: arg_cong [where f = as_ops] arg_cong [where f = as_phases] arg_cong [where f = as_phase]
      arg_cong [where f = as_status] arg_cong [where f = as_errors] arg_cong [where f = as_id] arg_cong [where f = as_plan]
      arg_cong [where f = as_checkpoints] arg_cong [where f = as_completed])

lemma core_simps [simp]:
  "as_ops (core s) = as_ops s" "as_phases (core s) = as_phases s" "as_phase (core s) = as_phase s"
  "as_status (core s) = as_status s" "as_errors (core s) = as_errors s" "as_id (core s) = as_id s"
  by (simp_all add: core_def)

lemma wp_any: "(\<And>r w'. Q r w') \<Longrightarrow> wp m Q w"
  by (rule wpI) simp

lemma wp_log [intro]: "(\<And>s' w'. core s' = core s \<Longrightarrow> Q s' w') \<Longrightarrow> wp (state_log l ph i m s) Q w"
  unfolding state_log_def log_unsafe_def by (simp add: core_def)

lemma wp_set_ret [simp]: "wp (set_ret x m) Q w = wp m (\<lambda>r. Q (x, r)) w"
  by (simp add: set_ret_def)

text \<open>The state of one operation, and the rest of the state staying put.\<close>

definition op_status :: "apply_state \<Rightarrow> string \<Rightarrow> string option" where
  "op_status s i = map_option opst_status (mget (as_ops s) i)"

definition only_op :: "string \<Rightarrow> apply_state \<Rightarrow> apply_state \<Rightarrow> bool" where
  "only_op i s s' = ((\<forall>j. j \<noteq> i \<longrightarrow> mget (as_ops s') j = mget (as_ops s) j)
     \<and> as_phase s' = as_phase s \<and> as_phases s' = as_phases s \<and> as_status s' = as_status s
     \<and> as_id s' = as_id s \<and> as_plan s' = as_plan s)"

lemma only_op_refl [simp]: "only_op i s s"
  by (simp add: only_op_def)

lemma only_op_trans: "only_op i s s' \<Longrightarrow> only_op i s' s'' \<Longrightarrow> only_op i s s''"
  by (simp add: only_op_def)

lemma only_op_core: "core s' = core s \<Longrightarrow> only_op i s s'"
  by (auto simp: only_op_def dest: core_fields)

lemma only_op_status: "only_op i s s' \<Longrightarrow> j \<noteq> i \<Longrightarrow> op_status s' j = op_status s j"
  by (simp add: only_op_def op_status_def)

lemma op_status_core: "core s' = core s \<Longrightarrow> op_status s' j = op_status s j"
  by (auto simp: op_status_def dest: core_fields)

lemma mget_mmodify: "mget (mmodify k f m) j = (if j = k then map_option f (mget m j) else mget m j)"
  by (auto simp: mmodify_def split: option.splits)

lemma wp_start_operation:
  "(\<And>s' w'. only_op i s s' \<Longrightarrow> op_status s' i = Some status_running \<Longrightarrow> as_errors s' = as_errors s \<Longrightarrow> Q s' w') \<Longrightarrow>
   wp (start_operation i s) Q w"
  unfolding start_operation_def by (simp add: only_op_def op_status_def)

lemma wp_complete_operation:
  assumes Q: "\<And>s' w'. only_op i s s' \<Longrightarrow> (op_status s i \<noteq> None \<Longrightarrow> op_status s' i = Some status_completed) \<Longrightarrow>
      as_errors s' = as_errors s \<Longrightarrow> Q s' w'"
  shows "wp (complete_operation i r s) Q w"
  unfolding complete_operation_def wp_bind wp_clock wp_return
  by (rule Q) (auto simp: only_op_def op_status_def mget_mmodify)

lemma wp_fail_operation:
  assumes Q: "\<And>s' w'. only_op i s s' \<Longrightarrow> (op_status s i \<noteq> None \<Longrightarrow> op_status s' i = Some status_failed) \<Longrightarrow>
      length (as_errors s') = Suc (length (as_errors s)) \<Longrightarrow> Q s' w'"
  shows "wp (fail_operation i e rec s) Q w"
  unfolding fail_operation_def wp_bind wp_clock wp_return
  by (rule Q) (auto simp: only_op_def op_status_def mget_mmodify)

section \<open>Grouping keeps the operations and their order\<close>

definition group_ok :: "planned_operation list \<Rightarrow> bool" where
  "group_ok g = (g \<noteq> [] \<and> (length g > 1 \<longrightarrow> list_all po_parallel g))"

lemma group_loop_props:
  "concat (group_loop ops groups cur) = concat groups @ cur @ ops
   \<and> (list_all group_ok groups \<and> (cur \<noteq> [] \<longrightarrow> group_ok cur) \<longrightarrow> list_all group_ok (group_loop ops groups cur))"
proof (induction ops groups cur rule: group_loop.induct)
  case (2 op ops groups cur)
  have "group_ok cur \<Longrightarrow> po_parallel op \<Longrightarrow> cur \<noteq> [] \<Longrightarrow> po_parallel (hd cur) \<Longrightarrow> group_ok (cur @ [op])"
    by (cases cur) (auto simp: group_ok_def)
  with 2 show ?case by (auto simp: group_ok_def [of "[op]"])
qed (auto simp: group_ok_def)

text \<open>
  C10. Grouping loses and reorders nothing: the groups in sequence are the operations of the phase, no
  group is empty, and a group of more than one operation holds parallel operations only.
\<close>
theorem grouping_correct:
  "concat (group_operations ops) = ops \<and> list_all group_ok (group_operations ops)"
  using group_loop_props [of ops "[]" "[]"] by (simp add: group_operations_def)

section \<open>One operation, as a whole and in steps\<close>

text \<open>Where a goroutine stands shows in the state of its operation.\<close>

definition pc_status :: "op_pc \<Rightarrow> string option" where
  "pc_status pc = (case pc of
     PcStart \<Rightarrow> None
   | PcSaveFailed _ \<Rightarrow> Some status_failed
   | PcLogSave _ _ (Some _) \<Rightarrow> Some status_failed
   | PcDone (Some _) \<Rightarrow> Some status_failed
   | PcLogDone \<Rightarrow> Some status_completed
   | PcSave \<Rightarrow> Some status_completed
   | PcLogSave _ _ None \<Rightarrow> Some status_completed
   | PcDone None \<Rightarrow> Some status_completed
   | _ \<Rightarrow> Some status_running)"

definition pc_ok :: "planned_operation \<Rightarrow> op_pc \<Rightarrow> apply_state \<Rightarrow> bool" where
  "pc_ok op pc s = (pc = PcStart \<or> op_status s (po_id op) = pc_status pc)"

lemmas op_step_simps = op_step_def [where pc = PcStart, simplified] op_step_def [where pc = PcLog, simplified]
  op_step_def [where pc = PcValidate, simplified] op_step_def [where pc = "PcFail e rec m" for e rec m, simplified]
  op_step_def [where pc = "PcSaveFailed m" for m, simplified] op_step_def [where pc = PcExecute, simplified]
  op_step_def [where pc = "PcComplete r" for r, simplified] op_step_def [where pc = PcLogDone, simplified]
  op_step_def [where pc = PcSave, simplified] op_step_def [where pc = "PcLogSave l m r" for l m r, simplified]
  op_step_def [where pc = "PcDone e" for e, simplified]

text \<open>What a step promises: it gets closer to the end, and touches its own operation only.\<close>

definition step_post :: "planned_operation \<Rightarrow> op_pc \<Rightarrow> apply_state \<Rightarrow> op_pc \<Rightarrow> apply_state \<Rightarrow> bool" where
  "step_post op pc s pc' s' = (pc_ok op pc' s' \<and> only_op (po_id op) s s' \<and> pc_rank pc' \<le> pc_rank pc - 1
     \<and> (pc_rank pc = 0 \<longrightarrow> pc' = pc))"

lemma step_post_same:
  "pc_ok op pc s \<Longrightarrow> pc \<noteq> PcStart \<Longrightarrow> pc_status pc' = pc_status pc \<Longrightarrow> pc_rank pc' < pc_rank pc \<Longrightarrow> core s' = core s \<Longrightarrow>
   step_post op pc s pc' s'"
  using op_status_core [of s' s "po_id op"] only_op_core [of s' s "po_id op"]
  by (simp add: step_post_def pc_ok_def)

lemma wp_op_step:
  assumes "pc_ok op pc s"
    and Q: "\<And>pc' s' w'. step_post op pc s pc' s' \<Longrightarrow> Q (pc', s') w'"
  shows "wp (op_step a op pc s) Q w"
proof -
  have log: "wp (set_ret pc' (state_log l ph i m s)) Q w"
    if "pc \<noteq> PcStart" "pc_status pc' = pc_status pc" "pc_rank pc' < pc_rank pc" for pc' l ph i m
    unfolding wp_set_ret by (rule wp_log, rule Q, rule step_post_same [OF assms(1) that])
  have stay: "Q (pc', s) u" if "pc \<noteq> PcStart" "pc_status pc' = pc_status pc" "pc_rank pc' < pc_rank pc" for pc' u
    by (rule Q, rule step_post_same [OF assms(1) that]) simp
  show ?thesis
  proof (cases pc)
    case PcStart
    show ?thesis unfolding PcStart op_step_simps wp_set_ret
      by (rule wp_start_operation, rule Q) (simp add: PcStart step_post_def pc_ok_def pc_status_def)
  next
    case (PcFail e rec m)
    show ?thesis unfolding PcFail op_step_simps wp_set_ret
      by (rule wp_fail_operation, rule Q) (use assms(1) in \<open>simp add: PcFail step_post_def pc_ok_def pc_status_def\<close>)
  next
    case (PcComplete r)
    show ?thesis unfolding PcComplete op_step_simps wp_set_ret
      by (rule wp_complete_operation, rule Q) (use assms(1) in \<open>simp add: PcComplete step_post_def pc_ok_def pc_status_def\<close>)
  next
    case (PcDone e)
    show ?thesis unfolding PcDone op_step_simps wp_return
      by (rule Q) (use assms(1) in \<open>simp add: PcDone step_post_def\<close>)
  next
    case PcValidate
    show ?thesis unfolding PcValidate op_step_simps wp_bind wp_return
      by (rule wp_any, rule stay) (simp_all add: pc_status_def PcValidate split: option.split)
  next
    case PcExecute
    show ?thesis unfolding PcExecute op_step_simps wp_bind wp_return
      by (rule wp_any, rule stay) (simp_all add: pc_status_def PcExecute split: sum.split)
  next
    case (PcSaveFailed m)
    show ?thesis unfolding PcSaveFailed op_step_simps wp_bind wp_return
      by (rule wp_any, rule stay) (simp_all add: pc_status_def PcSaveFailed split: option.split)
  next
    case PcSave
    show ?thesis unfolding PcSave op_step_simps wp_bind wp_return
      by (rule wp_any, rule stay) (simp_all add: pc_status_def PcSave split: option.split)
  next
    case (PcLogSave l m r)
    show ?thesis unfolding PcLogSave op_step_simps
      by (rule log) (simp_all add: pc_status_def PcLogSave split: option.split)
  next
    case PcLog
    show ?thesis unfolding PcLog op_step_simps by (rule log) (simp_all add: pc_status_def PcLog)
  next
    case PcLogDone
    show ?thesis unfolding PcLogDone op_step_simps by (rule log) (simp_all add: pc_status_def PcLogDone)
  qed
qed

text \<open>Running a goroutine alone.\<close>

fun op_steps :: "applier \<Rightarrow> planned_operation \<Rightarrow> nat \<Rightarrow> op_pc \<Rightarrow> apply_state \<Rightarrow> (op_pc \<times> apply_state) io" where
  "op_steps a op 0 pc s = ret (pc, s)"
| "op_steps a op (Suc n) pc s = do { r \<leftarrow> op_step a op pc s; op_steps a op n (fst r) (snd r) }"

lemma op_steps_done [simp]: "op_steps a op n (PcDone e) s = ret (PcDone e, s)"
  by (induction n) (simp_all add: op_step_simps)

lemma set_ret_bind [simp]: "State_Monad.bind (set_ret x m) f = do { b \<leftarrow> m; f (x, b) }"
  by (simp add: set_ret_def)

lemma bind_case_option:
  "State_Monad.bind (case x of None \<Rightarrow> m | Some y \<Rightarrow> n y) f =
   (case x of None \<Rightarrow> State_Monad.bind m f | Some y \<Rightarrow> State_Monad.bind (n y) f)"
  by (cases x) simp_all

lemma bind_case_sum:
  "State_Monad.bind (case x of Inl y \<Rightarrow> m y | Inr z \<Rightarrow> n z) f =
   (case x of Inl y \<Rightarrow> State_Monad.bind (m y) f | Inr z \<Rightarrow> State_Monad.bind (n z) f)"
  by (cases x) simp_all

lemma op_steps_case:
  "op_steps a op n (case x of None \<Rightarrow> p | Some y \<Rightarrow> q y) s =
   (case x of None \<Rightarrow> op_steps a op n p s | Some y \<Rightarrow> op_steps a op n (q y) s)"
  "op_steps a op n (case z of Inl u \<Rightarrow> f u | Inr v \<Rightarrow> g v) s =
   (case z of Inl u \<Rightarrow> op_steps a op n (f u) s | Inr v \<Rightarrow> op_steps a op n (g v) s)"
  by (simp_all split: option.split sum.split)

lemma op_steps_pc:
  "op_steps a op (Suc n) PcStart s = do { s' \<leftarrow> start_operation (po_id op) s; op_steps a op n PcLog s' }"
  "op_steps a op (Suc n) PcLog s =
     do { s' \<leftarrow> state_log ''info'' (as_phase s) (po_id op) (''Executing: '' @ po_description op) s; op_steps a op n PcValidate s' }"
  "op_steps a op (Suc n) PcValidate s = do {
     v \<leftarrow> ox_validate (ap_executor a) op;
     case v of None \<Rightarrow> op_steps a op n PcExecute s
     | Some e \<Rightarrow> op_steps a op n (PcFail (wrapf ''pre-condition check failed'' e) True
             (wrapf (''operation '' @ po_id op @ '' pre-condition check failed'') e)) s }"
  "op_steps a op (Suc n) PcExecute s = do {
     r \<leftarrow> ox_execute (ap_executor a) op;
     case r of Inl e \<Rightarrow> op_steps a op n (PcFail e False (wrapf (''operation '' @ po_id op @ '' failed'') e)) s
     | Inr x \<Rightarrow> op_steps a op n (PcComplete x) s }"
  "op_steps a op (Suc n) (PcFail e rec m) s =
     do { s' \<leftarrow> fail_operation (po_id op) e rec s; op_steps a op n (PcSaveFailed m) s' }"
  "op_steps a op (Suc n) (PcComplete x) s =
     do { s' \<leftarrow> complete_operation (po_id op) x s; op_steps a op n PcLogDone s' }"
  "op_steps a op (Suc n) PcLogDone s =
     do { s' \<leftarrow> state_log ''info'' (as_phase s) (po_id op) (''Completed: '' @ po_description op) s; op_steps a op n PcSave s' }"
  "op_steps a op (Suc n) (PcSaveFailed m) s = do {
     e \<leftarrow> save_state (ap_dir a) s;
     case e of None \<Rightarrow> op_steps a op n (PcDone (Some m)) s | Some m' \<Rightarrow> op_steps a op n (PcLogSave ''error'' m' (Some m)) s }"
  "op_steps a op (Suc n) PcSave s = do {
     e \<leftarrow> save_state (ap_dir a) s;
     case e of None \<Rightarrow> op_steps a op n (PcDone None) s | Some m' \<Rightarrow> op_steps a op n (PcLogSave ''warn'' m' None) s }"
  "op_steps a op (Suc n) (PcLogSave l m r) s =
     do { s' \<leftarrow> state_log l (as_phase s) (po_id op) (''failed to save state: '' @ m) s; op_steps a op n (PcDone r) s' }"
  by (simp_all add: op_step_simps op_steps_case)

lemma op_steps_end:
  "op_steps a op (Suc (Suc n)) (PcSaveFailed m) t =
     do { t' \<leftarrow> save_or_log a ''error'' (po_id op) t; ret (PcDone (Some m), t') }"
  "op_steps a op (Suc (Suc n)) PcSave t = do { t' \<leftarrow> save_or_log a ''warn'' (po_id op) t; ret (PcDone None, t') }"
  by (simp_all only: op_steps_pc save_or_log_def op_steps_done bind_case_option State_Monad.bind_assoc State_Monad.bind_left_identity)

text \<open>
  The goroutine's machine is the function it stands for: run without interruption from the start,
  its eight steps do what \<^verbatim>\<open>executeOperation\<close> does, to the state, to the world and in the result.
\<close>

lemma op_steps_execute:
  "op_steps a op 8 PcStart s = do { r \<leftarrow> execute_operation a op s; ret (PcDone (fst r), snd r) }"
proof -
  have num: "(8 :: nat) = Suc (Suc (Suc (Suc (Suc (Suc (Suc (Suc 0)))))))" by simp
  show ?thesis
    unfolding num execute_operation_def
    by (simp only: op_steps_pc(1-7) op_steps_end bind_case_option bind_case_sum State_Monad.bind_assoc
        State_Monad.bind_left_identity fst_conv snd_conv)
qed

end
