(* ===== verification/Apply_Exec.thy ===== *)
theory Apply_Exec imports Applier begin

text \<open>
  What executing operations, groups and phases guarantees, whatever the executor, the hooks, the
  disk and the schedule of the goroutines do.
\<close>

section \<open>The goroutines of a group\<close>

definition op_ids :: "planned_operation list \<Rightarrow> string set" where
  "op_ids ops = po_id ` set ops"

text \<open>Everything but the states of some operations stays.\<close>

definition ops_frame :: "string set \<Rightarrow> apply_state \<Rightarrow> apply_state \<Rightarrow> bool" where
  "ops_frame A s s' = ((\<forall>j. j \<notin> A \<longrightarrow> mget (as_ops s') j = mget (as_ops s) j)
     \<and> as_phase s' = as_phase s \<and> as_phases s' = as_phases s \<and> as_status s' = as_status s
     \<and> as_id s' = as_id s \<and> as_plan s' = as_plan s)"

lemma ops_frame_refl [simp]: "ops_frame A s s"
  by (simp add: ops_frame_def)

lemma ops_frame_trans: "ops_frame A s s' \<Longrightarrow> ops_frame B s' s'' \<Longrightarrow> A \<union> B \<subseteq> C \<Longrightarrow> ops_frame C s s''"
  unfolding ops_frame_def by (metis UnCI subsetD)

lemma only_op_frame: "only_op i s s' \<Longrightarrow> i \<in> A \<Longrightarrow> ops_frame A s s'"
  by (auto simp: only_op_def ops_frame_def)

lemma ops_frame_status: "ops_frame A s s' \<Longrightarrow> j \<notin> A \<Longrightarrow> op_status s' j = op_status s j"
  by (simp add: ops_frame_def op_status_def)

lemma ops_frame_core: "core s' = core s \<Longrightarrow> ops_frame A s s'"
  by (auto simp: ops_frame_def dest: core_fields)

definition no_error :: "op_pc \<Rightarrow> bool" where
  "no_error pc = (\<forall>e. pc \<noteq> PcDone (Some e))"

definition par_ok :: "planned_operation list \<Rightarrow> apply_state \<Rightarrow> gorout list \<Rightarrow> err option \<Rightarrow> apply_state \<Rightarrow> bool" where
  "par_ok ops s0 gs first s = (map fst gs = ops \<and> (\<forall>g \<in> set gs. pc_ok (fst g) (snd g) s)
     \<and> (first = None \<longleftrightarrow> (\<forall>g \<in> set gs. no_error (snd g))) \<and> ops_frame (op_ids ops) s0 s)"

lemma pc_rank_0: "pc_rank pc = 0 \<longleftrightarrow> (\<exists>e. pc = PcDone e)"
  by (cases pc) simp_all

lemma keep_first_None:
  assumes "pc_rank old = 0 \<longrightarrow> new = old"
  shows "keep_first old new first = None \<longleftrightarrow> first = None \<and> (no_error new \<or> new = old)"
proof (cases "pc_rank old = 0")
  case True
  then show ?thesis using assms by (auto simp: pc_rank_0 keep_first_def)
next
  case False
  then have "keep_first old new first = (case new of PcDone (Some e) \<Rightarrow> (if first = None then Some e else first) | _ \<Rightarrow> first)"
    by (cases old) (simp_all add: keep_first_def)
  moreover have "new = old \<Longrightarrow> no_error new" using False by (auto simp: no_error_def)
  ultimately show ?thesis by (cases new) (auto simp: no_error_def split: option.split)
qed

lemma all_update:
  assumes i: "i < length xs" and old: "x = xs ! i \<or> P (xs ! i)"
  shows "(\<forall>y \<in> set (xs[i := x]). P y) \<longleftrightarrow> (\<forall>y \<in> set xs. P y) \<and> (P x \<or> x = xs ! i)"
  using old
proof
  assume "x = xs ! i"
  then show ?thesis by simp
next
  assume P: "P (xs ! i)"
  have "(\<forall>y \<in> set xs. P y) \<longleftrightarrow> (\<forall>y \<in> set (take i xs) \<union> set (drop (Suc i) xs). P y)"
    using P id_take_nth_drop [OF i] by (metis Un_iff insert_iff list.simps(15) set_append)
  moreover have "x = xs ! i \<Longrightarrow> P x" using P by simp
  ultimately show ?thesis by (auto simp: upd_conv_take_nth_drop [OF i])
qed

text \<open>A step of one goroutine.\<close>

lemma par_ok_step:
  assumes ok: "par_ok ops s0 gs first s" and i: "i < length gs" and dist: "distinct (map po_id ops)"
    and step: "step_post (fst (gs ! i)) (snd (gs ! i)) s pc' s'"
  shows "par_ok ops s0 (gs[i := (fst (gs ! i), pc')]) (keep_first (snd (gs ! i)) pc' first) s'"
proof -
  define op pc where "op = fst (gs ! i)" and "pc = snd (gs ! i)"
  let ?gs = "gs[i := (op, pc')]"
  have gi: "gs ! i = (op, pc)" by (simp add: op_def pc_def)
  have fsts: "map fst gs = ops" using ok by (simp add: par_ok_def)
  have post: "pc_ok op pc' s'" "only_op (po_id op) s s'" "pc_rank pc = 0 \<longrightarrow> pc' = pc"
    using step unfolding op_def [symmetric] pc_def [symmetric] by (simp_all add: step_post_def)
  have op: "op = ops ! i" using i by (simp add: op_def flip: fsts)
  have fsts': "map fst ?gs = ops" using fsts i op by (simp add: map_update list_update_same_conv)
  have pcs: "pc_ok (fst g) (snd g) s'" if g: "g \<in> set ?gs" for g
  proof (cases "g = (op, pc')")
    case False
    from g obtain j where j: "j < length gs" "g = ?gs ! j" by (auto simp: in_set_conv_nth)
    with False have "j \<noteq> i" by auto
    with j have ji: "j \<noteq> i" "g = gs ! j" by simp_all
    then have mem: "g \<in> set gs" and fg: "fst g = ops ! j" using j fsts by (auto simp flip: fsts)
    have "length gs = length ops" using fsts by (metis length_map)
    then have "map po_id ops ! j \<noteq> map po_id ops ! i" using nth_eq_iff_index_eq [OF dist, of j i] j i ji by simp
    then have "po_id (fst g) \<noteq> po_id op" using j i fg op \<open>length gs = length ops\<close> by simp
    moreover have "pc_ok (fst g) (snd g) s" using ok mem by (simp add: par_ok_def)
    ultimately show ?thesis using only_op_status [OF post(2)] by (simp add: pc_ok_def)
  qed (use post in simp)
  have "op \<in> set ops" using i op fsts by (metis length_map nth_mem)
  then have frame: "ops_frame (op_ids ops) s0 s'"
    using ok only_op_frame [OF post(2), of "op_ids ops"] ops_frame_trans [of "op_ids ops" s0 s "op_ids ops" s' "op_ids ops"]
    by (simp add: par_ok_def op_ids_def)
  have old: "(op, pc') = gs ! i \<or> no_error (snd (gs ! i))"
    using post(3) by (cases "pc_rank pc = 0") (auto simp: gi no_error_def)
  have "(\<forall>g \<in> set ?gs. no_error (snd g)) \<longleftrightarrow> (\<forall>g \<in> set gs. no_error (snd g)) \<and> (no_error pc' \<or> pc' = pc)"
    using all_update [of i gs "(op, pc')" "\<lambda>g. no_error (snd g)"] i old by (simp add: gi)
  moreover have "first = None \<longleftrightarrow> (\<forall>g \<in> set gs. no_error (snd g))" using ok by (simp add: par_ok_def)
  ultimately have "keep_first pc pc' first = None \<longleftrightarrow> (\<forall>g \<in> set ?gs. no_error (snd g))"
    using keep_first_None [OF post(3)] by simp
  then show ?thesis
    using fsts' pcs frame unfolding par_ok_def by (simp flip: op_def pc_def)
qed

lemma par_ok_length: "par_ok ops s0 gs first s \<Longrightarrow> length gs = length ops"
  by (auto simp: par_ok_def)

text \<open>The steps a goroutine still has, as a function of its number; past the end there are none.\<close>

definition left :: "gorout list \<Rightarrow> nat \<Rightarrow> nat" where
  "left gs j = (if j < length gs then pc_rank (snd (gs ! j)) else 0)"

lemma wp_par_step:
  assumes ok: "par_ok ops s0 gs first s" and dist: "distinct (map po_id ops)"
    and Q: "\<And>gs' first' s' w'. par_ok ops s0 gs' first' s' \<Longrightarrow>
      (\<And>j. left gs' j \<le> left gs j - (if j = i then 1 else 0)) \<Longrightarrow> Q (gs', first', s') w'"
  shows "wp (par_step a i gs first s) Q w"
proof (cases "i < length gs")
  case True
  have pc: "pc_ok (fst (gs ! i)) (snd (gs ! i)) s" using ok True by (simp add: par_ok_def)
  show ?thesis
    unfolding par_step_def Let_def if_P [OF True] wp_bind wp_return
  proof (rule wp_op_step [OF pc])
    fix pc' s' and w' :: world
    assume step: "step_post (fst (gs ! i)) (snd (gs ! i)) s pc' s'"
    show "Q (gs[i := (fst (gs ! i), fst (pc', s'))], keep_first (snd (gs ! i)) (fst (pc', s')) first, snd (pc', s')) w'"
      unfolding fst_conv snd_conv
    proof (rule Q)
      show "par_ok ops s0 (gs[i := (fst (gs ! i), pc')]) (keep_first (snd (gs ! i)) pc' first) s'"
        by (rule par_ok_step [OF ok True dist step])
      show "left (gs[i := (fst (gs ! i), pc')]) j \<le> left gs j - (if j = i then 1 else 0)" for j
        using step True by (auto simp: left_def step_post_def)
    qed
  qed
next
  case False
  then show ?thesis
    using ok by (auto simp: par_step_def left_def intro: Q)
qed

lemma wp_par_run:
  assumes "par_ok ops s0 gs first s" and dist: "distinct (map po_id ops)"
    and Q: "\<And>gs' first' s' w'. par_ok ops s0 gs' first' s' \<Longrightarrow> (\<And>j. left gs' j \<le> left gs j - count_list is j) \<Longrightarrow>
      Q (gs', first', s') w'"
  shows "wp (par_run a is gs first s) Q w"
  using assms(1) Q
proof (induction "is" arbitrary: gs first s w)
  case Nil
  then show ?case by simp
next
  case (Cons i "is")
  show ?case
    unfolding par_run.simps wp_bind
  proof (rule wp_par_step [OF Cons.prems(1) dist])
    fix gs1 first1 s1 and w1 :: world
    assume ok1: "par_ok ops s0 gs1 first1 s1" and l1: "\<And>j. left gs1 j \<le> left gs j - (if j = i then 1 else 0)"
    show "wp (par_run a is (fst (gs1, first1, s1)) (fst (snd (gs1, first1, s1))) (snd (snd (gs1, first1, s1)))) Q w1"
      unfolding fst_conv snd_conv
    proof (rule Cons.IH [OF ok1])
      fix gs2 first2 s2 and w2 :: world
      assume ok2: "par_ok ops s0 gs2 first2 s2" and l2: "\<And>j. left gs2 j \<le> left gs1 j - count_list is j"
      have "left gs2 j \<le> left gs j - count_list (i # is) j" for j
        using l1 [of j] l2 [of j] by (auto split: if_splits)
      then show "Q (gs2, first2, s2) w2" by (rule Cons.prems(2) [OF ok2])
    qed
  qed
qed

lemma count_drain: "j < n \<Longrightarrow> count_list (drain n) j = 8"
proof -
  have rep: "count_list (replicate k i) j = (if i = j then k else 0)" for k i by (induction k) auto
  have "count_list (concat (map (replicate 8) xs)) j = 8 * count_list xs j" for xs
    by (induction xs) (simp_all add: rep)
  moreover assume "j < n"
  then have "count_list [0..<n] j = 1" by (simp add: count_list_eq_length_filter distinct_length_filter)
  ultimately show ?thesis by (simp add: drain_def)
qed

text \<open>What is known when the operations of a group have run and the group's error is \<open>e\<close>.\<close>

definition all_completed :: "planned_operation list \<Rightarrow> apply_state \<Rightarrow> bool" where
  "all_completed ops s = (\<forall>op \<in> set ops. op_status s (po_id op) = Some status_completed)"

definition all_ended :: "planned_operation list \<Rightarrow> apply_state \<Rightarrow> bool" where
  "all_ended ops s = (\<forall>op \<in> set ops. op_status s (po_id op) \<in> {Some status_completed, Some status_failed})"

lemma completed_not_failed: "status_completed \<noteq> status_failed"
  by (simp add: status_completed_def status_failed_def)

lemma par_ok_end:
  assumes ok: "par_ok ops s0 gs first s" and fin: "\<And>j. left gs j = 0"
  shows "ops_frame (op_ids ops) s0 s \<and> all_ended ops s \<and> (first = None \<longleftrightarrow> all_completed ops s)"
proof -
  have done': "\<exists>e. snd g = PcDone e" if "g \<in> set gs" for g
  proof -
    from that obtain j where "j < length gs" "g = gs ! j" by (auto simp: in_set_conv_nth)
    then show ?thesis using fin [of j] by (simp add: left_def pc_rank_0)
  qed
  have st: "op_status s (po_id (fst g)) = (if no_error (snd g) then Some status_completed else Some status_failed)"
    if "g \<in> set gs" for g
    using ok done' [OF that] that by (auto simp: par_ok_def pc_ok_def pc_status_def no_error_def split: option.splits)
  have "ops = map fst gs" using ok by (simp add: par_ok_def)
  then have sets: "set ops = fst ` set gs" by simp
  have "all_completed ops s \<longleftrightarrow> (\<forall>g \<in> set gs. no_error (snd g))" "all_ended ops s"
    using st completed_not_failed unfolding all_completed_def all_ended_def sets ball_simps
    by (simp_all cong: ball_cong)
  then show ?thesis using ok by (simp add: par_ok_def)
qed

lemma wp_execute_parallel:
  assumes dist: "distinct (map po_id ops)"
    and Q: "\<And>e s' w'. ops_frame (op_ids ops) s s' \<Longrightarrow> all_ended ops s' \<Longrightarrow> (e = None \<longleftrightarrow> all_completed ops s') \<Longrightarrow> Q (e, s') w'"
  shows "wp (execute_parallel a sched ops s) Q w"
proof -
  let ?gs = "map (\<lambda>op. (op, PcStart)) ops"
  have init: "par_ok ops s ?gs None s" by (auto simp: par_ok_def pc_ok_def no_error_def o_def)
  show ?thesis
    unfolding execute_parallel_def wp_bind wp_return
  proof (rule wp_par_run [OF init dist])
    fix gs' first' s' and w' :: world
    assume ok: "par_ok ops s gs' first' s'" and l: "\<And>j. left gs' j \<le> left ?gs j - count_list (sched @ drain (length ops)) j"
    have "left gs' j = 0" for j
      using l [of j] count_drain [of j "length ops"] by (auto simp: left_def split: if_splits)
    from par_ok_end [OF ok this] show "Q (fst (snd (gs', first', s')), snd (snd (gs', first', s'))) w'"
      by (auto intro: Q)
  qed
qed

section \<open>One goroutine alone\<close>

definition done_err :: "op_pc \<Rightarrow> err option" where
  "done_err pc = (case pc of PcDone e \<Rightarrow> e | _ \<Rightarrow> None)"

lemma keep_first_done: "pc_rank old = 0 \<longrightarrow> new = old \<Longrightarrow> keep_first old new (done_err old) = done_err new"
  by (cases old; cases new) (auto simp: keep_first_def done_err_def split: option.split)

lemma op_steps_add:
  "op_steps a op (m + n) pc s = do { r \<leftarrow> op_steps a op m pc s; op_steps a op n (fst r) (snd r) }"
  by (induction m arbitrary: pc s) simp_all

lemma wp_op_steps:
  assumes "pc_ok op pc s"
    and Q: "\<And>pc' s' w'. pc_ok op pc' s' \<Longrightarrow> only_op (po_id op) s s' \<Longrightarrow> pc_rank pc' \<le> pc_rank pc - n \<Longrightarrow> Q (pc', s') w'"
  shows "wp (op_steps a op n pc s) Q w"
  using assms
proof (induction n arbitrary: pc s w)
  case (Suc n)
  show ?case
    unfolding op_steps.simps wp_bind
  proof (rule wp_op_step [OF Suc.prems(1)])
    fix pc1 s1 and w1 :: world
    assume step: "step_post op pc s pc1 s1"
    then have ok1: "pc_ok op pc1 s1" by (simp add: step_post_def)
    show "wp (op_steps a op n (fst (pc1, s1)) (snd (pc1, s1))) Q w1"
      unfolding fst_conv snd_conv
    proof (rule Suc.IH [OF ok1])
      fix pc' s' and w' :: world
      assume "pc_ok op pc' s'" "only_op (po_id op) s1 s'" "pc_rank pc' \<le> pc_rank pc1 - n"
      then show "Q (pc', s') w'"
        using step by (intro Suc.prems(2)) (auto simp: step_post_def elim: only_op_trans)
    qed
  qed
qed simp

lemma wp_execute_operation:
  assumes Q: "\<And>e s' w'. only_op (po_id op) s s' \<Longrightarrow>
      op_status s' (po_id op) = Some (if e = None then status_completed else status_failed) \<Longrightarrow> Q (e, s') w'"
  shows "wp (execute_operation a op s) Q w"
proof -
  have "wp (op_steps a op 8 PcStart s) (\<lambda>r. Q (done_err (fst r), snd r)) w"
  proof (rule wp_op_steps)
    fix pc' s' and w' :: world
    assume ok: "pc_ok op pc' s'" "only_op (po_id op) s s'" and "pc_rank pc' \<le> pc_rank PcStart - 8"
    then obtain e where "pc' = PcDone e" by (auto simp: pc_rank_0)
    then show "Q (done_err (fst (pc', s')), snd (pc', s')) w'"
      using ok Q [of s' e w'] by (auto simp: pc_ok_def pc_status_def done_err_def split: option.splits)
  qed (simp add: pc_ok_def)
  then show ?thesis by (simp add: op_steps_execute done_err_def)
qed

text \<open>A group of one goroutine is its machine, whatever the schedule.\<close>

lemma par_step_one:
  "par_step a i [(op, pc)] first s = (if i = 0 then do {
     r \<leftarrow> op_step a op pc s; ret ([(op, fst r)], keep_first pc (fst r) first, snd r) } else ret ([(op, pc)], first, s))"
  by (simp add: par_step_def)

lemma par_run_one:
  "(pc = PcStart \<or> pc_ok op pc s) \<Longrightarrow> par_run a is [(op, pc)] (done_err pc) s = do {
     r \<leftarrow> op_steps a op (count_list is 0) pc s; ret ([(op, fst r)], done_err (fst r), snd r) }"
proof (induction "is" arbitrary: pc s)
  case (Cons i "is")
  show ?case
  proof (cases "i = 0")
    case True
    show ?thesis
    proof (rule state.expand, rule ext)
      fix w
      obtain pc1 s1 w1 where run: "run_state (op_step a op pc s) w = ((pc1, s1), w1)" by (metis prod.exhaust)
      have "pc_ok op pc s" using Cons.prems by (auto simp: pc_ok_def)
      then have "wp (op_step a op pc s) (\<lambda>(pc1, s1) _. step_post op pc s pc1 s1) w" by (rule wp_op_step) simp
      from wpD [OF this run] have step: "step_post op pc s pc1 s1" by simp
      then have "keep_first pc pc1 (done_err pc) = done_err pc1" "pc_ok op pc1 s1"
        by (simp_all add: step_post_def keep_first_done)
      then show "run_state (par_run a (i # is) [(op, pc)] (done_err pc) s) w = run_state (do {
          r \<leftarrow> op_steps a op (count_list (i # is) 0) pc s; ret ([(op, fst r)], done_err (fst r), snd r) }) w"
        using Cons.IH [of pc1 s1] by (simp add: True par_step_one run)
    qed
  qed (use Cons in \<open>simp add: par_step_one\<close>)
qed simp


section \<open>Groups\<close>

text \<open>Operations in sequence: an error comes from one of them, with all before it completed and none after it touched.\<close>

definition seq_post :: "planned_operation list \<Rightarrow> apply_state \<Rightarrow> err option \<Rightarrow> apply_state \<Rightarrow> bool" where
  "seq_post ops s e s' = (case e of
     None \<Rightarrow> all_completed ops s' \<and> ops_frame (op_ids ops) s s'
   | Some _ \<Rightarrow> (\<exists>pre op post. ops = pre @ op # post \<and> all_completed pre s' \<and>
       op_status s' (po_id op) = Some status_failed \<and> ops_frame (op_ids (pre @ [op])) s s'))"

lemma op_ids_simps [simp]: "op_ids [] = {}" "op_ids (op # ops) = insert (po_id op) (op_ids ops)"
  "op_ids (xs @ ys) = op_ids xs \<union> op_ids ys"
  by (auto simp: op_ids_def)

lemma all_completed_simps [simp]: "all_completed [] s"
  "all_completed (op # ops) s \<longleftrightarrow> op_status s (po_id op) = Some status_completed \<and> all_completed ops s"
  "all_completed (xs @ ys) s \<longleftrightarrow> all_completed xs s \<and> all_completed ys s"
  by (auto simp: all_completed_def)

lemma all_completed_frame: "all_completed ops s \<Longrightarrow> ops_frame A s s' \<Longrightarrow> A \<inter> op_ids ops = {} \<Longrightarrow> all_completed ops s'"
  using ops_frame_status [of A s s'] unfolding all_completed_def op_ids_def by (metis disjoint_iff image_eqI)

lemma seq_post_first:
  "only_op (po_id op) s s' \<Longrightarrow> op_status s' (po_id op) = Some status_failed \<Longrightarrow> seq_post (op # ops) s (Some m) s'"
  unfolding seq_post_def option.case
  by (rule exI [of _ "[]"], rule exI [of _ op], rule exI [of _ ops]) (simp add: only_op_frame)

lemma wp_execute_sequential:
  assumes "distinct (map po_id ops)" and "\<And>e s' w'. seq_post ops s e s' \<Longrightarrow> Q (e, s') w'"
  shows "wp (execute_sequential a ops s) Q w"
  using assms
proof (induction ops arbitrary: s w Q)
  case Nil
  then show ?case by (simp add: seq_post_def)
next
  case (Cons op ops)
  show ?case
    unfolding execute_sequential.simps wp_bind
  proof (rule wp_execute_operation)
    fix e :: "err option" and s1 and w1 :: world
    assume one: "only_op (po_id op) s s1" "op_status s1 (po_id op) = Some (if e = None then status_completed else status_failed)"
    then have f1: "ops_frame {po_id op} s s1" by (simp add: only_op_frame)
    have "wp (execute_sequential a ops s1) Q w1" if e: "e = None"
    proof (rule Cons.IH)
      fix e' s' and w' :: world
      assume post: "seq_post ops s1 e' s'"
      have new: "po_id op \<notin> op_ids ops" using Cons.prems(1) by (auto simp: op_ids_def)
      have head: "op_status s' (po_id op) = Some status_completed" if "ops_frame A s1 s'" "A \<subseteq> op_ids ops" for A
        using ops_frame_status [OF that(1), of "po_id op"] that(2) new one(2) e by auto
      show "Q (e', s') w'"
      proof (rule Cons.prems(2))
        show "seq_post (op # ops) s e' s'"
        proof (cases e')
          case None
          then show ?thesis
            using post head [of "op_ids ops"] ops_frame_trans [OF f1, of "op_ids ops" s' "op_ids (op # ops)"]
            by (simp add: seq_post_def)
        next
          case (Some m)
          then obtain pre x post' where x: "ops = pre @ x # post'" "all_completed pre s'"
            "op_status s' (po_id x) = Some status_failed" "ops_frame (op_ids (pre @ [x])) s1 s'"
            using post by (auto simp: seq_post_def)
          have "op_status s' (po_id op) = Some status_completed" by (rule head [OF x(4)]) (auto simp: x(1))
          moreover have "ops_frame (op_ids ((op # pre) @ [x])) s s'" by (rule ops_frame_trans [OF f1 x(4)]) auto
          ultimately show ?thesis
            using Some x unfolding seq_post_def by (auto intro!: exI [of _ "op # pre"] simp: insert_commute)
        qed
      qed
    qed (use Cons.prems(1) in simp)
    moreover have "Q (Some m, s1) w1" if "e = Some m" for m :: err
    proof (rule Cons.prems(2))
      show "seq_post (op # ops) s (Some m) s1" by (rule seq_post_first) (use that one in simp_all)
    qed
    ultimately show "wp (case fst (e, s1) of None \<Rightarrow> execute_sequential a ops (snd (e, s1))
        | Some m \<Rightarrow> ret (Some m, snd (e, s1))) Q w1"
      by (cases e) simp_all
  qed
qed

definition some_failed :: "planned_operation list \<Rightarrow> apply_state \<Rightarrow> bool" where
  "some_failed ops s = (\<exists>op \<in> set ops. op_status s (po_id op) = Some status_failed)"

definition group_post :: "planned_operation list \<Rightarrow> apply_state \<Rightarrow> err option \<Rightarrow> apply_state \<Rightarrow> bool" where
  "group_post g s e s' = ((if e = None then all_completed g s' else some_failed g s') \<and> ops_frame (op_ids g) s s')"

lemma seq_post_group: "seq_post g s e s' \<Longrightarrow> group_post g s e s'"
  by (auto simp: seq_post_def group_post_def some_failed_def split: option.splits elim: ops_frame_trans [OF ops_frame_refl])

lemma wp_execute_group:
  assumes dist: "distinct (map po_id g)" and Q: "\<And>e s' w'. group_post g s e s' \<Longrightarrow> Q (e, s') w'"
  shows "wp (execute_operation_group a g s) Q w"
proof (cases g)
  case Nil
  then show ?thesis using Q [of None s w] by (simp add: execute_operation_group_def group_post_def)
next
  case (Cons op ops)
  have par: "wp (execute_parallel a (ap_schedule a (po_id op)) g s) Q w"
    by (rule wp_execute_parallel [OF dist], rule Q)
      (auto simp: group_post_def some_failed_def all_ended_def all_completed_def)
  have seq: "wp (execute_sequential a g s) Q w"
    by (rule wp_execute_sequential [OF dist], rule Q, rule seq_post_group)
  show ?thesis using par seq Cons by (simp add: execute_operation_group_def)
qed

text \<open>The groups of a phase: an error comes from one of them, and no operation of a later group was touched.\<close>

definition groups_post :: "planned_operation list list \<Rightarrow> apply_state \<Rightarrow> err option \<Rightarrow> apply_state \<Rightarrow> bool" where
  "groups_post gs s e s' = (case e of
     None \<Rightarrow> all_completed (concat gs) s' \<and> ops_frame (op_ids (concat gs)) s s'
   | Some _ \<Rightarrow> (\<exists>pre g post. gs = pre @ g # post \<and> all_completed (concat pre) s' \<and> some_failed g s' \<and>
       ops_frame (op_ids (concat pre @ g)) s s'))"

lemma groups_post_first: "group_post g s (Some m) s' \<Longrightarrow> groups_post (g # gs) s (Some m') s'"
  unfolding groups_post_def option.case
  by (rule exI [of _ "[]"], rule exI [of _ g], rule exI [of _ gs]) (simp add: group_post_def)

lemma wp_execute_groups:
  assumes "distinct (map po_id (concat gs))" and "\<And>e s' w'. groups_post gs s e s' \<Longrightarrow> Q (e, s') w'"
  shows "wp (execute_groups a k gs s) Q w"
  using assms
proof (induction gs arbitrary: k s w Q)
  case Nil
  then show ?case by (simp add: groups_post_def)
next
  case (Cons g gs)
  have dist: "distinct (map po_id g)" "distinct (map po_id (concat gs))" and disj: "op_ids g \<inter> op_ids (concat gs) = {}"
    using Cons.prems(1) by (auto simp: op_ids_def)
  show ?case
    unfolding execute_groups.simps wp_bind
  proof (rule wp_execute_group [OF dist(1)])
    fix e :: "err option" and s1 and w1 :: world
    assume one: "group_post g s e s1"
    then have f1: "ops_frame (op_ids g) s s1" by (simp add: group_post_def)
    have "wp (execute_groups a (Suc k) gs s1) Q w1" if e: "e = None"
    proof (rule Cons.IH [OF dist(2)])
      fix e' s' and w' :: world
      assume post: "groups_post gs s1 e' s'"
      have head: "all_completed g s'" if "ops_frame A s1 s'" "A \<subseteq> op_ids (concat gs)" for A
        by (rule all_completed_frame [OF _ that(1)]) (use one e that(2) disj in \<open>auto simp: group_post_def\<close>)
      show "Q (e', s') w'"
      proof (rule Cons.prems(2))
        show "groups_post (g # gs) s e' s'"
        proof (cases e')
          case None
          then show ?thesis
            using post head [of "op_ids (concat gs)"] ops_frame_trans [OF f1, of "op_ids (concat gs)" s' "op_ids (concat (g # gs))"]
            by (simp add: groups_post_def)
        next
          case (Some m)
          then obtain pre x post' where x: "gs = pre @ x # post'" "all_completed (concat pre) s'" "some_failed x s'"
            "ops_frame (op_ids (concat pre @ x)) s1 s'"
            using post by (auto simp: groups_post_def)
          have "all_completed g s'" by (rule head [OF x(4)]) (auto simp: x(1))
          moreover have "ops_frame (op_ids (concat (g # pre) @ x)) s s'" by (rule ops_frame_trans [OF f1 x(4)]) auto
          ultimately show ?thesis
            using Some x unfolding groups_post_def by (auto intro!: exI [of _ "g # pre"] simp: Un_assoc)
        qed
      qed
    qed
    moreover have "Q (Some m, s1) w1" if "e = Some m'" for m m' :: err
    proof (rule Cons.prems(2))
      show "groups_post (g # gs) s (Some m) s1" by (rule groups_post_first [of _ _ m']) (use that one in simp)
    qed
    ultimately show "wp (case fst (e, s1) of None \<Rightarrow> execute_groups a (Suc k) gs (snd (e, s1))
        | Some m \<Rightarrow> ret (Some (wrapf (''operation group '' @ itoa (int k) @ '' failed'') m), snd (e, s1))) Q w1"
      by (cases e) simp_all
  qed
qed

section \<open>Properties\<close>

text \<open>
  C9. Operations in sequence stop at the first error: everything before the operation that failed is
  completed, the operation is marked failed, and the entries of the operations after it are as before.
  Without an error all are completed.
\<close>
theorem sequential_stops:
  assumes "distinct (map po_id ops)"
  shows "wp (execute_sequential a ops s) (\<lambda>(e, s') w'. case e of
     None \<Rightarrow> all_completed ops s'
   | Some _ \<Rightarrow> \<exists>pre op post. ops = pre @ op # post \<and> all_completed pre s' \<and> op_status s' (po_id op) = Some status_failed \<and>
       (\<forall>q \<in> set post. mget (as_ops s') (po_id q) = mget (as_ops s) (po_id q))) w"
proof (rule wp_execute_sequential [OF assms])
  fix e s' and w' :: world
  assume post: "seq_post ops s e s'"
  have rest: "mget (as_ops s') (po_id q) = mget (as_ops s) (po_id q)"
    if "ops = pre @ op # post'" "ops_frame (op_ids (pre @ [op])) s s'" "q \<in> set post'" for pre op post' q
  proof -
    have "po_id q \<in> po_id ` set post'" using that(3) by simp
    then have "po_id q \<notin> op_ids (pre @ [op])" using assms by (auto simp: that(1) op_ids_def)
    then show ?thesis using that(2) by (simp add: ops_frame_def)
  qed
  show "(\<lambda>(e, s') w'. case e of
     None \<Rightarrow> all_completed ops s'
   | Some _ \<Rightarrow> \<exists>pre op post. ops = pre @ op # post \<and> all_completed pre s' \<and> op_status s' (po_id op) = Some status_failed \<and>
       (\<forall>q \<in> set post. mget (as_ops s') (po_id q) = mget (as_ops s) (po_id q))) (e, s') w'"
    using post rest unfolding seq_post_def by (cases e) (simp, simp, blast)
qed

text \<open>
  C3. Operations in parallel, under every schedule of their goroutines: when the group returns every
  operation has ended, completed or failed; the group's error is \<^verbatim>\<open>nil\<close> exactly when all completed; and no
  other operation, no phase and not the status of the apply changed.
\<close>
theorem parallel_any_schedule:
  assumes "distinct (map po_id ops)"
  shows "wp (execute_parallel a sched ops s) (\<lambda>(e, s') w'.
     (\<forall>op \<in> set ops. op_status s' (po_id op) \<in> {Some status_completed, Some status_failed}) \<and>
     (e = None \<longleftrightarrow> (\<forall>op \<in> set ops. op_status s' (po_id op) = Some status_completed)) \<and>
     (\<forall>j. j \<notin> po_id ` set ops \<longrightarrow> mget (as_ops s') j = mget (as_ops s) j) \<and>
     as_phases s' = as_phases s \<and> as_status s' = as_status s) w"
  by (rule wp_execute_parallel [OF assms])
    (simp add: all_ended_def all_completed_def ops_frame_def op_ids_def)

text \<open>An executor that fails some operations, and operations to run it on.\<close>

definition example_applier :: "(string \<Rightarrow> bool) \<Rightarrow> applier" where
  "example_applier bad = \<lparr>ap_executor = \<lparr>ox_validate = (\<lambda>op. ret None),
       ox_execute = (\<lambda>op. ret (if bad (po_id op) then Err ''boom''
         else Ok \<lparr>or_success = True, or_output = [], or_changes = [], or_metadata = []\<rparr>))\<rparr>,
     ap_dir = ''/c'', ap_hooks = [], ap_shell = (\<lambda>_ _ _. ret ([], None)), ap_schedule = (\<lambda>_. [1, 0, 1, 0]),
     ap_paused = (\<lambda>_. False)\<rparr>"

definition example_op :: "string \<Rightarrow> bool \<Rightarrow> planned_operation" where
  "example_op i par = \<lparr>po_id = i, po_type = op_create_directory, po_description = i,
     po_target = \<lparr>tg_type = ''host'', tg_name = ''h'', tg_host = ''h'', tg_port = 0, tg_params = []\<rparr>,
     po_pre = [], po_changes = [], po_depends = [], po_parallel = par, po_params = []\<rparr>"

definition example_state :: apply_state where
  "example_state = \<lparr>as_id = ''s'', as_plan = ''p'', as_cluster = ''c'', as_operation = ''deploy'', as_status = status_running,
     as_started = 0, as_updated = 0, as_completed = None, as_phase = [], as_phases = [], as_ops = [], as_checkpoints = [],
     as_errors = [], as_log = []\<rparr>"

lemma example_op_simps [simp]: "po_id (example_op i b) = i" "po_parallel (example_op i b) = b"
  by (simp_all add: example_op_def)

lemma sequential_stops_witness:
  "wp (execute_sequential (example_applier (\<lambda>i. i = ''b'')) (map (\<lambda>i. example_op i False) [''a'', ''b'', ''c'']) example_state)
    (\<lambda>(e, s') w'. case e of
       None \<Rightarrow> all_completed (map (\<lambda>i. example_op i False) [''a'', ''b'', ''c'']) s'
     | Some _ \<Rightarrow> \<exists>pre op post. map (\<lambda>i. example_op i False) [''a'', ''b'', ''c''] = pre @ op # post \<and> all_completed pre s' \<and>
         op_status s' (po_id op) = Some status_failed \<and>
         (\<forall>q \<in> set post. mget (as_ops s') (po_id q) = mget (as_ops example_state) (po_id q))) example_world"
  by (rule sequential_stops) simp

lemma parallel_any_schedule_witness:
  "wp (execute_parallel (example_applier (\<lambda>i. i = ''b'')) [1, 0, 7, 1] [example_op ''a'' True, example_op ''b'' True] example_state)
    (\<lambda>(e, s') w'. op_status s' ''a'' \<in> {Some status_completed, Some status_failed} \<and> as_phases s' = []) example_world"
  using parallel_any_schedule [of "[example_op ''a'' True, example_op ''b'' True]"]
  by (rule wp_mono) (auto simp: example_state_def)

end
