(* ===== verification/Plan_Store.thy ===== *)
theory Plan_Store imports Plan_Json begin

text \<open>
  \<^verbatim>\<open>pkg/plan/store.go\<close>: plans on disk, with an atomic save and a SHA-256 checksum beside each plan.

  The text that \<^verbatim>\<open>json.MarshalIndent\<close> gives a document (\<open>render\<close>) and SHA-256 in hexadecimal
  (\<open>sha\<close>) are parameters. Identifiers that the ULID package makes come from the identifier supply
  of the world.
\<close>

section \<open>Operations\<close>

definition file_bytes :: "(json \<Rightarrow> string) \<Rightarrow> fcontent \<Rightarrow> string" where
  "file_bytes render c = (case c of Text s \<Rightarrow> s | Json j \<Rightarrow> render j)"

definition get_plans_dir :: "string \<Rightarrow> string \<Rightarrow> string" where
  "get_plans_dir sd cn = path_join [sd, ''clusters'', cn, ''plans'']"

definition get_plan_path :: "string \<Rightarrow> string \<Rightarrow> string \<Rightarrow> string" where
  "get_plan_path sd cn i = path_join [get_plans_dir sd cn, i @ ''.json'']"

definition plan_save_to_file :: "plan \<Rightarrow> string \<Rightarrow> err option io" where
  "plan_save_to_file p path = do {
     e \<leftarrow> os_write_file path (Json (enc_plan p));
     ret (map_option os_msg e) }"

definition load_from_file :: "string \<Rightarrow> plan res io" where
  "load_from_file path = do {
     r \<leftarrow> os_read_file path;
     ret (case r of Inl e \<Rightarrow> Err (os_msg e) | Inr c \<Rightarrow> unmarshal dec_plan c) }"

definition ensure_plan_id :: "plan \<Rightarrow> plan io" where
  "ensure_plan_id p =
     (if pl_id p = [] then do {
        _ \<leftarrow> time_now;
        _ \<leftarrow> time_now;
        u \<leftarrow> new_uuid;
        ret (p\<lparr>pl_id := u\<rparr>) }
      else ret p)"

definition ensure_created_at :: "plan \<Rightarrow> plan io" where
  "ensure_created_at p =
     (if pl_created_at p = 0 then do { t \<leftarrow> time_now; ret (p\<lparr>pl_created_at := t\<rparr>) } else ret p)"

text \<open>The plan file, replaced atomically, then the checksum, whose failure is only a warning.\<close>

definition write_plan_file :: "(json \<Rightarrow> string) \<Rightarrow> (string \<Rightarrow> string) \<Rightarrow> string \<Rightarrow> plan \<Rightarrow> string res io" where
  "write_plan_file render sha path p = do {
     let data = Json (enc_plan p);
     s \<leftarrow> write_rename path data;
     case s of
       Some (WriteFailed m) \<Rightarrow> ret (Err (wrapf ''failed to write plan file'' (os_msg m)))
     | Some (RenameFailed m) \<Rightarrow> ret (Err (wrapf ''failed to rename plan file'' (os_msg m)))
     | None \<Rightarrow> do {
         _ \<leftarrow> os_write_file (path @ ''.sha256'') (Text (sha (file_bytes render data)));
         ret (Ok (pl_id p)) } }"

text \<open>The plan is passed by pointer: the saved plan is returned beside the result.\<close>

definition save_plan :: "(json \<Rightarrow> string) \<Rightarrow> (string \<Rightarrow> string) \<Rightarrow> string \<Rightarrow> plan \<Rightarrow> (string res \<times> plan) io" where
  "save_plan render sha sd p0 = do {
     p1 \<leftarrow> ensure_plan_id p0;
     p \<leftarrow> ensure_created_at p1;
     e \<leftarrow> os_mkdir_all (get_plans_dir sd (pl_cluster p));
     case e of
       Some m \<Rightarrow> ret (Err (wrapf ''failed to create plans directory'' (os_msg m)), p)
     | None \<Rightarrow> do {
         r \<leftarrow> write_plan_file render sha (get_plan_path sd (pl_cluster p) (pl_id p)) p;
         ret (r, p) } }"

definition load_plan :: "string \<Rightarrow> string \<Rightarrow> string \<Rightarrow> plan res io" where
  "load_plan sd cn i = do {
     let path = get_plan_path sd cn i;
     st \<leftarrow> os_stat path;
     case st of
       Inl e \<Rightarrow> ret (Err (if is_not_exist e then ''plan not found: '' @ i
                          else wrapf ''failed to stat plan file'' (os_msg e)))
     | Inr _ \<Rightarrow> do {
         r \<leftarrow> load_from_file path;
         ret (wrap_err ''failed to load plan'' r) } }"

definition verify_plan :: "(json \<Rightarrow> string) \<Rightarrow> (string \<Rightarrow> string) \<Rightarrow> string \<Rightarrow> string \<Rightarrow> string \<Rightarrow> bool res io" where
  "verify_plan render sha sd cn i = do {
     let path = get_plan_path sd cn i;
     r \<leftarrow> os_read_file path;
     case r of
       Inl e \<Rightarrow> ret (Err (wrapf ''failed to read plan file'' (os_msg e)))
     | Inr c \<Rightarrow> do {
         s \<leftarrow> os_read_file (path @ ''.sha256'');
         ret (case s of
             Inl e \<Rightarrow> if is_not_exist e then Ok False
                      else Err (wrapf ''failed to read checksum file'' (os_msg e))
           | Inr stored \<Rightarrow> Ok (sha (file_bytes render c) = file_bytes render stored)) } }"

definition delete_plan :: "string \<Rightarrow> string \<Rightarrow> string \<Rightarrow> err option io" where
  "delete_plan sd cn i = do {
     let path = get_plan_path sd cn i;
     e \<leftarrow> os_remove path;
     case e of
       Some (OsFail m) \<Rightarrow> ret (Some (wrapf ''failed to remove plan file'' m))
     | _ \<Rightarrow> do { _ \<leftarrow> os_remove (path @ ''.sha256''); ret None } }"

section \<open>Metadata and listing\<close>

record plan_metadata =
  pm_id :: string
  pm_operation :: string
  pm_cluster :: string
  pm_created_at :: int
  pm_version :: string
  pm_variant :: string
  pm_is_valid :: bool
  pm_phase_count :: nat
  pm_phase_names :: "string list"
  pm_size :: nat
  pm_verified :: bool

text \<open>The anonymous struct of \<^verbatim>\<open>GetPlanMetadata\<close>: the same document, read only in part.\<close>

definition dec_plan_data :: "json \<Rightarrow> plan_metadata option" where
  "dec_plan_data j = do {
     i \<leftarrow> jfield ''plan_id'' [] dec_str j;
     o' \<leftarrow> jfield ''operation'' [] dec_str j;
     c \<leftarrow> jfield ''cluster_name'' [] dec_str j;
     t \<leftarrow> jfield ''created_at'' 0 dec_time j;
     v \<leftarrow> jfield ''version'' [] dec_str j;
     vr \<leftarrow> jfield ''variant'' [] dec_str j;
     ok \<leftarrow> jstruct ''validation'' (jfield ''valid'' False dec_bool) j;
     phs \<leftarrow> jfield ''phases'' [] (dec_list (jfield ''name'' [] dec_str)) j;
     Some \<lparr>pm_id = i, pm_operation = o', pm_cluster = c, pm_created_at = t, pm_version = v,
       pm_variant = vr, pm_is_valid = ok, pm_phase_count = length phs, pm_phase_names = phs,
       pm_size = 0, pm_verified = False\<rparr> }"

definition get_plan_metadata ::
  "(json \<Rightarrow> string) \<Rightarrow> (string \<Rightarrow> string) \<Rightarrow> string \<Rightarrow> string \<Rightarrow> string \<Rightarrow> plan_metadata res io" where
  "get_plan_metadata render sha sd cn i = do {
     let path = get_plan_path sd cn i;
     r \<leftarrow> os_read_file path;
     case r of
       Inl e \<Rightarrow> ret (Err (wrapf ''failed to open plan file'' (os_msg e)))
     | Inr c \<Rightarrow> (case unmarshal dec_plan_data c of
         Inl e \<Rightarrow> ret (Err (wrapf ''failed to decode plan'' e))
       | Inr d \<Rightarrow> do {
           flt \<leftarrow> io_fault;
           case flt of
             Some e \<Rightarrow> ret (Err (wrapf ''failed to stat plan file'' (fault_msg e)))
           | None \<Rightarrow> do {
               v \<leftarrow> verify_plan render sha sd cn i;
               ret (Ok (d\<lparr>pm_size := length (file_bytes render c), pm_verified := (v = Ok True)\<rparr>)) } }) }"

definition is_json_file :: "string \<Rightarrow> bool" where
  "is_json_file name = (length name > 5 \<and> drop (length name - 5) name = ''.json'')"

fun collect_metadata ::
  "(json \<Rightarrow> string) \<Rightarrow> (string \<Rightarrow> string) \<Rightarrow> string \<Rightarrow> string \<Rightarrow> (string \<times> fnode) list \<Rightarrow> plan_metadata list io" where
  "collect_metadata render sha sd cn [] = ret []"
| "collect_metadata render sha sd cn ((name, n) # es) =
     (if n = FDir \<or> \<not> is_json_file name then collect_metadata render sha sd cn es
      else do {
        r \<leftarrow> get_plan_metadata render sha sd cn (take (length name - 5) name);
        ms \<leftarrow> collect_metadata render sha sd cn es;
        ret (case r of Inl _ \<Rightarrow> ms | Inr m \<Rightarrow> m # ms) })"

text \<open>\<^verbatim>\<open>sort.Slice\<close>, newest first; the order of plans of the same instant is one of those it may give.\<close>

definition list_plans ::
  "(json \<Rightarrow> string) \<Rightarrow> (string \<Rightarrow> string) \<Rightarrow> string \<Rightarrow> string \<Rightarrow> plan_metadata list res io" where
  "list_plans render sha sd cn = do {
     let dir = get_plans_dir sd cn;
     st \<leftarrow> os_stat dir;
     case st of
       Inl e \<Rightarrow> ret (if is_not_exist e then Ok []
                     else Err (wrapf ''failed to stat plans directory'' (os_msg e)))
     | Inr _ \<Rightarrow> do {
         es \<leftarrow> os_read_dir dir;
         case es of
           Inl e \<Rightarrow> ret (Err (wrapf ''failed to read plans directory'' (os_msg e)))
         | Inr entries \<Rightarrow> do {
             ms \<leftarrow> collect_metadata render sha sd cn entries;
             ret (Ok (sort_key (\<lambda>m. - pm_created_at m) ms)) } } }"

definition compute_checksum :: "(json \<Rightarrow> string) \<Rightarrow> (string \<Rightarrow> string) \<Rightarrow> string \<Rightarrow> string res io" where
  "compute_checksum render sha path = do {
     r \<leftarrow> os_read_file path;
     ret (case r of Inl e \<Rightarrow> Err (wrapf ''failed to open file'' (os_msg e))
          | Inr c \<Rightarrow> Ok (sha (file_bytes render c))) }"

section \<open>Paths\<close>

definition plan_comps :: "string list \<Rightarrow> string \<Rightarrow> string list" where
  "plan_comps cs cn = cs @ [''clusters'', cn, ''plans'']"

lemma comp_ok_lits [simp]: "comp_ok ''clusters''" "comp_ok ''plans''" "comp_ok ''state''"
  by (simp_all add: comp_ok_def dot_def dotdot_def)

lemma plans_dir_abs [path_simps]:
  "comps_ok cs \<Longrightarrow> comp_ok cn \<Longrightarrow> get_plans_dir (abs_path cs) cn = abs_path (plan_comps cs cn)"
  by (simp add: get_plans_dir_def path_join_abs plan_comps_def)

lemma plan_path_abs [path_simps]:
  "comps_ok cs \<Longrightarrow> comp_ok cn \<Longrightarrow> comp_ok (i @ ''.json'') \<Longrightarrow>
   get_plan_path (abs_path cs) cn i = abs_path (plan_comps cs cn @ [i @ ''.json''])"
  by (simp add: get_plan_path_def path_simps) (simp add: plan_comps_def path_join_abs)

lemma comps_ok_plan [simp]: "comps_ok (plan_comps cs cn) \<longleftrightarrow> comps_ok cs \<and> comp_ok cn"
  by (auto simp: plan_comps_def)

lemma comp_ok_ext [simp]:
  "slash \<notin> set i \<Longrightarrow> comp_ok (i @ ''.json'')" "slash \<notin> set i \<Longrightarrow> comp_ok (i @ ''.json.tmp'')"
  "slash \<notin> set i \<Longrightarrow> comp_ok (i @ ''.json.sha256'')"
  by (auto intro!: comp_ok_long)

text \<open>A storage directory, a cluster name and an identifier that make a well-formed plan path.\<close>

definition plan_key_ok :: "string list \<Rightarrow> string \<Rightarrow> string \<Rightarrow> bool" where
  "plan_key_ok cs cn i = (comps_ok cs \<and> comp_ok cn \<and> slash \<notin> set i)"

lemma plan_path_facts:
  assumes "plan_key_ok cs cn i"
  defines "path \<equiv> get_plan_path (abs_path cs) cn i"
  shows "path_clean path = path" "path_clean (path @ ''.tmp'') = path @ ''.tmp''"
    "path_clean (path @ ''.sha256'') = path @ ''.sha256''" "path \<noteq> [slash]" "path \<noteq> dot"
proof -
  have p: "path = abs_path (plan_comps cs cn @ [i @ ''.json''])"
    using assms by (simp add: plan_key_ok_def path_simps)
  show "path_clean path = path" "path_clean (path @ ''.tmp'') = path @ ''.tmp''"
    "path_clean (path @ ''.sha256'') = path @ ''.sha256''"
    using assms(1) by (simp_all add: p path_simps plan_key_ok_def)
  have "path \<noteq> abs_path []"
    using assms(1) unfolding p by (subst abs_path_inject) (simp_all add: plan_key_ok_def)
  then show "path \<noteq> [slash]" by (simp add: abs_path_def)
  show "path \<noteq> dot" by (simp add: p abs_path_def dot_def)
qed

section \<open>Saving\<close>

text \<open>The plan that is saved: the given one with an identifier and a creation time.\<close>

lemma wp_ensure:
  assumes "\<And>p' w'. w_fs w' = w_fs w \<Longrightarrow> w_uuids w' = w_uuids w \<Longrightarrow>
      pl_id p' = (if pl_id p = [] then w_uuids w (w_nuuid w) else pl_id p) \<Longrightarrow>
      pl_cluster p' = pl_cluster p \<Longrightarrow> pl_phases p' = pl_phases p \<Longrightarrow> Q p' w'"
  shows "wp (do { p1 \<leftarrow> ensure_plan_id p; ensure_created_at p1 }) Q w"
  unfolding ensure_plan_id_def ensure_created_at_def
  by (auto intro!: assms)

definition uuids_ok :: "world \<Rightarrow> bool" where
  "uuids_ok w = (\<forall>n. slash \<notin> set (w_uuids w n))"

text \<open>A directory without symbolic links; making directories keeps it so.\<close>

definition no_links_in :: "string \<Rightarrow> fs \<Rightarrow> bool" where
  "no_links_in d f = (\<forall>q. path_dir q = d \<longrightarrow> \<not> is_link f q)"

lemma plan_path_dirs:
  assumes "plan_key_ok cs cn i"
  defines "path \<equiv> get_plan_path (abs_path cs) cn i" and "d \<equiv> get_plans_dir (abs_path cs) cn"
  shows "path_dir path = d" "path_dir (path @ ''.tmp'') = d" "path_dir (path @ ''.sha256'') = d"
  using assms(1) by (simp_all add: path_def d_def path_simps plan_key_ok_def)

text \<open>
  What saving does, in any world: the plan's own file is replaced as a whole or not at all, and
  every other file that existed, apart from the temporary and the checksum file, is as it was.
\<close>

definition plan_written :: "string \<Rightarrow> plan \<Rightarrow> fs \<Rightarrow> string res \<Rightarrow> fs \<Rightarrow> bool" where
  "plan_written path p f r g =
     ((case r of
         Inr i \<Rightarrow> i = pl_id p \<and> (\<exists>t. mget g path = Some (FFile (Json (enc_plan p)) t))
       | Inl _ \<Rightarrow> mget g path = mget f path)
      \<and> fs_same_except {path, path @ ''.tmp'', path @ ''.sha256''} f g)"

lemma wp_write_plan_file:
  assumes clean: "path_clean path = path" "path_clean (path @ ''.tmp'') = path @ ''.tmp''"
      "path_clean (path @ ''.sha256'') = path @ ''.sha256''"
    and nl: "\<not> is_link (w_fs w) (path @ ''.tmp'')" "\<not> is_link (w_fs w) (path @ ''.sha256'')"
    and Q: "\<And>r w'. plan_written path p (w_fs w) r (w_fs w') \<Longrightarrow> Q r w'"
  shows "wp (write_plan_file render sha path p) Q w"
  unfolding write_plan_file_def Let_def wp_bind
proof (rule wp_write_rename [OF clean(1,2) nl(1)])
  fix s :: "save_err option" and w3 :: world
  assume same: "fs_same_except {path, path @ ''.tmp''} (w_fs w) (w_fs w3)"
    and ok: "s = None \<Longrightarrow> \<exists>t. mget (w_fs w3) path = Some (FFile (Json (enc_plan p)) t)"
    and bad: "s \<noteq> None \<Longrightarrow> mget (w_fs w3) path = mget (w_fs w) path"
  show "wp (case s of
        Some (WriteFailed m) \<Rightarrow> ret (Err (wrapf ''failed to write plan file'' (os_msg m)))
      | Some (RenameFailed m) \<Rightarrow> ret (Err (wrapf ''failed to rename plan file'' (os_msg m)))
      | None \<Rightarrow> do {
          _ \<leftarrow> os_write_file (path @ ''.sha256'') (Text (sha (file_bytes render (Json (enc_plan p)))));
          ret (Ok (pl_id p)) }) Q w3"
  proof (cases s)
    case (Some m)
    have "plan_written path p (w_fs w) (Err e) (w_fs w3)" for e
      using bad same Some by (simp add: plan_written_def fs_same_except_def)
    from Q [OF this] show ?thesis unfolding Some by (cases m) simp_all
  next
    case None
    have "\<not> is_link (w_fs w3) (path @ ''.sha256'')"
      using nl fs_same_exceptD [OF same] by (simp add: is_link_def)
    then have "fs_follow (w_fs w3) (path @ ''.sha256'') = Some (path @ ''.sha256'')"
      using fs_follow_plain [of "w_fs w3" "path @ ''.sha256''"] clean by simp
    then show ?thesis unfolding None option.case wp_bind
    proof (rule wp_write_file)
      fix e4 :: "os_err option" and w4 :: world
      assume "fs_same_except {path @ ''.sha256''} (w_fs w3) (w_fs w4)"
      then have "plan_written path p (w_fs w) (Ok (pl_id p)) (w_fs w4)"
        using same ok [OF None] by (simp add: plan_written_def fs_same_except_def)
      from Q [OF this] show "wp (ret (Ok (pl_id p))) Q w4" by simp
    qed
  qed
qed

definition saved_outcome :: "string list \<Rightarrow> plan \<Rightarrow> fs \<Rightarrow> string res \<Rightarrow> plan \<Rightarrow> fs \<Rightarrow> bool" where
  "saved_outcome cs p f r p' g =
     (let path = get_plan_path (abs_path cs) (pl_cluster p) (pl_id p') in
      plan_key_ok cs (pl_cluster p) (pl_id p') \<and> pl_cluster p' = pl_cluster p \<and> pl_phases p' = pl_phases p
      \<and> (case r of
           Inr i \<Rightarrow> i = pl_id p' \<and> (\<exists>t. mget g path = Some (FFile (Json (enc_plan p')) t))
         | Inl _ \<Rightarrow> (case mget f path of Some n \<Rightarrow> mget g path = Some n | None \<Rightarrow> mget g path \<in> {None, Some FDir}))
      \<and> (\<forall>q n. mget f q = Some n \<longrightarrow> q \<notin> {path, path @ ''.tmp'', path @ ''.sha256''} \<longrightarrow> mget g q = Some n))"

lemma saved_outcomeI:
  assumes "path = get_plan_path (abs_path cs) (pl_cluster p) (pl_id p')" "plan_key_ok cs (pl_cluster p) (pl_id p')"
    "pl_cluster p' = pl_cluster p" "pl_phases p' = pl_phases p"
    "\<And>i. r = Ok i \<Longrightarrow> i = pl_id p' \<and> (\<exists>t. mget g path = Some (FFile (Json (enc_plan p')) t))"
    "\<And>e n. r = Err e \<Longrightarrow> mget f path = Some n \<Longrightarrow> mget g path = Some n"
    "\<And>e. r = Err e \<Longrightarrow> mget f path = None \<Longrightarrow> mget g path \<in> {None, Some FDir}"
    "\<And>q n. mget f q = Some n \<Longrightarrow> q \<notin> {path, path @ ''.tmp'', path @ ''.sha256''} \<Longrightarrow> mget g q = Some n"
  shows "saved_outcome cs p f r p' g"
  unfolding saved_outcome_def Let_def assms(1) [symmetric]
  using assms by (auto split: sum.splits option.splits)

lemma wp_save_plan:
  assumes cs: "comps_ok cs" "comp_ok (pl_cluster p)" "slash \<notin> set (pl_id p)" "uuids_ok w"
    and links: "no_links_in (get_plans_dir (abs_path cs) (pl_cluster p)) (w_fs w)"
  shows "wp (save_plan render sha (abs_path cs) p) (\<lambda>(r, p') w'. saved_outcome cs p (w_fs w) r p' (w_fs w')) w"
proof -
  define rest where "rest q = do {
      e \<leftarrow> os_mkdir_all (get_plans_dir (abs_path cs) (pl_cluster q));
      case e of
       Some m \<Rightarrow> ret (Err (wrapf ''failed to create plans directory'' (os_msg m)), q)
     | None \<Rightarrow> do {
         r \<leftarrow> write_plan_file render sha (get_plan_path (abs_path cs) (pl_cluster q) (pl_id q)) q;
         ret (r, q) } }" for q
  have reassoc: "save_plan render sha (abs_path cs) p =
      do { q \<leftarrow> (do { p1 \<leftarrow> ensure_plan_id p; ensure_created_at p1 }); rest q }"
    by (simp add: save_plan_def rest_def)
  show ?thesis
    unfolding reassoc
  proof (subst wp_bind, rule wp_ensure)
    fix p' :: plan and w1 :: world
    assume w1: "w_fs w1 = w_fs w" and i: "pl_id p' = (if pl_id p = [] then w_uuids w (w_nuuid w) else pl_id p)"
      and c: "pl_cluster p' = pl_cluster p" and ph: "pl_phases p' = pl_phases p"
    have key: "plan_key_ok cs (pl_cluster p) (pl_id p')"
      using cs i by (auto simp: plan_key_ok_def uuids_ok_def)
    define path where "path = get_plan_path (abs_path cs) (pl_cluster p) (pl_id p')"
    note facts = plan_path_facts [OF key, folded path_def]
    note outcome = saved_outcomeI [OF path_def key c ph]
    have nl: "\<not> is_link (w_fs w) (path @ ''.tmp'')" "\<not> is_link (w_fs w) (path @ ''.sha256'')"
      using links plan_path_dirs [OF key, folded path_def] by (auto simp: no_links_in_def)
    show "wp (rest p') (\<lambda>(r, p') w'. saved_outcome cs p (w_fs w) r p' (w_fs w')) w1"
      unfolding rest_def wp_bind c path_def [symmetric]
    proof (rule wp_mkdir_all)
      fix e :: "os_err option" and w2 :: world
      assume keep: "\<And>q n. mget (w_fs w1) q = Some n \<Longrightarrow> mget (w_fs w2) q = Some n"
        and new: "\<And>q. mget (w_fs w1) q = None \<Longrightarrow> mget (w_fs w2) q \<in> {None, Some FDir}"
      note link2 = is_link_mkdir [OF keep new, unfolded w1]
      show "wp (case e of
            Some m \<Rightarrow> ret (Err (wrapf ''failed to create plans directory'' (os_msg m)), p')
          | None \<Rightarrow> do { r \<leftarrow> write_plan_file render sha path p'; ret (r, p') })
          (\<lambda>(r, p') w'. saved_outcome cs p (w_fs w) r p' (w_fs w')) w2"
      proof (cases e)
        case (Some m)
        have "saved_outcome cs p (w_fs w) (Err x) p' (w_fs w2)" for x
          by (rule outcome) (use keep new w1 in simp_all)
        with Some show ?thesis by simp
      next
        case None
        show ?thesis unfolding None option.case wp_bind
        proof (rule wp_write_plan_file [OF facts(1,2,3)])
          show "\<not> is_link (w_fs w2) (path @ ''.tmp'')" "\<not> is_link (w_fs w2) (path @ ''.sha256'')"
            using nl link2 by simp_all
          fix r :: "string res" and w3 :: world
          assume pw: "plan_written path p' (w_fs w2) r (w_fs w3)"
          note keep3 = fs_same_exceptD [OF conjunct2 [OF pw [unfolded plan_written_def]]]
          have "saved_outcome cs p (w_fs w) r p' (w_fs w3)"
            by (rule outcome) (use pw keep new w1 keep3 in \<open>auto simp: plan_written_def\<close>)
          then show "wp (ret (r, p')) (\<lambda>(r, p') w'. saved_outcome cs p (w_fs w) r p' (w_fs w')) w3"
            by simp
        qed
      qed
    qed
  qed
qed

text \<open>
  C14. Saving a plan is atomic. Whatever fails on the way, an error leaves the plan file as it was
  (at most a directory of its path is new), success leaves exactly the document of the returned plan in it, and no other file
  that existed changes, except the temporary and the checksum file beside it.
\<close>
theorem save_plan_atomic:
  assumes "comps_ok cs" "comp_ok (pl_cluster p)" "slash \<notin> set (pl_id p)" "uuids_ok w"
    and "no_links_in (get_plans_dir (abs_path cs) (pl_cluster p)) (w_fs w)"
    and "run_state (save_plan render sha (abs_path cs) p) w = ((r, p'), w')"
  shows "saved_outcome cs p (w_fs w) r p' (w_fs w')"
  using wpD [OF wp_save_plan [OF assms(1-5)] assms(6)] by simp

lemma load_plan_file:
  assumes "plan_key_ok cs cn i" "quiet w"
    and "mget (w_fs w) (get_plan_path (abs_path cs) cn i) = Some (FFile (Json (enc_plan p)) t)"
  shows "fst (run_state (load_plan (abs_path cs) cn i) w) = Ok (norm_plan p)"
proof -
  note facts = plan_path_facts [OF assms(1)]
  have "wp (load_plan (abs_path cs) cn i) (\<lambda>r _. r = Ok (norm_plan p)) w"
    using assms(2,3) facts
    by (simp add: load_plan_def load_from_file_def wp_stat_file_quiet wp_read_file_quiet plan_codec.unmarshal_enc)
  then show ?thesis by (simp add: wp_def case_prod_unfold)
qed

text \<open>
  C15. A saved plan can be loaded: after a save that returned an identifier, whatever failed on the
  way, loading under that identifier on a disk that works gives back the saved plan, with its untyped
  values in the form JSON gives them.
\<close>
theorem save_then_load:
  assumes "comps_ok cs" "comp_ok (pl_cluster p)" "slash \<notin> set (pl_id p)" "uuids_ok w"
    and "no_links_in (get_plans_dir (abs_path cs) (pl_cluster p)) (w_fs w)"
    and "run_state (save_plan render sha (abs_path cs) p) w = ((Ok i, p'), w')"
    and "quiet u" "w_fs u = w_fs w'"
  shows "fst (run_state (load_plan (abs_path cs) (pl_cluster p) i) u) = Ok (norm_plan p')"
proof -
  from wpD [OF wp_save_plan [OF assms(1-5)] assms(6)] obtain t where
    "plan_key_ok cs (pl_cluster p) i"
    "mget (w_fs u) (get_plan_path (abs_path cs) (pl_cluster p) i) = Some (FFile (Json (enc_plan p')) t)"
    by (auto simp: saved_outcome_def Let_def assms(8))
  from load_plan_file [OF this(1) assms(7) this(2)] show ?thesis .
qed

text \<open>
  Every number among the parameters of a plan is a \<^verbatim>\<open>float64\<close> once the plan has been through
  a file, and a topology has become an untyped map; saving what was loaded changes nothing more.
\<close>
theorem plan_roundtrip_params:
  "unmarshal dec_plan (Json (enc_plan p)) = Ok (norm_plan p)
   \<and> norm_plan (norm_plan p) = norm_plan p
   \<and> (mget m k = Some (PV (GInt n)) \<longrightarrow> mget (norm_pvals m) k = Some (PV (GFloat (of_int n))))
   \<and> (mget m k = Some (PTopology t) \<longrightarrow> mget (norm_pvals m) k = Some (PV (dec_val (enc_topology t))))"
  by (simp add: plan_codec.unmarshal_enc mget_norm_pvals norm_pval_def enc_pval_def)

definition example_plan :: plan where
  "example_plan = \<lparr>pl_id = ''p'', pl_operation = ''deploy'', pl_cluster = ''c'', pl_created_at = 1,
     pl_version = ''7.0.1'', pl_variant = ''mongo'', pl_topology_file = [], pl_topology = None, pl_config = [],
     pl_validation = \<lparr>vr_valid = True, vr_errors = [], vr_warnings = [], vr_checks = []\<rparr>, pl_phases = [],
     pl_resources = \<lparr>re_hosts = 0, re_total_processes = 0, re_ports_used = [], re_disk_space_gb = 0,
       re_memory_mb = 0, re_download_size_mb = 0, re_processes_per_host = []\<rparr>,
     pl_dry_run = False, pl_environment = []\<rparr>"

lemma plan_roundtrip_params_witness:
  "mget (norm_pvals [(''mode'', PV (GInt 493))]) ''mode'' = Some (PV (GFloat 493))
   \<and> norm_plan (norm_plan example_plan) = norm_plan example_plan"
  using plan_roundtrip_params [of example_plan "[(''mode'', PV (GInt 493))]" "''mode''" 493] by simp

lemma example_save_hyps:
  "comps_ok [''s'']" "comp_ok (pl_cluster example_plan)" "slash \<notin> set (pl_id example_plan)" "uuids_ok example_world"
  "no_links_in (get_plans_dir (abs_path [''s'']) (pl_cluster example_plan)) (w_fs example_world)"
  by (simp_all add: comp_ok_def dot_def dotdot_def example_plan_def uuids_ok_def example_world_def
      no_links_in_def is_link_def)

lemma save_plan_atomic_witness:
  "\<exists>r p' w'. run_state (save_plan (\<lambda>_. []) id (abs_path [''s'']) example_plan) example_world = ((r, p'), w')
     \<and> saved_outcome [''s''] example_plan (w_fs example_world) r p' (w_fs w')"
proof -
  obtain r p' w' where run: "run_state (save_plan (\<lambda>_. []) id (abs_path [''s'']) example_plan) example_world = ((r, p'), w')"
    by (metis surj_pair)
  from save_plan_atomic [OF example_save_hyps run] run show ?thesis by blast
qed

lemma example_paths:
  "get_plans_dir (abs_path [''s'']) ''c'' = ''/s/clusters/c/plans''"
  "get_plan_path (abs_path [''s'']) ''c'' ''p'' = ''/s/clusters/c/plans/p.json''"
  by (simp_all add: get_plan_path_def get_plans_dir_def path_join_def path_clean_def abs_path_def is_abs_def
      dot_def dotdot_def)

definition example_dirs :: fs where
  "example_dirs = [(''/s'', FDir), (''/s/clusters'', FDir), (''/s/clusters/c'', FDir), (''/s/clusters/c/plans'', FDir)]"

lemma example_mkdir:
  "run_state (os_mkdir_all ''/s/clusters/c/plans'') example_world = (None, example_world\<lparr>w_nio := 1, w_fs := example_dirs\<rparr>)"
  by (simp add: os_mkdir_all_def example_world_def path_prefixes_def path_clean_def is_abs_def dot_def dotdot_def
      abs_path_def upt_rec Let_def is_dir_def mhas_def example_dirs_def)

lemma example_write:
  "\<exists>w'. run_state (write_plan_file (\<lambda>_. []) id ''/s/clusters/c/plans/p.json'' example_plan)
      (example_world\<lparr>w_nio := 1, w_fs := example_dirs\<rparr>) = (Ok ''p'', w')"
proof -
  have clean: "path_clean ''/s/clusters/c/plans/p.json.tmp'' = ''/s/clusters/c/plans/p.json.tmp''"
    "path_clean ''/s/clusters/c/plans/p.json'' = ''/s/clusters/c/plans/p.json''"
    "path_dir ''/s/clusters/c/plans/p.json.tmp'' = ''/s/clusters/c/plans''"
    "path_dir ''/s/clusters/c/plans/p.json'' = ''/s/clusters/c/plans''"
    by (simp_all add: path_dir_def path_clean_def is_abs_def dot_def dotdot_def)
  show ?thesis
    by (simp add: write_plan_file_def write_rename_def os_write_file_def [of "''/s/clusters/c/plans/p.json.tmp''"] os_rename_def clean fs_follow_plain is_link_def
        example_dirs_def is_dir_def example_world_def Let_def dot_def example_plan_def split: prod.split)
qed

lemma save_then_load_witness:
  "\<exists>w'. fst (run_state (load_plan (abs_path [''s'']) ''c'' ''p'') w') = Ok (norm_plan example_plan)"
proof -
  have sel: "pl_cluster example_plan = ''c''" "pl_id example_plan = ''p''" "pl_created_at example_plan \<noteq> 0"
    by (simp_all add: example_plan_def)
  obtain w' where "run_state (write_plan_file (\<lambda>_. []) id ''/s/clusters/c/plans/p.json'' example_plan)
      (example_world\<lparr>w_nio := 1, w_fs := example_dirs\<rparr>) = (Ok ''p'', w')"
    using example_write by blast
  then have "run_state (save_plan (\<lambda>_. []) id (abs_path [''s'']) example_plan) example_world = ((Ok ''p'', example_plan), w')"
    by (simp add: save_plan_def ensure_plan_id_def ensure_created_at_def sel example_paths example_mkdir)
  from save_then_load [OF example_save_hyps this, of "example_world\<lparr>w_fs := w_fs w'\<rparr>"]
  show ?thesis unfolding sel by (auto simp: quiet_def example_world_def)
qed

end
