(* ===== verification/Apply_Run.thy ===== *)
theory Apply_Run imports Apply_Exec Plan_Store begin

text \<open>
  What executing phases, applying a plan and resuming it guarantees.
\<close>

section \<open>One phase\<close>

definition phase_status :: "apply_state \<Rightarrow> string \<Rightarrow> string option" where
  "phase_status s n = map_option ps_status (mget (as_phases s) n)"

text \<open>Everything outside a set of operations and a set of phases stays, bar the log, the errors and the checkpoints.\<close>

definition run_frame :: "string set \<Rightarrow> string set \<Rightarrow> apply_state \<Rightarrow> apply_state \<Rightarrow> bool" where
  "run_frame A P s s' = ((\<forall>j. j \<notin> A \<longrightarrow> mget (as_ops s') j = mget (as_ops s) j)
     \<and> (\<forall>n. n \<notin> P \<longrightarrow> mget (as_phases s') n = mget (as_phases s) n)
     \<and> as_id s' = as_id s \<and> as_plan s' = as_plan s)"

lemma run_frame_refl [simp]: "run_frame A P s s"
  by (simp add: run_frame_def)

lemma run_frame_trans: "run_frame A P s s' \<Longrightarrow> run_frame B R s' s'' \<Longrightarrow> run_frame (A \<union> B) (P \<union> R) s s''"
  by (simp add: run_frame_def)

lemma run_frame_mono: "run_frame A P s s' \<Longrightarrow> A \<subseteq> B \<Longrightarrow> P \<subseteq> R \<Longrightarrow> run_frame B R s s'"
  by (auto simp: run_frame_def)

lemma run_frame_ops: "ops_frame A s s' \<Longrightarrow> run_frame A P s s'"
  by (simp add: ops_frame_def run_frame_def)

lemma run_frame_op_status: "run_frame A P s s' \<Longrightarrow> j \<notin> A \<Longrightarrow> op_status s' j = op_status s j"
  by (simp add: run_frame_def op_status_def)

lemma run_frame_phase_status: "run_frame A P s s' \<Longrightarrow> n \<notin> P \<Longrightarrow> phase_status s' n = phase_status s n"
  by (simp add: run_frame_def phase_status_def)

lemma run_frame_completed: "all_completed ops s \<Longrightarrow> run_frame A P s s' \<Longrightarrow> A \<inter> op_ids ops = {} \<Longrightarrow> all_completed ops s'"
  using run_frame_op_status [of A P s s'] unfolding all_completed_def op_ids_def by (metis disjoint_iff image_eqI)

lemma ops_frame_phases: "ops_frame A s s' \<Longrightarrow> phase_status s' n = phase_status s n"
  "ops_frame A s s' \<Longrightarrow> as_phase s' = as_phase s" "ops_frame A s s' \<Longrightarrow> as_status s' = as_status s"
  by (simp_all add: ops_frame_def phase_status_def)

text \<open>Steps that leave operations, phases and the status alone.\<close>

abbreviation same_run :: "apply_state \<Rightarrow> apply_state \<Rightarrow> bool" where
  "same_run \<equiv> ops_frame {}"

lemma same_run_trans: "same_run s s' \<Longrightarrow> same_run s' s'' \<Longrightarrow> same_run s s''"
  by (erule ops_frame_trans) simp_all

lemma wp_log_same: "(\<And>s' w'. same_run s s' \<Longrightarrow> Q s' w') \<Longrightarrow> wp (state_log l ph i m s) Q w"
  by (rule wp_log) (simp add: ops_frame_core)

lemma wp_custom_hook:
  assumes Q: "\<And>e s' w'. same_run s s' \<Longrightarrow> Q (e, s') w'"
  shows "wp (execute_custom_hook sh h p s) Q w"
  unfolding execute_custom_hook_def wp_bind
  by (rule wp_log_same, rule wp_any)
    (auto split: prod.split option.split intro!: wp_log_same Q, (blast intro: same_run_trans)+)

lemma wp_phase_hook:
  assumes Q: "\<And>e s' w'. same_run s s' \<Longrightarrow> Q (e, s') w'"
  shows "wp (phase_hook a when h ph p s) Q w"
  unfolding phase_hook_def wp_case_option wp_bind wp_set_ret
  by (auto split: option.split intro!: wp_custom_hook wp_log_same Q elim: same_run_trans)

lemma wp_hook_or_log:
  assumes Q: "\<And>s' w'. same_run s s' \<Longrightarrow> Q s' w'"
  shows "wp (hook_or_log a ev ph p s) Q w"
  unfolding hook_or_log_def execute_hook_def wp_bind wp_case_option
  by (auto split: option.split intro!: wp_custom_hook wp_log_same Q elim: same_run_trans)

lemma wp_create_checkpoint:
  assumes Q: "\<And>e s' w'. same_run s s' \<Longrightarrow> Q (e, s') w'"
  shows "wp (create_checkpoint d s desc) Q w"
proof -
  have Q': "Q (e, s\<lparr>as_checkpoints := x\<rparr>) v" "Q (e, s) v" for e x v
    by (rule Q, simp add: ops_frame_def)+
  show ?thesis
    unfolding create_checkpoint_def wp_bind Let_def
    by (rule wp_any) (simp add: Q' split: option.split, intro allI impI, rule wp_any, simp add: Q' wp_any split: option.split)
qed

lemma wp_update_status:
  assumes Q: "\<And>s' w'. run_frame {} {} s s' \<Longrightarrow> as_status s' = st \<Longrightarrow> as_phase s' = as_phase s \<Longrightarrow> Q s' w'"
  shows "wp (update_status st s) Q w"
  unfolding update_status_def wp_bind Let_def
  by (auto intro!: Q simp: run_frame_def)

lemma wp_start_phase:
  assumes Q: "\<And>s' w'. run_frame {} {n} s s' \<Longrightarrow> phase_status s' n = Some status_running \<Longrightarrow> as_phase s' = n \<Longrightarrow>
    as_status s' = as_status s \<Longrightarrow> Q s' w'"
  shows "wp (start_phase n s) Q w"
  unfolding start_phase_def log_unsafe_def wp_bind Let_def wp_clock wp_return
  by (rule Q) (simp_all add: run_frame_def phase_status_def)

lemma wp_complete_phase:
  assumes "phase_status s n \<noteq> None"
    and Q: "\<And>s' w'. run_frame {} {n} s s' \<Longrightarrow> phase_status s' n = Some status_completed \<Longrightarrow> as_phase s' = as_phase s \<Longrightarrow>
      as_status s' = as_status s \<Longrightarrow> Q s' w'"
  shows "wp (complete_phase n s) Q w"
  unfolding complete_phase_def log_unsafe_def wp_bind Let_def wp_clock wp_return
  by (rule Q) (use assms(1) in \<open>auto simp: run_frame_def phase_status_def mget_mmodify\<close>)

lemma wp_fail_phase:
  assumes "phase_status s n \<noteq> None"
    and Q: "\<And>s' w'. run_frame {} {n} s s' \<Longrightarrow> phase_status s' n = Some status_failed \<Longrightarrow> as_phase s' = as_phase s \<Longrightarrow>
      as_status s' = as_status s \<Longrightarrow> Q s' w'"
  shows "wp (fail_phase n e s) Q w"
  unfolding fail_phase_def log_unsafe_def wp_bind Let_def wp_clock wp_return
  by (rule Q) (use assms(1) in \<open>auto simp: run_frame_def phase_status_def mget_mmodify\<close>)

lemma op_ids_groups: "op_ids (concat (group_operations ops)) = op_ids ops"
  using group_loop_props [of ops "[]" "[]"] by (simp add: group_operations_def)

lemma concat_groups: "concat (group_operations ops) = ops"
  using group_loop_props [of ops "[]" "[]"] by (simp add: group_operations_def)

text \<open>
  What is known after a phase. On an error: either an operation of some group failed, with all
  operations of the groups before it completed and those of the groups after it never touched, or the
  hook before the phase failed, or a hook or the save after its last operation did.
\<close>

definition phase_stop :: "planned_operation list \<Rightarrow> string set \<Rightarrow> apply_state \<Rightarrow> bool" where
  "phase_stop ops A s' = (A = {} \<or> all_completed ops s' \<or> (\<exists>pre g post. group_operations ops = pre @ g # post \<and>
     all_completed (concat pre) s' \<and> some_failed g s' \<and> A = op_ids (concat pre @ g)))"

definition phase_post :: "planned_phase \<Rightarrow> apply_state \<Rightarrow> err option \<Rightarrow> apply_state \<Rightarrow> bool" where
  "phase_post ph s e s' = (\<exists>A. A \<subseteq> op_ids (ph_operations ph) \<and> run_frame A {ph_name ph} s s' \<and> as_phase s' = ph_name ph
     \<and> as_status s' = as_status s \<and> phase_status s' (ph_name ph) \<noteq> None
     \<and> (e = None \<longrightarrow> phase_status s' (ph_name ph) = Some status_completed \<and> all_completed (ph_operations ph) s')
     \<and> (e \<noteq> None \<longrightarrow> phase_stop (ph_operations ph) A s'))"

text \<open>Within a phase: the phase is the current one and has an entry; the operations of \<open>A\<close> may have changed.\<close>

definition in_phase :: "planned_phase \<Rightarrow> apply_state \<Rightarrow> string set \<Rightarrow> apply_state \<Rightarrow> bool" where
  "in_phase ph s A t = (A \<subseteq> op_ids (ph_operations ph) \<and> run_frame A {ph_name ph} s t \<and> as_phase t = ph_name ph
     \<and> as_status t = as_status s \<and> phase_status t (ph_name ph) \<noteq> None)"

lemma in_phase_ops: "in_phase ph s A t \<Longrightarrow> ops_frame B t u \<Longrightarrow> B \<subseteq> op_ids (ph_operations ph) \<Longrightarrow> in_phase ph s (A \<union> B) u"
  using run_frame_trans [of A "{ph_name ph}" s t B "{ph_name ph}" u] run_frame_ops [of B t u "{ph_name ph}"]
    ops_frame_phases [of B t u]
  by (simp add: in_phase_def)

lemma in_phase_same: "in_phase ph s A t \<Longrightarrow> same_run t u \<Longrightarrow> in_phase ph s A u"
  using in_phase_ops [of ph s A t "{}" u] by simp

lemma all_completed_same: "all_completed ops t \<Longrightarrow> same_run t u \<Longrightarrow> all_completed ops u"
  using all_completed_frame [of ops t "{}" u] by simp

lemma in_phase_stop: "in_phase ph s A t \<Longrightarrow> phase_stop (ph_operations ph) A t \<Longrightarrow> phase_post ph s (Some e) t"
  by (auto simp: in_phase_def phase_post_def)

lemma wp_end_phase:
  assumes ph: "in_phase ph s A t" and all: "all_completed (ph_operations ph) t"
    and Q: "\<And>e u w'. phase_post ph s e u \<Longrightarrow> Q (e, u) w'"
  shows "wp (end_phase a ph t) Q w"
proof -
  have finish: "wp (do { s6 \<leftarrow> complete_phase (ph_name ph) s5; e \<leftarrow> save_state (ap_dir a) s6;
      ret (map_option (wrapf m) e, s6) }) Q v" if s5: "same_run t s5" for s5 v m
    unfolding wp_bind
  proof (rule wp_complete_phase)
    note in5 = in_phase_same [OF ph s5]
    then show "phase_status s5 (ph_name ph) \<noteq> None" by (simp add: in_phase_def)
    fix u and w' :: world
    assume u: "run_frame {} {ph_name ph} s5 u" "phase_status u (ph_name ph) = Some status_completed"
      "as_phase u = as_phase s5" "as_status u = as_status s5"
    have "all_completed (ph_operations ph) u"
      by (rule run_frame_completed [OF all_completed_same [OF all s5] u(1)]) simp
    moreover have "run_frame A {ph_name ph} s u"
      using in5 run_frame_trans [OF _ u(1), of A "{ph_name ph}" s] by (simp add: in_phase_def)
    ultimately have post: "phase_post ph s e u" for e
      using in5 u by (auto simp: phase_post_def in_phase_def phase_stop_def)
    show "wp (save_state (ap_dir a) u) (\<lambda>e. wp (ret (map_option (wrapf m) e, u)) Q) w'"
      unfolding wp_return_fun by (rule wp_any, rule Q, rule post)
  qed
  show ?thesis
    unfolding end_phase_def wp_bind [of "create_checkpoint _ _ _"]
  proof (rule wp_create_checkpoint)
    fix c :: "err option" and s' and w' :: world
    assume "same_run t s'"
    then show "wp (do { s5 \<leftarrow> (case (c, s') of (None, s') \<Rightarrow> ret s'
       | (Some e, s') \<Rightarrow> state_log ''warn'' (ph_name ph) [] (''failed to create checkpoint: '' @ e) s');
       s6 \<leftarrow> complete_phase (ph_name ph) s5;
       e \<leftarrow> save_state (ap_dir a) s6;
       ret (map_option (wrapf ''failed to save state after phase'') e, s6) }) Q w'"
      unfolding wp_bind [of "case_prod _ _"]
      by (cases c) (auto intro!: finish wp_log_same elim: same_run_trans simp del: wp_bind)
  qed
qed

lemma wp_run_phase:
  assumes dist: "distinct (map po_id (ph_operations ph))" and ph: "in_phase ph s {} t"
    and Q: "\<And>e u w'. phase_post ph s e u \<Longrightarrow> Q (e, u) w'"
  shows "wp (run_phase a ph p t) Q w"
  unfolding run_phase_def wp_bind
proof (rule wp_execute_groups)
  let ?gs = "group_operations (ph_operations ph)"
  show "distinct (map po_id (concat ?gs))" using dist by (simp add: concat_groups)
  fix e :: "err option" and s3 and w3 :: world
  assume post: "groups_post ?gs t e s3"
  have stop: "Q (Some m, s3) w3" if "e = Some m" for m :: err
  proof (rule Q)
    from post that obtain pre g post' where x: "?gs = pre @ g # post'" "all_completed (concat pre) s3" "some_failed g s3"
      "ops_frame (op_ids (concat pre @ g)) t s3"
      by (auto simp: groups_post_def)
    have "concat pre @ g @ concat post' = ph_operations ph"
      using concat_groups [of "ph_operations ph"] x(1) by simp
    then have "op_ids (concat pre @ g) \<subseteq> op_ids (ph_operations ph)" by (metis append_assoc op_ids_simps(3) sup_ge1)
    from in_phase_ops [OF ph x(4) this] have "in_phase ph s (op_ids (concat pre @ g)) s3" by simp
    then show "phase_post ph s (Some m) s3"
      by (rule in_phase_stop) (use x in \<open>auto simp: phase_stop_def\<close>)
  qed
  have cont: "wp (phase_hook a ''after_phase'' (ph_after ph) ph p s3) (\<lambda>h. wp (case h of
           (Some e, s4) \<Rightarrow> ret (Some e, s4)
         | (None, s4) \<Rightarrow> end_phase a ph s4) Q) w3" if "e = None"
  proof (rule wp_phase_hook)
    have all: "all_completed (ph_operations ph) s3" and fr: "ops_frame (op_ids (ph_operations ph)) t s3"
      using post that by (simp_all add: groups_post_def concat_groups)
    fix h :: "err option" and s4 and w4 :: world
    assume s4: "same_run s3 s4"
    let ?A = "op_ids (ph_operations ph)"
    have in4: "in_phase ph s ?A s4" using in_phase_same [OF in_phase_ops [OF ph fr subset_refl] s4] by simp
    have all4: "all_completed (ph_operations ph) s4" by (rule all_completed_same [OF all s4])
    then have "phase_post ph s (Some m) s4" for m by (intro in_phase_stop [OF in4]) (simp add: phase_stop_def)
    then show "wp (case (h, s4) of
           (Some e, s4) \<Rightarrow> ret (Some e, s4)
         | (None, s4) \<Rightarrow> end_phase a ph s4) Q w4"
      by (cases h) (auto intro: Q wp_end_phase [OF in4 all4])
  qed
  show "wp (case (e, s3) of
       (Some e, s3) \<Rightarrow> ret (Some e, s3)
     | (None, s3) \<Rightarrow> do {
         h \<leftarrow> phase_hook a ''after_phase'' (ph_after ph) ph p s3;
         case h of
           (Some e, s4) \<Rightarrow> ret (Some e, s4)
         | (None, s4) \<Rightarrow> end_phase a ph s4 }) Q w3"
    using stop cont by (cases e) simp_all
qed

lemma wp_execute_phase:
  assumes dist: "distinct (map po_id (ph_operations ph))" and Q: "\<And>e s' w'. phase_post ph s e s' \<Longrightarrow> Q (e, s') w'"
  shows "wp (execute_phase a ph p s) Q w"
  unfolding execute_phase_def wp_bind
proof (rule wp_start_phase, rule wp_phase_hook)
  fix s1 s2 and b :: "err option" and w2 :: world
  assume "run_frame {} {ph_name ph} s s1" "phase_status s1 (ph_name ph) = Some status_running" "as_phase s1 = ph_name ph"
    "as_status s1 = as_status s" and s2: "same_run s1 s2"
  then have "in_phase ph s {} s1" by (simp add: in_phase_def)
  then have in2: "in_phase ph s {} s2" by (rule in_phase_same [OF _ s2])
  then have "phase_post ph s (Some m) s2" for m by (rule in_phase_stop) (simp add: phase_stop_def)
  then show "wp (case (b, s2) of (Some e, s2) \<Rightarrow> ret (Some e, s2) | (None, s2) \<Rightarrow> run_phase a ph p s2) Q w2"
    by (cases b) (auto intro: Q wp_run_phase [OF dist in2])
qed

section \<open>The phases of a plan\<close>

definition phases_ops :: "planned_phase list \<Rightarrow> planned_operation list" where
  "phases_ops phs = concat (map ph_operations phs)"

definition phases_names :: "planned_phase list \<Rightarrow> string set" where
  "phases_names phs = ph_name ` set phs"

lemma phases_simps [simp]:
  "phases_ops [] = []" "phases_ops (ph # phs) = ph_operations ph @ phases_ops phs" "phases_ops (xs @ ys) = phases_ops xs @ phases_ops ys"
  "phases_names [] = {}" "phases_names (ph # phs) = insert (ph_name ph) (phases_names phs)"
  "phases_names (xs @ ys) = phases_names xs \<union> phases_names ys"
  by (simp_all add: phases_ops_def phases_names_def image_Un)

text \<open>A plan whose phases have distinct names and whose operations have distinct identifiers.\<close>

definition phases_wf :: "planned_phase list \<Rightarrow> bool" where
  "phases_wf phs = (distinct (map ph_name phs) \<and> distinct (map po_id (phases_ops phs)))"

lemma phases_wf_Cons: "phases_wf (ph # phs) \<longleftrightarrow> ph_name ph \<notin> phases_names phs \<and> distinct (map po_id (ph_operations ph)) \<and>
    op_ids (ph_operations ph) \<inter> op_ids (phases_ops phs) = {} \<and> phases_wf phs"
  by (auto simp: phases_wf_def phases_names_def op_ids_def)

lemma phases_wf_apart:
  assumes "phases_wf (xs @ ys)" "q \<in> set ys"
  shows "ph_name q \<notin> phases_names xs" "op_ids (ph_operations q) \<inter> op_ids (phases_ops xs) = {}"
proof -
  from assms(2) have "ph_name q \<in> phases_names ys" "op_ids (ph_operations q) \<subseteq> op_ids (phases_ops ys)"
    by (auto simp: phases_names_def phases_ops_def op_ids_def)
  moreover have "phases_names xs \<inter> phases_names ys = {}" "op_ids (phases_ops xs) \<inter> op_ids (phases_ops ys) = {}"
    using assms(1) by (simp_all add: phases_wf_def phases_names_def op_ids_def)
  ultimately show "ph_name q \<notin> phases_names xs" "op_ids (ph_operations q) \<inter> op_ids (phases_ops xs) = {}" by auto
qed

definition phase_done :: "apply_state \<Rightarrow> planned_phase \<Rightarrow> bool" where
  "phase_done s ph = (phase_status s (ph_name ph) = Some status_completed \<and> all_completed (ph_operations ph) s)"

abbreviation phases_done :: "planned_phase list \<Rightarrow> apply_state \<Rightarrow> bool" where
  "phases_done phs s \<equiv> list_all (phase_done s) phs"

lemma phase_done_frame:
  "phase_done s ph \<Longrightarrow> run_frame A P s s' \<Longrightarrow> A \<inter> op_ids (ph_operations ph) = {} \<Longrightarrow> ph_name ph \<notin> P \<Longrightarrow> phase_done s' ph"
  using run_frame_completed [of "ph_operations ph" s A P s'] run_frame_phase_status [of A P s s']
  by (simp add: phase_done_def)

text \<open>Nothing of the phases in the list has been touched.\<close>

abbreviation ran :: "planned_phase list \<Rightarrow> apply_state \<Rightarrow> apply_state \<Rightarrow> bool" where
  "ran phs \<equiv> run_frame (op_ids (phases_ops phs)) (phases_names phs)"

lemma phase_post_ran: "phase_post ph s e s' \<Longrightarrow> ran [ph] s s'"
  by (auto simp: phase_post_def elim: run_frame_mono)

lemma phase_post_done: "phase_post ph s None s' \<Longrightarrow> phase_done s' ph"
  by (auto simp: phase_post_def phase_done_def)

lemma same_run_done: "phase_done s ph \<Longrightarrow> same_run s s' \<Longrightarrow> phase_done s' ph"
  using phase_done_frame [of s ph "{}" "{}" s'] run_frame_ops [of "{}" s s' "{}"] by simp

text \<open>
  The run stopped at a phase of the list: all before it are done, none after it was touched. Either the
  phase failed, or it is done and the user had paused.
\<close>

definition stopped_at :: "applier \<Rightarrow> planned_phase list \<Rightarrow> planned_phase \<Rightarrow> apply_state \<Rightarrow> apply_state \<Rightarrow> bool" where
  "stopped_at a pre ph s s' = (phases_done pre s' \<and> ran (pre @ [ph]) s s' \<and>
     (as_status s' = status_failed \<and> phase_status s' (ph_name ph) = Some status_failed
      \<or> as_status s' = status_paused \<and> phase_done s' ph \<and> ap_paused a (ph_name ph)))"

definition phases_post :: "applier \<Rightarrow> planned_phase list \<Rightarrow> apply_state \<Rightarrow> apply_result option \<Rightarrow> apply_state \<Rightarrow> bool" where
  "phases_post a phs s r s' = (case r of
     None \<Rightarrow> phases_done phs s' \<and> ran phs s s'
   | Some (st, e) \<Rightarrow> e \<noteq> None \<and> (st = None \<or> st = Some s') \<and> (st = None \<longrightarrow> as_status s' = status_paused) \<and>
       (\<exists>pre ph post. phs = pre @ ph # post \<and> stopped_at a pre ph s s'))"

lemma phases_post_first:
  "stopped_at a [] ph s s' \<Longrightarrow> e \<noteq> None \<Longrightarrow> st = Some s' \<or> st = None \<and> as_status s' = status_paused \<Longrightarrow>
   phases_post a (ph # phs) s (Some (st, e)) s'"
  unfolding phases_post_def by (fastforce intro: exI [of _ "[]"])

lemma phases_post_Cons:
  assumes wf: "phases_wf (ph # phs)" and hd: "phase_done s1 ph" "ran [ph] s s1" and post: "phases_post a phs s1 r s'"
  shows "phases_post a (ph # phs) s r s'"
proof -
  have keep: "phase_done s' ph" if "run_frame A P s1 s'" "A \<subseteq> op_ids (phases_ops phs)" "P \<subseteq> phases_names phs" for A P
    by (rule phase_done_frame [OF hd(1) that(1)]) (use wf that in \<open>auto simp: phases_wf_Cons\<close>)
  show ?thesis
  proof (cases r)
    case None
    then show ?thesis
      using post keep run_frame_trans [OF hd(2)] by (auto simp: phases_post_def)
  next
    case (Some x)
    then obtain st e pre q post' where x: "x = (st, e)" "phs = pre @ q # post'" "stopped_at a pre q s1 s'"
      "e \<noteq> None" "st = None \<or> st = Some s'" "st = None \<longrightarrow> as_status s' = status_paused"
      using post by (auto simp: phases_post_def)
    have fr: "ran (pre @ [q]) s1 s'" using x(3) by (simp add: stopped_at_def)
    have "phase_done s' ph" by (rule keep [OF fr]) (use x(2) in auto)
    moreover have "ran ((ph # pre) @ [q]) s s'" using run_frame_trans [OF hd(2) fr] by (simp add: Un_assoc insert_commute)
    ultimately have "stopped_at a (ph # pre) q s s'" using x(3) by (auto simp: stopped_at_def)
    moreover have "ph # phs = (ph # pre) @ q # post'" using x(2) by simp
    ultimately have "\<exists>pre' q' post'. ph # phs = pre' @ q' # post' \<and> stopped_at a pre' q' s s'" by blast
    then show ?thesis using x Some by (auto simp: phases_post_def)
  qed
qed

lemma ran_then: "ran phs s s1 \<Longrightarrow> run_frame {} P s1 s2 \<Longrightarrow> P \<subseteq> phases_names phs \<Longrightarrow> ran phs s s2"
  using run_frame_trans [of "op_ids (phases_ops phs)" "phases_names phs" s s1 "{}" P s2] by (simp add: Un_absorb2)

text \<open>What follows a failed phase: the statuses, a save, the hook.\<close>

lemma wp_after_failure:
  assumes post: "phase_post ph s (Some e) s1"
    and Q: "\<And>s' w'. stopped_at a [] ph s s' \<Longrightarrow> Q (Some (Some s', Some m), s') w'"
  shows "wp (do {
         s2 \<leftarrow> update_status status_failed s1;
         s3 \<leftarrow> fail_phase (ph_name ph) e s2;
         sv \<leftarrow> save_state (ap_dir a) s3;
         s4 \<leftarrow> (case sv of None \<Rightarrow> ret s3
              | Some m \<Rightarrow> state_log ''error'' (ph_name ph) [] (''failed to save state: '' @ m) s3);
         s5 \<leftarrow> hook_or_log a hook_on_error (ph_name ph) p s4;
         ret (Some (Some s5, Some m), s5) }) Q w"
  unfolding wp_bind
proof (rule wp_update_status, rule wp_fail_phase)
  fix s2
  assume s2: "run_frame {} {} s1 s2" "as_status s2 = status_failed"
  then show "phase_status s2 (ph_name ph) \<noteq> None"
    using post run_frame_phase_status [OF s2(1)] by (auto simp: phase_post_def)
  fix s3 and w3 :: world
  assume s3: "run_frame {} {ph_name ph} s2 s3" "phase_status s3 (ph_name ph) = Some status_failed" "as_status s3 = as_status s2"
  have r3: "ran [ph] s s3" by (rule ran_then [OF ran_then [OF phase_post_ran [OF post] s2(1)] s3(1)]) simp_all
  have fin: "stopped_at a [] ph s u" if u: "same_run s3 u" for u
    using ran_then [OF r3 run_frame_ops [OF u, of "{}"]] ops_frame_phases [OF u] s2 s3 by (simp add: stopped_at_def)
  show "wp (save_state (ap_dir a) s3) (\<lambda>sv. wp (case sv of None \<Rightarrow> ret s3
      | Some m \<Rightarrow> state_log ''error'' (ph_name ph) [] (''failed to save state: '' @ m) s3)
      (\<lambda>s4. wp (hook_or_log a hook_on_error (ph_name ph) p s4) (\<lambda>s5. wp (ret (Some (Some s5, Some m), s5)) Q))) w3"
    by (rule wp_any) (auto split: option.split intro!: wp_log_same wp_hook_or_log Q fin elim: same_run_trans)
qed

lemma wp_apply_phases:
  assumes "phases_wf phs" and "\<And>r s' w'. phases_post a phs s r s' \<Longrightarrow> Q (r, s') w'"
  shows "wp (apply_phases a p phs s) Q w"
  using assms
proof (induction phs arbitrary: s w Q)
  case Nil
  then show ?case by (simp add: phases_post_def)
next
  case (Cons ph phs)
  have wf: "distinct (map po_id (ph_operations ph))" "phases_wf phs" using Cons.prems(1) by (simp_all add: phases_wf_Cons)
  show ?case
    unfolding apply_phases.simps wp_bind [of "execute_phase _ _ _ _"]
  proof (rule wp_execute_phase [OF wf(1)])
    fix r :: "err option" and s1 and w1 :: world
    assume post: "phase_post ph s r s1"
    note ran1 = phase_post_ran [OF post]
    let ?fail = "\<lambda>e s1. do {
         s2 \<leftarrow> update_status status_failed s1;
         s3 \<leftarrow> fail_phase (ph_name ph) e s2;
         sv \<leftarrow> save_state (ap_dir a) s3;
         s4 \<leftarrow> (case sv of None \<Rightarrow> ret s3
              | Some m \<Rightarrow> state_log ''error'' (ph_name ph) [] (''failed to save state: '' @ m) s3);
         s5 \<leftarrow> hook_or_log a hook_on_error (ph_name ph) p s4;
         ret (Some (Some s5, Some (wrapf (''phase '' @ ph_name ph @ '' failed'') e)), s5) }"
    let ?pause = "\<lambda>s1. do {
           s2 \<leftarrow> update_status status_paused s1;
           sv \<leftarrow> save_state (ap_dir a) s2;
           ret (Some (case sv of Some m \<Rightarrow> (None, Some (wrapf ''failed to save paused state'' m))
                      | None \<Rightarrow> (Some s2, Some ''apply paused by user'')), s2) }"
    have fail: "wp (?fail e s1) Q w1" if "r = Some e" for e
      by (rule wp_after_failure, rule post [unfolded that], rule Cons.prems(2), rule phases_post_first) simp_all
    have pause: "wp (?pause s1) Q w1" if "r = None" "ap_paused a (ph_name ph)"
      unfolding wp_bind
    proof (rule wp_update_status)
      fix s2 and w2 :: world
      assume s2: "run_frame {} {} s1 s2" "as_status s2 = status_paused"
      have "phase_done s2 ph"
        by (rule phase_done_frame [OF phase_post_done [OF post [unfolded that(1)]] s2(1)]) simp_all
      then have st: "stopped_at a [] ph s s2"
        using ran_then [OF ran1 s2(1)] s2 that by (simp add: stopped_at_def)
      have "phases_post a (ph # phs) s (Some (case sv of Some m \<Rightarrow> (None, Some (wrapf ''failed to save paused state'' m))
           | None \<Rightarrow> (Some s2, Some ''apply paused by user''))) s2" for sv
        by (cases sv) (auto intro!: phases_post_first st simp: s2)
      then show "wp (save_state (ap_dir a) s2) (\<lambda>sv. wp (ret (Some (case sv of Some m \<Rightarrow> (None, Some (wrapf ''failed to save paused state'' m))
                      | None \<Rightarrow> (Some s2, Some ''apply paused by user'')), s2)) Q) w2"
        unfolding wp_return_fun by (intro wp_any Cons.prems(2)) blast
    qed
    have cont: "wp (apply_phases a p phs s1) Q w1" if "r = None"
      by (rule Cons.IH [OF wf(2)], rule Cons.prems(2),
          rule phases_post_Cons [OF Cons.prems(1) phase_post_done [OF post [unfolded that]] ran1])
    show "wp (case (r, s1) of (Some e, s1) \<Rightarrow> ?fail e s1
        | (None, s1) \<Rightarrow> if ap_paused a (ph_name ph) then ?pause s1 else apply_phases a p phs s1) Q w1"
      using fail pause cont by (cases r) (simp_all del: wp_bind)
  qed
qed

section \<open>The whole apply\<close>

definition apply_post :: "applier \<Rightarrow> plan \<Rightarrow> apply_result \<Rightarrow> bool" where
  "apply_post a p r = (case r of
     (None, e) \<Rightarrow> e \<noteq> None
   | (Some s, None) \<Rightarrow> as_status s = status_completed \<and> as_plan s = pl_id p \<and> phases_done (pl_phases p) s
   | (Some s, Some _) \<Rightarrow> as_plan s = pl_id p \<and> (\<exists>s0 pre ph post. as_ops s0 = [] \<and> as_phases s0 = [] \<and>
        pl_phases p = pre @ ph # post \<and> stopped_at a pre ph s0 s))"

lemma wp_new_apply_state:
  assumes "\<And>s w'. as_ops s = [] \<Longrightarrow> as_phases s = [] \<Longrightarrow> as_plan s = i \<Longrightarrow> as_status s = status_pending \<Longrightarrow> Q s w'"
  shows "wp (new_apply_state i c oper) Q w"
  unfolding new_apply_state_def wp_bind wp_clock wp_return by (rule assms) simp_all

lemma stopped_at_from: "stopped_at a pre ph s1 s \<Longrightarrow> run_frame {} {} s0 s1 \<Longrightarrow> stopped_at a pre ph s0 s"
  using run_frame_trans [of "{}" "{}" s0 s1 "op_ids (phases_ops (pre @ [ph]))" "phases_names (pre @ [ph])" s]
  by (simp add: stopped_at_def)

lemma wp_apply_plan:
  assumes wf: "phases_wf (pl_phases p)" and Q: "\<And>r w'. apply_post a p r \<Longrightarrow> Q r w'"
  shows "wp (apply_plan a p) Q w"
proof -
  have fail: "Q (None, Some m) v" for m v by (rule Q) (simp add: apply_post_def)
  have finish: "wp (do {
             s4 \<leftarrow> update_status status_completed s3;
             sv2 \<leftarrow> save_state (ap_dir a) s4;
             case sv2 of
               Some m \<Rightarrow> ret (None, Some (wrapf ''failed to save completed state'' m))
             | None \<Rightarrow> do {
                 s5 \<leftarrow> hook_or_log a hook_after_apply [] p s4;
                 s6 \<leftarrow> hook_or_log a hook_on_success [] p s5;
                 ret (Some s6, None) } }) Q v"
    if all: "phases_done (pl_phases p) s3" "as_plan s3 = pl_id p" for s3 v
    unfolding wp_bind
  proof (rule wp_update_status, rule wp_any)
    fix s4 sv and v4 :: world
    assume s4: "run_frame {} {} s3 s4" "as_status s4 = status_completed"
    have done4: "phases_done (pl_phases p) s4"
      using all(1) phase_done_frame [OF _ s4(1)] by (simp add: list_all_iff)
    have fin: "Q (Some u, None) x" if u: "same_run s4 u" for u x
      by (rule Q) (use done4 same_run_done [OF _ u] u s4 all in \<open>auto simp: apply_post_def list_all_iff ops_frame_def run_frame_def\<close>)
    show "wp (case sv of
               Some m \<Rightarrow> ret (None, Some (wrapf ''failed to save completed state'' m))
             | None \<Rightarrow> do {
                 s5 \<leftarrow> hook_or_log a hook_after_apply [] p s4;
                 s6 \<leftarrow> hook_or_log a hook_on_success [] p s5;
                 ret (Some s6, None) }) Q v4"
      by (cases sv) (auto intro!: fail wp_hook_or_log fin elim: same_run_trans)
  qed
  show ?thesis
    unfolding apply_plan_def wp_bind [of "new_apply_state _ _ _"] wp_bind [of "update_status status_running _"]
      wp_bind [of "save_state _ _"]
  proof (rule wp_new_apply_state, rule wp_update_status, rule wp_any)
    fix s0 s1 sv and v :: world
    assume s0: "as_ops s0 = []" "as_phases s0 = []" "as_plan s0 = pl_id p" and s1: "run_frame {} {} s0 s1"
    have run: "wp (do {
         s2 \<leftarrow> hook_or_log a hook_before_apply [] p s1;
         r \<leftarrow> apply_phases a p (pl_phases p) s2;
         case r of (Some res, _) \<Rightarrow> ret res | (None, s3) \<Rightarrow> tl s3 }) Q v"
      if tl: "\<And>s3 v. phases_done (pl_phases p) s3 \<Longrightarrow> as_plan s3 = pl_id p \<Longrightarrow> wp (tl s3) Q v" for tl
      unfolding wp_bind
    proof (rule wp_hook_or_log, rule wp_apply_phases [OF wf])
      fix s2 r s3 and v3 :: world
      assume s2: "same_run s1 s2" and post: "phases_post a (pl_phases p) s2 r s3"
      have from0: "run_frame {} {} s0 s2" using run_frame_trans [OF s1 run_frame_ops [OF s2, of "{}"]] by simp
      have plan: "as_plan s3 = pl_id p" if "ran phs s2 s3" for phs
        using that from0 s0 by (simp add: run_frame_def)
      have "apply_post a p res" if r: "r = Some res" for res
      proof -
        obtain st e where res: "res = (st, e)" by (cases res)
        then obtain pre ph q where x: "pl_phases p = pre @ ph # q" "stopped_at a pre ph s2 s3" "e \<noteq> None" "st = None \<or> st = Some s3"
          using post r by (auto simp: phases_post_def)
        then have pl: "as_plan s3 = pl_id p" by (intro plan [of "pre @ [ph]"]) (simp add: stopped_at_def)
        have "\<exists>s0 pre ph post. as_ops s0 = [] \<and> as_phases s0 = [] \<and> pl_phases p = pre @ ph # post \<and> stopped_at a pre ph s0 s3"
          using stopped_at_from [OF x(2) from0] x(1) s0 by blast
        then show ?thesis using pl x(3,4) unfolding apply_post_def res by (cases st; cases e) simp_all
      qed
      moreover have "phases_done (pl_phases p) s3" "as_plan s3 = pl_id p" if "r = None"
        using post that plan [of "pl_phases p"] by (simp_all add: phases_post_def)
      ultimately show "wp (case (r, s3) of (Some res, _) \<Rightarrow> ret res | (None, s3) \<Rightarrow> tl s3) Q v3"
        by (cases r) (simp_all add: Q tl)
    qed
    show "wp (case sv of
       Some m \<Rightarrow> ret (None, Some (wrapf ''failed to save initial state'' m))
     | None \<Rightarrow> do {
         s2 \<leftarrow> hook_or_log a hook_before_apply [] p s1;
         r \<leftarrow> apply_phases a p (pl_phases p) s2;
         case r of
           (Some res, _) \<Rightarrow> ret res
         | (None, s3) \<Rightarrow> do {
             s4 \<leftarrow> update_status status_completed s3;
             sv2 \<leftarrow> save_state (ap_dir a) s4;
             case sv2 of
               Some m \<Rightarrow> ret (None, Some (wrapf ''failed to save completed state'' m))
             | None \<Rightarrow> do {
                 s5 \<leftarrow> hook_or_log a hook_after_apply [] p s4;
                 s6 \<leftarrow> hook_or_log a hook_on_success [] p s5;
                 ret (Some s6, None) } } }) Q v"
      by (cases sv) (simp_all only: option.case wp_return fail run [OF finish])
  qed
qed

text \<open>
  C1. An apply that returns without an error has done the whole plan: every operation of every phase is
  completed, every phase is completed, and the state says so. This holds for any executor, any hooks,
  any failures of the disk and any schedule of the goroutines.
\<close>
theorem apply_completes:
  assumes "phases_wf (pl_phases p)"
  shows "wp (apply_plan a p) (\<lambda>(st, e) w'. e = None \<longrightarrow> (\<exists>s. st = Some s \<and> as_plan s = pl_id p \<and>
    as_status s = status_completed \<and> (\<forall>ph \<in> set (pl_phases p). phase_status s (ph_name ph) = Some status_completed \<and>
      (\<forall>op \<in> set (ph_operations ph). op_status s (po_id op) = Some status_completed)))) w"
  by (rule wp_apply_plan [OF assms])
    (auto simp: apply_post_def list_all_iff phase_done_def all_completed_def split: option.splits)

definition untouched :: "planned_phase list \<Rightarrow> apply_state \<Rightarrow> bool" where
  "untouched phs s = (\<forall>q \<in> set phs. phase_status s (ph_name q) = None \<and>
     (\<forall>op \<in> set (ph_operations q). op_status s (po_id op) = None))"

definition apply_stopped :: "applier \<Rightarrow> planned_phase list \<Rightarrow> apply_state \<Rightarrow> bool" where
  "apply_stopped a phs s = (\<exists>pre ph post. phs = pre @ ph # post \<and> phases_done pre s \<and> untouched post s \<and>
     (as_status s = status_failed \<and> phase_status s (ph_name ph) = Some status_failed \<or>
      as_status s = status_paused \<and> phase_done s ph \<and> ap_paused a (ph_name ph)))"

lemma stopped_at_clean:
  assumes wf: "phases_wf (pre @ ph # q)" and s0: "as_ops s0 = []" "as_phases s0 = []" and stop: "stopped_at a pre ph s0 s"
  shows "apply_stopped a (pre @ ph # q) s"
proof -
  have fr: "ran (pre @ [ph]) s0 s" using stop by (simp add: stopped_at_def)
  have "phases_wf ((pre @ [ph]) @ q)" using wf by simp
  note apart = phases_wf_apart [OF this]
  have none: "phase_status s0 n = None" "op_status s0 i = None" for n i
    using s0 by (simp_all add: phase_status_def op_status_def)
  have "phase_status s (ph_name r) = None \<and> (\<forall>op \<in> set (ph_operations r). op_status s (po_id op) = None)" if "r \<in> set q" for r
    using run_frame_phase_status [OF fr apart(1) [OF that]] run_frame_op_status [OF fr] apart(2) [OF that] none
    unfolding op_ids_def by (metis disjoint_iff image_eqI)
  then have "untouched q s" by (simp add: untouched_def)
  then show ?thesis using stop unfolding apply_stopped_def stopped_at_def by blast
qed

text \<open>
  C2. An apply that stops stops at one phase: every phase before it is completed with all its operations,
  and no phase after it, and no operation of such a phase, was ever started. The phase where it stopped
  failed, or is complete and the user had asked to pause. (No state comes back when a save of the state
  itself failed.)
\<close>
theorem apply_stops:
  assumes "phases_wf (pl_phases p)"
  shows "wp (apply_plan a p) (\<lambda>(st, e) w'. e \<noteq> None \<longrightarrow>
    st = None \<or> (\<exists>s. st = Some s \<and> apply_stopped a (pl_phases p) s)) w"
proof (rule wp_apply_plan [OF assms])
  fix r and w' :: world
  assume post: "apply_post a p r"
  have "apply_stopped a (pl_phases p) s" if r: "r = (Some s, Some m)" for s m
  proof -
    obtain s0 pre ph q where x: "as_ops s0 = []" "as_phases s0 = []" "pl_phases p = pre @ ph # q" "stopped_at a pre ph s0 s"
      using post r by (auto simp: apply_post_def)
    show ?thesis using stopped_at_clean [OF _ x(1,2,4), of q] assms x(3) by simp
  qed
  then show "(\<lambda>(st, e) w'. e \<noteq> None \<longrightarrow> st = None \<or> (\<exists>s. st = Some s \<and> apply_stopped a (pl_phases p) s)) r w'"
    by (cases r) auto
qed

section \<open>Resuming\<close>

text \<open>As \<open>phases_post\<close>, but a failed phase is left with the status it had when it failed.\<close>

definition resume_post :: "planned_phase list \<Rightarrow> apply_state \<Rightarrow> err option \<Rightarrow> apply_state \<Rightarrow> bool" where
  "resume_post phs s e s' = (case e of
     None \<Rightarrow> phases_done phs s' \<and> ran phs s s' \<and> as_status s' = as_status s
   | Some _ \<Rightarrow> as_status s' = status_failed \<and>
       (\<exists>pre ph post. phs = pre @ ph # post \<and> phases_done pre s' \<and> ran (pre @ [ph]) s s'))"

lemma resume_post_first: "ran [ph] s s' \<Longrightarrow> as_status s' = status_failed \<Longrightarrow> resume_post (ph # phs) s (Some m) s'"
  unfolding resume_post_def option.case
  by (intro conjI exI [of _ "[]"] exI [of _ ph] exI [of _ phs]) simp_all

lemma resume_post_Cons:
  assumes wf: "phases_wf (ph # phs)" and hd: "phase_done s1 ph" "ran [ph] s s1" "as_status s1 = as_status s"
    and post: "resume_post phs s1 e s'"
  shows "resume_post (ph # phs) s e s'"
proof -
  have keep: "phase_done s' ph" if "ran xs s1 s'" "phs = xs @ ys" for xs ys
    by (rule phase_done_frame [OF hd(1) that(1)]) (use wf that(2) in \<open>auto simp: phases_wf_Cons\<close>)
  show ?thesis
  proof (cases e)
    case None
    then show ?thesis
      using post keep [of phs "[]"] run_frame_trans [OF hd(2)] hd(3) by (auto simp: resume_post_def)
  next
    case (Some m)
    then obtain pre q ys where x: "phs = pre @ q # ys" "phases_done pre s'" "ran (pre @ [q]) s1 s'" "as_status s' = status_failed"
      using post by (auto simp: resume_post_def)
    have "phase_done s' ph" by (rule keep [OF x(3), of ys]) (simp add: x(1))
    moreover have "ran ((ph # pre) @ [q]) s s'" using run_frame_trans [OF hd(2) x(3)] by (simp add: Un_assoc insert_commute)
    ultimately show ?thesis
      unfolding Some resume_post_def option.case
      by (intro conjI exI [of _ "ph # pre"] exI [of _ q] exI [of _ ys]) (use x in simp_all)
  qed
qed

lemma wp_resume_phases:
  assumes "phases_wf phs" and "\<And>e s' w'. resume_post phs s e s' \<Longrightarrow> Q (e, s') w'"
  shows "wp (resume_phases a p phs s) Q w"
  using assms
proof (induction phs arbitrary: s w Q)
  case Nil
  then show ?case by (simp add: resume_post_def)
next
  case (Cons ph phs)
  have wf: "distinct (map po_id (ph_operations ph))" "phases_wf phs" using Cons.prems(1) by (simp_all add: phases_wf_Cons)
  show ?case
    unfolding resume_phases.simps wp_bind [of "execute_phase _ _ _ _"]
  proof (rule wp_execute_phase [OF wf(1)])
    fix r :: "err option" and s1 and w1 :: world
    assume post: "phase_post ph s r s1"
    note ran1 = phase_post_ran [OF post]
    have st: "as_status s1 = as_status s" using post by (auto simp: phase_post_def)
    let ?fail = "\<lambda>e s1. do {
         s2 \<leftarrow> update_status status_failed s1;
         sv \<leftarrow> save_state (ap_dir a) s2;
         s3 \<leftarrow> (case sv of None \<Rightarrow> ret s2
              | Some m \<Rightarrow> state_log ''error'' (ph_name ph) [] (''failed to save state: '' @ m) s2);
         ret (Some (wrapf (''phase '' @ ph_name ph @ '' failed'') e), s3) }"
    have fail: "wp (?fail e s1) Q w1" for e
      unfolding wp_bind
    proof (rule wp_update_status, rule wp_any)
      fix s2 sv and w2 :: world
      assume s2: "run_frame {} {} s1 s2" "as_status s2 = status_failed"
      have fin: "Q (Some m, u) v" if u: "same_run s2 u" for m u v
        by (rule Cons.prems(2), rule resume_post_first,
            rule ran_then [OF ran_then [OF ran1 s2(1)] run_frame_ops [OF u, of "{}"]]) (simp_all add: ops_frame_phases [OF u] s2)
      show "wp (case sv of None \<Rightarrow> ret s2
          | Some m \<Rightarrow> state_log ''error'' (ph_name ph) [] (''failed to save state: '' @ m) s2)
          (\<lambda>s3. wp (ret (Some (wrapf (''phase '' @ ph_name ph @ '' failed'') e), s3)) Q) w2"
        by (cases sv) (auto intro!: fin wp_log_same)
    qed
    have cont: "wp (resume_phases a p phs s1) Q w1" if "r = None"
      by (rule Cons.IH [OF wf(2)], rule Cons.prems(2),
          rule resume_post_Cons [OF Cons.prems(1) phase_post_done [OF post [unfolded that]] ran1 st])
    show "wp (case (r, s1) of (Some e, s1) \<Rightarrow> ?fail e s1 | (None, s1) \<Rightarrow> resume_phases a p phs s1) Q w1"
      using fail cont by (cases r) (simp_all del: wp_bind)
  qed
qed


text \<open>A state that is neither paused nor failed is refused by \<^verbatim>\<open>Resume\<close> before anything happens.\<close>
theorem resume_refuses:
  "as_status s \<notin> {status_paused, status_failed} \<Longrightarrow>
   run_state (resume_apply a s) w = ((None, Some (''cannot resume apply in status: '' @ as_status s)), w)"
  by (simp add: resume_apply_def can_resume_def)

section \<open>Examples\<close>

definition example_phase :: "string \<Rightarrow> string list \<Rightarrow> planned_phase" where
  "example_phase n is = \<lparr>ph_name = n, ph_description = n, ph_order = 1, ph_operations = map (\<lambda>i. example_op i True) is,
     ph_before = None, ph_after = None, ph_duration = []\<rparr>"

definition example_phases_plan :: plan where
  "example_phases_plan = example_plan\<lparr>pl_phases := [example_phase ''prepare'' [''a'', ''b''], example_phase ''deploy'' [''c'']]\<rparr>"

lemma example_phases_wf: "phases_wf (pl_phases example_phases_plan)"
  by (simp add: example_phases_plan_def phases_wf_def example_phase_def)

lemma apply_completes_witness:
  "wp (apply_plan (example_applier (\<lambda>_. False)) example_phases_plan)
     (\<lambda>(st, e) w'. e = None \<longrightarrow> (\<exists>s. st = Some s \<and> op_status s ''c'' = Some status_completed)) example_world"
  using apply_completes [OF example_phases_wf]
  by (rule wp_mono) (auto simp: example_phases_plan_def example_phase_def)

lemma apply_stops_witness:
  "wp (apply_plan (example_applier (\<lambda>i. i = ''b'')) example_phases_plan) (\<lambda>(st, e) w'. e \<noteq> None \<longrightarrow>
    st = None \<or> (\<exists>s. st = Some s \<and> apply_stopped (example_applier (\<lambda>i. i = ''b'')) (pl_phases example_phases_plan) s)) example_world"
  by (rule apply_stops [OF example_phases_wf])


lemma resume_refuses_witness:
  "run_state (resume_apply (example_applier (\<lambda>_. False)) example_state) example_world =
     ((None, Some ''cannot resume apply in status: running''), example_world)"
  using resume_refuses [of example_state "example_applier (\<lambda>_. False)" example_world]
  by (simp add: example_state_def status_defs)

end
