(* ===== verification/Apply_Files.thy ===== *)
theory Apply_Files imports Apply_Exec Plan_Store begin

text \<open>
  The files of an apply: the state file, its checkpoints, and the place where a resume looks for the plan.
\<close>

section \<open>Paths\<close>

definition state_key_ok :: "string list \<Rightarrow> string \<Rightarrow> bool" where
  "state_key_ok cs i = (comps_ok cs \<and> slash \<notin> set i)"

lemma json_comp_ok: "slash \<notin> set i \<Longrightarrow> comp_ok (i @ ''.json'')"
  by (rule comp_ok_long) simp_all

lemma state_comp_ok: "comp_ok ''state''"
  by (simp add: comp_ok_def dot_def dotdot_def)

lemma state_path_abs:
  "state_key_ok cs i \<Longrightarrow> get_state_path (abs_path cs) i = abs_path (cs @ [''state'', i @ ''.json''])"
  by (simp add: state_key_ok_def get_state_path_def get_state_dir_def path_join_abs state_comp_ok json_comp_ok comps_ok_def)

lemma state_path_clean [simp]: "state_key_ok cs i \<Longrightarrow> path_clean (get_state_path (abs_path cs) i) = get_state_path (abs_path cs) i"
  by (simp add: state_path_abs state_key_ok_def state_comp_ok json_comp_ok comps_ok_def)

section \<open>Saving and loading\<close>

text \<open>A save at a path that is no link, and a load from it.\<close>

lemma wp_state_save:
  assumes clean: "path_clean p = p" and plain: "\<not> is_link (w_fs w) p"
    and Q: "\<And>e w'. (e = None \<Longrightarrow> \<exists>t. mget (w_fs w') p = Some (FFile (Json (enc_apply_state s)) t)) \<Longrightarrow> Q e w'"
  shows "wp (state_save_to_file s p) Q w"
  unfolding state_save_to_file_def wp_bind
proof (rule wp_mkdir_all)
  fix e :: "os_err option" and w1 :: world
  assume keep: "\<And>q n. mget (w_fs w) q = Some n \<Longrightarrow> mget (w_fs w1) q = Some n"
    and new: "\<And>q. mget (w_fs w) q = None \<Longrightarrow> mget (w_fs w1) q \<in> {None, Some FDir}"
  have "\<not> is_link (w_fs w1) p" using plain is_link_mkdir [OF keep new] by simp
  then have follow: "fs_follow (w_fs w1) p = Some p" using fs_follow_plain [of "w_fs w1" p] clean by simp
  show "wp (case e of
       Some m \<Rightarrow> ret (Some (wrapf ''failed to create state directory'' (os_msg m)))
     | None \<Rightarrow> do {
         e2 \<leftarrow> os_write_file p (Json (enc_apply_state s));
         ret (map_option (\<lambda>m. wrapf ''failed to write state file'' (os_msg m)) e2) }) Q w1"
    by (cases e) (auto intro!: Q wp_write_file [OF follow])
qed

lemma wp_state_load:
  assumes clean: "path_clean p = p" and stored: "mget (w_fs w) p = Some (FFile c t)"
    and Q: "\<And>r w'. r = wrap_err ''failed to unmarshal state'' (unmarshal dec_apply_state c) \<or>
      (\<exists>m. r = Err (wrapf ''failed to read state file'' m)) \<Longrightarrow> Q r w'"
  shows "wp (load_state_from_file p) Q w"
  unfolding load_state_from_file_def wp_bind wp_return
proof (rule wp_read_file)
  fix r :: "os_err + fcontent" and w' :: world
  assume read: "\<And>c q t. r = Inr c \<Longrightarrow> fs_follow (w_fs w) p = Some q \<Longrightarrow> \<exists>t. mget (w_fs w) q = Some (FFile c t)"
  have "c' = c" if "r = Inr c'" for c'
    using read [OF that fs_follow_file [OF stored clean]] stored by simp
  then show "Q (case r of Inl e \<Rightarrow> Err (wrapf ''failed to read state file'' (os_msg e))
     | Inr c \<Rightarrow> wrap_err ''failed to unmarshal state'' (unmarshal dec_apply_state c)) w'"
    by (cases r) (auto intro: Q)
qed

text \<open>
  C18. What a state save that reports success has written is what the next load reads: the state, with the
  numbers in its free-form values as \<^verbatim>\<open>encoding/json\<close> returns them. Otherwise the read itself failed.
\<close>
theorem state_reload:
  assumes "state_key_ok cs (as_id s)" "\<not> is_link (w_fs w) (get_state_path (abs_path cs) (as_id s))"
  shows "wp (do { e \<leftarrow> save_state (abs_path cs) s; r \<leftarrow> load_state (abs_path cs) (as_id s); ret (e, r) })
    (\<lambda>(e, r) w'. e = None \<longrightarrow> r = Ok (norm_apply_state s) \<or> (\<exists>m. r = Err (wrapf ''failed to read state file'' m))) w"
  unfolding save_state_def load_state_def wp_bind
proof (rule wp_state_save [OF state_path_clean [OF assms(1)] assms(2)])
  fix e :: "err option" and w1 :: world
  assume e: "e = None \<Longrightarrow> \<exists>t. mget (w_fs w1) (get_state_path (abs_path cs) (as_id s)) = Some (FFile (Json (enc_apply_state s)) t)"
  show "wp (load_state_from_file (get_state_path (abs_path cs) (as_id s))) (\<lambda>r. wp (ret (e, r))
    (\<lambda>(e, r) w'. e = None \<longrightarrow> r = Ok (norm_apply_state s) \<or> (\<exists>m. r = Err (wrapf ''failed to read state file'' m)))) w1"
  proof (cases e)
    case None
    then obtain t where "mget (w_fs w1) (get_state_path (abs_path cs) (as_id s)) = Some (FFile (Json (enc_apply_state s)) t)"
      using e by auto
    then show ?thesis
      by (rule wp_state_load [OF state_path_clean [OF assms(1)]]) (auto simp: state_codec.unmarshal_enc)
  qed (auto intro: wp_any)
qed

lemma state_reload_witness:
  "wp (do { e \<leftarrow> save_state (abs_path [''c'']) example_state; r \<leftarrow> load_state (abs_path [''c'']) ''s''; ret (e, r) })
    (\<lambda>(e, r) w'. e = None \<longrightarrow> r = Ok (norm_apply_state example_state) \<or> (\<exists>m. r = Err (wrapf ''failed to read state file'' m)))
    example_world"
  using state_reload [of "[''c'']" example_state example_world]
  by (simp add: state_key_ok_def comp_ok_def dot_def dotdot_def is_link_def example_world_def example_state_def)

text \<open>
  C19. Unlike the plan file, the state file is written in place: a write that fails part way replaces the
  previous state by what was written so far, and no state can be loaded any more.
\<close>
theorem state_save_tears:
  assumes key: "state_key_ok cs (as_id s)"
    and dirs: "\<forall>d \<in> set (path_prefixes (get_state_dir (abs_path cs))). is_dir (w_fs w) d"
    and stored: "mget (w_fs w) (get_state_path (abs_path cs) (as_id s)) = Some (FFile c t)"
    and faults: "w_faults w (w_nio w) = None" "w_faults w (Suc (w_nio w)) = Some (Fault m (Some bytes))"
      "w_faults w (Suc (Suc (w_nio w))) = None"
  shows "fst (run_state (do { e \<leftarrow> save_state (abs_path cs) s; r \<leftarrow> load_state (abs_path cs) (as_id s); ret (e, r) }) w)
    = (Some (wrapf ''failed to write state file'' m), Err (wrapf ''failed to unmarshal state'' json_error))"
proof -
  let ?d = "get_state_dir (abs_path cs)" and ?p = "get_state_path (abs_path cs) (as_id s)"
  have cs: "comps_ok cs" "comp_ok (as_id s @ ''.json'')" using key by (simp_all add: state_key_ok_def json_comp_ok)
  have d: "?d = abs_path (cs @ [''state''])"
    using cs by (simp add: get_state_dir_def path_join_abs state_comp_ok comps_ok_def)
  have p: "?p = abs_path ((cs @ [''state'']) @ [as_id s @ ''.json''])" using key by (simp add: state_path_abs)
  have pd: "path_dir ?p = ?d"
    unfolding p d by (rule path_dir_abs) (use cs in \<open>simp_all add: state_comp_ok comps_ok_def\<close>)
  have dir: "is_dir (w_fs w) ?d"
    using dirs path_prefixes_self [of "cs @ [''state'']"] cs by (simp add: d state_comp_ok comps_ok_def)
  have "?p \<noteq> abs_path []" unfolding p
    by (subst abs_path_inject) (use cs in \<open>simp_all add: state_comp_ok comps_ok_def\<close>)
  moreover have "?p \<noteq> dot" unfolding p by (simp add: abs_path_def dot_def)
  ultimately have np: "?p \<noteq> [slash]" "?p \<noteq> dot" by (simp_all add: abs_path_def)
  have nd: "\<not> is_dir (w_fs w) ?p" by (rule not_dir_file [OF stored np])
  note cl = state_path_clean [OF key]
  have mk: "run_state (os_mkdir_all ?d) w = (None, w\<lparr>w_nio := Suc (w_nio w)\<rparr>)"
    using dirs faults(1) by (simp add: os_mkdir_all_def mkdirs_present)
  show ?thesis
    using faults(2,3) stored nd dir cl
    by (simp add: save_state_def state_save_to_file_def load_state_def load_state_from_file_def pd mk
        os_write_file_def os_read_file_def unmarshal_def)
qed

text \<open>A machine that holds a state file and fails the second system call, a write, after one byte.\<close>

definition torn_world :: world where
  "torn_world = example_world\<lparr>
     w_fs := [(''/c'', FDir), (''/c/state'', FDir), (''/c/state/s.json'', FFile (Json (enc_apply_state example_state)) 0)],
     w_faults := (\<lambda>n. if n = 1 then Some (Fault ''no space left'' (Some ''x'')) else None)\<rparr>"

lemma state_save_tears_witness:
  "fst (run_state (do { e \<leftarrow> save_state (abs_path [''c'']) example_state; r \<leftarrow> load_state (abs_path [''c'']) ''s''; ret (e, r) }) torn_world)
    = (Some (wrapf ''failed to write state file'' ''no space left''), Err (wrapf ''failed to unmarshal state'' json_error))"
proof -
  have key: "state_key_ok [''c''] (as_id example_state)"
    by (simp add: state_key_ok_def comp_ok_def dot_def dotdot_def example_state_def)
  have d: "get_state_dir (abs_path [''c'']) = abs_path [''c'', ''state'']"
    using key by (simp add: get_state_dir_def path_join_abs state_comp_ok state_key_ok_def comps_ok_def)
  have p: "get_state_path (abs_path [''c'']) (as_id example_state) = ''/c/state/s.json''"
    using state_path_abs [OF key] by (simp add: abs_path_def example_state_def)
  have "\<forall>d \<in> set (path_prefixes (get_state_dir (abs_path [''c'']))). is_dir (w_fs torn_world) d"
    unfolding d by (subst path_prefixes_abs) (auto simp: comp_ok_def dot_def dotdot_def comps_ok_def abs_path_def
        is_dir_def torn_world_def upt_rec)
  from state_save_tears [OF key this, of "Json (enc_apply_state example_state)" 0 "''no space left''" "''x''"]
  show ?thesis unfolding p by (simp add: torn_world_def example_world_def) (simp add: example_state_def)
qed

section \<open>Checkpoints\<close>

text \<open>The clock keeps its readings through system calls.\<close>

definition clock_is :: "(nat \<Rightarrow> int) \<Rightarrow> world \<Rightarrow> bool" where
  "clock_is c w = (w_clock w = c)"

lemma keeps_clock [intro]:
  "keeps (clock_is c) (os_mkdir_all p)" "keeps (clock_is c) (os_write_file p b)" "keeps (clock_is c) time_now"
  by (auto simp: keeps_def clock_is_def os_mkdir_all_def os_write_file_def
      split: option.split fault.split prod.split)

lemma keeps_clock_save: "keeps (clock_is c) (state_save_to_file s p)"
  unfolding state_save_to_file_def by (intro keeps_bind keeps_case_option keeps_clock keeps_return)

text \<open>A checkpoint that is reported as created: its identifier is the time in seconds.\<close>

lemma wp_checkpoint_second:
  assumes clock: "clock_is c w" and sec: "\<And>n. unix_seconds (c n) = k"
    and Q: "\<And>e s' w'. clock_is c w' \<Longrightarrow> as_id s' = as_id s \<Longrightarrow> (e = None \<Longrightarrow> \<exists>cp. as_checkpoints s' = as_checkpoints s @ [cp] \<and>
        cp_id cp = ''checkpoint-'' @ itoa k \<and> cp_description cp = desc \<and>
        cp_state_path cp = get_checkpoint_path d (as_id s) (''checkpoint-'' @ itoa k)) \<Longrightarrow> Q (e, s') w'"
  shows "wp (create_checkpoint d s desc) Q w"
proof -
  define cid where "cid = ''checkpoint-'' @ itoa k"
  let ?path = "get_checkpoint_path d (as_id s) cid"
  have fail: "Q (Some m, s) v" if "clock_is c v" for m v by (rule Q [OF that]) simp_all
  have any: "wp m R v" if "clock_is c v" "keeps (clock_is c) m" "\<And>r u. clock_is c u \<Longrightarrow> R r u" for m R v
    using keepsD [OF that(2,1)] by (rule wp_mono) (rule that(3))
  show ?thesis
    unfolding create_checkpoint_def wp_bind
  proof (rule any [OF clock keeps_clock(1)])
    fix e :: "os_err option" and v :: world
    assume v: "clock_is c v"
    have now: "''checkpoint-'' @ itoa (unix_seconds (w_clock u n)) = cid" if "clock_is c u" for u n
      using that sec by (simp add: clock_is_def cid_def)
    have tick: "clock_is c (u\<lparr>w_tick := n\<rparr>) = clock_is c u" for u n by (simp add: clock_is_def)
    let ?s = "\<lambda>t. s\<lparr>as_checkpoints := as_checkpoints s @ [\<lparr>cp_id = cid, cp_description = desc, cp_timestamp = t,
                cp_phase = as_phase s, cp_operation = [], cp_state_path = ?path\<rparr>]\<rparr>"
    have last: "wp (save_state d (?s t)) (\<lambda>e3. Q (map_option (wrapf ''failed to save state after checkpoint'') e3, ?s t)) u"
      if "clock_is c u" for t u
      unfolding save_state_def by (rule any [OF that keeps_clock_save], rule Q) (simp_all add: cid_def)
    have mid: "wp (state_save_to_file s ?path) (\<lambda>e2. wp (case e2 of
           Some m \<Rightarrow> ret (Some (wrapf ''failed to save checkpoint'' m), s)
         | None \<Rightarrow> do { t \<leftarrow> time_now; e3 \<leftarrow> save_state d (?s t);
             ret (map_option (wrapf ''failed to save state after checkpoint'') e3, ?s t) }) Q) u" if u: "clock_is c u" for u
    proof (rule any [OF u keeps_clock_save])
      fix e2 :: "err option" and u' :: world
      assume "clock_is c u'"
      then show "wp (case e2 of
           Some m \<Rightarrow> ret (Some (wrapf ''failed to save checkpoint'' m), s)
         | None \<Rightarrow> do { t \<leftarrow> time_now; e3 \<leftarrow> save_state d (?s t);
             ret (map_option (wrapf ''failed to save state after checkpoint'') e3, ?s t) }) Q u'"
        by (cases e2) (simp_all add: fail last tick)
    qed
    show "wp (case e of
       Some m \<Rightarrow> ret (Some (wrapf ''failed to create checkpoint directory'' (os_msg m)), s)
     | None \<Rightarrow> do {
         now \<leftarrow> time_now;
         let cid = ''checkpoint-'' @ itoa (unix_seconds now);
         let path = get_checkpoint_path d (as_id s) cid;
         e2 \<leftarrow> state_save_to_file s path;
         case e2 of
           Some m \<Rightarrow> ret (Some (wrapf ''failed to save checkpoint'' m), s)
         | None \<Rightarrow> do {
             t \<leftarrow> time_now;
             let s' = s\<lparr>as_checkpoints := as_checkpoints s @ [\<lparr>cp_id = cid, cp_description = desc, cp_timestamp = t,
                cp_phase = as_phase s, cp_operation = [], cp_state_path = path\<rparr>]\<rparr>;
             e3 \<leftarrow> save_state d s';
             ret (map_option (wrapf ''failed to save state after checkpoint'') e3, s') } }) Q v"
      using mid [of "v\<lparr>w_tick := Suc (w_tick v)\<rparr>"] v
      unfolding Let_def by (cases e) (simp_all add: fail tick now del: append.simps)
  qed
qed

text \<open>
  Two checkpoints within one second share their identifier and the file of their snapshot: the second
  overwrites the snapshot that the first one's entry still names.
\<close>
theorem checkpoints_collide:
  assumes "\<forall>n. unix_seconds (w_clock w n) = k"
  shows "wp (do { x \<leftarrow> create_checkpoint d s m; y \<leftarrow> create_checkpoint d (snd x) m'; ret (fst x, y) })
    (\<lambda>(e1, e2, s') w'. e1 = None \<and> e2 = None \<longrightarrow> (\<exists>a b. as_checkpoints s' = as_checkpoints s @ [a, b] \<and>
       cp_id a = cp_id b \<and> cp_state_path a = cp_state_path b \<and> cp_description a = m \<and> cp_description b = m')) w"
  unfolding wp_bind
proof (rule wp_checkpoint_second [of "w_clock w"])
  show "clock_is (w_clock w) w" by (simp add: clock_is_def)
  show "unix_seconds (w_clock w n) = k" for n using assms by simp
  fix e1 :: "err option" and s1 :: apply_state and w1 :: world
  assume c: "clock_is (w_clock w) w1" and id: "as_id s1 = as_id s" and one: "e1 = None \<Longrightarrow> \<exists>cp. as_checkpoints s1 = as_checkpoints s @ [cp] \<and>
      cp_id cp = ''checkpoint-'' @ itoa k \<and> cp_description cp = m \<and>
      cp_state_path cp = get_checkpoint_path d (as_id s) (''checkpoint-'' @ itoa k)"
  show "wp (create_checkpoint d (snd (e1, s1)) m') (\<lambda>y. wp (ret (fst (e1, s1), y))
    (\<lambda>(e1, e2, s') w'. e1 = None \<and> e2 = None \<longrightarrow> (\<exists>a b. as_checkpoints s' = as_checkpoints s @ [a, b] \<and>
       cp_id a = cp_id b \<and> cp_state_path a = cp_state_path b \<and> cp_description a = m \<and> cp_description b = m'))) w1"
    unfolding fst_conv snd_conv wp_return_fun
  proof (rule wp_checkpoint_second [OF c])
    show "unix_seconds (w_clock w n) = k" for n using assms by simp
    fix e2 :: "err option" and s2 :: apply_state and w2 :: world
    assume two: "e2 = None \<Longrightarrow> \<exists>cp. as_checkpoints s2 = as_checkpoints s1 @ [cp] \<and>
      cp_id cp = ''checkpoint-'' @ itoa k \<and> cp_description cp = m' \<and>
      cp_state_path cp = get_checkpoint_path d (as_id s1) (''checkpoint-'' @ itoa k)"
    have "\<exists>a b. as_checkpoints s2 = as_checkpoints s @ [a, b] \<and>
       cp_id a = cp_id b \<and> cp_state_path a = cp_state_path b \<and> cp_description a = m \<and> cp_description b = m'"
      if "e1 = None" "e2 = None"
      using one [OF that(1)] two [OF that(2)] id by force
    then show "(\<lambda>(e1, e2, s') w'. e1 = None \<and> e2 = None \<longrightarrow> (\<exists>a b. as_checkpoints s' = as_checkpoints s @ [a, b] \<and>
       cp_id a = cp_id b \<and> cp_state_path a = cp_state_path b \<and> cp_description a = m \<and> cp_description b = m'))
       (e1, e2, s2) w2" by simp
  qed
qed

text \<open>A machine whose clock stands within one second.\<close>

lemma checkpoints_collide_witness:
  "wp (do { x \<leftarrow> create_checkpoint ''/c'' example_state ''one''; y \<leftarrow> create_checkpoint ''/c'' (snd x) ''two''; ret (fst x, y) })
    (\<lambda>(e1, e2, s') w'. e1 = None \<and> e2 = None \<longrightarrow> (\<exists>a b. as_checkpoints s' = as_checkpoints example_state @ [a, b] \<and>
       cp_id a = cp_id b \<and> cp_state_path a = cp_state_path b \<and> cp_description a = ''one'' \<and> cp_description b = ''two''))
    (example_world\<lparr>w_clock := (\<lambda>n. 5000000000)\<rparr>)"
  by (rule checkpoints_collide [where k = 5]) (simp add: unix_seconds_def)

section \<open>Where a resume looks for the plan\<close>

lemma abs_path_deeper: "xs \<noteq> [] \<Longrightarrow> ys \<noteq> [] \<Longrightarrow> abs_path (xs @ ys) = abs_path xs @ slash # join_with [slash] ys"
  by (simp add: abs_path_def join_with_append)

text \<open>
  The applier of \<^verbatim>\<open>cluster deploy\<close> has its state manager at the directory \<^verbatim>\<open>state\<close> of the cluster, so the path
  that \<^verbatim>\<open>Resume\<close> reads the plan from is never the path that the plan store writes it to.
\<close>
theorem resume_looks_elsewhere:
  assumes "comps_ok cs" "comp_ok c" "slash \<notin> set i"
  shows "manager_plan_path (path_join [abs_path cs, ''clusters'', c, ''state'']) i \<noteq> get_plan_path (abs_path cs) c i"
proof -
  have ok: "comp_ok (i @ ''.json'')" using assms(3) by (rule json_comp_ok)
  have "get_plan_path (abs_path cs) c i = abs_path (cs @ [''clusters'', c, ''plans'', i @ ''.json''])"
    using assms ok by (simp add: get_plan_path_def get_plans_dir_def path_join_abs comps_ok_def)
  moreover have "manager_plan_path (path_join [abs_path cs, ''clusters'', c, ''state'']) i =
      abs_path ((cs @ [''clusters'', c, ''state'']) @ [''plans'', i @ ''.json''])"
    using assms by (subst abs_path_deeper)
      (simp_all add: manager_plan_path_def path_join_abs comps_ok_def)
  moreover have "comps_ok (cs @ [''clusters'', c, ''plans'', i @ ''.json''])"
    "comps_ok ((cs @ [''clusters'', c, ''state'']) @ [''plans'', i @ ''.json''])"
    using assms ok by (simp_all add: comps_ok_def)
  ultimately show ?thesis by simp
qed

lemma resume_looks_elsewhere_witness:
  "manager_plan_path (path_join [abs_path [''s''], ''clusters'', ''c'', ''state'']) ''p'' \<noteq> get_plan_path (abs_path [''s'']) ''c'' ''p''"
  by (rule resume_looks_elsewhere) (simp_all add: comp_ok_def dot_def dotdot_def)

end
