(* ===== verification/Go_Files.thy ===== *)
theory Go_Files imports Go_World begin

text \<open>
  Files opened for writing (\<^verbatim>\<open>os.Create\<close>, \<^verbatim>\<open>fmt.Fprintf\<close>, \<^verbatim>\<open>text/template\<close>), the text functions of the
  standard library that the supervisor component uses, and the order in which a file system only grows.

  An open file is the path it was opened at, after links were followed. Each write to it is a system call of
  its own and may fail, with or without having written some bytes.
\<close>

section \<open>Open files\<close>

definition nl :: string where "nl = [CHR 0x0A]"

definition os_create :: "string \<Rightarrow> (os_err + string) io" where
  "os_create p = do {
     flt \<leftarrow> io_fault;
     f \<leftarrow> get_fs;
     t \<leftarrow> time_now;
     case fs_follow f p of
       None \<Rightarrow> ret (Inl (OsFail (''open '' @ p @ '': too many levels of symbolic links'')))
     | Some q \<Rightarrow>
         if is_dir f q then ret (Inl (OsFail (''open '' @ p @ '': is a directory'')))
         else if \<not> is_dir f (path_dir q) then ret (Inl (enoent ''open'' p))
         else (case flt of
           None \<Rightarrow> do { _ \<leftarrow> put_fs (mput q (FFile (Text []) t) f); ret (Inr q) }
         | Some e \<Rightarrow> ret (Inl (OsFail (fault_msg e)))) }"

definition append_text :: "string \<Rightarrow> string \<Rightarrow> int \<Rightarrow> fs \<Rightarrow> fs" where
  "append_text q s t f = (case mget f q of
     Some (FFile (Text old) _) \<Rightarrow> mput q (FFile (Text (old @ s)) t) f
   | _ \<Rightarrow> f)"

definition write_file :: "string \<Rightarrow> string \<Rightarrow> os_err option io" where
  "write_file q s = do {
     flt \<leftarrow> io_fault;
     f \<leftarrow> get_fs;
     t \<leftarrow> time_now;
     case flt of
       None \<Rightarrow> do { _ \<leftarrow> put_fs (append_text q s t f); ret None }
     | Some (Fault m None) \<Rightarrow> ret (Some (OsFail m))
     | Some (Fault m (Some bytes)) \<Rightarrow> do { _ \<leftarrow> put_fs (append_text q bytes t f); ret (Some (OsFail m)) } }"

text \<open>A run of \<^verbatim>\<open>Fprintf\<close> calls whose errors nobody looks at, and one that stops at the first error.\<close>

fun fprint_all :: "string \<Rightarrow> string list \<Rightarrow> unit io" where
  "fprint_all q [] = ret ()"
| "fprint_all q (s # ss) = do { _ \<leftarrow> write_file q s; fprint_all q ss }"

fun write_all :: "string \<Rightarrow> string list \<Rightarrow> os_err option io" where
  "write_all q [] = ret None"
| "write_all q (s # ss) = do { e \<leftarrow> write_file q s; case e of Some m \<Rightarrow> ret (Some m) | None \<Rightarrow> write_all q ss }"

text \<open>
  \<^verbatim>\<open>os.RemoveAll\<close>: a tree goes, and a path with nothing there is no error. A removal that fails may have taken
  away a part of the tree, named by the second component of the fault.
\<close>

definition below :: "string \<Rightarrow> string \<Rightarrow> bool" where
  "below p q = (q = p \<or> take (Suc (length p)) q = p @ [slash])"

definition remove_tree :: "string \<Rightarrow> fs \<Rightarrow> fs" where
  "remove_tree p f = filter (\<lambda>(k, n). \<not> below p k) f"

definition os_remove_all :: "string \<Rightarrow> os_err option io" where
  "os_remove_all p = do {
     flt \<leftarrow> io_fault;
     f \<leftarrow> get_fs;
     case flt of
       None \<Rightarrow> do { _ \<leftarrow> put_fs (remove_tree (path_clean p) f); ret None }
     | Some (Fault m None) \<Rightarrow> ret (Some (OsFail m))
     | Some (Fault m (Some part)) \<Rightarrow> do {
         _ \<leftarrow> put_fs (if below (path_clean p) part then remove_tree part f else f); ret (Some (OsFail m)) } }"

section \<open>Text\<close>

text \<open>
  \<^verbatim>\<open>TrimSpace\<close> and \<^verbatim>\<open>Fields\<close> cut at white space; the two blanks of Unicode outside ASCII (U+0085, U+00A0) do not
  occur in what the program reads and are not modelled.
\<close>

definition is_white :: "char \<Rightarrow> bool" where
  "is_white c = (is_space c \<or> c = CHR 0x0A)"

definition trim_space :: "string \<Rightarrow> string" where
  "trim_space s = rev (dropWhile is_white (rev (dropWhile is_white s)))"

definition has_prefix :: "string \<Rightarrow> string \<Rightarrow> bool" where
  "has_prefix s p = (take (length p) s = p)"

definition trim_prefix :: "string \<Rightarrow> string \<Rightarrow> string" where
  "trim_prefix s p = (if has_prefix s p then drop (length p) s else s)"

definition trim_suffix :: "string \<Rightarrow> string \<Rightarrow> string" where
  "trim_suffix s p = (if has_prefix (rev s) (rev p) then take (length s - length p) s else s)"

function replace_all :: "string \<Rightarrow> string \<Rightarrow> string \<Rightarrow> string" where
  "replace_all old new s =
     (if old = [] \<or> s = [] then s
      else if has_prefix s old then new @ replace_all old new (drop (length old) s)
      else hd s # replace_all old new (tl s))"
  by pat_completeness auto
termination
  by (relation "measure (\<lambda>(old, new, s). length s)") auto

declare replace_all.simps [simp del]

function go_fields :: "string \<Rightarrow> string list" where
  "go_fields s = (let t = dropWhile is_white s in
     if t = [] then [] else takeWhile (\<lambda>c. \<not> is_white c) t # go_fields (dropWhile (\<lambda>c. \<not> is_white c) t))"
  by pat_completeness auto
termination
proof (relation "measure length", simp)
  fix s t :: string
  assume t: "t = dropWhile is_white s" "t \<noteq> []"
  then have "\<not> is_white (hd t)" using hd_dropWhile [of is_white s] by simp
  then have "length (dropWhile (\<lambda>c. \<not> is_white c) t) < length t"
    using t(2) by (cases t) (simp_all add: length_dropWhile_le less_Suc_eq_le)
  also have "\<dots> \<le> length s" using t(1) by (simp add: length_dropWhile_le)
  finally show "(dropWhile (\<lambda>c. \<not> is_white c) t, s) \<in> measure length" by simp
qed

declare go_fields.simps [simp del]

lemma has_prefix_append [simp]: "has_prefix (p @ s) p" "trim_prefix (p @ s) p = s"
  by (simp_all add: has_prefix_def trim_prefix_def)

lemma fields_Nil [simp]: "go_fields [] = []"
  by (simp add: go_fields.simps)

lemma fields_word:
  "w \<noteq> [] \<Longrightarrow> \<forall>c \<in> set w. \<not> is_white c \<Longrightarrow> is_white x \<Longrightarrow> go_fields (w @ x # s) = w # go_fields s"
proof -
  assume w: "w \<noteq> []" "\<forall>c \<in> set w. \<not> is_white c" and x: "is_white x"
  have skip: "dropWhile is_white (w @ x # s) = w @ x # s" using w by (cases w) auto
  have tw: "takeWhile (\<lambda>c. \<not> is_white c) (w @ x # s) = w"
    using w(2) x by (simp add: takeWhile_append2)
  have dw: "dropWhile (\<lambda>c. \<not> is_white c) (w @ x # s) = x # s"
    using w(2) x by (simp add: dropWhile_append2)
  have "go_fields (x # s) = go_fields s" using x by (simp add: go_fields.simps [of "x # s"] go_fields.simps [of s])
  then show ?thesis using w(1) by (subst go_fields.simps) (simp add: skip tw dw)
qed

lemma fields_skip [simp]: "is_white x \<Longrightarrow> go_fields (x # s) = go_fields s"
  by (simp add: go_fields.simps [of "x # s"] go_fields.simps [of s])

lemma fields_last: "w \<noteq> [] \<Longrightarrow> \<forall>c \<in> set w. \<not> is_white c \<Longrightarrow> go_fields w = [w]"
proof -
  assume w: "w \<noteq> []" "\<forall>c \<in> set w. \<not> is_white c"
  then have "dropWhile is_white w = w" by (cases w) auto
  moreover have "takeWhile (\<lambda>c. \<not> is_white c) w = w" "dropWhile (\<lambda>c. \<not> is_white c) w = []"
    using w(2) by (simp_all add: takeWhile_eq_all_conv)
  ultimately show ?thesis using w(1) by (subst go_fields.simps) (simp del: dropWhile_eq_Nil_conv)
qed

lemma trim_space_prefix: "trim_space s = take (length (trim_space s)) (dropWhile is_white s)"
proof -
  let ?t = "dropWhile is_white s"
  have "rev ?t = takeWhile is_white (rev ?t) @ dropWhile is_white (rev ?t)" by simp
  then have "?t = rev (dropWhile is_white (rev ?t)) @ rev (takeWhile is_white (rev ?t))" by (metis rev_append rev_rev_ident)
  then have "take (length (rev (dropWhile is_white (rev ?t)))) ?t = rev (dropWhile is_white (rev ?t))"
    by (metis append_eq_conv_conj)
  then show ?thesis by (simp add: trim_space_def)
qed

lemma has_prefix_trim: "has_prefix (trim_space s) p \<Longrightarrow> has_prefix (dropWhile is_white s) p"
  using trim_space_prefix [of s] unfolding has_prefix_def by (metis take_take min_def take_all_iff nat_le_linear length_take)

lemma trim_space_id: "s \<noteq> [] \<Longrightarrow> \<not> is_white (hd s) \<Longrightarrow> \<not> is_white (last s) \<Longrightarrow> trim_space s = s"
proof -
  assume s: "s \<noteq> []" "\<not> is_white (hd s)" "\<not> is_white (last s)"
  then have "dropWhile is_white s = s" by (cases s) auto
  moreover have "dropWhile is_white (rev s) = rev s" using s by (cases s rule: rev_cases) auto
  ultimately show ?thesis by (simp add: trim_space_def)
qed

lemma fields_white: "\<forall>c \<in> set s. is_white c \<Longrightarrow> go_fields s = []"
  by (induction s) simp_all

lemma fields_append_white: "\<forall>c \<in> set ws. is_white c \<Longrightarrow> go_fields (s @ ws) = go_fields s"
proof (induction s rule: go_fields.induct)
  case (1 s)
  let ?t = "dropWhile is_white s"
  show ?case
  proof (cases "?t = []")
    case True
    then have "\<forall>c \<in> set s. is_white c" by simp
    then show ?thesis using 1 fields_white [of s] fields_white [of "s @ ws"] by auto
  next
    case False
    then have t: "dropWhile is_white (s @ ws) = ?t @ ws" by (auto simp: dropWhile_append dest: iffD2 [OF dropWhile_eq_Nil_conv])
    let ?u = "dropWhile (\<lambda>c. \<not> is_white c) ?t"
    have tw: "takeWhile (\<lambda>c. \<not> is_white c) (?t @ ws) = takeWhile (\<lambda>c. \<not> is_white c) ?t"
      using 1(2) by (cases ws) (auto simp: takeWhile_append intro!: takeWhile_eq_all_conv [THEN iffD2, symmetric])
    have dw: "go_fields (dropWhile (\<lambda>c. \<not> is_white c) (?t @ ws)) = go_fields (?u @ ws)"
    proof (cases "?u = []")
      case True
      then have "dropWhile (\<lambda>c. \<not> is_white c) (?t @ ws) = dropWhile (\<lambda>c. \<not> is_white c) ws"
        by (auto simp: dropWhile_append)
      also have "\<dots> = ws" using 1(2) by (cases ws) auto
      finally show ?thesis by (simp only: True append_Nil)
    qed (auto simp: dropWhile_append)
    have "go_fields (s @ ws) = takeWhile (\<lambda>c. \<not> is_white c) ?t # go_fields (?u @ ws)"
      using False by (subst go_fields.simps) (simp add: t tw dw Let_def del: dropWhile_eq_Nil_conv)
    also have "go_fields (?u @ ws) = go_fields ?u" using 1 False by auto
    also have "takeWhile (\<lambda>c. \<not> is_white c) ?t # go_fields ?u = go_fields s"
      using False by (subst (2) go_fields.simps) (simp add: Let_def del: dropWhile_eq_Nil_conv)
    finally show ?thesis .
  qed
qed

lemma fields_trim: "go_fields (trim_space s) = go_fields s"
proof -
  let ?t = "dropWhile is_white s"
  have split: "?t = trim_space s @ rev (takeWhile is_white (rev ?t))"
    by (metis trim_space_def rev_append rev_rev_ident takeWhile_dropWhile_id)
  have "go_fields ?t = go_fields s" by (simp add: go_fields.simps [of ?t] go_fields.simps [of s])
  then show ?thesis
    using fields_append_white [of "rev (takeWhile is_white (rev ?t))" "trim_space s"] split set_takeWhileD by fastforce
qed

lemma replace_all_absent: "x \<in> set old \<Longrightarrow> x \<notin> set s \<Longrightarrow> replace_all old new s = s"
proof (induction s)
  case (Cons c s)
  have "\<not> has_prefix (c # s) old"
    using Cons.prems unfolding has_prefix_def by (metis set_take_subset subsetD)
  then show ?case using Cons by (subst replace_all.simps) auto
qed (simp add: replace_all.simps)

section \<open>File systems that only grow\<close>

text \<open>
  \<open>fs_grows f g\<close>: everything that \<open>f\<close> has is in \<open>g\<close>, as the same kind of node, and \<open>g\<close> has no new links.
  Every call but a removal or a renaming moves up in this order, so a file that was made stays there.
\<close>

fun same_kind :: "fnode \<Rightarrow> fnode \<Rightarrow> bool" where
  "same_kind (FFile _ _) n = (\<exists>c t. n = FFile c t)"
| "same_kind FDir n = (n = FDir)"
| "same_kind (FLink t) n = (n = FLink t)"

lemma same_kind_refl [simp]: "same_kind n n"
  by (cases n) auto

lemma same_kind_trans: "same_kind a b \<Longrightarrow> same_kind b c \<Longrightarrow> same_kind a c"
  by (cases a) auto

definition fs_grows :: "fs \<Rightarrow> fs \<Rightarrow> bool" where
  "fs_grows f g = (\<forall>q. (case mget f q of Some n \<Rightarrow> \<exists>m. mget g q = Some m \<and> same_kind n m
     | None \<Rightarrow> \<not> is_link g q))"

lemma fs_grows_refl [simp]: "fs_grows f f"
  by (simp add: fs_grows_def is_link_def split: option.splits)

lemma fs_growsD: "fs_grows f g \<Longrightarrow> mget f q = Some n \<Longrightarrow> \<exists>m. mget g q = Some m \<and> same_kind n m"
  unfolding fs_grows_def by (drule spec [of _ q]) simp

lemma fs_grows_trans: "fs_grows f g \<Longrightarrow> fs_grows g h \<Longrightarrow> fs_grows f h"
  unfolding fs_grows_def
proof
  fix q
  assume a: "\<forall>q. case mget f q of None \<Rightarrow> \<not> is_link g q | Some n \<Rightarrow> \<exists>m. mget g q = Some m \<and> same_kind n m"
    "\<forall>q. case mget g q of None \<Rightarrow> \<not> is_link h q | Some n \<Rightarrow> \<exists>m. mget h q = Some m \<and> same_kind n m"
  show "case mget f q of None \<Rightarrow> \<not> is_link h q | Some n \<Rightarrow> \<exists>m. mget h q = Some m \<and> same_kind n m"
    using spec [OF a(1), of q] spec [OF a(2), of q]
    by (cases "mget f q"; cases "mget g q")
      (auto simp: is_link_def intro: same_kind_trans split: fnode.splits option.splits elim!: same_kind.elims)
qed

lemma fs_grows_link: "fs_grows f g \<Longrightarrow> (mget g q = Some (FLink t)) = (mget f q = Some (FLink t))"
  unfolding fs_grows_def is_link_def
  by (drule spec [of _ q]) (auto split: option.splits fnode.splits elim!: same_kind.elims)

lemma fs_grows_resolve: "fs_grows f g \<Longrightarrow> resolve_link n g p = resolve_link n f p"
proof (induction n arbitrary: p)
  case (Suc n)
  have link: "(mget g p = Some (FLink t)) = (mget f p = Some (FLink t))" for t
    using fs_grows_link [OF Suc.prems] .
  show ?case
  proof (cases "\<exists>t. mget f p = Some (FLink t)")
    case True
    then obtain t where t: "mget f p = Some (FLink t)" by blast
    then have "mget g p = Some (FLink t)" using link by blast
    then show ?thesis using t Suc.IH [OF Suc.prems] by simp
  next
    case False
    then show ?thesis using link by (auto split: option.splits fnode.splits)
  qed
qed simp

lemma fs_grows_follow: "fs_grows f g \<Longrightarrow> fs_follow g p = fs_follow f p"
  by (simp add: fs_follow_def fs_grows_resolve)

definition is_file :: "fs \<Rightarrow> string \<Rightarrow> bool" where
  "is_file f p = (\<exists>q c t. fs_follow f p = Some q \<and> mget f q = Some (FFile c t))"

lemma fs_grows_is_file: "fs_grows f g \<Longrightarrow> is_file f p \<Longrightarrow> is_file g p"
  unfolding is_file_def using fs_grows_follow [of f g p] fs_growsD [of f g] by fastforce

lemma resolve_not_link: "resolve_link n f p = Some q \<Longrightarrow> \<not> is_link f q"
  by (induction n arbitrary: p) (auto simp: is_link_def split: option.splits fnode.splits)

lemma follow_not_link: "fs_follow f p = Some q \<Longrightarrow> \<not> is_link f q"
  by (simp add: fs_follow_def resolve_not_link)

lemma fs_grows_file: "\<not> is_link f q \<Longrightarrow> \<not> is_dir f q \<Longrightarrow> fs_grows f (mput q (FFile c t) f)"
  by (auto simp: fs_grows_def is_link_def is_dir_def split: option.splits fnode.splits)

lemma fs_grows_append: "fs_grows f (append_text q s t f)"
  by (auto simp: append_text_def fs_grows_def is_link_def split: option.splits fnode.splits fcontent.splits)

lemma fs_grows_mkdirs: "fs_grows f (snd (mkdirs ps f))"
  unfolding fs_grows_def
proof
  fix q
  show "case mget f q of None \<Rightarrow> \<not> is_link (snd (mkdirs ps f)) q
      | Some n \<Rightarrow> \<exists>m. mget (snd (mkdirs ps f)) q = Some m \<and> same_kind n m"
    using mkdirs_new [of f q ps] mkdirs_keeps [of f q _ ps] by (auto simp: is_link_def split: option.splits)
qed

text \<open>The invariant as a property of programs: from \<open>f\<close> on the file system has only grown.\<close>

definition grown :: "fs \<Rightarrow> world \<Rightarrow> bool" where
  "grown f w = fs_grows f (w_fs w)"

lemma grown_refl [simp]: "w_fs w = f \<Longrightarrow> grown f w"
  by (simp add: grown_def)

lemmas keeps_intros = keeps_return keeps_bind keeps_if keeps_case_option keeps_case_sum keeps_case_prod keeps_for_each

named_theorems grows \<open>programs under which the file system grows\<close>

lemma keeps_grownI: "(\<And>w r w'. run_state m w = (r, w') \<Longrightarrow> fs_grows (w_fs w) (w_fs w')) \<Longrightarrow> keeps (grown f) m"
  by (rule keepsI, rule wpI) (auto simp: grown_def intro: fs_grows_trans)

lemma grows_create [grows]: "keeps (grown f) (os_create p)"
  by (rule keeps_grownI)
    (auto simp: os_create_def fs_grows_file follow_not_link split: option.splits if_splits)

lemma grows_write_file [grows]: "keeps (grown f) (write_file q s)"
  by (rule keeps_grownI) (auto simp: write_file_def fs_grows_append split: option.splits fault.splits)

lemma grows_os_write_file [grows]: "keeps (grown f) (os_write_file p c)"
  by (rule keeps_grownI)
    (auto simp: os_write_file_def fs_grows_file follow_not_link split: option.splits fault.splits if_splits)

lemma grows_mkdir_all [grows]: "keeps (grown f) (os_mkdir_all p)"
proof (rule keeps_grownI)
  fix w r w'
  assume "run_state (os_mkdir_all p) w = (r, w')"
  then show "fs_grows (w_fs w) (w_fs w')"
    using fs_grows_mkdirs [of "w_fs w" "path_prefixes p"]
    by (auto simp: os_mkdir_all_def split: option.splits prod.splits)
qed

lemma grows_same: "(\<And>w r w'. run_state m w = (r, w') \<Longrightarrow> w_fs w' = w_fs w) \<Longrightarrow> keeps (grown f) m"
  by (rule keeps_grownI) (metis fs_grows_refl)

lemma grows_read [grows]: "keeps (grown f) (os_stat p)" "keeps (grown f) (os_read_file p)" "keeps (grown f) time_now"
  by (rule grows_same; auto simp: os_stat_def os_read_file_def)+

lemma grows_fprint_all [grows]: "keeps (grown f) (fprint_all q ss)"
  by (induction ss) (auto intro: grows)

lemma grows_write_all [grows]: "keeps (grown f) (write_all q ss)"
  by (induction ss) (auto intro: grows)

text \<open>What a program leaves when it is run in a world that only grows.\<close>

lemma wp_grown:
  assumes "\<And>f. keeps (grown f) m" "\<And>r w'. fs_grows (w_fs w) (w_fs w') \<Longrightarrow> Q r w'"
  shows "wp m Q w"
  using keepsD [OF assms(1), of "w_fs w" w] by (rule wp_mono) (simp_all add: grown_def assms(2))

lemma wp_create:
  assumes "\<And>e w'. fs_grows (w_fs w) (w_fs w') \<Longrightarrow> Q (Inl e) w'"
    and "\<And>q t w'. fs_grows (w_fs w) (w_fs w') \<Longrightarrow> fs_follow (w_fs w) p = Some q \<Longrightarrow>
      mget (w_fs w') q = Some (FFile (Text []) t) \<Longrightarrow> is_file (w_fs w') p \<Longrightarrow> Q (Inr q) w'"
  shows "wp (os_create p) Q w"
proof (rule wpI)
  fix r w'
  assume run: "run_state (os_create p) w = (r, w')"
  have g: "fs_grows (w_fs w) (w_fs w')"
    using keepsD [OF grows_create [of "w_fs w" p], of w] run by (simp add: wp_def grown_def)
  show "Q r w'"
  proof (cases r)
    case (Inl e)
    then show ?thesis using assms(1) [OF g] by simp
  next
    case (Inr q)
    then obtain t where q: "fs_follow (w_fs w) p = Some q" "mget (w_fs w') q = Some (FFile (Text []) t)"
      using run by (auto simp: os_create_def split: option.splits if_splits)
    then have "is_file (w_fs w') p" using fs_grows_follow [OF g, of p] by (auto simp: is_file_def)
    then show ?thesis using assms(2) [OF g q] Inr by simp
  qed
qed

text \<open>On a quiet machine every byte arrives.\<close>

lemma write_file_quiet:
  "quiet w \<Longrightarrow> mget (w_fs w) q = Some (FFile (Text old) t) \<Longrightarrow>
   wp (write_file q s) (\<lambda>e w'. e = None \<and> quiet w' \<and> (\<exists>t. mget (w_fs w') q = Some (FFile (Text (old @ s)) t))) w"
  by (auto simp: write_file_def append_text_def quiet_def)

lemma fprint_all_quiet:
  "quiet w \<Longrightarrow> mget (w_fs w) q = Some (FFile (Text old) t) \<Longrightarrow>
   wp (fprint_all q ss) (\<lambda>_ w'. quiet w' \<and> (\<exists>t. mget (w_fs w') q = Some (FFile (Text (old @ concat ss)) t))) w"
proof (induction ss arbitrary: w old t)
  case (Cons s ss)
  show ?case
    unfolding fprint_all.simps wp_bind
    by (rule wp_mono [OF write_file_quiet [OF Cons.prems]])
      (use Cons.IH [of _ "old @ s"] in auto)
qed auto

section \<open>What is kept\<close>

text \<open>What was there stays there, but for the paths of a set.\<close>

definition kept_but :: "string set \<Rightarrow> fs \<Rightarrow> fs \<Rightarrow> bool" where
  "kept_but L f g = (\<forall>q n. q \<notin> L \<longrightarrow> mget f q = Some n \<longrightarrow> mget g q = Some n)"

lemma kept_but_refl [simp]: "kept_but L f f"
  by (simp add: kept_but_def)

lemma kept_but_trans: "kept_but L f g \<Longrightarrow> kept_but M g h \<Longrightarrow> L \<union> M \<subseteq> N \<Longrightarrow> kept_but N f h"
  unfolding kept_but_def by blast

lemma kept_but_same: "fs_same_except L f g \<Longrightarrow> kept_but L f g"
  by (auto simp: kept_but_def fs_same_except_def)

lemma kept_but_get: "kept_but L f g \<Longrightarrow> q \<notin> L \<Longrightarrow> mget f q = Some n \<Longrightarrow> mget g q = Some n"
  by (simp add: kept_but_def)

end
