(* ===== verification/Host_Exec.thy ===== *)
theory Host_Exec imports Go_Files "HOL-Library.Word" begin

text \<open>
  \<^verbatim>\<open>pkg/executor\<close>: the interface through which operations reach a machine, and its implementation on the local
  machine.

  A program of this layer runs on the local machine (the world) and on whatever state the executor keeps beside it
  (for the simulation its record of what would have happened), so it is a program over the pair.
\<close>

section \<open>Programs on two states\<close>

type_synonym ('s, 'a) prog = "(world \<times> 's, 'a) state"

definition on_os :: "'a io \<Rightarrow> ('s, 'a) prog" where
  "on_os m = State (\<lambda>(w, s). case run_state m w of (r, w') \<Rightarrow> (r, (w', s)))"

definition on_host :: "('s, 'a) state \<Rightarrow> ('s, 'a) prog" where
  "on_host m = State (\<lambda>(w, s). case run_state m s of (r, s') \<Rightarrow> (r, (w, s')))"

lemma run_on_os [simp]: "run_state (on_os m) (w, s) = (case run_state m w of (r, w') \<Rightarrow> (r, (w', s)))"
  by (simp add: on_os_def)

lemma run_on_host [simp]: "run_state (on_host m) (w, s) = (case run_state m s of (r, s') \<Rightarrow> (r, (w, s')))"
  by (simp add: on_host_def)

lemma wp_on_os: "wp (on_os m) Q (w, s) = wp m (\<lambda>r w'. Q r (w', s)) w"
  by (simp add: wp_def split: prod.splits)

lemma wp_on_host: "wp (on_host m) Q (w, s) = wp m (\<lambda>r s'. Q r (w, s')) s"
  by (simp add: wp_def split: prod.splits)

text \<open>The verb \<^verbatim>\<open>%o\<close>.\<close>

fun show_octal :: "nat \<Rightarrow> string" where
  "show_octal n = (if n < 8 then [digit_char n] else show_octal (n div 8) @ [digit_char (n mod 8)])"

declare show_octal.simps [simp del]

section \<open>The interface\<close>

record os_info =
  oi_os :: string
  oi_arch :: string
  oi_version :: string

text \<open>
  Output is empty beside an error in every implementation, so \<^verbatim>\<open>(string, error)\<close> is a sum.
  \<open>hx_simulated\<close> is what the program learns from the name of the type of an executor.
\<close>

record 's host_exec =
  hx_create_directory :: "string \<Rightarrow> int \<Rightarrow> ('s, err option) prog"
  hx_upload_file :: "string \<Rightarrow> string \<Rightarrow> ('s, err option) prog"
  hx_upload_content :: "fcontent \<Rightarrow> string \<Rightarrow> ('s, err option) prog"
  hx_download_file :: "string \<Rightarrow> string \<Rightarrow> ('s, err option) prog"
  hx_file_exists :: "string \<Rightarrow> ('s, bool res) prog"
  hx_remove_file :: "string \<Rightarrow> ('s, err option) prog"
  hx_remove_directory :: "string \<Rightarrow> ('s, err option) prog"
  hx_execute :: "string \<Rightarrow> ('s, string res) prog"
  hx_execute_with_input :: "string \<Rightarrow> string \<Rightarrow> ('s, string res) prog"
  hx_background :: "string \<Rightarrow> ('s, int res) prog"
  hx_mongo_execute :: "string \<Rightarrow> string \<Rightarrow> ('s, string res) prog"
  hx_is_process_running :: "int \<Rightarrow> ('s, bool res) prog"
  hx_kill_process :: "int \<Rightarrow> ('s, err option) prog"
  hx_stop_process :: "int \<Rightarrow> ('s, err option) prog"
  hx_get_os_info :: "('s, os_info res) prog"
  hx_get_disk_space :: "string \<Rightarrow> ('s, 64 word res) prog"
  hx_check_port_available :: "int \<Rightarrow> ('s, bool res) prog"
  hx_user_exists :: "string \<Rightarrow> ('s, bool res) prog"
  hx_check_connectivity :: "('s, err option) prog"
  hx_close :: "('s, err option) prog"
  hx_simulated :: bool

section \<open>The local machine\<close>

text \<open>What the operating system provides beside files: commands, processes, disks, ports and users.\<close>

datatype signal_result = Delivered | NoProcess | SignalFailed err
datatype user_result = UserFound | UnknownUser | LookupFailed err

record machine =
  mc_shell :: "string \<Rightarrow> string option \<Rightarrow> (string \<times> string \<times> err option) io"  \<comment> \<open>output, error output, failure\<close>
  mc_start :: "string \<Rightarrow> int res io"
  mc_signal :: "int \<Rightarrow> signal_result io"
  mc_kill :: "int \<Rightarrow> err option io"
  mc_interrupt :: "int \<Rightarrow> err option io"
  mc_statfs :: "string \<Rightarrow> (64 word \<times> 64 word) res io"  \<comment> \<open>available blocks, block size\<close>
  mc_bind :: "int \<Rightarrow> bool io"
  mc_dial :: "int \<Rightarrow> bool io"
  mc_user :: "string \<Rightarrow> user_result io"
  mc_os :: string
  mc_arch :: string

definition local_create_directory :: "string \<Rightarrow> int \<Rightarrow> err option io" where
  "local_create_directory path mode = do { e \<leftarrow> os_mkdir_all path; ret (map_option os_msg e) }"

definition local_upload_content :: "fcontent \<Rightarrow> string \<Rightarrow> err option io" where
  "local_upload_content content path = do {
     d \<leftarrow> os_mkdir_all (path_dir path);
     case d of
       Some e \<Rightarrow> ret (Some (wrapf ''failed to create parent directory'' (os_msg e)))
     | None \<Rightarrow> do {
         e \<leftarrow> os_write_file path content;
         ret (map_option (\<lambda>m. wrapf ''failed to write file'' (os_msg m)) e) } }"

definition local_upload_file :: "string \<Rightarrow> string \<Rightarrow> err option io" where
  "local_upload_file from_path to_path = do {
     d \<leftarrow> os_mkdir_all (path_dir to_path);
     case d of
       Some e \<Rightarrow> ret (Some (wrapf ''failed to create parent directory'' (os_msg e)))
     | None \<Rightarrow> do {
         r \<leftarrow> os_read_file from_path;
         case r of
           Inl e \<Rightarrow> ret (Some (wrapf ''failed to read source file'' (os_msg e)))
         | Inr data \<Rightarrow> do {
             e \<leftarrow> os_write_file to_path data;
             ret (map_option (\<lambda>m. wrapf ''failed to write destination file'' (os_msg m)) e) } } }"

definition local_file_exists :: "string \<Rightarrow> bool res io" where
  "local_file_exists path = do {
     r \<leftarrow> os_stat path;
     ret (case r of Inr _ \<Rightarrow> Ok True | Inl e \<Rightarrow> if is_not_exist e then Ok False else Err (os_msg e)) }"

definition local_execute :: "machine \<Rightarrow> string \<Rightarrow> string option \<Rightarrow> string res io" where
  "local_execute mc command stdin = do {
     r \<leftarrow> mc_shell mc command stdin;
     ret (case r of (out, errout, e) \<Rightarrow> (case e of
         None \<Rightarrow> Ok out
       | Some x \<Rightarrow> Err (''command failed: '' @ x @ nl @ ''stderr: '' @ errout))) }"

definition local_is_process_running :: "machine \<Rightarrow> int \<Rightarrow> bool res io" where
  "local_is_process_running mc pid = do {
     s \<leftarrow> mc_signal mc pid;
     ret (case s of Delivered \<Rightarrow> Ok True | NoProcess \<Rightarrow> Ok False | SignalFailed e \<Rightarrow> Err e) }"

definition local_get_os_info :: "machine \<Rightarrow> os_info res io" where
  "local_get_os_info mc = do {
     v \<leftarrow> (if mc_os mc = ''linux'' then local_execute mc ''uname -r'' None
           else if mc_os mc = ''darwin'' then local_execute mc ''sw_vers -productVersion'' None
           else ret (Ok []));
     ret (Ok \<lparr>oi_os = mc_os mc, oi_arch = mc_arch mc, oi_version = (case v of Inl _ \<Rightarrow> [] | Inr s \<Rightarrow> trim_space s)\<rparr>) }"

definition local_get_disk_space :: "machine \<Rightarrow> string \<Rightarrow> 64 word res io" where
  "local_get_disk_space mc path = do {
     r \<leftarrow> mc_statfs mc path;
     ret (case r of Inl e \<Rightarrow> Err (wrapf ''failed to get disk space'' e) | Inr (avail, bsize) \<Rightarrow> Ok (avail * bsize)) }"

definition local_check_port_available :: "machine \<Rightarrow> int \<Rightarrow> bool res io" where
  "local_check_port_available mc port = do {
     b \<leftarrow> mc_bind mc port;
     if \<not> b then ret (Ok False)
     else do { c \<leftarrow> mc_dial mc port; ret (Ok (\<not> c)) } }"

definition local_user_exists :: "machine \<Rightarrow> string \<Rightarrow> bool res io" where
  "local_user_exists mc name = do {
     u \<leftarrow> mc_user mc name;
     ret (case u of UserFound \<Rightarrow> Ok True | UnknownUser \<Rightarrow> Ok False | LookupFailed e \<Rightarrow> Err e) }"

definition local_executor :: "machine \<Rightarrow> 's host_exec" where
  "local_executor mc = \<lparr>
     hx_create_directory = (\<lambda>p m. on_os (local_create_directory p m)),
     hx_upload_file = (\<lambda>p q. on_os (local_upload_file p q)),
     hx_upload_content = (\<lambda>c p. on_os (local_upload_content c p)),
     hx_download_file = (\<lambda>p q. on_os (local_upload_file p q)),
     hx_file_exists = (\<lambda>p. on_os (local_file_exists p)),
     hx_remove_file = (\<lambda>p. on_os (do { e \<leftarrow> os_remove p; ret (map_option os_msg e) })),
     hx_remove_directory = (\<lambda>p. on_os (do { e \<leftarrow> os_remove_all p; ret (map_option os_msg e) })),
     hx_execute = (\<lambda>c. on_os (local_execute mc c None)),
     hx_execute_with_input = (\<lambda>c i. on_os (local_execute mc c (Some i))),
     hx_background = (\<lambda>c. on_os (do { r \<leftarrow> mc_start mc c; ret (wrap_err ''failed to start background process'' r) })),
     hx_mongo_execute = (\<lambda>h c. ret (Ok [])),
     hx_is_process_running = (\<lambda>p. on_os (local_is_process_running mc p)),
     hx_kill_process = (\<lambda>p. on_os (mc_kill mc p)),
     hx_stop_process = (\<lambda>p. on_os (mc_interrupt mc p)),
     hx_get_os_info = on_os (local_get_os_info mc),
     hx_get_disk_space = (\<lambda>p. on_os (local_get_disk_space mc p)),
     hx_check_port_available = (\<lambda>p. on_os (local_check_port_available mc p)),
     hx_user_exists = (\<lambda>u. on_os (local_user_exists mc u)),
     hx_check_connectivity = on_os (do { r \<leftarrow> local_execute mc ''echo test'' None; ret (case r of Inl e \<Rightarrow> Some e | Inr _ \<Rightarrow> None) }),
     hx_close = ret None,
     hx_simulated = False\<rparr>"

section \<open>What an executor promises\<close>

text \<open>
  The laws on which the handlers rely: after a creation or an upload that reported success the path is found, unless
  looking for it fails.
\<close>

definition then_exists :: "('s, err option) prog \<Rightarrow> 's host_exec \<Rightarrow> string \<Rightarrow> world \<times> 's \<Rightarrow> bool" where
  "then_exists m hx p = wp m (\<lambda>e. wp (hx_file_exists hx p) (\<lambda>b _. e = None \<longrightarrow> b \<noteq> Ok False))"

locale file_host =
  fixes hx :: "'s host_exec"
  assumes create_exists: "path_clean p \<notin> {[slash], dot} \<Longrightarrow> then_exists (hx_create_directory hx p m) hx p s"
    and upload_exists: "then_exists (hx_upload_file hx q p) hx p s"
    and content_exists: "then_exists (hx_upload_content hx c p) hx p s"
begin

lemma upload_then_exists:
  "m \<in> {hx_upload_file hx q p, hx_upload_content hx c p} \<Longrightarrow> then_exists m hx p s"
  using upload_exists content_exists by blast

end

lemma stat_follow:
  "fs_follow (w_fs w) p = Some q \<Longrightarrow> is_dir (w_fs w) q \<or> mhas (w_fs w) q \<Longrightarrow>
   wp (local_file_exists p) (\<lambda>b _. b \<noteq> Ok False) w"
  by (auto simp: local_file_exists_def os_stat_def mhas_def split: option.splits)

lemma written_found:
  "wp (os_write_file p c) (\<lambda>e. wp (local_file_exists p) (\<lambda>b _. e = None \<longrightarrow> b \<noteq> Ok False)) w"
proof (rule wpI)
  fix e w'
  assume run: "run_state (os_write_file p c) w = (e, w')"
  show "wp (local_file_exists p) (\<lambda>b _. e = None \<longrightarrow> b \<noteq> Ok False) w'"
  proof (cases e)
    case None
    have g: "fs_grows (w_fs w) (w_fs w')"
      using keepsD [OF grows_os_write_file [of "w_fs w" p c], of w] run by (simp add: wp_def grown_def)
    obtain q t where "fs_follow (w_fs w) p = Some q" "mget (w_fs w') q = Some (FFile c t)"
      using run None by (cases "fs_follow (w_fs w) p") (auto simp: os_write_file_def split: option.splits fault.splits if_splits)
    then have "wp (local_file_exists p) (\<lambda>b _. b \<noteq> Ok False) w'"
      using fs_grows_follow [OF g] by (intro stat_follow) (auto simp: mhas_def)
    then show ?thesis by (rule wp_mono) simp
  qed simp
qed

lemma path_prefixes_last: "path_clean p \<noteq> [slash] \<Longrightarrow> path_clean p \<in> set (path_prefixes p)"
proof -
  assume root: "path_clean p \<noteq> [slash]"
  let ?c = "path_clean p" and ?cs = "split_on slash (path_clean p)"
  show ?thesis
  proof (cases "is_abs ?c")
    case True
    then obtain r where r: "?c = slash # r" by (cases ?c) (auto simp: is_abs_def)
    then have cs: "?cs = [] # split_on slash r" by simp
    have r0: "r \<noteq> []" using r root by auto
    have "abs_path (take (length (split_on slash r)) (split_on slash r)) = ?c" by (simp add: abs_path_def r)
    moreover have "length (split_on slash r) \<in> {1..<length ?cs}"
      unfolding cs by (simp add: Suc_le_eq)
    ultimately show ?thesis using True cs
      by (auto simp: path_prefixes_def Let_def intro!: image_eqI [of _ _ "length (split_on slash r)"])
  next
    case False
    have "join_with [slash] (take (length ?cs) ?cs) = ?c" by simp
    moreover have "length ?cs \<in> {1..<Suc (length ?cs)}" by (simp add: Suc_le_eq)
    ultimately show ?thesis using False
      by (auto simp: path_prefixes_def Let_def simp del: join_split intro!: image_eqI [of _ _ "length ?cs"])
  qed
qed

lemma created_found:
  assumes "path_clean p \<notin> {[slash], dot}"
  shows "wp (local_create_directory p m) (\<lambda>e. wp (local_file_exists p) (\<lambda>b _. e = None \<longrightarrow> b \<noteq> Ok False)) w"
  unfolding local_create_directory_def wp_bind wp_return_fun
proof (rule wp_mkdir_all, goal_cases)
  case (1 e w')
  show ?case
  proof (cases e)
    case None
    then have "is_dir (w_fs w') (path_clean p)" using 1(1) path_prefixes_last [of p] assms by blast
    then have "mget (w_fs w') (path_clean p) = Some FDir" using assms by (simp add: is_dir_def)
    then have "fs_follow (w_fs w') p = Some (path_clean p)" by (intro fs_follow_plain) (simp add: is_link_def)
    then have "wp (local_file_exists p) (\<lambda>b _. b \<noteq> Ok False) w'"
      using \<open>is_dir (w_fs w') (path_clean p)\<close> by (rule stat_follow [OF _ disjI1])
    then show ?thesis by (rule wp_mono) simp
  qed (simp add: wp_def case_prod_unfold)
qed

lemma file_exists_local: "hx_file_exists (local_executor mc) p = on_os (local_file_exists p)"
  by (simp add: local_executor_def)

definition found_after :: "err option io \<Rightarrow> string \<Rightarrow> bool" where
  "found_after m p = (\<forall>w. wp m (\<lambda>e. wp (local_file_exists p) (\<lambda>b _. e = None \<longrightarrow> b \<noteq> Ok False)) w)"

lemma found_after_write: "found_after (do { e \<leftarrow> os_write_file p c; ret (map_option f e) }) p"
  unfolding found_after_def wp_bind wp_return_fun by (intro allI, rule wp_mono [OF written_found]) simp

lemma found_after_error: "found_after (ret (Some x)) p"
  by (simp add: found_after_def)

lemma found_after_bind: "(\<And>r. found_after (f r) p) \<Longrightarrow> found_after (State_Monad.bind m f) p"
  unfolding found_after_def wp_bind by (intro allI, rule wp_mono [OF wp_trivial(1)]) blast

lemma found_after_cases:
  "found_after a p \<Longrightarrow> (\<And>x. found_after (b x) p) \<Longrightarrow> found_after (case y of None \<Rightarrow> a | Some x \<Rightarrow> b x) p"
  "(\<And>x. found_after (c x) p) \<Longrightarrow> (\<And>x. found_after (d x) p) \<Longrightarrow> found_after (case s of Inl x \<Rightarrow> c x | Inr x \<Rightarrow> d x) p"
  by (simp_all split: option.split sum.split)

lemma found_after_uploads: "found_after (local_upload_content d p) p" "found_after (local_upload_file q p) p"
  unfolding local_upload_content_def local_upload_file_def
  by (rule found_after_bind found_after_cases found_after_write found_after_error)+

text \<open>The local machine keeps the promise, whatever fails on the way.\<close>

interpretation local: file_host "local_executor mc" for mc
proof
  fix p q m and c :: fcontent and s :: "world \<times> 'a"
  obtain w x where s: "s = (w, x)" by fastforce
  show "then_exists (hx_create_directory (local_executor mc) p m) (local_executor mc) p s"
    if "path_clean p \<notin> {[slash], dot}"
    using created_found [OF that, of m w] by (simp add: then_exists_def s file_exists_local local_executor_def wp_on_os)
  show "then_exists (hx_upload_content (local_executor mc) c p) (local_executor mc) p s"
    "then_exists (hx_upload_file (local_executor mc) q p) (local_executor mc) p s"
    using found_after_uploads(1) [of c p] found_after_uploads(2) [of q p]
    by (simp_all add: then_exists_def s file_exists_local local_executor_def wp_on_os found_after_def)
qed

section \<open>Sequences of requests\<close>

text \<open>What a client can ask of an executor, one constructor for each method.\<close>

datatype request = CreateDirectory string int | UploadFile string string | UploadContent fcontent string
  | DownloadFile string string | FileExists string | RemoveFile string | RemoveDirectory string
  | Execute string | ExecuteWithInput string string | Background string | MongoExecute string string
  | IsProcessRunning int | KillProcess int | StopProcess int | GetOSInfo | GetDiskSpace string
  | CheckPortAvailable int | UserExists string | CheckConnectivity | Close

definition ignore :: "('s, 'a) prog \<Rightarrow> ('s, unit) prog" where
  "ignore m = do { _ \<leftarrow> m; ret () }"

fun run_request :: "'s host_exec \<Rightarrow> request \<Rightarrow> ('s, unit) prog" where
  "run_request hx (CreateDirectory p m) = ignore (hx_create_directory hx p m)"
| "run_request hx (UploadFile p q) = ignore (hx_upload_file hx p q)"
| "run_request hx (UploadContent c p) = ignore (hx_upload_content hx c p)"
| "run_request hx (DownloadFile p q) = ignore (hx_download_file hx p q)"
| "run_request hx (FileExists p) = ignore (hx_file_exists hx p)"
| "run_request hx (RemoveFile p) = ignore (hx_remove_file hx p)"
| "run_request hx (RemoveDirectory p) = ignore (hx_remove_directory hx p)"
| "run_request hx (Execute c) = ignore (hx_execute hx c)"
| "run_request hx (ExecuteWithInput c i) = ignore (hx_execute_with_input hx c i)"
| "run_request hx (Background c) = ignore (hx_background hx c)"
| "run_request hx (MongoExecute h c) = ignore (hx_mongo_execute hx h c)"
| "run_request hx (IsProcessRunning p) = ignore (hx_is_process_running hx p)"
| "run_request hx (KillProcess p) = ignore (hx_kill_process hx p)"
| "run_request hx (StopProcess p) = ignore (hx_stop_process hx p)"
| "run_request hx GetOSInfo = ignore (hx_get_os_info hx)"
| "run_request hx (GetDiskSpace p) = ignore (hx_get_disk_space hx p)"
| "run_request hx (CheckPortAvailable p) = ignore (hx_check_port_available hx p)"
| "run_request hx (UserExists u) = ignore (hx_user_exists hx u)"
| "run_request hx CheckConnectivity = ignore (hx_check_connectivity hx)"
| "run_request hx Close = ignore (hx_close hx)"

fun run_requests :: "'s host_exec \<Rightarrow> request list \<Rightarrow> ('s, unit) prog" where
  "run_requests hx [] = ret ()"
| "run_requests hx (r # rs) = do { _ \<leftarrow> run_request hx r; run_requests hx rs }"

lemma keeps_ignore: "keeps P m \<Longrightarrow> keeps P (ignore m)"
  unfolding ignore_def by (intro keeps_bind) simp_all

lemma keeps_ignore_iff: "keeps P (ignore m) = keeps P m"
  by (simp add: ignore_def keeps_def)

lemma keeps_requests: "(\<And>r. keeps P (run_request hx r)) \<Longrightarrow> keeps P (run_requests hx rs)"
  by (induction rs) (auto intro: keeps_bind)

end
