(* ===== verification/Validator.thy ===== *)
theory Validator imports Plan Host_Exec begin

text \<open>
  \<^verbatim>\<open>pkg/plan/validator.go\<close>: running pre-flight checks one after the other or concurrently, and
  merging their results.

  A check is a program over the machine and the state of an executor. The goroutines of a parallel run each perform one check and
  send its result over a channel: \<open>arrival\<close> lists the checks in the order in which that happens, so
  the parallel run is stated for every such order.
\<close>

section \<open>Results\<close>

definition new_check_result :: "string \<Rightarrow> string \<Rightarrow> check_result" where
  "new_check_result name msg = \<lparr>cr_name = name, cr_status = ''passed'', cr_message = msg, cr_host = [],
     cr_duration = 0, cr_details = GNil\<rparr>"

definition new_check_failure :: "string \<Rightarrow> string \<Rightarrow> check_result" where
  "new_check_failure name msg = \<lparr>cr_name = name, cr_status = ''failed'', cr_message = msg, cr_host = [],
     cr_duration = 0, cr_details = GNil\<rparr>"

definition new_check_warning :: "string \<Rightarrow> string \<Rightarrow> check_result" where
  "new_check_warning name msg = \<lparr>cr_name = name, cr_status = ''warning'', cr_message = msg, cr_host = [],
     cr_duration = 0, cr_details = GNil\<rparr>"

definition with_host :: "string \<Rightarrow> check_result \<Rightarrow> check_result" where "with_host h c = c\<lparr>cr_host := h\<rparr>"
definition with_duration :: "int \<Rightarrow> check_result \<Rightarrow> check_result" where "with_duration d c = c\<lparr>cr_duration := d\<rparr>"
definition with_details :: "goval \<Rightarrow> check_result \<Rightarrow> check_result" where "with_details d c = c\<lparr>cr_details := d\<rparr>"

definition empty_validation :: validation_result where
  "empty_validation = \<lparr>vr_valid = True, vr_errors = [], vr_warnings = [], vr_checks = []\<rparr>"

definition issue_of :: "string \<Rightarrow> check_result \<Rightarrow> validation_issue" where
  "issue_of sev r = \<lparr>vi_code = cr_name r, vi_message = cr_message r, vi_host = cr_host r, vi_severity = sev\<rparr>"

text \<open>What the body of both loops does with a result.\<close>

definition collect_result :: "check_result \<Rightarrow> validation_result \<Rightarrow> validation_result" where
  "collect_result r v =
     (let v1 = v\<lparr>vr_checks := vr_checks v @ [r]\<rparr> in
      if cr_status r = ''failed''
      then v1\<lparr>vr_valid := False, vr_errors := vr_errors v1 @ [issue_of ''error'' r]\<rparr>
      else if cr_status r = ''warning''
      then v1\<lparr>vr_warnings := vr_warnings v1 @ [issue_of ''warning'' r]\<rparr>
      else v1)"

section \<open>Running checks\<close>

type_synonym 's check = "('s, check_result) prog"

record 's validation_runner =
  rn_validators :: "'s check list"
  rn_parallel :: bool

definition new_validation_runner :: "bool \<Rightarrow> 's validation_runner" where
  "new_validation_runner par = \<lparr>rn_validators = [], rn_parallel = par\<rparr>"

definition add_validator :: "'s check \<Rightarrow> 's validation_runner \<Rightarrow> 's validation_runner" where
  "add_validator v r = r\<lparr>rn_validators := rn_validators r @ [v]\<rparr>"

fun run_checks :: "'s check list \<Rightarrow> validation_result \<Rightarrow> ('s, validation_result) prog" where
  "run_checks [] acc = ret acc"
| "run_checks (v # vs) acc = do { r \<leftarrow> v; run_checks vs (collect_result r acc) }"

definition run_sequential :: "'s validation_runner \<Rightarrow> ('s, validation_result) prog" where
  "run_sequential rn = run_checks (rn_validators rn) empty_validation"

definition run_parallel :: "nat list \<Rightarrow> 's validation_runner \<Rightarrow> ('s, validation_result) prog" where
  "run_parallel arrival rn = run_checks (map ((!) (rn_validators rn)) arrival) empty_validation"

definition run_validation :: "nat list \<Rightarrow> 's validation_runner \<Rightarrow> ('s, validation_result) prog" where
  "run_validation arrival rn = (if rn_parallel rn then run_parallel arrival rn else run_sequential rn)"

definition measured_check :: "string \<Rightarrow> ('s, string res) prog \<Rightarrow> 's check" where
  "measured_check name f = do {
     start \<leftarrow> on_os time_now;
     s \<leftarrow> f;
     now \<leftarrow> on_os time_now;
     ret (with_duration (now - start)
       (case s of Inl e \<Rightarrow> new_check_failure name e | Inr msg \<Rightarrow> new_check_result name msg)) }"

definition measured_check_with_host :: "string \<Rightarrow> string \<Rightarrow> ('s, string res) prog \<Rightarrow> 's check" where
  "measured_check_with_host name host f = do {
     start \<leftarrow> on_os time_now;
     s \<leftarrow> f;
     now \<leftarrow> on_os time_now;
     ret (with_duration (now - start) (with_host host
       (case s of Inl e \<Rightarrow> new_check_failure name e | Inr msg \<Rightarrow> new_check_result name msg))) }"

section \<open>Merging and printing\<close>

definition merge_result :: "validation_result \<Rightarrow> validation_result \<Rightarrow> validation_result" where
  "merge_result r c = c\<lparr>vr_valid := (if \<not> vr_valid r then False else vr_valid c),
     vr_errors := vr_errors c @ vr_errors r, vr_warnings := vr_warnings c @ vr_warnings r,
     vr_checks := vr_checks c @ vr_checks r\<rparr>"

definition combine_validation_results :: "validation_result list \<Rightarrow> validation_result" where
  "combine_validation_results rs = fold merge_result rs empty_validation"

definition check_mark :: string where "check_mark = [CHR 0xE2, CHR 0x9C, CHR 0x93]"
definition cross_mark :: string where "cross_mark = [CHR 0xE2, CHR 0x9C, CHR 0x97]"
definition warning_sign :: string where "warning_sign = [CHR 0xE2, CHR 0x9A, CHR 0xA0]"
definition newline :: string where "newline = [CHR 0x0A]"

definition format_issue :: "validation_issue \<Rightarrow> string" where
  "format_issue i =
     (if vi_host i \<noteq> [] then ''  - ['' @ vi_host i @ ''] '' @ vi_message i @ newline
      else ''  - '' @ vi_message i @ newline)"

definition format_validation_result :: "validation_result \<Rightarrow> string" where
  "format_validation_result r =
     (if vr_valid r \<and> vr_warnings r = [] then check_mark @ '' All validation checks passed''
      else
        (if vr_errors r \<noteq> []
         then cross_mark @ '' '' @ itoa (int (length (vr_errors r))) @ '' error(s):'' @ newline
              @ concat (map format_issue (vr_errors r)) else [])
        @ (if vr_warnings r \<noteq> []
           then warning_sign @ '' '' @ itoa (int (length (vr_warnings r))) @ '' warning(s):'' @ newline
                @ concat (map format_issue (vr_warnings r)) else []))"

section \<open>Lemmas\<close>

definition failed :: "check_result \<Rightarrow> bool" where "failed r = (cr_status r = ''failed'')"
definition warned :: "check_result \<Rightarrow> bool" where "warned r = (cr_status r = ''warning'')"

text \<open>A validation as a function of the results, in the order they came in.\<close>

definition verdict :: "check_result list \<Rightarrow> validation_result" where
  "verdict rs = \<lparr>vr_valid = list_all (\<lambda>r. \<not> failed r) rs,
     vr_errors = map (issue_of ''error'') (filter failed rs),
     vr_warnings = map (issue_of ''warning'') (filter warned rs), vr_checks = rs\<rparr>"

lemma collect_verdict [simp]: "collect_result r (verdict rs) = verdict (rs @ [r])"
  by (simp add: collect_result_def verdict_def failed_def warned_def)

lemma empty_verdict: "empty_validation = verdict []"
  by (simp add: empty_validation_def verdict_def)

text \<open>The results that a list of checks gives when run in order, with the world they leave.\<close>

fun gather :: "'s check list \<Rightarrow> ('s, check_result list) prog" where
  "gather [] = ret []"
| "gather (v # vs) = do { r \<leftarrow> v; rs \<leftarrow> gather vs; ret (r # rs) }"

lemma run_checks_gather: "run_checks vs (verdict rs) = do { rs' \<leftarrow> gather vs; ret (verdict (rs @ rs')) }"
  by (induction vs arbitrary: rs) simp_all

lemma run_sequential_gather: "run_sequential rn = do { rs \<leftarrow> gather (rn_validators rn); ret (verdict rs) }"
  by (simp add: run_sequential_def empty_verdict run_checks_gather)

lemma run_parallel_gather:
  "run_parallel arrival rn = do { rs \<leftarrow> gather (map ((!) (rn_validators rn)) arrival); ret (verdict rs) }"
  by (simp add: run_parallel_def empty_verdict run_checks_gather)

lemma gather_pure: "gather (map ret rs) = ret rs"
  by (induction rs) simp_all

lemma merge_verdict [simp]: "merge_result (verdict qs) (verdict rs) = verdict (rs @ qs)"
  by (simp add: merge_result_def verdict_def)

lemma combine_step: "fold merge_result (map verdict gs) (verdict rs) = verdict (rs @ concat gs)"
  by (induction gs arbitrary: rs) simp_all

text \<open>
  A validation run is valid exactly when no check failed; it records every check in order, one
  error per failed check and one warning per check that warns.
\<close>
theorem run_sequential_verdict:
  "fst (run_state (run_sequential rn) w) = verdict (fst (run_state (gather (rn_validators rn)) w))
   \<and> (vr_valid (fst (run_state (run_sequential rn) w)) \<longleftrightarrow>
        vr_errors (fst (run_state (run_sequential rn) w)) = [])"
  by (simp add: run_sequential_gather verdict_def case_prod_unfold list_all_iff filter_empty_conv)



text \<open>
  Validation splits: combining the validations of groups of checks gives the validation of all the
  checks together.
\<close>
theorem combine_verdicts:
  "combine_validation_results (map verdict gs) = verdict (concat gs)"
  using combine_step [of gs "[]"] by (simp add: combine_validation_results_def empty_verdict)

end
