(* ===== verification/Locks.thy ===== *)
theory Locks imports Go_Json begin

text \<open>
  \<^verbatim>\<open>pkg/apply/lock.go\<close>: the lock file of a cluster, with expiry, renewal and release.

  The process that runs the code (host name, \<^verbatim>\<open>$USER\<close>, process number) and the text of an
  instant in the local time zone (\<open>rfc\<close>, \<^verbatim>\<open>time.RFC3339\<close>) are parameters. The ticks of the renewal
  goroutine are explicit.
\<close>

section \<open>Data\<close>

record cluster_lock =
  lk_cluster :: string
  lk_plan :: string
  lk_operation :: string
  lk_by :: string
  lk_at :: int
  lk_expires :: int
  lk_timeout :: string
  lk_renew :: int

definition enc_cluster_lock :: "cluster_lock \<Rightarrow> json" where
  "enc_cluster_lock x = jobj [
     (''cluster_name'', Some (JStr (lk_cluster x))),
     (''plan_id'', Some (JStr (lk_plan x))),
     (''operation'', Some (JStr (lk_operation x))),
     (''locked_by'', Some (JStr (lk_by x))),
     (''locked_at'', Some (JTime (lk_at x))),
     (''expires_at'', Some (JTime (lk_expires x))),
     (''lock_timeout'', Some (JStr (lk_timeout x))),
     (''renew_count'', Some (enc_int (lk_renew x)))]"

definition dec_cluster_lock :: "json \<Rightarrow> cluster_lock option" where
  "dec_cluster_lock j = do {
     a0 \<leftarrow> jfield ''cluster_name'' [] dec_str j;
     a1 \<leftarrow> jfield ''plan_id'' [] dec_str j;
     a2 \<leftarrow> jfield ''operation'' [] dec_str j;
     a3 \<leftarrow> jfield ''locked_by'' [] dec_str j;
     a4 \<leftarrow> jfield ''locked_at'' 0 dec_time j;
     a5 \<leftarrow> jfield ''expires_at'' 0 dec_time j;
     a6 \<leftarrow> jfield ''lock_timeout'' [] dec_str j;
     a7 \<leftarrow> jfield ''renew_count'' 0 dec_int j;
     Some \<lparr>lk_cluster = a0, lk_plan = a1, lk_operation = a2, lk_by = a3, lk_at = a4, lk_expires = a5, lk_timeout = a6, lk_renew = a7\<rparr> }"

lemma codec_cluster_lock [json_simps, simp]: "dec_cluster_lock (enc_cluster_lock x) = Some (x)" "enc_cluster_lock x \<noteq> JNull"
  by (simp_all add: dec_cluster_lock_def enc_cluster_lock_def  json_simps)

interpretation lock_codec: codec enc_cluster_lock dec_cluster_lock "\<lambda>l. l"
  by unfold_locales simp_all

record process =
  pr_host :: string
  pr_user :: string
  pr_pid :: int

definition get_locked_by_identifier :: "process \<Rightarrow> string" where
  "get_locked_by_identifier pr =
     (let user = (if pr_user pr = [] then ''unknown'' else pr_user pr) in
      user @ ''@'' @ pr_host pr @ '':'' @ itoa (pr_pid pr))"

section \<open>Operations\<close>

definition get_lock_path :: "string \<Rightarrow> string \<Rightarrow> string" where
  "get_lock_path sd cn = path_join [sd, ''clusters'', cn, ''cluster.lock'']"

definition get_lock :: "string \<Rightarrow> string \<Rightarrow> cluster_lock res io" where
  "get_lock sd cn = do {
     r \<leftarrow> os_read_file (get_lock_path sd cn);
     ret (case r of
       Inl e \<Rightarrow> Err (if is_not_exist e then ''no lock found for cluster '' @ cn
                     else wrapf ''failed to read lock file'' (os_msg e))
     | Inr c \<Rightarrow> wrap_err ''failed to parse lock file'' (unmarshal dec_cluster_lock c)) }"

definition save_lock :: "string \<Rightarrow> cluster_lock \<Rightarrow> err option io" where
  "save_lock sd l = do {
     let path = get_lock_path sd (lk_cluster l);
     e \<leftarrow> os_mkdir_all (path_dir path);
     case e of
       Some m \<Rightarrow> ret (Some (wrapf ''failed to create lock directory'' (os_msg m)))
     | None \<Rightarrow> do {
         s \<leftarrow> write_rename path (Json (enc_cluster_lock l));
         ret (case s of
           None \<Rightarrow> None
         | Some (WriteFailed m) \<Rightarrow> Some (wrapf ''failed to write lock file'' (os_msg m))
         | Some (RenameFailed m) \<Rightarrow> Some (wrapf ''failed to rename lock file'' (os_msg m))) } }"

definition default_lock_timeout :: int where "default_lock_timeout = 24 * 3600 * 1000000000"

text \<open>
  \<^verbatim>\<open>AcquireLock\<close> is a check followed by a save; nothing holds the file in between, so the two
  halves are separate programs and the operation is their composition.
\<close>

definition acquire_check :: "(int \<Rightarrow> string) \<Rightarrow> string \<Rightarrow> string \<Rightarrow> err option io" where
  "acquire_check rfc sd cn = do {
     r \<leftarrow> get_lock sd cn;
     case r of
       Inl _ \<Rightarrow> ret None
     | Inr l \<Rightarrow> do {
         now \<leftarrow> time_now;
         ret (if now < lk_expires l
              then Some (''cluster '' @ cn @ '' is locked by '' @ lk_by l @ '' (plan: '' @ lk_plan l
                @ '', operation: '' @ lk_operation l @ '', expires: '' @ rfc (lk_expires l) @ '')'')
              else None) } }"

definition acquire_commit ::
  "process \<Rightarrow> string \<Rightarrow> string \<Rightarrow> string \<Rightarrow> string \<Rightarrow> int \<Rightarrow> cluster_lock res io" where
  "acquire_commit pr sd cn plan_id operation timeout = do {
     t1 \<leftarrow> time_now;
     t2 \<leftarrow> time_now;
     let l = \<lparr>lk_cluster = cn, lk_plan = plan_id, lk_operation = operation,
       lk_by = get_locked_by_identifier pr, lk_at = t1, lk_expires = t2 + timeout,
       lk_timeout = duration_string timeout, lk_renew = 0\<rparr>;
     e \<leftarrow> save_lock sd l;
     ret (case e of Some m \<Rightarrow> Err (wrapf ''failed to save lock'' m) | None \<Rightarrow> Ok l) }"

definition acquire_lock ::
  "(int \<Rightarrow> string) \<Rightarrow> process \<Rightarrow> string \<Rightarrow> string \<Rightarrow> string \<Rightarrow> string \<Rightarrow> int \<Rightarrow> cluster_lock res io" where
  "acquire_lock rfc pr sd cn plan_id operation timeout0 = do {
     let timeout = (if timeout0 = 0 then default_lock_timeout else timeout0);
     e \<leftarrow> acquire_check rfc sd cn;
     case e of
       Some m \<Rightarrow> ret (Err m)
     | None \<Rightarrow> acquire_commit pr sd cn plan_id operation timeout }"

text \<open>The caller's lock is updated through its pointer, also when the save then fails.\<close>

definition renew_lock :: "string \<Rightarrow> cluster_lock \<Rightarrow> int \<Rightarrow> (err option \<times> cluster_lock) io" where
  "renew_lock sd l extension = do {
     r \<leftarrow> get_lock sd (lk_cluster l);
     case r of
       Inl e \<Rightarrow> ret (Some (wrapf ''lock not found'' e), l)
     | Inr cur \<Rightarrow>
         if lk_by cur \<noteq> lk_by l
         then ret (Some (''cannot renew lock: owned by '' @ lk_by cur @ '', not '' @ lk_by l), l)
         else do {
           now \<leftarrow> time_now;
           if lk_expires cur < now then ret (Some ''cannot renew expired lock'', l)
           else do {
             t \<leftarrow> time_now;
             let l' = l\<lparr>lk_expires := t + extension, lk_renew := lk_renew l + 1\<rparr>;
             e \<leftarrow> save_lock sd l';
             ret (map_option (wrapf ''failed to save renewed lock'') e, l') } } }"

definition release_lock :: "string \<Rightarrow> string \<Rightarrow> cluster_lock \<Rightarrow> err option io" where
  "release_lock sd cn l = do {
     r \<leftarrow> get_lock sd cn;
     case r of
       Inl _ \<Rightarrow> ret None
     | Inr cur \<Rightarrow> do {
         other \<leftarrow> (if lk_by cur \<noteq> lk_by l then do { now \<leftarrow> time_now; ret (now < lk_expires cur) } else ret False);
         if other then ret (Some (''cannot release lock: owned by '' @ lk_by cur @ '', not '' @ lk_by l))
         else do {
           e \<leftarrow> os_remove (get_lock_path sd cn);
           ret (case e of Some (OsFail m) \<Rightarrow> Some (wrapf ''failed to remove lock file'' m) | _ \<Rightarrow> None) } } }"

definition is_locked :: "string \<Rightarrow> string \<Rightarrow> bool res io" where
  "is_locked sd cn = do {
     r \<leftarrow> get_lock sd cn;
     case r of
       Inl _ \<Rightarrow> ret (Ok False)
     | Inr l \<Rightarrow> do { now \<leftarrow> time_now; ret (Ok (\<not> lk_expires l < now)) } }"

definition force_unlock :: "string \<Rightarrow> string \<Rightarrow> err option io" where
  "force_unlock sd cn = do {
     e \<leftarrow> os_remove (get_lock_path sd cn);
     ret (case e of Some (OsFail m) \<Rightarrow> Some (wrapf ''failed to remove lock file'' m) | _ \<Rightarrow> None) }"

text \<open>The renewal goroutine, for a number of ticks before it is cancelled; it stops at a failure.\<close>

fun lock_renewal :: "nat \<Rightarrow> string \<Rightarrow> cluster_lock \<Rightarrow> int \<Rightarrow> cluster_lock io" where
  "lock_renewal 0 sd l extension = ret l"
| "lock_renewal (Suc n) sd l extension = do {
     r \<leftarrow> renew_lock sd l extension;
     case r of
       (Some _, l') \<Rightarrow> ret l'
     | (None, l') \<Rightarrow> lock_renewal n sd l' extension }"

text \<open>The sweep over all clusters, with the number of locks it removed.\<close>

fun cleanup_entries :: "string \<Rightarrow> (string \<times> fnode) list \<Rightarrow> nat \<Rightarrow> nat io" where
  "cleanup_entries sd [] k = ret k"
| "cleanup_entries sd ((name, n) # es) k =
     (if n \<noteq> FDir then cleanup_entries sd es k
      else do {
        r \<leftarrow> get_lock sd name;
        case r of
          Inl _ \<Rightarrow> cleanup_entries sd es k
        | Inr l \<Rightarrow> do {
            now \<leftarrow> time_now;
            if lk_expires l < now
            then do {
              e \<leftarrow> os_remove (get_lock_path sd name);
              case e of
                Some (OsFail _) \<Rightarrow> cleanup_entries sd es k
              | _ \<Rightarrow> cleanup_entries sd es (k + 1) }
            else cleanup_entries sd es k } })"

definition cleanup_expired_locks :: "string \<Rightarrow> err option io" where
  "cleanup_expired_locks sd = do {
     r \<leftarrow> os_read_dir (path_join [sd, ''clusters'']);
     case r of
       Inl e \<Rightarrow> ret (if is_not_exist e then None
                     else Some (wrapf ''failed to read clusters directory'' (os_msg e)))
     | Inr es \<Rightarrow> do { _ \<leftarrow> cleanup_entries sd es 0; ret None } }"

section \<open>Paths and saving\<close>

definition lock_key_ok :: "string list \<Rightarrow> string \<Rightarrow> bool" where
  "lock_key_ok cs cn = (comps_ok cs \<and> comp_ok cn)"

lemma comp_ok_lock [simp]: "comp_ok ''clusters''" "comp_ok ''cluster.lock''" "comp_ok ''cluster.lock.tmp''"
  by (simp_all add: comp_ok_def dot_def dotdot_def)

lemma lock_path_abs: "lock_key_ok cs cn \<Longrightarrow>
   get_lock_path (abs_path cs) cn = abs_path ((cs @ [''clusters'', cn]) @ [''cluster.lock''])"
  by (simp add: get_lock_path_def path_join_abs lock_key_ok_def)

lemma lock_path_facts:
  assumes "lock_key_ok cs cn"
  defines "path \<equiv> get_lock_path (abs_path cs) cn"
  shows "path_clean path = path" "path_clean (path @ ''.tmp'') = path @ ''.tmp''"
    "path \<noteq> path @ ''.tmp''"
proof -
  have ok: "comps_ok (cs @ [''clusters'', cn])" using assms(1) by (simp add: lock_key_ok_def)
  show "path_clean path = path"
    unfolding path_def lock_path_abs [OF assms(1)] using ok by (intro path_clean_abs_path) simp
  show "path_clean (path @ ''.tmp'') = path @ ''.tmp''"
    unfolding path_def lock_path_abs [OF assms(1)] abs_path_snoc_append using ok by (intro path_clean_abs_path) simp
qed simp

definition no_lock_links :: "string \<Rightarrow> fs \<Rightarrow> bool" where
  "no_lock_links path f = (\<not> is_link f (path @ ''.tmp''))"

lemma wp_save_lock:
  assumes "lock_key_ok cs (lk_cluster l)"
    and "no_lock_links (get_lock_path (abs_path cs) (lk_cluster l)) (w_fs w)"
    and Q: "\<And>e w'. replaced (get_lock_path (abs_path cs) (lk_cluster l)) (Json (enc_cluster_lock l)) (w_fs w)
        (e = None) (w_fs w') \<Longrightarrow> Q e w'"
  shows "wp (save_lock (abs_path cs) l) Q w"
  unfolding save_lock_def Let_def
proof (rule wp_mkdir_write_rename [OF lock_path_facts(1,2) [OF assms(1)]])
  show "\<not> is_link (w_fs w) (get_lock_path (abs_path cs) (lk_cluster l) @ ''.tmp'')"
    using assms(2) by (simp add: no_lock_links_def)
next
  fix s :: "save_err option" and w' :: world
  assume "replaced (get_lock_path (abs_path cs) (lk_cluster l)) (Json (enc_cluster_lock l)) (w_fs w)
      (s = None) (w_fs w')"
  then show "Q (case s of None \<Rightarrow> None | Some (WriteFailed m) \<Rightarrow> Some (wrapf ''failed to write lock file'' (os_msg m))
         | Some (RenameFailed m) \<Rightarrow> Some (wrapf ''failed to rename lock file'' (os_msg m))) w'"
    by (intro Q) (auto split: option.splits save_err.splits)
qed (intro Q, simp)

lemma wp_acquire_commit:
  assumes "lock_key_ok cs cn" "no_lock_links (get_lock_path (abs_path cs) cn) (w_fs w)"
    and Q: "\<And>r w'. (\<And>l. r = Ok l \<Longrightarrow> lk_cluster l = cn \<and> lk_by l = get_locked_by_identifier pr
          \<and> replaced (get_lock_path (abs_path cs) cn) (Json (enc_cluster_lock l)) (w_fs w) True (w_fs w')) \<Longrightarrow>
        (\<And>e. r = Err e \<Longrightarrow> \<exists>c. replaced (get_lock_path (abs_path cs) cn) c (w_fs w) False (w_fs w')) \<Longrightarrow> Q r w'"
  shows "wp (acquire_commit pr (abs_path cs) cn pid oper timeout) Q w"
  unfolding acquire_commit_def Let_def wp_bind wp_clock
  by (rule wp_save_lock) (use assms(1,2) in \<open>auto intro!: Q split: option.splits\<close>)

lemma run_get_lock:
  assumes "lock_key_ok cs cn" "w_faults w (w_nio w) = None"
    and "mget (w_fs w) (get_lock_path (abs_path cs) cn) = Some (FFile (Json (enc_cluster_lock l)) t)"
  shows "run_state (get_lock (abs_path cs) cn) w = (Ok l, w\<lparr>w_nio := Suc (w_nio w)\<rparr>)"
  using assms lock_path_facts(1) [OF assms(1)]
  by (simp add: get_lock_def os_read_file_def lock_codec.unmarshal_enc)

text \<open>Reading the lock never changes a file.\<close>

lemma wp_get_lock: "(\<And>r w'. w_fs w' = w_fs w \<Longrightarrow> w_clock w' = w_clock w \<Longrightarrow> Q r w') \<Longrightarrow> wp (get_lock sd cn) Q w"
  unfolding get_lock_def os_read_file_def by simp

text \<open>
  While the lock file of a cluster holds an unexpired lock and can be read, every attempt to acquire
  it is refused and touches no file.
\<close>

lemma acquire_refused:
  assumes "lock_key_ok cs cn" "w_faults w (w_nio w) = None"
    and "mget (w_fs w) (get_lock_path (abs_path cs) cn) = Some (FFile (Json (enc_cluster_lock l)) t)"
    and "w_clock w (w_tick w) < lk_expires l"
  shows "\<exists>e w'. run_state (acquire_lock rfc pr (abs_path cs) cn pid oper timeout) w = (Err e, w') \<and> w_fs w' = w_fs w"
  using assms(4) run_get_lock [OF assms(1-3)] by (simp add: acquire_lock_def acquire_check_def)

definition acquire_outcome :: "string list \<Rightarrow> string \<Rightarrow> process \<Rightarrow> fs \<Rightarrow> cluster_lock res \<Rightarrow> fs \<Rightarrow> bool" where
  "acquire_outcome cs cn pr f r g = (let path = get_lock_path (abs_path cs) cn in
     case r of
       Inr l \<Rightarrow> lk_by l = get_locked_by_identifier pr \<and> lk_cluster l = cn
         \<and> replaced path (Json (enc_cluster_lock l)) f True g
     | Inl _ \<Rightarrow> g = f \<or> (\<exists>c. replaced path c f False g))"

lemma wp_acquire_commit_outcome:
  assumes "lock_key_ok cs cn" "no_lock_links (get_lock_path (abs_path cs) cn) (w_fs w)"
  shows "wp (acquire_commit pr (abs_path cs) cn pid oper timeout) (\<lambda>r w'. acquire_outcome cs cn pr (w_fs w) r (w_fs w')) w"
  by (rule wp_acquire_commit [OF assms]) (auto simp: acquire_outcome_def Let_def split: sum.splits)

lemma wp_acquire_check: "wp (acquire_check rfc sd cn) (\<lambda>e w'. w_fs w' = w_fs w) w"
  unfolding acquire_check_def wp_bind by (rule wp_get_lock) (auto split: sum.split)

lemma wp_acquire_lock:
  assumes "lock_key_ok cs cn" "no_lock_links (get_lock_path (abs_path cs) cn) (w_fs w)"
  shows "wp (acquire_lock rfc pr (abs_path cs) cn pid oper timeout) (\<lambda>r w'. acquire_outcome cs cn pr (w_fs w) r (w_fs w')) w"
  unfolding acquire_lock_def Let_def wp_bind
proof (rule wp_mono [OF wp_acquire_check])
  fix e :: "err option" and u :: world
  assume u: "w_fs u = w_fs w"
  show "wp (case e of Some m \<Rightarrow> ret (Err m)
       | None \<Rightarrow> acquire_commit pr (abs_path cs) cn pid oper (if timeout = 0 then default_lock_timeout else timeout))
     (\<lambda>r w'. acquire_outcome cs cn pr (w_fs w) r (w_fs w')) u"
  proof (cases e)
    case None
    show ?thesis unfolding None option.case
      using wp_acquire_commit_outcome [OF assms(1), of u] assms(2) u by simp
  qed (use u in \<open>simp add: acquire_outcome_def\<close>)
qed

text \<open>
  C11. Acquisition is atomic on disk: whatever fails, a success leaves exactly the returned lock, owned by the calling
  process, in the lock file; a failure leaves the file as it was; all other files stay.
\<close>
theorem acquire_atomic:
  assumes "lock_key_ok cs cn" "no_lock_links (get_lock_path (abs_path cs) cn) (w_fs w)"
    and "run_state (acquire_lock rfc pr (abs_path cs) cn pid oper timeout) w = (r, w')"
  shows "acquire_outcome cs cn pr (w_fs w) r (w_fs w')"
  by (rule wpD [OF wp_acquire_lock [OF assms(1,2)] assms(3)])

text \<open>
  C12. Mutual exclusion: once one process has acquired the lock, another attempt made on the files it
  left, on a disk that works and before the lock expires, is refused and changes nothing.
\<close>
theorem acquire_excludes:
  assumes "lock_key_ok cs cn" "no_lock_links (get_lock_path (abs_path cs) cn) (w_fs w)"
    and "run_state (acquire_lock rfc pr (abs_path cs) cn pid oper timeout) w = (Ok l, w1)"
    and "w_fs u = w_fs w1" "quiet u" "w_clock u (w_tick u) < lk_expires l"
  shows "\<exists>e u'. run_state (acquire_lock rfc pr' (abs_path cs) cn pid' oper' timeout') u = (Err e, u') \<and> w_fs u' = w_fs u"
proof -
  obtain t where "mget (w_fs u) (get_lock_path (abs_path cs) cn) = Some (FFile (Json (enc_cluster_lock l)) t)"
    using wpD [OF wp_acquire_lock [OF assms(1,2)] assms(3)] assms(4)
    by (auto simp: acquire_outcome_def Let_def dest: replaced_ok)
  from acquire_refused [OF assms(1) _ this assms(6)] assms(5) show ?thesis by simp
qed

text \<open>
  Only the owner renews: a renewal on behalf of anyone else is refused, and so is a renewal after
  expiry; both leave the file and the caller's lock alone.
\<close>

lemma renew_refused:
  assumes "lock_key_ok cs (lk_cluster l)" "w_faults w (w_nio w) = None"
    and "mget (w_fs w) (get_lock_path (abs_path cs) (lk_cluster l)) = Some (FFile (Json (enc_cluster_lock cur)) t)"
    and "lk_by cur \<noteq> lk_by l \<or> lk_expires cur < w_clock w (w_tick w)"
  shows "\<exists>e w'. run_state (renew_lock (abs_path cs) l ext) w = ((Some e, l), w') \<and> w_fs w' = w_fs w"
  using assms(4) run_get_lock [OF assms(1-3)] by (auto simp: renew_lock_def)

text \<open>
  A renewal that reports no error was made by the owner of an unexpired lock (or the lock file was
  replaced under it); the stored lock is the caller's, with its expiry moved to the extension from now and one more renewal counted.
\<close>

lemma renew_extends:
  assumes "lock_key_ok cs (lk_cluster l)" "no_lock_links (get_lock_path (abs_path cs) (lk_cluster l)) (w_fs w)"
    and "w_faults w (w_nio w) = None"
    and "mget (w_fs w) (get_lock_path (abs_path cs) (lk_cluster l)) = Some (FFile (Json (enc_cluster_lock cur)) t)"
    and "run_state (renew_lock (abs_path cs) l ext) w = ((None, l'), w')"
  shows "lk_by cur = lk_by l \<and> w_clock w (w_tick w) \<le> lk_expires cur
    \<and> l' = l\<lparr>lk_expires := w_clock w (Suc (w_tick w)) + ext, lk_renew := lk_renew l + 1\<rparr>
    \<and> (\<exists>t'. mget (w_fs w') (get_lock_path (abs_path cs) (lk_cluster l)) = Some (FFile (Json (enc_cluster_lock l')) t'))"
proof -
  let ?l = "l\<lparr>lk_expires := w_clock w (Suc (w_tick w)) + ext, lk_renew := lk_renew l + 1\<rparr>"
  let ?path = "get_lock_path (abs_path cs) (lk_cluster l)"
  have save: "wp (save_lock (abs_path cs) ?l) (\<lambda>e w'. e = None \<longrightarrow>
      (\<exists>t'. mget (w_fs w') ?path = Some (FFile (Json (enc_cluster_lock ?l)) t'))) u" if "w_fs u = w_fs w" for u
    by (rule wp_save_lock) (use assms(1,2) that in \<open>auto dest: replaced_ok\<close>)
  have "wp (renew_lock (abs_path cs) l ext) (\<lambda>(e, l') w'. e = None \<longrightarrow> lk_by cur = lk_by l
      \<and> w_clock w (w_tick w) \<le> lk_expires cur \<and> l' = ?l
      \<and> (\<exists>t'. mget (w_fs w') ?path = Some (FFile (Json (enc_cluster_lock l')) t'))) w"
    unfolding renew_lock_def wp_bind Let_def
    by (simp add: wp_def [of "get_lock (abs_path cs) (lk_cluster l)"] run_get_lock [OF assms(1,3,4)]
        not_less wp_mono [OF save])
  from wpD [OF this assms(5)] show ?thesis by auto
qed

text \<open>
  Only the owner releases: a release by anyone else before the lock expires never changes the
  lock file, whatever fails.
\<close>
theorem release_only_owner:
  assumes "lock_key_ok cs cn"
    and "mget (w_fs w) (get_lock_path (abs_path cs) cn) = Some (FFile (Json (enc_cluster_lock cur)) t)"
    and "lk_by cur \<noteq> lk_by l" "w_clock w (w_tick w) < lk_expires cur"
  shows "w_fs (snd (run_state (release_lock (abs_path cs) cn l) w)) = w_fs w"
proof (cases "w_faults w (w_nio w)")
  case None
  then show ?thesis using run_get_lock [OF assms(1) _ assms(2)] assms(3,4) by (simp add: release_lock_def)
next
  case (Some e)
  then show ?thesis by (simp add: release_lock_def get_lock_def os_read_file_def)
qed

section \<open>Interleaved acquisitions\<close>

text \<open>
  Processes that acquire at the same time: each runs its check and, when admitted, its commit, and
  the steps of different processes interleave over one world.
\<close>

datatype acq_pc = Waiting | Admitted | Owner cluster_lock | Refused err

type_synonym race = "world \<times> (nat \<Rightarrow> acq_pc)"

inductive acq_step ::
  "(int \<Rightarrow> string) \<Rightarrow> (nat \<Rightarrow> process) \<Rightarrow> string \<Rightarrow> string \<Rightarrow> string \<Rightarrow> string \<Rightarrow> int \<Rightarrow> race \<Rightarrow> race \<Rightarrow> bool"
  for rfc prs sd cn pid oper timeout where
  admit: "pcs i = Waiting \<Longrightarrow> run_state (acquire_check rfc sd cn) w = (None, w') \<Longrightarrow>
     acq_step rfc prs sd cn pid oper timeout (w, pcs) (w', pcs(i := Admitted))"
| refuse: "pcs i = Waiting \<Longrightarrow> run_state (acquire_check rfc sd cn) w = (Some e, w') \<Longrightarrow>
     acq_step rfc prs sd cn pid oper timeout (w, pcs) (w', pcs(i := Refused e))"
| commit: "pcs i = Admitted \<Longrightarrow> run_state (acquire_commit (prs i) sd cn pid oper timeout) w = (Ok l, w') \<Longrightarrow>
     acq_step rfc prs sd cn pid oper timeout (w, pcs) (w', pcs(i := Owner l))"
| commit_failed: "pcs i = Admitted \<Longrightarrow> run_state (acquire_commit (prs i) sd cn pid oper timeout) w = (Err e, w') \<Longrightarrow>
     acq_step rfc prs sd cn pid oper timeout (w, pcs) (w', pcs(i := Refused e))"

inductive_cases acq_stepE: "acq_step rfc prs sd cn pid oper timeout s s'"

inductive acq_reach for rfc prs sd cn pid oper timeout s0 where
  start: "acq_reach rfc prs sd cn pid oper timeout s0 s0"
| step: "acq_reach rfc prs sd cn pid oper timeout s0 s \<Longrightarrow> acq_step rfc prs sd cn pid oper timeout s s' \<Longrightarrow>
     acq_reach rfc prs sd cn pid oper timeout s0 s'"

text \<open>
  What survives any interleaving: no temporary link appears, and as soon as some process owns the
  lock, the file holds the complete lock of one of the owners.
\<close>

definition race_inv :: "string \<Rightarrow> race \<Rightarrow> bool" where
  "race_inv path s = (case s of (w, pcs) \<Rightarrow> no_lock_links path (w_fs w) \<and>
     ((\<exists>i l. pcs i = Owner l) \<longrightarrow>
        (\<exists>j l t. pcs j = Owner l \<and> mget (w_fs w) path = Some (FFile (Json (enc_cluster_lock l)) t))))"

lemma race_inv_step:
  assumes "lock_key_ok cs cn" "acq_step rfc prs (abs_path cs) cn pid oper timeout s s'"
    and "race_inv (get_lock_path (abs_path cs) cn) s"
  shows "race_inv (get_lock_path (abs_path cs) cn) s'"
  using assms(2)
proof (cases rule: acq_step.cases)
  case (admit pcs i w w')
  then have "w_fs w' = w_fs w" using wpD [OF wp_acquire_check] by blast
  then show ?thesis using assms(3) admit by (auto simp: race_inv_def split: if_splits) (metis acq_pc.distinct(3))+
next
  case (refuse pcs i w e w')
  then have "w_fs w' = w_fs w" using wpD [OF wp_acquire_check] by blast
  then show ?thesis using assms(3) refuse by (auto simp: race_inv_def split: if_splits) (metis acq_pc.distinct(3))+
next
  case (commit pcs i w l w')
  let ?path = "get_lock_path (abs_path cs) cn"
  have nl: "no_lock_links ?path (w_fs w)" using assms(3) commit by (simp add: race_inv_def)
  have "replaced ?path (Json (enc_cluster_lock l)) (w_fs w) True (w_fs w')"
    using wpD [OF wp_acquire_commit_outcome [OF assms(1) nl] commit(4)] by (simp add: acquire_outcome_def Let_def)
  then have "no_lock_links ?path (w_fs w')" "\<exists>t. mget (w_fs w') ?path = Some (FFile (Json (enc_cluster_lock l)) t)"
    using nl by (auto dest: replaced_ok replaced_links simp: no_lock_links_def links_sub_def)
  then show ?thesis using commit by (auto simp: race_inv_def)
next
  case (commit_failed pcs i w e w')
  let ?path = "get_lock_path (abs_path cs) cn"
  have nl: "no_lock_links ?path (w_fs w)" using assms(3) commit_failed by (simp add: race_inv_def)
  have "w_fs w' = w_fs w \<or> (\<exists>c. replaced ?path c (w_fs w) False (w_fs w'))"
    using wpD [OF wp_acquire_commit_outcome [OF assms(1) nl] commit_failed(4)] by (simp add: acquire_outcome_def Let_def)
  then have "no_lock_links ?path (w_fs w')" "\<And>n. mget (w_fs w) ?path = Some n \<Longrightarrow> mget (w_fs w') ?path = Some n"
    using nl by (auto dest: replaced_failed replaced_links simp: no_lock_links_def links_sub_def)
  then show ?thesis using assms(3) commit_failed
    by (auto simp: race_inv_def split: if_splits) (metis acq_pc.distinct(7))+
qed


section \<open>Runs on a machine that works\<close>

definition lock_ready :: "string \<Rightarrow> fs \<Rightarrow> bool" where
  "lock_ready path f =
     ((\<forall>d \<in> set (path_prefixes (path_dir path)). is_dir f d) \<and> is_dir f (path_dir path)
      \<and> \<not> is_dir f path \<and> \<not> is_dir f (path @ ''.tmp'') \<and> \<not> is_link f (path @ ''.tmp''))"

lemma is_dir_other: "is_dir f d \<Longrightarrow> d \<noteq> p \<Longrightarrow> is_dir (mput p n f) d" "is_dir f d \<Longrightarrow> d \<noteq> p \<Longrightarrow> is_dir (mdel p f) d"
  by (simp_all add: is_dir_def)

lemma lock_ready_saved:
  assumes "lock_ready path f" "path_dir path \<noteq> path" "path_dir path \<noteq> path @ ''.tmp''"
    "path \<noteq> path @ ''.tmp''"
  shows "lock_ready path (mput path (FFile c t) (mdel (path @ ''.tmp'') (mput (path @ ''.tmp'') (FFile c t) f)))"
proof -
  have ne: "d \<noteq> path \<and> d \<noteq> path @ ''.tmp''" if "d \<in> set (path_prefixes (path_dir path))" for d
    using assms(1) that by (auto simp: lock_ready_def)
  show ?thesis
    using assms ne unfolding lock_ready_def
    by (auto simp: is_link_mput is_link_mdel intro!: is_dir_other) (auto simp: is_dir_def split: if_splits)
qed

lemma commit_quiet:
  assumes key: "lock_key_ok cs cn" and "quiet w"
  defines "path \<equiv> get_lock_path (abs_path cs) cn"
  assumes ready: "lock_ready path (w_fs w)"
  shows "\<exists>l w'. run_state (acquire_commit pr (abs_path cs) cn pid oper timeout) w = (Ok l, w')
    \<and> lk_expires l = w_clock w (Suc (w_tick w)) + timeout \<and> quiet w' \<and> w_clock w' = w_clock w
    \<and> lock_ready path (w_fs w')"
proof -
  have p: "path = abs_path ((cs @ [''clusters'', cn]) @ [''cluster.lock''])"
    unfolding path_def by (rule lock_path_abs [OF key])
  have ok: "comps_ok (cs @ [''clusters'', cn])" using key by (simp add: lock_key_ok_def)
  have dir: "path_dir path = abs_path (cs @ [''clusters'', cn])"
    "path_dir (path @ ''.tmp'') = abs_path (cs @ [''clusters'', cn])"
    unfolding p abs_path_snoc_append using ok by (simp_all only: path_dir_abs comp_ok_lock append.simps)
  have "comps_ok ((cs @ [''clusters'', cn]) @ [''cluster.lock''])" "comps_ok ((cs @ [''clusters'', cn]) @ [''cluster.lock.tmp''])"
    using ok by simp_all
  then have ne: "path_dir path \<noteq> path" "path_dir path \<noteq> path @ ''.tmp''"
    unfolding dir p abs_path_snoc_append using abs_path_inject [OF ok] by (simp_all del: append_assoc)
  let ?l = "\<lparr>lk_cluster = cn, lk_plan = pid, lk_operation = oper, lk_by = get_locked_by_identifier pr,
     lk_at = w_clock w (w_tick w), lk_expires = w_clock w (Suc (w_tick w)) + timeout,
     lk_timeout = duration_string timeout, lk_renew = 0\<rparr>"
  let ?w = "w\<lparr>w_tick := Suc (Suc (w_tick w)), w_nio := Suc (w_nio w)\<rparr>"
  have "quiet ?w" using assms(2) by (simp add: quiet_def)
  from write_rename_quiet [OF this, of path "Json (enc_cluster_lock ?l)"] obtain w' t where
    run: "run_state (write_rename path (Json (enc_cluster_lock ?l))) ?w = (None, w')" and w': "quiet w'" "w_clock w' = w_clock w"
      "w_fs w' = mput path (FFile (Json (enc_cluster_lock ?l)) t)
         (mdel (path @ ''.tmp'') (mput (path @ ''.tmp'') (FFile (Json (enc_cluster_lock ?l)) t) (w_fs w)))"
    using ready dir ne lock_path_facts [OF key, folded path_def] by (auto simp: lock_ready_def)
  have "lock_ready path (w_fs w')"
    unfolding w'(3) by (rule lock_ready_saved [OF ready ne]) simp
  moreover have "run_state (acquire_commit pr (abs_path cs) cn pid oper timeout) w = (Ok ?l, w')"
    using run ready assms(2)
    by (simp add: acquire_commit_def save_lock_def Let_def path_def [symmetric] os_mkdir_all_def lock_ready_def
        mkdirs_present put_fs_def)
  ultimately show ?thesis using w' by auto
qed

lemma check_missing:
  assumes "lock_key_ok cs cn" "quiet w" "mget (w_fs w) (get_lock_path (abs_path cs) cn) = None"
  shows "run_state (acquire_check rfc (abs_path cs) cn) w = (None, w\<lparr>w_nio := Suc (w_nio w)\<rparr>)"
  using assms lock_path_facts(1) [OF assms(1)] fs_follow_plain [of "w_fs w" "get_lock_path (abs_path cs) cn"]
  by (simp add: acquire_check_def get_lock_def os_read_file_def is_link_def)

lemmas reach_one = acq_reach.step [OF acq_reach.start]

text \<open>
  The lock does not exclude concurrent acquisitions: two processes whose checks both run before
  either commit both come out as owners of unexpired locks, on a machine on which nothing fails.
\<close>
theorem acquire_race:
  assumes "lock_key_ok cs cn" "quiet w" "lock_ready (get_lock_path (abs_path cs) cn) (w_fs w)"
    and "mget (w_fs w) (get_lock_path (abs_path cs) cn) = None" and "timeout > 0"
  shows "\<exists>w' pcs l0 l1. acq_reach rfc prs (abs_path cs) cn pid oper timeout (w, \<lambda>_. Waiting) (w', pcs)
    \<and> pcs 0 = Owner l0 \<and> pcs 1 = Owner l1
    \<and> (\<exists>n. w_clock w n < lk_expires l0) \<and> (\<exists>n. w_clock w n < lk_expires l1)"
proof -
  let ?path = "get_lock_path (abs_path cs) cn" and ?step = "acq_step rfc prs (abs_path cs) cn pid oper timeout"
  let ?w1 = "w\<lparr>w_nio := Suc (w_nio w)\<rparr>" and ?w2 = "w\<lparr>w_nio := Suc (Suc (w_nio w))\<rparr>"
  let ?p1 = "(\<lambda>_. Waiting)(0 := Admitted)" and ?p2 = "(\<lambda>_. Waiting)(0 := Admitted, 1 := Admitted)"
  have s1: "?step (w, \<lambda>_. Waiting) (?w1, ?p1)"
    by (rule admit) (simp_all add: check_missing assms(1,2,4))
  have s2: "?step (?w1, ?p1) (?w2, ?p2)"
    by (rule admit) (use check_missing [of cs cn ?w1] assms in simp_all)
  obtain l0 w3 where c0: "run_state (acquire_commit (prs 0) (abs_path cs) cn pid oper timeout) ?w2 = (Ok l0, w3)"
    "lk_expires l0 = w_clock w (Suc (w_tick w)) + timeout" "quiet w3" "w_clock w3 = w_clock w" "lock_ready ?path (w_fs w3)"
    using commit_quiet [OF assms(1), of ?w2 "prs 0" pid oper timeout] assms(2,3) by auto
  have s3: "?step (?w2, ?p2) (w3, ?p2(0 := Owner l0))"
    by (rule commit) (use c0 in simp_all)
  obtain l1 w4 where c1: "run_state (acquire_commit (prs 1) (abs_path cs) cn pid oper timeout) w3 = (Ok l1, w4)"
    "lk_expires l1 = w_clock w3 (Suc (w_tick w3)) + timeout"
    using commit_quiet [OF assms(1) c0(3,5), of "prs 1" pid oper timeout] by auto
  have s4: "?step (w3, ?p2(0 := Owner l0)) (w4, ?p2(0 := Owner l0, 1 := Owner l1))"
    by (rule commit) (use c1 in simp_all)
  have "acq_reach rfc prs (abs_path cs) cn pid oper timeout (w, \<lambda>_. Waiting) (w4, ?p2(0 := Owner l0, 1 := Owner l1))"
    by (rule acq_reach.step [OF acq_reach.step [OF acq_reach.step [OF reach_one [OF s1] s2] s3] s4])
  moreover have "w_clock w (Suc (w_tick w)) < lk_expires l0" "w_clock w (Suc (w_tick w3)) < lk_expires l1"
    using c0 c1 assms(5) by simp_all
  ultimately show ?thesis by fastforce
qed

section \<open>Witnesses\<close>

definition example_lock_world :: world where
  "example_lock_world = example_world\<lparr>w_fs := [(''/s'', FDir), (''/s/clusters'', FDir), (''/s/clusters/c'', FDir)]\<rparr>"

definition example_process :: process where
  "example_process = \<lparr>pr_host = ''h'', pr_user = ''u'', pr_pid = 1\<rparr>"

lemma example_lock_facts:
  "lock_key_ok [''s''] ''c''" "quiet example_lock_world"
  "lock_ready (get_lock_path (abs_path [''s'']) ''c'') (w_fs example_lock_world)"
  "mget (w_fs example_lock_world) (get_lock_path (abs_path [''s'']) ''c'') = None"
  "no_lock_links (get_lock_path (abs_path [''s'']) ''c'') (w_fs example_lock_world)"
proof -
  have path: "get_lock_path (abs_path [''s'']) ''c'' = ''/s/clusters/c/cluster.lock''"
    by (simp add: get_lock_path_def path_join_def path_clean_def abs_path_def is_abs_def dot_def dotdot_def)
  have dir: "path_dir ''/s/clusters/c/cluster.lock'' = ''/s/clusters/c''"
    by (simp add: path_dir_def path_clean_def is_abs_def dot_def dotdot_def)
  have pre: "path_prefixes ''/s/clusters/c'' = [''/s'', ''/s/clusters'', ''/s/clusters/c'']"
    by (simp add: path_prefixes_def path_clean_def is_abs_def dot_def dotdot_def abs_path_def upt_rec Let_def)
  show "lock_key_ok [''s''] ''c''" by (simp add: lock_key_ok_def comp_ok_def dot_def dotdot_def)
  show "quiet example_lock_world" by (simp add: quiet_def example_lock_world_def example_world_def)
  show "lock_ready (get_lock_path (abs_path [''s'']) ''c'') (w_fs example_lock_world)"
    "mget (w_fs example_lock_world) (get_lock_path (abs_path [''s'']) ''c'') = None"
    "no_lock_links (get_lock_path (abs_path [''s'']) ''c'') (w_fs example_lock_world)"
    by (simp_all add: path dir pre lock_ready_def no_lock_links_def is_dir_def is_link_def example_lock_world_def dot_def)
qed

lemma acquire_race_witness:
  "\<exists>w' pcs l0 l1. acq_reach (\<lambda>_. []) (\<lambda>_. example_process) (abs_path [''s'']) ''c'' ''p'' ''deploy'' 1
      (example_lock_world, \<lambda>_. Waiting) (w', pcs) \<and> pcs 0 = Owner l0 \<and> pcs 1 = Owner l1"
  using acquire_race [OF example_lock_facts(1-4), of 1 "\<lambda>_. []" "\<lambda>_. example_process" "''p''" "''deploy''"] by fastforce

lemma acquire_atomic_witness:
  "\<exists>r (w' :: world). acquire_outcome [''s''] ''c'' example_process (w_fs example_lock_world) r (w_fs w')"
proof -
  obtain r w' where "run_state (acquire_lock (\<lambda>_. []) example_process (abs_path [''s'']) ''c'' ''p'' ''deploy'' 1)
      example_lock_world = (r, w')" by (metis surj_pair)
  from acquire_atomic [OF example_lock_facts(1,5) this] show ?thesis by blast
qed

text \<open>A first acquisition on the example machine.\<close>

lemma example_acquire:
  "\<exists>l w'. run_state (acquire_lock (\<lambda>_. []) example_process (abs_path [''s'']) ''c'' ''p'' ''deploy'' 5) example_lock_world = (Ok l, w')
     \<and> lk_expires l = w_clock example_lock_world 1 + 5 \<and> quiet w'"
proof -
  let ?w = "example_lock_world\<lparr>w_nio := Suc (w_nio example_lock_world)\<rparr>"
  have "w_tick example_lock_world = 0" by (simp add: example_lock_world_def example_world_def)
  with commit_quiet [of "[''s'']" "''c''" ?w example_process "''p''" "''deploy''" 5] obtain l w' where
    "run_state (acquire_commit example_process (abs_path [''s'']) ''c'' ''p'' ''deploy'' 5) ?w = (Ok l, w')"
    "lk_expires l = w_clock example_lock_world 1 + 5" "quiet w'"
    using example_lock_facts by auto
  then show ?thesis
    by (simp add: acquire_lock_def check_missing example_lock_facts)
qed

lemma acquire_excludes_witness:
  "\<exists>u e u'. run_state (acquire_lock (\<lambda>_. []) example_process (abs_path [''s'']) ''c'' ''q'' ''upgrade'' 9) u = (Err e, u')
     \<and> w_fs u' = w_fs u"
proof -
  obtain l w' where run: "run_state (acquire_lock (\<lambda>_. []) example_process (abs_path [''s'']) ''c'' ''p'' ''deploy'' 5)
      example_lock_world = (Ok l, w')" and l: "lk_expires l = w_clock example_lock_world 1 + 5"
    using example_acquire by blast
  let ?u = "example_lock_world\<lparr>w_fs := w_fs w', w_tick := 1\<rparr>"
  have "quiet ?u" "w_clock ?u (w_tick ?u) < lk_expires l"
    using example_lock_facts(2) l by (simp_all add: quiet_def)
  from acquire_excludes [OF example_lock_facts(1,5) run, of ?u] this show ?thesis by fastforce
qed


definition example_lock :: "string \<Rightarrow> cluster_lock" where
  "example_lock who = \<lparr>lk_cluster = ''c'', lk_plan = ''p'', lk_operation = ''deploy'', lk_by = who,
     lk_at = 0, lk_expires = 2 ^ 62, lk_timeout = ''24h0m0s'', lk_renew = 0\<rparr>"

lemma release_only_owner_witness:
  "\<exists>w. w_fs w \<noteq> [] \<and> w_fs (snd (run_state (release_lock (abs_path [''s'']) ''c'' (example_lock ''a'')) w)) = w_fs w"
proof -
  let ?w = "example_world\<lparr>w_fs := [(get_lock_path (abs_path [''s'']) ''c'', FFile (Json (enc_cluster_lock (example_lock ''b''))) 0)]\<rparr>"
  have "w_fs (snd (run_state (release_lock (abs_path [''s'']) ''c'' (example_lock ''a'')) ?w)) = w_fs ?w"
    by (rule release_only_owner [OF example_lock_facts(1), where cur = "example_lock ''b''" and t = 0])
      (simp_all add: example_lock_def example_world_def)
  then show ?thesis by (intro exI [of _ ?w]) simp
qed

end
