(* ===== verification/Paths.thy ===== *)
theory Paths imports Topology Go_World begin

text \<open>
  \<^verbatim>\<open>pkg/naming/names.go\<close>, \<^verbatim>\<open>pkg/paths/layout.go\<close> and \<^verbatim>\<open>pkg/paths/resolver.go\<close>: names of
  processes and files, the directories of a cluster on disk, the symbolic links that select a version,
  and the two path resolvers.
\<close>

section \<open>Names\<close>

definition get_program_name :: "string \<Rightarrow> int \<Rightarrow> string" where
  "get_program_name node_type port = node_type @ ''-'' @ itoa port"

definition get_config_file_name :: "string \<Rightarrow> string" where
  "get_config_file_name node_type = node_type @ ''.conf''"

definition get_process_dir :: "string \<Rightarrow> int \<Rightarrow> string" where
  "get_process_dir node_type port = node_type @ ''-'' @ itoa port"

definition get_log_file_name :: string where "get_log_file_name = ''process.log''"
definition get_pid_file_name :: string where "get_pid_file_name = ''process.pid''"

section \<open>The layout of a cluster directory\<close>

text \<open>A \<^verbatim>\<open>ClusterLayout\<close> is its directory.\<close>

definition version_dir :: "string \<Rightarrow> string \<Rightarrow> string" where
  "version_dir l version = path_join [l, ''v'' @ version]"

definition layout_data_dir :: "string \<Rightarrow> string" where "layout_data_dir l = path_join [l, ''data'']"
definition current_link :: "string \<Rightarrow> string" where "current_link l = path_join [l, ''current'']"
definition next_link :: "string \<Rightarrow> string" where "next_link l = path_join [l, ''next'']"
definition previous_link :: "string \<Rightarrow> string" where "previous_link l = path_join [l, ''previous'']"

definition layout_process_dir :: "string \<Rightarrow> string \<Rightarrow> string \<Rightarrow> int \<Rightarrow> string" where
  "layout_process_dir l version node_type port = path_join [version_dir l version, node_type @ ''-'' @ itoa port]"

definition node_data_dir :: "string \<Rightarrow> string \<Rightarrow> int \<Rightarrow> string" where
  "node_data_dir l host port = path_join [layout_data_dir l, host @ ''-'' @ itoa port]"

definition layout_bin_dir :: "string \<Rightarrow> string \<Rightarrow> string" where
  "layout_bin_dir l version = path_join [version_dir l version, ''bin'']"

definition layout_config_dir :: "string \<Rightarrow> string \<Rightarrow> string \<Rightarrow> int \<Rightarrow> string" where
  "layout_config_dir l version node_type port = path_join [layout_process_dir l version node_type port, ''config'']"

definition layout_log_dir :: "string \<Rightarrow> string \<Rightarrow> string \<Rightarrow> int \<Rightarrow> string" where
  "layout_log_dir l version node_type port = path_join [layout_process_dir l version node_type port, ''log'']"

definition replace_link :: "string \<Rightarrow> string \<Rightarrow> os_err option io" where
  "replace_link target link = do { _ \<leftarrow> os_remove link; os_symlink target link }"

definition create_current_link :: "string \<Rightarrow> string \<Rightarrow> os_err option io" where
  "create_current_link l version = replace_link (''v'' @ version) (current_link l)"

definition create_previous_link :: "string \<Rightarrow> string \<Rightarrow> os_err option io" where
  "create_previous_link l version = replace_link (''v'' @ version) (previous_link l)"

definition create_next_link :: "string \<Rightarrow> string \<Rightarrow> os_err option io" where
  "create_next_link l version = replace_link (''v'' @ version) (next_link l)"

definition activate_version :: "string \<Rightarrow> string \<Rightarrow> err option io" where
  "activate_version l version = do {
     r \<leftarrow> os_readlink (current_link l);
     p \<leftarrow> (case r of
         Inr t \<Rightarrow> if t \<noteq> [] then replace_link t (previous_link l) else ret None
       | Inl _ \<Rightarrow> ret None);
     case p of
       Some e \<Rightarrow> ret (Some (wrapf ''failed to create previous symlink'' (os_msg e)))
     | None \<Rightarrow> do {
         e \<leftarrow> replace_link (''v'' @ version) (current_link l);
         ret (map_option (\<lambda>m. wrapf ''failed to create current symlink'' (os_msg m)) e) } }"

section \<open>The local resolver\<close>

record local_resolver =
  lr_dir :: string
  lr_version :: string

definition node_label :: "string \<Rightarrow> int \<Rightarrow> string" where
  "node_label host port = host @ '':'' @ itoa port"

definition local_data_dir :: "local_resolver \<Rightarrow> string \<Rightarrow> int \<Rightarrow> string res" where
  "local_data_dir r host port =
     (if lr_dir r = [] then Err ''failed to resolve data_dir: cluster directory is empty''
      else Ok (path_join [lr_dir r, ''data'', host @ ''-'' @ itoa port]))"

definition local_log_dir :: "local_resolver \<Rightarrow> string \<Rightarrow> string \<Rightarrow> int \<Rightarrow> string res" where
  "local_log_dir r node_type host port =
     (if lr_dir r = [] then Err (''failed to resolve log_dir for '' @ node_label host port @ '': cluster directory is empty'')
      else if lr_version r = [] then Err (''failed to resolve log_dir for '' @ node_label host port @ '': version is empty'')
      else Ok (path_join [lr_dir r, ''v'' @ lr_version r, node_type @ ''-'' @ itoa port, ''log'']))"

definition local_config_dir :: "local_resolver \<Rightarrow> string \<Rightarrow> string \<Rightarrow> int \<Rightarrow> string res" where
  "local_config_dir r node_type host port =
     (if lr_dir r = [] then Err (''failed to resolve config_dir for '' @ node_label host port @ '': cluster directory is empty'')
      else if lr_version r = [] then Err (''failed to resolve config_dir for '' @ node_label host port @ '': version is empty'')
      else Ok (path_join [lr_dir r, ''v'' @ lr_version r, node_type @ ''-'' @ itoa port, ''config'']))"

definition local_bin_dir :: "local_resolver \<Rightarrow> string res" where
  "local_bin_dir r =
     (if lr_dir r = [] then Err ''failed to resolve bin_dir: cluster directory is empty''
      else if lr_version r = [] then Err ''failed to resolve bin_dir: version is empty''
      else Ok (path_join [lr_dir r, ''v'' @ lr_version r, ''bin'']))"

definition file_in :: "string res \<Rightarrow> string \<Rightarrow> string res" where
  "file_in d name = (case d of Inl e \<Rightarrow> Err e | Inr p \<Rightarrow> Ok (path_join [p, name]))"

definition local_config_file :: "local_resolver \<Rightarrow> string \<Rightarrow> string \<Rightarrow> int \<Rightarrow> string res" where
  "local_config_file r node_type host port = file_in (local_config_dir r node_type host port) (node_type @ ''.conf'')"

definition local_log_file :: "local_resolver \<Rightarrow> string \<Rightarrow> string \<Rightarrow> int \<Rightarrow> string res" where
  "local_log_file r node_type host port = file_in (local_log_dir r node_type host port) (node_type @ ''.log'')"

section \<open>The remote resolver\<close>

text \<open>A \<^verbatim>\<open>RemotePathResolver\<close> is the global configuration. Its base directory is computed in three places.\<close>

definition remote_deploy_dir :: "global_config \<Rightarrow> string \<Rightarrow> string" where
  "remote_deploy_dir g inst =
     (if inst \<noteq> [] \<and> is_abs inst then inst
      else if inst \<noteq> [] then path_join [''/home'', g_user g, g_deploy_dir g, inst]
      else g_deploy_dir g)"

definition remote_data_dir :: "global_config \<Rightarrow> string \<Rightarrow> int \<Rightarrow> string \<Rightarrow> string \<Rightarrow> string res" where
  "remote_data_dir g host port inst_deploy inst_data =
     (if inst_data \<noteq> [] \<and> is_abs inst_data then Ok inst_data
      else let d = remote_deploy_dir g inst_deploy in
        if inst_data \<noteq> [] then Ok (path_join [d, inst_data])
        else if g_data_dir g \<noteq> [] \<and> is_abs (g_data_dir g) then Ok (path_join [g_data_dir g, ''mongod-'' @ itoa port])
        else Ok (path_join [d, ''data'']))"

definition remote_log_dir :: "global_config \<Rightarrow> string \<Rightarrow> string \<Rightarrow> int \<Rightarrow> string \<Rightarrow> string \<Rightarrow> string res" where
  "remote_log_dir g node_type host port inst_deploy inst_log =
     (if inst_log \<noteq> [] \<and> is_abs inst_log then Ok inst_log
      else let d = remote_deploy_dir g inst_deploy in
        if inst_log \<noteq> [] then Ok (path_join [d, inst_log])
        else if g_log_dir g \<noteq> [] \<and> is_abs (g_log_dir g) then Ok (path_join [g_log_dir g, node_type @ ''-'' @ itoa port])
        else Ok (path_join [d, ''log'']))"

definition remote_config_dir :: "global_config \<Rightarrow> string \<Rightarrow> string \<Rightarrow> int \<Rightarrow> string \<Rightarrow> string \<Rightarrow> string res" where
  "remote_config_dir g node_type host port inst_deploy inst_config =
     (if inst_config \<noteq> [] \<and> is_abs inst_config then Ok inst_config
      else let d = remote_deploy_dir g inst_deploy in
        if inst_config \<noteq> [] then Ok (path_join [d, inst_config])
        else if g_config_dir g \<noteq> [] \<and> is_abs (g_config_dir g) then Ok (path_join [g_config_dir g, node_type @ ''-'' @ itoa port])
        else Ok (path_join [d, ''conf'']))"

definition remote_bin_dir :: "global_config \<Rightarrow> string res" where
  "remote_bin_dir g =
     (if g_deploy_dir g = [] then Err ''failed to resolve bin_dir: global deploy_dir is empty''
      else Ok (path_join [g_deploy_dir g, ''bin'']))"

definition remote_config_file :: "global_config \<Rightarrow> string \<Rightarrow> string \<Rightarrow> int \<Rightarrow> string \<Rightarrow> string \<Rightarrow> string res" where
  "remote_config_file g node_type host port inst_deploy inst_config =
     file_in (remote_config_dir g node_type host port inst_deploy inst_config) (node_type @ ''.conf'')"

definition remote_log_file :: "global_config \<Rightarrow> string \<Rightarrow> string \<Rightarrow> int \<Rightarrow> string \<Rightarrow> string \<Rightarrow> string res" where
  "remote_log_file g node_type host port inst_deploy inst_log =
     file_in (remote_log_dir g node_type host port inst_deploy inst_log) (node_type @ ''.log'')"

section \<open>The interface of the resolvers\<close>

text \<open>
  What the rest of the program relies on in a resolver: files lie directly in the directory of their
  kind, under a name that the type of the node determines.
\<close>

locale path_resolver =
  fixes config_dir log_dir config_file log_file :: "string \<Rightarrow> string \<Rightarrow> int \<Rightarrow> string res"
  assumes config_file: "config_file t h p = file_in (config_dir t h p) (t @ ''.conf'')"
    and log_file: "log_file t h p = file_in (log_dir t h p) (t @ ''.log'')"
begin

lemma config_file_fails: "config_file t h p = Err e \<longleftrightarrow> config_dir t h p = Err e"
  by (simp add: config_file file_in_def split: sum.split)

lemma log_file_fails: "log_file t h p = Err e \<longleftrightarrow> log_dir t h p = Err e"
  by (simp add: log_file file_in_def split: sum.split)

lemma config_file_in_dir:
  assumes "config_dir t h p = Ok (abs_path cs)" "comps_ok cs" "comp_ok (t @ ''.conf'')"
  shows "config_file t h p = Ok (abs_path (cs @ [t @ ''.conf'']))"
    "path_dir (abs_path (cs @ [t @ ''.conf''])) = abs_path cs"
  using assms by (simp_all add: config_file file_in_def path_join_abs comps_ok_def)

lemma config_files_apart:
  assumes "config_dir t h p = Ok (abs_path cs)" "comps_ok cs" "config_dir t' h' p' = Ok (abs_path ds)" "comps_ok ds"
    "comp_ok (t @ ''.conf'')" "comp_ok (t' @ ''.conf'')" "cs \<noteq> ds"
  shows "config_file t h p \<noteq> config_file t' h' p'"
proof -
  have "comps_ok (cs @ [t @ ''.conf''])" "comps_ok (ds @ [t' @ ''.conf''])"
    using assms by (simp_all add: comps_ok_def)
  then show ?thesis
    using config_file_in_dir(1) [OF assms(1,2,5)] config_file_in_dir(1) [OF assms(3,4,6)] assms(7) by simp
qed

end

interpretation local: path_resolver "local_config_dir r" "local_log_dir r" "local_config_file r" "local_log_file r" for r
  by unfold_locales (simp_all add: local_config_file_def local_log_file_def)

interpretation remote: path_resolver "\<lambda>t h p. remote_config_dir g t h p d c" "\<lambda>t h p. remote_log_dir g t h p d l"
  "\<lambda>t h p. remote_config_file g t h p d c" "\<lambda>t h p. remote_log_file g t h p d l" for g d c l
  by unfold_locales (simp_all add: remote_config_file_def remote_log_file_def)

section \<open>Directories of nodes\<close>

lemma append_dash_inject:
  assumes "0 \<le> i" "0 \<le> j"
  shows "h @ ''-'' @ itoa i = k @ ''-'' @ itoa j \<longleftrightarrow> h = k \<and> i = j"
proof
  assume eq: "h @ ''-'' @ itoa i = k @ ''-'' @ itoa j"
  have tail: "takeWhile (\<lambda>c. c \<noteq> CHR ''-'') (rev (x @ ''-'' @ itoa n)) = rev (itoa n)" if "0 \<le> n" for x n
  proof -
    have "\<forall>c \<in> set (rev (itoa n)). c \<noteq> CHR ''-''" using itoa_nonneg_digits [OF that] not_digit_minus by auto
    then have "takeWhile (\<lambda>c. c \<noteq> CHR ''-'') (rev (itoa n) @ CHR ''-'' # rev x) = rev (itoa n)"
      by (subst takeWhile_append2) auto
    then show ?thesis by simp
  qed
  from eq have "rev (itoa i) = rev (itoa j)" using tail [OF assms(1), of h] tail [OF assms(2), of k] by metis
  then show "h = k \<and> i = j" using eq by simp
qed simp

lemma node_comp_ok: "x \<noteq> [] \<Longrightarrow> slash \<notin> set x \<Longrightarrow> comp_ok (x @ ''-'' @ itoa n)"
  using comp_ok_itoa_suffix [of x n] by simp

lemma comp_ok_c [simp]: "comp_ok ''c''"
  by (simp add: comp_ok_def dot_def dotdot_def)

lemma path_lit_ok [simp]: "comp_ok ''data''" "comp_ok ''config''" "comp_ok ''log''" "comp_ok ''bin''"
  "comp_ok ''current''" "comp_ok ''previous''" "comp_ok ''next''"
  by (simp_all add: comp_ok_def dot_def dotdot_def)

definition version_ok :: "string \<Rightarrow> bool" where
  "version_ok v = (v \<noteq> [] \<and> slash \<notin> set v \<and> v \<noteq> dot)"

lemma version_comp_ok: "version_ok v \<Longrightarrow> comp_ok (''v'' @ v)"
  by (auto simp: version_ok_def comp_ok_def dot_def dotdot_def)

definition host_ok :: "string \<Rightarrow> bool" where
  "host_ok h = (h \<noteq> [] \<and> slash \<notin> set h)"

lemma layout_paths:
  assumes "comps_ok cs" "version_ok v" "host_ok t"
  shows "version_dir (abs_path cs) v = abs_path (cs @ [''v'' @ v])"
    "layout_process_dir (abs_path cs) v t p = abs_path (cs @ [''v'' @ v, t @ ''-'' @ itoa p])"
    "layout_config_dir (abs_path cs) v t p = abs_path (cs @ [''v'' @ v, t @ ''-'' @ itoa p, ''config''])"
    "layout_log_dir (abs_path cs) v t p = abs_path (cs @ [''v'' @ v, t @ ''-'' @ itoa p, ''log''])"
    "layout_bin_dir (abs_path cs) v = abs_path (cs @ [''v'' @ v, ''bin''])"
  using assms version_comp_ok [of v] node_comp_ok [of t p]
  by (simp_all add: version_dir_def layout_process_dir_def layout_config_dir_def layout_log_dir_def layout_bin_dir_def
      host_ok_def path_join_abs comps_ok_def)

lemma node_data_path:
  "comps_ok cs \<Longrightarrow> host_ok h \<Longrightarrow> node_data_dir (abs_path cs) h p = abs_path (cs @ [''data'', h @ ''-'' @ itoa p])"
  using node_comp_ok [of h p]
  by (simp add: node_data_dir_def layout_data_dir_def host_ok_def path_join_abs comps_ok_def)

text \<open>
  The two components that compute paths agree: for a cluster directory and a version the local
  resolver gives the directories of the layout.
\<close>
theorem resolver_matches_layout:
  assumes "comps_ok cs" "version_ok v" "host_ok t" "host_ok h"
  shows "local_data_dir \<lparr>lr_dir = abs_path cs, lr_version = v\<rparr> h p = Ok (node_data_dir (abs_path cs) h p) \<and>
    local_config_dir \<lparr>lr_dir = abs_path cs, lr_version = v\<rparr> t h p = Ok (layout_config_dir (abs_path cs) v t p) \<and>
    local_log_dir \<lparr>lr_dir = abs_path cs, lr_version = v\<rparr> t h p = Ok (layout_log_dir (abs_path cs) v t p) \<and>
    local_bin_dir \<lparr>lr_dir = abs_path cs, lr_version = v\<rparr> = Ok (layout_bin_dir (abs_path cs) v)"
  using assms version_comp_ok [of v] node_comp_ok [of t p] node_comp_ok [of h p]
  by (simp add: local_data_dir_def local_config_dir_def local_log_dir_def local_bin_dir_def layout_paths
      node_data_path host_ok_def version_ok_def path_join_abs comps_ok_def)

lemma resolver_matches_layout_witness:
  "local_config_dir \<lparr>lr_dir = abs_path [''c''], lr_version = ''7.0''\<rparr> ''mongod'' ''h'' 30000
     = Ok (layout_config_dir (abs_path [''c'']) ''7.0'' ''mongod'' 30000)"
  using resolver_matches_layout [of "[''c'']" "''7.0''" "''mongod''" "''h''" 30000]
  by (simp add: comps_ok_def comp_ok_def version_ok_def host_ok_def dot_def dotdot_def)



section \<open>Switching versions\<close>

lemma wp_replace_link:
  assumes clean: "path_clean link = link"
    and Q: "\<And>e w'. fs_same_except {link} (w_fs w) (w_fs w') \<Longrightarrow>
      (e = None \<Longrightarrow> mget (w_fs w') link = Some (FLink target)) \<Longrightarrow> Q e w'"
  shows "wp (replace_link target link) Q w"
proof (rule wpI)
  fix e w'
  assume "run_state (replace_link target link) w = (e, w')"
  then show "Q e w'"
    by (intro Q) (use clean in \<open>auto simp: replace_link_def os_remove_def os_symlink_def Let_def fs_same_except_def
        split: option.splits if_splits\<close>)
qed

lemma layout_links:
  assumes "comps_ok cs"
  shows "current_link (abs_path cs) = abs_path (cs @ [''current''])" "previous_link (abs_path cs) = abs_path (cs @ [''previous''])"
    "path_clean (current_link (abs_path cs)) = current_link (abs_path cs)"
    "path_clean (previous_link (abs_path cs)) = previous_link (abs_path cs)"
    "current_link (abs_path cs) \<noteq> previous_link (abs_path cs)"
  using assms by (simp_all add: current_link_def previous_link_def path_join_abs comps_ok_def)

text \<open>
  C27. Whatever fails, activating a version changes nothing but the two links, and when it reports success
  the link \<^verbatim>\<open>current\<close> points to the new version; and if \<^verbatim>\<open>current\<close> could be read and pointed somewhere
  else than to nothing, \<^verbatim>\<open>previous\<close> points there now.
\<close>
theorem activate_switches:
  assumes cs: "comps_ok cs" and old: "mget (w_fs w) (current_link (abs_path cs)) = Some (FLink t)" "t \<noteq> []"
    and readable: "w_faults w (w_nio w) = None"
  shows "wp (activate_version (abs_path cs) v) (\<lambda>e w'.
      fs_same_except {current_link (abs_path cs), previous_link (abs_path cs)} (w_fs w) (w_fs w') \<and>
      (e = None \<longrightarrow> mget (w_fs w') (current_link (abs_path cs)) = Some (FLink (''v'' @ v)) \<and>
         mget (w_fs w') (previous_link (abs_path cs)) = Some (FLink t))) w"
proof -
  let ?c = "current_link (abs_path cs)" and ?p = "previous_link (abs_path cs)"
  note l = layout_links [OF cs]
  have read: "run_state (os_readlink ?c) w = (Inr t, w\<lparr>w_nio := Suc (w_nio w)\<rparr>)"
    using old readable l by (simp add: os_readlink_def)
  have "wp (replace_link t ?p) (\<lambda>p. wp (case p of
       Some e \<Rightarrow> ret (Some (wrapf ''failed to create previous symlink'' (os_msg e)))
     | None \<Rightarrow> do {
         e \<leftarrow> replace_link (''v'' @ v) ?c;
         ret (map_option (\<lambda>m. wrapf ''failed to create current symlink'' (os_msg m)) e) })
     (\<lambda>e w'. fs_same_except {?c, ?p} (w_fs w) (w_fs w') \<and>
      (e = None \<longrightarrow> mget (w_fs w') ?c = Some (FLink (''v'' @ v)) \<and> mget (w_fs w') ?p = Some (FLink t))))
     (w\<lparr>w_nio := Suc (w_nio w)\<rparr>)"
  proof (rule wp_replace_link [OF l(4)])
    fix p :: "os_err option" and w1 :: world
    assume one: "fs_same_except {?p} (w_fs (w\<lparr>w_nio := Suc (w_nio w)\<rparr>)) (w_fs w1)" "p = None \<Longrightarrow> mget (w_fs w1) ?p = Some (FLink t)"
    have "wp (replace_link (''v'' @ v) ?c) (\<lambda>e w'. fs_same_except {?c, ?p} (w_fs w) (w_fs w') \<and>
      (e = None \<longrightarrow> mget (w_fs w') ?c = Some (FLink (''v'' @ v)) \<and> mget (w_fs w') ?p = Some (FLink t))) w1" if "p = None"
    proof (rule wp_replace_link [OF l(3)])
      fix e :: "os_err option" and w2 :: world
      assume two: "fs_same_except {?c} (w_fs w1) (w_fs w2)" "e = None \<Longrightarrow> mget (w_fs w2) ?c = Some (FLink (''v'' @ v))"
      then have "mget (w_fs w2) ?p = Some (FLink t)" using one(2) that l(5) by (simp add: fs_same_except_def)
      moreover have "fs_same_except {?c, ?p} (w_fs w) (w_fs w2)"
        using one(1) two(1) by (simp add: fs_same_except_def)
      ultimately show "fs_same_except {?c, ?p} (w_fs w) (w_fs w2) \<and>
        (e = None \<longrightarrow> mget (w_fs w2) ?c = Some (FLink (''v'' @ v)) \<and> mget (w_fs w2) ?p = Some (FLink t))"
        using two(2) by blast
    qed
    then show "wp (case p of
       Some e \<Rightarrow> ret (Some (wrapf ''failed to create previous symlink'' (os_msg e)))
     | None \<Rightarrow> do {
         e \<leftarrow> replace_link (''v'' @ v) ?c;
         ret (map_option (\<lambda>m. wrapf ''failed to create current symlink'' (os_msg m)) e) })
     (\<lambda>e w'. fs_same_except {?c, ?p} (w_fs w) (w_fs w') \<and>
      (e = None \<longrightarrow> mget (w_fs w') ?c = Some (FLink (''v'' @ v)) \<and> mget (w_fs w') ?p = Some (FLink t))) w1"
      using one(1) by (cases p) (auto simp: fs_same_except_def)
  qed
  then show ?thesis
    using old(2) unfolding activate_version_def wp_bind
    by (simp add: wp_def [of "os_readlink ?c"] read)
qed

text \<open>A cluster directory with a current version, and a machine whose sixth system call fails.\<close>

definition linked_world :: "(nat \<Rightarrow> fault option) \<Rightarrow> world" where
  "linked_world flt = example_world\<lparr>w_fs := [(''/c'', FDir), (''/c/current'', FLink ''v6.0'')], w_faults := flt\<rparr>"

lemma linked_paths: "current_link (abs_path [''c'']) = ''/c/current''" "previous_link (abs_path [''c'']) = ''/c/previous''"
  "comps_ok [''c'']"
  by (simp_all add: current_link_def previous_link_def path_join_def path_clean_def abs_path_def is_abs_def comps_ok_def
      comp_ok_def dot_def dotdot_def)

lemma activate_switches_witness:
  "wp (activate_version (abs_path [''c'']) ''7.0'') (\<lambda>e w'. e = None \<longrightarrow>
     mget (w_fs w') ''/c/current'' = Some (FLink ''v7.0'') \<and> mget (w_fs w') ''/c/previous'' = Some (FLink ''v6.0''))
     (linked_world (\<lambda>_. None))"
  using activate_switches [of "[''c'']" "linked_world (\<lambda>_. None)" "''v6.0''" "''7.0''"]
  by (rule wp_mono) (simp_all add: linked_paths linked_world_def)

text \<open>
  Activation is not atomic: when the last system call fails, the old link is gone and no version is
  current.
\<close>
theorem activate_loses_current:
  "mget (w_fs (linked_world (\<lambda>n. if n = 4 then Some (Fault ''no space left'' None) else None))) (current_link (abs_path [''c''])) = Some (FLink ''v6.0'') \<and>
   (case run_state (activate_version (abs_path [''c'']) ''7.0'') (linked_world (\<lambda>n. if n = 4 then Some (Fault ''no space left'' None) else None)) of
      (e, w') \<Rightarrow> e \<noteq> None \<and> mget (w_fs w') (current_link (abs_path [''c''])) = None)"
  unfolding activate_version_def linked_paths
  by (simp add: linked_world_def example_world_def replace_link_def os_readlink_def os_remove_def os_symlink_def path_clean_def
      is_abs_def abs_path_def dot_def dotdot_def is_dir_def mhas_def path_dir_def fs_children_def Let_def)

end
