(* ===== verification/Versions.thy ===== *)
theory Versions imports Go_Strings begin

text \<open>
  \<^verbatim>\<open>pkg/upgrade/version.go\<close>, \<^verbatim>\<open>pkg/mongo/version.go\<close> and \<^verbatim>\<open>pkg/deploy/variant.go\<close>: versions of MongoDB, their
  order, the upgrades that are allowed, and the shell of a version.
\<close>

section \<open>Versions\<close>

datatype mongo_version = MongoVersion (mv_major: int) (mv_minor: int) (mv_patch: int) (mv_raw: string)

definition parse_version :: "string \<Rightarrow> mongo_version res" where
  "parse_version version =
     (let parts = split_on CHR ''.'' version in
      if length parts < 2 then Err (''invalid version format: '' @ version @ '' (expected major.minor.patch)'')
      else case atoi (parts ! 0) of
        None \<Rightarrow> Err (''invalid major version: '' @ parts ! 0)
      | Some major \<Rightarrow> (case atoi (parts ! 1) of
          None \<Rightarrow> Err (''invalid minor version: '' @ parts ! 1)
        | Some minor \<Rightarrow>
            if length parts \<ge> 3
            then (case atoi (parts ! 2) of
                None \<Rightarrow> Err (''invalid patch version: '' @ parts ! 2)
              | Some patch \<Rightarrow> Ok (MongoVersion major minor patch version))
            else Ok (MongoVersion major minor 0 version)))"

definition compare_versions :: "mongo_version \<Rightarrow> mongo_version \<Rightarrow> int" where
  "compare_versions v w =
     (if mv_major v \<noteq> mv_major w then if mv_major v < mv_major w then -1 else 1
      else if mv_minor v \<noteq> mv_minor w then if mv_minor v < mv_minor w then -1 else 1
      else if mv_patch v \<noteq> mv_patch w then if mv_patch v < mv_patch w then -1 else 1
      else 0)"

definition version_string :: "mongo_version \<Rightarrow> string" where
  "version_string v = itoa (mv_major v) @ ''.'' @ itoa (mv_minor v) @ ''.'' @ itoa (mv_patch v)"

section \<open>Upgrade paths\<close>

text \<open>The arrow of the messages, in UTF-8.\<close>

definition arrow :: string where "arrow = [CHR 0xE2, CHR 0x86, CHR 0x92]"

definition path_text :: string where
  "path_text = ''3.6'' @ arrow @ ''4.0'' @ arrow @ ''4.2'' @ arrow @ ''4.4'' @ arrow @ ''5.0'' @ arrow @ ''6.0'' @ arrow
     @ ''7.0'' @ arrow @ ''8.0''"

definition allowed_transitions :: "(string, string) gomap" where
  "allowed_transitions = [(''3.6'', ''4.0''), (''4.0'', ''4.2''), (''4.2'', ''4.4''), (''4.4'', ''5.0''), (''5.0'', ''6.0''),
     (''6.0'', ''7.0''), (''7.0'', ''8.0'')]"

definition version_key :: "mongo_version \<Rightarrow> string" where
  "version_key v = itoa (mv_major v) @ ''.'' @ itoa (mv_minor v)"

definition validate_upgrade_path :: "mongo_version \<Rightarrow> mongo_version \<Rightarrow> err option" where
  "validate_upgrade_path source target =
     (if compare_versions target source \<le> 0 then Some (''cannot downgrade from '' @ mv_raw source @ '' to '' @ mv_raw target)
      else if mv_major source = mv_major target \<and> mv_minor source = mv_minor target then None
      else
        let expected = (case mget allowed_transitions (version_key source) of None \<Rightarrow> [] | Some k \<Rightarrow> k) in
        if expected = []
        then Some (''cannot upgrade from '' @ mv_raw source @ '': version '' @ version_key source
               @ '' is not in the supported upgrade path ('' @ path_text @ '')'')
        else if version_key target \<noteq> expected
        then Some (''cannot upgrade from '' @ mv_raw source @ '' to '' @ mv_raw target @ '': must upgrade to '' @ expected
               @ '' next (upgrade path: '' @ path_text @ '')'')
        else None)"

definition validate_upgrade_path_strings :: "string \<Rightarrow> string \<Rightarrow> err option" where
  "validate_upgrade_path_strings source target = (case parse_version source of
     Inl e \<Rightarrow> Some (wrapf ''invalid source version'' e)
   | Inr s \<Rightarrow> (case parse_version target of
       Inl e \<Rightarrow> Some (wrapf ''invalid target version'' e)
     | Inr t \<Rightarrow> validate_upgrade_path s t))"

section \<open>Shells and variants\<close>

text \<open>\<^verbatim>\<open>Sscanf\<close> leaves the variable at 0 when it finds no number.\<close>

definition is_version5_or_higher :: "string \<Rightarrow> bool" where
  "is_version5_or_higher version =
     (case split_on CHR ''.'' version of
        [] \<Rightarrow> False
      | p # _ \<Rightarrow> (case sscanf_d p of None \<Rightarrow> 0 | Some n \<Rightarrow> n) \<ge> 5)"

definition get_shell_binary :: "string \<Rightarrow> string" where
  "get_shell_binary version = (if is_version5_or_higher version then ''mongosh'' else ''mongo'')"

datatype variant = VariantMongo | VariantPercona

fun variant_string :: "variant \<Rightarrow> string" where
  "variant_string VariantMongo = ''mongo''"
| "variant_string VariantPercona = ''percona''"

definition quoted :: "string \<Rightarrow> string" where "quoted s = [CHR 0x27] @ s @ [CHR 0x27]"

definition parse_variant :: "string \<Rightarrow> variant res" where
  "parse_variant s =
     (if s = ''mongo'' \<or> s = [] then Ok VariantMongo
      else if s = ''percona'' then Ok VariantPercona
      else Err (''unknown variant: '' @ s @ '' (expected '' @ quoted ''mongo'' @ '' or '' @ quoted ''percona'' @ '')''))"

section \<open>The order of versions\<close>

instantiation mongo_version :: preorder
begin

definition less_eq_mongo_version :: "mongo_version \<Rightarrow> mongo_version \<Rightarrow> bool" where
  "less_eq_mongo_version v w = (mv_major v < mv_major w \<or> mv_major v = mv_major w \<and>
     (mv_minor v < mv_minor w \<or> mv_minor v = mv_minor w \<and> mv_patch v \<le> mv_patch w))"

definition less_mongo_version :: "mongo_version \<Rightarrow> mongo_version \<Rightarrow> bool" where
  "less_mongo_version v w = (v \<le> w \<and> \<not> w \<le> v)"

instance
  by standard (auto simp: less_eq_mongo_version_def less_mongo_version_def)

end

lemma version_total: "(v :: mongo_version) \<le> w \<or> w \<le> v"
  by (auto simp: less_eq_mongo_version_def)

lemma compare_le_iff: "compare_versions v w \<le> 0 \<longleftrightarrow> v \<le> w"
  by (auto simp: compare_versions_def less_eq_mongo_version_def)

text \<open>
  \<^verbatim>\<open>Compare\<close> decides the order of versions: it returns -1, 0 or 1 as the first version is before, level with
  or after the second, and the order is total and transitive (a preorder: versions written differently may be level).
\<close>
theorem compare_decides:
  "(compare_versions v w = -1 \<longleftrightarrow> v < w) \<and> (compare_versions v w = 1 \<longleftrightarrow> w < v) \<and>
   (compare_versions v w = 0 \<longleftrightarrow> mv_major v = mv_major w \<and> mv_minor v = mv_minor w \<and> mv_patch v = mv_patch w) \<and>
   compare_versions v w = - compare_versions w v"
  by (auto simp: compare_versions_def less_eq_mongo_version_def less_mongo_version_def)

section \<open>Which upgrades are allowed\<close>

lemma dot_notin_itoa: "CHR ''.'' \<notin> set (itoa n)"
proof
  assume "CHR ''.'' \<in> set (itoa n)"
  from itoa_chars [OF this] show False by (simp add: is_digit_def)
qed

lemma split_itoa_dot: "split_on CHR ''.'' (itoa a @ ''.'' @ s) = itoa a # split_on CHR ''.'' s"
  using split_on_append [OF dot_notin_itoa] by simp

lemma key_inject: "itoa a @ ''.'' @ itoa b = itoa c @ ''.'' @ itoa d \<longleftrightarrow> a = c \<and> b = d"
proof
  assume "itoa a @ ''.'' @ itoa b = itoa c @ ''.'' @ itoa d"
  then have "split_on CHR ''.'' (itoa a @ ''.'' @ itoa b) = split_on CHR ''.'' (itoa c @ ''.'' @ itoa d)" by simp
  then show "a = c \<and> b = d" by (simp add: split_itoa_dot split_on_no_sep dot_notin_itoa del: append.simps)
qed simp

text \<open>The releases in the order in which a cluster has to go through them.\<close>

definition releases :: "(int \<times> int) list" where
  "releases = [(3, 6), (4, 0), (4, 2), (4, 4), (5, 0), (6, 0), (7, 0), (8, 0)]"

definition release :: "mongo_version \<Rightarrow> int \<times> int" where
  "release v = (mv_major v, mv_minor v)"

definition key_of :: "int \<times> int \<Rightarrow> string" where
  "key_of r = itoa (fst r) @ ''.'' @ itoa (snd r)"

lemma key_of_inject: "key_of r = key_of q \<longleftrightarrow> r = q"
  using key_inject [of "fst r" "snd r" "fst q" "snd q"] by (auto simp: key_of_def prod_eq_iff)

lemma version_key_eq: "version_key v = key_of (release v)"
  by (simp add: version_key_def key_of_def release_def)

lemma transitions_eq: "allowed_transitions = map (\<lambda>(r, q). (key_of r, key_of q)) (zip releases (tl releases))"
  by (simp add: allowed_transitions_def releases_def key_of_def number_eval)

lemma map_of_keys: "map_of (map (\<lambda>(r, q). (key_of r, key_of q)) xs) (key_of r) = map_option key_of (map_of xs r)"
  by (induction xs) (auto simp: key_of_inject)

lemma next_release: "mget (zip releases (tl releases)) r = Some q \<longleftrightarrow> (r, q) \<in> set (zip releases (tl releases))"
  by (rule map_of_eq_Some_iff) (simp add: releases_def)

lemma expected_release:
  "mget allowed_transitions (version_key v) = Some (version_key w) \<longleftrightarrow> (release v, release w) \<in> set (zip releases (tl releases))"
proof -
  have "(\<exists>z. mget (zip releases (tl releases)) (release v) = Some z \<and> key_of z = key_of (release w)) \<longleftrightarrow>
      mget (zip releases (tl releases)) (release v) = Some (release w)"
    unfolding key_of_inject by blast
  then show ?thesis
    unfolding transitions_eq version_key_eq map_of_keys next_release [symmetric] map_option_eq_Some .
qed

lemma transition_nonempty: "mget allowed_transitions k = Some x \<Longrightarrow> x \<noteq> []"
  by (auto simp: allowed_transitions_def split: if_splits)

definition next_step :: "mongo_version \<Rightarrow> mongo_version \<Rightarrow> bool" where
  "next_step v w = ((release v, release w) \<in> set (zip releases (tl releases)))"

lemma not_downgrade: "compare_versions t s \<le> 0 \<longleftrightarrow> \<not> s < t"
  using version_total [of s t] by (auto simp: compare_le_iff less_mongo_version_def)

lemma same_release: "release s = release t \<longleftrightarrow> mv_major s = mv_major t \<and> mv_minor s = mv_minor t"
  by (simp add: release_def)

lemma upgrade_check:
  "validate_upgrade_path s t = None \<longleftrightarrow> s < t \<and> (release s = release t \<or> next_step s t)"
proof (cases "s < t \<and> release s \<noteq> release t")
  case True
  then have "validate_upgrade_path s t = None \<longleftrightarrow> mget allowed_transitions (version_key s) = Some (version_key t)"
    using transition_nonempty [of "version_key s" "version_key t"]
    by (cases "mget allowed_transitions (version_key s)")
      (auto simp: validate_upgrade_path_def not_downgrade same_release Let_def)
  then show ?thesis using True by (simp add: expected_release next_step_def)
next
  case False
  then show ?thesis by (auto simp: validate_upgrade_path_def not_downgrade same_release)
qed

text \<open>Chains of accepted upgrades.\<close>

inductive upgrades :: "mongo_version \<Rightarrow> mongo_version \<Rightarrow> bool" where
  none: "upgrades v v"
| step: "upgrades u v \<Longrightarrow> validate_upgrade_path v w = None \<Longrightarrow> upgrades u w"

lemma zip_tl_nth: "(r, q) \<in> set (zip xs (tl xs)) \<longleftrightarrow> (\<exists>i. Suc i < length xs \<and> r = xs ! i \<and> q = xs ! Suc i)"
proof
  assume "(r, q) \<in> set (zip xs (tl xs))"
  then obtain i where "i < length xs - 1" "r = xs ! i" "q = xs ! Suc i" by (auto simp: set_zip nth_tl)
  then show "\<exists>i. Suc i < length xs \<and> r = xs ! i \<and> q = xs ! Suc i" by (intro exI [of _ i]) simp
qed (force simp: set_zip nth_tl)

lemma distinct_releases: "distinct releases" "length releases = 8"
  by (simp_all add: releases_def)

lemma chain_at:
  "upgrades u w \<Longrightarrow> release u = releases ! i \<Longrightarrow> i < 8 \<Longrightarrow> u \<le> w \<and> (\<exists>j. i \<le> j \<and> j < 8 \<and> release w = releases ! j \<and>
     (\<forall>k. i \<le> k \<longrightarrow> k \<le> j \<longrightarrow> (\<exists>x. upgrades u x \<and> release x = releases ! k)))"
proof (induction rule: upgrades.induct)
  case (none v)
  then show ?case using upgrades.none [of v] by (intro conjI exI [of _ i]) (auto dest: le_antisym)
next
  case (step u v w)
  then obtain j where j: "i \<le> j" "j < 8" "release v = releases ! j"
    "\<forall>k. i \<le> k \<longrightarrow> k \<le> j \<longrightarrow> (\<exists>x. upgrades u x \<and> release x = releases ! k)" and uv: "u \<le> v" by auto
  have vw: "v < w" "release v = release w \<or> next_step v w" using step.hyps(2) by (simp_all add: upgrade_check)
  have reach: "upgrades u w" using step.hyps by (rule upgrades.step)
  have "u \<le> w" using uv vw(1) by (meson less_imp_le order_trans)
  moreover have "\<exists>j. i \<le> j \<and> j < 8 \<and> release w = releases ! j \<and>
     (\<forall>k. i \<le> k \<longrightarrow> k \<le> j \<longrightarrow> (\<exists>x. upgrades u x \<and> release x = releases ! k))"
    using vw(2)
  proof
    assume "release v = release w"
    then show ?thesis using j by auto
  next
    assume "next_step v w"
    then obtain n where n: "Suc n < 8" "release v = releases ! n" "release w = releases ! Suc n"
      by (auto simp: next_step_def zip_tl_nth distinct_releases)
    then have "n = j" using j distinct_releases by (simp add: nth_eq_iff_index_eq)
    then show ?thesis using n j reach by (intro exI [of _ "Suc j"]) (auto simp: le_Suc_eq)
  qed
  ultimately show ?case ..
qed

text \<open>
  C25. \<^verbatim>\<open>ValidateUpgradePath\<close> accepts exactly the patch upgrades within a release and the steps from one release of
  the path to the next, and so never a downgrade and never a step that skips a release.
\<close>
theorem upgrade_path_iff:
  "validate_upgrade_path s t = None \<longleftrightarrow> s < t \<and>
     (mv_major s = mv_major t \<and> mv_minor s = mv_minor t \<or>
      (\<exists>i. Suc i < length releases \<and> (mv_major s, mv_minor s) = releases ! i \<and> (mv_major t, mv_minor t) = releases ! Suc i))"
  unfolding upgrade_check next_step_def zip_tl_nth same_release by (simp add: release_def)

text \<open>
  No sequence of accepted upgrades, however long, skips a release: a cluster that came from one release of the
  path to a later one by accepted upgrades has been at every release in between, and has never gone back.
\<close>
theorem upgrades_skip_nothing:
  assumes "upgrades u w" "(mv_major u, mv_minor u) = releases ! i" "i < 8"
  shows "u \<le> w \<and> (\<exists>j. i \<le> j \<and> j < 8 \<and> (mv_major w, mv_minor w) = releases ! j \<and>
     (\<forall>k. i \<le> k \<longrightarrow> k \<le> j \<longrightarrow> (\<exists>x. upgrades u x \<and> (mv_major x, mv_minor x) = releases ! k)))"
  using chain_at [OF assms(1), of i] assms(2,3) by (simp add: release_def)

lemma upgrades_skip_nothing_witness:
  "\<exists>j. 5 \<le> j \<and> j < 8 \<and> (mv_major (MongoVersion 7 0 1 ''7.0.1''), mv_minor (MongoVersion 7 0 1 ''7.0.1'')) = releases ! j"
proof -
  let ?u = "MongoVersion 6 0 3 ''6.0.3''" and ?w = "MongoVersion 7 0 1 ''7.0.1''"
  have "validate_upgrade_path ?u ?w = None"
    by (simp add: upgrade_check less_mongo_version_def less_eq_mongo_version_def release_def next_step_def releases_def)
  then have "upgrades ?u ?w" using upgrades.step [OF upgrades.none] by blast
  from upgrades_skip_nothing [OF this, of 5] show ?thesis by (auto simp: releases_def)
qed

section \<open>Parsing\<close>

lemma atoi_sscanf: "atoi s = Some n \<Longrightarrow> sscanf_d s = Some n"
proof -
  assume a: "atoi s = Some n"
  obtain neg ds where sp: "split_sign s = (neg, ds)" by fastforce
  then have ds: "ds \<noteq> []" "list_all is_digit ds" "in_int64 (signed_val neg ds)" "n = signed_val neg ds"
    using a by (auto simp: atoi_def split: if_splits)
  have tw: "takeWhile is_digit ds = ds" using ds(2) by (simp add: list_all_iff takeWhile_eq_all_conv)
  have dw: "dropWhile is_space s = s"
  proof (cases s)
    case (Cons c cs)
    then have "c \<in> {CHR ''-'', CHR ''+''} \<or> is_digit c"
      using sp ds(1,2) by (auto simp: split_sign_def split: if_splits)
    then have "\<not> is_space c" by (auto simp: is_space_def is_digit_def)
    then show ?thesis using Cons by simp
  qed simp
  show ?thesis using ds by (simp add: sscanf_d_def Let_def sp tw dw)
qed

text \<open>
  The two version parsers of the program agree: on a version that \<^verbatim>\<open>ParseVersion\<close> accepts, the shell is \<^verbatim>\<open>mongosh\<close>
  exactly from major version 5 on.
\<close>
theorem shell_matches_version:
  assumes "parse_version s = Ok v"
  shows "get_shell_binary s = (if 5 \<le> mv_major v then ''mongosh'' else ''mongo'')"
proof -
  obtain p ps where parts: "split_on CHR ''.'' s = p # ps" by (cases "split_on CHR ''.'' s") auto
  have "atoi p = Some (mv_major v)"
    using assms parts by (auto simp: parse_version_def Let_def split: if_splits option.splits)
  from atoi_sscanf [OF this] show ?thesis
    by (simp add: get_shell_binary_def is_version5_or_higher_def parts)
qed

lemma shell_matches_version_witness: "get_shell_binary ''4.4.1'' = ''mongo''"
  using shell_matches_version [of "''4.4.1''" "MongoVersion 4 4 1 ''4.4.1''"]
  by (simp add: parse_version_def atoi_def split_sign_def signed_val_def is_digit_def digit_val_def in_int64_def
      int64_min_def int64_max_def)

text \<open>
  Versions survive printing: parsing the three-part form of a version gives the version back.
\<close>
theorem parse_version_string:
  assumes "in_int64 (mv_major v)" "in_int64 (mv_minor v)" "in_int64 (mv_patch v)"
  shows "parse_version (version_string v) = Ok (MongoVersion (mv_major v) (mv_minor v) (mv_patch v) (version_string v))"
proof -
  have "split_on CHR ''.'' (version_string v) = [itoa (mv_major v), itoa (mv_minor v), itoa (mv_patch v)]"
    by (simp add: version_string_def split_itoa_dot split_on_no_sep dot_notin_itoa del: append.simps)
  then show ?thesis using assms by (simp add: parse_version_def Let_def)
qed

lemma parse_version_string_witness:
  "parse_version ''7.0.26'' = Ok (MongoVersion 7 0 26 ''7.0.26'')"
  using parse_version_string [of "MongoVersion 7 0 26 []"]
  by (simp add: version_string_def number_eval in_int64_def int64_min_def int64_max_def)

end
