(* ===== verification/Path_Sim.thy ===== *)
theory Path_Sim imports Go_World begin

text \<open>
  \<^verbatim>\<open>pkg/paths/simulator.go\<close>: an in-memory file system for tests of path logic. Its operations hold a lock from
  start to end, so each is one step.
\<close>

section \<open>The simulator\<close>

record path_sim =
  sim_files :: "(string, bool) gomap"     \<comment> \<open>path, and whether it is a directory\<close>
  sim_links :: "(string, string) gomap"
  sim_ops :: "string list"

definition new_path_simulator :: path_sim where
  "new_path_simulator = \<lparr>sim_files = [], sim_links = [], sim_ops = []\<rparr>"

text \<open>
  The loop over the parents; a step goes to the parent directory. The fuel is the length of the path:
  every step but a last one from a one-letter name shortens the path.
\<close>

fun sim_parents :: "nat \<Rightarrow> string \<Rightarrow> string \<Rightarrow> (string, bool) gomap \<Rightarrow> (string, bool) gomap" where
  "sim_parents 0 path d files = files"
| "sim_parents (Suc n) path d files =
     (if d \<noteq> dot \<and> d \<noteq> [slash] \<and> d \<noteq> path then
        (if d = path_dir d then mput d True files
         else sim_parents n path (path_dir d) (mput d True files))
      else files)"

definition sim_mkdir_all :: "string \<Rightarrow> path_sim \<Rightarrow> err option \<times> path_sim" where
  "sim_mkdir_all p s =
     (let path = path_clean p in
      (None, s\<lparr>sim_files := sim_parents (length path) path (path_dir path) (mput path True (sim_files s)),
               sim_ops := sim_ops s @ [''mkdir -p '' @ path]\<rparr>))"

text \<open>The loop of \<^verbatim>\<open>CreateFile\<close> over the components of the parent.\<close>

fun sim_parts :: "string list \<Rightarrow> string \<Rightarrow> (string, bool) gomap \<Rightarrow> (string, bool) gomap" where
  "sim_parts [] cur files = files"
| "sim_parts (p # ps) cur files =
     (if p = [] then sim_parts ps cur files
      else let cur' = (if cur = [] then p else path_join [cur, p]) in sim_parts ps cur' (mput cur' True files))"

definition sim_create_file :: "string \<Rightarrow> path_sim \<Rightarrow> err option \<times> path_sim" where
  "sim_create_file p s =
     (let path = path_clean p; d = path_dir path;
          files = (if d \<noteq> dot \<and> d \<noteq> [slash] then sim_parts (split_on slash d) [] (sim_files s) else sim_files s) in
      (None, s\<lparr>sim_files := mput path False files, sim_ops := sim_ops s @ [''touch '' @ path]\<rparr>))"

definition sim_symlink :: "string \<Rightarrow> string \<Rightarrow> path_sim \<Rightarrow> err option \<times> path_sim" where
  "sim_symlink target link s =
     (let p = path_clean link in
      (None, s\<lparr>sim_links := mput p target (sim_links s), sim_ops := sim_ops s @ [''ln -s '' @ target @ '' '' @ p]\<rparr>))"

definition sim_remove :: "string \<Rightarrow> path_sim \<Rightarrow> err option \<times> path_sim" where
  "sim_remove p0 s =
     (let p = path_clean p0 in
      (None, s\<lparr>sim_files := mdel p (sim_files s), sim_links := mdel p (sim_links s), sim_ops := sim_ops s @ [''rm '' @ p]\<rparr>))"

definition sim_exists :: "string \<Rightarrow> path_sim \<Rightarrow> bool" where
  "sim_exists p s = (mhas (sim_files s) (path_clean p) \<or> mhas (sim_links s) (path_clean p))"

definition sim_is_dir :: "string \<Rightarrow> path_sim \<Rightarrow> bool" where
  "sim_is_dir p s = (mget (sim_files s) (path_clean p) = Some True)"

definition sim_is_symlink :: "string \<Rightarrow> path_sim \<Rightarrow> bool" where
  "sim_is_symlink p s = mhas (sim_links s) (path_clean p)"

definition sim_read_symlink :: "string \<Rightarrow> path_sim \<Rightarrow> string res" where
  "sim_read_symlink p s = (case mget (sim_links s) (path_clean p) of
     None \<Rightarrow> Err (''not a symlink: '' @ path_clean p)
   | Some t \<Rightarrow> Ok t)"

definition sim_operations :: "path_sim \<Rightarrow> string list" where "sim_operations s = sim_ops s"
definition sim_reset :: "path_sim \<Rightarrow> path_sim" where "sim_reset s = new_path_simulator"
definition sim_list_files :: "path_sim \<Rightarrow> string list" where "sim_list_files s = mkeys (sim_files s)"
definition sim_list_symlinks :: "path_sim \<Rightarrow> (string, string) gomap" where "sim_list_symlinks s = sim_links s"

section \<open>Directories\<close>

lemma path_dir_take:
  assumes "comps_ok cs" "0 < k" "k \<le> length cs"
  shows "path_dir (abs_path (take k cs)) = abs_path (take (k - 1) cs)"
proof -
  have "take k cs = take (k - 1) cs @ [cs ! (k - 1)]" using assms by (cases k) (simp_all add: take_Suc_conv_app_nth)
  moreover have "comps_ok (take (k - 1) cs)" "comp_ok (cs ! (k - 1))"
    using assms by (auto simp: comps_ok_def list_all_iff dest: in_set_takeD)
  ultimately show ?thesis by simp
qed

lemma comps_ok_take [simp]: "comps_ok cs \<Longrightarrow> comps_ok (take k cs)"
  by (auto simp: comps_ok_def list_all_iff dest: in_set_takeD)

lemma abs_path_root: "abs_path cs = [slash] \<longleftrightarrow> cs = []" if "comps_ok cs"
  using abs_path_inject [OF that, of "[]"] by (simp add: abs_path_def)

lemma abs_path_not_dot [simp]: "abs_path cs \<noteq> dot"
  by (simp add: abs_path_def dot_def)

lemma sim_parents_abs:
  assumes "comps_ok cs" "k < length cs" "k \<le> n"
  shows "mget (sim_parents (Suc n) (abs_path cs) (abs_path (take k cs)) m) q =
    (if \<exists>j \<in> {1..k}. q = abs_path (take j cs) then Some True else mget m q)"
  using assms(2,3)
proof (induction k arbitrary: n m)
  case 0
  then show ?case by (auto simp: abs_path_def)
next
  case (Suc k)
  obtain n' where n: "n = Suc n'" using Suc.prems by (cases n) auto
  have ne: "abs_path (take (Suc k) cs) \<noteq> [slash]" "abs_path (take (Suc k) cs) \<noteq> abs_path cs"
    using assms(1) Suc.prems by (auto simp: abs_path_root dest: arg_cong [where f = length])
  have dir: "path_dir (abs_path (take (Suc k) cs)) = abs_path (take k cs)"
    using path_dir_take [OF assms(1), of "Suc k"] Suc.prems by simp
  moreover have "abs_path (take (Suc k) cs) \<noteq> abs_path (take k cs)"
    using assms(1) Suc.prems by (auto dest: arg_cong [where f = length])
  ultimately show ?case
    using ne Suc.IH [of n' "mput (abs_path (take (Suc k) cs)) True m"] Suc.prems n
    by (auto simp: le_Suc_eq simp del: sim_parents.simps simp add: sim_parents.simps(2) [of "Suc n'"])
qed

lemma length_abs_path: "comps_ok cs \<Longrightarrow> length cs \<le> length (abs_path cs)"
proof -
  have "comps_ok cs \<Longrightarrow> length cs \<le> length (join_with [slash] cs)"
    by (induction "[slash]" cs rule: join_with.induct) (auto simp: comp_ok_def Suc_le_eq)
  then show "comps_ok cs \<Longrightarrow> length cs \<le> length (abs_path cs)" by (simp add: abs_path_def)
qed

lemma sim_mkdir_files:
  assumes "comps_ok cs" "cs \<noteq> []"
  shows "mget (sim_files (snd (sim_mkdir_all (abs_path cs) s))) q =
    (if q \<in> set (path_prefixes (abs_path cs)) then Some True else mget (sim_files s) q)"
proof -
  obtain n where n: "length (abs_path cs) = Suc n" by (cases "abs_path cs") auto
  have fuel: "length cs - 1 \<le> n" using length_abs_path [OF assms(1)] n by simp
  have dir: "path_dir (abs_path cs) = abs_path (take (length cs - 1) cs)"
    using path_dir_take [OF assms(1), of "length cs"] assms(2) by simp
  have range: "[1..<Suc (length cs)] = [1..<length cs] @ [length cs]" using assms(2) by (simp add: Suc_le_eq)
  have "q \<in> set (path_prefixes (abs_path cs)) \<longleftrightarrow> q = abs_path cs \<or> (\<exists>j \<in> {1..length cs - 1}. q = abs_path (take j cs))"
  proof -
    have "{1..length cs - 1} = set [1..<length cs]" using assms(2) by (cases cs) auto
    then show ?thesis unfolding path_prefixes_abs [OF assms] range by auto
  qed
  then show ?thesis
    using sim_parents_abs [OF assms(1) _ fuel, of "mput (abs_path cs) True (sim_files s)" q] assms
    by (auto simp: sim_mkdir_all_def Let_def dir n simp del: sim_parents.simps)
qed

lemma mkdirs_exact:
  "mkdirs ps f = (None, f') \<Longrightarrow> mget f' q = (if q \<in> set ps \<and> \<not> is_dir f q then Some FDir else mget f q)"
proof (induction ps f rule: mkdirs.induct)
  case (2 p ps f)
  show ?case
  proof (cases "is_dir f p")
    case True
    then show ?thesis using 2 by auto
  next
    case False
    then have "mkdirs ps (mput p FDir f) = (None, f')" "\<not> mhas f p" using "2.prems" by (auto split: if_splits)
    with "2.IH"(2) False show ?thesis by (auto simp: is_dir_def)
  qed
qed simp

text \<open>The simulator stands for the directories of a file system.\<close>

definition sim_rel :: "path_sim \<Rightarrow> fs \<Rightarrow> bool" where
  "sim_rel s f = (\<forall>q. q \<noteq> [slash] \<longrightarrow> q \<noteq> dot \<longrightarrow> (mget (sim_files s) q = Some True \<longleftrightarrow> mget f q = Some FDir))"

text \<open>
  The simulated \<^verbatim>\<open>MkdirAll\<close> refines the real one: from related states, whenever the real call succeeds the
  states are related again, so the simulator and the disk have the same directories.
\<close>
theorem sim_mkdir_refines:
  assumes "comps_ok cs" "cs \<noteq> []" "sim_rel s (w_fs w)"
  shows "wp (os_mkdir_all (abs_path cs)) (\<lambda>e w'. e = None \<longrightarrow> sim_rel (snd (sim_mkdir_all (abs_path cs) s)) (w_fs w')) w"
proof (rule wpI)
  fix e w'
  assume run: "run_state (os_mkdir_all (abs_path cs)) w = (e, w')"
  show "e = None \<longrightarrow> sim_rel (snd (sim_mkdir_all (abs_path cs) s)) (w_fs w')"
  proof
    assume "e = None"
    with run have mk: "mkdirs (path_prefixes (abs_path cs)) (w_fs w) = (None, w_fs w')"
      by (auto simp: os_mkdir_all_def split: option.splits prod.splits)
    show "sim_rel (snd (sim_mkdir_all (abs_path cs) s)) (w_fs w')"
      using assms(3) unfolding sim_rel_def sim_mkdir_files [OF assms(1,2)] mkdirs_exact [OF mk]
      by (auto simp: is_dir_def)
  qed
qed

lemma sim_mkdir_refines_witness:
  "wp (os_mkdir_all (abs_path [''a'', ''b'']))
     (\<lambda>e w'. e = None \<longrightarrow> sim_rel (snd (sim_mkdir_all (abs_path [''a'', ''b'']) new_path_simulator)) (w_fs w')) example_world"
  by (rule sim_mkdir_refines)
    (simp_all add: comps_ok_def comp_ok_def dot_def dotdot_def sim_rel_def new_path_simulator_def example_world_def)

text \<open>
  The simulated \<^verbatim>\<open>CreateFile\<close> does not provide the parents of a file with an absolute path: it loses the leading
  slash and marks relative directories of the same names instead. After creating a file below two directories the
  simulator has the file but not its parent.
\<close>
theorem sim_create_file_loses_parent:
  assumes "comp_ok a" "comp_ok b" "comp_ok c"
  shows "let s = snd (sim_create_file (abs_path [a, b, c]) new_path_simulator) in
    sim_exists (abs_path [a, b, c]) s \<and> \<not> sim_exists (abs_path [a, b]) s \<and> \<not> sim_exists (abs_path [a]) s \<and>
    mget (sim_files s) a = Some True"
proof -
  have d: "path_dir (abs_path [a, b, c]) = abs_path [a, b]" using path_dir_abs [of "[a, b]" c] assms by simp
  have sp: "split_on slash (abs_path [a, b]) = [[], a, b]" using split_abs_path [of "[a, b]"] assms by simp
  have root: "abs_path [a, b] \<noteq> [slash]" using abs_path_root [of "[a, b]"] assms by simp
  have rel: "x \<noteq> abs_path cs" if "comp_ok x" for x cs
    using that by (auto simp: comp_ok_def abs_path_def)
  obtain x xs where a: "a = x # xs" "x \<noteq> slash" using assms(1) by (cases a) (auto simp: comp_ok_def)
  have "path_join [a, b] = a @ slash # b"
    using assms split_on_no_sep [of slash b] split_on_append [of slash a b]
    by (simp add: path_join_def path_clean_def is_abs_def comp_ok_def Let_def a)
  then have join: "path_join [a, b] \<noteq> abs_path cs" "path_join [a, b] \<noteq> a" for cs
    using a by (simp_all add: abs_path_def)
  show ?thesis
    using assms root comp_ok_simps(1) [OF assms(1)] comp_ok_simps(1) [OF assms(2)] rel [OF assms(1)] join
      rel [OF assms(1), THEN not_sym] join(1) [THEN not_sym]
    by (auto simp: sim_create_file_def Let_def d sp sim_exists_def new_path_simulator_def mhas_def)
qed

lemma sim_create_file_loses_parent_witness:
  "\<not> sim_exists (abs_path [''a'', ''b'']) (snd (sim_create_file (abs_path [''a'', ''b'', ''c'']) new_path_simulator))"
  using sim_create_file_loses_parent [of "''a''" "''b''" "''c''"]
  by (simp add: Let_def comp_ok_def dot_def dotdot_def)

end
