(* ===== verification/Supervisor_Conf.thy ===== *)
theory Supervisor_Conf imports Go_Files Topology Paths "HOL-Library.Word" begin

unbundle bit_operations_syntax

text \<open>
  \<^verbatim>\<open>pkg/supervisor/config.go\<close>: the files from which supervisord learns the processes of a cluster, the scripts
  that drive it, and the port of its control interface.

  \<^verbatim>\<open>text/template\<close> writes the texts and the values of a template one after the other, so a template is the list
  of these pieces.
\<close>

section \<open>The port of a cluster directory\<close>

text \<open>\<^verbatim>\<open>fnv.New32a\<close>: the 32-bit FNV-1a hash.\<close>

definition fnv_step :: "char \<Rightarrow> 32 word \<Rightarrow> 32 word" where
  "fnv_step c h = (h XOR of_char c) * 16777619"

definition fnv32a :: "string \<Rightarrow> 32 word" where
  "fnv32a s = fold fnv_step s 2166136261"

definition supervisor_port :: "string \<Rightarrow> int" where
  "supervisor_port cluster_dir = 19000 + uint (fnv32a cluster_dir mod 1000)"

section \<open>The generator\<close>

text \<open>What the program reads of its process: \<^verbatim>\<open>HOME\<close>, \<^verbatim>\<open>USER\<close>, \<^verbatim>\<open>os.UserHomeDir\<close>, \<^verbatim>\<open>GOOS\<close> and \<^verbatim>\<open>GOARCH\<close>.\<close>

record process_env =
  env_home :: string
  env_user :: string
  env_home_dir :: "string res"
  env_os :: string
  env_arch :: string

record conf_gen =
  cg_dir :: string    \<comment> \<open>of one version\<close>
  cg_root :: string
  cg_name :: string
  cg_topology :: topology
  cg_version :: string
  cg_bin :: string

definition new_config_generator :: "string \<Rightarrow> string \<Rightarrow> topology \<Rightarrow> string \<Rightarrow> string \<Rightarrow> conf_gen" where
  "new_config_generator cluster_dir cluster_name topo version bin_path =
     \<lparr>cg_dir = cluster_dir, cg_root = path_dir cluster_dir, cg_name = cluster_name, cg_topology = topo,
      cg_version = version, cg_bin = bin_path\<rparr>"

definition generator_port :: "conf_gen \<Rightarrow> int" where
  "generator_port g = supervisor_port (cg_dir g)"

abbreviation conf_file :: "conf_gen \<Rightarrow> string" where
  "conf_file g \<equiv> path_join [cg_dir g, ''supervisor.ini'']"

section \<open>Texts\<close>

definition main_header :: "conf_gen \<Rightarrow> string list" where
  "main_header g =
     [''[supervisord]'' @ nl,
      ''logfile = '' @ path_join [cg_dir g, ''supervisor.log''] @ nl,
      ''loglevel = info'' @ nl,
      ''pidfile = '' @ path_join [cg_dir g, ''supervisor.pid''] @ nl,
      ''nodaemon = false'' @ nl,
      ''identifier = '' @ cg_name g @ nl @ nl,
      ''[inet_http_server]'' @ nl,
      ''port = 127.0.0.1:'' @ itoa (generator_port g) @ nl @ nl,
      ''[supervisorctl]'' @ nl,
      ''serverurl = http://127.0.0.1:'' @ itoa (generator_port g) @ nl @ nl]"

definition dq :: string where "dq = [CHR 0x22]"

definition environment_line :: "process_env \<Rightarrow> string" where
  "environment_line env = ''environment = HOME='' @ dq @ env_home env @ dq @ '',USER='' @ dq @ env_user env @ dq @ nl"

definition program_lines :: "process_env \<Rightarrow> string \<Rightarrow> string \<Rightarrow> string \<Rightarrow> string option \<Rightarrow> string \<Rightarrow> string list" where
  "program_lines env name binary config dir logfile =
     [''[program:'' @ name @ '']'' @ nl,
      ''command = '' @ binary @ '' --config '' @ config @ nl]
     @ (case dir of Some d \<Rightarrow> [''directory = '' @ d @ nl] | None \<Rightarrow> [])
     @ [''autostart = false'' @ nl,
        ''autorestart = unexpected'' @ nl,
        ''startsecs = 5'' @ nl,
        ''startretries = 3'' @ nl,
        ''stdout_logfile = '' @ logfile @ nl,
        ''stderr_logfile = '' @ logfile @ nl,
        ''stdout_logfile_maxbytes = 50MB'' @ nl,
        ''stdout_logfile_backups = 10'' @ nl,
        ''stopwaitsecs = 30'' @ nl,
        ''stopsignal = INT'' @ nl,
        environment_line env]"

definition replica_set_note :: "string \<Rightarrow> string list" where
  "replica_set_note rs = (if rs \<noteq> [] then [''; Replica Set: '' @ rs @ nl] else [])"

definition supervisor_log :: "string \<Rightarrow> int \<Rightarrow> string" where
  "supervisor_log kind port = ''supervisor-'' @ kind @ ''-'' @ itoa port @ ''.log''"

definition mongod_program :: "process_env \<Rightarrow> conf_gen \<Rightarrow> string \<Rightarrow> int \<Rightarrow> string \<Rightarrow> string list" where
  "mongod_program env g host port replica_set =
     (let name = ''mongod-'' @ itoa port; process_dir = path_join [cg_dir g, name] in
      program_lines env name (path_join [cg_bin g, ''mongod'']) (path_join [process_dir, ''config'', ''mongod.conf''])
        (Some (path_join [cg_root g, ''data'', host @ ''-'' @ itoa port]))
        (path_join [process_dir, ''log'', supervisor_log ''mongod'' port])
      @ replica_set_note replica_set @ [nl])"

definition mongos_program :: "process_env \<Rightarrow> conf_gen \<Rightarrow> int \<Rightarrow> string list" where
  "mongos_program env g port =
     (let name = ''mongos-'' @ itoa port; process_dir = path_join [cg_dir g, name] in
      program_lines env name (path_join [cg_bin g, ''mongos'']) (path_join [process_dir, ''config'', ''mongos.conf''])
        None (path_join [process_dir, ''log'', supervisor_log ''mongos'' port])
      @ [nl])"

definition node_conf :: "process_env \<Rightarrow> conf_gen \<Rightarrow> string \<Rightarrow> string \<Rightarrow> int \<Rightarrow> string \<Rightarrow> string list" where
  "node_conf env g node_type host port replica_set =
     (let process_dir = path_join [cg_dir g, get_process_dir node_type port] in
      program_lines env (get_program_name node_type port) (path_join [cg_bin g, ''mongod''])
        (path_join [process_dir, ''config'', get_config_file_name node_type])
        (Some (path_join [cg_root g, ''data'', host @ ''-'' @ itoa port]))
        (path_join [process_dir, ''log'', supervisor_log ''mongod'' port])
      @ replica_set_note replica_set)"

definition mongos_conf :: "process_env \<Rightarrow> conf_gen \<Rightarrow> int \<Rightarrow> string list" where
  "mongos_conf env g port =
     (let process_dir = path_join [cg_dir g, get_process_dir ''mongos'' port] in
      program_lines env (get_program_name ''mongos'' port) (path_join [cg_bin g, ''mongos''])
        (path_join [process_dir, ''config'', get_config_file_name ''mongos''])
        None (path_join [process_dir, ''log'', supervisor_log ''mongos'' port]))"

section \<open>One file with all programs\<close>

definition unified_text :: "process_env \<Rightarrow> conf_gen \<Rightarrow> string list" where
  "unified_text env g =
     main_header g
     @ concat (map (\<lambda>n. mongod_program env g (cs_host n) (cs_port n) (cs_replica_set n)) (t_config_svr (cg_topology g)))
     @ concat (map (\<lambda>n. mongod_program env g (md_host n) (md_port n) (md_replica_set n)) (t_mongod (cg_topology g)))
     @ concat (map (\<lambda>n. mongos_program env g (ms_port n)) (t_mongos (cg_topology g)))
     @ [nl @ ''[include]'' @ nl, ''files = monitoring-supervisor.ini'' @ nl]"

definition generate_unified_config :: "process_env \<Rightarrow> conf_gen \<Rightarrow> err option io" where
  "generate_unified_config env g = do {
     r \<leftarrow> os_create (conf_file g);
     case r of
       Inl e \<Rightarrow> ret (Some (wrapf ''failed to create config file'' (os_msg e)))
     | Inr q \<Rightarrow> do { _ \<leftarrow> fprint_all q (unified_text env g); ret None } }"

section \<open>One file per node and a main file that includes them\<close>

definition write_conf :: "string \<Rightarrow> string list \<Rightarrow> err option io" where
  "write_conf conf_path text = do {
     d \<leftarrow> os_mkdir_all (path_dir conf_path);
     case d of
       Some e \<Rightarrow> ret (Some (wrapf (''failed to create directory for '' @ conf_path) (os_msg e)))
     | None \<Rightarrow> do {
         r \<leftarrow> os_create conf_path;
         case r of
           Inl e \<Rightarrow> ret (Some (wrapf (''failed to create '' @ conf_path) (os_msg e)))
         | Inr q \<Rightarrow> do { _ \<leftarrow> fprint_all q text; ret None } } }"

definition generate_node_supervisor_conf ::
  "process_env \<Rightarrow> conf_gen \<Rightarrow> string \<Rightarrow> string \<Rightarrow> int \<Rightarrow> string \<Rightarrow> err option io" where
  "generate_node_supervisor_conf env g node_type host port replica_set =
     write_conf (path_join [path_join [cg_dir g, get_process_dir node_type port], ''supervisor.conf''])
       (node_conf env g node_type host port replica_set)"

definition generate_mongos_node_supervisor_conf :: "process_env \<Rightarrow> conf_gen \<Rightarrow> int \<Rightarrow> err option io" where
  "generate_mongos_node_supervisor_conf env g port =
     write_conf (path_join [path_join [cg_dir g, get_process_dir ''mongos'' port], ''supervisor.conf''])
       (mongos_conf env g port)"

text \<open>Loops that return the first error, one after the other.\<close>

definition or_else :: "err option io \<Rightarrow> err option io \<Rightarrow> err option io" where
  "or_else m n = do { e \<leftarrow> m; case e of Some x \<Rightarrow> ret (Some x) | None \<Rightarrow> n }"

definition generate_per_node_configs :: "process_env \<Rightarrow> conf_gen \<Rightarrow> err option io" where
  "generate_per_node_configs env g =
     or_else (for_each (\<lambda>n. generate_node_supervisor_conf env g ''config'' (cs_host n) (cs_port n) (cs_replica_set n))
                (t_config_svr (cg_topology g)))
     (or_else (for_each (\<lambda>n. generate_node_supervisor_conf env g ''mongod'' (md_host n) (md_port n) (md_replica_set n))
                (t_mongod (cg_topology g)))
     (for_each (\<lambda>n. generate_mongos_node_supervisor_conf env g (ms_port n)) (t_mongos (cg_topology g))))"

definition conf_includes :: "conf_gen \<Rightarrow> string list" where
  "conf_includes g =
     map (\<lambda>n. ''config-'' @ itoa (cs_port n) @ ''/supervisor.conf'') (t_config_svr (cg_topology g))
     @ map (\<lambda>n. ''mongod-'' @ itoa (md_port n) @ ''/supervisor.conf'') (t_mongod (cg_topology g))
     @ map (\<lambda>n. ''mongos-'' @ itoa (ms_port n) @ ''/supervisor.conf'') (t_mongos (cg_topology g))
     @ [''monitoring-supervisor.ini'']"

fun spaced :: "string list \<Rightarrow> string list" where
  "spaced [] = []"
| "spaced (x # xs) = x # concat (map (\<lambda>y. ['' '', y]) xs)"

definition main_text :: "conf_gen \<Rightarrow> string list" where
  "main_text g = main_header g @ [''[include]'' @ nl, ''files = ''] @ spaced (conf_includes g) @ [nl]"

definition generate_main_config_with_includes :: "conf_gen \<Rightarrow> err option io" where
  "generate_main_config_with_includes g = do {
     r \<leftarrow> os_create (conf_file g);
     case r of
       Inl e \<Rightarrow> ret (Some (wrapf ''failed to create config file'' (os_msg e)))
     | Inr q \<Rightarrow> do { _ \<leftarrow> fprint_all q (main_text g); ret None } }"

section \<open>Templates\<close>

definition main_template :: "conf_gen \<Rightarrow> string list" where
  "main_template g =
     [''[supervisord]'' @ nl @ ''logfile = '', path_join [cg_dir g, ''supervisor.log''],
      nl @ ''loglevel = info'' @ nl @ ''pidfile = '', path_join [cg_dir g, ''supervisor.pid''],
      nl @ ''nodaemon = false'' @ nl @ ''identifier = '', cg_name g,
      nl @ nl @ ''[inet_http_server]'' @ nl @ ''port = 127.0.0.1:'', itoa (generator_port g),
      nl @ nl @ ''[supervisorctl]'' @ nl @ ''serverurl = http://127.0.0.1:'', itoa (generator_port g),
      nl @ nl @ ''[include]'' @ nl @ ''files = '', cg_dir g, ''/conf/*/supervisor-*.ini'' @ nl]"

definition run_template :: "string \<Rightarrow> string \<Rightarrow> string \<Rightarrow> string list \<Rightarrow> err option io" where
  "run_template config_path create_msg write_msg text = do {
     r \<leftarrow> os_create config_path;
     case r of
       Inl e \<Rightarrow> ret (Some (wrapf create_msg (os_msg e)))
     | Inr q \<Rightarrow> do { e \<leftarrow> write_all q text; ret (map_option (\<lambda>m. wrapf write_msg (os_msg m)) e) } }"

definition generate_main_config :: "conf_gen \<Rightarrow> err option io" where
  "generate_main_config g =
     run_template (conf_file g) ''failed to create config file'' ''failed to write config'' (main_template g)"

text \<open>
  The program templates render the same lines as \<open>program_lines\<close>; the pieces differ, but a piece is one write
  and a line of the model stands for the writes of its pieces.
\<close>

definition run_program_template :: "string \<Rightarrow> string list \<Rightarrow> err option io" where
  "run_program_template config_path text = do {
     d \<leftarrow> os_mkdir_all (path_dir config_path);
     case d of
       Some e \<Rightarrow> ret (Some (wrapf ''failed to create config directory'' (os_msg e)))
     | None \<Rightarrow> run_template config_path ''failed to create program config file'' ''failed to write program config'' text }"

definition generate_mongod_config :: "process_env \<Rightarrow> conf_gen \<Rightarrow> string \<Rightarrow> int \<Rightarrow> string \<Rightarrow> err option io" where
  "generate_mongod_config env g host port replica_set =
     (let node = host @ ''-'' @ itoa port in
      run_program_template (path_join [cg_dir g, ''conf'', node, ''supervisor-mongod.ini''])
        (program_lines env (''mongod-'' @ itoa port) (path_join [cg_bin g, ''mongod''])
           (path_join [cg_dir g, ''conf'', node, ''mongod.conf'']) (Some (path_join [cg_dir g, ''data'', node]))
           (path_join [cg_dir g, ''logs'', supervisor_log ''mongod'' port])
         @ replica_set_note replica_set))"

definition generate_mongos_config :: "process_env \<Rightarrow> conf_gen \<Rightarrow> string \<Rightarrow> int \<Rightarrow> err option io" where
  "generate_mongos_config env g host port =
     (let node = host @ ''-'' @ itoa port in
      run_program_template (path_join [cg_dir g, ''conf'', node, ''supervisor-mongos.ini''])
        (program_lines env (''mongos-'' @ itoa port) (path_join [cg_bin g, ''mongos''])
           (path_join [cg_dir g, ''conf'', node, ''mongos.conf'']) None
           (path_join [cg_dir g, ''logs'', supervisor_log ''mongos'' port])))"

definition generate_config_server_config :: "process_env \<Rightarrow> conf_gen \<Rightarrow> config_node \<Rightarrow> err option io" where
  "generate_config_server_config env g n = generate_mongod_config env g (cs_host n) (cs_port n) (cs_replica_set n)"

section \<open>Scripts\<close>

definition script_vars :: "string \<Rightarrow> string \<Rightarrow> string list" where
  "script_vars supervisor_bin config_path =
     [''SUPERVISOR_BIN='' @ dq @ supervisor_bin @ dq, ''SUPERVISOR_CONFIG='' @ dq @ config_path @ dq]"

definition ctl_line :: "string \<Rightarrow> string" where
  "ctl_line args = dq @ ''$SUPERVISOR_BIN'' @ dq @ '' ctl -c '' @ dq @ ''$SUPERVISOR_CONFIG'' @ dq @ '' -s '' @ dq @ ''$SERVER_URL''
     @ dq @ '' '' @ args"

definition unlines :: "string list \<Rightarrow> string" where
  "unlines ls = concat (map (\<lambda>l. l @ nl) ls)"

definition start_script :: "string \<Rightarrow> string \<Rightarrow> string \<Rightarrow> string \<Rightarrow> string \<Rightarrow> string" where
  "start_script name supervisor_bin config_path pid_file server_url = unlines (
     [''#!/bin/bash'', ''# Auto-generated wrapper script for starting '' @ name, ''set -e'', []]
     @ script_vars supervisor_bin config_path
     @ [''SUPERVISOR_PID='' @ dq @ pid_file @ dq, ''SERVER_URL='' @ dq @ server_url @ dq, [],
        ''# Check if supervisor is running'',
        ''if [ -f '' @ dq @ ''$SUPERVISOR_PID'' @ dq @ '' ] && kill -0 $(cat '' @ dq @ ''$SUPERVISOR_PID'' @ dq
          @ '' 2>/dev/null) 2>/dev/null; then'',
        ''    echo '' @ dq @ ''Supervisor already running'' @ dq,
        ''else'',
        ''    echo '' @ dq @ ''Starting supervisor daemon...'' @ dq,
        ''    '' @ dq @ ''$SUPERVISOR_BIN'' @ dq @ '' -c '' @ dq @ ''$SUPERVISOR_CONFIG'' @ dq,
        ''    sleep 1'',
        ''fi'', [],
        ''echo '' @ dq @ ''Starting '' @ name @ ''...'' @ dq,
        ctl_line (''start '' @ name), ctl_line (''status '' @ name)])"

definition stop_script :: "string \<Rightarrow> string \<Rightarrow> string \<Rightarrow> string \<Rightarrow> string" where
  "stop_script name supervisor_bin config_path server_url = unlines (
     [''#!/bin/bash'', ''# Auto-generated wrapper script for stopping '' @ name, ''set -e'', []]
     @ script_vars supervisor_bin config_path
     @ [''SERVER_URL='' @ dq @ server_url @ dq, [],
        ''echo '' @ dq @ ''Stopping '' @ name @ ''...'' @ dq,
        ctl_line (''stop '' @ name), ctl_line (''status '' @ name)])"

definition status_script :: "string \<Rightarrow> string \<Rightarrow> string \<Rightarrow> string \<Rightarrow> string" where
  "status_script name supervisor_bin config_path server_url = unlines (
     [''#!/bin/bash'', ''# Auto-generated wrapper script for checking '' @ name @ '' status'']
     @ script_vars supervisor_bin config_path
     @ [''SERVER_URL='' @ dq @ server_url @ dq, [], ctl_line (''status '' @ name)])"

definition generate_process_scripts :: "conf_gen \<Rightarrow> string \<Rightarrow> string \<Rightarrow> string \<Rightarrow> string \<Rightarrow> string \<Rightarrow> err option io" where
  "generate_process_scripts g bin_dir name supervisor_bin config_path server_url = do {
     a \<leftarrow> os_write_file (path_join [bin_dir, ''start''])
       (Text (start_script name supervisor_bin config_path (path_join [cg_dir g, ''supervisor.pid'']) server_url));
     case a of Some e \<Rightarrow> ret (Some (wrapf ''failed to write start script'' (os_msg e)))
     | None \<Rightarrow> do {
       b \<leftarrow> os_write_file (path_join [bin_dir, ''stop'']) (Text (stop_script name supervisor_bin config_path server_url));
       case b of Some e \<Rightarrow> ret (Some (wrapf ''failed to write stop script'' (os_msg e)))
       | None \<Rightarrow> do {
         c \<leftarrow> os_write_file (path_join [bin_dir, ''status''])
           (Text (status_script name supervisor_bin config_path server_url));
         case c of Some e \<Rightarrow> ret (Some (wrapf ''failed to write status script'' (os_msg e)))
         | None \<Rightarrow> ret None } } }"

definition supervisorctl_script :: "conf_gen \<Rightarrow> string \<Rightarrow> string \<Rightarrow> string \<Rightarrow> string" where
  "supervisorctl_script g supervisor_bin config_path server_url = unlines (
     [''#!/bin/bash'', ''# Auto-generated supervisorctl wrapper for cluster '' @ cg_name g,
      ''# This script automatically connects to the correct supervisor instance'', []]
     @ script_vars supervisor_bin config_path
     @ [''SERVER_URL='' @ dq @ server_url @ dq, [], ''# Pass all arguments to supervisorctl'',
        ''exec '' @ ctl_line (dq @ ''$@'' @ dq)])"

definition generate_supervisorctl_wrapper :: "conf_gen \<Rightarrow> string \<Rightarrow> string \<Rightarrow> string \<Rightarrow> string \<Rightarrow> err option io" where
  "generate_supervisorctl_wrapper g bin_dir supervisor_bin config_path server_url = do {
     a \<leftarrow> os_write_file (path_join [bin_dir, ''supervisorctl'']) (Text (supervisorctl_script g supervisor_bin config_path server_url));
     ret (map_option (\<lambda>e. wrapf ''failed to write supervisorctl wrapper'' (os_msg e)) a) }"

text \<open>The body of the three loops over the nodes.\<close>

definition node_scripts :: "conf_gen \<Rightarrow> string \<Rightarrow> string \<Rightarrow> string \<Rightarrow> string \<Rightarrow> err option io" where
  "node_scripts g supervisor_bin config_path server_url name = do {
     d \<leftarrow> os_mkdir_all (path_join [path_join [cg_dir g, name], ''bin'']);
     case d of
       Some e \<Rightarrow> ret (Some (wrapf (''failed to create bin dir for '' @ name) (os_msg e)))
     | None \<Rightarrow> do {
         e \<leftarrow> generate_process_scripts g (path_join [path_join [cg_dir g, name], ''bin'']) name supervisor_bin config_path server_url;
         ret (map_option (wrapf (''failed to generate scripts for '' @ name)) e) } }"

definition script_programs :: "conf_gen \<Rightarrow> string list" where
  "script_programs g =
     map (\<lambda>n. ''mongod-'' @ itoa (md_port n)) (t_mongod (cg_topology g))
     @ map (\<lambda>n. ''mongod-'' @ itoa (cs_port n)) (t_config_svr (cg_topology g))
     @ map (\<lambda>n. ''mongos-'' @ itoa (ms_port n)) (t_mongos (cg_topology g))"

definition generate_wrapper_scripts :: "process_env \<Rightarrow> conf_gen \<Rightarrow> err option io" where
  "generate_wrapper_scripts env g = (case env_home_dir env of
     Inl e \<Rightarrow> ret (Some (wrapf ''failed to get home directory'' e))
   | Inr home \<Rightarrow>
      let supervisor_bin = path_join [home, ''.mup'', ''storage'', ''bin'', ''supervisor'', ''v1.0.0'',
              env_os env @ ''-'' @ env_arch env, ''supervisord''];
          server_url = ''http://localhost:'' @ itoa (generator_port g);
          bin_dir = path_join [cg_dir g, ''bin''] in do {
        d \<leftarrow> os_mkdir_all bin_dir;
        case d of
          Some e \<Rightarrow> ret (Some (wrapf ''failed to create cluster bin directory'' (os_msg e)))
        | None \<Rightarrow> do {
            a \<leftarrow> generate_supervisorctl_wrapper g bin_dir supervisor_bin (conf_file g) server_url;
            case a of
              Some e \<Rightarrow> ret (Some (wrapf ''failed to generate supervisorctl wrapper'' e))
            | None \<Rightarrow> for_each (node_scripts g supervisor_bin (conf_file g) server_url) (script_programs g) } })"

section \<open>Everything\<close>

definition monitoring_placeholder :: "conf_gen \<Rightarrow> err option io" where
  "monitoring_placeholder g = do {
     s \<leftarrow> os_stat (path_join [cg_dir g, ''monitoring-supervisor.ini'']);
     case s of
       Inl e \<Rightarrow>
         if is_not_exist e then do {
           x \<leftarrow> os_write_file (path_join [cg_dir g, ''monitoring-supervisor.ini'']) (Text (''; placeholder for monitoring programs'' @ nl));
           ret (map_option (\<lambda>m. wrapf ''failed to create monitoring config placeholder'' (os_msg m)) x) }
         else ret None
     | Inr _ \<Rightarrow> ret None }"

definition generate_all :: "process_env \<Rightarrow> conf_gen \<Rightarrow> err option io" where
  "generate_all env g = do {
     a \<leftarrow> generate_per_node_configs env g;
     case a of Some e \<Rightarrow> ret (Some (wrapf ''failed to generate per-node configs'' e))
     | None \<Rightarrow> do {
       b \<leftarrow> generate_main_config_with_includes g;
       case b of Some e \<Rightarrow> ret (Some (wrapf ''failed to generate main config'' e))
       | None \<Rightarrow> do {
         c \<leftarrow> generate_wrapper_scripts env g;
         case c of Some e \<Rightarrow> ret (Some (wrapf ''failed to generate wrapper scripts'' e))
         | None \<Rightarrow> monitoring_placeholder g } } }"

section \<open>The port\<close>

text \<open>
  The control port of a cluster directory is always one of 19000 to 19999, and it is not unique: two directories
  can have the same port, so that the supervisors of two clusters fight for it.
\<close>
theorem supervisor_port_range:
  "19000 \<le> supervisor_port d \<and> supervisor_port d \<le> 19999 \<and>
   supervisor_port ''/test/v8.0.0'' = supervisor_port ''/c59/v7.0.0''"
proof (intro conjI)
  have "uint (fnv32a d mod 1000) < 1000"
    by (simp add: uint_mod)
  then show "19000 \<le> supervisor_port d" "supervisor_port d \<le> 19999"
    by (simp_all add: supervisor_port_def)
  show "supervisor_port ''/test/v8.0.0'' = supervisor_port ''/c59/v7.0.0''"
    by code_simp
qed

section \<open>What the generator leaves on the disk\<close>

lemma grows_or_else [grows]: "keeps (grown f) m \<Longrightarrow> keeps (grown f) n \<Longrightarrow> keeps (grown f) (or_else m n)"
  unfolding or_else_def by (intro keeps_intros grows)

lemma grows_write_conf [grows]: "keeps (grown f) (write_conf p t)"
  unfolding write_conf_def by (intro keeps_intros grows)

lemma grows_main_config [grows]: "keeps (grown f) (generate_main_config_with_includes g)"
  unfolding generate_main_config_with_includes_def by (intro keeps_intros grows)

lemma grows_process_scripts [grows]: "keeps (grown f) (generate_process_scripts g b n s c u)"
  unfolding generate_process_scripts_def by (intro keeps_intros grows)

lemma grows_node_scripts [grows]: "keeps (grown f) (node_scripts g s c u n)"
  unfolding node_scripts_def by (intro keeps_intros grows)

lemma grows_wrapper_scripts [grows]: "keeps (grown f) (generate_wrapper_scripts env g)"
  unfolding generate_wrapper_scripts_def generate_supervisorctl_wrapper_def Let_def
  by (intro keeps_intros grows)

lemma grows_placeholder [grows]: "keeps (grown f) (monitoring_placeholder g)"
  unfolding monitoring_placeholder_def by (intro keeps_intros grows)

lemma wp_write_conf: "wp (write_conf p t) (\<lambda>e w'. e = None \<longrightarrow> is_file (w_fs w') p) w"
proof -
  have print: "wp (fprint_all q t) (\<lambda>_ w'. is_file (w_fs w') p) w" if "is_file (w_fs w) p" for q and w :: world
    by (rule wp_grown [OF grows_fprint_all]) (use that fs_grows_is_file in blast)
  have create: "wp (os_create p) (\<lambda>r. wp (case r of
      Inl e \<Rightarrow> ret (Some (wrapf (''failed to create '' @ p) (os_msg e)))
    | Inr q \<Rightarrow> do { _ \<leftarrow> fprint_all q t; ret None }) (\<lambda>e w'. e = None \<longrightarrow> is_file (w_fs w') p)) w" for w :: world
    by (rule wp_create) (auto intro: print simp del: append.simps)
  show ?thesis
    unfolding write_conf_def wp_bind
  proof (rule wp_grown [OF grows_mkdir_all])
    fix d :: "os_err option" and w1 :: world
    show "wp (case d of
        Some e \<Rightarrow> ret (Some (wrapf (''failed to create directory for '' @ p) (os_msg e)))
      | None \<Rightarrow> do {
          r \<leftarrow> os_create p;
          case r of
            Inl e \<Rightarrow> ret (Some (wrapf (''failed to create '' @ p) (os_msg e)))
          | Inr q \<Rightarrow> do { _ \<leftarrow> fprint_all q t; ret None } }) (\<lambda>e w'. e = None \<longrightarrow> is_file (w_fs w') p) w1"
      by (cases d) (simp_all only: wp_case_option wp_bind wp_return option.case create, simp)
  qed
qed

text \<open>A loop that makes a file for every element makes them all, unless it reports an error.\<close>

lemma wp_for_each_files:
  assumes "\<And>x w. wp (body x) (\<lambda>e w'. e = None \<longrightarrow> is_file (w_fs w') (p x)) w" "\<And>x f. keeps (grown f) (body x)"
  shows "wp (for_each body xs) (\<lambda>e w'. e = None \<longrightarrow> (\<forall>x \<in> set xs. is_file (w_fs w') (p x))) w"
proof (induction xs arbitrary: w)
  case (Cons x xs)
  have rest: "wp (for_each body xs) (\<lambda>e w'. e = None \<longrightarrow> (\<forall>y \<in> set (x # xs). is_file (w_fs w') (p y))) w"
    if "is_file (w_fs w) (p x)" for w
  proof -
    have "wp (for_each body xs) (\<lambda>e w'. is_file (w_fs w') (p x)) w"
    proof (rule wp_grown)
      show "keeps (grown f) (for_each body xs)" for f by (rule keeps_for_each) (rule assms(2))
      show "is_file (w_fs w') (p x)" if "fs_grows (w_fs w) (w_fs w')" for w' :: world
        using fs_grows_is_file [OF that] \<open>is_file (w_fs w) (p x)\<close> by blast
    qed
    from this Cons.IH have "wp (for_each body xs) (\<lambda>e w'. is_file (w_fs w') (p x) \<and>
        (e = None \<longrightarrow> (\<forall>y \<in> set xs. is_file (w_fs w') (p y)))) w"
      by (subst wp_conj) blast
    then show ?thesis by (rule wp_mono) simp
  qed
  show ?case
    unfolding for_each.simps wp_bind
  proof (rule wp_mono [OF assms(1)])
    fix e :: "err option" and w1 :: world
    assume "e = None \<longrightarrow> is_file (w_fs w1) (p x)"
    then show "wp (case e of Some m \<Rightarrow> ret (Some m) | None \<Rightarrow> for_each body xs)
        (\<lambda>e w'. e = None \<longrightarrow> (\<forall>y \<in> set (x # xs). is_file (w_fs w') (p y))) w1"
      using rest by (cases e) (simp_all del: set_simps)
  qed
qed simp

lemma wp_or_else:
  assumes "wp m (\<lambda>e w'. (e \<noteq> None \<longrightarrow> Q e w') \<and> (e = None \<longrightarrow> wp n Q w')) w"
  shows "wp (or_else m n) Q w"
  unfolding or_else_def wp_bind by (rule wp_mono [OF assms]) (auto split: option.splits)

definition node_conf_path :: "conf_gen \<Rightarrow> string \<Rightarrow> int \<Rightarrow> string" where
  "node_conf_path g node_type port = path_join [path_join [cg_dir g, get_process_dir node_type port], ''supervisor.conf'']"

lemma wp_for_each_confs:
  assumes "\<And>x. body x = write_conf (p x) (t x)"
  shows "wp (for_each body xs) (\<lambda>e w'. e = None \<longrightarrow> (\<forall>x \<in> set xs. is_file (w_fs w') (p x))) w"
  by (rule wp_for_each_files) (simp_all add: assms wp_write_conf grows)

lemma wp_files_then:
  assumes "wp m (\<lambda>e w'. e = None \<longrightarrow> (\<forall>p \<in> A. is_file (w_fs w') p)) w" "\<And>f. keeps (grown f) n"
    and "\<And>w. wp n (\<lambda>e w'. e = None \<longrightarrow> (\<forall>p \<in> B. is_file (w_fs w') p)) w"
  shows "wp (or_else m n) (\<lambda>e w'. e = None \<longrightarrow> (\<forall>p \<in> A \<union> B. is_file (w_fs w') p)) w"
proof (rule wp_or_else, rule wp_mono [OF assms(1)])
  fix e :: "err option" and w1 :: world
  assume A: "e = None \<longrightarrow> (\<forall>p \<in> A. is_file (w_fs w1) p)"
  have "wp n (\<lambda>e w'. (\<forall>p \<in> A. is_file (w_fs w') p) \<and> (e = None \<longrightarrow> (\<forall>p \<in> B. is_file (w_fs w') p))) w1"
    if "\<forall>p \<in> A. is_file (w_fs w1) p"
    unfolding wp_conj using assms(3) [of w1]
    by (intro conjI, intro wp_grown [OF assms(2)]) (use that fs_grows_is_file in blast)+
  then have "wp n (\<lambda>e w'. e = None \<longrightarrow> (\<forall>p \<in> A \<union> B. is_file (w_fs w') p)) w1"
    if "\<forall>p \<in> A. is_file (w_fs w1) p"
    using that by (blast intro: wp_mono)
  with A show "(e \<noteq> None \<longrightarrow> (e = None \<longrightarrow> (\<forall>p \<in> A \<union> B. is_file (w_fs w1) p))) \<and>
      (e = None \<longrightarrow> wp n (\<lambda>e w'. e = None \<longrightarrow> (\<forall>p \<in> A \<union> B. is_file (w_fs w') p)) w1)"
    by blast
qed

definition node_conf_paths :: "conf_gen \<Rightarrow> string set" where
  "node_conf_paths g =
     (\<lambda>n. node_conf_path g ''config'' (cs_port n)) ` set (t_config_svr (cg_topology g)) \<union>
     ((\<lambda>n. node_conf_path g ''mongod'' (md_port n)) ` set (t_mongod (cg_topology g)) \<union>
      (\<lambda>n. node_conf_path g ''mongos'' (ms_port n)) ` set (t_mongos (cg_topology g)))"

lemma wp_per_node_configs:
  "wp (generate_per_node_configs env g) (\<lambda>e w'. e = None \<longrightarrow> (\<forall>p \<in> node_conf_paths g. is_file (w_fs w') p)) w"
proof -
  have loop: "wp (for_each body xs) (\<lambda>e w'. e = None \<longrightarrow> (\<forall>p \<in> q ` set xs. is_file (w_fs w') p)) w"
    if "\<And>x. \<exists>t. body x = write_conf (q x) t" for body :: "'a \<Rightarrow> err option io" and xs q and w :: world
    using wp_for_each_confs [of body q "\<lambda>x. SOME t. body x = write_conf (q x) t" xs w] someI_ex [OF that] by auto
  have grow: "keeps (grown f) (for_each body xs)"
    if "\<And>x. \<exists>t. body x = write_conf (q x) t" for f and body :: "'a \<Rightarrow> err option io" and xs q
    using that grows_write_conf by (intro keeps_for_each) metis
  show ?thesis
    unfolding generate_per_node_configs_def node_conf_paths_def
    by (intro wp_files_then loop grow grows_or_else)
      (unfold generate_node_supervisor_conf_def generate_mongos_node_supervisor_conf_def node_conf_path_def, blast+)
qed

lemma wp_generate_all:
  "wp (generate_all env g) (\<lambda>e w'. e = None \<longrightarrow> (\<forall>p \<in> node_conf_paths g. is_file (w_fs w') p)) w"
proof -
  let ?P = "\<lambda>w :: world. \<forall>p \<in> node_conf_paths g. is_file (w_fs w) p"
  have rest: "wp m (\<lambda>e w'. e = None \<longrightarrow> ?P w') w" if "\<And>f. keeps (grown f) m" "?P w" for m :: "err option io" and w
    by (rule wp_grown [OF that(1)]) (use that(2) fs_grows_is_file in blast)
  show ?thesis
    unfolding generate_all_def wp_bind
  proof (rule wp_mono [OF wp_per_node_configs])
    fix a :: "err option" and w1 :: world
    assume a: "a = None \<longrightarrow> ?P w1"
    have tail: "keeps (grown f) (do {
       b \<leftarrow> generate_main_config_with_includes g;
       case b of Some e \<Rightarrow> ret (Some (wrapf ''failed to generate main config'' e))
       | None \<Rightarrow> do {
         c \<leftarrow> generate_wrapper_scripts env g;
         case c of Some e \<Rightarrow> ret (Some (wrapf ''failed to generate wrapper scripts'' e))
         | None \<Rightarrow> monitoring_placeholder g } })" for f
      by (intro keeps_intros grows)
    show "wp (case a of Some e \<Rightarrow> ret (Some (wrapf ''failed to generate per-node configs'' e))
      | None \<Rightarrow> do {
       b \<leftarrow> generate_main_config_with_includes g;
       case b of Some e \<Rightarrow> ret (Some (wrapf ''failed to generate main config'' e))
       | None \<Rightarrow> do {
         c \<leftarrow> generate_wrapper_scripts env g;
         case c of Some e \<Rightarrow> ret (Some (wrapf ''failed to generate wrapper scripts'' e))
         | None \<Rightarrow> monitoring_placeholder g } }) (\<lambda>e w'. e = None \<longrightarrow> ?P w') w1"
      using rest [OF tail] a by (cases a) simp_all
  qed
qed

lemma include_path:
  assumes "comps_ok cs" "cg_dir g = abs_path cs" "slash \<notin> set t" "t \<noteq> []"
  shows "path_join [cg_dir g, t @ ''-'' @ itoa p @ ''/supervisor.conf''] = node_conf_path g t p"
proof -
  have ok: "comp_ok (t @ ''-'' @ itoa p)" "comp_ok ''supervisor.conf''"
    using assms node_comp_ok [of t p] by (simp_all add: comp_ok_def dot_def dotdot_def)
  have "path_join [abs_path cs, t @ ''-'' @ itoa p @ ''/supervisor.conf'']
      = path_join [abs_path cs, t @ ''-'' @ itoa p, ''supervisor.conf'']"
    using assms(4) by (simp add: path_join_def)
  also have "\<dots> = node_conf_path g t p"
    using assms(1,2) ok by (simp add: node_conf_path_def get_process_dir_def path_join_abs comps_ok_def)
  finally show ?thesis by (simp add: assms(2))
qed

text \<open>
  C30. The main configuration never refers to a missing node: whatever fails, when \<^verbatim>\<open>GenerateAll\<close> reports success
  every file that the main file includes for a node exists, in the place where supervisord looks for it.
\<close>
theorem includes_exist:
  assumes "comps_ok cs" "cg_dir g = abs_path cs"
  shows "wp (generate_all env g) (\<lambda>e w'. e = None \<longrightarrow>
    (\<forall>i \<in> set (conf_includes g). i = ''monitoring-supervisor.ini'' \<or> is_file (w_fs w') (path_join [cg_dir g, i]))) w"
proof (rule wp_mono [OF wp_generate_all])
  fix e :: "err option" and w' :: world
  assume files: "e = None \<longrightarrow> (\<forall>p \<in> node_conf_paths g. is_file (w_fs w') p)"
  have "path_join [cg_dir g, i] \<in> node_conf_paths g"
    if "i \<in> set (conf_includes g)" "i \<noteq> ''monitoring-supervisor.ini''" for i
    using that include_path [OF assms, of "''config''"] include_path [OF assms, of "''mongod''"]
      include_path [OF assms, of "''mongos''"]
    by (auto simp: conf_includes_def node_conf_paths_def)
  then show "e = None \<longrightarrow>
    (\<forall>i \<in> set (conf_includes g). i = ''monitoring-supervisor.ini'' \<or> is_file (w_fs w') (path_join [cg_dir g, i]))"
    using files by blast
qed

text \<open>A cluster with one config server, one shard member and one router.\<close>

definition example_config_server :: "string \<Rightarrow> int \<Rightarrow> config_node" where
  "example_config_server h p = \<lparr>cs_host = h, cs_port = p, cs_replica_set = ''cfg'', cs_deploy_dir = [], cs_data_dir = [],
     cs_log_dir = [], cs_config_dir = [], cs_runtime_config = None\<rparr>"

definition example_router :: "string \<Rightarrow> int \<Rightarrow> mongos_node" where
  "example_router h p = \<lparr>ms_host = h, ms_port = p, ms_deploy_dir = [], ms_log_dir = [], ms_config_dir = [],
     ms_runtime_config = None\<rparr>"

definition sharded_topology :: topology where
  "sharded_topology = \<lparr>t_global = example_global, t_mongod = [example_mongod ''h'' 30000],
     t_mongos = [example_router ''h'' 30002], t_config_svr = [example_config_server ''h'' 30001], t_replica_sets = []\<rparr>"

definition example_generator :: conf_gen where
  "example_generator = new_config_generator (abs_path [''c'', ''v7.0'']) ''c'' sharded_topology ''7.0'' ''/bin''"

definition example_env :: process_env where
  "example_env = \<lparr>env_home = ''/root'', env_user = ''root'', env_home_dir = Ok ''/root'', env_os = ''linux'', env_arch = ''amd64''\<rparr>"

lemma includes_exist_witness:
  "wp (generate_all example_env example_generator) (\<lambda>e w'. e = None \<longrightarrow>
     is_file (w_fs w') (path_join [cg_dir example_generator, ''config-'' @ itoa 30001 @ ''/supervisor.conf''])) example_world"
proof -
  have cs: "comps_ok [''c'', ''v7.0'']" "cg_dir example_generator = abs_path [''c'', ''v7.0'']"
    by (simp_all add: comps_ok_def comp_ok_def dot_def dotdot_def example_generator_def new_config_generator_def)
  have mem: "''config-'' @ itoa 30001 @ ''/supervisor.conf'' \<in> set (conf_includes example_generator)"
    by (simp add: conf_includes_def example_generator_def new_config_generator_def sharded_topology_def
        example_config_server_def)
  show ?thesis
    by (rule wp_mono [OF includes_exist [OF cs]]) (use mem in auto)
qed

section \<open>Scripts for programs that do not exist\<close>

text \<open>The texts of all node files; the first line of each names its program.\<close>

definition node_confs :: "process_env \<Rightarrow> conf_gen \<Rightarrow> string list list" where
  "node_confs env g =
     map (\<lambda>n. node_conf env g ''config'' (cs_host n) (cs_port n) (cs_replica_set n)) (t_config_svr (cg_topology g))
     @ map (\<lambda>n. node_conf env g ''mongod'' (md_host n) (md_port n) (md_replica_set n)) (t_mongod (cg_topology g))
     @ map (\<lambda>n. mongos_conf env g (ms_port n)) (t_mongos (cg_topology g))"

lemma hd_program_lines: "hd (program_lines env n b c d l) = ''[program:'' @ n @ '']'' @ nl"
  by (simp add: program_lines_def)

lemma node_conf_header:
  "hd (node_conf env g t h p rs) = ''[program:'' @ t @ ''-'' @ itoa p @ '']'' @ nl"
  "hd (mongos_conf env g p) = ''[program:mongos-'' @ itoa p @ '']'' @ nl"
  by (simp_all add: node_conf_def mongos_conf_def Let_def get_program_name_def program_lines_def)

text \<open>
  The scripts made for a config server drive a program that is in no configuration: they say
  \<^verbatim>\<open>mongod-\<close> and the port, while the node files call it \<^verbatim>\<open>config-\<close> and the port. So the start, stop and
  status scripts of config servers do not work.
\<close>
theorem config_server_scripts_unknown:
  assumes "n \<in> set (t_config_svr (cg_topology g))" "\<forall>m \<in> set (t_mongod (cg_topology g)). md_port m \<noteq> cs_port n"
  shows "''mongod-'' @ itoa (cs_port n) \<in> set (script_programs g) \<and>
    ''[program:'' @ (''mongod-'' @ itoa (cs_port n)) @ '']'' @ nl \<notin> hd ` set (node_confs env g)"
proof
  show "''mongod-'' @ itoa (cs_port n) \<in> set (script_programs g)"
    using assms(1) by (simp add: script_programs_def)
  show "''[program:'' @ (''mongod-'' @ itoa (cs_port n)) @ '']'' @ nl \<notin> hd ` set (node_confs env g)"
    using assms(2) by (auto simp: node_confs_def node_conf_header)
qed

lemma config_server_scripts_unknown_witness:
  "''mongod-'' @ itoa 30001 \<in> set (script_programs example_generator)"
  using config_server_scripts_unknown [of "example_config_server ''h'' 30001" example_generator]
  by (simp add: example_generator_def new_config_generator_def sharded_topology_def example_config_server_def example_mongod_def)

section \<open>Writes that nobody checks\<close>

lemma fprint_all_fails:
  assumes "\<forall>n \<ge> w_nio w. w_faults w n = Some (Fault m None)"
  shows "wp (fprint_all q ss) (\<lambda>_ w'. w_fs w' = w_fs w) w"
  using assms
proof (induction ss arbitrary: w)
  case (Cons s ss)
  let ?w = "w\<lparr>w_nio := Suc (w_nio w), w_tick := Suc (w_tick w)\<rparr>"
  have "wp (fprint_all q ss) (\<lambda>_ w'. w_fs w' = w_fs ?w) ?w" by (rule Cons.IH) (use Cons.prems in simp)
  then show ?case using Cons.prems by (simp add: write_file_def)
qed simp

text \<open>
  The main configuration is written without a look at the errors: if the disk is full right after the file was
  made, \<^verbatim>\<open>GenerateMainConfigWithIncludes\<close> reports success and leaves an empty configuration.
\<close>
theorem main_config_lost:
  assumes "\<not> is_link (w_fs w) q" "q = path_clean (conf_file g)" "\<not> is_dir (w_fs w) q" "is_dir (w_fs w) (path_dir q)"
    and "w_faults w (w_nio w) = None" "\<forall>n > w_nio w. w_faults w n = Some (Fault m None)"
  shows "wp (generate_main_config_with_includes g)
    (\<lambda>e w'. e = None \<and> (\<exists>t. mget (w_fs w') q = Some (FFile (Text []) t))) w"
proof -
  have follow: "fs_follow (w_fs w) (conf_file g) = Some q" using assms(1,2) fs_follow_plain by blast
  have run: "run_state (os_create (conf_file g)) w = (Inr q, w\<lparr>w_nio := Suc (w_nio w), w_tick := Suc (w_tick w),
      w_fs := mput q (FFile (Text []) (w_clock w (w_tick w))) (w_fs w)\<rparr>)"
    using assms(3-5) by (simp add: os_create_def follow)
  show ?thesis
    unfolding generate_main_config_with_includes_def wp_bind
    unfolding wp_def [of "os_create (conf_file g)"] run prod.case sum.case wp_bind
    by (rule wp_mono [OF fprint_all_fails [of _ m]]) (use assms(6) in auto)
qed

lemma main_config_lost_witness:
  "wp (generate_main_config_with_includes example_generator) (\<lambda>e w'. e = None \<and>
     (\<exists>t. mget (w_fs w') ''/c/v7.0/supervisor.ini'' = Some (FFile (Text []) t)))
   (example_world\<lparr>w_fs := [(''/c'', FDir), (''/c/v7.0'', FDir)],
      w_faults := (\<lambda>n. if n = 0 then None else Some (Fault ''no space left'' None))\<rparr>)"
proof -
  have p: "path_clean (conf_file example_generator) = ''/c/v7.0/supervisor.ini''" "path_dir ''/c/v7.0/supervisor.ini'' = ''/c/v7.0''"
    by (simp_all add: example_generator_def new_config_generator_def path_join_def path_clean_def abs_path_def is_abs_def
        dot_def dotdot_def path_dir_def)
  show ?thesis
    by (rule main_config_lost [where m = "''no space left''"]) (simp_all add: p is_link_def is_dir_def dot_def example_world_def)
qed

end
