(* ===== verification/Supervisor_Mgr.thy ===== *)
theory Supervisor_Mgr imports Supervisor_Conf begin

text \<open>
  \<^verbatim>\<open>pkg/supervisor/manager.go\<close> and \<^verbatim>\<open>pkg/supervisor/binary.go\<close>: driving the supervisord of a cluster.

  The binary itself, the processes of the machine and the network are parameters, collected in \<open>sup_os\<close>. Sleeping
  is not a step of the model: it shows in the readings of the clock.
\<close>

section \<open>What the machine provides\<close>

record sup_os =
  so_env :: process_env
  so_spawn :: "string list \<Rightarrow> err option io"           \<comment> \<open>\<^verbatim>\<open>exec.Command\<close> and \<^verbatim>\<open>Start\<close>\<close>
  so_run :: "string list \<Rightarrow> (string \<times> err option) io"  \<comment> \<open>\<^verbatim>\<open>CombinedOutput\<close>, and \<^verbatim>\<open>Run\<close> without the output\<close>
  so_alive :: "int \<Rightarrow> bool io"                          \<comment> \<open>signal 0 reaches the process\<close>
  so_kill :: "int \<Rightarrow> err option io"
  so_listen :: "int \<Rightarrow> bool io"                         \<comment> \<open>binding the port on the loopback address\<close>
  so_temp :: "string \<Rightarrow> string res io"
  so_chmod :: "string \<Rightarrow> err option io"

section \<open>The binary\<close>

definition supervisord_version :: string where "supervisord_version = ''v1.0.0''"
definition supervisord_base_url :: string where
  "supervisord_base_url = ''https://github.com/zph/supervisord/releases/download''"

definition release_arch :: "process_env \<Rightarrow> string res" where
  "release_arch env =
     (if env_os env = ''darwin'' \<and> env_arch env = ''arm64'' then Ok ''Darwin_arm64''
      else if env_os env = ''darwin'' \<and> env_arch env = ''amd64'' then Ok ''Darwin_x86_64''
      else if env_os env = ''linux'' \<and> env_arch env = ''amd64'' then Ok ''Linux_x86_64''
      else if env_os env = ''linux'' \<and> env_arch env = ''arm64'' then Ok ''Linux_arm64''
      else Err (''unsupported platform/architecture: '' @ env_os env @ ''/'' @ env_arch env))"

definition fetch_supervisord :: "sup_os \<Rightarrow> string \<Rightarrow> string \<Rightarrow> string \<Rightarrow> string \<Rightarrow> string res io" where
  "fetch_supervisord so url bin_dir binary_path tmp = do {
     c \<leftarrow> so_run so [''curl'', ''-fsSL'', url, ''-o'', tmp];
     case snd c of
       Some e \<Rightarrow> ret (Err (wrapf (''failed to download supervisord from '' @ url) e))
     | None \<Rightarrow> do {
         x \<leftarrow> so_run so [''tar'', ''-xzf'', tmp, ''-C'', bin_dir, ''--strip-components=1''];
         case snd x of
           Some e \<Rightarrow> ret (Err (wrapf ''failed to extract supervisord'' e))
         | None \<Rightarrow> do {
             s \<leftarrow> os_stat binary_path;
             case s of
               Inl e \<Rightarrow> ret (Err (wrapf ''supervisord binary not found after extraction'' (os_msg e)))
             | Inr _ \<Rightarrow> do {
                 m \<leftarrow> so_chmod so binary_path;
                 case m of
                   Some e \<Rightarrow> ret (Err (wrapf ''failed to make binary executable'' e))
                 | None \<Rightarrow> ret (Ok binary_path) } } } }"

definition get_supervisord_binary :: "sup_os \<Rightarrow> string \<Rightarrow> string res io" where
  "get_supervisord_binary so cache_dir = (case release_arch (so_env so) of
     Inl e \<Rightarrow> ret (Err e)
   | Inr arch \<Rightarrow>
      let bin_dir = path_join [cache_dir, ''supervisor'', supervisord_version, env_os (so_env so) @ ''-'' @ env_arch (so_env so)];
          binary_path = path_join [bin_dir, ''supervisord'']; 
          url = supervisord_base_url @ ''/'' @ supervisord_version @ ''/supervisord_1.0.0-SNAPSHOT-908c0d1_'' @ arch @ ''.tar.gz'' in do {
        d \<leftarrow> os_mkdir_all bin_dir;
        case d of
          Some e \<Rightarrow> ret (Err (wrapf ''failed to create cache directory'' (os_msg e)))
        | None \<Rightarrow> do {
            s \<leftarrow> os_stat binary_path;
            case s of
              Inr _ \<Rightarrow> ret (Ok binary_path)
            | Inl _ \<Rightarrow> do {
                t \<leftarrow> so_temp so ''supervisord-*.tar.gz'';
                case t of
                  Inl e \<Rightarrow> ret (Err (wrapf ''failed to create temp file'' e))
                | Inr tmp \<Rightarrow> do {
                    r \<leftarrow> fetch_supervisord so url bin_dir binary_path tmp;
                    _ \<leftarrow> os_remove tmp;
                    ret r } } } })"

section \<open>Managers\<close>

record manager =
  mg_dir :: string
  mg_name :: string
  mg_config_path :: string
  mg_binary :: string
  mg_port :: int

definition home_cache_dir :: "string \<Rightarrow> string" where
  "home_cache_dir home = path_join [home, ''.mup'', ''storage'', ''bin'']"

definition manager_binary :: "sup_os \<Rightarrow> string res io" where
  "manager_binary so = (case env_home_dir (so_env so) of
     Inl e \<Rightarrow> ret (Err (wrapf ''failed to get home directory'' e))
   | Inr home \<Rightarrow> do {
       b \<leftarrow> get_supervisord_binary so (home_cache_dir home);
       ret (wrap_err ''failed to get supervisord binary'' b) })"

definition new_manager :: "sup_os \<Rightarrow> string \<Rightarrow> string \<Rightarrow> manager res io" where
  "new_manager so cluster_dir cluster_name = do {
     b \<leftarrow> manager_binary so;
     ret (case b of
       Inl e \<Rightarrow> Err e
     | Inr binary \<Rightarrow> Ok \<lparr>mg_dir = cluster_dir, mg_name = cluster_name,
         mg_config_path = path_join [cluster_dir, ''supervisor.ini''], mg_binary = binary,
         mg_port = supervisor_port cluster_dir\<rparr>) }"

text \<open>The text of a file as bytes; no file that this component reads is one of the program's JSON documents.\<close>

definition text_of :: "fcontent \<Rightarrow> string" where
  "text_of c = (case c of Text s \<Rightarrow> s | Json _ \<Rightarrow> ''{'')"

definition atoi_error :: "string \<Rightarrow> err" where
  "atoi_error s = (case split_sign s of (_, ds) \<Rightarrow>
     ''strconv.Atoi: parsing '' @ dq @ s @ dq @ '': ''
       @ (if ds \<noteq> [] \<and> list_all is_digit ds then ''value out of range'' else ''invalid syntax''))"

definition port_prefix :: string where "port_prefix = ''port = 127.0.0.1:''"

fun port_in_lines :: "string list \<Rightarrow> int res" where
  "port_in_lines [] = Err ''port not found in config''"
| "port_in_lines (l # ls) =
     (let line = trim_space l in
      if has_prefix line port_prefix
      then (case atoi (trim_prefix line port_prefix) of
          None \<Rightarrow> Err (wrapf ''failed to parse port from config'' (atoi_error (trim_prefix line port_prefix)))
        | Some p \<Rightarrow> Ok p)
      else port_in_lines ls)"

definition read_port_from_config :: "string \<Rightarrow> int res io" where
  "read_port_from_config config_path = do {
     r \<leftarrow> os_read_file config_path;
     ret (case r of
       Inl e \<Rightarrow> Err (wrapf ''failed to read config'' (os_msg e))
     | Inr c \<Rightarrow> port_in_lines (split_on (CHR 0x0A) (text_of c))) }"

text \<open>Where \<^verbatim>\<open>LoadManager\<close> finds the configuration: in the directory, or in \<^verbatim>\<open>current\<close> below it.\<close>

definition find_config_dir :: "string \<Rightarrow> string res io" where
  "find_config_dir cluster_dir = do {
     a \<leftarrow> os_stat (path_join [cluster_dir, ''supervisor.ini'']);
     case a of
       Inr _ \<Rightarrow> ret (Ok cluster_dir)
     | Inl e \<Rightarrow>
         if \<not> is_not_exist e then ret (Ok cluster_dir)
         else do {
           b \<leftarrow> os_stat (path_join [path_join [cluster_dir, ''current''], ''supervisor.ini'']);
           case b of
             Inr _ \<Rightarrow> ret (Ok (path_join [cluster_dir, ''current'']))
           | Inl _ \<Rightarrow> ret (Err (''supervisor config not found at '' @ path_join [cluster_dir, ''supervisor.ini''] @ '' or ''
               @ cluster_dir @ ''/current/supervisor.ini'')) } }"

definition load_manager :: "sup_os \<Rightarrow> string \<Rightarrow> string \<Rightarrow> manager res io" where
  "load_manager so cluster_dir cluster_name = do {
     d \<leftarrow> find_config_dir cluster_dir;
     case d of
       Inl e \<Rightarrow> ret (Err e)
     | Inr dir \<Rightarrow> do {
         p \<leftarrow> read_port_from_config (path_join [dir, ''supervisor.ini'']);
         b \<leftarrow> manager_binary so;
         ret (case b of
           Inl e \<Rightarrow> Err e
         | Inr binary \<Rightarrow> Ok \<lparr>mg_dir = dir, mg_name = cluster_name, mg_config_path = path_join [dir, ''supervisor.ini''],
             mg_binary = binary, mg_port = (case p of Inl _ \<Rightarrow> supervisor_port dir | Inr n \<Rightarrow> n)\<rparr>) } }"

section \<open>The daemon\<close>

definition read_pid :: "manager \<Rightarrow> (os_err + int option) io" where
  "read_pid m = do {
     r \<leftarrow> os_read_file (path_join [mg_dir m, ''supervisor.pid'']);
     ret (case r of Inl e \<Rightarrow> Inl e | Inr c \<Rightarrow> Inr (sscanf_d (text_of c))) }"

definition is_running :: "sup_os \<Rightarrow> manager \<Rightarrow> bool io" where
  "is_running so m = do {
     p \<leftarrow> read_pid m;
     case p of
       Inr (Some pid) \<Rightarrow> so_alive so pid
     | _ \<Rightarrow> ret False }"

definition start_daemon :: "sup_os \<Rightarrow> manager \<Rightarrow> err option io" where
  "start_daemon so m = do {
     up \<leftarrow> is_running so m;
     if up then ret None
     else do {
       e \<leftarrow> so_spawn so [mg_binary m, ''-c'', mg_config_path m];
       case e of
         Some x \<Rightarrow> ret (Some (wrapf ''failed to start supervisord'' x))
       | None \<Rightarrow> do {
           ok \<leftarrow> is_running so m;
           ret (if ok then None else Some (''supervisord failed to start - check '' @ mg_dir m @ ''/supervisor.log'')) } } }"

definition ctl :: "sup_os \<Rightarrow> manager \<Rightarrow> string list \<Rightarrow> (string \<times> err option) io" where
  "ctl so m args =
     so_run so ([mg_binary m, ''ctl'', ''-c'', mg_config_path m, ''-s'', ''http://localhost:'' @ itoa (mg_port m)] @ args)"

definition force_kill :: "sup_os \<Rightarrow> manager \<Rightarrow> err option io" where
  "force_kill so m = do {
     p \<leftarrow> read_pid m;
     case p of
       Inl e \<Rightarrow> ret (Some (wrapf ''failed to read PID file'' (os_msg e)))
     | Inr None \<Rightarrow> ret (Some (wrapf ''failed to parse PID'' ''expected integer''))
     | Inr (Some pid) \<Rightarrow> do {
         e \<leftarrow> so_kill so pid;
         case e of
           Some x \<Rightarrow> ret (Some (wrapf ''failed to kill process'' x))
         | None \<Rightarrow> do {
             up \<leftarrow> is_running so m;
             ret (if up then Some ''process still running after kill'' else None) } } }"

text \<open>
  The loop that waits for the shutdown, with fuel: \<open>Some True\<close> when the daemon is gone, \<open>Some False\<close> when the
  deadline has passed.
\<close>

fun await_stop :: "nat \<Rightarrow> sup_os \<Rightarrow> manager \<Rightarrow> int \<Rightarrow> bool option io" where
  "await_stop 0 so m deadline = ret None"
| "await_stop (Suc n) so m deadline = do {
     now \<leftarrow> time_now;
     if now < deadline then do {
       up \<leftarrow> is_running so m;
       if \<not> up then ret (Some True) else await_stop n so m deadline }
     else ret (Some False) }"

definition second :: int where "second = 1000000000"

definition await_or_kill :: "nat \<Rightarrow> sup_os \<Rightarrow> manager \<Rightarrow> err option option io" where
  "await_or_kill n so m = do {
     now \<leftarrow> time_now;
     s \<leftarrow> await_stop n so m (now + 30 * second);
     case s of
       None \<Rightarrow> ret None
     | Some stopped \<Rightarrow>
         if stopped then ret (Some None)
         else do {
           k \<leftarrow> force_kill so m;
           ret (Some (map_option (wrapf ''supervisord did not stop within 30 seconds and force kill failed'') k)) } }"

definition stop_daemon :: "nat \<Rightarrow> sup_os \<Rightarrow> manager \<Rightarrow> err option option io" where
  "stop_daemon n so m = do {
     up \<leftarrow> is_running so m;
     if \<not> up then ret (Some None)
     else do {
       r \<leftarrow> ctl so m [''shutdown''];
       case snd r of
         Some e \<Rightarrow> ret (Some (Some (wrapf ''failed to stop supervisord'' e)))
       | None \<Rightarrow> await_or_kill n so m } }"

section \<open>Processes\<close>

definition ctl_failed :: "string \<Rightarrow> string \<Rightarrow> err \<Rightarrow> err" where
  "ctl_failed what out e = what @ '': '' @ e @ '' (output: '' @ out @ '')''"

definition ctl_checked :: "sup_os \<Rightarrow> manager \<Rightarrow> string \<Rightarrow> string list \<Rightarrow> err option io" where
  "ctl_checked so m what args = do {
     r \<leftarrow> ctl so m args;
     ret (map_option (ctl_failed what (fst r)) (snd r)) }"

definition start_process :: "sup_os \<Rightarrow> manager \<Rightarrow> string \<Rightarrow> err option io" where
  "start_process so m name = ctl_checked so m (''failed to start process '' @ name) [''start'', name]"

definition start_processes :: "sup_os \<Rightarrow> manager \<Rightarrow> string list \<Rightarrow> err option io" where
  "start_processes so m names =
     (if names = [] then ret None else ctl_checked so m ''failed to start processes'' (''start'' # names))"

definition stop_process :: "sup_os \<Rightarrow> manager \<Rightarrow> string \<Rightarrow> err option io" where
  "stop_process so m name = ctl_checked so m (''failed to stop process '' @ name) [''stop'', name]"

definition stop_processes :: "sup_os \<Rightarrow> manager \<Rightarrow> string list \<Rightarrow> err option io" where
  "stop_processes so m names =
     (if names = [] then ret None else ctl_checked so m ''failed to stop processes'' (''stop'' # names))"

definition restart_process :: "sup_os \<Rightarrow> manager \<Rightarrow> string \<Rightarrow> err option io" where
  "restart_process so m name = ctl_checked so m (''failed to restart process '' @ name) [''restart'', name]"

definition start_group :: "sup_os \<Rightarrow> manager \<Rightarrow> string \<Rightarrow> err option io" where
  "start_group so m name = ctl_checked so m (''failed to start group '' @ name) [''start'', name @ '':*'']"

definition stop_group :: "sup_os \<Rightarrow> manager \<Rightarrow> string \<Rightarrow> err option io" where
  "stop_group so m name = ctl_checked so m (''failed to stop group '' @ name) [''stop'', name @ '':*'']"

definition reload_config :: "sup_os \<Rightarrow> manager \<Rightarrow> err option io" where
  "reload_config so m = ctl_checked so m ''failed to reload config'' [''reload'']"

record process_status =
  pst_name :: string
  pst_state :: string
  pst_pid :: int
  pst_uptime :: int
  pst_description :: string

definition esc :: string where "esc = [CHR 0x1B]"

definition strip_colors :: "string \<Rightarrow> string" where
  "strip_colors l =
     replace_all ''[0m'' [] (replace_all ''[0;32m'' [] (replace_all (esc @ ''[0m'') [] (replace_all (esc @ ''[0;32m'') [] l)))"

fun find_pid :: "string list \<Rightarrow> int" where
  "find_pid [] = 0"
| "find_pid (f # fs) =
     (if f = ''pid'' \<and> fs \<noteq> [] then (case atoi (trim_suffix (hd fs) '','') of None \<Rightarrow> 0 | Some p \<Rightarrow> p) else find_pid fs)"

definition parse_status :: "string \<Rightarrow> process_status option" where
  "parse_status l = (let fs = go_fields l in
     if length fs < 2 then None
     else Some \<lparr>pst_name = fs ! 0, pst_state = fs ! 1, pst_pid = find_pid fs, pst_uptime = 0,
       pst_description = (if length fs > 2 then join_with '' '' (drop 2 fs) else [])\<rparr>)"

definition get_process_status :: "sup_os \<Rightarrow> manager \<Rightarrow> string \<Rightarrow> process_status res io" where
  "get_process_status so m name = do {
     r \<leftarrow> ctl so m [''status'', name];
     ret (case snd r of
       Some e \<Rightarrow> Err (wrapf (''failed to get status for '' @ name) e)
     | None \<Rightarrow> let line = strip_colors (trim_space (fst r)) in
         (case parse_status line of None \<Rightarrow> Err (''unexpected status output format: '' @ line) | Some s \<Rightarrow> Ok s)) }"

definition get_all_processes :: "sup_os \<Rightarrow> manager \<Rightarrow> process_status list res io" where
  "get_all_processes so m = do {
     r \<leftarrow> ctl so m [''status''];
     ret (case snd r of
       Some e \<Rightarrow> Err (wrapf ''failed to get all process status'' e)
     | None \<Rightarrow> Ok (List.map_filter (\<lambda>l. if trim_space l = [] then None else parse_status (strip_colors (trim_space l)))
         (split_on (CHR 0x0A) (fst r)))) }"

section \<open>Free ports\<close>

definition default_supervisor_base_port :: int where "default_supervisor_base_port = 39001"
definition max_supervisor_port_scan_attempts :: nat where "max_supervisor_port_scan_attempts = 100"

fun scan_supervisor_ports :: "nat \<Rightarrow> int \<Rightarrow> sup_os \<Rightarrow> int res io" where
  "scan_supervisor_ports 0 p so = ret (Err (''no available port found in range '' @ itoa default_supervisor_base_port @ ''-''
     @ itoa (default_supervisor_base_port + int max_supervisor_port_scan_attempts - 1)))"
| "scan_supervisor_ports (Suc n) p so = do {
     ok \<leftarrow> so_listen so p;
     if ok then ret (Ok p) else scan_supervisor_ports n (p + 1) so }"

definition find_supervisor_port :: "sup_os \<Rightarrow> int res io" where
  "find_supervisor_port so = scan_supervisor_ports max_supervisor_port_scan_attempts default_supervisor_base_port so"

section \<open>The port that was written is the port that is read\<close>

lemma split_unlines:
  "(\<And>l. l \<in> set ls \<Longrightarrow> CHR 0x0A \<notin> set l) \<Longrightarrow> split_on (CHR 0x0A) (unlines ls @ rest) = ls @ split_on (CHR 0x0A) rest"
proof (induction ls)
  case (Cons l ls)
  then show ?case using split_on_append [of "CHR 0x0A" l "unlines ls @ rest"] by (simp add: unlines_def nl_def)
qed (simp add: unlines_def)

definition header_lines :: "conf_gen \<Rightarrow> string list" where
  "header_lines g = [''[supervisord]'', ''logfile = '' @ path_join [cg_dir g, ''supervisor.log''], ''loglevel = info'',
     ''pidfile = '' @ path_join [cg_dir g, ''supervisor.pid''], ''nodaemon = false'', ''identifier = '' @ cg_name g, [],
     ''[inet_http_server]'', port_prefix @ itoa (generator_port g)]"

lemma main_text_lines:
  "\<exists>rest. concat (main_text g) = unlines (header_lines g) @ rest"
  by (simp add: main_text_def main_header_def header_lines_def unlines_def port_prefix_def)

lemma newline_notin_itoa: "CHR 0x0A \<notin> set (itoa n)"
proof
  assume "CHR 0x0A \<in> set (itoa n)"
  from itoa_chars [OF this] show False by (simp add: is_digit_def)
qed

lemma white_itoa: "c \<in> set (itoa n) \<Longrightarrow> \<not> is_white c"
  using itoa_chars [of c n] by (auto simp: is_white_def is_space_def is_digit_def)

lemma port_line: "in_int64 p \<Longrightarrow> port_in_lines ((port_prefix @ itoa p) # ls) = Ok p"
proof -
  assume p: "in_int64 p"
  have "last (port_prefix @ itoa p) \<in> set (itoa p)" by (simp del: last_in_set add: last_in_set [of "itoa p"])
  then have "\<not> is_white (last (port_prefix @ itoa p))" by (rule white_itoa)
  moreover have "\<not> is_white (hd (port_prefix @ itoa p))" by (simp add: port_prefix_def is_white_def is_space_def)
  ultimately have "trim_space (port_prefix @ itoa p) = port_prefix @ itoa p" by (intro trim_space_id) simp_all
  then show ?thesis using p by (simp add: Let_def)
qed

lemma not_port_line: "\<not> has_prefix (dropWhile is_white l) port_prefix \<Longrightarrow> port_in_lines (l # ls) = port_in_lines ls"
  using has_prefix_trim [of l port_prefix] by (auto simp: Let_def)

lemma other_line:
  "\<not> is_white c \<Longrightarrow> c \<noteq> CHR ''p'' \<or> d \<noteq> CHR ''o'' \<Longrightarrow> port_in_lines ((c # d # l) # ls) = port_in_lines ls"
  by (rule not_port_line) (auto simp: has_prefix_def port_prefix_def)

lemma empty_line: "port_in_lines ([] # ls) = port_in_lines ls"
  by (rule not_port_line) (simp add: has_prefix_def port_prefix_def)

lemma port_in_header: "port_in_lines (header_lines g @ ls) = Ok (generator_port g)"
proof -
  have "in_int64 (generator_port g)"
    using uint_lt2p [of "fnv32a (cg_dir g) mod 1000"] uint_ge_0 [of "fnv32a (cg_dir g) mod 1000"]
    by (simp add: generator_port_def supervisor_port_def in_int64_def int64_min_def int64_max_def)
  note port = port_line [OF this]
  show ?thesis
    unfolding header_lines_def append_Cons append_Nil
    by (simp add: other_line empty_line is_white_def is_space_def port del: port_in_lines.simps)
qed

lemma main_config_written:
  assumes "quiet w"
  shows "wp (generate_main_config_with_includes g) (\<lambda>e w'. e = None \<longrightarrow> quiet w' \<and>
    (\<exists>q t. fs_follow (w_fs w') (conf_file g) = Some q \<and> mget (w_fs w') q = Some (FFile (Text (concat (main_text g))) t))) w"
proof -
  have print: "wp (fprint_all q (main_text g)) (\<lambda>_ w'. quiet w' \<and>
      (\<exists>q t. fs_follow (w_fs w') (conf_file g) = Some q \<and> mget (w_fs w') q = Some (FFile (Text (concat (main_text g))) t))) w1"
    if "quiet w1" "fs_follow (w_fs w1) (conf_file g) = Some q" "mget (w_fs w1) q = Some (FFile (Text []) t)" for q t w1
  proof -
    have "wp (fprint_all q (main_text g)) (\<lambda>_ w'. fs_grows (w_fs w1) (w_fs w') \<and> quiet w' \<and>
        (\<exists>t. mget (w_fs w') q = Some (FFile (Text ([] @ concat (main_text g))) t))) w1"
      unfolding wp_conj [of _ "\<lambda>_ w'. fs_grows (w_fs w1) (w_fs w')"]
    proof
      show "wp (fprint_all q (main_text g)) (\<lambda>_ w'. fs_grows (w_fs w1) (w_fs w')) w1"
        by (rule wp_grown [OF grows_fprint_all])
    qed (rule fprint_all_quiet [OF that(1,3)])
    then show ?thesis
      by (rule wp_mono) (use that(2) fs_grows_follow in auto)
  qed
  show ?thesis
    unfolding generate_main_config_with_includes_def wp_bind
  proof (rule wpI)
    fix r w1
    assume run: "run_state (os_create (conf_file g)) w = (r, w1)"
    have create: "quiet w1 \<and> fs_follow (w_fs w1) (conf_file g) = Some q \<and> (\<exists>t. mget (w_fs w1) q = Some (FFile (Text []) t))"
      if "r = Inr q" for q
    proof -
      have "fs_grows (w_fs w) (w_fs w1)"
        using keepsD [OF grows_create [of "w_fs w" "conf_file g"], of w] run by (simp add: wp_def grown_def)
      then show ?thesis using run that assms fs_grows_follow [of "w_fs w" "w_fs w1" "conf_file g"]
        by (auto simp: os_create_def quiet_def split: option.splits if_splits)
    qed
    show "wp (case r of
        Inl e \<Rightarrow> ret (Some (wrapf ''failed to create config file'' (os_msg e)))
      | Inr q \<Rightarrow> do { _ \<leftarrow> fprint_all q (main_text g); ret None }) (\<lambda>e w'. e = None \<longrightarrow> quiet w' \<and>
      (\<exists>q t. fs_follow (w_fs w') (conf_file g) = Some q \<and> mget (w_fs w') q = Some (FFile (Text (concat (main_text g))) t))) w1"
    proof (cases r)
      case (Inr q)
      then obtain t where "quiet w1" "fs_follow (w_fs w1) (conf_file g) = Some q" "mget (w_fs w1) q = Some (FFile (Text []) t)"
        using create by blast
      from print [OF this] show ?thesis using Inr by simp
    qed simp
  qed
qed

text \<open>
  The generator and the manager agree on the control port: on a machine where nothing fails, the port that is
  read back from a generated configuration is the port that a new manager computes for the same directory, so a
  loaded manager and a new one talk to the same daemon.
\<close>
theorem port_read_back:
  assumes "quiet w" "CHR 0x0A \<notin> set (path_join [cg_dir g, ''supervisor.log''])"
    "CHR 0x0A \<notin> set (path_join [cg_dir g, ''supervisor.pid''])" "CHR 0x0A \<notin> set (cg_name g)"
  shows "wp (do { e \<leftarrow> generate_main_config_with_includes g; p \<leftarrow> read_port_from_config (conf_file g); ret (e, p) })
    (\<lambda>(e, p) w'. e = None \<longrightarrow> p = Ok (supervisor_port (cg_dir g))) w"
proof -
  have lines: "CHR 0x0A \<notin> set l" if "l \<in> set (header_lines g)" for l
    using that assms(2-4) newline_notin_itoa by (auto simp: header_lines_def port_prefix_def)
  obtain rest where "concat (main_text g) = unlines (header_lines g) @ rest" using main_text_lines by blast
  then have port: "port_in_lines (split_on (CHR 0x0A) (concat (main_text g))) = Ok (supervisor_port (cg_dir g))"
    using split_unlines [OF lines] port_in_header by (simp add: generator_port_def)
  show ?thesis
    unfolding wp_bind
  proof (rule wp_mono [OF main_config_written [OF assms(1)]])
    fix e :: "err option" and w1 :: world
    assume e: "e = None \<longrightarrow> quiet w1 \<and> (\<exists>q t. fs_follow (w_fs w1) (conf_file g) = Some q \<and>
      mget (w_fs w1) q = Some (FFile (Text (concat (main_text g))) t))"
    show "wp (read_port_from_config (conf_file g)) (\<lambda>p. wp (ret (e, p))
        (\<lambda>(e, p) w'. e = None \<longrightarrow> p = Ok (supervisor_port (cg_dir g)))) w1"
      using e port
      by (cases e) (auto simp: read_port_from_config_def os_read_file_def text_of_def simp del: port_in_lines.simps)
  qed
qed

lemma port_read_back_witness:
  "wp (do { e \<leftarrow> generate_main_config_with_includes example_generator;
            p \<leftarrow> read_port_from_config (conf_file example_generator); ret (e, p) })
    (\<lambda>(e, p) w'. e = None \<longrightarrow> p = Ok (supervisor_port (cg_dir example_generator))) example_world"
  by (rule port_read_back) (simp_all add: example_generator_def new_config_generator_def path_join_def path_clean_def
      abs_path_def is_abs_def dot_def dotdot_def)

section \<open>Stopping ends\<close>

text \<open>The machine does not touch the program's clock.\<close>

definition clock_free :: "('a) io \<Rightarrow> bool" where
  "clock_free m = (\<forall>c k. keeps (\<lambda>w. w_clock w = c \<and> w_tick w = k) m)"

lemma clock_freeD: "clock_free m \<Longrightarrow> wp m (\<lambda>_ w'. w_clock w' = w_clock w \<and> w_tick w' = w_tick w) w"
  unfolding clock_free_def keeps_def by blast

lemma clock_free_running: "(\<And>pid. clock_free (so_alive so pid)) \<Longrightarrow> clock_free (is_running so m)"
  unfolding clock_free_def is_running_def read_pid_def
  by (intro allI keeps_intros) (auto simp: keeps_def os_read_file_def)

lemma await_stop_ends:
  assumes "\<And>pid. clock_free (so_alive so pid)" "deadline \<le> w_clock w (w_tick w + n)"
  shows "wp (await_stop (Suc n) so m deadline) (\<lambda>r _. r \<noteq> None) w"
  using assms(2)
proof (induction n arbitrary: w)
  case (Suc n)
  let ?w = "w\<lparr>w_tick := Suc (w_tick w)\<rparr>"
  have "wp (is_running so m) (\<lambda>up w'. \<not> up \<or> wp (await_stop (Suc n) so m deadline) (\<lambda>r _. r \<noteq> None) w') ?w"
    by (rule wp_mono [OF clock_freeD [OF clock_free_running [OF assms(1)]]])
      (use Suc.IH Suc.prems in \<open>simp del: await_stop.simps\<close>)
  then have "wp (is_running so m) (\<lambda>up. wp (if \<not> up then ret (Some True) else await_stop (Suc n) so m deadline)
      (\<lambda>r _. r \<noteq> None)) ?w"
    by (rule wp_mono) (auto simp del: await_stop.simps)
  then show ?case by (subst await_stop.simps) (auto simp del: await_stop.simps)
qed auto

text \<open>
  C32. Stopping a supervisor always ends: when a sleep takes at least its half second, 61 rounds are enough for the
  loop that waits for the daemon, whether the daemon goes away or not; after the deadline the kill follows and
  the function returns.
\<close>
theorem stop_returns:
  assumes "\<And>pid. clock_free (so_alive so pid)" "\<And>args. clock_free (so_run so args)"
    and clock: "\<And>i. w_tick w \<le> i \<Longrightarrow> w_clock w i \<le> w_clock w (Suc i) \<and> w_clock w (Suc i) + second div 2 \<le> w_clock w (Suc (Suc i))"
  shows "wp (stop_daemon 61 so m) (\<lambda>r _. r \<noteq> None) w"
proof -
  have late: "w_clock w (w_tick w) + int n * (second div 2) \<le> w_clock w (Suc (w_tick w) + n)" for n
  proof (induction n)
    case (Suc n)
    then show ?case using clock [of "w_tick w + n"] by (simp add: algebra_simps)
  qed (use clock in simp)
  have wait: "wp (await_stop 61 so m (w_clock w (w_tick w) + 30 * second)) (\<lambda>r _. r \<noteq> None) w1"
    if "w_clock w1 = w_clock w" "w_tick w1 = Suc (w_tick w)" for w1
    using await_stop_ends [OF assms(1), where n = 60] late [of 60] that by (simp add: second_def)
  have rest: "wp (await_or_kill 61 so m) (\<lambda>r _. r \<noteq> None) w1" if "w_clock w1 = w_clock w" "w_tick w1 = w_tick w" for w1
    unfolding await_or_kill_def wp_bind wp_clock that
    by (rule wp_mono [OF wait]) (use that in \<open>auto simp: wp_def case_prod_unfold\<close>)
  have quit: "wp (do { r \<leftarrow> ctl so m [''shutdown'']; case snd r of
         Some e \<Rightarrow> ret (Some (Some (wrapf ''failed to stop supervisord'' e)))
       | None \<Rightarrow> await_or_kill 61 so m }) (\<lambda>r _. r \<noteq> None) w1"
    if "w_clock w1 = w_clock w" "w_tick w1 = w_tick w" for w1
    unfolding wp_bind ctl_def
    by (rule wp_mono [OF clock_freeD [OF assms(2)]]) (use that rest in \<open>auto split: option.splits\<close>)
  show ?thesis
    unfolding stop_daemon_def wp_bind [of "is_running so m"]
    by (rule wp_mono [OF clock_freeD [OF clock_free_running [OF assms(1)]]]) (use quit in \<open>simp del: wp_bind\<close>)
qed

text \<open>A machine on which the daemon never goes away.\<close>

definition stuck_machine :: sup_os where
  "stuck_machine = \<lparr>so_env = example_env, so_spawn = (\<lambda>_. ret None), so_run = (\<lambda>_. ret ([], None)), so_alive = (\<lambda>_. ret True),
     so_kill = (\<lambda>_. ret None), so_listen = (\<lambda>_. ret True), so_temp = (\<lambda>_. ret (Ok ''/tmp/x'')), so_chmod = (\<lambda>_. ret None)\<rparr>"

definition example_manager :: manager where
  "example_manager = \<lparr>mg_dir = ''/c'', mg_name = ''c'', mg_config_path = ''/c/supervisor.ini'', mg_binary = ''/bin/supervisord'',
     mg_port = 19000\<rparr>"

lemma stop_returns_witness: "wp (stop_daemon 61 stuck_machine example_manager) (\<lambda>r _. r \<noteq> None) example_world"
  by (rule stop_returns) (simp_all add: stuck_machine_def clock_free_def example_world_def second_def)

section \<open>Reading the status\<close>

lemma strip_colors_plain: "CHR ''['' \<notin> set s \<Longrightarrow> strip_colors s = s"
  by (simp add: strip_colors_def esc_def replace_all_absent [of "CHR ''[''"])

lemma trim_space_subset: "set (trim_space s) \<subseteq> set s"
  by (auto simp: trim_space_def dest!: set_dropWhileD)

definition plain_word :: "string \<Rightarrow> bool" where
  "plain_word s = (s \<noteq> [] \<and> s \<noteq> ''pid'' \<and> (\<forall>c \<in> set s. \<not> is_white c \<and> c \<noteq> CHR ''[''))"

lemma status_fields:
  assumes "plain_word name" "plain_word state"
  shows "go_fields (name @ '' '' @ state @ '' pid '' @ itoa p @ '', '' @ rest) = [name, state, ''pid'', itoa p @ '',''] @ go_fields rest"
proof -
  have sp: "is_white (CHR '' '')" by (simp add: is_white_def is_space_def)
  have word: "go_fields (x @ '' '' @ s) = x # go_fields s" if "x \<noteq> []" "\<forall>c \<in> set x. \<not> is_white c" for x s
    using fields_word [OF that sp] by simp
  have p: "\<forall>c \<in> set (itoa p @ '',''). \<not> is_white c"
    using white_itoa [of _ p] by (auto simp: is_white_def is_space_def)
  have "go_fields (name @ '' '' @ state @ '' '' @ ''pid'' @ '' '' @ (itoa p @ '','') @ '' '' @ rest) =
      [name, state, ''pid'', itoa p @ '',''] @ go_fields rest"
    using assms p by (subst word | simp add: plain_word_def is_white_def is_space_def del: append.simps)+
  then show ?thesis by simp
qed

lemma trim_comma: "trim_suffix (s @ '','') '','' = s"
  by (simp add: trim_suffix_def has_prefix_def)

text \<open>
  The status of a running process is read correctly: from the line that supervisord prints for it, with any text
  after the process number, the manager gets the name, the state and the number, whatever white space surrounds it.
\<close>
theorem status_parsed:
  assumes run: "so_run so ([mg_binary m, ''ctl'', ''-c'', mg_config_path m, ''-s'', ''http://localhost:'' @ itoa (mg_port m)]
      @ [''status'', name]) = ret (name @ '' '' @ state @ '' pid '' @ itoa p @ '', '' @ rest, None)"
    and words: "plain_word name" "plain_word state" and p: "in_int64 p" and rest: "CHR ''['' \<notin> set rest"
  shows "\<exists>s. fst (run_state (get_process_status so m name) w) = Ok s \<and>
    pst_name s = name \<and> pst_state s = state \<and> pst_pid s = p"
proof -
  let ?out = "name @ '' '' @ state @ '' pid '' @ itoa p @ '', '' @ rest"
  have "CHR ''['' \<notin> set (itoa p)" using itoa_chars [of "CHR ''[''" p] by (auto simp: is_digit_def)
  then have "CHR ''['' \<notin> set ?out" using words rest by (auto simp: plain_word_def)
  then have "strip_colors (trim_space ?out) = trim_space ?out" using trim_space_subset by (intro strip_colors_plain) blast
  moreover have "go_fields (trim_space ?out) = [name, state, ''pid'', itoa p @ '',''] @ go_fields rest"
    using status_fields [OF words] by (simp only: fields_trim)
  moreover have "find_pid ([name, state, ''pid'', itoa p @ '',''] @ go_fields rest) = p"
    using words p by (simp add: plain_word_def trim_comma)
  ultimately show ?thesis
    unfolding get_process_status_def ctl_def run
    by (simp add: parse_status_def Let_def del: append.simps find_pid.simps) (simp add: nth_append)
qed

lemma status_parsed_witness:
  "\<exists>s. fst (run_state (get_process_status (stuck_machine\<lparr>so_run := (\<lambda>_. ret (''mongod-30000 RUNNING pid '' @ itoa 12 @ '', uptime 0:01'', None))\<rparr>)
       example_manager ''mongod-30000'') example_world) = Ok s \<and>
     pst_name s = ''mongod-30000'' \<and> pst_state s = ''RUNNING'' \<and> pst_pid s = 12"
  by (rule status_parsed [where rest = "''uptime 0:01''"])
    (simp_all add: plain_word_def is_white_def is_space_def in_int64_def int64_min_def int64_max_def)

end
