(* ===== verification/Simulation.thy ===== *)
theory Simulation imports Host_Exec begin

text \<open>
  \<^verbatim>\<open>pkg/simulation\<close>: the executor that only records what would have happened, its configuration, the scenarios
  that fill the configuration in, and the numbers its reports are made of.

  An operation holds the lock of the executor from start to end, so each is one step on the simulated state. Time
  is read from the world.
\<close>

section \<open>State\<close>

record sim_op =
  sop_id :: string
  sop_type :: string
  sop_target :: string
  sop_details :: string
  sop_result :: string
  sop_error :: string
  sop_time :: int
  sop_metadata :: "(string, goval) gomap"

record sim_file =
  sf_path :: string
  sf_content :: fcontent
  sf_mode :: int
  sf_created :: int

record sim_dir =
  sd_path :: string
  sd_mode :: int
  sd_created :: int

record simulated_link =
  sl_link :: string
  sl_target :: string
  sl_created :: int

datatype process_state = ProcRunning | ProcStopped | ProcFailed

record sim_process =
  sp_pid :: int
  sp_command :: string
  sp_args :: "string list"
  sp_state :: process_state
  sp_start :: int
  sp_stop :: "int option"

record sim_state =
  ss_ops :: "sim_op list"
  ss_start :: int
  ss_files :: "(string, sim_file) gomap"
  ss_dirs :: "(string, sim_dir) gomap"
  ss_symlinks :: "(string, simulated_link) gomap"
  ss_processes :: "(int, sim_process) gomap"
  ss_next_pid :: int

definition new_simulation_state :: "int \<Rightarrow> sim_state" where
  "new_simulation_state now = \<lparr>ss_ops = [], ss_start = now, ss_files = [], ss_dirs = [], ss_symlinks = [], ss_processes = [],
     ss_next_pid = 1000\<rparr>"

function digits_loop :: "int \<Rightarrow> string \<Rightarrow> string" where
  "digits_loop n acc = (if n > 0 then digits_loop (n div 10) (digit_char (nat (n mod 10)) # acc) else acc)"
  by pat_completeness auto
termination
  by (relation "measure (\<lambda>(n, acc). nat n)") auto

declare digits_loop.simps [simp del]

definition pad_left :: "int \<Rightarrow> nat \<Rightarrow> string" where
  "pad_left n width = pad_zeros width (if n = 0 then ''0'' else digits_loop n [])"

definition generate_operation_id :: "int \<Rightarrow> string" where
  "generate_operation_id i = ''op-'' @ pad_left (i + 1) 4"

definition record_at :: "int \<Rightarrow> string \<Rightarrow> string \<Rightarrow> string \<Rightarrow> string \<Rightarrow> string \<Rightarrow> (string, goval) gomap \<Rightarrow> sim_state \<Rightarrow> sim_state" where
  "record_at now result err op_type target details metadata s = s\<lparr>ss_ops := ss_ops s @ [\<lparr>
     sop_id = generate_operation_id (int (length (ss_ops s))), sop_type = op_type, sop_target = target, sop_details = details,
     sop_result = result, sop_error = err, sop_time = now, sop_metadata = metadata\<rparr>]\<rparr>"

definition allocate_pid :: "sim_state \<Rightarrow> int \<times> sim_state" where
  "allocate_pid s = (ss_next_pid s, s\<lparr>ss_next_pid := ss_next_pid s + 1\<rparr>)"

section \<open>Configuration\<close>

record sim_failure =
  fl_operation :: string
  fl_target :: string
  fl_error :: string

record sim_config =
  cf_responses :: "(string, string) gomap"
  cf_failures :: "sim_failure list"
  cf_real_reads :: bool
  cf_files :: "(string, fcontent) gomap"
  cf_dirs :: "string list"
  cf_processes :: "string list"

definition default_responses :: "(string, string) gomap" where
  "default_responses =
     [(''mongod --version'', ''db version v7.0.5'' @ nl @ ''Build Info: {\"version\":\"7.0.5\"}''),
      (''mongos --version'', ''mongos version v7.0.5''),
      (''whoami'', ''mongodb''),
      (''hostname'', ''simulated-host''),
      (''uname -s'', ''Linux''),
      (''uname -m'', ''x86_64''),
      (''systemctl is-active mongod'', ''active''),
      (''systemctl is-enabled mongod'', ''enabled''),
      (''systemctl status mongod'', [CHR 0xE2, CHR 0x97, CHR 0x8F] @ '' mongod.service - MongoDB Database Server'' @ nl
         @ ''   Loaded: loaded'' @ nl @ ''   Active: active (running)''),
      (''mongosh --eval rs.initiate()'', ''{\"ok\": 1}''),
      (''mongosh --eval rs.status()'', ''{\"set\": \"rs0\", \"members\": [...], \"ok\": 1}''),
      (''mongosh --eval rs.add()'', ''{\"ok\": 1}''),
      (''mongosh --eval rs.conf()'', ''{\"_id\": \"rs0\", \"members\": [...], \"ok\": 1}''),
      (''mongosh --eval sh.addShard()'', ''{\"shardAdded\": \"shard0\", \"ok\": 1}''),
      (''mongosh --eval sh.status()'', ''{\"shards\": [...], \"databases\": [...], \"ok\": 1}''),
      (''mongosh --eval sh.enableSharding()'', ''{\"ok\": 1}''),
      (''pgrep mongod'', ''1234'' @ nl @ ''5678''),
      (''ps aux | grep mongod'', ''mongodb  1234  0.5  2.0  mongod --config /etc/mongod.conf''),
      (''df -h /data'', ''/dev/sda1  500G  50G  450G  10% /data''),
      (''id mongodb'', ''uid=999(mongodb) gid=999(mongodb) groups=999(mongodb)'')]"

definition new_config :: sim_config where
  "new_config = \<lparr>cf_responses = default_responses, cf_failures = [], cf_real_reads = False, cf_files = [], cf_dirs = [],
     cf_processes = []\<rparr>"

definition set_response :: "string \<Rightarrow> string \<Rightarrow> sim_config \<Rightarrow> sim_config" where
  "set_response command response c = c\<lparr>cf_responses := mput command response (cf_responses c)\<rparr>"

definition get_response :: "sim_config \<Rightarrow> string \<Rightarrow> string" where
  "get_response c command = (case mget (cf_responses c) command of Some r \<Rightarrow> r | None \<Rightarrow> [])"

definition set_failure :: "string \<Rightarrow> string \<Rightarrow> string \<Rightarrow> sim_config \<Rightarrow> sim_config" where
  "set_failure operation target msg c =
     c\<lparr>cf_failures := cf_failures c @ [\<lparr>fl_operation = operation, fl_target = target, fl_error = msg\<rparr>]\<rparr>"

definition should_fail :: "sim_config \<Rightarrow> string \<Rightarrow> string \<Rightarrow> err option" where
  "should_fail c operation target =
     map_option fl_error (find (\<lambda>f. fl_operation f = operation \<and> fl_target f = target) (cf_failures c))"

definition add_existing_file :: "string \<Rightarrow> fcontent \<Rightarrow> sim_config \<Rightarrow> sim_config" where
  "add_existing_file path content c = c\<lparr>cf_files := mput path content (cf_files c)\<rparr>"

definition add_existing_directory :: "string \<Rightarrow> sim_config \<Rightarrow> sim_config" where
  "add_existing_directory path c = c\<lparr>cf_dirs := cf_dirs c @ [path]\<rparr>"

definition add_running_process :: "string \<Rightarrow> sim_config \<Rightarrow> sim_config" where
  "add_running_process command c = c\<lparr>cf_processes := cf_processes c @ [command]\<rparr>"

section \<open>The executor\<close>

definition preconfigure :: "sim_config \<Rightarrow> sim_state \<Rightarrow> sim_state" where
  "preconfigure c s0 =
     (let now = ss_start s0;
          s1 = fold (\<lambda>(p, content) s. s\<lparr>ss_files := mput p \<lparr>sf_path = p, sf_content = content, sf_mode = 420, sf_created = now\<rparr>
                 (ss_files s)\<rparr>) (cf_files c) s0;
          s2 = fold (\<lambda>p s. s\<lparr>ss_dirs := mput p \<lparr>sd_path = p, sd_mode = 493, sd_created = now\<rparr> (ss_dirs s)\<rparr>) (cf_dirs c) s1 in
      fold (\<lambda>command s. case allocate_pid s of (pid, s') \<Rightarrow>
              s'\<lparr>ss_processes := mput pid \<lparr>sp_pid = pid, sp_command = command, sp_args = [], sp_state = ProcRunning,
                   sp_start = now, sp_stop = None\<rparr> (ss_processes s')\<rparr>) (cf_processes c) s2)"

definition sim_record :: "string \<Rightarrow> string \<Rightarrow> string \<Rightarrow> (string, goval) gomap \<Rightarrow> (sim_state, unit) prog" where
  "sim_record op_type target details metadata = do {
     now \<leftarrow> on_os time_now;
     on_host (State_Monad.update (record_at now ''success'' [] op_type target details metadata)) }"

definition sim_fail :: "string \<Rightarrow> string \<Rightarrow> string \<Rightarrow> err \<Rightarrow> (sim_state, unit) prog" where
  "sim_fail op_type target details msg = do {
     now \<leftarrow> on_os time_now;
     on_host (State_Monad.update (record_at now ''failure'' msg op_type target details [])) }"

text \<open>
  \<^verbatim>\<open>CreateDirectory\<close> goes up to the root; a step goes to the parent. The length of the path is enough fuel, since
  every step shortens it but the last one, from a single name to the dot.
\<close>

fun sim_create_dirs :: "nat \<Rightarrow> string \<Rightarrow> int \<Rightarrow> sim_state \<Rightarrow> sim_state" where
  "sim_create_dirs 0 path mode s = s"
| "sim_create_dirs (Suc n) path mode s =
     (if path \<noteq> dot \<and> path \<noteq> [slash] then
        let s' = (if mhas (ss_dirs s) path then s
                  else s\<lparr>ss_dirs := mput path \<lparr>sd_path = path, sd_mode = mode, sd_created = ss_start s\<rparr> (ss_dirs s)\<rparr>);
            up = path_dir path in
        if up = up @ [slash] then s' else sim_create_dirs n up mode s'
      else s)"

definition put_file :: "string \<Rightarrow> fcontent \<Rightarrow> sim_state \<Rightarrow> sim_state" where
  "put_file path content s =
     s\<lparr>ss_files := mput path \<lparr>sf_path = path, sf_content = content, sf_mode = 420, sf_created = ss_start s\<rparr> (ss_files s)\<rparr>"

definition sim_create_directory :: "sim_config \<Rightarrow> string \<Rightarrow> int \<Rightarrow> (sim_state, err option) prog" where
  "sim_create_directory c path mode = (case should_fail c ''create_directory'' path of
     Some e \<Rightarrow> do { _ \<leftarrow> sim_fail ''create_directory'' path [] e; ret (Some e) }
   | None \<Rightarrow> do {
       _ \<leftarrow> on_host (State_Monad.update (sim_create_dirs (Suc (length path)) path mode));
       _ \<leftarrow> sim_record ''create_directory'' path (''mode='' @ show_octal (nat mode)) [];
       ret None })"

definition sim_upload_file :: "(fcontent \<Rightarrow> int) \<Rightarrow> sim_config \<Rightarrow> string \<Rightarrow> string \<Rightarrow> (sim_state, err option) prog" where
  "sim_upload_file len c local_path remote_path = (case should_fail c ''upload_file'' remote_path of
     Some e \<Rightarrow> do { _ \<leftarrow> sim_fail ''upload_file'' remote_path local_path e; ret (Some e) }
   | None \<Rightarrow> do {
       content \<leftarrow> (if cf_real_reads c then do {
           r \<leftarrow> on_os (os_read_file local_path);
           ret (case r of Inr x \<Rightarrow> x | Inl _ \<Rightarrow> Text (''simulated file content from '' @ local_path)) }
         else ret (Text (''simulated file content from '' @ local_path)));
       _ \<leftarrow> on_host (State_Monad.update (put_file remote_path content));
       _ \<leftarrow> sim_record ''upload_file'' remote_path local_path [(''size'', GInt (len content))];
       ret None })"

definition sim_upload_content :: "(fcontent \<Rightarrow> int) \<Rightarrow> sim_config \<Rightarrow> fcontent \<Rightarrow> string \<Rightarrow> (sim_state, err option) prog" where
  "sim_upload_content len c content remote_path = (case should_fail c ''upload_content'' remote_path of
     Some e \<Rightarrow> do { _ \<leftarrow> sim_fail ''upload_content'' remote_path [] e; ret (Some e) }
   | None \<Rightarrow> do {
       _ \<leftarrow> on_host (State_Monad.update (put_file remote_path content));
       _ \<leftarrow> sim_record ''upload_content'' remote_path (itoa (len content) @ '' bytes'') [(''size'', GInt (len content))];
       ret None })"

definition sim_download_file :: "sim_config \<Rightarrow> string \<Rightarrow> string \<Rightarrow> (sim_state, err option) prog" where
  "sim_download_file c remote_path local_path = (case should_fail c ''download_file'' remote_path of
     Some e \<Rightarrow> do { _ \<leftarrow> sim_fail ''download_file'' remote_path local_path e; ret (Some e) }
   | None \<Rightarrow> do {
       s \<leftarrow> on_host State_Monad.get;
       if \<not> mhas (ss_files s) remote_path
       then ret (Some (''file not found in simulated filesystem: '' @ remote_path))
       else do { _ \<leftarrow> sim_record ''download_file'' remote_path local_path []; ret None } })"

definition sim_file_exists :: "sim_config \<Rightarrow> string \<Rightarrow> (sim_state, bool res) prog" where
  "sim_file_exists c path = do {
     real \<leftarrow> (if cf_real_reads c then do { r \<leftarrow> on_os (os_stat path); ret (case r of Inr _ \<Rightarrow> True | Inl _ \<Rightarrow> False) } else ret False);
     s \<leftarrow> on_host State_Monad.get;
     ret (Ok (real \<or> mhas (ss_files s) path \<or> mhas (ss_dirs s) path)) }"

definition sim_remove_file :: "string \<Rightarrow> (sim_state, err option) prog" where
  "sim_remove_file path = do {
     _ \<leftarrow> on_host (State_Monad.update (\<lambda>s. s\<lparr>ss_files := mdel path (ss_files s)\<rparr>));
     _ \<leftarrow> sim_record ''remove_file'' path [] [];
     ret None }"

definition sim_remove_directory :: "string \<Rightarrow> (sim_state, err option) prog" where
  "sim_remove_directory path = do {
     _ \<leftarrow> on_host (State_Monad.update (\<lambda>s. s\<lparr>ss_dirs := mdel path (ss_dirs s)\<rparr>));
     _ \<leftarrow> sim_record ''remove_directory'' path [] [];
     ret None }"

definition sim_execute :: "sim_config \<Rightarrow> string \<Rightarrow> (sim_state, string res) prog" where
  "sim_execute c command = (case should_fail c ''execute'' command of
     Some e \<Rightarrow> do { _ \<leftarrow> sim_fail ''execute'' command [] e; ret (Err e) }
   | None \<Rightarrow> do {
       _ \<leftarrow> sim_record ''execute'' ''shell'' command [(''output'', GStr (get_response c command))];
       ret (Ok (get_response c command)) })"

definition sim_mongo_execute :: "sim_config \<Rightarrow> string \<Rightarrow> string \<Rightarrow> (sim_state, string res) prog" where
  "sim_mongo_execute c host command = (case should_fail c ''mongo_execute'' (host @ '': '' @ command) of
     Some e \<Rightarrow> do { _ \<leftarrow> sim_fail ''mongo_execute'' host command e; ret (Err e) }
   | None \<Rightarrow> do {
       _ \<leftarrow> sim_record ''mongo_execute'' host command [(''output'', GStr (get_response c command))];
       ret (Ok (get_response c command)) })"

definition pid_target :: "int \<Rightarrow> string" where "pid_target pid = ''pid:'' @ itoa pid"

definition sim_background :: "sim_config \<Rightarrow> string \<Rightarrow> (sim_state, int res) prog" where
  "sim_background c command = (case should_fail c ''background'' command of
     Some e \<Rightarrow> do { _ \<leftarrow> sim_fail ''start_process'' command [] e; ret (Err e) }
   | None \<Rightarrow> do {
       pid \<leftarrow> on_host (State allocate_pid);
       _ \<leftarrow> on_host (State_Monad.update (\<lambda>s. s\<lparr>ss_processes := mput pid \<lparr>sp_pid = pid,
              sp_command = (case go_fields command of [] \<Rightarrow> [] | p # _ \<Rightarrow> p),
              sp_args = (case go_fields command of [] \<Rightarrow> [] | _ # ps \<Rightarrow> ps),
              sp_state = ProcRunning, sp_start = ss_start s, sp_stop = None\<rparr> (ss_processes s)\<rparr>));
       _ \<leftarrow> sim_record ''start_process'' (pid_target pid) command [(''pid'', GInt pid), (''command'', GStr command)];
       ret (Ok pid) })"

definition sim_is_process_running :: "int \<Rightarrow> (sim_state, bool res) prog" where
  "sim_is_process_running pid = do {
     s \<leftarrow> on_host State_Monad.get;
     ret (Ok (case mget (ss_processes s) pid of Some p \<Rightarrow> sp_state p = ProcRunning | None \<Rightarrow> False)) }"

definition end_process :: "int \<Rightarrow> sim_state \<Rightarrow> sim_state" where
  "end_process pid s = (case mget (ss_processes s) pid of
     Some p \<Rightarrow> s\<lparr>ss_processes := mput pid (p\<lparr>sp_state := ProcStopped, sp_stop := Some (ss_start s)\<rparr>) (ss_processes s)\<rparr>
   | None \<Rightarrow> s)"

definition sim_kill_process :: "int \<Rightarrow> (sim_state, err option) prog" where
  "sim_kill_process pid = do {
     _ \<leftarrow> on_host (State_Monad.update (end_process pid));
     _ \<leftarrow> sim_record ''kill_process'' (pid_target pid) [] [(''pid'', GInt pid)];
     ret None }"

definition sim_stop_process :: "int \<Rightarrow> (sim_state, err option) prog" where
  "sim_stop_process pid = do {
     _ \<leftarrow> on_host (State_Monad.update (end_process pid));
     _ \<leftarrow> sim_record ''stop_process'' (pid_target pid) [] [(''pid'', GInt pid)];
     ret None }"

definition sim_get_os_info :: "(sim_state, os_info res) prog" where
  "sim_get_os_info = do {
     _ \<leftarrow> sim_record ''get_os_info'' ''system'' [] [];
     ret (Ok \<lparr>oi_os = ''linux'', oi_arch = ''amd64'', oi_version = ''5.10.0''\<rparr>) }"

definition sim_get_disk_space :: "string \<Rightarrow> (sim_state, 64 word res) prog" where
  "sim_get_disk_space path = do {
     _ \<leftarrow> sim_record ''get_disk_space'' path [] [];
     ret (Ok (500 * 1024 * 1024 * 1024)) }"

definition sim_check_port_available :: "int \<Rightarrow> (sim_state, bool res) prog" where
  "sim_check_port_available port = do {
     _ \<leftarrow> sim_record ''check_port_available'' (''port:'' @ itoa port) [] [(''port'', GInt port)];
     ret (Ok True) }"

definition sim_user_exists :: "string \<Rightarrow> (sim_state, bool res) prog" where
  "sim_user_exists name = do {
     _ \<leftarrow> sim_record ''user_exists'' name [] [];
     ret (Ok (name \<in> {''root'', ''mongodb'', ''mongod''})) }"

definition sim_check_connectivity :: "(sim_state, err option) prog" where
  "sim_check_connectivity = do { _ \<leftarrow> sim_record ''check_connectivity'' ''network'' [] []; ret None }"

definition simulation_executor :: "(fcontent \<Rightarrow> int) \<Rightarrow> sim_config \<Rightarrow> sim_state host_exec" where
  "simulation_executor len c = \<lparr>
     hx_create_directory = sim_create_directory c,
     hx_upload_file = sim_upload_file len c,
     hx_upload_content = sim_upload_content len c,
     hx_download_file = sim_download_file c,
     hx_file_exists = sim_file_exists c,
     hx_remove_file = sim_remove_file,
     hx_remove_directory = sim_remove_directory,
     hx_execute = sim_execute c,
     hx_execute_with_input = (\<lambda>command stdin. sim_execute c command),
     hx_background = sim_background c,
     hx_mongo_execute = sim_mongo_execute c,
     hx_is_process_running = sim_is_process_running,
     hx_kill_process = sim_kill_process,
     hx_stop_process = sim_stop_process,
     hx_get_os_info = sim_get_os_info,
     hx_get_disk_space = sim_get_disk_space,
     hx_check_port_available = sim_check_port_available,
     hx_user_exists = sim_user_exists,
     hx_check_connectivity = sim_check_connectivity,
     hx_close = ret None,
     hx_simulated = True\<rparr>"

definition new_simulation :: "sim_config \<Rightarrow> int \<Rightarrow> sim_state" where
  "new_simulation c now = preconfigure c (new_simulation_state now)"

section \<open>Scenarios\<close>

record process_info =
  pi_command :: string
  pi_port :: int
  pi_pid :: int

record scenario =
  sc_responses :: "(string, string) gomap"
  sc_failures :: "sim_failure list"
  sc_files :: "string list"
  sc_dirs :: "string list"
  sc_contents :: "(string, string) gomap"
  sc_running :: "process_info list"

definition empty_scenario :: scenario where
  "empty_scenario = \<lparr>sc_responses = [], sc_failures = [], sc_files = [], sc_dirs = [], sc_contents = [], sc_running = []\<rparr>"

definition apply_scenario :: "scenario option \<Rightarrow> sim_config \<Rightarrow> sim_config" where
  "apply_scenario so c = (case so of None \<Rightarrow> c | Some s \<Rightarrow>
     c\<lparr>cf_responses := fold (\<lambda>(k, v). mput k v) (sc_responses s) (cf_responses c),
       cf_failures := cf_failures c @ sc_failures s,
       cf_files := fold (\<lambda>p. mput p (Text (case mget (sc_contents s) p of Some x \<Rightarrow> x | None \<Rightarrow> []))) (sc_files s) (cf_files c),
       cf_dirs := cf_dirs c @ sc_dirs s,
       cf_processes := cf_processes c @ map (\<lambda>p. if pi_port p > 0 then pi_command p @ '' --port '' @ itoa (pi_port p)
           else pi_command p) (sc_running s)\<rparr>)"

text \<open>The YAML decoder and encoder are parameters.\<close>

definition load_scenario :: "(fcontent \<Rightarrow> scenario res) \<Rightarrow> string \<Rightarrow> scenario res io" where
  "load_scenario yaml path = do {
     r \<leftarrow> os_read_file path;
     ret (case r of
       Inl e \<Rightarrow> Err (wrapf ''failed to read scenario file'' (os_msg e))
     | Inr data \<Rightarrow> wrap_err ''failed to parse scenario YAML'' (yaml data)) }"

definition load_config_with_scenario :: "(fcontent \<Rightarrow> scenario res) \<Rightarrow> string \<Rightarrow> sim_config res io" where
  "load_config_with_scenario yaml path = do {
     r \<leftarrow> load_scenario yaml path;
     ret (case r of Inl e \<Rightarrow> Err e | Inr s \<Rightarrow> Ok (apply_scenario (Some s) new_config)) }"

definition save_scenario :: "(scenario \<Rightarrow> fcontent res) \<Rightarrow> scenario \<Rightarrow> string \<Rightarrow> err option io" where
  "save_scenario yaml s path = (case yaml s of
     Inl e \<Rightarrow> ret (Some (wrapf ''failed to marshal scenario'' e))
   | Inr data \<Rightarrow> do {
       e \<leftarrow> os_write_file path data;
       ret (map_option (\<lambda>m. wrapf ''failed to write scenario file'' (os_msg m)) e) })"

definition generate_scenario_template :: "string \<Rightarrow> scenario" where
  "generate_scenario_template kind =
     (if kind = ''port-conflict'' then empty_scenario\<lparr>
        sc_responses := [(''mongod --version'', ''db version v7.0.5'')],
        sc_failures := [\<lparr>fl_operation = ''background'', fl_target = ''mongod --port 27017'', fl_error = ''port 27017 already in use''\<rparr>]\<rparr>
      else if kind = ''permission-denied'' then empty_scenario\<lparr>
        sc_responses := [(''whoami'', ''mongodb'')],
        sc_failures := [\<lparr>fl_operation = ''create_directory'', fl_target = ''/etc/mongodb'', fl_error = ''permission denied''\<rparr>,
          \<lparr>fl_operation = ''upload_file'', fl_target = ''/etc/mongod.conf'', fl_error = ''permission denied''\<rparr>]\<rparr>
      else if kind = ''disk-full'' then empty_scenario\<lparr>
        sc_responses := [(''df -h /data'', ''/dev/sda1  100G  99.5G  500M  99% /data'')],
        sc_failures := [\<lparr>fl_operation = ''upload_file'', fl_target = ''*'', fl_error = ''no space left on device''\<rparr>]\<rparr>
      else if kind = ''network-failure'' then empty_scenario\<lparr>
        sc_failures := [\<lparr>fl_operation = ''execute'', fl_target = ''*'', fl_error = ''connection refused''\<rparr>]\<rparr>
      else if kind = ''existing-cluster'' then empty_scenario\<lparr>
        sc_responses := [(''systemctl status mongod'', ''active (running)''),
          (''pgrep mongod'', ''1234'' @ nl @ ''5678'' @ nl @ ''9012'')],
        sc_files := [''/etc/mongod.conf'', ''/etc/systemd/system/mongod.service''],
        sc_dirs := [''/data/mongodb'', ''/var/log/mongodb''],
        sc_running := [\<lparr>pi_command = ''mongod'', pi_port = 27017, pi_pid = 1234\<rparr>,
          \<lparr>pi_command = ''mongod'', pi_port = 27018, pi_pid = 5678\<rparr>, \<lparr>pi_command = ''mongod'', pi_port = 27019, pi_pid = 9012\<rparr>]\<rparr>
      else empty_scenario)"

section \<open>Reports\<close>

definition operation_counts :: "sim_state \<Rightarrow> (string, int) gomap" where
  "operation_counts s = fold (\<lambda>o'. mcount (sop_type o')) (ss_ops s) []"

definition get_operation_count :: "sim_state \<Rightarrow> nat" where "get_operation_count s = length (ss_ops s)"

definition get_resource_counts :: "sim_state \<Rightarrow> nat \<times> nat \<times> nat \<times> nat" where
  "get_resource_counts s = (length (ss_dirs s), length (ss_files s), length (ss_processes s), length (ss_symlinks s))"

definition sim_has_errors :: "sim_state \<Rightarrow> bool" where
  "sim_has_errors s = list_ex (\<lambda>o'. sop_result o' \<noteq> ''success'') (ss_ops s)"

definition get_errors :: "sim_state \<Rightarrow> sim_op list" where
  "get_errors s = filter (\<lambda>o'. sop_result o' \<noteq> ''success'') (ss_ops s)"

section \<open>The simulation keeps what an executor promises\<close>

lemma run_sim_record [simp]:
  "run_state (sim_record t g d m) (w, s) =
     ((), (w\<lparr>w_tick := Suc (w_tick w)\<rparr>, record_at (w_clock w (w_tick w)) ''success'' [] t g d m s))"
  "run_state (sim_fail t g d e) (w, s) =
     ((), (w\<lparr>w_tick := Suc (w_tick w)\<rparr>, record_at (w_clock w (w_tick w)) ''failure'' e t g d [] s))"
  by (simp_all add: sim_record_def sim_fail_def State_Monad.update_def)

lemma record_at_simps [simp]:
  "ss_files (record_at n r e t g d m s) = ss_files s" "ss_dirs (record_at n r e t g d m s) = ss_dirs s"
  "ss_processes (record_at n r e t g d m s) = ss_processes s" "ss_next_pid (record_at n r e t g d m s) = ss_next_pid s"
  "length (ss_ops (record_at n r e t g d m s)) = Suc (length (ss_ops s))"
  by (simp_all add: record_at_def)

lemma run_update [simp]: "run_state (State_Monad.update f) s = ((), f s)" "run_state State_Monad.get s = (s, s)"
  by (simp_all add: State_Monad.update_def)

lemma sim_create_dirs_keeps: "mhas (ss_dirs s) q \<Longrightarrow> mhas (ss_dirs (sim_create_dirs n p m s)) q"
  by (induction n p m s rule: sim_create_dirs.induct) (auto simp: Let_def)

lemma sim_create_dirs_path:
  "p \<noteq> dot \<Longrightarrow> p \<noteq> [slash] \<Longrightarrow> mhas (ss_dirs (sim_create_dirs (Suc n) p m s)) p"
  by (auto simp: Let_def intro!: sim_create_dirs_keeps)

lemma sim_exists_after:
  "mhas (ss_files s) p \<or> mhas (ss_dirs s) p \<Longrightarrow> wp (sim_file_exists c p) (\<lambda>b _. b \<noteq> Ok False) (w, s)"
  by (auto simp: sim_file_exists_def wp_def split: prod.splits)

interpretation simulated: file_host "simulation_executor len c" for len c
proof
  fix p q m and d :: fcontent and s :: "world \<times> sim_state"
  obtain w t where s: "s = (w, t)" by fastforce
  show "then_exists (hx_create_directory (simulation_executor len c) p m) (simulation_executor len c) p s"
    if "path_clean p \<notin> {[slash], dot}"
  proof -
    have p: "p \<noteq> dot" "p \<noteq> [slash]" using that by (auto simp: path_clean_def is_abs_def dot_def dotdot_def)
    show ?thesis
      using sim_create_dirs_path [OF p] unfolding then_exists_def s
      by (auto simp: simulation_executor_def sim_create_directory_def wp_on_host wp_def [of "sim_record _ _ _ _"]
          wp_def [of "sim_fail _ _ _ _"] wp_def [of "State_Monad.update _"] simp del: sim_create_dirs.simps
          split: option.split intro!: sim_exists_after)
  qed
  show "then_exists (hx_upload_content (simulation_executor len c) d p) (simulation_executor len c) p s"
    unfolding then_exists_def s
    by (auto simp: simulation_executor_def sim_upload_content_def wp_on_host wp_def [of "sim_record _ _ _ _"] put_file_def
        wp_def [of "sim_fail _ _ _ _"] wp_def [of "State_Monad.update _"] split: option.split intro!: sim_exists_after)
  show "then_exists (hx_upload_file (simulation_executor len c) q p) (simulation_executor len c) p s"
    unfolding then_exists_def s
    by (auto simp: simulation_executor_def sim_upload_file_def wp_on_host wp_on_os wp_def [of "sim_record _ _ _ _"] put_file_def
        wp_def [of "sim_fail _ _ _ _"] wp_def [of "State_Monad.update _"] wp_def [of "os_read_file _"]
        split: option.split prod.split intro!: sim_exists_after)
qed

section \<open>What every run of the simulation keeps\<close>

lemma digits_loop_show: "0 < n \<Longrightarrow> digits_loop n acc = show_nat (nat n) @ acc"
proof (induction n acc rule: digits_loop.induct)
  case (1 n acc)
  show ?case
  proof (cases "n < 10")
    case True
    then have "n div 10 = 0" "nat (n mod 10) = nat n" using 1(2) by simp_all
    then show ?thesis using True 1(2) by (subst digits_loop.simps) (simp add: digits_loop.simps show_nat.simps [of "nat n"])
  next
    case False
    then have "0 < n div 10" by simp
    moreover have "nat (n div 10) = nat n div 10" "nat (n mod 10) = nat n mod 10"
      using 1(2) by (simp_all add: nat_div_distrib nat_mod_distrib)
    ultimately show ?thesis using False 1 by (subst digits_loop.simps) (simp add: show_nat.simps [of "nat n"] nat_less_iff)
  qed
qed

lemma pad_left_show: "0 \<le> n \<Longrightarrow> pad_left n w = pad_zeros w (show_nat (nat n))"
  by (cases "n = 0") (simp_all add: pad_left_def digits_loop_show digit_char_def show_nat.simps [of 0])

lemma operation_id_inject: "generate_operation_id (int i) = generate_operation_id (int j) \<longleftrightarrow> i = j"
proof -
  have "nat (int i + 1) = Suc i" "nat (int j + 1) = Suc j" by simp_all
  then show ?thesis using pad_zeros_show_nat_inject [of 4 "Suc i" "Suc j"]
    by (simp add: generate_operation_id_def pad_left_show)
qed

definition sim_inv :: "sim_state \<Rightarrow> bool" where
  "sim_inv s = (map sop_id (ss_ops s) = map (\<lambda>i. generate_operation_id (int i)) [0..<length (ss_ops s)] \<and>
     (\<forall>pid p. mget (ss_processes s) pid = Some p \<longrightarrow> 1000 \<le> pid \<and> pid < ss_next_pid s \<and> sp_pid p = pid) \<and>
     1000 \<le> ss_next_pid s)"

definition disk_kept :: "fs \<Rightarrow> world \<times> sim_state \<Rightarrow> bool" where
  "disk_kept f = (\<lambda>(w, s). w_fs w = f \<and> sim_inv s)"

lemma sim_inv_record: "sim_inv s \<Longrightarrow> sim_inv (record_at n r e t g d m s)"
  by (simp add: sim_inv_def record_at_def)

lemma keeps_record [simp]: "keeps (disk_kept f) (sim_record t g d m)" "keeps (disk_kept f) (sim_fail t g d e)"
  by (auto intro!: keepsI simp: wp_def disk_kept_def sim_inv_record)

lemma keeps_host_update: "(\<And>s. sim_inv s \<Longrightarrow> sim_inv (g s)) \<Longrightarrow> keeps (disk_kept f) (on_host (State_Monad.update g))"
  by (auto intro!: keepsI simp: wp_def disk_kept_def)

lemma keeps_host_get [simp]: "keeps (disk_kept f) (on_host State_Monad.get)"
  by (auto intro!: keepsI simp: wp_def disk_kept_def)

lemma keeps_on_os: "(\<And>w r w'. run_state m w = (r, w') \<Longrightarrow> w_fs w' = w_fs w) \<Longrightarrow> keeps (disk_kept f) (on_os m)"
  by (auto intro!: keepsI simp: wp_def disk_kept_def split: prod.splits)

lemma keeps_os_reads [simp]: "keeps (disk_kept f) (on_os (os_stat p))" "keeps (disk_kept f) (on_os (os_read_file p))"
  by (rule keeps_on_os; auto simp: os_stat_def os_read_file_def)+

lemma sim_inv_files: "sim_inv s \<Longrightarrow> sim_inv (put_file p c s)"
  "sim_inv s \<Longrightarrow> sim_inv (s\<lparr>ss_files := x\<rparr>)" "sim_inv s \<Longrightarrow> sim_inv (s\<lparr>ss_dirs := y\<rparr>)"
  by (simp_all add: sim_inv_def put_file_def)

lemma sim_inv_create_dirs: "sim_inv s \<Longrightarrow> sim_inv (sim_create_dirs n p m s)"
  by (induction n p m s rule: sim_create_dirs.induct) (auto simp: Let_def sim_inv_files)

lemma sim_inv_end_process: "sim_inv s \<Longrightarrow> sim_inv (end_process pid s)"
  by (auto simp: sim_inv_def end_process_def split: option.splits)

lemma keeps_background: "keeps (disk_kept f) (sim_background c cmd)"
proof -
  have start: "sim_inv (s\<lparr>ss_next_pid := ss_next_pid s + 1, ss_processes := mput (ss_next_pid s) p (ss_processes s)\<rparr>)"
    if "sim_inv s" "sp_pid p = ss_next_pid s" for s p
    using that by (force simp: sim_inv_def)
  have "wp (sim_background c cmd) (\<lambda>_. disk_kept f) (w, s)" if "disk_kept f (w, s)" for w s
    using that unfolding sim_background_def
    by (auto simp: wp_def disk_kept_def allocate_pid_def intro!: sim_inv_record start split: option.splits)
  then show ?thesis by (intro keepsI) auto
qed

lemmas keeps_sim_intros = keeps_intros keeps_record keeps_host_get keeps_os_reads keeps_host_update sim_inv_files
  sim_inv_create_dirs sim_inv_end_process

lemma keeps_create_directory: "keeps (disk_kept f) (sim_create_directory c p m)"
  unfolding sim_create_directory_def by (intro keeps_sim_intros)

lemma keeps_upload_file: "keeps (disk_kept f) (sim_upload_file len c q p)"
  unfolding sim_upload_file_def by (intro keeps_sim_intros)

lemma keeps_upload_content: "keeps (disk_kept f) (sim_upload_content len c d p)"
  unfolding sim_upload_content_def by (intro keeps_sim_intros)

lemma keeps_download_file: "keeps (disk_kept f) (sim_download_file c p q)"
  unfolding sim_download_file_def by (intro keeps_sim_intros)

lemma keeps_file_exists: "keeps (disk_kept f) (sim_file_exists c p)"
  unfolding sim_file_exists_def by (intro keeps_sim_intros)

lemma keeps_remove_file: "keeps (disk_kept f) (sim_remove_file p)"
  unfolding sim_remove_file_def by (intro keeps_sim_intros)

lemma keeps_remove_directory: "keeps (disk_kept f) (sim_remove_directory p)"
  unfolding sim_remove_directory_def by (intro keeps_sim_intros)

lemma keeps_execute: "keeps (disk_kept f) (sim_execute c p)"
  unfolding sim_execute_def by (intro keeps_sim_intros)

lemma keeps_mongo_execute: "keeps (disk_kept f) (sim_mongo_execute c p q)"
  unfolding sim_mongo_execute_def by (intro keeps_sim_intros)

lemma keeps_is_process_running: "keeps (disk_kept f) (sim_is_process_running pid)"
  unfolding sim_is_process_running_def by (intro keeps_sim_intros)

lemma keeps_kill_process: "keeps (disk_kept f) (sim_kill_process pid)"
  unfolding sim_kill_process_def by (intro keeps_sim_intros)

lemma keeps_stop_process: "keeps (disk_kept f) (sim_stop_process pid)"
  unfolding sim_stop_process_def by (intro keeps_sim_intros)

lemma keeps_get_os_info: "keeps (disk_kept f) (sim_get_os_info )"
  unfolding sim_get_os_info_def by (intro keeps_sim_intros)

lemma keeps_get_disk_space: "keeps (disk_kept f) (sim_get_disk_space p)"
  unfolding sim_get_disk_space_def by (intro keeps_sim_intros)

lemma keeps_check_port_available: "keeps (disk_kept f) (sim_check_port_available n)"
  unfolding sim_check_port_available_def by (intro keeps_sim_intros)

lemma keeps_user_exists: "keeps (disk_kept f) (sim_user_exists p)"
  unfolding sim_user_exists_def by (intro keeps_sim_intros)

lemma keeps_check_connectivity: "keeps (disk_kept f) (sim_check_connectivity )"
  unfolding sim_check_connectivity_def by (intro keeps_sim_intros)

lemmas keeps_files = keeps_create_directory keeps_upload_file keeps_upload_content keeps_download_file keeps_file_exists keeps_remove_file keeps_remove_directory keeps_execute keeps_mongo_execute keeps_is_process_running keeps_kill_process keeps_stop_process keeps_get_os_info keeps_get_disk_space keeps_check_port_available keeps_user_exists keeps_check_connectivity

lemma keeps_simulated: "keeps (disk_kept f) (run_request (simulation_executor len c) r)"
  by (cases r) (simp_all add: simulation_executor_def keeps_ignore keeps_background keeps_files)

lemma sim_inv_process:
  "sim_inv s \<Longrightarrow> sim_inv (case allocate_pid s of (pid, s') \<Rightarrow>
     s'\<lparr>ss_processes := mput pid \<lparr>sp_pid = pid, sp_command = command, sp_args = [], sp_state = ProcRunning,
       sp_start = now, sp_stop = None\<rparr> (ss_processes s')\<rparr>)"
  by (force simp: sim_inv_def allocate_pid_def)

lemma fold_inv: "I s \<Longrightarrow> (\<And>x s. I s \<Longrightarrow> I (f x s)) \<Longrightarrow> I (fold f xs s)"
  by (induction xs arbitrary: s) auto

lemma sim_inv_new: "sim_inv (new_simulation c now)"
  unfolding new_simulation_def preconfigure_def Let_def
proof (rule fold_inv [where I = sim_inv])
  show "sim_inv (fold (\<lambda>p s. s\<lparr>ss_dirs := mput p \<lparr>sd_path = p, sd_mode = 493, sd_created = ss_start (new_simulation_state now)\<rparr>
      (ss_dirs s)\<rparr>) (cf_dirs c) (fold (\<lambda>(p, content) s. s\<lparr>ss_files := mput p \<lparr>sf_path = p, sf_content = content, sf_mode = 420,
      sf_created = ss_start (new_simulation_state now)\<rparr> (ss_files s)\<rparr>) (cf_files c) (new_simulation_state now)))"
    by (rule fold_inv [where I = sim_inv], rule fold_inv [where I = sim_inv])
      (auto simp: sim_inv_files sim_inv_def new_simulation_state_def)
qed (rule sim_inv_process)

text \<open>
  C33. A simulation leaves the disk alone and keeps good records, whatever is asked of it and in whatever order: no
  request changes a file of the machine, the recorded operations are numbered without gaps and never share an
  identifier, and every simulated process has a number of its own that was handed out before.
\<close>
theorem simulation_safe:
  "wp (run_requests (simulation_executor len c) rs) (\<lambda>_ (w', s'). w_fs w' = w_fs w \<and>
     distinct (map sop_id (ss_ops s')) \<and>
     map sop_id (ss_ops s') = map (\<lambda>i. generate_operation_id (int i)) [0..<length (ss_ops s')] \<and>
     (\<forall>pid p. mget (ss_processes s') pid = Some p \<longrightarrow> 1000 \<le> pid \<and> pid < ss_next_pid s' \<and> sp_pid p = pid))
   (w, new_simulation c now)"
proof -
  have "disk_kept (w_fs w) (w, new_simulation c now)" by (simp add: disk_kept_def sim_inv_new)
  from keepsD [OF keeps_requests [OF keeps_simulated] this] show ?thesis
  proof (rule wp_mono)
    fix r :: unit and s :: "world \<times> sim_state"
    assume "disk_kept (w_fs w) s"
    moreover have "distinct (map (\<lambda>i. generate_operation_id (int i)) [0..<k])" for k
      by (simp add: distinct_map inj_on_def operation_id_inject)
    ultimately show "case s of (w', s') \<Rightarrow> w_fs w' = w_fs w \<and> distinct (map sop_id (ss_ops s')) \<and>
      map sop_id (ss_ops s') = map (\<lambda>i. generate_operation_id (int i)) [0..<length (ss_ops s')] \<and>
      (\<forall>pid p. mget (ss_processes s') pid = Some p \<longrightarrow> 1000 \<le> pid \<and> pid < ss_next_pid s' \<and> sp_pid p = pid)"
      by (auto simp: disk_kept_def sim_inv_def)
  qed
qed

lemma simulation_safe_witness:
  "wp (run_requests (simulation_executor (\<lambda>_. 0) new_config) [Background ''mongod'', RemoveFile ''/etc/passwd''])
    (\<lambda>_ (w', s'). w_fs w' = [(''/etc/passwd'', FFile (Text ''root'') 0)])
    (example_world\<lparr>w_fs := [(''/etc/passwd'', FFile (Text ''root'') 0)]\<rparr>, new_simulation new_config 0)"
  by (rule wp_mono [OF simulation_safe]) auto

section \<open>Scenarios that never happen\<close>

text \<open>
  A wildcard of a scenario is no wildcard: with the template of a full disk every upload but one to a file that
  is called \<^verbatim>\<open>*\<close> succeeds, and with the template of a failing network so does every command but \<^verbatim>\<open>*\<close>.
\<close>
theorem wildcards_never_match:
  assumes "p \<noteq> ''*''"
  shows "wp (sim_upload_file len (apply_scenario (Some (generate_scenario_template ''disk-full'')) new_config) q p)
      (\<lambda>e _. e = None) s \<and>
    wp (sim_execute (apply_scenario (Some (generate_scenario_template ''network-failure'')) new_config) p) (\<lambda>r _. is_ok r) s"
proof -
  let ?disk = "apply_scenario (Some (generate_scenario_template ''disk-full'')) new_config"
  let ?net = "apply_scenario (Some (generate_scenario_template ''network-failure'')) new_config"
  have "should_fail ?disk ''upload_file'' p = None" "should_fail ?net ''execute'' p = None" "\<not> cf_real_reads ?disk"
    using assms by (simp_all add: should_fail_def apply_scenario_def generate_scenario_template_def
        empty_scenario_def new_config_def)
  then show ?thesis
    by (cases s) (simp add: sim_upload_file_def sim_execute_def wp_def split: prod.splits option.splits)
qed

lemma wildcards_never_match_witness:
  "wp (sim_upload_file (\<lambda>_. 0) (apply_scenario (Some (generate_scenario_template ''disk-full'')) new_config) ''/a'' ''/b'')
      (\<lambda>e _. e = None) (example_world, new_simulation new_config 0)"
  using wildcards_never_match [of "''/b''"] by (simp del: wp_bind)

text \<open>
  Removing a directory in the simulation removes its entry only: what is below it still exists, while the local
  executor removes the whole tree.
\<close>
theorem simulated_removal_shallow:
  assumes "p \<noteq> d" "mhas (ss_files s) p"
  shows "wp (sim_remove_directory d) (\<lambda>e. wp (sim_file_exists c p) (\<lambda>b _. e = None \<and> b = Ok True)) (w, s)"
proof -
  have "wp (sim_file_exists c p) (\<lambda>b _. b = Ok True) (w', s')" if "mhas (ss_files s') p" for w' s'
    using that by (auto simp: sim_file_exists_def wp_def split: prod.splits)
  then show ?thesis
    using assms(2) by (simp add: sim_remove_directory_def wp_def [of "on_host _"] wp_def [of "sim_record _ _ _ _"] wp_on_host)
qed

end
