(* ===== verification/Templates.thy ===== *)
theory Templates imports Versions Go_Files begin

text \<open>
  \<^verbatim>\<open>pkg/template\<close>: the configuration data of \<^verbatim>\<open>mongod\<close> and \<^verbatim>\<open>mongos\<close>, the choice of a template by version and the
  text that the embedded templates produce.

  The versions are compared by a library outside the repository (hashicorp/go-version): whether a string is a
  version and whether it meets a constraint are parameters. The templates are written out as functions from the
  data to the text: \<open>row\<close> is a line, which the white space trimming of the templates attaches to the line break before
  it, and \<open>cond_text\<close> an \<^verbatim>\<open>if\<close> block. How a \<^verbatim>\<open>float64\<close> is printed is a parameter too.
\<close>

section \<open>Configuration data\<close>

record tls_config =
  tlc_mode :: string
  tlc_certificate :: string
  tlc_ca :: string
  tlc_allow_invalid :: bool
  tlc_ssl_naming :: bool

record net_config =
  nc_port :: int
  nc_bind_ip :: string
  nc_max_incoming :: int
  nc_tls :: "tls_config option"

record wired_tiger_config =
  wt_cache_size_gb :: rat
  wt_block_compressor :: string
  wt_prefix_compression :: bool

record storage_config =
  stc_db_path :: string
  stc_journal_enabled :: bool
  stc_engine :: string
  stc_directory_per_db :: bool
  stc_wired_tiger :: "wired_tiger_config option"

record system_log_config =
  slc_destination :: string
  slc_path :: string
  slc_append :: bool
  slc_time_format :: string

record process_config =
  pmc_fork :: bool
  pmc_pid_file :: string

record replication_config =
  rpc_name :: string
  rpc_oplog_mb :: int
  rpc_majority :: bool

record ldap_config =
  ldc_servers :: string
  ldc_query_user :: string
  ldc_query_password :: string
  ldc_user_mapping :: string

record security_config =
  sec_authorization :: string
  sec_key_file :: string
  sec_cluster_auth :: string
  sec_ldap :: "ldap_config option"

record profiling_config =
  pfc_mode :: string
  pfc_slow_ms :: int

text \<open>\<^verbatim>\<open>ShardingConfig\<close> is its only field, the cluster role. Parameters are given by the text of their value.\<close>

record mongod_config =
  mdc_net :: net_config
  mdc_storage :: storage_config
  mdc_log :: system_log_config
  mdc_process :: process_config
  mdc_replication :: "replication_config option"
  mdc_sharding :: "string option"
  mdc_security :: "security_config option"
  mdc_profiling :: "profiling_config option"
  mdc_parameters :: "(string, string) gomap"

record mongos_config =
  msc_net :: net_config
  msc_log :: system_log_config
  msc_process :: "process_config option"
  msc_config_db :: string
  msc_security :: "security_config option"

section \<open>Choosing a template\<close>

record go_version =
  gv_new :: "string \<Rightarrow> bool"
  gv_check :: "string \<Rightarrow> string \<Rightarrow> bool"  \<comment> \<open>constraint, version\<close>

definition supports_journal_enabled :: "go_version \<Rightarrow> string \<Rightarrow> bool" where
  "supports_journal_enabled gv version = (gv_new gv version \<and> gv_check gv ''< 6.1'' version)"

definition template_constraints :: "(string \<times> string) list" where
  "template_constraints = [(''>= 7.0'', ''7.0''), (''>= 5.0, < 7.0'', ''5.0''), (''>= 4.2, < 5.0'', ''4.2''), (''< 4.2'', ''3.6'')]"

definition select_template_version :: "go_version \<Rightarrow> string \<Rightarrow> string" where
  "select_template_version gv version =
     (if \<not> gv_new gv version then ''7.0''
      else (case find (\<lambda>(c, t). gv_check gv c version) template_constraints of
        Some (c, t) \<Rightarrow> t
      | None \<Rightarrow> ''3.6''))"

text \<open>The names of the embedded files, and a parsed template: its name and the answer of its one function.\<close>

definition embedded_templates :: "string list" where
  "embedded_templates = concat (map (\<lambda>d. map (\<lambda>v. d @ ''/'' @ d @ ''-'' @ v @ ''.conf.tmpl'') [''3.6'', ''4.2'', ''5.0'', ''7.0''])
     [''mongod'', ''mongos'', ''config''])"

record conf_template =
  tm_version :: string
  tm_journal :: bool

definition get_template :: "go_version \<Rightarrow> string \<Rightarrow> string \<Rightarrow> conf_template res" where
  "get_template gv node_type version =
     (let tv = select_template_version gv version; name = node_type @ ''-'' @ tv @ ''.conf.tmpl'' in
      if list_ex (\<lambda>d. (d @ ''/'' @ name) \<in> set embedded_templates) [''mongod'', ''mongos'', ''config'']
      then Ok \<lparr>tm_version = tv, tm_journal = supports_journal_enabled gv version\<rparr>
      else Err (''template not found: '' @ name))"

section \<open>The text of the templates\<close>

definition row :: "string \<Rightarrow> string \<Rightarrow> string" where "row key v = nl @ key @ v"

definition cond_text :: "bool \<Rightarrow> string \<Rightarrow> string" where "cond_text b s = (if b then s else [])"

definition opt_row :: "string \<Rightarrow> string \<Rightarrow> string" where "opt_row key v = cond_text (v \<noteq> []) (row key v)"

definition bool_text :: "bool \<Rightarrow> string" where "bool_text b = (if b then ''true'' else ''false'')"

definition head_rows :: "string \<Rightarrow> net_config \<Rightarrow> string" where
  "head_rows title c = title @ row ''# Generated by mup'' [] @ nl @ row ''net:'' [] @
     row ''  port: '' (itoa (nc_port c)) @ row ''  bindIp: '' (nc_bind_ip c)"

definition max_row :: "net_config \<Rightarrow> string" where
  "max_row c = cond_text (nc_max_incoming c \<noteq> 0) (row ''  maxIncomingConnections: '' (itoa (nc_max_incoming c)))"

definition tls_rows :: "string \<Rightarrow> string \<Rightarrow> bool \<Rightarrow> net_config \<Rightarrow> string" where
  "tls_rows opening key_name invalid c = (case nc_tls c of None \<Rightarrow> [] | Some t \<Rightarrow>
     opening @ row ''    mode: '' (tlc_mode t) @ opt_row key_name (tlc_certificate t) @ opt_row ''    CAFile: '' (tlc_ca t) @
     cond_text (invalid \<and> tlc_allow_invalid t) (row ''    allowInvalidCertificates: '' (bool_text (tlc_allow_invalid t))))"

definition journal_rows :: "storage_config \<Rightarrow> string" where
  "journal_rows c = row ''  journal:'' [] @ row ''    enabled: '' (bool_text (stc_journal_enabled c))"

definition per_db_row :: "storage_config \<Rightarrow> string" where
  "per_db_row c = cond_text (stc_directory_per_db c) (row ''  directoryPerDB: '' (bool_text (stc_directory_per_db c)))"

definition engine_rows :: "(rat \<Rightarrow> string) \<Rightarrow> bool \<Rightarrow> bool \<Rightarrow> storage_config \<Rightarrow> string" where
  "engine_rows ff compressor prefix c = (case stc_wired_tiger c of None \<Rightarrow> [] | Some w \<Rightarrow>
     row ''  wiredTiger:'' [] @ row ''    engineConfig:'' [] @ row ''      cacheSizeGB: '' (ff (wt_cache_size_gb w)) @
     cond_text (compressor \<and> wt_block_compressor w \<noteq> [])
       (row ''    collectionConfig:'' [] @ row ''      blockCompressor: '' (wt_block_compressor w)) @
     cond_text (prefix \<and> wt_prefix_compression w)
       (row ''    indexConfig:'' [] @ row ''      prefixCompression: '' (bool_text (wt_prefix_compression w))))"

definition storage_rows :: "(rat \<Rightarrow> string) \<Rightarrow> bool \<Rightarrow> bool \<Rightarrow> bool \<Rightarrow> bool \<Rightarrow> storage_config \<Rightarrow> string" where
  "storage_rows ff journal per_db compressor prefix c =
     nl @ row ''storage:'' [] @ row ''  dbPath: '' (stc_db_path c) @ cond_text journal (journal_rows c) @
     opt_row ''  engine: '' (stc_engine c) @ cond_text per_db (per_db_row c) @ engine_rows ff compressor prefix c"

definition log_rows :: "bool \<Rightarrow> system_log_config \<Rightarrow> string" where
  "log_rows stamp c = nl @ row ''systemLog:'' [] @ row ''  destination: '' (slc_destination c) @ opt_row ''  path: '' (slc_path c) @
     row ''  logAppend: '' (bool_text (slc_append c)) @ cond_text stamp (opt_row ''  timeStampFormat: '' (slc_time_format c))"

definition process_rows :: "process_config \<Rightarrow> string" where
  "process_rows c = row ''processManagement:'' [] @ cond_text (pmc_fork c) (row ''  fork: '' (bool_text (pmc_fork c))) @
     opt_row ''  pidFilePath: '' (pmc_pid_file c)"

definition replication_rows :: "bool \<Rightarrow> replication_config option \<Rightarrow> string" where
  "replication_rows majority r = (case r of None \<Rightarrow> [] | Some c \<Rightarrow>
     row ''replication:'' [] @ row ''  replSetName: '' (rpc_name c) @
     cond_text (rpc_oplog_mb c \<noteq> 0) (row ''  oplogSizeMB: '' (itoa (rpc_oplog_mb c))) @
     cond_text majority (row ''  enableMajorityReadConcern: '' (bool_text (rpc_majority c))))"

definition sharding_rows :: "string option \<Rightarrow> string" where
  "sharding_rows r = (case r of None \<Rightarrow> [] | Some role \<Rightarrow> row ''sharding:'' [] @ row ''  clusterRole: '' role)"

definition ldap_rows :: "ldap_config option \<Rightarrow> string" where
  "ldap_rows r = (case r of None \<Rightarrow> [] | Some l \<Rightarrow>
     row ''  ldap:'' [] @ row ''    servers: '' (ldc_servers l) @ row ''    bind:'' [] @ row ''      queryUser: '' (ldc_query_user l) @
     row ''      queryPassword: '' (ldc_query_password l) @ row ''    userToDNMapping: '' (ldc_user_mapping l))"

definition security_rows :: "bool \<Rightarrow> bool \<Rightarrow> security_config option \<Rightarrow> string" where
  "security_rows cluster_auth ldap r = (case r of None \<Rightarrow> [] | Some s \<Rightarrow>
     row ''security:'' [] @ row ''  authorization: '' (sec_authorization s) @ opt_row ''  keyFile: '' (sec_key_file s) @
     cond_text cluster_auth (opt_row ''  clusterAuthMode: '' (sec_cluster_auth s)) @ cond_text ldap (ldap_rows (sec_ldap s)))"

definition profiling_rows :: "profiling_config option \<Rightarrow> string" where
  "profiling_rows r = (case r of None \<Rightarrow> [] | Some p \<Rightarrow>
     row ''operationProfiling:'' [] @ row ''  mode: '' (pfc_mode p) @
     cond_text (pfc_slow_ms p \<noteq> 0) (row ''  slowOpThresholdMs: '' (itoa (pfc_slow_ms p))))"

definition parameter_rows :: "(string, string) gomap \<Rightarrow> string" where
  "parameter_rows m = cond_text (m \<noteq> []) (row ''setParameter:'' [] @
     concat (map (\<lambda>(k, v). row (''  '' @ k @ '': '') v) (sort_key fst m)))"

definition mongod_title :: "string \<Rightarrow> string" where
  "mongod_title v = ''# MongoDB '' @ (if v = ''7.0'' then ''7.0+'' else if v = ''5.0'' then ''5.0-6.0''
     else if v = ''4.2'' then ''4.2-4.4'' else ''3.6-4.0'')"

definition old_tls :: string where
  "old_tls = row ''  # MongoDB 3.6-4.0 uses 'ssl' naming'' [] @ row ''  ssl:'' []"

definition new_tls :: "string \<Rightarrow> string" where
  "new_tls v = cond_text (v = ''4.2'') (row ''  # MongoDB 4.2+ uses 'tls' naming (ssl still works but deprecated)'' []) @ row ''  tls:'' []"

text \<open>The template files of \<^verbatim>\<open>mongod\<close> and of config servers are the same.\<close>

definition render_mongod :: "(rat \<Rightarrow> string) \<Rightarrow> conf_template \<Rightarrow> mongod_config \<Rightarrow> string" where
  "render_mongod ff t c = (let v = tm_version t; newer = (v \<in> {''5.0'', ''7.0''}); old = (v = ''3.6'') in
     head_rows (mongod_title v @ '' Configuration'') (mdc_net c) @ cond_text (\<not> old) (max_row (mdc_net c)) @
     tls_rows (if old then old_tls else new_tls v) (if old then ''    PEMKeyFile: '' else ''    certificateKeyFile: '') (v = ''7.0'') (mdc_net c) @
     storage_rows ff (v \<noteq> ''7.0'' \<or> tm_journal t) newer (\<not> old) newer (mdc_storage c) @
     log_rows newer (mdc_log c) @ nl @ process_rows (mdc_process c) @
     replication_rows newer (mdc_replication c) @ sharding_rows (mdc_sharding c) @
     security_rows newer (v = ''7.0'') (mdc_security c) @
     cond_text newer (profiling_rows (mdc_profiling c)) @ cond_text (\<not> old) (parameter_rows (mdc_parameters c)) @ nl)"

definition render_mongos :: "conf_template \<Rightarrow> mongos_config \<Rightarrow> string" where
  "render_mongos t c = (let v = tm_version t; newer = (v \<in> {''5.0'', ''7.0''}); old = (v = ''3.6'') in
     head_rows (mongod_title v @ '' Mongos Configuration'') (msc_net c) @
     tls_rows (if old then old_tls else row ''  tls:'' []) (if old then ''    PEMKeyFile: '' else ''    certificateKeyFile: '') False (msc_net c) @
     log_rows (v = ''5.0'') (msc_log c) @
     (case msc_process c of None \<Rightarrow> [] | Some p \<Rightarrow> process_rows p) @
     nl @ row ''sharding:'' [] @ row ''  configDB: '' (msc_config_db c) @
     security_rows newer False (msc_security c) @ nl)"

section \<open>Which version gets which template\<close>

text \<open>
  What the documentation of go-version says of the constraints above on plain versions \<open>a.b.c\<close>, and an implementation
  that behaves so.
\<close>

definition meets :: "string \<Rightarrow> mongo_version \<Rightarrow> bool" where
  "meets c v = (let a = mv_major v; b = mv_minor v in
     if c = ''>= 7.0'' then 7 \<le> a
     else if c = ''>= 5.0, < 7.0'' then 5 \<le> a \<and> a < 7
     else if c = ''>= 4.2, < 5.0'' then (4 < a \<or> a = 4 \<and> 2 \<le> b) \<and> a < 5
     else if c = ''< 4.2'' then a < 4 \<or> a = 4 \<and> b < 2
     else if c = ''< 6.1'' then a < 6 \<or> a = 6 \<and> b < 1
     else False)"

definition go_version_ok :: "go_version \<Rightarrow> bool" where
  "go_version_ok gv = (\<forall>v. parse_version (version_string v) = Ok v \<longrightarrow> gv_new gv (version_string v) \<and>
     (\<forall>c \<in> {''>= 7.0'', ''>= 5.0, < 7.0'', ''>= 4.2, < 5.0'', ''< 4.2'', ''< 6.1''}. gv_check gv c (version_string v) = meets c v))"

definition plain_go_version :: go_version where
  "plain_go_version = \<lparr>gv_new = (\<lambda>s. is_ok (parse_version s)),
     gv_check = (\<lambda>c s. case parse_version s of Inl e \<Rightarrow> False | Inr v \<Rightarrow> meets c v)\<rparr>"

lemma plain_go_version_ok: "go_version_ok plain_go_version"
  by (simp add: go_version_ok_def plain_go_version_def)

definition template_for :: "mongo_version \<Rightarrow> string" where
  "template_for v = (if 7 \<le> mv_major v then ''7.0'' else if 5 \<le> mv_major v then ''5.0''
     else if mv_major v = 4 \<and> 2 \<le> mv_minor v then ''4.2'' else ''3.6'')"

lemma select_release:
  assumes "go_version_ok gv" "parse_version (version_string v) = Ok v"
  shows "select_template_version gv (version_string v) = template_for v"
    "supports_journal_enabled gv (version_string v) = meets ''< 6.1'' v"
  using assms
  by (auto simp: go_version_ok_def select_template_version_def supports_journal_enabled_def template_constraints_def
      template_for_def meets_def)

lemma template_for_known: "template_for v \<in> {''3.6'', ''4.2'', ''5.0'', ''7.0''}"
  by (simp add: template_for_def)

lemma template_found:
  assumes "nt \<in> {''mongod'', ''mongos'', ''config''}" "tv \<in> {''3.6'', ''4.2'', ''5.0'', ''7.0''}"
  shows "list_ex (\<lambda>d. (d @ ''/'' @ nt @ ''-'' @ tv @ ''.conf.tmpl'') \<in> set embedded_templates) [''mongod'', ''mongos'', ''config'']"
  using assms by (auto simp: embedded_templates_def)

lemma get_template_release:
  assumes "go_version_ok gv" "parse_version (version_string v) = Ok v" "nt \<in> {''mongod'', ''mongos'', ''config''}"
  shows "get_template gv nt (version_string v) = Ok \<lparr>tm_version = template_for v, tm_journal = meets ''< 6.1'' v\<rparr>"
  using template_found [OF assms(3) template_for_known, of v]
  by (simp add: get_template_def select_release [OF assms(1,2)] Let_def)

lemma journal_of_template:
  "(template_for v \<noteq> ''7.0'' \<or> meets ''< 6.1'' v) = (mv_major v < 7)"
  by (auto simp: template_for_def meets_def)

lemma in_the_middle: "\<exists>pre post. a @ b @ c @ s @ r = pre @ s @ post"
  by (metis append_assoc)

definition example_mongod_config :: mongod_config where
  "example_mongod_config = \<lparr>
     mdc_net = \<lparr>nc_port = 27017, nc_bind_ip = ''127.0.0.1'', nc_max_incoming = 0, nc_tls = None\<rparr>,
     mdc_storage = \<lparr>stc_db_path = ''/data'', stc_journal_enabled = True, stc_engine = ''wiredTiger'', stc_directory_per_db = False,
       stc_wired_tiger = None\<rparr>,
     mdc_log = \<lparr>slc_destination = ''file'', slc_path = ''/log'', slc_append = True, slc_time_format = []\<rparr>,
     mdc_process = \<lparr>pmc_fork = False, pmc_pid_file = []\<rparr>, mdc_replication = None, mdc_sharding = None, mdc_security = None,
     mdc_profiling = None, mdc_parameters = []\<rparr>"

text \<open>
  The journal option and versions: every release gets a template, and the configuration of \<^verbatim>\<open>mongod\<close> carries
  \<^verbatim>\<open>storage.journal.enabled\<close> exactly for the releases before 7.0. The program's own test says that the option is
  gone from 6.1 on, but only the template of 7.0 asks it: the later releases of 6 get an option they do not have.
\<close>
theorem journal_option:
  assumes "go_version_ok gv" "parse_version (version_string v) = Ok v" "nt \<in> {''mongod'', ''config''}"
    and "stc_engine (mdc_storage d) \<noteq> []"
  shows "\<exists>t pre post. get_template gv nt (version_string v) = Ok t \<and>
    supports_journal_enabled gv (version_string v) = (mv_major v < 6 \<or> mv_major v = 6 \<and> mv_minor v < 1) \<and>
    render_mongod ff t d = pre @ row ''storage:'' [] @ row ''  dbPath: '' (stc_db_path (mdc_storage d)) @
      (if mv_major v < 7 then journal_rows (mdc_storage d) else []) @ row ''  engine: '' (stc_engine (mdc_storage d)) @ post"
proof -
  have t: "get_template gv nt (version_string v) = Ok \<lparr>tm_version = template_for v, tm_journal = meets ''< 6.1'' v\<rparr>"
    using assms(3) by (intro get_template_release [OF assms(1,2)]) auto
  have s: "supports_journal_enabled gv (version_string v) = (mv_major v < 6 \<or> mv_major v = 6 \<and> mv_minor v < 1)"
    by (simp add: select_release [OF assms(1,2)] meets_def Let_def)
  let ?t = "\<lparr>tm_version = template_for v, tm_journal = meets ''< 6.1'' v\<rparr>"
  let ?store = "storage_rows ff (mv_major v < 7) (template_for v \<in> {''5.0'', ''7.0''}) (template_for v \<noteq> ''3.6'')
    (template_for v \<in> {''5.0'', ''7.0''}) (mdc_storage d)"
  have "\<exists>pre post. render_mongod ff ?t d = pre @ ?store @ post"
    unfolding render_mongod_def Let_def conf_template.simps journal_of_template by (rule in_the_middle)
  moreover have "\<exists>post. ?store = nl @ row ''storage:'' [] @ row ''  dbPath: '' (stc_db_path (mdc_storage d)) @
      (if mv_major v < 7 then journal_rows (mdc_storage d) else []) @ row ''  engine: '' (stc_engine (mdc_storage d)) @ post"
    using assms(4) by (simp add: storage_rows_def cond_text_def opt_row_def)
  ultimately obtain pre mid post where "render_mongod ff ?t d = pre @ (nl @ row ''storage:'' [] @
      row ''  dbPath: '' (stc_db_path (mdc_storage d)) @ (if mv_major v < 7 then journal_rows (mdc_storage d) else []) @
      row ''  engine: '' (stc_engine (mdc_storage d)) @ mid) @ post" by metis
  then show ?thesis using t s by (intro exI [of _ ?t] exI [of _ "pre @ nl"] exI [of _ "mid @ post"]) simp
qed

lemma journal_option_witness:
  "\<exists>pre post. render_mongod (\<lambda>_. ''1'') \<lparr>tm_version = ''5.0'', tm_journal = False\<rparr> example_mongod_config =
     pre @ row ''storage:'' [] @ row ''  dbPath: '' ''/data'' @ journal_rows (mdc_storage example_mongod_config) @
     row ''  engine: '' ''wiredTiger'' @ post"
proof -
  have p: "parse_version (version_string (MongoVersion 6 2 0 ''6.2.0'')) = Ok (MongoVersion 6 2 0 ''6.2.0'')"
    by (simp add: parse_version_def version_string_def number_eval atoi_def Let_def split_sign_def signed_val_def is_digit_def
        digit_val_def in_int64_def int64_min_def int64_max_def)
  have "get_template plain_go_version ''mongod'' (version_string (MongoVersion 6 2 0 ''6.2.0'')) =
      Ok \<lparr>tm_version = ''5.0'', tm_journal = False\<rparr>"
    by (subst get_template_release [OF plain_go_version_ok p]) (simp_all add: template_for_def meets_def Let_def)
  then show ?thesis
    using journal_option [OF plain_go_version_ok p, of "''mongod''" example_mongod_config "\<lambda>_. ''1''"]
    by (simp add: example_mongod_config_def del: append.simps)
qed

end
