(* ===== verification/Meta.thy ===== *)
theory Meta imports Topology Go_Files begin

text \<open>
  \<^verbatim>\<open>pkg/meta/meta.go\<close>: what the program remembers of a cluster, in a file of its own. The YAML encoder and decoder
  are parameters, and so is the home directory of the user.
\<close>

section \<open>Data\<close>

record node_exporter_metadata =
  ne_host :: string
  ne_port :: int
  ne_pid :: int

record mongodb_exporter_metadata =
  me_host :: string
  me_exporter_port :: int
  me_mongodb_port :: int
  me_pid :: int

record monitoring_metadata =
  mm_enabled :: bool
  mm_victoria_url :: string
  mm_grafana_url :: string
  mm_node_exporters :: "node_exporter_metadata list"
  mm_mongodb_exporters :: "mongodb_exporter_metadata list"
  mm_supervisor_config :: string
  mm_supervisor_pid_file :: string

record node_metadata =
  nm_type :: string
  nm_host :: string
  nm_port :: int
  nm_replica_set :: string
  nm_data_dir :: string
  nm_log_dir :: string
  nm_config_dir :: string
  nm_config_file :: string
  nm_pid :: int
  nm_program :: string
  nm_supervisor_config :: string

record cluster_metadata =
  cm_name :: string
  cm_version :: string
  cm_variant :: string
  cm_bin_path :: string
  cm_created_at :: int
  cm_status :: string
  cm_topology :: "topology option"
  cm_deploy_mode :: string
  cm_nodes :: "node_metadata list"
  cm_connection :: string
  cm_supervisor_config :: string
  cm_supervisor_pid_file :: string
  cm_supervisor_running :: bool
  cm_monitoring :: "monitoring_metadata option"

section \<open>Versions with variants\<close>

definition get_full_version :: "cluster_metadata \<Rightarrow> string" where
  "get_full_version cm = (if cm_variant cm = [] then ''mongo'' else cm_variant cm) @ ''-'' @ cm_version cm"

text \<open>\<^verbatim>\<open>strings.SplitN(s, "-", 2)\<close>, when there is a dash.\<close>

definition split_first :: "char \<Rightarrow> string \<Rightarrow> (string \<times> string) option" where
  "split_first sep s = (case dropWhile (\<lambda>c. c \<noteq> sep) s of [] \<Rightarrow> None | _ # r \<Rightarrow> Some (takeWhile (\<lambda>c. c \<noteq> sep) s, r))"

definition set_full_version :: "string \<Rightarrow> cluster_metadata \<Rightarrow> cluster_metadata res" where
  "set_full_version full cm = (case split_first CHR ''-'' full of
     None \<Rightarrow> Err (''invalid full version format: '' @ full @ '' (expected variant-version)'')
   | Some (variant, version) \<Rightarrow>
       if variant \<noteq> ''mongo'' \<and> variant \<noteq> ''percona''
       then Err (''unknown variant: '' @ variant @ '' (expected 'mongo' or 'percona')'')
       else Ok (cm\<lparr>cm_variant := variant, cm_version := version\<rparr>))"

section \<open>The files\<close>

record yaml_codec =
  ym_marshal :: "cluster_metadata \<Rightarrow> fcontent res"
  ym_unmarshal :: "fcontent \<Rightarrow> cluster_metadata res"

text \<open>A manager is its base directory.\<close>

definition new_meta_manager :: "string res \<Rightarrow> string res" where
  "new_meta_manager home = (case home of
     Inl e \<Rightarrow> Err (wrapf ''failed to get home directory'' e)
   | Inr h \<Rightarrow> Ok (path_join [h, ''.mup'', ''storage'', ''clusters'']))"

definition get_cluster_dir :: "string \<Rightarrow> string \<Rightarrow> string" where
  "get_cluster_dir base name = path_join [base, name]"

definition get_meta_file :: "string \<Rightarrow> string \<Rightarrow> string" where
  "get_meta_file base name = path_join [get_cluster_dir base name, ''meta.yaml'']"

definition load_metadata :: "yaml_codec \<Rightarrow> string \<Rightarrow> string \<Rightarrow> cluster_metadata res io" where
  "load_metadata ym base name = do {
     r \<leftarrow> os_read_file (get_meta_file base name);
     ret (case r of
       Inl e \<Rightarrow> if is_not_exist e then Err (''cluster ''@ [CHR 0x27] @ name @ [CHR 0x27] @ '' not found'')
                else Err (wrapf ''failed to read metadata'' (os_msg e))
     | Inr data \<Rightarrow> wrap_err ''failed to parse metadata'' (ym_unmarshal ym data)) }"

definition save_metadata :: "yaml_codec \<Rightarrow> string \<Rightarrow> cluster_metadata \<Rightarrow> err option io" where
  "save_metadata ym base cm = do {
     d \<leftarrow> os_mkdir_all (get_cluster_dir base (cm_name cm));
     case d of
       Some e \<Rightarrow> ret (Some (wrapf ''failed to create cluster directory'' (os_msg e)))
     | None \<Rightarrow> (case ym_marshal ym cm of
         Inl e \<Rightarrow> ret (Some (wrapf ''failed to marshal metadata'' e))
       | Inr data \<Rightarrow> do {
           e \<leftarrow> os_write_file (get_meta_file base (cm_name cm)) data;
           ret (map_option (\<lambda>m. wrapf ''failed to write metadata'' (os_msg m)) e) }) }"

definition delete_metadata :: "string \<Rightarrow> string \<Rightarrow> err option io" where
  "delete_metadata base name = do {
     e \<leftarrow> os_remove_all (get_cluster_dir base name);
     ret (map_option (\<lambda>m. wrapf ''failed to delete cluster directory'' (os_msg m)) e) }"

fun list_entries :: "string \<Rightarrow> (string \<times> fnode) list \<Rightarrow> string list io" where
  "list_entries base [] = ret []"
| "list_entries base ((n, k) # es) = (if k = FDir
     then do {
       r \<leftarrow> os_stat (path_join [base, n, ''meta.yaml'']);
       ns \<leftarrow> list_entries base es;
       ret (case r of Inl _ \<Rightarrow> ns | Inr _ \<Rightarrow> n # ns) }
     else list_entries base es)"

definition list_clusters :: "string \<Rightarrow> string list res io" where
  "list_clusters base = do {
     s \<leftarrow> os_stat base;
     if (case s of Inl e \<Rightarrow> is_not_exist e | Inr _ \<Rightarrow> False) then ret (Ok [])
     else do {
       r \<leftarrow> os_read_dir base;
       case r of
         Inl e \<Rightarrow> ret (Err (wrapf ''failed to read clusters directory'' (os_msg e)))
       | Inr es \<Rightarrow> do { ns \<leftarrow> list_entries base es; ret (Ok ns) } } }"

definition update_cluster_status :: "yaml_codec \<Rightarrow> string \<Rightarrow> string \<Rightarrow> string \<Rightarrow> err option io" where
  "update_cluster_status ym base name status = do {
     r \<leftarrow> load_metadata ym base name;
     case r of
       Inl e \<Rightarrow> ret (Some e)
     | Inr cm \<Rightarrow> save_metadata ym base (cm\<lparr>cm_status := status\<rparr>) }"

section \<open>Lemmas\<close>

lemma split_first_append: "sep \<notin> set v \<Longrightarrow> split_first sep (v @ sep # s) = Some (v, s)"
proof -
  assume "sep \<notin> set v"
  then have "\<And>c. c \<in> set v \<Longrightarrow> c \<noteq> sep" by auto
  then show ?thesis by (simp add: split_first_def dropWhile_append2 takeWhile_append2)
qed

lemma split_first_Some: "split_first sep s = Some (v, r) \<Longrightarrow> s = v @ sep # r"
proof -
  assume a: "split_first sep s = Some (v, r)"
  then obtain x where x: "dropWhile (\<lambda>c. c \<noteq> sep) s = x # r" "v = takeWhile (\<lambda>c. c \<noteq> sep) s"
    by (auto simp: split_first_def split: list.splits)
  then have "x = sep" using hd_dropWhile [of "\<lambda>c. c \<noteq> sep" s] by (metis list.distinct(1) list.sel(1))
  then show ?thesis using x by (metis takeWhile_dropWhile_id)
qed

text \<open>
  The full version of a cluster is a faithful name: setting it gives back variant and version, where a cluster
  without variant counts as \<^verbatim>\<open>mongo\<close>; and every string that is accepted is the full version of what it sets.
\<close>
theorem full_version_roundtrip:
  "(cm_variant cm \<in> {[], ''mongo'', ''percona''} \<longrightarrow>
     set_full_version (get_full_version cm) cm' =
       Ok (cm'\<lparr>cm_variant := (if cm_variant cm = [] then ''mongo'' else cm_variant cm), cm_version := cm_version cm\<rparr>)) \<and>
   (set_full_version full cm' = Ok cm'' \<longrightarrow> get_full_version cm'' = full)"
proof (intro conjI impI)
  assume "cm_variant cm \<in> {[], ''mongo'', ''percona''}"
  then have "split_first CHR ''-'' (get_full_version cm) = Some (if cm_variant cm = [] then ''mongo'' else cm_variant cm, cm_version cm)"
    unfolding get_full_version_def using split_first_append [of "CHR ''-''" "if cm_variant cm = [] then ''mongo'' else cm_variant cm" "cm_version cm"]
    by auto
  then show "set_full_version (get_full_version cm) cm' =
       Ok (cm'\<lparr>cm_variant := (if cm_variant cm = [] then ''mongo'' else cm_variant cm), cm_version := cm_version cm\<rparr>)"
    using \<open>cm_variant cm \<in> {[], ''mongo'', ''percona''}\<close> by (auto simp: set_full_version_def)
next
  assume set: "set_full_version full cm' = Ok cm''"
  then obtain v s where vs: "split_first CHR ''-'' full = Some (v, s)" "v \<noteq> []" "cm'' = cm'\<lparr>cm_variant := v, cm_version := s\<rparr>"
    by (auto simp: set_full_version_def split: option.splits if_splits)
  then have "full = v @ CHR ''-'' # s" by (intro split_first_Some)
  then show "get_full_version cm'' = full" using vs by (simp add: get_full_version_def)
qed

section \<open>Saving and loading\<close>

definition meta_key_ok :: "string list \<Rightarrow> string \<Rightarrow> bool" where
  "meta_key_ok cs name = (comps_ok cs \<and> comp_ok name)"

lemma meta_yaml_ok: "comp_ok ''meta.yaml''"
  by (simp add: comp_ok_def dot_def dotdot_def)

lemma meta_file_abs: "meta_key_ok cs name \<Longrightarrow> get_meta_file (abs_path cs) name = abs_path (cs @ [name, ''meta.yaml''])"
  by (simp add: get_meta_file_def get_cluster_dir_def path_join_abs meta_key_ok_def comps_ok_def meta_yaml_ok)

lemma meta_file_clean: "meta_key_ok cs name \<Longrightarrow> path_clean (get_meta_file (abs_path cs) name) = get_meta_file (abs_path cs) name"
  by (simp add: meta_file_abs meta_key_ok_def comps_ok_def meta_yaml_ok)

lemma wp_save_metadata:
  assumes clean: "path_clean (get_meta_file base (cm_name cm)) = get_meta_file base (cm_name cm)"
    and nolink: "\<not> is_link (w_fs w) (get_meta_file base (cm_name cm))"
    and data: "ym_marshal ym cm = Ok data"
    and Q: "\<And>e w'. (e = None \<Longrightarrow> \<exists>t. mget (w_fs w') (get_meta_file base (cm_name cm)) = Some (FFile data t)) \<Longrightarrow> Q e w'"
  shows "wp (save_metadata ym base cm) Q w"
  unfolding save_metadata_def wp_bind
proof (rule wp_mkdir_all, goal_cases)
  case (1 d w1)
  let ?p = "get_meta_file base (cm_name cm)"
  have "\<not> is_link (w_fs w1) ?p"
    using nolink 1(2) 1(3) [of ?p] by (cases "mget (w_fs w) ?p") (auto simp: is_link_def split: option.splits fnode.splits)
  then have "fs_follow (w_fs w1) ?p = Some ?p" using fs_follow_plain [of "w_fs w1" ?p] clean by simp
  then have "wp (do { e \<leftarrow> os_write_file ?p data; ret (map_option (\<lambda>m. wrapf ''failed to write metadata'' (os_msg m)) e) }) Q w1"
    unfolding wp_bind wp_return_fun by (rule wp_write_file) (auto intro: Q)
  then show ?case by (cases d) (auto simp: data intro: Q)
qed

lemma wp_load_metadata:
  assumes stored: "mget (w_fs w) (get_meta_file base name) = Some (FFile data t)"
    and clean: "path_clean (get_meta_file base name) = get_meta_file base name"
    and cm: "ym_unmarshal ym data = Ok cm"
    and Q: "\<And>w'. w_fs w' = w_fs w \<Longrightarrow> Q (Ok cm) w'" "\<And>m w'. w_fs w' = w_fs w \<Longrightarrow> Q (Err (wrapf ''failed to read metadata'' m)) w'"
  shows "wp (load_metadata ym base name) Q w"
proof -
  have "fs_follow (w_fs w) (get_meta_file base name) = Some (get_meta_file base name)"
    using fs_follow_file [OF stored clean] .
  then show ?thesis
    unfolding load_metadata_def wp_bind wp_return_fun os_read_file_def wp_clock
    using stored by (cases "w_faults w (w_nio w)") (simp_all add: Q cm)
qed

text \<open>
  Updating the status changes nothing else: after a save and an update that both report success, the record that
  is loaded is the saved one with the new status, or reading it failed.
\<close>
theorem update_status_frame:
  assumes key: "meta_key_ok cs (cm_name cm)" and nolink: "\<not> is_link (w_fs w) (get_meta_file (abs_path cs) (cm_name cm))"
    and yaml: "\<And>s. s \<in> {cm_status cm, st} \<Longrightarrow>
      \<exists>d. ym_marshal ym (cm\<lparr>cm_status := s\<rparr>) = Ok d \<and> ym_unmarshal ym d = Ok (cm\<lparr>cm_status := s\<rparr>)"
  shows "wp (do { e \<leftarrow> save_metadata ym (abs_path cs) cm; e' \<leftarrow> update_cluster_status ym (abs_path cs) (cm_name cm) st;
      r \<leftarrow> load_metadata ym (abs_path cs) (cm_name cm); ret (e, e', r) })
    (\<lambda>(e, e', r) w'. e = None \<and> e' = None \<longrightarrow>
       r = Ok (cm\<lparr>cm_status := st\<rparr>) \<or> (\<exists>m. r = Err (wrapf ''failed to read metadata'' m))) w"
proof -
  let ?b = "abs_path cs" and ?n = "cm_name cm" and ?p = "get_meta_file (abs_path cs) (cm_name cm)"
  let ?new = "cm\<lparr>cm_status := st\<rparr>"
  obtain d where d: "ym_marshal ym cm = Ok d" "ym_unmarshal ym d = Ok cm" using yaml [of "cm_status cm"] by auto
  obtain d' where d': "ym_marshal ym ?new = Ok d'" "ym_unmarshal ym d' = Ok ?new" using yaml [of st] by auto
  note clean = meta_file_clean [OF key]
  have load: "wp (load_metadata ym ?b ?n) (\<lambda>r _. r = Ok ?new \<or> (\<exists>m. r = Err (wrapf ''failed to read metadata'' m))) w2"
    if "mget (w_fs w2) ?p = Some (FFile d' t)" for w2 t
    by (rule wp_load_metadata [OF that clean d'(2)]) auto
  have update: "wp (update_cluster_status ym ?b ?n st) (\<lambda>e'. wp (load_metadata ym ?b ?n) (\<lambda>r _. e' = None \<longrightarrow>
      r = Ok ?new \<or> (\<exists>m. r = Err (wrapf ''failed to read metadata'' m)))) w1"
    if s: "mget (w_fs w1) ?p = Some (FFile d t)" for w1 t
    unfolding update_cluster_status_def wp_bind
  proof (rule wp_load_metadata [OF s clean d(2)], goal_cases)
    case (1 w2)
    have "\<not> is_link (w_fs w2) ?p" using 1 s by simp
    then have "wp (save_metadata ym ?b ?new) (\<lambda>e'. wp (load_metadata ym ?b ?n) (\<lambda>r _. e' = None \<longrightarrow>
        r = Ok ?new \<or> (\<exists>m. r = Err (wrapf ''failed to read metadata'' m)))) w2"
      by (intro wp_save_metadata [OF _ _ d'(1)]) (auto simp: clean intro: load [THEN wp_mono] wp_mono [OF wp_trivial(1)])
    then show ?case by simp
  qed (simp add: wp_def case_prod_unfold)
  show ?thesis
    unfolding wp_bind
  proof (rule wp_save_metadata [OF clean nolink d(1)], goal_cases)
    case (1 e w1)
    show ?case
    proof (cases e)
      case None
      with 1 obtain t where "mget (w_fs w1) ?p = Some (FFile d t)" by auto
      from update [OF this] show ?thesis by (rule wp_mono) (auto elim!: wp_mono)
    qed (simp add: wp_def case_prod_unfold)
  qed
qed

definition example_metadata :: cluster_metadata where
  "example_metadata = \<lparr>cm_name = ''c'', cm_version = ''7.0.1'', cm_variant = ''mongo'', cm_bin_path = ''/bin'', cm_created_at = 0,
     cm_status = ''running'', cm_topology = None, cm_deploy_mode = ''local'', cm_nodes = [], cm_connection = [],
     cm_supervisor_config = [], cm_supervisor_pid_file = [], cm_supervisor_running = False, cm_monitoring = None\<rparr>"

text \<open>A codec for the records of one cluster that differ in the status.\<close>

definition status_codec :: yaml_codec where
  "status_codec = \<lparr>ym_marshal = (\<lambda>cm. Ok (Text (cm_status cm))),
     ym_unmarshal = (\<lambda>d. case d of Text s \<Rightarrow> Ok (example_metadata\<lparr>cm_status := s\<rparr>) | Json _ \<Rightarrow> Err ''yaml'')\<rparr>"

lemma update_status_frame_witness:
  "wp (do { e \<leftarrow> save_metadata status_codec (abs_path [''m'']) example_metadata;
      e' \<leftarrow> update_cluster_status status_codec (abs_path [''m'']) ''c'' ''stopped'';
      r \<leftarrow> load_metadata status_codec (abs_path [''m'']) ''c''; ret (e, e', r) })
    (\<lambda>(e, e', r) w'. e = None \<and> e' = None \<longrightarrow>
       r = Ok (example_metadata\<lparr>cm_status := ''stopped''\<rparr>) \<or> (\<exists>m. r = Err (wrapf ''failed to read metadata'' m))) example_world"
proof -
  have key: "meta_key_ok [''m''] (cm_name example_metadata)"
    by (simp add: meta_key_ok_def comp_ok_def dot_def dotdot_def example_metadata_def)
  have name: "cm_name example_metadata = ''c''" by (simp add: example_metadata_def)
  show ?thesis
    using update_status_frame [OF key, of example_world "''stopped''" status_codec]
    by (simp add: name status_codec_def is_link_def example_world_def del: wp_bind)
qed

text \<open>The metadata is written in place: a write that fails part way leaves neither the old record nor the new one.\<close>

lemma save_metadata_tears:
  assumes key: "meta_key_ok cs (cm_name cm)" and data: "ym_marshal ym cm = Ok data"
    and dirs: "\<forall>d \<in> set (path_prefixes (get_cluster_dir (abs_path cs) (cm_name cm))). is_dir (w_fs w) d"
    and stored: "mget (w_fs w) (get_meta_file (abs_path cs) (cm_name cm)) = Some (FFile old t)"
    and faults: "w_faults w (w_nio w) = None" "w_faults w (Suc (w_nio w)) = Some (Fault m (Some bytes))"
  shows "wp (save_metadata ym (abs_path cs) cm) (\<lambda>e w'. e = Some (wrapf ''failed to write metadata'' m) \<and>
    (\<exists>t. mget (w_fs w') (get_meta_file (abs_path cs) (cm_name cm)) = Some (FFile (Text bytes) t))) w"
proof -
  let ?d = "get_cluster_dir (abs_path cs) (cm_name cm)" and ?p = "get_meta_file (abs_path cs) (cm_name cm)"
  have cs: "comps_ok cs" "comp_ok (cm_name cm)" using key by (simp_all add: meta_key_ok_def)
  have d: "?d = abs_path (cs @ [cm_name cm])" using cs by (simp add: get_cluster_dir_def path_join_abs comps_ok_def)
  have p: "?p = abs_path ((cs @ [cm_name cm]) @ [''meta.yaml''])" using meta_file_abs [OF key] by simp
  have pd: "path_dir ?p = ?d"
    unfolding p d by (rule path_dir_abs) (use cs in \<open>simp_all add: meta_yaml_ok comps_ok_def\<close>)
  have dir: "is_dir (w_fs w) ?d"
    using dirs path_prefixes_self [of "cs @ [cm_name cm]"] cs by (simp add: d comps_ok_def)
  have "?p \<noteq> abs_path []" unfolding p
    by (subst abs_path_inject) (use cs in \<open>simp_all add: meta_yaml_ok comps_ok_def\<close>)
  moreover have "?p \<noteq> dot" unfolding p by (simp add: abs_path_def dot_def)
  ultimately have "\<not> is_dir (w_fs w) ?p" by (intro not_dir_file [OF stored]) (simp_all add: abs_path_def)
  moreover have "run_state (os_mkdir_all ?d) w = (None, w\<lparr>w_nio := Suc (w_nio w)\<rparr>)"
    using dirs faults(1) by (simp add: os_mkdir_all_def mkdirs_present)
  ultimately show ?thesis
    using faults(2) stored dir meta_file_clean [OF key]
    by (simp add: wp_def save_metadata_def data os_write_file_def pd)
qed

lemma full_version_roundtrip_witness:
  "set_full_version (get_full_version (example_metadata\<lparr>cm_variant := []\<rparr>)) example_metadata = Ok example_metadata"
  using conjunct1 [OF full_version_roundtrip [of "example_metadata\<lparr>cm_variant := []\<rparr>" example_metadata]]
  by (simp add: example_metadata_def)

end
