(* ===== verification/Handler_Base.thy ===== *)
theory Handler_Base imports Apply_State Host_Exec begin

text \<open>
  \<^verbatim>\<open>pkg/operation/handler.go\<close>, \<^verbatim>\<open>executor.go\<close> and \<^verbatim>\<open>legacy_adapter.go\<close>: what a handler of operations is, the results of its
  phases, and the checks before an operation.

  A phase of a handler returns, fails with an error, or panics: a type assertion \<^verbatim>\<open>x.(string)\<close> without a second result
  panics on a value of another type, and nothing recovers from it. A phase that polls may also not end within
  the fuel it is given (\<open>Hung\<close>). Text that a plan could hold as an instant does not occur among the parameters that
  the handlers read as strings.
\<close>

section \<open>Outcomes\<close>

datatype 'a outcome = Returned 'a | Failed err | Panicked | Hung

text \<open>Continuations for a value that must be there, a type assertion, and calls whose error is wrapped.\<close>

definition want :: "err \<Rightarrow> 'a option \<Rightarrow> ('a \<Rightarrow> ('s, 'b outcome) prog) \<Rightarrow> ('s, 'b outcome) prog" where
  "want e x f = (case x of None \<Rightarrow> ret (Failed e) | Some y \<Rightarrow> f y)"

definition expect :: "'a option \<Rightarrow> ('a \<Rightarrow> ('s, 'b outcome) prog) \<Rightarrow> ('s, 'b outcome) prog" where
  "expect x f = (case x of None \<Rightarrow> ret Panicked | Some y \<Rightarrow> f y)"

definition try_res :: "string \<Rightarrow> ('s, 'a res) prog \<Rightarrow> ('a \<Rightarrow> ('s, 'b outcome) prog) \<Rightarrow> ('s, 'b outcome) prog" where
  "try_res p m f = do { r \<leftarrow> m; case r of Inl e \<Rightarrow> ret (Failed (wrapf p e)) | Inr x \<Rightarrow> f x }"

definition try_err :: "string \<Rightarrow> ('s, err option) prog \<Rightarrow> ('s, 'b outcome) prog \<Rightarrow> ('s, 'b outcome) prog" where
  "try_err p m n = do { e \<leftarrow> m; case e of Some x \<Rightarrow> ret (Failed (wrapf p x)) | None \<Rightarrow> n }"

section \<open>Parameters\<close>

definition param :: "planned_operation \<Rightarrow> string \<Rightarrow> pval option" where
  "param op k = mget (po_params op) k"

definition as_str :: "pval option \<Rightarrow> string option" where
  "as_str v = (case v of Some (PV (GStr s)) \<Rightarrow> Some s | _ \<Rightarrow> None)"

definition as_float :: "pval option \<Rightarrow> rat option" where
  "as_float v = (case v of Some (PV (GFloat r)) \<Rightarrow> Some r | _ \<Rightarrow> None)"

definition as_int :: "pval option \<Rightarrow> int option" where
  "as_int v = (case v of Some (PV (GInt i)) \<Rightarrow> Some i | _ \<Rightarrow> None)"

definition str_param :: "planned_operation \<Rightarrow> string \<Rightarrow> string option" where
  "str_param op k = as_str (param op k)"

definition has_param :: "planned_operation \<Rightarrow> string \<Rightarrow> bool" where
  "has_param op k = mhas (po_params op) k"

text \<open>\<^verbatim>\<open>int(f)\<close> cuts the fraction off (numbers beyond 64 bits do not occur).\<close>

definition go_int :: "rat \<Rightarrow> int" where
  "go_int r = (if 0 \<le> r then \<lfloor>r\<rfloor> else - \<lfloor>- r\<rfloor>)"

definition float_param :: "planned_operation \<Rightarrow> string \<Rightarrow> int option" where
  "float_param op k = map_option go_int (as_float (param op k))"

text \<open>A number that is an \<^verbatim>\<open>int\<close> in a fresh plan and a \<^verbatim>\<open>float64\<close> in one that was loaded.\<close>

definition num_param :: "planned_operation \<Rightarrow> string \<Rightarrow> int option" where
  "num_param op k = (case as_int (param op k) of Some i \<Rightarrow> Some i | None \<Rightarrow> float_param op k)"

definition str_or_empty :: "string option \<Rightarrow> string" where
  "str_or_empty x = (case x of None \<Rightarrow> [] | Some s \<Rightarrow> s)"

section \<open>Hook results\<close>

record state_change =
  stch_resource :: string
  stch_expected :: goval
  stch_actual :: goval
  stch_impact :: string

record hook_result =
  hr_valid :: bool
  hr_warnings :: "string list"
  hr_errors :: "string list"
  hr_changes :: "state_change list"
  hr_metadata :: "(string, goval) gomap"

definition new_hook_result :: hook_result where
  "new_hook_result = \<lparr>hr_valid = True, hr_warnings = [], hr_errors = [], hr_changes = [], hr_metadata = []\<rparr>"

definition add_error :: "err \<Rightarrow> hook_result \<Rightarrow> hook_result" where
  "add_error e hr = hr\<lparr>hr_valid := False, hr_errors := hr_errors hr @ [e]\<rparr>"

definition add_warning :: "string \<Rightarrow> hook_result \<Rightarrow> hook_result" where
  "add_warning m hr = hr\<lparr>hr_warnings := hr_warnings hr @ [m]\<rparr>"

definition add_state_change :: "string \<Rightarrow> goval \<Rightarrow> goval \<Rightarrow> string \<Rightarrow> hook_result \<Rightarrow> hook_result" where
  "add_state_change r e a i hr = hr\<lparr>hr_changes := hr_changes hr @
     [\<lparr>stch_resource = r, stch_expected = e, stch_actual = a, stch_impact = i\<rparr>]\<rparr>"

definition set_meta :: "string \<Rightarrow> goval \<Rightarrow> hook_result \<Rightarrow> hook_result" where
  "set_meta k v hr = hr\<lparr>hr_metadata := mput k v (hr_metadata hr)\<rparr>"

definition verified :: "(string \<times> string) list \<Rightarrow> hook_result" where
  "verified kvs = fold (\<lambda>(k, v). set_meta k (GStr v)) kvs (set_meta ''verified'' (GBool True) new_hook_result)"

text \<open>Every required parameter that is missing is an error.\<close>

definition require_params :: "string list \<Rightarrow> planned_operation \<Rightarrow> hook_result" where
  "require_params ks op = fold (\<lambda>k hr. if has_param op k then hr else add_error (''missing required parameter: '' @ k) hr) ks new_hook_result"

section \<open>Handlers\<close>

record 's handler =
  hd_is_complete :: "planned_operation \<Rightarrow> 's host_exec \<Rightarrow> ('s, bool outcome) prog"
  hd_pre_hook :: "planned_operation \<Rightarrow> 's host_exec \<Rightarrow> ('s, hook_result outcome) prog"
  hd_execute :: "planned_operation \<Rightarrow> 's host_exec \<Rightarrow> ('s, operation_result outcome) prog"
  hd_post_hook :: "planned_operation \<Rightarrow> 's host_exec \<Rightarrow> ('s, hook_result outcome) prog"

text \<open>The adapter of handlers of the older interface, which validate and execute only.\<close>

definition legacy_handler :: "(planned_operation \<Rightarrow> 's host_exec \<Rightarrow> ('s, err option) prog) \<Rightarrow>
    (planned_operation \<Rightarrow> 's host_exec \<Rightarrow> ('s, operation_result outcome) prog) \<Rightarrow> 's handler" where
  "legacy_handler validate execute = \<lparr>
     hd_is_complete = (\<lambda>op hx. ret (Returned False)),
     hd_pre_hook = (\<lambda>op hx. do {
       e \<leftarrow> validate op hx;
       ret (Returned (case e of None \<Rightarrow> new_hook_result | Some m \<Rightarrow> add_error m new_hook_result)) }),
     hd_execute = execute,
     hd_post_hook = (\<lambda>op hx. ret (Returned new_hook_result))\<rparr>"

section \<open>Executing operations\<close>

record 's operation_executor =
  oex_executors :: "(string, 's host_exec) gomap"
  oex_handlers :: "(operation_type, 's handler) gomap"
  oex_storage :: string

definition register_handler :: "operation_type \<Rightarrow> 's handler \<Rightarrow> 's operation_executor \<Rightarrow> 's operation_executor" where
  "register_handler ty h e = e\<lparr>oex_handlers := mput ty h (oex_handlers e)\<rparr>"

text \<open>Without a host any executor will do: \<^verbatim>\<open>range\<close> gives the first one of an order that Go leaves open.\<close>

definition get_executor :: "'s operation_executor \<Rightarrow> planned_operation \<Rightarrow> 's host_exec res" where
  "get_executor e op =
     (let host = tg_host (po_target op) in
      if host = []
      then (case oex_executors e of [] \<Rightarrow> Err ''no executor available'' | (_, hx) # _ \<Rightarrow> Ok hx)
      else (case mget (oex_executors e) host of
          None \<Rightarrow> Err (''no executor found for host: '' @ host)
        | Some hx \<Rightarrow> Ok hx))"

definition execute_op :: "'s operation_executor \<Rightarrow> planned_operation \<Rightarrow> ('s, operation_result outcome) prog" where
  "execute_op e op = (case mget (oex_handlers e) (po_type op) of
     None \<Rightarrow> ret (Failed (''no handler registered for operation type: '' @ po_type op))
   | Some h \<Rightarrow> (case get_executor e op of
       Inl m \<Rightarrow> ret (Failed (wrapf ''failed to get executor'' m))
     | Inr hx \<Rightarrow> do {
         r \<leftarrow> hd_execute h op hx;
         ret (case r of Failed m \<Rightarrow> Failed (wrapf ''operation execution failed'' m) | _ \<Rightarrow> r) }))"

text \<open>\<^verbatim>\<open>%.2f\<close> of an exact number: the nearest two decimals, halves to the even one.\<close>

definition round_even :: "rat \<Rightarrow> int" where
  "round_even r = (let f = \<lfloor>r\<rfloor>; d = r - of_int f in
     if d < 1 / 2 then f else if 1 / 2 < d then f + 1 else if even f then f else f + 1)"

definition fmt_2f :: "rat \<Rightarrow> string" where
  "fmt_2f r = (let n = round_even (\<bar>r\<bar> * 100) in
     (if r < 0 then ''-'' else []) @ itoa (n div 100) @ ''.'' @ pad_zeros 2 (itoa (n mod 100)))"

definition gib :: rat where "gib = 1024 * 1024 * 1024"

definition check_port :: "safety_check \<Rightarrow> 's host_exec \<Rightarrow> ('s, err option) prog" where
  "check_port c hx = (case mget (sc_params c) ''port'' of
     Some (GFloat port) \<Rightarrow> do {
       r \<leftarrow> hx_check_port_available hx (go_int port);
       ret (case r of
         Inl e \<Rightarrow> Some e
       | Inr available \<Rightarrow> if available then None else Some (''port '' @ itoa (go_int port) @ '' is not available'')) }
   | _ \<Rightarrow> ret (Some ''invalid port parameter''))"

definition check_disk :: "safety_check \<Rightarrow> 's host_exec \<Rightarrow> ('s, err option) prog" where
  "check_disk c hx = (case mget (sc_params c) ''path'' of
     Some (GStr path) \<Rightarrow> (case mget (sc_params c) ''required_gb'' of
         Some (GFloat required) \<Rightarrow> do {
           r \<leftarrow> hx_get_disk_space hx path;
           ret (case r of
             Inl e \<Rightarrow> Some e
           | Inr available \<Rightarrow> let gb = of_nat (unat available) / gib in
               if gb < required
               then Some (''insufficient disk space: '' @ fmt_2f gb @ ''GB available, '' @ fmt_2f required @ ''GB required'')
               else None) }
       | _ \<Rightarrow> ret (Some ''invalid required_gb parameter''))
   | _ \<Rightarrow> ret (Some ''invalid path parameter''))"

definition check_process :: "safety_check \<Rightarrow> 's host_exec \<Rightarrow> ('s, err option) prog" where
  "check_process c hx = (case mget (sc_params c) ''pid'' of
     Some (GFloat p) \<Rightarrow> do {
       r \<leftarrow> hx_is_process_running hx (go_int p);
       ret (case r of
         Inl e \<Rightarrow> Some e
       | Inr running \<Rightarrow> if running then Some (''process '' @ itoa (go_int p) @ '' is still running'') else None) }
   | _ \<Rightarrow> ret (Some ''invalid pid parameter''))"

definition check_path :: "string \<Rightarrow> string \<Rightarrow> safety_check \<Rightarrow> 's host_exec \<Rightarrow> ('s, err option) prog" where
  "check_path flag kind c hx = (case mget (sc_params c) ''path'' of
     Some (GStr path) \<Rightarrow> do {
       r \<leftarrow> hx_execute hx (''test '' @ flag @ '' '' @ path);
       ret (case r of Inl e \<Rightarrow> Some (kind @ '' '' @ path @ '' does not exist'') | Inr _ \<Rightarrow> None) }
   | _ \<Rightarrow> ret (Some ''invalid path parameter''))"

definition validate_safety_check :: "safety_check \<Rightarrow> 's host_exec \<Rightarrow> ('s, err option) prog" where
  "validate_safety_check c hx =
     (if sc_type c = ''port_available'' then check_port c hx
      else if sc_type c = ''disk_space'' then check_disk c hx
      else if sc_type c = ''process_not_running'' then check_process c hx
      else if sc_type c = ''file_exists'' then check_path ''-f'' ''file'' c hx
      else if sc_type c = ''directory_exists'' then check_path ''-d'' ''directory'' c hx
      else ret (Some (''unknown check type: '' @ sc_type c)))"

fun validate_pre_conditions :: "safety_check list \<Rightarrow> 's host_exec \<Rightarrow> ('s, err option) prog" where
  "validate_pre_conditions [] hx = ret None"
| "validate_pre_conditions (c # cs) hx = do {
     e \<leftarrow> validate_safety_check c hx;
     case e of
       Some m \<Rightarrow> if sc_required c then ret (Some (''required safety check '' @ sc_id c @ '' failed: '' @ m))
                 else validate_pre_conditions cs hx
     | None \<Rightarrow> validate_pre_conditions cs hx }"

text \<open>\<^verbatim>\<open>%v\<close> of a slice of strings.\<close>

definition show_strings :: "string list \<Rightarrow> string" where
  "show_strings ss = ''['' @ join_with '' '' ss @ '']''"

definition validate_op :: "'s operation_executor \<Rightarrow> planned_operation \<Rightarrow> ('s, unit outcome) prog" where
  "validate_op e op = (case mget (oex_handlers e) (po_type op) of
     None \<Rightarrow> ret (Failed (''no handler registered for operation type: '' @ po_type op))
   | Some h \<Rightarrow> (case get_executor e op of
       Inl m \<Rightarrow> ret (Failed (wrapf ''failed to get executor'' m))
     | Inr hx \<Rightarrow> try_err ''pre-condition validation failed'' (validate_pre_conditions (po_pre op) hx) (do {
         r \<leftarrow> hd_pre_hook h op hx;
         ret (case r of
           Failed m \<Rightarrow> Failed (wrapf ''handler pre-hook failed'' m)
         | Returned hr \<Rightarrow> if hr_valid hr then Returned ()
             else Failed (''handler validation failed: '' @ show_strings (hr_errors hr))
         | Panicked \<Rightarrow> Panicked
         | Hung \<Rightarrow> Hung) })))"

section \<open>Lemmas\<close>

lemma wp_want [simp]: "wp (want e x f) Q s = (case x of None \<Rightarrow> Q (Failed e) s | Some y \<Rightarrow> wp (f y) Q s)"
  by (simp add: want_def split: option.split)

lemma wp_expect [simp]: "wp (expect x f) Q s = (case x of None \<Rightarrow> Q Panicked s | Some y \<Rightarrow> wp (f y) Q s)"
  by (simp add: expect_def split: option.split)

lemma wp_try_res [simp]: "wp (try_res p m f) Q s =
    wp m (\<lambda>r. case r of Inl e \<Rightarrow> Q (Failed (wrapf p e)) | Inr x \<Rightarrow> wp (f x) Q) s"
  unfolding try_res_def wp_bind by (rule arg_cong [where f = "\<lambda>q. wp m q s"], intro ext) (simp split: sum.split)

lemma wp_try_err [simp]: "wp (try_err p m n) Q s =
    wp m (\<lambda>e. case e of Some x \<Rightarrow> Q (Failed (wrapf p x)) | None \<Rightarrow> wp n Q) s"
  unfolding try_err_def wp_bind by (rule arg_cong [where f = "\<lambda>q. wp m q s"], intro ext) (simp split: option.split)

lemma keeps_want [intro]: "(\<And>y. keeps P (f y)) \<Longrightarrow> keeps P (want e x f)"
  by (simp add: want_def split: option.split)

lemma keeps_expect [intro]: "(\<And>y. keeps P (f y)) \<Longrightarrow> keeps P (expect x f)"
  by (simp add: expect_def split: option.split)

lemma keeps_try_res [intro]: "keeps P m \<Longrightarrow> (\<And>y. keeps P (f y)) \<Longrightarrow> keeps P (try_res p m f)"
  unfolding try_res_def by (intro keeps_intros)

lemma keeps_try_err [intro]: "keeps P m \<Longrightarrow> keeps P n \<Longrightarrow> keeps P (try_err p m n)"
  unfolding try_err_def by (intro keeps_intros)

lemmas keeps_call_intros = keeps_intros keeps_want keeps_expect keeps_try_res keeps_try_err

lemma hook_simps [simp]:
  "hr_valid new_hook_result" "hr_errors new_hook_result = []" "hr_warnings new_hook_result = []"
  "\<not> hr_valid (add_error e hr)" "hr_errors (add_error e hr) = hr_errors hr @ [e]"
  "hr_valid (add_warning m hr) = hr_valid hr" "hr_errors (add_warning m hr) = hr_errors hr"
  "hr_valid (set_meta k v hr) = hr_valid hr" "hr_errors (set_meta k v hr) = hr_errors hr"
  by (simp_all add: new_hook_result_def add_error_def add_warning_def set_meta_def)

lemma hr_valid_verified [simp]: "hr_valid (verified kvs)"
proof -
  have "hr_valid (fold (\<lambda>(k, v). set_meta k (GStr v)) kvs hr) = hr_valid hr" for hr
  proof (induction kvs arbitrary: hr)
    case (Cons kv kvs)
    show ?case unfolding fold_Cons o_apply by (subst Cons.IH) (simp add: case_prod_beta)
  qed simp
  then show ?thesis unfolding verified_def by (simp only: hook_simps)
qed

lemma require_params_valid: "hr_valid (require_params ks op) = (\<forall>k \<in> set ks. has_param op k)"
proof -
  have "hr_valid (fold (\<lambda>k hr. if has_param op k then hr else add_error (''missing required parameter: '' @ k) hr) ks hr)
      = (hr_valid hr \<and> (\<forall>k \<in> set ks. has_param op k))" for hr
    by (induction ks arbitrary: hr) auto
  then show ?thesis by (simp add: require_params_def)
qed

lemma go_int_of_int [simp]: "go_int (of_int i) = i"
  by (simp add: go_int_def)

end
