(* ===== verification/Handlers_Files.thy ===== *)
theory Handlers_Files imports Handler_Base Versions begin

text \<open>
  The handlers of \<^verbatim>\<open>pkg/operation/handlers.go\<close> and \<^verbatim>\<open>create_directory_handler.go\<close> that deal with files: downloading
  and copying binaries, directories, links and uploads. Links and the check of a local file go to the
  operating system of the machine that runs the program, everything else to the executor of the operation.
\<close>

definition done_result :: "string \<Rightarrow> planned_operation \<Rightarrow> (string, goval) gomap \<Rightarrow> operation_result outcome" where
  "done_result out op meta = Returned \<lparr>or_success = True, or_output = out, or_changes = po_changes op, or_metadata = meta\<rparr>"

section \<open>Downloading binaries\<close>

text \<open>The binary manager, by its \<^verbatim>\<open>GetBinPathWithVariant\<close>: version, variant, system and architecture.\<close>

type_synonym bin_manager = "string \<Rightarrow> string \<Rightarrow> string \<Rightarrow> string \<Rightarrow> string res io"

definition download_pre_hook :: "planned_operation \<Rightarrow> hook_result" where
  "download_pre_hook op =
     (let ps = tg_params (po_target op) in
      if \<not> mhas ps ''version'' then add_error ''missing required parameter: version'' new_hook_result
      else (case mget ps ''variant'' of
        None \<Rightarrow> add_error ''missing required parameter: variant'' new_hook_result
      | Some v \<Rightarrow> if v \<in> {''mongo'', ''percona''} then new_hook_result
          else add_error (''invalid variant: '' @ v @ '' (must be 'mongo' or 'percona')'') new_hook_result))"

text \<open>A handler whose binary manager could not be made has a nil pointer instead.\<close>

definition download_execute :: "bin_manager option \<Rightarrow> planned_operation \<Rightarrow> ('s, operation_result outcome) prog" where
  "download_execute bm op =
     (let ps = tg_params (po_target op);
          version = str_or_empty (mget ps ''version'');
          variant = str_or_empty (mget ps ''variant'') in
      if variant \<notin> {''mongo'', ''percona''} then ret (Failed (''unknown variant: '' @ variant))
      else expect bm (\<lambda>get. try_res ''failed to download binaries'' (on_os (get version variant ''darwin'' ''arm64''))
        (\<lambda>path. ret (done_result (''Downloaded MongoDB '' @ version @ '' ('' @ variant @ '') binaries to '' @ path) op
           [(''bin_path'', GStr path), (''version'', GStr version), (''variant'', GStr variant)]))))"

definition download_post_hook :: "planned_operation \<Rightarrow> 's host_exec \<Rightarrow> ('s, hook_result outcome) prog" where
  "download_post_hook op hx = ret (Returned (verified []))"

definition download_binary_handler :: "bin_manager option \<Rightarrow> 's handler" where
  "download_binary_handler bm = \<lparr>
     hd_is_complete = (\<lambda>op hx. ret (Returned False)),
     hd_pre_hook = (\<lambda>op hx. ret (Returned (download_pre_hook op))),
     hd_execute = (\<lambda>op hx. download_execute bm op),
     hd_post_hook = download_post_hook\<rparr>"

section \<open>Copying binaries\<close>

definition cluster_binaries :: "string \<Rightarrow> string list" where
  "cluster_binaries version = [''mongod'', ''mongos'', get_shell_binary version]"

definition exists_quiet :: "'s host_exec \<Rightarrow> string \<Rightarrow> ('s, bool) prog" where
  "exists_quiet hx p = do { r \<leftarrow> hx_file_exists hx p; ret (case r of Inl _ \<Rightarrow> False | Inr b \<Rightarrow> b) }"

definition copy_is_complete :: "planned_operation \<Rightarrow> 's host_exec \<Rightarrow> ('s, bool outcome) prog" where
  "copy_is_complete op hx = (case str_param op ''dest_dir'' of
     None \<Rightarrow> ret (Returned False)
   | Some dest \<Rightarrow> (case str_param op ''version'' of
       None \<Rightarrow> ret (Returned False)
     | Some version \<Rightarrow> do {
         d \<leftarrow> exists_quiet hx (path_join [dest, ''mongod'']);
         s \<leftarrow> exists_quiet hx (path_join [dest, get_shell_binary version]);
         ret (Returned (d \<and> s)) }))"

fun copy_binaries :: "'s host_exec \<Rightarrow> string \<Rightarrow> string \<Rightarrow> string list \<Rightarrow> string list \<Rightarrow> ('s, string list outcome) prog" where
  "copy_binaries hx source dest [] copied = ret (Returned copied)"
| "copy_binaries hx source dest (b # bs) copied =
     (let from_file = path_join [path_dir source, b]; to_file = path_join [dest, b] in
      try_err (''failed to copy '' @ b) (hx_upload_file hx from_file to_file)
        (try_res (''failed to set permissions on '' @ b) (hx_execute hx (''chmod +x '' @ to_file))
          (\<lambda>_. copy_binaries hx source dest bs (copied @ [to_file]))))"

definition copy_execute :: "planned_operation \<Rightarrow> 's host_exec \<Rightarrow> ('s, operation_result outcome) prog" where
  "copy_execute op hx =
     want ''source_path parameter not found or invalid'' (str_param op ''source_path'') (\<lambda>source.
     want ''dest_dir parameter not found or invalid'' (str_param op ''dest_dir'') (\<lambda>dest.
     want ''version parameter not found or invalid'' (str_param op ''version'') (\<lambda>version. do {
       r \<leftarrow> copy_binaries hx source dest (cluster_binaries version) [];
       ret (case r of
         Returned copied \<Rightarrow> done_result (''Copied '' @ itoa (int (length copied)) @ '' binaries to '' @ dest) op
           [(''copied_files'', GStrs copied), (''dest_dir'', GStr dest)]
       | Failed e \<Rightarrow> Failed e | Panicked \<Rightarrow> Panicked | Hung \<Rightarrow> Hung) })))"

fun verify_binaries :: "'s host_exec \<Rightarrow> string \<Rightarrow> string list \<Rightarrow> hook_result \<Rightarrow> ('s, hook_result) prog" where
  "verify_binaries hx dest [] hr = ret hr"
| "verify_binaries hx dest (b # bs) hr = do {
     r \<leftarrow> hx_file_exists hx (path_join [dest, b]);
     verify_binaries hx dest bs (case r of
       Inl e \<Rightarrow> add_warning (''failed to verify '' @ b @ '': '' @ e) hr
     | Inr found \<Rightarrow> if found then hr else add_error (''binary not found after copy: '' @ path_join [dest, b]) hr) }"

definition copy_post_hook :: "planned_operation \<Rightarrow> 's host_exec \<Rightarrow> ('s, hook_result outcome) prog" where
  "copy_post_hook op hx = do {
     hr \<leftarrow> verify_binaries hx (str_or_empty (str_param op ''dest_dir''))
       (cluster_binaries (str_or_empty (str_param op ''version''))) new_hook_result;
     ret (Returned (set_meta ''verified'' (GBool True) hr)) }"

definition copy_pre_hook :: "planned_operation \<Rightarrow> 's host_exec \<Rightarrow> ('s, hook_result outcome) prog" where
  "copy_pre_hook op hx = ret (Returned (require_params [''source_path'', ''dest_dir''] op))"

definition copy_binary_handler :: "'s handler" where
  "copy_binary_handler = \<lparr>
     hd_is_complete = copy_is_complete,
     hd_pre_hook = copy_pre_hook,
     hd_execute = copy_execute,
     hd_post_hook = copy_post_hook\<rparr>"

section \<open>Creating directories\<close>

text \<open>The shape that several phases share: is the path there?\<close>

definition check_exists :: "string \<Rightarrow> 's host_exec \<Rightarrow> string \<Rightarrow> (bool \<Rightarrow> ('s, 'b outcome) prog) \<Rightarrow> ('s, 'b outcome) prog" where
  "check_exists what hx p f = try_res what (hx_file_exists hx p) f"

definition confirm :: "string \<Rightarrow> string \<Rightarrow> 's host_exec \<Rightarrow> string \<Rightarrow> (string \<times> string) list \<Rightarrow> ('s, hook_result outcome) prog" where
  "confirm what missing hx p kvs = check_exists what hx p (\<lambda>found.
     ret (Returned (if found then verified kvs else add_error (missing @ p) new_hook_result)))"

definition warn_exists :: "string \<Rightarrow> string \<Rightarrow> string \<Rightarrow> 's host_exec \<Rightarrow> string \<Rightarrow> hook_result \<Rightarrow> ('s, hook_result outcome) prog" where
  "warn_exists unable before after hx p hr = do {
     r \<leftarrow> hx_file_exists hx p;
     ret (Returned (case r of
       Inl e \<Rightarrow> add_warning (unable @ e) hr
     | Inr found \<Rightarrow> if found then add_warning (before @ p @ after) hr else hr)) }"

definition file_mode :: "int \<Rightarrow> int" where "file_mode i = i mod 2 ^ 32"

definition directory_mode :: "planned_operation \<Rightarrow> int" where
  "directory_mode op = (case num_param op ''mode'' of None \<Rightarrow> 493 | Some m \<Rightarrow> file_mode m)"

definition directory_is_complete :: "planned_operation \<Rightarrow> 's host_exec \<Rightarrow> ('s, bool outcome) prog" where
  "directory_is_complete op hx = expect (str_param op ''path'') (\<lambda>path.
     check_exists ''check directory exists'' hx path (\<lambda>found. ret (Returned found)))"

definition directory_pre_hook :: "planned_operation \<Rightarrow> 's host_exec \<Rightarrow> ('s, hook_result outcome) prog" where
  "directory_pre_hook op hx = expect (str_param op ''path'') (\<lambda>path.
     if path = [] then ret (Returned (add_error ''path cannot be empty'' new_hook_result))
     else warn_exists ''unable to check if directory exists: '' ''directory already exists: '' [] hx path new_hook_result)"

definition directory_execute :: "planned_operation \<Rightarrow> 's host_exec \<Rightarrow> ('s, operation_result outcome) prog" where
  "directory_execute op hx = expect (str_param op ''path'') (\<lambda>path.
     try_err (''failed to create directory '' @ path) (hx_create_directory hx path (directory_mode op))
       (ret (done_result (''Created directory: '' @ path) op [])))"

definition directory_post_hook :: "planned_operation \<Rightarrow> 's host_exec \<Rightarrow> ('s, hook_result outcome) prog" where
  "directory_post_hook op hx = expect (str_param op ''path'') (\<lambda>path.
     confirm ''check directory exists'' ''directory was not created: '' hx path [(''path'', path)])"

definition directory_validate :: "planned_operation \<Rightarrow> 's host_exec \<Rightarrow> ('s, unit outcome) prog" where
  "directory_validate op hx = do {
     r \<leftarrow> directory_pre_hook op hx;
     ret (case r of
       Returned hr \<Rightarrow> if hr_valid hr then Returned () else Failed (''validation failed: '' @ show_strings (hr_errors hr))
     | Failed e \<Rightarrow> Failed e | Panicked \<Rightarrow> Panicked | Hung \<Rightarrow> Hung) }"

definition create_directory_handler :: "'s handler" where
  "create_directory_handler = \<lparr>
     hd_is_complete = directory_is_complete,
     hd_pre_hook = directory_pre_hook,
     hd_execute = directory_execute,
     hd_post_hook = directory_post_hook\<rparr>"

text \<open>
  The second version of this handler reads its parameters through JSON into a struct (keys that differ from the
  field names in case only are not modelled). No executor registers it.
\<close>

definition int_of_json :: "pval \<Rightarrow> int option" where
  "int_of_json v = (case v of PV GNil \<Rightarrow> Some 0 | PV (GInt i) \<Rightarrow> Some i
     | PV (GFloat r) \<Rightarrow> if of_int \<lfloor>r\<rfloor> = r \<and> in_int64 \<lfloor>r\<rfloor> then Some \<lfloor>r\<rfloor> else None | _ \<Rightarrow> None)"

definition string_of_json :: "pval \<Rightarrow> string option" where
  "string_of_json v = (case v of PV GNil \<Rightarrow> Some [] | PV (GStr s) \<Rightarrow> Some s | _ \<Rightarrow> None)"

definition unmarshal_directory_params :: "planned_operation \<Rightarrow> (string \<times> int) res" where
  "unmarshal_directory_params op =
     (case (case param op ''path'' of None \<Rightarrow> Some [] | Some v \<Rightarrow> string_of_json v) of
        None \<Rightarrow> Err (wrapf ''unmarshal params'' json_error)
      | Some path \<Rightarrow> (case (case param op ''mode'' of None \<Rightarrow> Some 0 | Some v \<Rightarrow> int_of_json v) of
          None \<Rightarrow> Err (wrapf ''unmarshal params'' json_error)
        | Some mode \<Rightarrow> if path = [] then Err ''path is required'' else Ok (path, mode)))"

definition directory2_pre_hook :: "planned_operation \<Rightarrow> 's host_exec \<Rightarrow> ('s, hook_result outcome) prog" where
  "directory2_pre_hook op hx = try_res ''unmarshal params'' (ret (unmarshal_directory_params op)) (\<lambda>(path, mode).
     if path = [] then ret (Returned (add_error ''path cannot be empty'' new_hook_result))
     else if mode < 0 \<or> mode > 511
     then ret (Returned (add_error (''invalid mode: '' @ (if mode < 0 then ''-'' else []) @ show_octal (nat \<bar>mode\<bar>) @ '' (must be 0-0777)'') new_hook_result))
     else do {
       found \<leftarrow> exists_quiet hx path;
       ret (Returned (if found then add_warning (''directory already exists: '' @ path) new_hook_result else new_hook_result)) })"

definition directory2_execute :: "planned_operation \<Rightarrow> 's host_exec \<Rightarrow> ('s, operation_result outcome) prog" where
  "directory2_execute op hx = try_res ''unmarshal params'' (ret (unmarshal_directory_params op)) (\<lambda>(path, mode).
     try_err ''create directory'' (hx_create_directory hx path (file_mode mode))
       (ret (Returned \<lparr>or_success = True, or_output = ''Created directory: '' @ path,
          or_changes = [\<lparr>ch_type = ''directory'', ch_id = path, ch_action = ''create'', ch_before = GNil,
            ch_after = GMap [(''path'', GStr path), (''mode'', GInt mode)]\<rparr>], or_metadata = []\<rparr>)))"

definition directory2_is_complete :: "planned_operation \<Rightarrow> 's host_exec \<Rightarrow> ('s, bool outcome) prog" where
  "directory2_is_complete op hx = try_res ''unmarshal params'' (ret (unmarshal_directory_params op)) (\<lambda>(path, mode).
       check_exists ''check directory exists'' hx path (\<lambda>found. ret (Returned found)))"

definition directory2_post_hook :: "planned_operation \<Rightarrow> 's host_exec \<Rightarrow> ('s, hook_result outcome) prog" where
  "directory2_post_hook op hx = try_res ''unmarshal params'' (ret (unmarshal_directory_params op)) (\<lambda>(path, mode).
       confirm ''check directory exists'' ''directory was not created: '' hx path [(''path'', path)])"

definition create_directory_handler_v2 :: "'s handler" where
  "create_directory_handler_v2 = \<lparr>
     hd_is_complete = directory2_is_complete,
     hd_pre_hook = directory2_pre_hook,
     hd_execute = directory2_execute,
     hd_post_hook = directory2_post_hook\<rparr>"

section \<open>Links\<close>

definition link_node :: "fnode \<Rightarrow> bool" where
  "link_node n = (case n of FLink _ \<Rightarrow> True | _ \<Rightarrow> False)"

definition symlink_is_complete :: "planned_operation \<Rightarrow> ('s, bool outcome) prog" where
  "symlink_is_complete op = expect (str_param op ''link_path'') (\<lambda>link. expect (str_param op ''target_path'') (\<lambda>target. do {
     l \<leftarrow> on_os (os_lstat link);
     case l of
       Inl _ \<Rightarrow> ret (Returned False)
     | Inr n \<Rightarrow> if \<not> link_node n then ret (Returned False) else do {
         r \<leftarrow> on_os (os_readlink link);
         ret (Returned (r = Inr target)) } }))"

definition symlink_existing :: "string \<Rightarrow> string \<Rightarrow> ('s, hook_result outcome) prog" where
  "symlink_existing link target = do {
     l \<leftarrow> on_os (os_lstat link);
     case l of
       Inl _ \<Rightarrow> ret (Returned new_hook_result)
     | Inr n \<Rightarrow>
         if \<not> link_node n
         then ret (Returned (add_error (''file exists at symlink path but is not a symlink: '' @ link) new_hook_result))
         else do {
           r \<leftarrow> on_os (os_readlink link);
           ret (Returned (add_warning (case r of
               Inl e \<Rightarrow> ''symlink exists but unable to read target: '' @ os_msg e
             | Inr cur \<Rightarrow> if cur = target then ''symlink already exists with correct target: '' @ link @ '' -> '' @ target
                 else ''symlink exists but points to different target: '' @ link @ '' -> '' @ cur @ '' (will update to '' @ target @ '')'')
             new_hook_result)) } }"

definition symlink_parent :: "string \<Rightarrow> string \<Rightarrow> ('s, hook_result outcome) prog" where
  "symlink_parent link target = do {
     d \<leftarrow> on_os (os_stat (path_dir link));
     case d of
       Inl _ \<Rightarrow> ret (Returned (add_error (''parent directory of symlink does not exist: '' @ path_dir link) new_hook_result))
     | Inr _ \<Rightarrow> symlink_existing link target }"

definition symlink_pre_hook :: "planned_operation \<Rightarrow> ('s, hook_result outcome) prog" where
  "symlink_pre_hook op = expect (str_param op ''target_path'') (\<lambda>target. expect (str_param op ''link_path'') (\<lambda>link.
     if is_abs target then do {
       s \<leftarrow> on_os (os_stat target);
       case s of
         Inl _ \<Rightarrow> ret (Returned (add_error (''symlink target does not exist: '' @ target) new_hook_result))
       | Inr _ \<Rightarrow> symlink_parent link target }
     else symlink_parent link target))"

definition symlink_execute :: "planned_operation \<Rightarrow> ('s, operation_result outcome) prog" where
  "symlink_execute op = expect (str_param op ''link_path'') (\<lambda>link. expect (str_param op ''target_path'') (\<lambda>target. do {
     _ \<leftarrow> on_os (os_remove link);
     e \<leftarrow> on_os (os_symlink target link);
     ret (case e of
       Some m \<Rightarrow> Failed (wrapf (''failed to create symlink '' @ link @ '' -> '' @ target) (os_msg m))
     | None \<Rightarrow> done_result (''Created symlink: '' @ link @ '' -> '' @ target) op []) }))"

definition symlink_post_hook :: "planned_operation \<Rightarrow> ('s, hook_result outcome) prog" where
  "symlink_post_hook op = expect (str_param op ''link_path'') (\<lambda>link. expect (str_param op ''target_path'') (\<lambda>target. do {
     l \<leftarrow> on_os (os_lstat link);
     case l of
       Inl _ \<Rightarrow> ret (Returned (add_error (''symlink was not created: '' @ link) new_hook_result))
     | Inr n \<Rightarrow>
         if \<not> link_node n then ret (Returned (add_error (''file exists but is not a symlink: '' @ link) new_hook_result))
         else do {
           r \<leftarrow> on_os (os_readlink link);
           ret (Returned (case r of
             Inl _ \<Rightarrow> add_error (''failed to read symlink target: '' @ link) new_hook_result
           | Inr cur \<Rightarrow> if cur = target then verified [(''link_path'', link), (''target_path'', target)]
               else add_error (''symlink points to wrong target: '' @ link @ '' -> '' @ cur @ '' (expected: '' @ target @ '')'') new_hook_result)) } }))"

definition create_symlink_handler :: "'s handler" where
  "create_symlink_handler = \<lparr>
     hd_is_complete = (\<lambda>op hx. symlink_is_complete op),
     hd_pre_hook = (\<lambda>op hx. symlink_pre_hook op),
     hd_execute = (\<lambda>op hx. symlink_execute op),
     hd_post_hook = (\<lambda>op hx. symlink_post_hook op)\<rparr>"

section \<open>Uploads\<close>

definition upload_pre_hook :: "planned_operation \<Rightarrow> 's host_exec \<Rightarrow> ('s, hook_result outcome) prog" where
  "upload_pre_hook op hx = expect (str_param op ''local_path'') (\<lambda>from_path. expect (str_param op ''remote_path'') (\<lambda>to_path. do {
     s \<leftarrow> on_os (os_stat from_path);
     case s of
       Inl _ \<Rightarrow> ret (Returned (add_error (''local file does not exist: '' @ from_path) new_hook_result))
     | Inr _ \<Rightarrow> warn_exists ''unable to check if remote file exists: '' ''remote file already exists: '' '' (will overwrite)''
         hx to_path new_hook_result }))"

definition upload_execute :: "planned_operation \<Rightarrow> 's host_exec \<Rightarrow> ('s, operation_result outcome) prog" where
  "upload_execute op hx = expect (str_param op ''local_path'') (\<lambda>from_path. expect (str_param op ''remote_path'') (\<lambda>to_path.
     try_err (''failed to upload file '' @ from_path @ '' to '' @ to_path) (hx_upload_file hx from_path to_path)
       (ret (done_result (''Uploaded file: '' @ from_path @ '' -> '' @ to_path) op []))))"

definition upload_is_complete :: "planned_operation \<Rightarrow> 's host_exec \<Rightarrow> ('s, bool outcome) prog" where
  "upload_is_complete op hx = expect (str_param op ''remote_path'') (\<lambda>p.
       check_exists ''check file exists'' hx p (\<lambda>found. ret (Returned found)))"

definition upload_post_hook :: "planned_operation \<Rightarrow> 's host_exec \<Rightarrow> ('s, hook_result outcome) prog" where
  "upload_post_hook op hx = expect (str_param op ''remote_path'') (\<lambda>p.
       confirm ''check file exists'' ''file was not uploaded: '' hx p [(''remote_path'', p)])"

definition upload_file_handler :: "'s handler" where
  "upload_file_handler = \<lparr>
     hd_is_complete = upload_is_complete,
     hd_pre_hook = upload_pre_hook,
     hd_execute = upload_execute,
     hd_post_hook = upload_post_hook\<rparr>"

section \<open>Removing directories\<close>

definition recursive_warning :: "bool \<Rightarrow> string \<Rightarrow> hook_result \<Rightarrow> hook_result" where
  "recursive_warning b path hr =
     (if b then add_warning (''recursive removal of '' @ path @ '' (all contents will be deleted)'') hr else hr)"

text \<open>The parameter \<^verbatim>\<open>recursive\<close>, when there, has to be a \<^verbatim>\<open>bool\<close>.\<close>

definition remove_pre_hook :: "planned_operation \<Rightarrow> 's host_exec \<Rightarrow> ('s, hook_result outcome) prog" where
  "remove_pre_hook op hx = expect (str_param op ''path'') (\<lambda>path.
     if path = [] then ret (Returned (add_error ''path cannot be empty'' new_hook_result))
     else check_exists ''check directory exists'' hx path (\<lambda>found.
       let hr = (if found then new_hook_result else add_warning (''directory already removed: '' @ path) new_hook_result) in
       (case param op ''recursive'' of
         None \<Rightarrow> ret (Returned hr)
       | Some (PV (GBool b)) \<Rightarrow> ret (Returned (recursive_warning b path hr))
       | Some _ \<Rightarrow> ret Panicked)))"

definition remove_execute :: "planned_operation \<Rightarrow> 's host_exec \<Rightarrow> ('s, operation_result outcome) prog" where
  "remove_execute op hx = expect (str_param op ''path'') (\<lambda>path.
     try_err (''failed to remove directory '' @ path) (hx_remove_directory hx path)
       (ret (done_result (''Removed directory: '' @ path) op [])))"

definition remove_is_complete :: "planned_operation \<Rightarrow> 's host_exec \<Rightarrow> ('s, bool outcome) prog" where
  "remove_is_complete op hx = expect (str_param op ''path'') (\<lambda>p.
       check_exists ''check directory exists'' hx p (\<lambda>found. ret (Returned (\<not> found))))"

definition remove_post_hook :: "planned_operation \<Rightarrow> 's host_exec \<Rightarrow> ('s, hook_result outcome) prog" where
  "remove_post_hook op hx = expect (str_param op ''path'') (\<lambda>p.
       check_exists ''check directory exists'' hx p (\<lambda>found.
         ret (Returned (if found then add_error (''directory was not removed: '' @ p) new_hook_result else verified [(''path'', p)]))))"

definition remove_directory_handler :: "'s handler" where
  "remove_directory_handler = \<lparr>
     hd_is_complete = remove_is_complete,
     hd_pre_hook = remove_pre_hook,
     hd_execute = remove_execute,
     hd_post_hook = remove_post_hook\<rparr>"

end
