(* ===== verification/Handlers_Config.thy ===== *)
theory Handlers_Config imports Handlers_Files Templates Meta Supervisor_Mgr begin

text \<open>
  The handlers of \<^verbatim>\<open>pkg/operation/handlers.go\<close> that write configuration: of \<^verbatim>\<open>mongod\<close> and \<^verbatim>\<open>mongos\<close> processes, of the
  supervisor, and the metadata of the cluster. The last two write with the operating system's own calls, whatever
  executor the operation has.
\<close>

section \<open>Configuration of the processes\<close>

text \<open>A parameter as a value; a pointer to a topology does not occur where this is used.\<close>

definition param_value :: "planned_operation \<Rightarrow> string \<Rightarrow> goval" where
  "param_value op k = (case param op k of Some (PV g) \<Rightarrow> g | _ \<Rightarrow> GNil)"

definition role_params :: "planned_operation \<Rightarrow> string \<Rightarrow> hook_result \<Rightarrow> hook_result" where
  "role_params op role hr =
     (let need = (\<lambda>k who hr. if has_param op k then hr else add_error (''missing required parameter for '' @ who @ '': '' @ k) hr) in
      if role \<in> {''configsvr'', ''shardsvr''} then need ''log_dir'' role (need ''data_dir'' role hr)
      else if role = ''mongos'' then need ''config_db'' ''mongos'' (need ''log_dir'' ''mongos'' hr)
      else if role = ''standalone'' then hr
      else add_error (''invalid role: '' @ role @ '' (must be configsvr, shardsvr, mongos, or standalone)'') hr)"

definition config_pre_hook :: "planned_operation \<Rightarrow> 's host_exec \<Rightarrow> ('s, hook_result outcome) prog" where
  "config_pre_hook op hx =
     (let hr = require_params [''config_path'', ''role'', ''version'', ''port''] op in
      if \<not> hr_valid hr then ret (Returned hr)
      else warn_exists ''unable to check if config exists: '' ''config file already exists (will be overwritten): '' [] hx
        (str_or_empty (str_param op ''config_path'')) (role_params op (str_or_empty (str_param op ''role'')) hr))"

definition mongod_data :: "string \<Rightarrow> int \<Rightarrow> string \<Rightarrow> string \<Rightarrow> string \<Rightarrow> string \<Rightarrow> mongod_config" where
  "mongod_data role port bind_ip data_dir log_dir replica_set = \<lparr>
     mdc_net = \<lparr>nc_port = port, nc_bind_ip = bind_ip, nc_max_incoming = 0, nc_tls = None\<rparr>,
     mdc_storage = \<lparr>stc_db_path = data_dir, stc_journal_enabled = True, stc_engine = ''wiredTiger'', stc_directory_per_db = False,
       stc_wired_tiger = Some \<lparr>wt_cache_size_gb = 1, wt_block_compressor = [], wt_prefix_compression = False\<rparr>\<rparr>,
     mdc_log = \<lparr>slc_destination = ''file'', slc_path = path_join [log_dir, ''process.log''], slc_append = True, slc_time_format = []\<rparr>,
     mdc_process = \<lparr>pmc_fork = False, pmc_pid_file = path_join [data_dir, ''process.pid'']\<rparr>,
     mdc_replication = (if replica_set = [] then None
       else Some \<lparr>rpc_name = replica_set, rpc_oplog_mb = 0, rpc_majority = True\<rparr>),
     mdc_sharding = (if role \<in> {''configsvr'', ''shardsvr''} then Some role else None),
     mdc_security = None, mdc_profiling = None, mdc_parameters = []\<rparr>"

definition mongod_config_text :: "go_version \<Rightarrow> (rat \<Rightarrow> string) \<Rightarrow> planned_operation \<Rightarrow> string \<Rightarrow> string \<Rightarrow> int \<Rightarrow> string \<Rightarrow> string res" where
  "mongod_config_text gv ff op version role port bind_ip =
     (case str_param op ''data_dir'' of
        None \<Rightarrow> Err ''data_dir parameter not found or invalid type''
      | Some data_dir \<Rightarrow> (case str_param op ''log_dir'' of
          None \<Rightarrow> Err ''log_dir parameter not found or invalid type''
        | Some log_dir \<Rightarrow>
            (case get_template gv (if role = ''configsvr'' then ''config'' else ''mongod'') version of
              Inl e \<Rightarrow> Err (wrapf ''failed to get template'' e)
            | Inr t \<Rightarrow> Ok (render_mongod ff t
                (mongod_data role port bind_ip data_dir log_dir (str_or_empty (str_param op ''replica_set'')))))))"

definition mongos_data :: "int \<Rightarrow> string \<Rightarrow> string \<Rightarrow> string \<Rightarrow> mongos_config" where
  "mongos_data port bind_ip log_dir config_db = \<lparr>
     msc_net = \<lparr>nc_port = port, nc_bind_ip = bind_ip, nc_max_incoming = 0, nc_tls = None\<rparr>,
     msc_log = \<lparr>slc_destination = ''file'', slc_path = path_join [log_dir, ''process.log''], slc_append = True, slc_time_format = []\<rparr>,
     msc_process = None, msc_config_db = config_db, msc_security = None\<rparr>"

definition mongos_config_text :: "go_version \<Rightarrow> planned_operation \<Rightarrow> string \<Rightarrow> int \<Rightarrow> string \<Rightarrow> string res" where
  "mongos_config_text gv op version port bind_ip =
     (case str_param op ''log_dir'' of
        None \<Rightarrow> Err ''log_dir parameter not found or invalid type''
      | Some log_dir \<Rightarrow> (case str_param op ''config_db'' of
          None \<Rightarrow> Err ''config_db parameter not found or invalid type''
        | Some config_db \<Rightarrow> (case get_template gv ''mongos'' version of
              Inl e \<Rightarrow> Err (wrapf ''failed to get template'' e)
            | Inr t \<Rightarrow> Ok (render_mongos t (mongos_data port bind_ip log_dir config_db)))))"

definition config_text :: "go_version \<Rightarrow> (rat \<Rightarrow> string) \<Rightarrow> planned_operation \<Rightarrow> string \<Rightarrow> string \<Rightarrow> int \<Rightarrow> string res" where
  "config_text gv ff op version role port =
     (let bind_ip = (case str_param op ''bind_ip'' of None \<Rightarrow> ''127.0.0.1,::1'' | Some b \<Rightarrow> b) in
      if role \<in> {''configsvr'', ''shardsvr'', ''standalone''}
      then wrap_err ''failed to generate config'' (mongod_config_text gv ff op version role port bind_ip)
      else if role = ''mongos'' then wrap_err ''failed to generate config'' (mongos_config_text gv op version port bind_ip)
      else Err (''unknown role: '' @ role))"

definition config_execute :: "go_version \<Rightarrow> (rat \<Rightarrow> string) \<Rightarrow> planned_operation \<Rightarrow> 's host_exec \<Rightarrow> ('s, operation_result outcome) prog" where
  "config_execute gv ff op hx =
     want ''config_path parameter not found or invalid type'' (str_param op ''config_path'') (\<lambda>path.
     want ''role parameter not found or invalid type'' (str_param op ''role'') (\<lambda>role.
     want ''version parameter not found or invalid type'' (str_param op ''version'') (\<lambda>version.
     want ''port parameter not found or invalid type'' (num_param op ''port'') (\<lambda>port.
     (case config_text gv ff op version role port of
        Inl e \<Rightarrow> ret (Failed e)
      | Inr text \<Rightarrow> try_err ''failed to upload config'' (hx_upload_content hx (Text text) path)
          (ret (done_result (''Generated and uploaded config: '' @ path) op
            [(''config_path'', GStr path), (''role'', GStr role), (''replica_set'', param_value op ''replica_set''),
             (''port'', GInt port)])))))))"

definition config_post_hook :: "planned_operation \<Rightarrow> 's host_exec \<Rightarrow> ('s, hook_result outcome) prog" where
  "config_post_hook op hx = (case str_param op ''config_path'' of
     None \<Rightarrow> ret (Returned (add_error ''config_path parameter not found'' new_hook_result))
   | Some p \<Rightarrow> confirm ''check config exists'' ''config file was not created: '' hx p [(''config_path'', p)])"

definition config_is_complete :: "planned_operation \<Rightarrow> 's host_exec \<Rightarrow> ('s, bool outcome) prog" where
  "config_is_complete op hx = want ''config_path parameter not found'' (str_param op ''config_path'') (\<lambda>p.
       check_exists ''check config exists'' hx p (\<lambda>found. ret (Returned found)))"

definition generate_config_handler :: "go_version \<Rightarrow> (rat \<Rightarrow> string) \<Rightarrow> 's handler" where
  "generate_config_handler gv ff = \<lparr>
     hd_is_complete = config_is_complete,
     hd_pre_hook = config_pre_hook,
     hd_execute = config_execute gv ff,
     hd_post_hook = config_post_hook\<rparr>"

section \<open>Configuration of the supervisor\<close>

definition ini_path :: "string \<Rightarrow> string" where "ini_path dir = path_join [dir, ''supervisor.ini'']"

definition topology_kind_ok :: "pval option \<Rightarrow> bool" where
  "topology_kind_ok v = (case v of Some (PTopology _) \<Rightarrow> True | Some (PV (GMap _)) \<Rightarrow> True | _ \<Rightarrow> False)"

definition supervisor_pre_hook :: "planned_operation \<Rightarrow> 's host_exec \<Rightarrow> ('s, hook_result outcome) prog" where
  "supervisor_pre_hook op hx =
     (let hr = require_params [''cluster_dir'', ''cluster_name'', ''version'', ''bin_path'', ''topology''] op in
      if \<not> hr_valid hr then ret (Returned hr)
      else expect (str_param op ''cluster_dir'') (\<lambda>dir.
        check_exists ''failed to check if cluster directory exists'' hx dir (\<lambda>found.
          if \<not> found then ret (Returned (add_error (''cluster directory does not exist: '' @ dir) hr))
          else do {
            r \<leftarrow> hx_file_exists hx (ini_path dir);
            let hr' = (if topology_kind_ok (param op ''topology'') then hr
              else add_error ''topology parameter not found or invalid type'' hr);
            ret (Returned (case r of
              Inl e \<Rightarrow> add_warning (''unable to check if supervisor config exists: '' @ e) hr'
            | Inr there \<Rightarrow> if there then add_warning ''supervisor config already exists (will be regenerated)'' hr' else hr')) })))"

text \<open>A topology that came from a plan file is an untyped map, and goes through JSON once more.\<close>

definition topology_param :: "planned_operation \<Rightarrow> topology res" where
  "topology_param op = (case param op ''topology'' of
     Some (PTopology t) \<Rightarrow> Ok t
   | Some (PV (GMap m)) \<Rightarrow> (case dec_topology (enc_val (GMap m)) of
       None \<Rightarrow> Err (wrapf ''failed to deserialize topology'' json_error)
     | Some t \<Rightarrow> Ok t)
   | _ \<Rightarrow> Err ''topology parameter not found or invalid type'')"

definition supervisor_execute :: "process_env \<Rightarrow> planned_operation \<Rightarrow> ('s, operation_result outcome) prog" where
  "supervisor_execute env op =
     expect (str_param op ''cluster_dir'') (\<lambda>dir. expect (str_param op ''cluster_name'') (\<lambda>name.
     expect (str_param op ''version'') (\<lambda>version. expect (str_param op ''bin_path'') (\<lambda>bin.
     (case topology_param op of
        Inl e \<Rightarrow> ret (Failed e)
      | Inr t \<Rightarrow> try_err ''failed to generate supervisor configs'' (on_os (generate_all env (new_config_generator dir name t version bin)))
          (ret (done_result (''Generated supervisor configuration at '' @ dir @ ''/supervisor.ini'') op
            [(''config_path'', GStr (ini_path dir)), (''version'', GStr version)])))))))"

definition supervisor_post_hook :: "planned_operation \<Rightarrow> 's host_exec \<Rightarrow> ('s, hook_result outcome) prog" where
  "supervisor_post_hook op hx = expect (str_param op ''cluster_dir'') (\<lambda>dir.
     confirm ''failed to verify supervisor config'' ''supervisor config was not created: '' hx (ini_path dir) [(''config_path'', ini_path dir)])"

definition supervisor_is_complete :: "planned_operation \<Rightarrow> 's host_exec \<Rightarrow> ('s, bool outcome) prog" where
  "supervisor_is_complete op hx = want ''cluster_dir parameter not found'' (str_param op ''cluster_dir'') (\<lambda>dir.
       check_exists ''check supervisor config exists'' hx (ini_path dir) (\<lambda>found. ret (Returned found)))"

definition generate_supervisor_handler :: "process_env \<Rightarrow> 's handler" where
  "generate_supervisor_handler env = \<lparr>
     hd_is_complete = supervisor_is_complete,
     hd_pre_hook = supervisor_pre_hook,
     hd_execute = (\<lambda>op hx. supervisor_execute env op),
     hd_post_hook = supervisor_post_hook\<rparr>"

section \<open>Metadata of the cluster\<close>

text \<open>Only the pointer of a fresh plan counts here; the map of a plan file does not.\<close>

definition metadata_topology :: "planned_operation \<Rightarrow> topology option" where
  "metadata_topology op = (case param op ''topology'' of Some (PTopology t) \<Rightarrow> Some t | _ \<Rightarrow> None)"

definition empty_node :: node_metadata where
  "empty_node = \<lparr>nm_type = [], nm_host = [], nm_port = 0, nm_replica_set = [], nm_data_dir = [], nm_log_dir = [], nm_config_dir = [],
     nm_config_file = [], nm_pid = 0, nm_program = [], nm_supervisor_config = []\<rparr>"

definition nodes_of :: "topology \<Rightarrow> node_metadata list" where
  "nodes_of t =
     map (\<lambda>n. empty_node\<lparr>nm_type := ''config'', nm_host := cs_host n, nm_port := cs_port n, nm_replica_set := cs_replica_set n,
       nm_data_dir := cs_data_dir n, nm_log_dir := cs_log_dir n, nm_config_dir := cs_config_dir n,
       nm_program := ''config-'' @ itoa (cs_port n)\<rparr>) (t_config_svr t) @
     map (\<lambda>n. empty_node\<lparr>nm_type := ''mongod'', nm_host := md_host n, nm_port := md_port n, nm_replica_set := md_replica_set n,
       nm_data_dir := md_data_dir n, nm_log_dir := md_log_dir n, nm_config_dir := md_config_dir n,
       nm_program := ''mongod-'' @ itoa (md_port n)\<rparr>) (t_mongod t) @
     map (\<lambda>n. empty_node\<lparr>nm_type := ''mongos'', nm_host := ms_host n, nm_port := ms_port n,
       nm_log_dir := ms_log_dir n, nm_config_dir := ms_config_dir n,
       nm_program := ''mongos-'' @ itoa (ms_port n)\<rparr>) (t_mongos t)"

text \<open>The shell by the text of the version, and the first node that can be connected to.\<close>

definition metadata_shell :: "string \<Rightarrow> string" where
  "metadata_shell version = (if version < ''4.0'' then ''mongo'' else ''mongosh'')"

definition connection_command :: "string \<Rightarrow> string \<Rightarrow> node_metadata list \<Rightarrow> string" where
  "connection_command version bin_path nodes =
     (case find (\<lambda>n. nm_type n = ''mongos'' \<or> nm_type n = ''mongod'') nodes of
        None \<Rightarrow> []
      | Some n \<Rightarrow> path_join [bin_path, metadata_shell version] @ '' mongodb://'' @ nm_host n @ '':'' @ itoa (nm_port n))"

definition operation_metadata :: "planned_operation \<Rightarrow> int \<Rightarrow> cluster_metadata" where
  "operation_metadata op now =
     (let version = str_or_empty (str_param op ''version''); bin_path = str_or_empty (str_param op ''bin_path'');
          nodes = (case metadata_topology op of None \<Rightarrow> [] | Some t \<Rightarrow> nodes_of t) in
      \<lparr>cm_name = tg_name (po_target op), cm_version = version, cm_variant = str_or_empty (str_param op ''variant''),
       cm_bin_path = bin_path, cm_created_at = now, cm_status = ''running'', cm_topology = metadata_topology op,
       cm_deploy_mode = str_or_empty (str_param op ''deploy_mode''), cm_nodes = nodes,
       cm_connection = connection_command version bin_path nodes,
       cm_supervisor_config = [], cm_supervisor_pid_file = [], cm_supervisor_running = False, cm_monitoring = None\<rparr>)"

definition metadata_execute :: "yaml_codec \<Rightarrow> process_env \<Rightarrow> planned_operation \<Rightarrow> ('s, operation_result outcome) prog" where
  "metadata_execute ym env op = do {
     now \<leftarrow> on_os time_now;
     try_res ''failed to create meta manager'' (ret (new_meta_manager (env_home_dir env))) (\<lambda>base.
       try_err ''failed to save metadata'' (on_os (save_metadata ym base (operation_metadata op now)))
         (ret (done_result (''Saved cluster metadata for ''@ [CHR 0x27] @ tg_name (po_target op) @ [CHR 0x27]) op
           [(''cluster_name'', GStr (tg_name (po_target op))), (''meta_file'', GStr (get_meta_file base (tg_name (po_target op))))]))) }"

text \<open>The storage directory that the handler is given is never used.\<close>

definition save_metadata_handler :: "yaml_codec \<Rightarrow> process_env \<Rightarrow> string \<Rightarrow> 's handler" where
  "save_metadata_handler ym env storage = \<lparr>
     hd_is_complete = (\<lambda>op hx. ret (Returned False)),
     hd_pre_hook = (\<lambda>op hx. ret (Returned new_hook_result)),
     hd_execute = (\<lambda>op hx. metadata_execute ym env op),
     hd_post_hook = (\<lambda>op hx. ret (Returned (verified [])))\<rparr>"

end
