(* ===== verification/Handlers_Process.thy ===== *)
theory Handlers_Process imports Handlers_Files Supervisor_Mgr begin

text \<open>
  The handlers of \<^verbatim>\<open>pkg/operation/handlers.go\<close> that deal with processes and replica sets, and the MongoDB client of
  \<^verbatim>\<open>mongodb_client.go\<close>. The MongoDB driver is a parameter; a command or an answer (\<^verbatim>\<open>bson.M\<close>) is an untyped map.
  Sleeping shows in the readings of the clock.
\<close>

section \<open>Durations\<close>

text \<open>
  \<^verbatim>\<open>time.ParseDuration\<close>: numbers with units, added up. The units with a Greek mu are left out, and a fraction is
  taken exactly where the library may lose its last digits.
\<close>

definition duration_units :: "(string, nat) gomap" where
  "duration_units = [(''ns'', 1), (''us'', 1000), (''ms'', 1000000), (''s'', 1000000000), (''m'', 60 * 1000000000), (''h'', 3600 * 1000000000)]"

definition unit_char :: "char \<Rightarrow> bool" where
  "unit_char c = (c \<noteq> CHR ''.'' \<and> \<not> is_digit c)"

definition duration_number :: "string \<Rightarrow> string \<times> string \<times> string" where
  "duration_number s = (let d = takeWhile is_digit s; r = dropWhile is_digit s in
     (case r of c # r' \<Rightarrow> if c = CHR ''.'' then (d, takeWhile is_digit r', dropWhile is_digit r') else (d, [], r) | [] \<Rightarrow> (d, [], [])))"

lemma duration_rest_shorter: "duration_number s = (d, e, r) \<Longrightarrow> length r \<le> length s"
proof -
  assume n: "duration_number s = (d, e, r)"
  have a: "length (dropWhile is_digit s) \<le> length s" by (rule length_dropWhile_le)
  show ?thesis
  proof (cases "dropWhile is_digit s")
    case (Cons c t)
    then have "length (dropWhile is_digit t) \<le> length s"
      using a length_dropWhile_le [of is_digit t] by simp
    then show ?thesis
      using n a length_dropWhile_le [of is_digit s] by (auto simp: duration_number_def Let_def Cons split: if_splits)
  qed (use n in \<open>simp add: duration_number_def Let_def del: dropWhile_eq_Nil_conv\<close>)
qed

function parse_units :: "string \<Rightarrow> string \<Rightarrow> nat \<Rightarrow> nat res" where
  "parse_units whole s acc =
     (if s = [] then Ok acc
      else (case duration_number s of (d, e, r) \<Rightarrow>
        let u = takeWhile unit_char r; r' = dropWhile unit_char r in
        if d = [] \<and> e = [] then Err (''time: invalid duration '' @ whole)
        else if u = [] then Err (''time: missing unit in duration '' @ whole)
        else (case mget duration_units u of
          None \<Rightarrow> Err (''time: unknown unit '' @ u @ '' in duration '' @ whole)
        | Some unit \<Rightarrow>
            let v = acc + digits_val 0 d * unit + digits_val 0 e * unit div 10 ^ length e in
            if v > 2 ^ 63 then Err (''time: invalid duration '' @ whole) else parse_units whole r' v)))"
  by pat_completeness auto
termination
proof (relation "measure (\<lambda>(whole, s, acc). length s)", goal_cases)
  case (2 whole s acc d q e r u r' unit v)
  have "length u + length r' = length r" using 2(4,5) by (metis length_append takeWhile_dropWhile_id)
  moreover have "length u > 0" using 2(7) by simp
  ultimately have "length r' < length r" by linarith
  moreover have "length r \<le> length s" using 2(2,3) duration_rest_shorter [of s d e r] by simp
  ultimately show ?case by simp
qed simp

declare parse_units.simps [simp del]

definition dquoted :: "string \<Rightarrow> string" where "dquoted s = [CHR 0x22] @ s @ [CHR 0x22]"

definition parse_duration :: "string \<Rightarrow> int res" where
  "parse_duration s =
     (let neg = (s \<noteq> [] \<and> hd s = CHR ''-''); t = (if s \<noteq> [] \<and> hd s \<in> {CHR ''-'', CHR ''+''} then tl s else s) in
      if t = ''0'' then Ok 0
      else if t = [] then Err (''time: invalid duration '' @ dquoted s)
      else (case parse_units (dquoted s) t 0 of
        Inl e \<Rightarrow> Err e
      | Inr n \<Rightarrow> if neg then Ok (- int n) else if n > 2 ^ 63 - 1 then Err (''time: invalid duration '' @ dquoted s) else Ok (int n)))"

section \<open>Starting processes\<close>

definition supervisor_binary :: "sup_os \<Rightarrow> string res io" where
  "supervisor_binary so = (case env_home_dir (so_env so) of
     Inl e \<Rightarrow> ret (Err (wrapf ''failed to get home directory'' e))
   | Inr home \<Rightarrow> do {
       b \<leftarrow> get_supervisord_binary so (path_join [home, ''.mup'', ''storage'', ''bin'']);
       ret (wrap_err ''failed to get supervisord binary'' b) })"

definition start_pre_hook :: "planned_operation \<Rightarrow> ('s, hook_result outcome) prog" where
  "start_pre_hook op =
     (case find (\<lambda>k. \<not> has_param op k) [''program_name'', ''supervisor_config'', ''supervisor_port''] of
        Some k \<Rightarrow> ret (Returned (add_error (''missing required parameter: '' @ k) new_hook_result))
      | None \<Rightarrow> do {
          let config = str_or_empty (str_param op ''supervisor_config'');
          s \<leftarrow> on_os (os_stat config);
          ret (Returned (case s of
            Inl _ \<Rightarrow> add_error (''supervisor config not found: '' @ config) new_hook_result
          | Inr _ \<Rightarrow> new_hook_result)) })"

definition ctl_start_command :: "string \<Rightarrow> string \<Rightarrow> int \<Rightarrow> string \<Rightarrow> string" where
  "ctl_start_command binary config port program =
     binary @ '' ctl -c '' @ config @ '' -s http://localhost:'' @ itoa port @ '' start '' @ program"

definition start_execute :: "sup_os \<Rightarrow> planned_operation \<Rightarrow> 's host_exec \<Rightarrow> ('s, operation_result outcome) prog" where
  "start_execute so op hx =
     want ''program_name parameter not found or invalid type'' (str_param op ''program_name'') (\<lambda>program.
     want ''supervisor_config parameter not found or invalid type'' (str_param op ''supervisor_config'') (\<lambda>config.
     want ''supervisor_port parameter not found or invalid type'' (num_param op ''supervisor_port'') (\<lambda>port. do {
       b \<leftarrow> on_os (supervisor_binary so);
       case b of
         Inl e \<Rightarrow> ret (Failed e)
       | Inr binary \<Rightarrow> try_res (''failed to start process '' @ program) (hx_execute hx (ctl_start_command binary config port program))
           (\<lambda>out. ret (done_result (''Started '' @ program @ '' via supervisor (output: '' @ trim_space out @ '')'') op
             [(''program_name'', GStr program), (''supervisor_config'', GStr config), (''supervisor_port'', GInt port)])) })))"

definition start_post_hook :: "planned_operation \<Rightarrow> 's host_exec \<Rightarrow> ('s, hook_result outcome) prog" where
  "start_post_hook op hx = ret (Returned (verified [(''program_name'', str_or_empty (str_param op ''program_name''))]))"

definition start_process_handler :: "sup_os \<Rightarrow> 's handler" where
  "start_process_handler so = \<lparr>
     hd_is_complete = (\<lambda>op hx. ret (Returned False)),
     hd_pre_hook = (\<lambda>op hx. start_pre_hook op),
     hd_execute = start_execute so,
     hd_post_hook = start_post_hook\<rparr>"

definition daemon_pre_hook :: "sup_os \<Rightarrow> planned_operation \<Rightarrow> ('s, hook_result outcome) prog" where
  "daemon_pre_hook so op = (case str_param op ''cluster_dir'' of
     None \<Rightarrow> ret (Returned (add_error ''missing required parameter: cluster_dir'' new_hook_result))
   | Some dir \<Rightarrow>
       if \<not> has_param op ''cluster_name''
       then ret (Returned (add_error ''missing required parameter: cluster_name'' new_hook_result))
       else (case env_home_dir (so_env so) of
         Inl e \<Rightarrow> ret (Returned (add_error (''failed to get home directory: '' @ e) new_hook_result))
       | Inr home \<Rightarrow> do {
           b \<leftarrow> on_os (get_supervisord_binary so (path_join [home, ''.mup'', ''storage'', ''bin'']));
           case b of
             Inl e \<Rightarrow> ret (Returned (add_error (''supervisord binary not found: '' @ e) new_hook_result))
           | Inr binary \<Rightarrow> do {
               s \<leftarrow> on_os (os_stat binary);
               case s of
                 Inl e \<Rightarrow> ret (Returned (add_error (''supervisord binary not accessible: '' @ os_msg e) new_hook_result))
               | Inr _ \<Rightarrow> do {
                   let config = path_join [dir, ''supervisor.ini''];
                   c \<leftarrow> on_os (os_stat config);
                   ret (Returned (case c of
                     Inl _ \<Rightarrow> add_error (''supervisor config not found: '' @ config) new_hook_result
                   | Inr _ \<Rightarrow> set_meta ''http_port'' (GInt (supervisor_port dir)) (set_meta ''config_path'' (GStr config)
                       (set_meta ''binary_path'' (GStr binary) new_hook_result)))) } } }))"

definition daemon_execute :: "sup_os \<Rightarrow> planned_operation \<Rightarrow> 's host_exec \<Rightarrow> ('s, operation_result outcome) prog" where
  "daemon_execute so op hx =
     want ''cluster_dir parameter not found or invalid type'' (str_param op ''cluster_dir'') (\<lambda>dir.
     want ''cluster_name parameter not found or invalid type'' (str_param op ''cluster_name'') (\<lambda>name. do {
       b \<leftarrow> on_os (supervisor_binary so);
       case b of
         Inl e \<Rightarrow> ret (Failed e)
       | Inr binary \<Rightarrow>
           let config = path_join [dir, ''supervisor.ini'']; port = supervisor_port dir in
           try_res ''failed to start supervisord'' (hx_background hx (binary @ '' -c '' @ config)) (\<lambda>pid. do {
             r \<leftarrow> hx_is_process_running hx pid;
             ret (if r = Ok True
               then done_result (''Started supervisord daemon for cluster '' @ name @ '' (config: '' @ config @ '', port: '' @ itoa port @ '')'') op
                 [(''config_path'', GStr config), (''http_port'', GInt port), (''binary_path'', GStr binary)]
               else Failed (''supervisord failed to start (PID: '' @ itoa pid @ '')'')) }) }))"

definition daemon_post_hook :: "planned_operation \<Rightarrow> 's host_exec \<Rightarrow> ('s, hook_result outcome) prog" where
  "daemon_post_hook op hx = ret (Returned (case str_param op ''cluster_dir'' of
       None \<Rightarrow> add_error ''cluster_dir parameter not found'' new_hook_result
     | Some dir \<Rightarrow> set_meta ''http_port'' (GInt (supervisor_port dir)) (verified [])))"

definition start_supervisor_handler :: "sup_os \<Rightarrow> 's handler" where
  "start_supervisor_handler so = \<lparr>
     hd_is_complete = (\<lambda>op hx. ret (Returned False)),
     hd_pre_hook = (\<lambda>op hx. daemon_pre_hook so op),
     hd_execute = daemon_execute so,
     hd_post_hook = daemon_post_hook\<rparr>"

section \<open>Waiting and stopping\<close>

text \<open>
  The loop polls the port once a second until the deadline. \<open>None\<close> means that the fuel was used up first; how
  much is enough is proved below.
\<close>

fun poll_port :: "nat \<Rightarrow> 's host_exec \<Rightarrow> int \<Rightarrow> int \<Rightarrow> ('s, bool option) prog" where
  "poll_port 0 hx port deadline = ret None"
| "poll_port (Suc n) hx port deadline = do {
     now \<leftarrow> on_os time_now;
     if now < deadline then do {
       r \<leftarrow> hx_check_port_available hx port;
       if r = Ok False then ret (Some True) else poll_port n hx port deadline }
     else ret (Some False) }"

definition wait_timeout :: "planned_operation \<Rightarrow> int option" where
  "wait_timeout op = (if has_param op ''timeout'' then float_param op ''timeout'' else Some 60)"

definition wait_execute :: "nat \<Rightarrow> planned_operation \<Rightarrow> 's host_exec \<Rightarrow> ('s, operation_result outcome) prog" where
  "wait_execute fuel op hx = expect (float_param op ''port'') (\<lambda>port. expect (wait_timeout op) (\<lambda>timeout.
     if hx_simulated hx then do {
       _ \<leftarrow> hx_execute hx (''Wait for process on port '' @ itoa port @ '' (timeout: '' @ itoa timeout @ ''s)'');
       ret (done_result (''Process is ready on port '' @ itoa port @ '' (simulated)'') op
         [(''port'', GInt port), (''timeout'', GInt timeout), (''simulated'', GBool True)]) }
     else do {
       now \<leftarrow> on_os time_now;
       r \<leftarrow> poll_port fuel hx port (now + timeout * second);
       ret (case r of
         None \<Rightarrow> Hung
       | Some up \<Rightarrow> if up then done_result (''Process is ready on port '' @ itoa port) op []
           else Failed (''timeout waiting for process on port '' @ itoa port)) }))"

definition wait_pre_hook :: "planned_operation \<Rightarrow> 's host_exec \<Rightarrow> ('s, hook_result outcome) prog" where
  "wait_pre_hook op hx = ret (Returned (require_params [''port''] op))"

definition wait_for_process_handler :: "nat \<Rightarrow> 's handler" where
  "wait_for_process_handler fuel = \<lparr>
     hd_is_complete = (\<lambda>op hx. ret (Returned False)),
     hd_pre_hook = wait_pre_hook,
     hd_execute = wait_execute fuel,
     hd_post_hook = (\<lambda>op hx. ret (Returned (verified [])))\<rparr>"

definition ready_execute :: "planned_operation \<Rightarrow> ('s, operation_result outcome) prog" where
  "ready_execute op =
     (let t = (case str_param op ''timeout'' of None \<Rightarrow> ''2m'' | Some s \<Rightarrow> s) in
      ret (case parse_duration t of
        Inl e \<Rightarrow> Failed (wrapf (''invalid timeout duration '' @ t) e)
      | Inr _ \<Rightarrow> done_result (''Waited for replica set '' @ quoted (str_or_empty (str_param op ''replica_set''))
          @ '' to stabilize'') op []))"

definition wait_for_ready_handler :: "'s handler" where
  "wait_for_ready_handler = \<lparr>
     hd_is_complete = (\<lambda>op hx. ret (Returned False)),
     hd_pre_hook = (\<lambda>op hx. ret (Returned new_hook_result)),
     hd_execute = (\<lambda>op hx. ready_execute op),
     hd_post_hook = (\<lambda>op hx. ret (Returned (verified [])))\<rparr>"

definition stop_is_complete :: "planned_operation \<Rightarrow> 's host_exec \<Rightarrow> ('s, bool outcome) prog" where
  "stop_is_complete op hx = expect (float_param op ''pid'') (\<lambda>pid.
     try_res (''failed to check if process '' @ itoa pid @ '' is running'') (hx_is_process_running hx pid)
       (\<lambda>running. ret (Returned (\<not> running))))"

definition stop_pre_hook :: "planned_operation \<Rightarrow> 's host_exec \<Rightarrow> ('s, hook_result outcome) prog" where
  "stop_pre_hook op hx =
     (if \<not> has_param op ''pid'' then ret (Returned (add_error ''missing required parameter: pid'' new_hook_result))
      else expect (float_param op ''pid'') (\<lambda>pid. do {
        r \<leftarrow> hx_is_process_running hx pid;
        ret (Returned (case r of
          Inl e \<Rightarrow> add_warning (''unable to check if process '' @ itoa pid @ '' is running: '' @ e) new_hook_result
        | Inr running \<Rightarrow> if running then new_hook_result
            else add_warning (''process '' @ itoa pid @ '' is not running'') new_hook_result)) }))"

definition stop_execute :: "planned_operation \<Rightarrow> 's host_exec \<Rightarrow> ('s, operation_result outcome) prog" where
  "stop_execute op hx = expect (float_param op ''pid'') (\<lambda>pid.
     try_err (''failed to stop process '' @ itoa pid) (hx_stop_process hx pid)
       (ret (done_result (''Stopped process: '' @ itoa pid) op [])))"

definition stop_post_hook :: "planned_operation \<Rightarrow> 's host_exec \<Rightarrow> ('s, hook_result outcome) prog" where
  "stop_post_hook op hx = expect (float_param op ''pid'') (\<lambda>pid. do {
     r \<leftarrow> hx_is_process_running hx pid;
     ret (Returned (set_meta ''verified'' (GBool True) (case r of
       Inl e \<Rightarrow> add_warning (''unable to verify process '' @ itoa pid @ '' stopped: '' @ e) new_hook_result
     | Inr running \<Rightarrow> if running then add_warning (''process '' @ itoa pid @ '' still running after stop attempt'') new_hook_result
         else new_hook_result))) })"

definition stop_process_handler :: "'s handler" where
  "stop_process_handler = \<lparr>
     hd_is_complete = stop_is_complete,
     hd_pre_hook = stop_pre_hook,
     hd_execute = stop_execute,
     hd_post_hook = stop_post_hook\<rparr>"

section \<open>Health\<close>

definition ports_to_check :: "planned_operation \<Rightarrow> int list" where
  "ports_to_check op = (case param op ''ports'' of
     Some (PV (GList ps)) \<Rightarrow> List.map_filter (\<lambda>p. case p of GFloat r \<Rightarrow> Some (go_int r) | _ \<Rightarrow> None) ps
   | _ \<Rightarrow> [])"

text \<open>The ports that are in use, and those that are not or could not be checked.\<close>

fun sort_ports :: "'s host_exec \<Rightarrow> int list \<Rightarrow> int list \<Rightarrow> int list \<Rightarrow> ('s, int list \<times> int list) prog" where
  "sort_ports hx [] healthy unhealthy = ret (healthy, unhealthy)"
| "sort_ports hx (p # ps) healthy unhealthy = do {
     r \<leftarrow> hx_check_port_available hx p;
     if r = Ok False then sort_ports hx ps (healthy @ [p]) unhealthy
     else sort_ports hx ps healthy (unhealthy @ [p]) }"

definition show_ints :: "int list \<Rightarrow> string" where
  "show_ints is = show_strings (map itoa is)"

definition health_execute :: "planned_operation \<Rightarrow> 's host_exec \<Rightarrow> ('s, operation_result outcome) prog" where
  "health_execute op hx = do {
     (healthy, unhealthy) \<leftarrow> sort_ports hx (ports_to_check op) [] [];
     ret (if unhealthy \<noteq> []
       then Failed (''health check failed: '' @ itoa (int (length unhealthy)) @ '' ports not listening: '' @ show_ints unhealthy)
       else done_result (''Health verification passed: all '' @ itoa (int (length healthy)) @ '' processes responding'') op
         [(''healthy_ports'', GList (map GInt healthy))]) }"

definition verify_health_handler :: "'s handler" where
  "verify_health_handler = \<lparr>
     hd_is_complete = (\<lambda>op hx. ret (Returned False)),
     hd_pre_hook = (\<lambda>op hx. ret (Returned new_hook_result)),
     hd_execute = health_execute,
     hd_post_hook = (\<lambda>op hx. ret (Returned (verified [])))\<rparr>"

section \<open>The MongoDB client\<close>

record mongo_driver =
  dr_connect :: "string \<Rightarrow> bool \<Rightarrow> err option io"      \<comment> \<open>host, direct connection\<close>
  dr_run :: "string \<Rightarrow> bool \<Rightarrow> (string, goval) gomap \<Rightarrow> (string, goval) gomap res io"
  dr_json :: "(string, goval) gomap \<Rightarrow> string"          \<comment> \<open>extended JSON\<close>

text \<open>A client is its host and whether it connects directly; the executor decides whether it is real.\<close>

definition new_mongo_client :: "mongo_driver \<Rightarrow> 's host_exec \<Rightarrow> string \<Rightarrow> bool \<Rightarrow> ('s, err option) prog" where
  "new_mongo_client dr hx host direct =
     (if hx_simulated hx then do { _ \<leftarrow> hx_mongo_execute hx host (''mongo.Connect(mongodb://'' @ host @ '')''); ret None }
      else do { e \<leftarrow> on_os (dr_connect dr host direct); ret (map_option (wrapf (''failed to connect to '' @ host)) e) })"

definition simulated_answer :: "string \<Rightarrow> (string, goval) gomap \<Rightarrow> (string, goval) gomap" where
  "simulated_answer host cmd =
     (if mhas cmd ''replSetGetStatus''
      then [(''ok'', GInt 1), (''members'', GList [GMap [(''_id'', GInt 0), (''name'', GStr host), (''stateStr'', GStr ''PRIMARY''), (''health'', GInt 1)]])]
      else [(''ok'', GInt 1)])"

definition run_mongo :: "mongo_driver \<Rightarrow> 's host_exec \<Rightarrow> string \<Rightarrow> bool \<Rightarrow> (string, goval) gomap \<Rightarrow> bool \<Rightarrow> ('s, (string, goval) gomap res) prog" where
  "run_mongo dr hx host direct cmd safety =
     (if hx_simulated hx then do {
        _ \<leftarrow> hx_mongo_execute hx host (''client.Database('' @ dquoted ''admin'' @ '').RunCommand('' @ dr_json dr cmd @ '')'' @
          (if safety then '' [safety check]'' else []));
        ret (if safety then Err ''simulated: resource not yet initialized'' else Ok (simulated_answer host cmd)) }
      else on_os (dr_run dr host direct cmd))"

section \<open>Replica sets\<close>

fun contains :: "string \<Rightarrow> string \<Rightarrow> bool" where
  "contains s sub = (has_prefix s sub \<or> (case s of [] \<Rightarrow> False | _ # r \<Rightarrow> contains r sub))"

declare contains.simps [simp del]

text \<open>The verb \<^verbatim>\<open>%T\<close>.\<close>

fun type_name :: "pval \<Rightarrow> string" where
  "type_name (PTopology t) = ''*topology.Topology''"
| "type_name (PV GNil) = ''<nil>''"
| "type_name (PV (GBool b)) = ''bool''"
| "type_name (PV (GInt i)) = ''int''"
| "type_name (PV (GFloat r)) = ''float64''"
| "type_name (PV (GStr s)) = ''string''"
| "type_name (PV (GTime t)) = ''string''"
| "type_name (PV (GStrs ss)) = ''[]string''"
| "type_name (PV (GList vs)) = ''[]interface {}''"
| "type_name (PV (GMap m)) = ''map[string]interface {}''"

definition member_list :: "planned_operation \<Rightarrow> goval list res" where
  "member_list op = (case param op ''members'' of
     None \<Rightarrow> Err ''members parameter not found''
   | Some (PV (GList ms)) \<Rightarrow> Ok ms
   | Some (PV (GStrs ss)) \<Rightarrow> Ok (map GStr ss)
   | Some v \<Rightarrow> Err (''members parameter is not a list (got type '' @ type_name v @ '')''))"

fun member_docs :: "nat \<Rightarrow> goval list \<Rightarrow> goval list res" where
  "member_docs i [] = Ok []"
| "member_docs i (m # ms) = (case m of
     GStr hp \<Rightarrow> (case member_docs (Suc i) ms of Inl e \<Rightarrow> Err e
       | Inr ds \<Rightarrow> Ok (GMap [(''_id'', GInt (int i)), (''host'', GStr hp)] # ds))
   | _ \<Rightarrow> Err (''member '' @ itoa (int i) @ '' is not a string''))"

definition replica_params :: "planned_operation \<Rightarrow> (string \<times> goval list \<times> goval list) res" where
  "replica_params op = (case str_param op ''replica_set'' of
     None \<Rightarrow> Err ''replica_set parameter not found''
   | Some rs \<Rightarrow> (case member_list op of
       Inl e \<Rightarrow> Err e
     | Inr ms \<Rightarrow> (case member_docs 0 ms of
         Inl e \<Rightarrow> Err e
       | Inr [] \<Rightarrow> Err ''no members provided''
       | Inr ds \<Rightarrow> Ok (rs, ms, ds))))"

definition status_command :: "(string, goval) gomap" where "status_command = [(''replSetGetStatus'', GInt 1)]"

definition initiate_command :: "string \<Rightarrow> goval list \<Rightarrow> (string, goval) gomap" where
  "initiate_command rs docs = [(''replSetInitiate'', GMap [(''_id'', GStr rs), (''version'', GInt 1), (''members'', GList docs)])]"

definition has_primary :: "(string, goval) gomap res \<Rightarrow> bool" where
  "has_primary r = (case r of
     Inr status \<Rightarrow> (case mget status ''members'' of
         Some (GList ms) \<Rightarrow> list_ex (\<lambda>m. case m of GMap d \<Rightarrow> mget d ''stateStr'' = Some (GStr ''PRIMARY'') | _ \<Rightarrow> False) ms
       | _ \<Rightarrow> False)
   | Inl _ \<Rightarrow> False)"

fun await_primary :: "nat \<Rightarrow> mongo_driver \<Rightarrow> 's host_exec \<Rightarrow> string \<Rightarrow> ('s, bool) prog" where
  "await_primary 0 dr hx host = ret False"
| "await_primary (Suc n) dr hx host = do {
     r \<leftarrow> run_mongo dr hx host True status_command False;
     if has_primary r then ret True else await_primary n dr hx host }"

definition already_text :: "err \<Rightarrow> bool" where
  "already_text e = (contains e ''already initialized'' \<or> contains e ''already has'' \<or> contains e ''already been initiated'')"

definition already_initialized :: "planned_operation \<Rightarrow> string \<Rightarrow> goval list \<Rightarrow> operation_result outcome" where
  "already_initialized op rs ms = done_result (''Replica set '' @ quoted rs @ '' already initialized'') op
     [(''replica_set'', GStr rs), (''members'', GList ms), (''already_initialized'', GBool True)]"

definition verify_primary :: "mongo_driver \<Rightarrow> planned_operation \<Rightarrow> 's host_exec \<Rightarrow> string \<Rightarrow> string \<Rightarrow> goval list \<Rightarrow> ('s, operation_result outcome) prog" where
  "verify_primary dr op hx host rs ms = try_err ''failed to reconnect for verification'' (new_mongo_client dr hx host True) (do {
     up \<leftarrow> await_primary 10 dr hx host;
     ret (if up then done_result (''Initialized replica set '' @ quoted rs @ '' with '' @ itoa (int (length ms)) @ '' members'') op
         [(''replica_set'', GStr rs), (''members'', GList ms)]
       else Failed (''timeout waiting for primary election in replica set '' @ rs)) })"

definition initiate :: "mongo_driver \<Rightarrow> planned_operation \<Rightarrow> 's host_exec \<Rightarrow> string \<Rightarrow> string \<Rightarrow> goval list \<Rightarrow> goval list \<Rightarrow> ('s, operation_result outcome) prog" where
  "initiate dr op hx host rs ms docs = do {
     r \<leftarrow> run_mongo dr hx host True (initiate_command rs docs) False;
     case r of
       Inl e \<Rightarrow> ret (if already_text e then already_initialized op rs ms else Failed (wrapf ''failed to initialize replica set'' e))
     | Inr _ \<Rightarrow> verify_primary dr op hx host rs ms }"

definition primary_host :: "goval list \<Rightarrow> string" where
  "primary_host ms = (case ms of GStr h # _ \<Rightarrow> h | _ \<Rightarrow> [])"

definition replica_execute :: "mongo_driver \<Rightarrow> planned_operation \<Rightarrow> 's host_exec \<Rightarrow> ('s, operation_result outcome) prog" where
  "replica_execute dr op hx = (case replica_params op of
     Inl e \<Rightarrow> ret (Failed e)
   | Inr (rs, ms, docs) \<Rightarrow> let host = primary_host ms in
       try_err (''failed to connect to primary node '' @ host) (new_mongo_client dr hx host True) (do {
         s \<leftarrow> run_mongo dr hx host True status_command True;
         if (case s of Inl _ \<Rightarrow> False | Inr status \<Rightarrow> mget status ''ok'' \<notin> {None, Some GNil})
         then ret (already_initialized op rs ms)
         else initiate dr op hx host rs ms docs }))"

definition replica_pre_hook :: "planned_operation \<Rightarrow> 's host_exec \<Rightarrow> ('s, hook_result outcome) prog" where
  "replica_pre_hook op hx = ret (Returned (require_params [''replica_set'', ''members''] op))"

definition replica_post_hook :: "planned_operation \<Rightarrow> 's host_exec \<Rightarrow> ('s, hook_result outcome) prog" where
  "replica_post_hook op hx = ret (Returned (verified [(''replica_set'', str_or_empty (str_param op ''replica_set''))]))"

definition init_replica_set_handler :: "mongo_driver \<Rightarrow> 's handler" where
  "init_replica_set_handler dr = \<lparr>
     hd_is_complete = (\<lambda>op hx. ret (Returned False)),
     hd_pre_hook = replica_pre_hook,
     hd_execute = replica_execute dr,
     hd_post_hook = replica_post_hook\<rparr>"

section \<open>Shards\<close>

definition lists_shard :: "string \<Rightarrow> (string, goval) gomap res \<Rightarrow> bool" where
  "lists_shard name r = (case r of
     Inr answer \<Rightarrow> (case mget answer ''shards'' of
         Some (GList ss) \<Rightarrow> list_ex (\<lambda>s. case s of GMap d \<Rightarrow> mget d ''_id'' = Some (GStr name) | _ \<Rightarrow> False) ss
       | _ \<Rightarrow> False)
   | Inl _ \<Rightarrow> False)"

definition shard_meta :: "string \<Rightarrow> string \<Rightarrow> string \<Rightarrow> (string, goval) gomap" where
  "shard_meta name conn mongos = [(''shard_name'', GStr name), (''connection_string'', GStr conn), (''mongos_host'', GStr mongos)]"

definition already_added :: "planned_operation \<Rightarrow> string \<Rightarrow> string \<Rightarrow> string \<Rightarrow> operation_result outcome" where
  "already_added op name conn mongos = done_result (''Shard '' @ quoted name @ '' already added'') op
     (shard_meta name conn mongos @ [(''already_exists'', GBool True)])"

definition shard_execute :: "mongo_driver \<Rightarrow> planned_operation \<Rightarrow> 's host_exec \<Rightarrow> ('s, operation_result outcome) prog" where
  "shard_execute dr op hx =
     want ''shard_name parameter not found'' (str_param op ''shard_name'') (\<lambda>name.
     want ''connection_string parameter not found'' (str_param op ''connection_string'') (\<lambda>conn.
     want ''mongos_host parameter not found'' (str_param op ''mongos_host'') (\<lambda>mongos.
     try_err (''failed to connect to mongos at '' @ mongos) (new_mongo_client dr hx mongos False) (do {
       s \<leftarrow> run_mongo dr hx mongos False [(''listShards'', GInt 1)] True;
       if lists_shard name s then ret (already_added op name conn mongos)
       else do {
         r \<leftarrow> run_mongo dr hx mongos False [(''addShard'', GStr conn)] False;
         ret (case r of
           Inl e \<Rightarrow> if contains e ''already exists'' then already_added op name conn mongos
             else Failed (wrapf (''failed to add shard '' @ name) e)
         | Inr _ \<Rightarrow> done_result (''Added shard '' @ quoted name @ '' to cluster'') op (shard_meta name conn mongos)) } }))))"

definition shard_pre_hook :: "planned_operation \<Rightarrow> 's host_exec \<Rightarrow> ('s, hook_result outcome) prog" where
  "shard_pre_hook op hx = ret (Returned (require_params [''shard_name'', ''connection_string'', ''mongos_host''] op))"

definition shard_post_hook :: "planned_operation \<Rightarrow> 's host_exec \<Rightarrow> ('s, hook_result outcome) prog" where
  "shard_post_hook op hx = ret (Returned (verified [(''shard_name'', str_or_empty (str_param op ''shard_name''))]))"

definition add_shard_handler :: "mongo_driver \<Rightarrow> 's handler" where
  "add_shard_handler dr = \<lparr>
     hd_is_complete = (\<lambda>op hx. ret (Returned False)),
     hd_pre_hook = shard_pre_hook,
     hd_execute = shard_execute dr,
     hd_post_hook = shard_post_hook\<rparr>"

end
