(* ===== verification/Operation_Exec.thy ===== *)
theory Operation_Exec imports Handlers_Config Handlers_Process Simulation begin

text \<open>
  \<^verbatim>\<open>NewExecutor\<close> of \<^verbatim>\<open>pkg/operation/executor.go\<close>, and what holds of the handlers it registers on the two executors of
  the program, the local machine and the simulation.
\<close>

section \<open>Registration\<close>

text \<open>What the handlers take from outside, in one record.\<close>

record op_env =
  oe_sup :: sup_os
  oe_bin :: "bin_manager option"
  oe_versions :: go_version
  oe_float :: "rat \<Rightarrow> string"
  oe_yaml :: yaml_codec
  oe_driver :: mongo_driver
  oe_fuel :: nat

abbreviation oe_process :: "op_env \<Rightarrow> process_env" where
  "oe_process E \<equiv> so_env (oe_sup E)"

definition default_handlers :: "op_env \<Rightarrow> string \<Rightarrow> (operation_type \<times> 's handler) list" where
  "default_handlers E storage = [
     (op_download_binary, download_binary_handler (oe_bin E)),
     (op_copy_binary, copy_binary_handler),
     (op_create_directory, create_directory_handler),
     (op_create_symlink, create_symlink_handler),
     (op_upload_file, upload_file_handler),
     (op_remove_directory, remove_directory_handler),
     (op_start_supervisor, start_supervisor_handler (oe_sup E)),
     (op_start_process, start_process_handler (oe_sup E)),
     (op_generate_config, generate_config_handler (oe_versions E) (oe_float E)),
     (op_wait_for_process, wait_for_process_handler (oe_fuel E)),
     (op_wait_for_ready, wait_for_ready_handler),
     (op_init_replica_set, init_replica_set_handler (oe_driver E)),
     (op_add_shard, add_shard_handler (oe_driver E)),
     (op_verify_health, verify_health_handler),
     (op_save_metadata, save_metadata_handler (oe_yaml E) (oe_process E) storage),
     (op_stop_process, stop_process_handler),
     (op_generate_supervisor_cfg, generate_supervisor_handler (oe_process E))]"

definition storage_or_default :: "op_env \<Rightarrow> string \<Rightarrow> string" where
  "storage_or_default E storage =
     (if storage \<noteq> [] then storage
      else case env_home_dir (oe_process E) of Inl _ \<Rightarrow> [] | Inr home \<Rightarrow> path_join [home, ''.mup'', ''storage''])"

definition new_executor_with_storage :: "op_env \<Rightarrow> (string, 's host_exec) gomap \<Rightarrow> string \<Rightarrow> 's operation_executor" where
  "new_executor_with_storage E executors storage =
     fold (\<lambda>(ty, h). register_handler ty h) (default_handlers E (storage_or_default E storage))
       \<lparr>oex_executors = executors, oex_handlers = [], oex_storage = storage_or_default E storage\<rparr>"

definition new_executor :: "op_env \<Rightarrow> (string, 's host_exec) gomap \<Rightarrow> 's operation_executor" where
  "new_executor E executors = new_executor_with_storage E executors []"

lemma register_fold:
  "mget (oex_handlers (fold (\<lambda>(ty, h). register_handler ty h) hs e)) ty =
     (case mget (rev hs) ty of None \<Rightarrow> mget (oex_handlers e) ty | Some h \<Rightarrow> Some h)"
proof (induction hs arbitrary: e)
  case (Cons p hs)
  obtain t h where p: "p = (t, h)" by fastforce
  show ?case unfolding fold_Cons o_apply
    by (subst Cons.IH) (simp add: p register_handler_def map_add_def split: option.split)
qed simp

lemma op_types_distinct: "distinct (map fst (default_handlers E storage :: (operation_type \<times> 's handler) list))"
  by (simp add: default_handlers_def op_type_defs)

lemma mget_rev_distinct: "distinct (map fst xs) \<Longrightarrow> mget (rev xs) = mget xs"
  by (rule map_of_inject_set [THEN iffD2]) (simp_all add: rev_map [symmetric])

lemma registered: "mget (oex_handlers (new_executor E executors)) ty = mget (default_handlers E (storage_or_default E [])) ty"
  unfolding new_executor_def new_executor_with_storage_def register_fold
  by (simp add: mget_rev_distinct [OF op_types_distinct] split: option.split)

lemma executors_kept: "oex_executors (new_executor E executors) = executors"
proof -
  have "oex_executors (fold (\<lambda>(ty, h). register_handler ty h) hs e) = oex_executors e" for hs :: "(operation_type \<times> 'a handler) list" and e
  proof (induction hs arbitrary: e)
    case (Cons p hs)
    show ?case unfolding fold_Cons o_apply by (subst Cons.IH) (simp add: register_handler_def case_prod_beta)
  qed simp
  then show ?thesis by (simp add: new_executor_def new_executor_with_storage_def)
qed

section \<open>A phase that succeeded is confirmed\<close>

definition confirmed :: "('s, 'a outcome) prog \<Rightarrow> ('s, hook_result outcome) prog \<Rightarrow> world \<times> 's \<Rightarrow> bool" where
  "confirmed ex post = wp ex (\<lambda>r. wp post (\<lambda>v _. \<forall>x. r = Returned x \<longrightarrow>
     (case v of Returned h \<Rightarrow> hr_valid h | Failed e \<Rightarrow> True | Panicked \<Rightarrow> False | Hung \<Rightarrow> False)))"

lemma confirmed_try:
  assumes "then_exists m hx p s"
  shows "confirmed (try_err msg m (ret (Returned x))) (confirm what missing hx p kvs) s"
  unfolding confirmed_def wp_try_err
proof (rule wp_mono [OF assms [unfolded then_exists_def]], goal_cases)
  case (1 e s')
  show ?case
  proof (cases e)
    case None
    then have "wp (hx_file_exists hx p) (\<lambda>b _. b \<noteq> Ok False) s'" using 1 by simp
    then have "wp (confirm what missing hx p kvs) (\<lambda>v _. case v of Returned h \<Rightarrow> hr_valid h | Failed e \<Rightarrow> True | Panicked \<Rightarrow> False | Hung \<Rightarrow> False) s'"
      unfolding confirm_def check_exists_def wp_try_res
      by (rule wp_mono) (auto split: sum.split)
    then show ?thesis by (simp add: None)
  qed simp
qed

lemma confirmed_panic [simp]: "confirmed (ret Panicked) post s" "confirmed (ret (Failed e)) post s"
  by (simp_all add: confirmed_def)

context file_host
begin

lemma directory_confirmed:
  assumes "\<And>p. str_param op ''path'' = Some p \<Longrightarrow> path_clean p \<notin> {[slash], dot}"
  shows "confirmed (directory_execute op hx) (directory_post_hook op hx) s"
  unfolding directory_execute_def directory_post_hook_def expect_def done_result_def
  using assms by (cases "str_param op ''path''") (auto intro: confirmed_try create_exists)

lemma upload_confirmed: "confirmed (upload_execute op hx) (upload_post_hook op hx) s"
  unfolding upload_execute_def upload_post_hook_def expect_def done_result_def
  by (cases "str_param op ''local_path''"; cases "str_param op ''remote_path''") (auto intro: confirmed_try upload_exists)

lemma config_confirmed: "confirmed (config_execute gv ff op hx) (config_post_hook op hx) s"
  unfolding config_execute_def config_post_hook_def want_def done_result_def
  by (auto intro: confirmed_try content_exists split: option.split sum.split)

end

text \<open>An operation of a type with parameters, to try the handlers out.\<close>

definition sample_op :: "operation_type \<Rightarrow> (string, pval) gomap \<Rightarrow> planned_operation" where
  "sample_op ty ps = \<lparr>po_id = ''op'', po_type = ty, po_description = [],
     po_target = \<lparr>tg_type = [], tg_name = ''c'', tg_host = [], tg_port = 0, tg_params = []\<rparr>,
     po_pre = [], po_changes = [], po_depends = [], po_parallel = False, po_params = ps\<rparr>"

text \<open>A machine on which nothing runs, a driver whose replica sets are ready, and an environment with both.\<close>

definition silent_machine :: machine where
  "silent_machine = \<lparr>mc_shell = (\<lambda>_ _. ret ([], [], None)), mc_start = (\<lambda>_. ret (Ok 1)), mc_signal = (\<lambda>_. ret NoProcess),
     mc_kill = (\<lambda>_. ret None), mc_interrupt = (\<lambda>_. ret None), mc_statfs = (\<lambda>_. ret (Ok (0, 0))),
     mc_bind = (\<lambda>_. ret True), mc_dial = (\<lambda>_. ret False), mc_user = (\<lambda>_. ret UnknownUser), mc_os = ''linux'', mc_arch = ''amd64''\<rparr>"

definition ready_driver :: mongo_driver where
  "ready_driver = \<lparr>dr_connect = (\<lambda>_ _. ret None), dr_run = (\<lambda>_ _ _. ret (Ok [(''ok'', GFloat 1)])), dr_json = (\<lambda>_. [])\<rparr>"

definition example_op_env :: op_env where
  "example_op_env = \<lparr>oe_sup = stuck_machine, oe_bin = None, oe_versions = plain_go_version, oe_float = (\<lambda>_. ''1''),
     oe_yaml = status_codec, oe_driver = ready_driver, oe_fuel = 100\<rparr>"

text \<open>
  C34. What succeeded is confirmed: on the local machine and in the simulation, in every world, when a handler has
  created a directory, uploaded a file or written a configuration and reports success, its own check afterwards
  never finds the result missing (the check may fail to look, and the root directory is no directory to create).
\<close>
theorem handlers_confirm:
  assumes "\<And>p. str_param op ''path'' = Some p \<Longrightarrow> path_clean p \<notin> {[slash], dot}"
  shows "confirmed (directory_execute op (local_executor mc)) (directory_post_hook op (local_executor mc)) s \<and>
    confirmed (upload_execute op (local_executor mc)) (upload_post_hook op (local_executor mc)) s \<and>
    confirmed (config_execute gv ff op (local_executor mc)) (config_post_hook op (local_executor mc)) s \<and>
    confirmed (directory_execute op (simulation_executor len c)) (directory_post_hook op (simulation_executor len c)) t \<and>
    confirmed (upload_execute op (simulation_executor len c)) (upload_post_hook op (simulation_executor len c)) t \<and>
    confirmed (config_execute gv ff op (simulation_executor len c)) (config_post_hook op (simulation_executor len c)) t"
  using assms
  by (simp add: local.directory_confirmed local.upload_confirmed local.config_confirmed
      simulated.directory_confirmed simulated.upload_confirmed simulated.config_confirmed)

lemma handlers_confirm_witness:
  "confirmed (directory_execute (sample_op ''create_directory'' [(''path'', PV (GStr ''/data''))]) (local_executor silent_machine))
     (directory_post_hook (sample_op ''create_directory'' [(''path'', PV (GStr ''/data''))]) (local_executor silent_machine)) (example_world, ())"
proof -
  have "path_clean p \<notin> {[slash], dot}" if "str_param (sample_op ''create_directory'' [(''path'', PV (GStr ''/data''))]) ''path'' = Some p" for p
    using that by (auto simp: str_param_def param_def as_str_def sample_op_def path_clean_def is_abs_def dot_def dotdot_def)
  from handlers_confirm [where op = "sample_op ''create_directory'' [(''path'', PV (GStr ''/data''))]", OF this] show ?thesis
    by blast
qed

section \<open>Operations in the simulation\<close>

locale host_invariant =
  fixes hx :: "'s host_exec" and P :: "world \<times> 's \<Rightarrow> bool"
  assumes request_keeps: "keeps P (run_request hx r)"
begin

lemma keeps_fields:
  "keeps P (hx_create_directory hx p m)" "keeps P (hx_upload_file hx p q)" "keeps P (hx_upload_content hx d p)"
  "keeps P (hx_file_exists hx p)" "keeps P (hx_remove_directory hx p)" "keeps P (hx_execute hx p)"
  "keeps P (hx_mongo_execute hx p q)" "keeps P (hx_is_process_running hx i)" "keeps P (hx_stop_process hx i)"
  "keeps P (hx_check_port_available hx i)"
  using request_keeps [of "CreateDirectory p m"] request_keeps [of "UploadFile p q"] request_keeps [of "UploadContent d p"]
    request_keeps [of "FileExists p"] request_keeps [of "RemoveDirectory p"] request_keeps [of "Execute p"]
    request_keeps [of "MongoExecute p q"] request_keeps [of "IsProcessRunning i"] request_keeps [of "StopProcess i"]
    request_keeps [of "CheckPortAvailable i"]
  by (simp_all add: keeps_ignore_iff)

lemmas keeps_handler = keeps_call_intros keeps_fields keeps_return

lemma directory_keeps: "keeps P (directory_execute op hx)"
  unfolding directory_execute_def by (intro keeps_handler)

lemma upload_keeps: "keeps P (upload_execute op hx)"
  unfolding upload_execute_def by (intro keeps_handler)

lemma remove_keeps: "keeps P (remove_execute op hx)"
  unfolding remove_execute_def by (intro keeps_handler)

lemma copy_binaries_keeps: "keeps P (copy_binaries hx source dest bs copied)"
  by (induction bs arbitrary: copied) (auto simp: Let_def intro!: keeps_handler)

lemma copy_keeps: "keeps P (copy_execute op hx)"
  unfolding copy_execute_def by (intro keeps_handler copy_binaries_keeps)

lemma config_keeps: "keeps P (config_execute gv ff op hx)"
  unfolding config_execute_def by (intro keeps_handler)

lemma stop_keeps: "keeps P (stop_execute op hx)"
  unfolding stop_execute_def by (intro keeps_handler)

lemma sort_ports_keeps: "keeps P (sort_ports hx ps a b)"
  by (induction ps arbitrary: a b) (auto intro!: keeps_handler)

lemma health_keeps: "keeps P (health_execute op hx)"
  unfolding health_execute_def by (intro keeps_handler sort_ports_keeps)

lemma simulated_run_keeps: "hx_simulated hx \<Longrightarrow> keeps P (run_mongo dr hx h d cmd b)"
  unfolding run_mongo_def by (simp add: keeps_handler)

lemma simulated_client_keeps: "hx_simulated hx \<Longrightarrow> keeps P (new_mongo_client dr hx h d)"
  unfolding new_mongo_client_def by (simp add: keeps_handler)

lemma await_primary_keeps: "hx_simulated hx \<Longrightarrow> keeps P (await_primary n dr hx host)"
  by (induction n) (auto intro!: keeps_handler simulated_run_keeps)

lemma replica_keeps: "hx_simulated hx \<Longrightarrow> keeps P (replica_execute dr op hx)"
  unfolding replica_execute_def initiate_def verify_primary_def Let_def
  by (intro keeps_handler simulated_run_keeps simulated_client_keeps await_primary_keeps; assumption)

lemma shard_keeps: "hx_simulated hx \<Longrightarrow> keeps P (shard_execute dr op hx)"
  unfolding shard_execute_def
  by (intro keeps_handler simulated_run_keeps simulated_client_keeps; assumption)

lemma wait_keeps: "hx_simulated hx \<Longrightarrow> keeps P (wait_execute fuel op hx)"
  unfolding wait_execute_def by (simp add: keeps_handler)

lemma ready_keeps: "keeps P (ready_execute op)"
  unfolding ready_execute_def Let_def by (intro keeps_handler)

end

interpretation simulated_disk: host_invariant "simulation_executor len c" "disk_kept f" for len c f
  by unfold_locales (rule keeps_simulated)

lemma simulated_flag [simp]: "hx_simulated (simulation_executor len c)"
  by (simp add: simulation_executor_def)

definition recorded_types :: "operation_type list" where
  "recorded_types = [op_copy_binary, op_create_directory, op_upload_file, op_remove_directory, op_generate_config,
     op_wait_for_process, op_wait_for_ready, op_init_replica_set, op_add_shard, op_verify_health, op_stop_process]"

lemma recorded_handler:
  assumes "ty \<in> set recorded_types" "mget (default_handlers E st) ty = Some h"
  shows "keeps (disk_kept f) (hd_execute h op (simulation_executor len c))"
proof -
  note ks = simulated_disk.copy_keeps simulated_disk.directory_keeps simulated_disk.upload_keeps simulated_disk.remove_keeps
    simulated_disk.config_keeps simulated_disk.wait_keeps [OF simulated_flag] simulated_disk.ready_keeps
    simulated_disk.replica_keeps [OF simulated_flag] simulated_disk.shard_keeps [OF simulated_flag] simulated_disk.health_keeps simulated_disk.stop_keeps
  have "h \<in> {copy_binary_handler, create_directory_handler, upload_file_handler, remove_directory_handler,
      generate_config_handler (oe_versions E) (oe_float E), wait_for_process_handler (oe_fuel E), wait_for_ready_handler,
      init_replica_set_handler (oe_driver E), add_shard_handler (oe_driver E), verify_health_handler, stop_process_handler}"
    using assms by (auto simp: recorded_types_def default_handlers_def op_type_defs)
  then show ?thesis
    by (auto simp: copy_binary_handler_def create_directory_handler_def upload_file_handler_def remove_directory_handler_def
        generate_config_handler_def wait_for_process_handler_def wait_for_ready_handler_def init_replica_set_handler_def
        add_shard_handler_def verify_health_handler_def stop_process_handler_def intro: ks)
qed

lemma get_executor_mem: "get_executor e op = Ok hx \<Longrightarrow> hx \<in> snd ` set (oex_executors e)"
  by (auto simp: get_executor_def Let_def split: if_splits list.splits option.splits dest!: map_of_SomeD intro: rev_image_eqI)

text \<open>
  C35. Most operations leave the disk alone in the simulation: whatever their parameters, executing one of eleven types
  of operations with simulated executors changes no file and keeps the records of the simulation in order.
\<close>
theorem simulated_ops_keep_disk:
  assumes "po_type op \<in> set recorded_types" and "\<And>h hx. (h, hx) \<in> set executors \<Longrightarrow> \<exists>len c. hx = simulation_executor len c"
    and "sim_inv s"
  shows "wp (execute_op (new_executor E executors) op) (\<lambda>_ (w', s'). w_fs w' = w_fs w \<and> sim_inv s') (w, s)"
proof -
  have "keeps (disk_kept (w_fs w)) (execute_op (new_executor E executors) op)"
  proof (cases "mget (default_handlers E (storage_or_default E []) :: (operation_type \<times> sim_state handler) list) (po_type op)")
    case (Some h)
    have "keeps (disk_kept (w_fs w)) (hd_execute h op hx)" if ex: "get_executor (new_executor E executors) op = Ok hx" for hx
    proof -
      obtain n where "(n, hx) \<in> set executors" using get_executor_mem [OF ex] by (auto simp: executors_kept)
      then obtain len c where "hx = simulation_executor len c" using assms(2) by blast
      then show ?thesis using recorded_handler [OF assms(1) Some] by simp
    qed
    then show ?thesis unfolding execute_op_def registered Some option.case by (intro keeps_intros) auto
  qed (simp add: execute_op_def registered)
  from keepsD [OF this, of "(w, s)"] show ?thesis
    using assms(3) by (auto simp: disk_kept_def elim!: wp_mono)
qed

lemma simulated_ops_keep_disk_witness:
  "wp (execute_op (new_executor example_op_env [(''localhost'', simulation_executor (\<lambda>_. 0) new_config)])
       (sample_op op_remove_directory [(''path'', PV (GStr ''/etc''))]))
     (\<lambda>_ (w', s'). w_fs w' = [(''/etc'', FDir)] \<and> sim_inv s') (example_world\<lparr>w_fs := [(''/etc'', FDir)]\<rparr>, new_simulation new_config 0)"
  by (rule wp_mono [OF simulated_ops_keep_disk])
    (auto simp: sample_op_def recorded_types_def op_type_defs sim_inv_new)

text \<open>
  The simulation does write to the disk: executing an operation that creates a link makes the link on the machine
  itself, although the executor of the operation is the simulated one, and records nothing.
\<close>
theorem simulated_link_is_real:
  assumes "quiet w" "comps_ok (cs @ [x])" "is_dir (w_fs w) (abs_path cs)" "mget (w_fs w) (abs_path (cs @ [x])) = None"
    and "po_type op = op_create_symlink" "tg_host (po_target op) = []"
    and "str_param op ''link_path'' = Some (abs_path (cs @ [x]))" "str_param op ''target_path'' = Some target"
  shows "wp (execute_op (new_executor E [(h, simulation_executor len c)]) op)
    (\<lambda>r (w', s'). (\<exists>v. r = Returned v) \<and> mget (w_fs w') (abs_path (cs @ [x])) = Some (FLink target) \<and> s' = s) (w, s)"
proof -
  let ?p = "abs_path (cs @ [x])"
  have clean: "path_clean ?p = ?p" by (rule path_clean_abs_path [OF assms(2)])
  have dir: "path_dir ?p = abs_path cs"
    by (rule path_dir_abs) (use assms(2) in \<open>auto simp: comps_ok_def\<close>)
  have "?p \<noteq> abs_path []" by (subst abs_path_inject) (use assms(2) in \<open>simp_all\<close>)
  moreover have "?p \<noteq> dot" by (simp add: abs_path_def dot_def)
  ultimately have nd: "\<not> is_dir (w_fs w) ?p" using assms(4) by (simp add: is_dir_def abs_path_def)
  have handler: "mget (oex_handlers (new_executor E [(h, simulation_executor len c)])) (po_type op) = Some create_symlink_handler"
    unfolding registered assms(5) by (simp add: default_handlers_def op_type_defs)
  have ex: "get_executor (new_executor E [(h, simulation_executor len c)]) op = Ok (simulation_executor len c)"
    by (simp add: get_executor_def executors_kept assms(6))
  show ?thesis
    using assms(1,3,4) nd
    by (simp add: execute_op_def handler ex create_symlink_handler_def symlink_execute_def assms(7,8) wp_on_os
        os_remove_def os_symlink_def clean dir Let_def mhas_def done_result_def)
qed

lemma simulated_link_is_real_witness:
  "wp (execute_op (new_executor example_op_env [(''localhost'', simulation_executor (\<lambda>_. 0) new_config)])
       (sample_op op_create_symlink [(''link_path'', PV (GStr (abs_path ([] @ [''current''])))), (''target_path'', PV (GStr ''v7.0.0''))]))
     (\<lambda>r (w', s'). (\<exists>v. r = Returned v) \<and> mget (w_fs w') (abs_path ([] @ [''current''])) = Some (FLink ''v7.0.0'') \<and>
        s' = new_simulation new_config 0) (example_world, new_simulation new_config 0)"
proof (rule simulated_link_is_real)
  show "comps_ok ([] @ [''current''])" by (simp add: comps_ok_def comp_ok_def dot_def dotdot_def)
  show "is_dir (w_fs example_world) (abs_path [])" by (simp add: is_dir_def abs_path_def)
  show "mget (w_fs example_world) (abs_path ([] @ [''current''])) = None" by (simp add: example_world_def)
qed (simp_all add: sample_op_def str_param_def param_def as_str_def)

section \<open>Plans in memory and plans from files\<close>

lemma enc_dec_val: "enc_val (dec_val j) = j"
proof (induction j)
  case (JArr js)
  then show ?case by (simp add: map_idI)
next
  case (JObj m)
  then show ?case by (auto intro!: map_idI simp: case_prod_beta)
qed simp_all

lemma param_norm: "param (norm_planned_operation op) k = map_option norm_pval (param op k)"
  by (simp add: param_def norm_planned_operation_def mget_norm_pvals)

lemma topology_param_norm:
  assumes "param op ''topology'' = Some (PTopology t)"
  shows "topology_param (norm_planned_operation op) = Ok (norm_topology t)"
proof -
  obtain m where m: "dec_val (enc_topology t) = GMap m" by (simp add: enc_topology_def jobj_def)
  then have "enc_val (GMap m) = enc_topology t" by (metis enc_dec_val)
  then show ?thesis by (simp add: topology_param_def param_norm assms norm_pval_def enc_pval_def m del: enc_val.simps)
qed

text \<open>
  C36. What a plan loses on its way through its file. The supervisor is configured from the topology whether the plan is
  fresh or was loaded, but the metadata of the cluster is written with the topology, the nodes and the connection command
  only by a fresh plan: a loaded one leaves them all empty. Ports to wait for and processes to stop are the other way
  round: given as \<^verbatim>\<open>int\<close> in a fresh plan they make the handlers panic, and only after a trip through the file they
  are read.
\<close>
theorem fresh_and_loaded:
  assumes "param op ''topology'' = Some (PTopology t)" and "param op ''port'' = Some (PV (GInt n))" "param op ''pid'' = Some (PV (GInt m))"
  shows "topology_param op = Ok t \<and> topology_param (norm_planned_operation op) = Ok (norm_topology t) \<and>
    cm_topology (operation_metadata op now) = Some t \<and> cm_nodes (operation_metadata op now) = nodes_of t \<and>
    cm_topology (operation_metadata (norm_planned_operation op) now) = None \<and>
    cm_nodes (operation_metadata (norm_planned_operation op) now) = [] \<and>
    cm_connection (operation_metadata (norm_planned_operation op) now) = [] \<and>
    wait_execute fuel op hx = ret Panicked \<and> stop_execute op hx = ret Panicked \<and>
    float_param (norm_planned_operation op) ''port'' = Some n \<and> float_param (norm_planned_operation op) ''pid'' = Some m"
proof -
  have no: "metadata_topology (norm_planned_operation op) = None"
    by (simp add: metadata_topology_def param_norm assms norm_pval_def)
  show ?thesis
    using topology_param_norm [OF assms(1)] assms
    by (simp add: operation_metadata_def no Let_def connection_command_def topology_param_def metadata_topology_def [of op]
        wait_execute_def stop_execute_def float_param_def as_float_def param_norm norm_pval_def enc_pval_def expect_def)
qed

lemma fresh_and_loaded_witness:
  "cm_nodes (operation_metadata (norm_planned_operation (sample_op op_save_metadata
     [(''topology'', PTopology example_topology), (''port'', PV (GInt 1)), (''pid'', PV (GInt 2))])) 0) = []"
proof -
  let ?op = "sample_op op_save_metadata [(''topology'', PTopology example_topology), (''port'', PV (GInt 1)), (''pid'', PV (GInt 2))]"
  have "param ?op ''topology'' = Some (PTopology example_topology)" "param ?op ''port'' = Some (PV (GInt 1))" "param ?op ''pid'' = Some (PV (GInt 2))"
    by (simp_all add: param_def sample_op_def)
  from fresh_and_loaded [OF this] show ?thesis by blast
qed

section \<open>The shell\<close>

lemma itoa_digit:
  assumes "0 \<le> a" "a < 10"
  shows "itoa a = [digit_char (nat a)]"
  using assms by (simp add: itoa_def show_nat.simps)

lemma digit_char_less: "m < 10 \<Longrightarrow> n < 10 \<Longrightarrow> (digit_char m < digit_char n) = (m < n)"
  by (simp add: less_char_def of_char_digit)

text \<open>
  Two places choose the shell of a release, one by the text of the version and one by its major number. For the
  major versions of one digit they disagree exactly on version 4: its connection command names \<^verbatim>\<open>mongosh\<close>, while the
  binary that is copied is \<^verbatim>\<open>mongo\<close>.
\<close>
theorem shells_disagree_on_4:
  assumes "parse_version (version_string v) = Ok v" "0 \<le> mv_major v" "mv_major v < 10" "0 \<le> mv_minor v"
  shows "metadata_shell (version_string v) = get_shell_binary (version_string v) \<longleftrightarrow> mv_major v \<noteq> 4"
proof -
  let ?a = "mv_major v"
  have shape: "version_string v = digit_char (nat ?a) # CHR ''.'' # itoa (mv_minor v) @ ''.'' @ itoa (mv_patch v)"
    using itoa_digit [OF assms(2,3)] by (simp add: version_string_def)
  have four: "CHR ''4'' = digit_char 4" by (simp add: digit_char_def)
  obtain c r where minor: "itoa (mv_minor v) = c # r" "is_digit c"
    using itoa_nonneg_digits [OF assms(4)] itoa_nonempty [of "mv_minor v"] by (cases "itoa (mv_minor v)") auto
  then have zero: "\<not> c < CHR ''0''" by (simp add: is_digit_def less_char_def not_less)
  have "(version_string v < ''4.0'') = (digit_char (nat ?a) < digit_char 4)"
    using zero by (auto simp: shape minor four)
  also have "\<dots> = (?a < 4)" using assms(2,3) digit_char_less [of "nat ?a" 4] by auto
  finally show ?thesis
    using shell_matches_version [OF assms(1)] by (auto simp: metadata_shell_def)
qed

lemma shells_disagree_on_4_witness: "metadata_shell ''4.4.1'' \<noteq> get_shell_binary ''4.4.1''"
proof -
  have v: "version_string (MongoVersion 4 4 1 ''4.4.1'') = ''4.4.1''" by (simp add: version_string_def number_eval)
  have "parse_version (version_string (MongoVersion 4 4 1 ''4.4.1'')) = Ok (MongoVersion 4 4 1 ''4.4.1'')"
    unfolding v by (simp add: parse_version_def atoi_def Let_def split_sign_def signed_val_def is_digit_def digit_val_def in_int64_def
        int64_min_def int64_max_def)
  from shells_disagree_on_4 [OF this] show ?thesis unfolding v by simp
qed

section \<open>Waiting ends\<close>

lemma wp_check_port_clock:
  assumes "\<And>p. clock_free (mc_bind mc p)" "\<And>p. clock_free (mc_dial mc p)"
  shows "wp (local_check_port_available mc p) (\<lambda>_ w'. w_clock w' = w_clock w \<and> w_tick w' = w_tick w) w"
  unfolding local_check_port_available_def wp_bind
proof (rule wp_mono [OF clock_freeD [OF assms(1)]], goal_cases)
  case (1 b w')
  then show ?case
    using clock_freeD [OF assms(2), of p w'] by (cases b) (auto elim: wp_mono)
qed

lemma local_flag [simp]: "\<not> hx_simulated (local_executor mc)"
  by (simp add: local_executor_def)

lemma local_check_port [simp]: "hx_check_port_available (local_executor mc) p = on_os (local_check_port_available mc p)"
  by (simp add: local_executor_def)

lemma poll_port_ends:
  assumes "\<And>p. clock_free (mc_bind mc p)" "\<And>p. clock_free (mc_dial mc p)" "deadline \<le> w_clock w (w_tick w + n)"
  shows "wp (poll_port (Suc n) (local_executor mc) port deadline) (\<lambda>r _. r \<noteq> None) (w, s)"
  using assms(3)
proof (induction n arbitrary: w)
  case 0
  then show ?case by (auto simp: wp_on_os)
next
  case (Suc n)
  let ?w = "w\<lparr>w_tick := Suc (w_tick w)\<rparr>"
  have "wp (local_check_port_available mc port)
      (\<lambda>r w'. wp (if r = Ok False then ret (Some True) else poll_port (Suc n) (local_executor mc) port deadline) (\<lambda>r _. r \<noteq> None) (w', s)) ?w"
    by (rule wp_mono [OF wp_check_port_clock [OF assms(1,2)]])
      (use Suc.IH Suc.prems in \<open>auto simp del: poll_port.simps\<close>)
  then show ?case
    by (subst poll_port.simps) (auto simp: wp_on_os simp del: poll_port.simps)
qed

text \<open>
  Waiting for a process ends: on the local machine, when a sleep takes at least its second, one round more than the
  timeout has seconds is enough for the loop, whether a process ever listens on the port or not.
\<close>
theorem wait_returns:
  assumes "\<And>p. clock_free (mc_bind mc p)" "\<And>p. clock_free (mc_dial mc p)" "wait_timeout op = Some t" "nat t < fuel"
    and clock: "\<And>i. w_tick w \<le> i \<Longrightarrow> w_clock w i \<le> w_clock w (Suc i) \<and> w_clock w (Suc i) + second \<le> w_clock w (Suc (Suc i))"
  shows "wp (wait_execute fuel op (local_executor mc)) (\<lambda>r _. r \<noteq> Hung) (w, s)"
proof -
  have late: "w_clock w (w_tick w) + int n * second \<le> w_clock w (Suc (w_tick w) + n)" for n
  proof (induction n)
    case (Suc n)
    then show ?case using clock [of "w_tick w + n"] by (simp add: algebra_simps)
  qed (use clock in simp)
  obtain n where n: "fuel = Suc n" "nat t \<le> n" using assms(4) by (cases fuel) auto
  have "w_clock w (w_tick w) + t * second \<le> w_clock w (w_tick w) + int n * second"
    using n(2) by (simp add: second_def)
  also have "\<dots> \<le> w_clock w (Suc (w_tick w) + n)" by (rule late)
  finally have "wp (poll_port fuel (local_executor mc) port (w_clock w (w_tick w) + t * second)) (\<lambda>r _. r \<noteq> None)
      (w\<lparr>w_tick := Suc (w_tick w)\<rparr>, s)" for port
    unfolding n(1) by (intro poll_port_ends [OF assms(1,2)]) simp
  then have "wp (poll_port fuel (local_executor mc) port (w_clock w (w_tick w) + t * second))
      (\<lambda>r _. (case r of None \<Rightarrow> Hung | Some up \<Rightarrow> if up then done_result (''Process is ready on port '' @ itoa port) op []
           else Failed (''timeout waiting for process on port '' @ itoa port)) \<noteq> Hung) (w\<lparr>w_tick := Suc (w_tick w)\<rparr>, s)" for port
    by (rule wp_mono) (auto simp: done_result_def split: option.split if_splits)
  then show ?thesis
    by (cases "float_param op ''port''") (simp_all add: wait_execute_def assms(3) wp_on_os)
qed

text \<open>A machine on which nothing listens and every command answers with nothing.\<close>

lemma clock_free_ret: "clock_free (ret x)"
  by (simp add: clock_free_def)

lemma wait_returns_witness:
  "wp (wait_execute 4 (sample_op op_wait_for_process [(''port'', PV (GFloat 27017)), (''timeout'', PV (GFloat 3))]) (local_executor silent_machine))
    (\<lambda>r _. r \<noteq> Hung) (example_world, ())"
proof (rule wait_returns)
  show "wait_timeout (sample_op op_wait_for_process [(''port'', PV (GFloat 27017)), (''timeout'', PV (GFloat 3))]) = Some 3"
    using go_int_of_int [of 3]
    by (simp add: wait_timeout_def has_param_def float_param_def as_float_def param_def sample_op_def mhas_def)
qed (simp_all add: silent_machine_def clock_free_ret example_world_def second_def)

section \<open>Initiating a replica set once\<close>

text \<open>A driver that answers the status command like another one and does as it pleases with every other command.\<close>

definition after_status :: "mongo_driver \<Rightarrow> (string \<Rightarrow> bool \<Rightarrow> (string, goval) gomap \<Rightarrow> (string, goval) gomap res io) \<Rightarrow> mongo_driver" where
  "after_status dr f = dr\<lparr>dr_run := (\<lambda>h d cmd. if cmd = status_command then dr_run dr h d cmd else f h d cmd)\<rparr>"

lemma bind_cong_wp: "wp m (\<lambda>r s'. run_state (f r) s' = run_state (g r) s') s \<Longrightarrow> run_state (State_Monad.bind m f) s = run_state (State_Monad.bind m g) s"
  by (simp add: wp_def split: prod.splits)

definition reports_ok :: "(string, goval) gomap res \<Rightarrow> bool" where
  "reports_ok r = (case r of Inl _ \<Rightarrow> False | Inr status \<Rightarrow> mget status ''ok'' \<notin> {None, Some GNil})"

text \<open>
  C37. A replica set is initiated once: on a real machine, when the status of the set is reported, the handler sends
  nothing else and says that the set is initialized. So it behaves the same whatever the server would do with any other
  command, and an operation that is run again after a success does no harm.
\<close>
theorem initiate_once:
  assumes "\<And>h w. wp (dr_run dr h True status_command) (\<lambda>r _. reports_ok r) w"
  shows "run_state (replica_execute dr op (local_executor mc)) s = run_state (replica_execute (after_status dr f) op (local_executor mc)) s \<and>
    wp (replica_execute dr op (local_executor mc)) (\<lambda>r _. case r of Returned x \<Rightarrow> or_success x \<and> mget (or_metadata x) ''already_initialized'' = Some (GBool True)
       | Failed e \<Rightarrow> True | Panicked \<Rightarrow> False | Hung \<Rightarrow> False) s"
proof -
  have status: "wp (run_mongo dr (local_executor mc) h True status_command True) (\<lambda>r _. reports_ok r) t" for h t
    using assms by (cases t) (simp add: run_mongo_def wp_on_os)
  have same: "run_mongo (after_status dr f) (local_executor mc) h True status_command True = run_mongo dr (local_executor mc) h True status_command True"
    "new_mongo_client (after_status dr f) (local_executor mc) h d = new_mongo_client dr (local_executor mc) h d" for h d
    by (simp_all add: run_mongo_def after_status_def new_mongo_client_def)
  let ?tail = "\<lambda>dr rs ms docs host. do {
     s \<leftarrow> run_mongo dr (local_executor mc) host True status_command True;
     if (case s of Inl _ \<Rightarrow> False | Inr status \<Rightarrow> mget status ''ok'' \<notin> {None, Some GNil})
     then ret (already_initialized op rs ms) else initiate dr op (local_executor mc) host rs ms docs }"
  have once: "run_state (?tail dr rs ms docs host) t = run_state (?tail (after_status dr f) rs ms docs host) t" for rs ms docs host t
    unfolding same by (rule bind_cong_wp, rule wp_mono [OF status]) (auto simp: reports_ok_def)
  show ?thesis
  proof (cases "replica_params op")
    case (Inl e)
    then show ?thesis by (simp add: replica_execute_def)
  next
    case (Inr q)
    obtain rs ms docs where q: "q = (rs, ms, docs)" by (cases q) auto
    let ?m = "new_mongo_client dr (local_executor mc) (primary_host ms) True"
    have "run_state (replica_execute dr op (local_executor mc)) s = run_state (replica_execute (after_status dr f) op (local_executor mc)) s"
      unfolding replica_execute_def Inr q sum.case prod.case Let_def same(2) try_err_def
      by (rule bind_cong_wp, rule wpI, simp only: once split: option.split) simp
    moreover have "wp (replica_execute dr op (local_executor mc)) (\<lambda>r _. (\<exists>e. r = Failed e) \<or> r = already_initialized op rs ms) s"
      unfolding replica_execute_def Inr q sum.case prod.case Let_def wp_try_err
      by (rule wpI) (auto intro!: wp_mono [OF status] simp: reports_ok_def split: option.split)
    ultimately show ?thesis
      by (auto elim!: wp_mono simp: already_initialized_def done_result_def)
  qed
qed

lemma initiate_once_witness:
  "wp (replica_execute ready_driver (sample_op op_init_replica_set [(''replica_set'', PV (GStr ''rs'')), (''members'', PV (GStrs [''h:1'']))])
     (local_executor silent_machine)) (\<lambda>r _. case r of Returned x \<Rightarrow> or_success x | Failed e \<Rightarrow> True | Panicked \<Rightarrow> False | Hung \<Rightarrow> False)
   (example_world, ())"
proof -
  have "wp (dr_run ready_driver h True status_command) (\<lambda>r _. reports_ok r) w" for h w
    by (simp add: ready_driver_def reports_ok_def)
  from conjunct2 [OF initiate_once [OF this]] show ?thesis
    by (rule wp_mono) (auto split: outcome.splits)
qed

end
