(* ===== verification/Handler_Types.thy ===== *)
theory Handler_Types imports Operation_Exec begin

text \<open>
  A discipline of types for the parameters of operations. \<^verbatim>\<open>Params\<close> is a map of untyped values, and the handlers of
  \<^verbatim>\<open>pkg/operation\<close> assert the types they expect, some with and some without the second result: an assertion without it
  panics. The signature of an operation type says which parameters its handler reads and what it accepts for each. An
  operation that fits its signature never makes its handler panic.
\<close>

section \<open>Signatures\<close>

datatype param_kind = KStr | KNum | KFloat | KOptFloat | KOptBool | KMembers | KTopology

fun has_kind :: "param_kind \<Rightarrow> pval option \<Rightarrow> bool" where
  "has_kind KStr v = (as_str v \<noteq> None)"
| "has_kind KNum v = (as_int v \<noteq> None \<or> as_float v \<noteq> None)"
| "has_kind KFloat v = (as_float v \<noteq> None)"
| "has_kind KOptFloat v = (v = None \<or> as_float v \<noteq> None)"
| "has_kind KOptBool v = (case v of None \<Rightarrow> True | Some (PV (GBool _)) \<Rightarrow> True | _ \<Rightarrow> False)"
| "has_kind KMembers v = (case v of
     Some (PV (GStrs _)) \<Rightarrow> True
   | Some (PV (GList ms)) \<Rightarrow> list_all (\<lambda>m. as_str (Some (PV m)) \<noteq> None) ms
   | _ \<Rightarrow> False)"
| "has_kind KTopology v = topology_kind_ok v"

definition signatures :: "(operation_type, (string \<times> param_kind) list) gomap" where
  "signatures = [
     (op_download_binary, []),
     (op_copy_binary, [(''source_path'', KStr), (''dest_dir'', KStr), (''version'', KStr)]),
     (op_create_directory, [(''path'', KStr), (''mode'', KNum)]),
     (op_create_symlink, [(''link_path'', KStr), (''target_path'', KStr)]),
     (op_upload_file, [(''local_path'', KStr), (''remote_path'', KStr)]),
     (op_remove_directory, [(''path'', KStr), (''recursive'', KOptBool)]),
     (op_start_supervisor, [(''cluster_dir'', KStr), (''cluster_name'', KStr)]),
     (op_start_process, [(''program_name'', KStr), (''supervisor_config'', KStr), (''supervisor_port'', KNum)]),
     (op_generate_config, [(''config_path'', KStr), (''role'', KStr), (''version'', KStr), (''port'', KNum)]),
     (op_wait_for_process, [(''port'', KFloat), (''timeout'', KOptFloat)]),
     (op_wait_for_ready, []),
     (op_init_replica_set, [(''replica_set'', KStr), (''members'', KMembers)]),
     (op_add_shard, [(''shard_name'', KStr), (''connection_string'', KStr), (''mongos_host'', KStr)]),
     (op_verify_health, []),
     (op_save_metadata, []),
     (op_stop_process, [(''pid'', KFloat)]),
     (op_generate_supervisor_cfg, [(''cluster_dir'', KStr), (''cluster_name'', KStr), (''version'', KStr), (''bin_path'', KStr),
        (''topology'', KTopology)])]"

definition well_typed :: "planned_operation \<Rightarrow> bool" where
  "well_typed op = (case mget signatures (po_type op) of
     None \<Rightarrow> False
   | Some sig \<Rightarrow> list_all (\<lambda>(k, kd). has_kind kd (param op k)) sig)"

section \<open>Programs that do not panic\<close>

definition calm :: "('s, 'a outcome) prog \<Rightarrow> bool" where
  "calm m = (\<forall>s. wp m (\<lambda>r _. r \<noteq> Panicked) s)"

named_theorems calm_intros \<open>programs that do not panic\<close>

lemma calm_ret [simp]: "calm (ret x) = (x \<noteq> Panicked)"
  by (simp add: calm_def)

lemma calm_bind [calm_intros]: "(\<And>x. calm (f x)) \<Longrightarrow> calm (State_Monad.bind m f)"
  unfolding calm_def by (metis (no_types, lifting) wp_bind wp_mono wp_trivial(1))

text \<open>A result that is passed on.\<close>

lemma calm_pass:
  assumes "calm m" "\<And>r. r \<noteq> Panicked \<Longrightarrow> calm (f r)"
  shows "calm (State_Monad.bind m f)"
  unfolding calm_def wp_bind
proof
  fix s
  have "wp m (\<lambda>r _. r \<noteq> Panicked) s" using assms(1) unfolding calm_def ..
  then show "wp m (\<lambda>x. wp (f x) (\<lambda>r _. r \<noteq> Panicked)) s"
    by (rule wp_mono) (use assms(2) in \<open>unfold calm_def, blast\<close>)
qed

lemma calm_want [calm_intros]: "(\<And>y. calm (f y)) \<Longrightarrow> calm (want e x f)"
  by (simp add: want_def split: option.split)

lemma calm_expect [calm_intros]: "x \<noteq> None \<Longrightarrow> (\<And>y. calm (f y)) \<Longrightarrow> calm (expect x f)"
  by (auto simp: expect_def split: option.split)

lemma calm_try_res [calm_intros]: "(\<And>x. calm (f x)) \<Longrightarrow> calm (try_res p m f)"
  unfolding try_res_def by (intro calm_intros) (simp split: sum.split)

lemma calm_try_err [calm_intros]: "calm n \<Longrightarrow> calm (try_err p m n)"
  unfolding try_err_def by (intro calm_intros) (simp split: option.split)

lemma calm_if [calm_intros]: "(b \<Longrightarrow> calm m) \<Longrightarrow> (\<not> b \<Longrightarrow> calm n) \<Longrightarrow> calm (if b then m else n)"
  by simp

lemma calm_option [calm_intros]:
  "(x = None \<Longrightarrow> calm m) \<Longrightarrow> (\<And>y. x = Some y \<Longrightarrow> calm (f y)) \<Longrightarrow> calm (case x of None \<Rightarrow> m | Some y \<Rightarrow> f y)"
  by (cases x) simp_all

lemma calm_sum [calm_intros]:
  "(\<And>y. x = Inl y \<Longrightarrow> calm (f y)) \<Longrightarrow> (\<And>y. x = Inr y \<Longrightarrow> calm (g y)) \<Longrightarrow> calm (case x of Inl y \<Rightarrow> f y | Inr y \<Rightarrow> g y)"
  by (cases x) simp_all

lemma calm_prod [calm_intros]: "(\<And>y z. x = (y, z) \<Longrightarrow> calm (f y z)) \<Longrightarrow> calm (case x of (y, z) \<Rightarrow> f y z)"
  by (cases x) simp_all

lemma done_not_panicked [simp]: "done_result out op meta \<noteq> Panicked"
  by (simp add: done_result_def)

definition calm_phases :: "'s handler \<Rightarrow> planned_operation \<Rightarrow> 's host_exec \<Rightarrow> bool" where
  "calm_phases h op hx = (calm (hd_is_complete h op hx) \<and> calm (hd_pre_hook h op hx) \<and>
     calm (hd_execute h op hx) \<and> calm (hd_post_hook h op hx))"

section \<open>The handlers\<close>

lemma calm_copy_binaries: "calm (copy_binaries hx source dest bs copied)"
proof (induction bs arbitrary: copied)
  case (Cons b bs)
  then show ?case unfolding copy_binaries.simps Let_def by (intro calm_intros)
qed simp

lemmas calm_pieces = exists_quiet_def check_exists_def confirm_def warn_exists_def symlink_existing_def symlink_parent_def
  already_initialized_def verify_primary_def initiate_def already_added_def

lemma calm_download: "bm \<noteq> None \<Longrightarrow> calm_phases (download_binary_handler bm) op hx"
  unfolding calm_phases_def download_binary_handler_def handler.simps download_execute_def download_post_hook_def Let_def
  by (intro conjI calm_intros) simp_all

lemma calm_copy_execute: "calm (copy_execute op hx)"
  unfolding copy_execute_def
  by (intro calm_want calm_pass [OF calm_copy_binaries]) (simp split: outcome.split)

lemma calm_copy: "calm_phases copy_binary_handler op hx"
  unfolding calm_phases_def copy_binary_handler_def handler.simps copy_is_complete_def copy_pre_hook_def copy_post_hook_def
  by (intro conjI calm_copy_execute calm_intros) simp_all

lemma calm_directory: "as_str (param op ''path'') \<noteq> None \<Longrightarrow> calm_phases create_directory_handler op hx"
  unfolding calm_phases_def create_directory_handler_def handler.simps directory_is_complete_def directory_pre_hook_def
    directory_execute_def directory_post_hook_def calm_pieces str_param_def
  by (intro conjI calm_intros) simp_all

lemma calm_symlink:
  "as_str (param op ''link_path'') \<noteq> None \<Longrightarrow> as_str (param op ''target_path'') \<noteq> None \<Longrightarrow> calm_phases create_symlink_handler op hx"
  unfolding calm_phases_def create_symlink_handler_def handler.simps symlink_is_complete_def symlink_pre_hook_def
    symlink_execute_def symlink_post_hook_def calm_pieces str_param_def
  by (intro conjI calm_intros) (simp_all split: option.split sum.split)

lemma calm_upload:
  "as_str (param op ''local_path'') \<noteq> None \<Longrightarrow> as_str (param op ''remote_path'') \<noteq> None \<Longrightarrow> calm_phases upload_file_handler op hx"
  unfolding calm_phases_def upload_file_handler_def handler.simps upload_is_complete_def upload_pre_hook_def
    upload_execute_def upload_post_hook_def calm_pieces str_param_def
  by (intro conjI calm_intros) simp_all

lemma calm_remove:
  "as_str (param op ''path'') \<noteq> None \<Longrightarrow> has_kind KOptBool (param op ''recursive'') \<Longrightarrow> calm_phases remove_directory_handler op hx"
  unfolding calm_phases_def remove_directory_handler_def handler.simps remove_is_complete_def remove_pre_hook_def
    remove_execute_def remove_post_hook_def calm_pieces str_param_def Let_def
  by (intro conjI calm_intros) (auto split: option.splits pval.splits goval.splits)

lemma calm_start_supervisor: "calm_phases (start_supervisor_handler so) op hx"
  unfolding calm_phases_def start_supervisor_handler_def handler.simps daemon_pre_hook_def daemon_execute_def daemon_post_hook_def Let_def
  by (intro conjI calm_intros) simp_all

lemma calm_start_process: "calm_phases (start_process_handler so) op hx"
  unfolding calm_phases_def start_process_handler_def handler.simps start_pre_hook_def start_execute_def start_post_hook_def Let_def
  by (intro conjI calm_intros) simp_all

lemma calm_config: "calm_phases (generate_config_handler gv ff) op hx"
  unfolding calm_phases_def generate_config_handler_def handler.simps config_is_complete_def config_pre_hook_def
    config_execute_def config_post_hook_def calm_pieces Let_def
  by (intro conjI calm_intros) simp_all

lemma calm_wait:
  "as_float (param op ''port'') \<noteq> None \<Longrightarrow> has_kind KOptFloat (param op ''timeout'') \<Longrightarrow> calm_phases (wait_for_process_handler n) op hx"
  unfolding calm_phases_def wait_for_process_handler_def handler.simps wait_execute_def wait_pre_hook_def float_param_def
    wait_timeout_def has_param_def
  by (intro conjI calm_intros) (auto simp: mhas_def param_def split: option.split)

lemma calm_ready: "calm_phases wait_for_ready_handler op hx"
  unfolding calm_phases_def wait_for_ready_handler_def handler.simps ready_execute_def Let_def
  by (simp split: sum.split)

lemma calm_replica: "calm_phases (init_replica_set_handler dr) op hx"
  unfolding calm_phases_def init_replica_set_handler_def handler.simps replica_execute_def replica_pre_hook_def replica_post_hook_def
    calm_pieces Let_def
  by (intro conjI calm_intros) simp_all

lemma calm_shard: "calm_phases (add_shard_handler dr) op hx"
  unfolding calm_phases_def add_shard_handler_def handler.simps shard_execute_def shard_pre_hook_def shard_post_hook_def
    calm_pieces Let_def
  by (intro conjI calm_intros) (simp_all split: sum.split)

lemma calm_health: "calm_phases verify_health_handler op hx"
  unfolding calm_phases_def verify_health_handler_def handler.simps health_execute_def
  by (intro conjI calm_intros) simp_all

lemma calm_metadata: "calm_phases (save_metadata_handler ym env storage) op hx"
  unfolding calm_phases_def save_metadata_handler_def handler.simps metadata_execute_def
  by (intro conjI calm_intros) simp_all

lemma calm_stop: "as_float (param op ''pid'') \<noteq> None \<Longrightarrow> calm_phases stop_process_handler op hx"
  unfolding calm_phases_def stop_process_handler_def handler.simps stop_is_complete_def stop_pre_hook_def stop_execute_def
    stop_post_hook_def float_param_def
  by (intro conjI calm_intros) simp_all

lemma calm_supervisor:
  assumes "as_str (param op ''cluster_dir'') \<noteq> None" "as_str (param op ''cluster_name'') \<noteq> None"
    "as_str (param op ''version'') \<noteq> None" "as_str (param op ''bin_path'') \<noteq> None"
  shows "calm_phases (generate_supervisor_handler env) op hx"
  unfolding calm_phases_def generate_supervisor_handler_def handler.simps supervisor_is_complete_def supervisor_pre_hook_def
    supervisor_execute_def supervisor_post_hook_def calm_pieces str_param_def Let_def
  by (intro conjI calm_intros assms) simp_all

section \<open>Plans that go through a file\<close>

text \<open>JSON changes the dynamic types of parameters, but into types that the signatures accept as well.\<close>

lemma as_str_iff: "as_str (Some (PV g)) \<noteq> None \<longleftrightarrow> (\<exists>s. g = GStr s)"
  by (cases g) (simp_all add: as_str_def)

lemma members_norm:
  "list_all (\<lambda>m. as_str (Some (PV m)) \<noteq> None) ms \<Longrightarrow> list_all (\<lambda>m. as_str (Some (PV m)) \<noteq> None) (map norm_val ms)"
  unfolding as_str_iff by (fastforce simp: list_all_iff)

lemma has_kind_norm: "has_kind kd v \<Longrightarrow> has_kind kd (map_option norm_pval v)"
proof (cases v)
  case (Some x)
  assume k: "has_kind kd v"
  show ?thesis
  proof (cases x)
    case (PV g)
    with k Some show ?thesis
      by (cases kd; cases g) (use members_norm in \<open>auto simp: norm_pval_def enc_pval_def as_str_def as_int_def as_float_def
        topology_kind_ok_def list_all_iff\<close>)
  next
    case (PTopology t)
    obtain m where "dec_val (enc_topology t) = GMap m" by (simp add: enc_topology_def jobj_def)
    with k Some PTopology show ?thesis
      by (cases kd) (auto simp: norm_pval_def enc_pval_def as_str_def as_int_def as_float_def topology_kind_ok_def)
  qed
qed (cases kd; simp add: as_str_def as_int_def as_float_def topology_kind_ok_def)

lemma well_typed_norm: "well_typed op \<Longrightarrow> well_typed (norm_planned_operation op)"
proof -
  have "po_type (norm_planned_operation op) = po_type op" by (simp add: norm_planned_operation_def)
  then show "well_typed op \<Longrightarrow> ?thesis"
    by (auto simp: well_typed_def param_norm list_all_iff has_kind_norm split: option.splits)
qed

lemma well_typed_id [simp]: "well_typed (op\<lparr>po_id := i\<rparr>) = well_typed op"
proof -
  have "param (op\<lparr>po_id := i\<rparr>) k = param op k" for k by (simp add: param_def)
  then show ?thesis unfolding well_typed_def by (simp cong: option.case_cong prod.case_cong)
qed

section \<open>Soundness\<close>

text \<open>The handler that is registered for each signature.\<close>

lemma typed_handler:
  assumes "well_typed op" "oe_bin E \<noteq> None"
  shows "\<exists>h. mget (default_handlers E storage) (po_type op) = Some h \<and> calm_phases h op hx"
proof -
  obtain sig where sig: "mget signatures (po_type op) = Some sig" "list_all (\<lambda>(k, kd). has_kind kd (param op k)) sig"
    using assms(1) by (auto simp: well_typed_def split: option.splits)
  have "(po_type op, sig) \<in> set signatures" by (rule map_of_SomeD [OF sig(1)])
  then show ?thesis
    unfolding signatures_def list.set insert_iff empty_iff prod.inject
    by (elim disjE conjE; insert sig(2) assms(2))
      (simp_all add: default_handlers_def op_type_defs calm_download calm_copy calm_directory calm_symlink calm_upload calm_remove
        calm_start_supervisor calm_start_process calm_config calm_wait calm_ready calm_replica calm_shard calm_health calm_metadata
        calm_stop calm_supervisor)
qed

text \<open>
  Types of parameters are enough: when an operation fits the signature of its type, a handler is registered for it, no
  phase of that handler panics on any executor and in any world, and neither executing nor validating the operation does
  (with a binary manager that could be made). The operation still fits after it was saved and loaded.
\<close>
theorem well_typed_never_panics:
  assumes "well_typed op" "oe_bin E \<noteq> None"
  shows "(\<exists>h. mget (oex_handlers (new_executor E executors)) (po_type op) = Some h \<and> calm_phases h op hx) \<and>
    calm (execute_op (new_executor E executors) op) \<and> calm (validate_op (new_executor E executors) op) \<and>
    well_typed (norm_planned_operation op)"
proof -
  have h: "\<exists>h. mget (oex_handlers (new_executor E executors)) (po_type op) = Some h \<and> calm_phases h op hx" for hx
    unfolding registered by (rule typed_handler [OF assms])
  then obtain h where h1: "mget (oex_handlers (new_executor E executors)) (po_type op) = Some h" by blast
  then have ok: "calm (hd_execute h op hx)" "calm (hd_pre_hook h op hx)" for hx using h [of hx] by (auto simp: calm_phases_def)
  have "calm (execute_op (new_executor E executors) op)"
    unfolding execute_op_def h1 option.case
    by (intro calm_sum calm_pass [OF ok(1)]) (simp_all split: outcome.split)
  moreover have "calm (validate_op (new_executor E executors) op)"
    unfolding validate_op_def h1 option.case
    by (intro calm_sum calm_try_err calm_pass [OF ok(2)]) (simp_all split: outcome.split)
  ultimately show ?thesis using h well_typed_norm [OF assms(1)] by blast
qed

definition stocked_env :: op_env where
  "stocked_env = example_op_env\<lparr>oe_bin := Some (\<lambda>_ _ _ _. ret (Ok ''/opt/mongodb/bin''))\<rparr>"

lemma well_typed_never_panics_witness:
  "calm (execute_op (new_executor stocked_env [(''localhost'', local_executor silent_machine)])
     (sample_op op_stop_process [(''pid'', PV (GFloat 42))]))"
proof -
  have "well_typed (sample_op op_stop_process [(''pid'', PV (GFloat 42))])"
    by (simp add: well_typed_def signatures_def op_type_defs sample_op_def param_def as_float_def)
  moreover have "oe_bin stocked_env \<noteq> None" by (simp add: stocked_env_def)
  ultimately show ?thesis by (blast dest: well_typed_never_panics)
qed

text \<open>A value that does not fit its signature does make a handler panic: the process number of a plan that was not loaded.\<close>

lemma ill_typed_panics:
  "\<not> calm (execute_op (new_executor E [(h, local_executor mc :: unit host_exec)]) (sample_op op_stop_process [(''pid'', PV (GInt 42))]))"
proof -
  let ?op = "sample_op op_stop_process [(''pid'', PV (GInt 42))]"
  have handler: "mget (oex_handlers (new_executor E [(h, local_executor mc :: unit host_exec)])) (po_type ?op) = Some stop_process_handler"
    unfolding registered by (simp add: default_handlers_def op_type_defs sample_op_def)
  have ex: "get_executor (new_executor E [(h, local_executor mc :: unit host_exec)]) ?op = Ok (local_executor mc)"
    by (simp add: get_executor_def executors_kept sample_op_def)
  have "stop_execute ?op (local_executor mc :: unit host_exec) = ret Panicked"
    by (simp add: stop_execute_def float_param_def as_float_def param_def expect_def sample_op_def)
  then show ?thesis unfolding execute_op_def handler ex
    by (simp add: stop_process_handler_def calm_def)
qed

end
