(* ===== verification/Deploy_Planner.thy ===== *)
theory Deploy_Planner imports Handler_Types Paths Validator Port_Alloc Versions begin

text \<open>
  \<^verbatim>\<open>pkg/deploy/planner.go\<close>: the plan of a deployment, made from the topology. What it plans, the handlers of
  \<open>Operation_Exec\<close> execute under the applier of \<open>Applier\<close>.

  The order in which Go walks over a map is left open: the executors and the maps from replica sets to members are lists
  whose order is arbitrary for the executors, and given by a permutation \<open>shuffle\<close> for the maps that the planner builds.
\<close>

section \<open>The planner\<close>

record 's planner_config =
  pc_name :: string
  pc_version :: string
  pc_variant :: variant
  pc_topology :: topology
  pc_executors :: "(string, 's host_exec) gomap"
  pc_meta_dir :: string
  pc_local :: bool
  pc_bin_path :: string
  pc_dry_run :: bool

record 's deploy_planner =
  dp_name :: string
  dp_version :: string
  dp_variant :: variant
  dp_topology :: topology
  dp_executors :: "(string, 's host_exec) gomap"
  dp_meta_dir :: string
  dp_local :: bool
  dp_bin_path :: string
  dp_dry_run :: bool
  dp_layout :: string
  dp_resolver :: local_resolver

definition new_deploy_planner :: "'s planner_config \<Rightarrow> 's deploy_planner" where
  "new_deploy_planner c = \<lparr>dp_name = pc_name c, dp_version = pc_version c, dp_variant = pc_variant c,
     dp_topology = pc_topology c, dp_executors = pc_executors c, dp_meta_dir = pc_meta_dir c, dp_local = pc_local c,
     dp_bin_path = pc_bin_path c, dp_dry_run = pc_dry_run c, dp_layout = pc_meta_dir c,
     dp_resolver = \<lparr>lr_dir = pc_meta_dir c, lr_version = pc_version c\<rparr>\<rparr>"

text \<open>\<^verbatim>\<open>x, _ := f()\<close>: the value beside an error is empty.\<close>

definition or_empty :: "string res \<Rightarrow> string" where
  "or_empty r = (case r of Inl _ \<Rightarrow> [] | Inr s \<Rightarrow> s)"

definition normalize_host :: "string \<Rightarrow> string" where
  "normalize_host host = (if host = ''localhost'' then ''127.0.0.1'' else host)"

definition get_all_ports :: "'s deploy_planner \<Rightarrow> int list" where
  "get_all_ports p =
     filter (\<lambda>x. x > 0) (map md_port (t_mongod (dp_topology p)))
     @ filter (\<lambda>x. x > 0) (map cs_port (t_config_svr (dp_topology p)))
     @ filter (\<lambda>x. x > 0) (map ms_port (t_mongos (dp_topology p)))"

definition planner_data_dir :: "'s deploy_planner \<Rightarrow> string \<Rightarrow> int \<Rightarrow> string \<Rightarrow> string" where
  "planner_data_dir p host port default_dir =
     (if dp_local p then node_data_dir (dp_layout p) host port
      else path_join [default_dir, ''mongod-'' @ itoa port])"

definition planner_log_dir_with_type :: "'s deploy_planner \<Rightarrow> string \<Rightarrow> int \<Rightarrow> string \<Rightarrow> string \<Rightarrow> string" where
  "planner_log_dir_with_type p host port default_dir node_type =
     (if dp_local p then or_empty (local_log_dir (dp_resolver p) node_type host port)
      else path_join [default_dir, node_type @ ''-'' @ itoa port])"

definition planner_log_dir :: "'s deploy_planner \<Rightarrow> string \<Rightarrow> int \<Rightarrow> string \<Rightarrow> string" where
  "planner_log_dir p host port default_dir = planner_log_dir_with_type p host port default_dir ''mongod''"

text \<open>A member of a replica set, as the server is told of it.\<close>

definition member_addr :: "string \<Rightarrow> int \<Rightarrow> string" where
  "member_addr host port = normalize_host host @ '':'' @ itoa port"

definition config_server_connection :: "'s deploy_planner \<Rightarrow> string" where
  "config_server_connection p = (case t_config_svr (dp_topology p) of
     [] \<Rightarrow> []
   | c # _ \<Rightarrow> cs_replica_set c @ ''/''
       @ join_with '','' (map (\<lambda>cs. member_addr (cs_host cs) (cs_port cs)) (t_config_svr (dp_topology p))))"

definition planner_allocate_ports :: "(nat \<Rightarrow> int \<Rightarrow> bool) \<Rightarrow> 's deploy_planner \<Rightarrow> err option \<times> 's deploy_planner" where
  "planner_allocate_ports avail p =
     (if \<not> dp_local p then (None, p)
      else case allocate_ports_for_topology avail (dp_topology p) of (e, t) \<Rightarrow> (e, p\<lparr>dp_topology := t\<rparr>))"

section \<open>Validation\<close>

text \<open>
  The loop that looks for the closest directory that exists. It ends: the parent of a path is shorter, or one of the two
  paths that have no parent.
\<close>

definition comps_size :: "string list \<Rightarrow> nat" where
  "comps_size cs = sum_list (map (\<lambda>c. Suc (length c)) cs)"

lemma comps_size_simps [simp]:
  "comps_size [] = 0" "comps_size (c # cs) = Suc (length c) + comps_size cs" "comps_size (cs @ ds) = comps_size cs + comps_size ds"
  "comps_size (rev cs) = comps_size cs"
  by (simp_all add: comps_size_def rev_map [symmetric])

lemma clean_comps_size: "comps_size (clean_comps r st cs) \<le> comps_size st + comps_size cs"
proof (induction cs arbitrary: st)
  case (Cons c cs)
  show ?case using Cons [of st] Cons [of "c # st"] Cons [of "dotdot # st"] Cons [of "[dotdot]"] Cons [of "[]"] Cons [of "tl st"]
    by (cases st) (auto simp: dotdot_def)
qed simp

lemma join_size: "xs \<noteq> [] \<Longrightarrow> Suc (length (join_with [slash] xs)) = comps_size xs"
  by (induction "[slash]" xs rule: join_with.induct) auto

lemma join_size_le: "length (join_with [slash] xs) \<le> comps_size xs - 1"
  by (cases "xs = []") (auto simp: join_size [symmetric])

lemma split_size: "comps_size (split_on slash s) = Suc (length s)"
  using join_size [of "split_on slash s"] by simp

lemma split_on_last: "split_on sep (x @ [sep]) = split_on sep x @ [[]]"
  by (induction x) (auto split: list.split)

lemma clean_comps_last: "clean_comps r st (cs @ [[]]) = clean_comps r st cs"
  by (induction r st cs rule: clean_comps.induct) (auto split: list.split)

lemma path_clean_shorter:
  assumes "x \<noteq> []"
  shows "length (path_clean (x @ [slash])) \<le> length x"
proof (cases "is_abs x")
  case True
  then obtain y where x: "x = slash # y" by (cases x) (auto simp: is_abs_def)
  have "comps_size (clean_comps True [] (split_on slash y)) \<le> Suc (length y)"
    using clean_comps_size [of True "[]" "split_on slash y"] by (simp add: split_size)
  then have "length (join_with [slash] (clean_comps True [] (split_on slash y))) \<le> length y"
    using join_size_le [of "clean_comps True [] (split_on slash y)"] by linarith
  then show ?thesis
    unfolding path_clean_def Let_def split_on_last clean_comps_last x by (simp add: split_on_last clean_comps_last)
next
  case False
  have "comps_size (clean_comps False [] (split_on slash x)) \<le> Suc (length x)"
    using clean_comps_size [of False "[]" "split_on slash x"] by (simp add: split_size)
  then have "length (join_with [slash] (clean_comps False [] (split_on slash x))) \<le> length x"
    using join_size_le [of "clean_comps False [] (split_on slash x)"] by linarith
  moreover have "\<not> is_abs (x @ [slash])" using False assms by (cases x) (auto simp: is_abs_def)
  ultimately show ?thesis using assms
    unfolding path_clean_def Let_def split_on_last clean_comps_last by (cases x) (auto simp: dot_def)
qed

lemma path_dir_shorter:
  "path_dir p = [slash] \<or> path_dir p = dot \<or> length (path_dir p) < length p"
proof -
  define q where "q = rev (dropWhile (\<lambda>c. c \<noteq> slash) (rev p))"
  have le: "length q \<le> length p" unfolding q_def using length_dropWhile_le [of _ "rev p"] by simp
  consider "q = []" | x where "q = x @ [slash]"
    unfolding q_def by (cases "dropWhile (\<lambda>c. c \<noteq> slash) (rev p)") (auto dest: dropWhile_eq_Cons_conv [THEN iffD1])
  then show ?thesis
  proof cases
    case 1
    then show ?thesis by (simp add: path_dir_def q_def [symmetric] path_clean_def)
  next
    case 2
    show ?thesis
    proof (cases "x = []")
      case True
      then show ?thesis by (simp add: path_dir_def q_def [symmetric] 2 path_clean_def is_abs_def Let_def)
    next
      case False
      then show ?thesis using path_clean_shorter [OF False] le by (simp add: path_dir_def q_def [symmetric] 2)
    qed
  qed
qed

function closest_space :: "('s host_exec) \<Rightarrow> string \<Rightarrow> string \<Rightarrow> ('s, string res) prog" where
  "closest_space hx meta_dir path =
     (if path = [slash] \<or> path = dot then ret (Err (''failed to check disk space for any parent of '' @ meta_dir))
      else do {
        r \<leftarrow> hx_get_disk_space hx path;
        case r of
          Inr available \<Rightarrow> (let gb = of_nat (unat available) / gib in
            ret (if gb < 10 then Err (''insufficient disk space: '' @ fmt_2f gb @ ''GB available, 10GB required'')
                 else Ok (fmt_2f gb @ ''GB available'')))
        | Inl _ \<Rightarrow> closest_space hx meta_dir (path_dir path) })"
  by pat_completeness auto
termination
proof (relation "measure (\<lambda>(hx, m, p). if p = [slash] \<or> p = dot then 0 else Suc (length p))", goal_cases)
  case (2 hx m path)
  then show ?case using path_dir_shorter [of path] by auto
qed simp

declare closest_space.simps [simp del]

text \<open>The port checks use the executor that a walk over the map gives first; without any they call a method of nil.\<close>

definition connectivity_check :: "string \<times> 's host_exec \<Rightarrow> 's check" where
  "connectivity_check h = measured_check_with_host ''connectivity'' (fst h) (do {
     e \<leftarrow> hx_check_connectivity (snd h);
     ret (case e of Some m \<Rightarrow> Err m | None \<Rightarrow> Ok ''Connected successfully'') })"

definition disk_space_check :: "string \<Rightarrow> string \<times> 's host_exec \<Rightarrow> 's check" where
  "disk_space_check meta_dir h = measured_check_with_host ''disk_space'' (fst h) (closest_space (snd h) meta_dir meta_dir)"

definition planned_port_check :: "'s host_exec \<Rightarrow> int \<Rightarrow> 's check" where
  "planned_port_check hx port = measured_check (''port_'' @ itoa port) (do {
     r \<leftarrow> hx_check_port_available hx port;
     ret (case r of
       Inl e \<Rightarrow> Err e
     | Inr available \<Rightarrow> if available then Ok (''Port '' @ itoa port @ '' is available'')
         else Err (''port '' @ itoa port @ '' is already in use'')) })"

definition planner_checks :: "'s deploy_planner \<Rightarrow> 's check list option" where
  "planner_checks p =
     (let host_checks = map connectivity_check (dp_executors p) @ map (disk_space_check (dp_meta_dir p)) (dp_executors p) in
      if \<not> dp_local p then Some host_checks
      else case dp_executors p of
          [] \<Rightarrow> if get_all_ports p = [] then Some host_checks else None
        | (_, hx) # _ \<Rightarrow> Some (host_checks @ map (planned_port_check hx) (get_all_ports p)))"

definition planner_validate :: "nat list \<Rightarrow> 's deploy_planner \<Rightarrow> ('s, validation_result outcome) prog" where
  "planner_validate arrival p = expect (planner_checks p) (\<lambda>cs. do {
     v \<leftarrow> run_validation arrival (fold add_validator cs (new_validation_runner True));
     ret (Returned v) })"

section \<open>Operations\<close>

definition targeting :: "string \<Rightarrow> string \<Rightarrow> op_target" where
  "targeting ty name = \<lparr>tg_type = ty, tg_name = name, tg_host = [], tg_port = 0, tg_params = []\<rparr>"

definition node_target :: "string \<Rightarrow> string \<Rightarrow> string \<Rightarrow> int \<Rightarrow> op_target" where
  "node_target ty name host port = (targeting ty name)\<lparr>tg_host := host, tg_port := port\<rparr>"

definition change_of :: "string \<Rightarrow> string \<Rightarrow> string \<Rightarrow> change" where
  "change_of ty i action = \<lparr>ch_type = ty, ch_id = i, ch_action = action, ch_before = GNil, ch_after = GNil\<rparr>"

abbreviation creates :: "string \<Rightarrow> string \<Rightarrow> change" where
  "creates ty i \<equiv> change_of ty i ''create''"

text \<open>An operation as the literals of the source give it; \<open>numbered\<close> adds the identifier, which counts the operations of the phase.\<close>

definition planned :: "operation_type \<Rightarrow> string \<Rightarrow> op_target \<Rightarrow> (string, pval) gomap \<Rightarrow> change list \<Rightarrow> bool \<Rightarrow> planned_operation" where
  "planned ty desc tg ps chs par = \<lparr>po_id = [], po_type = ty, po_description = desc, po_target = tg, po_pre = [],
     po_changes = chs, po_depends = [], po_parallel = par, po_params = ps\<rparr>"

definition numbered :: "string \<Rightarrow> planned_operation list \<Rightarrow> planned_operation list" where
  "numbered phase ops = map (\<lambda>(i, op). op\<lparr>po_id := new_operation_id phase i\<rparr>) (enumerate 0 ops)"

definition phase_of :: "string \<Rightarrow> string \<Rightarrow> int \<Rightarrow> planned_operation list \<Rightarrow> string \<Rightarrow> planned_phase" where
  "phase_of name desc n ops duration = \<lparr>ph_name = name, ph_description = desc, ph_order = n,
     ph_operations = numbered name ops, ph_before = None, ph_after = None, ph_duration = duration\<rparr>"

abbreviation pstr :: "string \<Rightarrow> string \<Rightarrow> string \<times> pval" where
  "pstr k s \<equiv> (k, PV (GStr s))"

abbreviation pint :: "string \<Rightarrow> int \<Rightarrow> string \<times> pval" where
  "pint k i \<equiv> (k, PV (GInt i))"

section \<open>Prepare\<close>

definition planner_binary_path :: "'s deploy_planner \<Rightarrow> string" where
  "planner_binary_path p = path_join [dp_bin_path p, ''mongodb-'' @ variant_string (dp_variant p) @ ''-'' @ dp_version p]"

definition download_op :: "'s deploy_planner \<Rightarrow> planned_operation" where
  "download_op p = planned op_download_binary
     (''Download MongoDB '' @ dp_version p @ '' ('' @ variant_string (dp_variant p) @ '') binary to '' @ planner_binary_path p)
     ((targeting ''binary'' (''mongodb-'' @ dp_version p))\<lparr>tg_params := [(''version'', dp_version p),
        (''variant'', variant_string (dp_variant p)), (''path'', planner_binary_path p)]\<rparr>)
     [] [creates ''file'' (planner_binary_path p)] False"

definition node_dirs :: "'s deploy_planner \<Rightarrow> string \<Rightarrow> string \<Rightarrow> int \<Rightarrow> string list" where
  "node_dirs p ty host port =
     [or_empty (local_config_dir (dp_resolver p) ty host port), or_empty (local_log_dir (dp_resolver p) ty host port)]"

definition dirs_to_create :: "'s deploy_planner \<Rightarrow> string list" where
  "dirs_to_create p = (let t = dp_topology p in
     [layout_bin_dir (dp_layout p) (dp_version p), layout_data_dir (dp_layout p), path_join [dp_meta_dir p, ''tmp'']]
     @ map (\<lambda>n. node_data_dir (dp_layout p) (md_host n) (md_port n)) (t_mongod t)
     @ map (\<lambda>n. node_data_dir (dp_layout p) (cs_host n) (cs_port n)) (t_config_svr t)
     @ concat (map (\<lambda>n. node_dirs p ''mongod'' (md_host n) (md_port n)) (t_mongod t))
     @ concat (map (\<lambda>n. node_dirs p ''config'' (cs_host n) (cs_port n)) (t_config_svr t))
     @ concat (map (\<lambda>n. node_dirs p ''mongos'' (ms_host n) (ms_port n)) (t_mongos t)))"

definition mkdir_op :: "string \<Rightarrow> planned_operation" where
  "mkdir_op dir = planned op_create_directory (''Create directory: '' @ dir) (targeting ''directory'' dir)
     [pstr ''path'' dir, pint ''mode'' 493] [creates ''directory'' dir] True"

definition copy_op :: "'s deploy_planner \<Rightarrow> planned_operation" where
  "copy_op p = (let bin = layout_bin_dir (dp_layout p) (dp_version p) in
     planned op_copy_binary (''Copy MongoDB binaries to cluster bin directory: '' @ bin)
       (targeting ''binary'' (''mongodb-'' @ dp_version p))
       [pstr ''source_path'' (planner_binary_path p), pstr ''dest_dir'' bin, pstr ''version'' (dp_version p),
        pstr ''variant'' (variant_string (dp_variant p))]
       [creates ''file'' (path_join [bin, ''mongod'']), creates ''file'' (path_join [bin, ''mongos'']),
        creates ''file'' (path_join [bin, ''mongosh''])] False)"

definition prepare_phase :: "'s deploy_planner \<Rightarrow> planned_phase" where
  "prepare_phase p = phase_of ''prepare'' ''Download binaries and create directory structure'' 1
     (download_op p # map mkdir_op (dirs_to_create p) @ [copy_op p]) ''2 minutes''"

section \<open>Deploy\<close>

definition planned_config_path :: "'s deploy_planner \<Rightarrow> string \<Rightarrow> string \<Rightarrow> int \<Rightarrow> string" where
  "planned_config_path p ty host port = or_empty (local_config_file (dp_resolver p) ty host port)"

definition bind_both :: string where "bind_both = ''127.0.0.1,::1''"

definition node_name :: "string \<Rightarrow> string \<Rightarrow> int \<Rightarrow> string" where
  "node_name ty host port = ty @ ''-'' @ host @ ''-'' @ itoa port"

definition config_server_config_op :: "'s deploy_planner \<Rightarrow> config_node \<Rightarrow> planned_operation" where
  "config_server_config_op p n = (let path = planned_config_path p ''config'' (cs_host n) (cs_port n) in
     planned op_generate_config
       (''Generate config server configuration: '' @ path @ '' (replica set: '' @ cs_replica_set n @ '', port: '' @ itoa (cs_port n) @ '')'')
       (node_target ''config'' (node_name ''config'' (cs_host n) (cs_port n)) (cs_host n) (cs_port n))
       [pstr ''config_path'' path, pstr ''replica_set'' (cs_replica_set n), pstr ''role'' ''configsvr'',
        pstr ''version'' (dp_version p), pstr ''variant'' (variant_string (dp_variant p)), pint ''port'' (cs_port n),
        pstr ''data_dir'' (planner_data_dir p (cs_host n) (cs_port n) (cs_data_dir n)),
        pstr ''log_dir'' (planner_log_dir_with_type p (cs_host n) (cs_port n) (cs_log_dir n) ''config''),
        pstr ''bind_ip'' bind_both]
       [creates ''file'' path] True)"

definition replica_set_info :: "string \<Rightarrow> string" where
  "replica_set_info rs = (if rs \<noteq> [] then '', replica set: '' @ rs else [])"

definition mongod_role :: "topology \<Rightarrow> string" where
  "mongod_role t = (if t_config_svr t \<noteq> [] \<or> t_mongos t \<noteq> [] then ''shardsvr'' else ''standalone'')"

definition mongod_config_op :: "'s deploy_planner \<Rightarrow> mongod_node \<Rightarrow> planned_operation" where
  "mongod_config_op p n = (let path = planned_config_path p ''mongod'' (md_host n) (md_port n) in
     planned op_generate_config
       (''Generate mongod configuration: '' @ path @ '' (host: '' @ md_host n @ '', port: '' @ itoa (md_port n)
          @ replica_set_info (md_replica_set n) @ '')'')
       (node_target ''mongod'' (node_name ''mongod'' (md_host n) (md_port n)) (md_host n) (md_port n))
       [pstr ''config_path'' path, pstr ''replica_set'' (md_replica_set n), pstr ''role'' (mongod_role (dp_topology p)),
        pstr ''version'' (dp_version p), pstr ''variant'' (variant_string (dp_variant p)), pint ''port'' (md_port n),
        pstr ''data_dir'' (planner_data_dir p (md_host n) (md_port n) (md_data_dir n)),
        pstr ''log_dir'' (planner_log_dir p (md_host n) (md_port n) (md_log_dir n)), pstr ''bind_ip'' bind_both]
       [creates ''file'' path] True)"

definition mongos_config_op :: "'s deploy_planner \<Rightarrow> mongos_node \<Rightarrow> planned_operation" where
  "mongos_config_op p n = (let path = planned_config_path p ''mongos'' (ms_host n) (ms_port n) in
     planned op_generate_config
       (''Generate mongos router configuration: '' @ path @ '' (host: '' @ ms_host n @ '', port: '' @ itoa (ms_port n) @ '')'')
       (node_target ''mongos'' (node_name ''mongos'' (ms_host n) (ms_port n)) (ms_host n) (ms_port n))
       [pstr ''config_path'' path, pstr ''role'' ''mongos'', pstr ''version'' (dp_version p),
        pstr ''variant'' (variant_string (dp_variant p)), pint ''port'' (ms_port n),
        pstr ''log_dir'' (planner_log_dir_with_type p (ms_host n) (ms_port n) (ms_log_dir n) ''mongos''),
        pstr ''bind_ip'' bind_both, pstr ''config_db'' (config_server_connection p)]
       [creates ''file'' path] True)"

definition planned_version_dir :: "'s deploy_planner \<Rightarrow> string" where
  "planned_version_dir p = version_dir (dp_layout p) (dp_version p)"

definition supervisor_config_op :: "'s deploy_planner \<Rightarrow> planned_operation" where
  "supervisor_config_op p = planned op_generate_supervisor_cfg
     (''Generate supervisor configuration at '' @ planned_version_dir p @ ''/supervisor.ini'') (targeting ''config'' ''supervisor'')
     [pstr ''cluster_dir'' (planned_version_dir p), pstr ''cluster_name'' (dp_name p), pstr ''version'' (dp_version p),
      pstr ''bin_path'' (dp_bin_path p), (''topology'', PTopology (dp_topology p))]
     [creates ''file'' (path_join [planned_version_dir p, ''supervisor.ini''])] False"

definition planned_supervisor_port :: "'s deploy_planner \<Rightarrow> int" where
  "planned_supervisor_port p = supervisor_port (planned_version_dir p)"

definition start_supervisor_op :: "'s deploy_planner \<Rightarrow> planned_operation" where
  "start_supervisor_op p = planned op_start_supervisor
     (''Start supervisord daemon for cluster '' @ dp_name p @ '' (port: '' @ itoa (planned_supervisor_port p) @ '')'')
     (targeting ''supervisor'' ''supervisord'')
     [pstr ''cluster_dir'' (planned_version_dir p), pstr ''cluster_name'' (dp_name p)]
     [creates ''process'' ''supervisord''] False"

text \<open>The three loops that start processes differ in the kind of the node and in the description.\<close>

definition start_checks :: "string \<Rightarrow> string \<Rightarrow> int \<Rightarrow> safety_check list" where
  "start_checks path host port =
     [\<lparr>sc_id = ''config_exists_'' @ itoa port, sc_description = ''Config file exists: '' @ path, sc_type = ''file_exists'',
       sc_target = path, sc_params = [(''path'', GStr path)], sc_required = True\<rparr>,
      \<lparr>sc_id = ''port_available_'' @ itoa port, sc_description = ''Port '' @ itoa port @ '' is available'',
       sc_type = ''port_available'', sc_target = host, sc_params = [(''port'', GFloat (of_int port))], sc_required = True\<rparr>]"

definition start_op :: "'s deploy_planner \<Rightarrow> string \<Rightarrow> string \<Rightarrow> int \<Rightarrow> string \<Rightarrow> planned_operation" where
  "start_op p ty host port desc =
     (planned op_start_process desc (node_target ty (node_name ty host port) host port)
       [pstr ''program_name'' (get_program_name ty port),
        pstr ''supervisor_config'' (path_join [planned_version_dir p, ''supervisor.ini'']),
        pint ''supervisor_port'' (planned_supervisor_port p)]
       [change_of ''process'' (node_name ty host port) ''start''] False)
       \<lparr>po_pre := start_checks (planned_config_path p ty host port) host port\<rparr>"

definition start_config_server_op :: "'s deploy_planner \<Rightarrow> config_node \<Rightarrow> planned_operation" where
  "start_config_server_op p n = start_op p ''config'' (cs_host n) (cs_port n)
     (''Start config server via supervisorctl: '' @ get_program_name ''config'' (cs_port n) @ '' (replica set: '' @ cs_replica_set n @ '')'')"

definition start_mongod_op :: "'s deploy_planner \<Rightarrow> mongod_node \<Rightarrow> planned_operation" where
  "start_mongod_op p n = start_op p ''mongod'' (md_host n) (md_port n)
     (''Start mongod via supervisorctl: '' @ get_program_name ''mongod'' (md_port n) @ replica_set_info (md_replica_set n))"

definition start_mongos_op :: "'s deploy_planner \<Rightarrow> mongos_node \<Rightarrow> planned_operation" where
  "start_mongos_op p n = start_op p ''mongos'' (ms_host n) (ms_port n)
     (''Start mongos router via supervisorctl: '' @ get_program_name ''mongos'' (ms_port n))"

definition config_ops :: "'s deploy_planner \<Rightarrow> planned_operation list" where
  "config_ops p = (let t = dp_topology p in
     map (config_server_config_op p) (t_config_svr t) @ map (mongod_config_op p) (t_mongod t)
     @ map (mongos_config_op p) (t_mongos t))"

definition start_ops :: "'s deploy_planner \<Rightarrow> planned_operation list" where
  "start_ops p = (let t = dp_topology p in
     map (start_config_server_op p) (t_config_svr t) @ map (start_mongod_op p) (t_mongod t)
     @ map (start_mongos_op p) (t_mongos t))"

definition deploy_phase :: "'s deploy_planner \<Rightarrow> planned_phase" where
  "deploy_phase p = phase_of ''deploy'' ''Generate configurations and start MongoDB processes'' 2
     (config_ops p @ [supervisor_config_op p, start_supervisor_op p] @ start_ops p) ''1 minute''"

section \<open>Initialize\<close>

text \<open>Groups of members by replica set. The first config server names the set of all of them.\<close>

definition mongod_member :: "mongod_node \<Rightarrow> string" where
  "mongod_member n = member_addr (md_host n) (md_port n)"

definition shard_groups :: "topology \<Rightarrow> (string, string list) gomap \<Rightarrow> (string, string list) gomap" where
  "shard_groups t = group_by md_replica_set mongod_member (filter (\<lambda>n. md_replica_set n \<noteq> []) (t_mongod t))"

definition planned_replica_sets :: "topology \<Rightarrow> (string, string list) gomap" where
  "planned_replica_sets t = shard_groups t (case t_config_svr t of
     [] \<Rightarrow> []
   | c # _ \<Rightarrow> group_by (\<lambda>n. cs_replica_set c) (\<lambda>n. member_addr (cs_host n) (cs_port n)) (t_config_svr t) [])"

definition init_op :: "string \<times> string list \<Rightarrow> planned_operation" where
  "init_op g = planned op_init_replica_set
     (''Initialize replica set '' @ quoted (fst g) @ '' with members: '' @ show_strings (snd g)) (targeting ''replica_set'' (fst g))
     [pstr ''replica_set'' (fst g), (''members'', PV (GStrs (snd g)))] [creates ''replica_set'' (fst g)] False"

definition wait_op :: "string \<times> string list \<Rightarrow> planned_operation" where
  "wait_op g = planned op_wait_for_ready
     (''Wait for replica set '' @ quoted (fst g) @ '' to elect PRIMARY and stabilize'') (targeting ''replica_set'' (fst g))
     [pstr ''replica_set'' (fst g), pstr ''timeout'' ''2m''] [] False"

definition add_shard_op :: "string \<Rightarrow> string \<times> string list \<Rightarrow> planned_operation" where
  "add_shard_op mongos g = (let conn = fst g @ ''/'' @ hd (snd g) in
     planned op_add_shard
       (''Add shard '' @ quoted (fst g) @ '' to cluster (connection: '' @ conn @ '', members: '' @ show_strings (snd g) @ '')'')
       (targeting ''shard'' (fst g))
       [pstr ''shard_name'' (fst g), pstr ''connection_string'' conn, pstr ''mongos_host'' mongos,
        (''members'', PV (GStrs (snd g)))] [creates ''shard'' (fst g)] False)"

definition verify_shards_op :: "'s deploy_planner \<Rightarrow> nat \<Rightarrow> planned_operation" where
  "verify_shards_op p n = planned op_verify_health
     (''Verify sharded cluster configuration ('' @ itoa (int n) @ '' shards added)'') (targeting ''cluster'' (dp_name p))
     [pint ''expected_shards'' (int n)] [] False"

definition shard_ops :: "((string, string list) gomap \<Rightarrow> (string, string list) gomap) \<Rightarrow> 's deploy_planner \<Rightarrow> planned_operation list" where
  "shard_ops shuffle p = (let t = dp_topology p in case t_mongos t of
     [] \<Rightarrow> []
   | m # _ \<Rightarrow> (let shards = shard_groups t [] in
       map (add_shard_op (member_addr (ms_host m) (ms_port m))) (shuffle shards) @ [verify_shards_op p (length shards)]))"

definition initialize_phase :: "((string, string list) gomap \<Rightarrow> (string, string list) gomap) \<Rightarrow>
    ((string, string list) gomap \<Rightarrow> (string, string list) gomap) \<Rightarrow> 's deploy_planner \<Rightarrow> planned_phase" where
  "initialize_phase shuffle shuffle' p = phase_of ''initialize'' ''Initialize replica sets and configure sharding'' 3
     (concat (map (\<lambda>g. [init_op g, wait_op g]) (shuffle (planned_replica_sets (dp_topology p)))) @ shard_ops shuffle' p) ''3 minutes''"

section \<open>Finalize\<close>

definition verify_op :: "'s deploy_planner \<Rightarrow> planned_operation" where
  "verify_op p = planned op_verify_health ''Verify cluster health'' (targeting ''cluster'' (dp_name p)) [] [] False"

definition save_metadata_op :: "'s deploy_planner \<Rightarrow> planned_operation" where
  "save_metadata_op p = planned op_save_metadata ''Save cluster metadata'' (targeting ''cluster'' (dp_name p))
     [pstr ''version'' (dp_version p), pstr ''variant'' (variant_string (dp_variant p)), pstr ''bin_path'' (dp_bin_path p),
      pstr ''deploy_mode'' (if \<not> dp_local p then ''remote'' else ''local''), (''topology'', PTopology (dp_topology p))]
     [creates ''file'' ''meta.yaml''] False"

definition current_link_op :: "'s deploy_planner \<Rightarrow> planned_operation" where
  "current_link_op p = planned op_create_symlink
     (''Create '' @ quoted ''current'' @ '' symlink -> v'' @ dp_version p) (targeting ''symlink'' ''current'')
     [pstr ''link_path'' (current_link (dp_layout p)), pstr ''target_path'' (''v'' @ dp_version p), pstr ''version'' (dp_version p)]
     [creates ''symlink'' ''current''] False"

definition finalize_phase :: "'s deploy_planner \<Rightarrow> planned_phase" where
  "finalize_phase p = phase_of ''finalize'' ''Verify health, save metadata, and activate version'' 4
     [verify_op p, save_metadata_op p, current_link_op p] ''30 seconds''"

section \<open>The plan\<close>

definition calculate_resources :: "'s deploy_planner \<Rightarrow> resource_estimate" where
  "calculate_resources p = (let t = dp_topology p in
     \<lparr>re_hosts = int (length (dp_executors p)),
      re_total_processes = int (length (t_mongod t)) + int (length (t_config_svr t)) + int (length (t_mongos t)),
      re_ports_used = get_all_ports p, re_disk_space_gb = 10, re_memory_mb = 0, re_download_size_mb = 120,
      re_processes_per_host = fold mcount (map ms_host (t_mongos t))
        (fold mcount (map cs_host (t_config_svr t)) (fold mcount (map md_host (t_mongod t)) []))\<rparr>)"

text \<open>The two orders in which the maps of the initialize phase are walked, the order in which the checks report, and the ports that are free.\<close>

record plan_oracle =
  orc_shuffle_sets :: "(string, string list) gomap \<Rightarrow> (string, string list) gomap"
  orc_shuffle_shards :: "(string, string list) gomap \<Rightarrow> (string, string list) gomap"
  orc_arrival :: "nat list"
  orc_avail :: "nat \<Rightarrow> int \<Rightarrow> bool"

definition planned_phases :: "plan_oracle \<Rightarrow> 's deploy_planner \<Rightarrow> planned_phase list" where
  "planned_phases orc p = [prepare_phase p, deploy_phase p, initialize_phase (orc_shuffle_sets orc) (orc_shuffle_shards orc) p, finalize_phase p]"

definition generate_plan :: "plan_oracle \<Rightarrow> 's deploy_planner \<Rightarrow> ('s, plan outcome) prog" where
  "generate_plan orc p = do {
     plan_id \<leftarrow> on_os new_plan_id;
     let (e, p) = planner_allocate_ports (orc_avail orc) p;
     case e of
       Some m \<Rightarrow> ret (Failed (wrapf ''failed to allocate ports'' m))
     | None \<Rightarrow> do {
         v \<leftarrow> planner_validate (orc_arrival orc) p;
         case v of
           Failed m \<Rightarrow> ret (Failed (wrapf ''validation failed'' m))
         | Panicked \<Rightarrow> ret Panicked
         | Hung \<Rightarrow> ret Hung
         | Returned validation \<Rightarrow> do {
             now \<leftarrow> on_os time_now;
             ret (Returned \<lparr>pl_id = plan_id, pl_operation = ''deploy'', pl_cluster = dp_name p, pl_created_at = now,
               pl_version = dp_version p, pl_variant = variant_string (dp_variant p), pl_topology_file = [],
               pl_topology = Some (dp_topology p), pl_config = [], pl_validation = validation,
               pl_phases = planned_phases orc p, pl_resources = calculate_resources p, pl_dry_run = dp_dry_run p,
               pl_environment = []\<rparr>) } } }"

section \<open>What is planned is well typed\<close>

lemma set_numbered: "op \<in> set (numbered ph ops) \<Longrightarrow> \<exists>op' i. op' \<in> set ops \<and> op = op'\<lparr>po_id := new_operation_id ph i\<rparr>"
  by (auto simp: numbered_def set_zip in_set_conv_nth enumerate_eq_zip)

lemma numbered_ids: "map po_id (numbered ph ops) = map (new_operation_id ph) [0..<length ops]"
  unfolding numbered_def by (rule nth_equalityI) (simp_all add: nth_enumerate_eq)

lemma length_numbered [simp]: "length (numbered ph ops) = length ops"
  by (simp add: numbered_def)

definition all_typed :: "planned_operation list \<Rightarrow> bool" where
  "all_typed ops = list_all well_typed ops"

lemma all_typed_simps [simp]:
  "all_typed []" "all_typed (op # ops) = (well_typed op \<and> all_typed ops)" "all_typed (ops @ ops') = (all_typed ops \<and> all_typed ops')"
  "all_typed (map f xs) = (\<forall>x \<in> set xs. well_typed (f x))" "all_typed (concat opss) = (\<forall>ops \<in> set opss. all_typed ops)"
  "all_typed (numbered ph ops) = all_typed ops"
proof -
  show "all_typed (numbered ph ops) = all_typed ops"
    by (auto simp: all_typed_def list_all_length numbered_def nth_enumerate_eq)
qed (auto simp: all_typed_def list_all_iff)

lemmas typing_defs = well_typed_def signatures_def planned_def param_def as_str_def as_int_def as_float_def op_type_defs Let_def

lemma prepare_typed [simp]: "well_typed (download_op p)" "well_typed (mkdir_op d)" "well_typed (copy_op p)"
  by (simp_all add: download_op_def mkdir_op_def copy_op_def typing_defs)

lemma config_typed [simp]:
  "well_typed (config_server_config_op p cs)" "well_typed (mongod_config_op p md)" "well_typed (mongos_config_op p ms)"
  by (simp_all add: config_server_config_op_def mongod_config_op_def mongos_config_op_def typing_defs)

lemma start_typed [simp]:
  "well_typed (supervisor_config_op p)" "well_typed (start_supervisor_op p)" "well_typed (start_op p ty host port desc)"
  by (simp_all add: supervisor_config_op_def start_supervisor_op_def start_op_def typing_defs topology_kind_ok_def)

lemma initialize_typed [simp]:
  "well_typed (init_op g)" "well_typed (wait_op g)" "well_typed (add_shard_op m g)" "well_typed (verify_shards_op p n)"
  by (simp_all add: init_op_def wait_op_def add_shard_op_def verify_shards_op_def typing_defs)

lemma finalize_typed [simp]: "well_typed (verify_op p)" "well_typed (save_metadata_op p)" "well_typed (current_link_op p)"
  by (simp_all add: verify_op_def save_metadata_op_def current_link_op_def typing_defs)

lemma phases_typed: "all_typed (concat (map ph_operations (planned_phases orc p)))"
  by (auto simp: planned_phases_def phase_of_def prepare_phase_def deploy_phase_def initialize_phase_def finalize_phase_def
      config_ops_def start_ops_def start_config_server_op_def start_mongod_op_def start_mongos_op_def shard_ops_def Let_def
      split: list.split)

text \<open>
  C38. Deployments do not panic: every operation that the planner generates, for any topology and any order of its maps, has
  a handler, and executing or validating it panics neither when the plan is fresh nor after it was saved and loaded again.
\<close>
theorem planned_never_panic:
  assumes "op \<in> set (concat (map ph_operations (planned_phases orc p)))" "oe_bin E \<noteq> None" "op' \<in> {op, norm_planned_operation op}"
  shows "well_typed op' \<and> mhas (oex_handlers (new_executor E executors)) (po_type op') \<and>
    calm (execute_op (new_executor E executors) op') \<and> calm (validate_op (new_executor E executors) op')"
proof -
  have "well_typed op" using phases_typed [of orc p] assms(1) unfolding all_typed_def list_all_iff by blast
  then have "well_typed op'" using assms(3) well_typed_norm by auto
  then show ?thesis using well_typed_never_panics [OF _ assms(2), of op' executors] by (auto simp: mhas_def)
qed

text \<open>A remote deployment without machines, planned in an empty world.\<close>

definition example_planner_config :: "unit planner_config" where
  "example_planner_config = \<lparr>pc_name = ''c'', pc_version = ''7.0.0'', pc_variant = VariantMongo, pc_topology = sharded_topology,
     pc_executors = [], pc_meta_dir = abs_path [''c''], pc_local = False, pc_bin_path = ''/bin'', pc_dry_run = False\<rparr>"

definition example_planner :: "unit deploy_planner" where
  "example_planner = new_deploy_planner example_planner_config"

definition example_oracle :: plan_oracle where
  "example_oracle = \<lparr>orc_shuffle_sets = rev, orc_shuffle_shards = id, orc_arrival = [], orc_avail = (\<lambda>_ _. True)\<rparr>"

lemma planned_never_panic_witness:
  "calm (execute_op (new_executor stocked_env [(''h'', local_executor silent_machine)])
     (norm_planned_operation ((verify_op example_planner)\<lparr>po_id := new_operation_id ''finalize'' 0\<rparr>)))"
proof -
  let ?op = "(verify_op example_planner)\<lparr>po_id := new_operation_id ''finalize'' 0\<rparr>"
  have "?op \<in> set (concat (map ph_operations (planned_phases example_oracle example_planner)))"
    by (simp add: planned_phases_def finalize_phase_def phase_of_def numbered_def)
  moreover have "oe_bin stocked_env \<noteq> None" by (simp add: stocked_env_def)
  ultimately show ?thesis using planned_never_panic [of ?op example_oracle example_planner stocked_env "norm_planned_operation ?op"] by blast
qed

end
