(* ===== verification/Deploy_Run.thy ===== *)
theory Deploy_Run imports Deploy_Planner Apply_Run begin

text \<open>
  A deployment from plan to processes: what the planner of \<^verbatim>\<open>pkg/deploy\<close> hands to the applier of \<^verbatim>\<open>pkg/apply\<close>, and
  how the names and paths it plans with meet those of the supervisor configuration of \<^verbatim>\<open>pkg/supervisor\<close>.
\<close>

section \<open>Applying a planned deployment\<close>

lemma numbered_distinct:
  assumes "CHR ''-'' \<notin> set ph"
  shows "distinct (map po_id (numbered ph ops))"
  unfolding numbered_ids distinct_map using assms by (auto intro!: inj_onI simp: new_operation_id_inject)

lemma numbered_id_sets:
  assumes "CHR ''-'' \<notin> set ph" "CHR ''-'' \<notin> set ph'" "ph \<noteq> ph'"
  shows "set (map po_id (numbered ph ops)) \<inter> set (map po_id (numbered ph' ops')) = {}"
  unfolding numbered_ids using assms by (auto simp: new_operation_id_inject)

lemma planned_phases_wf: "phases_wf (planned_phases orc p)"
  unfolding planned_phases_def prepare_phase_def deploy_phase_def initialize_phase_def finalize_phase_def phase_of_def
    phases_wf_def phases_simps list.map planned_phase.simps map_append distinct_append set_append
  by (simp add: numbered_distinct numbered_id_sets Int_Un_distrib del: set_map)

text \<open>An apply of the plan that returns no error has completed all operations.\<close>

definition applies_fully :: "applier \<Rightarrow> plan \<Rightarrow> world \<Rightarrow> bool" where
  "applies_fully a pl w = wp (apply_plan a pl) (\<lambda>(st, e) w'. e = None \<longrightarrow> (\<exists>s. st = Some s \<and> as_status s = status_completed \<and>
     (\<forall>op \<in> set (all_operations pl). op_status s (po_id op) = Some status_completed))) w"

lemma wf_applies_fully: "phases_wf (pl_phases pl) \<Longrightarrow> applies_fully a pl w"
  unfolding applies_fully_def
  by (erule wp_apply_plan)
    (auto simp: apply_post_def list_all_iff phase_done_def all_completed_def all_operations_def split: option.splits)

lemma generated_phases:
  fixes p :: "'s deploy_planner"
  shows "wp (generate_plan orc p) (\<lambda>r _. \<forall>pl. r = Returned pl \<longrightarrow>
     (\<exists>p' :: 's deploy_planner. pl_phases pl = planned_phases orc p' \<and> pl_topology pl = Some (dp_topology p'))) s"
  unfolding generate_plan_def Let_def wp_bind case_prod_beta
  by (rule wpI) (auto split: option.split outcome.split simp: wp_def case_prod_unfold)

text \<open>
  C40. A planned deployment is a plan in the sense of the applier: whatever the disk, the ports and the checks say, a plan that
  the planner returns has the four phases in their order and no identifier twice, so that applying it without an error
  completes every operation of every phase.
\<close>
theorem deploy_completes:
  fixes p :: "'s deploy_planner"
  shows "wp (generate_plan orc p) (\<lambda>r _. \<forall>pl. r = Returned pl \<longrightarrow>
     map ph_name (pl_phases pl) = [''prepare'', ''deploy'', ''initialize'', ''finalize''] \<and>
     distinct (map po_id (all_operations pl)) \<and> applies_fully a pl w) s"
proof (rule wp_mono [OF generated_phases], intro allI impI)
  fix r and pl :: plan and t :: "world \<times> 's"
  assume "\<forall>pl. r = Returned pl \<longrightarrow> (\<exists>p' :: 's deploy_planner. pl_phases pl = planned_phases orc p' \<and> pl_topology pl = Some (dp_topology p'))" "r = Returned pl"
  then obtain p' :: "'s deploy_planner" where p': "pl_phases pl = planned_phases orc p'" by blast
  then have "phases_wf (pl_phases pl)" by (simp add: planned_phases_wf)
  moreover from this have "distinct (map po_id (all_operations pl))" by (simp add: phases_wf_def phases_ops_def all_operations_def)
  ultimately show "map ph_name (pl_phases pl) = [''prepare'', ''deploy'', ''initialize'', ''finalize''] \<and>
     distinct (map po_id (all_operations pl)) \<and> applies_fully a pl w"
    using p' by (simp add: wf_applies_fully planned_phases_def prepare_phase_def deploy_phase_def initialize_phase_def
        finalize_phase_def phase_of_def)
qed

lemma example_planned:
  "\<exists>pl. fst (run_state (generate_plan example_oracle example_planner) (example_world, ())) = Returned pl"
  by (simp add: generate_plan_def planner_allocate_ports_def example_planner_def example_planner_config_def new_deploy_planner_def planner_validate_def
      planner_checks_def example_oracle_def new_validation_runner_def run_validation_def run_parallel_def expect_def case_prod_unfold)

lemma deploy_completes_witness:
  "\<exists>pl. fst (run_state (generate_plan example_oracle example_planner) (example_world, ())) = Returned pl \<and>
     distinct (map po_id (all_operations pl)) \<and> applies_fully (example_applier (\<lambda>_. False)) pl example_world"
  using example_planned
    deploy_completes [of example_oracle example_planner "example_applier (\<lambda>_. False)" example_world "(example_world, ())"]
  unfolding wp_def case_prod_unfold by blast

section \<open>What is started is configured\<close>

text \<open>The generator that the operation for the supervisor configuration sets up, from its parameters.\<close>

definition planned_generator :: "'s deploy_planner \<Rightarrow> conf_gen" where
  "planned_generator p = (let op = supervisor_config_op p; get = (\<lambda>k. str_or_empty (str_param op k)) in
     new_config_generator (get ''cluster_dir'') (get ''cluster_name'')
       (case topology_param op of Inr t \<Rightarrow> t | Inl _ \<Rightarrow> dp_topology p) (get ''version'') (get ''bin_path''))"

lemma planned_generator_simps [simp]:
  "cg_dir (planned_generator p) = planned_version_dir p" "cg_topology (planned_generator p) = dp_topology p"
  "cg_bin (planned_generator p) = dp_bin_path p"
  by (simp_all add: planned_generator_def new_config_generator_def supervisor_config_op_def planned_def str_param_def param_def
      as_str_def str_or_empty_def topology_param_def Let_def)

text \<open>The path of a configuration, as the planner and as the supervisor compute it.\<close>

lemma planned_config_path_abs:
  assumes "comps_ok cs" "version_ok v" "host_ok ty" "slash \<notin> set ty" "dp_resolver p = \<lparr>lr_dir = abs_path cs, lr_version = v\<rparr>"
  shows "planned_config_path p ty host port = abs_path (cs @ [''v'' @ v, ty @ ''-'' @ itoa port, ''config'', ty @ ''.conf''])"
proof -
  have "comp_ok (ty @ ''.conf'')" using assms(3) by (intro comp_ok_long) (auto simp: host_ok_def)
  then show ?thesis
    using assms version_comp_ok [of v] node_comp_ok [of ty port] path_join_abs [of "cs @ [''v'' @ v, ty @ ''-'' @ itoa port, ''config'']" "[ty @ ''.conf'']"]
    by (simp add: planned_config_path_def local_config_file_def local_config_dir_def or_empty_def file_in_def path_join_abs
        host_ok_def version_ok_def)
qed

definition starts_with_config :: "'s deploy_planner \<Rightarrow> process_env \<Rightarrow> planned_operation \<Rightarrow> bool" where
  "starts_with_config p env op = (\<exists>program path port. str_param op ''program_name'' = Some program \<and>
     map sc_target (filter (\<lambda>c. sc_type c = ''file_exists'') (po_pre op)) = [path] \<and>
     (\<exists>c \<in> set (config_ops p). str_param c ''config_path'' = Some path \<and> num_param c ''port'' = Some port \<and>
        po_target c = po_target op) \<and>
     (\<exists>conf \<in> set (node_confs env (planned_generator p)). hd conf = ''[program:'' @ program @ '']'' @ nl \<and>
        (\<exists>binary. ''command = '' @ binary @ '' --config '' @ path @ nl \<in> set conf)))"

lemma generator_config_path:
  assumes "comps_ok cs" "version_ok v" "host_ok ty" "cg_dir g = abs_path (cs @ [''v'' @ v])"
  shows "path_join [path_join [cg_dir g, get_process_dir ty port], ''config'', get_config_file_name ty]
     = abs_path (cs @ [''v'' @ v, ty @ ''-'' @ itoa port, ''config'', ty @ ''.conf''])"
proof -
  have "comp_ok (ty @ ''.conf'')" using assms(3) by (intro comp_ok_long) (auto simp: host_ok_def)
  then show ?thesis
    using assms version_comp_ok [of v] node_comp_ok [of ty port] path_join_abs [of "cs @ [''v'' @ v]" "[ty @ ''-'' @ itoa port]"]
      path_join_abs [of "cs @ [''v'' @ v, ty @ ''-'' @ itoa port]" "[''config'', ty @ ''.conf'']"]
    by (simp add: host_ok_def get_process_dir_def get_config_file_name_def)
qed

lemma node_conf_command:
  "''command = '' @ path_join [cg_bin g, ''mongod''] @ '' --config '' @
     path_join [path_join [cg_dir g, get_process_dir ty port], ''config'', get_config_file_name ty] @ nl \<in> set (node_conf env g ty host port rs)"
  "''command = '' @ path_join [cg_bin g, ''mongos''] @ '' --config '' @
     path_join [path_join [cg_dir g, get_process_dir ''mongos'' port], ''config'', get_config_file_name ''mongos''] @ nl \<in> set (mongos_conf env g port)"
  by (simp_all add: node_conf_def mongos_conf_def program_lines_def Let_def del: append.simps append_Cons)

lemma start_op_facts:
  "str_param (start_op p ty host port desc) ''program_name'' = Some (ty @ ''-'' @ itoa port)"
  "map sc_target (filter (\<lambda>c. sc_type c = ''file_exists'') (po_pre (start_op p ty host port desc))) = [planned_config_path p ty host port]"
  "po_target (start_op p ty host port desc) = node_target ty (node_name ty host port) host port"
  by (simp_all add: start_op_def planned_def str_param_def param_def as_str_def start_checks_def get_program_name_def)

lemma config_op_facts:
  "str_param (config_server_config_op p cs) ''config_path'' = Some (planned_config_path p ''config'' (cs_host cs) (cs_port cs))"
  "num_param (config_server_config_op p cs) ''port'' = Some (cs_port cs)"
  "po_target (config_server_config_op p cs) = node_target ''config'' (node_name ''config'' (cs_host cs) (cs_port cs)) (cs_host cs) (cs_port cs)"
  "str_param (mongod_config_op p md) ''config_path'' = Some (planned_config_path p ''mongod'' (md_host md) (md_port md))"
  "num_param (mongod_config_op p md) ''port'' = Some (md_port md)"
  "po_target (mongod_config_op p md) = node_target ''mongod'' (node_name ''mongod'' (md_host md) (md_port md)) (md_host md) (md_port md)"
  "str_param (mongos_config_op p ms) ''config_path'' = Some (planned_config_path p ''mongos'' (ms_host ms) (ms_port ms))"
  "num_param (mongos_config_op p ms) ''port'' = Some (ms_port ms)"
  "po_target (mongos_config_op p ms) = node_target ''mongos'' (node_name ''mongos'' (ms_host ms) (ms_port ms)) (ms_host ms) (ms_port ms)"
  by (simp_all add: config_server_config_op_def mongod_config_op_def mongos_config_op_def planned_def str_param_def num_param_def
      param_def as_str_def as_int_def Let_def)

text \<open>The three kinds of nodes, each from what is planned for it and what the supervisor is told of it.\<close>

lemma starts_with_configI:
  assumes "c \<in> set (config_ops p)" "str_param c ''config_path'' = Some (planned_config_path p ty host port)"
    "num_param c ''port'' = Some port" "po_target c = node_target ty (node_name ty host port) host port"
    "conf \<in> set (node_confs env (planned_generator p))" "hd conf = ''[program:'' @ ty @ ''-'' @ itoa port @ '']'' @ nl"
    "''command = '' @ binary @ '' --config '' @ planned_config_path p ty host port @ nl \<in> set conf"
  shows "starts_with_config p env (start_op p ty host port desc)"
  unfolding starts_with_config_def
  by (rule exI [of _ "ty @ ''-'' @ itoa port"], rule exI [of _ "planned_config_path p ty host port"], rule exI [of _ port],
      intro conjI bexI [OF _ assms(1)] bexI [OF _ assms(5)] exI [of _ binary])
    (simp_all only: assms start_op_facts append.assoc)

text \<open>
  C39. Every process that a deployment starts is configured: for each operation that starts a program there is an operation in
  the same phase, before it, that writes the very file its safety check looks for, for the same node and port, and the
  supervisor configuration that the phase generates in between defines the program of that name with a command that reads
  that file.
\<close>
theorem started_is_configured:
  assumes "pc_meta_dir c = abs_path cs" "comps_ok cs" "version_ok (pc_version c)" "p = (new_deploy_planner c)\<lparr>dp_topology := t\<rparr>"
    and "op \<in> set (start_ops p)"
  shows "starts_with_config p env op \<and> ph_operations (deploy_phase p) =
     numbered ''deploy'' (config_ops p @ [supervisor_config_op p, start_supervisor_op p] @ start_ops p)"
proof -
  have res: "dp_resolver p = \<lparr>lr_dir = abs_path cs, lr_version = pc_version c\<rparr>" "dp_layout p = abs_path cs" "dp_version p = pc_version c"
    using assms(1,4) by (simp_all add: new_deploy_planner_def)
  have types: "host_ok ''config''" "host_ok ''mongod''" "host_ok ''mongos''" by (simp_all add: host_ok_def)
  have dir: "cg_dir (planned_generator p) = abs_path (cs @ [''v'' @ pc_version c])"
    using assms(2,3) types(1) by (simp add: planned_version_dir_def res layout_paths(1))
  have path: "planned_config_path p ty host port =
      path_join [path_join [cg_dir (planned_generator p), get_process_dir ty port], ''config'', get_config_file_name ty]"
    if "host_ok ty" for ty host port
    using planned_config_path_abs [OF assms(2,3) that _ res(1)] generator_config_path [OF assms(2,3) that dir] that
    by (simp add: host_ok_def)
  have mongod_command: "''command = '' @ path_join [cg_bin (planned_generator p), ''mongod''] @ '' --config '' @
      planned_config_path p ty h port @ nl \<in> set (node_conf env (planned_generator p) ty h port rs)" if "host_ok ty" for ty h port rs
    unfolding path [OF that] by (rule node_conf_command(1))
  have mongos_command: "''command = '' @ path_join [cg_bin (planned_generator p), ''mongos''] @ '' --config '' @
      planned_config_path p ''mongos'' h port @ nl \<in> set (mongos_conf env (planned_generator p) port)" for h port
    unfolding path [OF types(3)] by (rule node_conf_command(2))
  have mongos_header: "hd (mongos_conf env (planned_generator p) port) = ''[program:'' @ ''mongos'' @ ''-'' @ itoa port @ '']'' @ nl" for port
    by (simp add: node_conf_header(2))
  from assms(5) consider
      (config) n where "n \<in> set (t_config_svr (dp_topology p))" "op = start_config_server_op p n"
    | (mongod) n where "n \<in> set (t_mongod (dp_topology p))" "op = start_mongod_op p n"
    | (mongos) n where "n \<in> set (t_mongos (dp_topology p))" "op = start_mongos_op p n"
    by (auto simp: start_ops_def Let_def)
  then have "starts_with_config p env op"
  proof cases
    case config
    show ?thesis unfolding config(2) start_config_server_op_def
      by (rule starts_with_configI [OF _ config_op_facts(1-3) _ node_conf_header(1) mongod_command [OF types(1)]])
        (use config(1) in \<open>auto simp: config_ops_def node_confs_def Let_def\<close>)
  next
    case mongod
    show ?thesis unfolding mongod(2) start_mongod_op_def
      by (rule starts_with_configI [OF _ config_op_facts(4-6) _ node_conf_header(1) mongod_command [OF types(2)]])
        (use mongod(1) in \<open>auto simp: config_ops_def node_confs_def Let_def\<close>)
  next
    case mongos
    show ?thesis unfolding mongos(2) start_mongos_op_def
      by (rule starts_with_configI [OF _ config_op_facts(7-9) _ mongos_header mongos_command])
        (use mongos(1) in \<open>auto simp: config_ops_def node_confs_def Let_def\<close>)
  qed
  then show ?thesis by (simp add: deploy_phase_def phase_of_def)
qed

lemma started_is_configured_witness:
  "starts_with_config example_planner example_env (start_mongod_op example_planner (example_mongod ''h'' 30000))"
proof -
  have "pc_meta_dir example_planner_config = abs_path [''c'']" by (simp add: example_planner_config_def)
  moreover have "comps_ok [''c'']" "version_ok (pc_version example_planner_config)"
    by (simp_all add: comps_ok_def version_ok_def example_planner_config_def dot_def)
  moreover have "example_planner = (new_deploy_planner example_planner_config)\<lparr>dp_topology := sharded_topology\<rparr>"
    by (simp add: example_planner_def new_deploy_planner_def example_planner_config_def)
  moreover have "start_mongod_op example_planner (example_mongod ''h'' 30000) \<in> set (start_ops example_planner)"
    by (simp add: start_ops_def example_planner_def new_deploy_planner_def example_planner_config_def sharded_topology_def Let_def)
  ultimately show ?thesis by (blast dest: started_is_configured)
qed

end
