(* ===== verification/Upgrade_State.thy ===== *)
theory Upgrade_State imports Go_Json begin

text \<open>
  \<^verbatim>\<open>pkg/upgrade/state.go\<close>: the progress of an upgrade, phase by phase and node by node, its transitions, and its file.

  A transition holds the mutex of the state from its first to its last line, so it is one step; it takes the state and
  returns it, reading the clock as often as the code does. The YAML encoder and decoder are parameters, and so is the
  text of an instant in the name of an archive. An instant that was never set is \<open>None\<close>.
\<close>

section \<open>Data\<close>

definition node_pending :: string where "node_pending = ''pending''"
definition node_in_progress :: string where "node_in_progress = ''in_progress''"
definition node_completed :: string where "node_completed = ''completed''"
definition node_failed :: string where "node_failed = ''failed''"
definition node_rolled_back :: string where "node_rolled_back = ''rolled_back''"
definition node_skipped :: string where "node_skipped = ''skipped''"

definition phase_not_started :: string where "phase_not_started = ''not_started''"
definition phase_in_progress :: string where "phase_in_progress = ''in_progress''"
definition phase_completed :: string where "phase_completed = ''completed''"
definition phase_failed :: string where "phase_failed = ''failed''"

definition overall_in_progress :: string where "overall_in_progress = ''in_progress''"
definition overall_completed :: string where "overall_completed = ''completed''"
definition overall_failed :: string where "overall_failed = ''failed''"
definition overall_rolled_back :: string where "overall_rolled_back = ''rolled_back''"
definition overall_paused :: string where "overall_paused = ''paused''"

definition phase_pre_flight :: string where "phase_pre_flight = ''pre-flight''"
definition phase_config_servers :: string where "phase_config_servers = ''config-servers''"
definition phase_shard :: string where "phase_shard = ''shard''"
definition phase_mongos :: string where "phase_mongos = ''mongos''"
definition phase_post_upgrade :: string where "phase_post_upgrade = ''post-upgrade''"

lemmas node_status_defs = node_pending_def node_in_progress_def node_completed_def node_failed_def node_rolled_back_def
  node_skipped_def
lemmas phase_status_defs = phase_not_started_def phase_in_progress_def phase_completed_def phase_failed_def
lemmas overall_status_defs = overall_in_progress_def overall_completed_def overall_failed_def overall_rolled_back_def
  overall_paused_def
lemmas phase_name_defs = phase_pre_flight_def phase_config_servers_def phase_shard_def phase_mongos_def phase_post_upgrade_def

record node_state =
  nst_status :: string
  nst_host_port :: string
  nst_start :: "int option"
  nst_completion :: "int option"
  nst_previous :: string
  nst_target :: string
  nst_error :: string
  nst_retries :: int
  nst_role :: string

record up_phase_state =
  ups_name :: string
  ups_status :: string
  ups_nodes :: "string list"
  ups_start :: "int option"
  ups_checkpoint :: "int option"

record failover_event =
  fo_time :: int
  fo_replica_set :: string
  fo_old_primary :: string
  fo_new_primary :: string
  fo_reason :: string
  fo_election_ms :: int

record upgrade_state =
  us_id :: string
  us_cluster :: string
  us_previous :: string
  us_target :: string
  us_started :: int
  us_updated :: int
  us_status :: string
  us_phase :: string
  us_phases :: "(string, up_phase_state) gomap"
  us_nodes :: "(string, node_state) gomap"
  us_checkpoints :: int
  us_checkpoint :: "int option"
  us_paused_at :: "int option"
  us_paused_reason :: string
  us_prompt_level :: string
  us_skipped :: "string list"
  us_pause_requested :: bool
  us_failovers :: "failover_event list"

text \<open>The manager is its two paths; the state that it also holds is the one every caller passes to it.\<close>

record state_manager =
  sm_file :: string
  sm_history :: string

record up_codec =
  uc_marshal :: "upgrade_state \<Rightarrow> fcontent res"
  uc_unmarshal :: "fcontent \<Rightarrow> upgrade_state res"

section \<open>Creating and saving\<close>

definition new_state_manager :: "string \<Rightarrow> string \<Rightarrow> state_manager res io" where
  "new_state_manager cluster meta_dir = do {
     let history = path_join [meta_dir, ''upgrade-history''];
     e \<leftarrow> os_mkdir_all history;
     ret (case e of
       Some m \<Rightarrow> Err (wrapf ''failed to create history directory'' (os_msg m))
     | None \<Rightarrow> Ok \<lparr>sm_file = path_join [meta_dir, ''upgrade-state.yaml''], sm_history = history\<rparr>) }"

definition generate_upgrade_id :: "string io" where
  "generate_upgrade_id = do { now \<leftarrow> time_now; ret (''upg-'' @ itoa (now div 1000000000)) }"

definition initialize_upgrade :: "string \<Rightarrow> string \<Rightarrow> string \<Rightarrow> upgrade_state io" where
  "initialize_upgrade cluster previous target = do {
     i \<leftarrow> generate_upgrade_id;
     started \<leftarrow> time_now;
     updated \<leftarrow> time_now;
     ret \<lparr>us_id = i, us_cluster = cluster, us_previous = previous, us_target = target, us_started = started,
       us_updated = updated, us_status = overall_in_progress, us_phase = phase_pre_flight, us_phases = [], us_nodes = [],
       us_checkpoints = 0, us_checkpoint = None, us_paused_at = None, us_paused_reason = [], us_prompt_level = [],
       us_skipped = [], us_pause_requested = False, us_failovers = []\<rparr> }"

definition load_upgrade :: "up_codec \<Rightarrow> state_manager \<Rightarrow> upgrade_state res io" where
  "load_upgrade uc sm = do {
     r \<leftarrow> os_read_file (sm_file sm);
     ret (case r of
       Inl e \<Rightarrow> Err (wrapf (if is_not_exist e then ''no upgrade state found'' else ''failed to read state file'') (os_msg e))
     | Inr data \<Rightarrow> wrap_err ''failed to parse state file'' (uc_unmarshal uc data)) }"

text \<open>The clock and the count of checkpoints move whether the state reaches the disk or not.\<close>

definition stamp_checkpoint :: "upgrade_state \<Rightarrow> upgrade_state io" where
  "stamp_checkpoint u = do {
     updated \<leftarrow> time_now;
     saved \<leftarrow> time_now;
     ret (u\<lparr>us_updated := updated, us_checkpoint := Some saved, us_checkpoints := us_checkpoints u + 1\<rparr>) }"

definition write_upgrade :: "up_codec \<Rightarrow> state_manager \<Rightarrow> upgrade_state \<Rightarrow> err option io" where
  "write_upgrade uc sm u = (case uc_marshal uc u of
     Inl e \<Rightarrow> ret (Some (wrapf ''failed to marshal state'' e))
   | Inr data \<Rightarrow> do {
       e \<leftarrow> os_write_file (sm_file sm @ ''.tmp'') data;
       case e of
         Some m \<Rightarrow> ret (Some (wrapf ''failed to write temp state file'' (os_msg m)))
       | None \<Rightarrow> do {
           e \<leftarrow> os_rename (sm_file sm @ ''.tmp'') (sm_file sm);
           ret (map_option (\<lambda>m. wrapf ''failed to rename temp state file'' (os_msg m)) e) } })"

definition save_upgrade :: "up_codec \<Rightarrow> state_manager \<Rightarrow> upgrade_state \<Rightarrow> (err option \<times> upgrade_state) io" where
  "save_upgrade uc sm u = do {
     u \<leftarrow> stamp_checkpoint u;
     e \<leftarrow> write_upgrade uc sm u;
     ret (e, u) }"

definition checkpoint_upgrade :: "up_codec \<Rightarrow> state_manager \<Rightarrow> upgrade_state \<Rightarrow> (err option \<times> upgrade_state) io" where
  "checkpoint_upgrade uc sm u = do {
     r \<leftarrow> save_upgrade uc sm u;
     ret (map_option (wrapf ''checkpoint failed'') (fst r), snd r) }"

definition archive_upgrade :: "up_codec \<Rightarrow> (int \<Rightarrow> string) \<Rightarrow> state_manager \<Rightarrow> upgrade_state \<Rightarrow> err option io" where
  "archive_upgrade uc stamp sm u = do {
     now \<leftarrow> time_now;
     case uc_marshal uc u of
       Inl e \<Rightarrow> ret (Some (wrapf ''failed to marshal state for archive'' e))
     | Inr data \<Rightarrow> do {
         e \<leftarrow> os_write_file (path_join [sm_history sm, ''upgrade-'' @ us_id u @ ''-'' @ stamp now @ ''.yaml'']) data;
         case e of
           Some m \<Rightarrow> ret (Some (wrapf ''failed to write archive'' (os_msg m)))
         | None \<Rightarrow> do {
             e \<leftarrow> os_remove (sm_file sm);
             ret (case e of
               Some m \<Rightarrow> if is_not_exist m then None else Some (wrapf ''failed to remove state file'' (os_msg m))
             | None \<Rightarrow> None) } } }"

section \<open>Transitions\<close>

definition fresh_node :: "upgrade_state \<Rightarrow> string \<Rightarrow> node_state" where
  "fresh_node u hp = \<lparr>nst_status = [], nst_host_port = hp, nst_start = None, nst_completion = None,
     nst_previous = us_previous u, nst_target = us_target u, nst_error = [], nst_retries = 0, nst_role = []\<rparr>"

definition node_or_fresh :: "upgrade_state \<Rightarrow> string \<Rightarrow> node_state" where
  "node_or_fresh u hp = (case mget (us_nodes u) hp of None \<Rightarrow> fresh_node u hp | Some n \<Rightarrow> n)"

definition update_node_state :: "string \<Rightarrow> string \<Rightarrow> string \<Rightarrow> upgrade_state \<Rightarrow> upgrade_state io" where
  "update_node_state hp status msg u = do {
     let n = (node_or_fresh u hp)\<lparr>nst_status := status\<rparr>;
     n \<leftarrow> (if status = node_in_progress then do { now \<leftarrow> time_now; ret (n\<lparr>nst_start := Some now\<rparr>) } else ret n);
     n \<leftarrow> (if status = node_completed \<or> status = node_failed \<or> status = node_skipped
          then do { now \<leftarrow> time_now; ret (n\<lparr>nst_completion := Some now\<rparr>) } else ret n);
     let n = (if msg \<noteq> [] then n\<lparr>nst_error := msg\<rparr> else n);
     let n = (if status = node_failed then n\<lparr>nst_retries := nst_retries n + 1\<rparr> else n);
     now \<leftarrow> time_now;
     ret (u\<lparr>us_nodes := mput hp n (us_nodes u), us_updated := now\<rparr>) }"

definition update_up_phase :: "string \<Rightarrow> string \<Rightarrow> upgrade_state \<Rightarrow> upgrade_state io" where
  "update_up_phase phase status u = do {
     let p = (case mget (us_phases u) phase of
         None \<Rightarrow> \<lparr>ups_name = phase, ups_status = phase_not_started, ups_nodes = [], ups_start = None, ups_checkpoint = None\<rparr>
       | Some p \<Rightarrow> p);
     let p = p\<lparr>ups_status := status\<rparr>;
     p \<leftarrow> (if status = phase_in_progress then do { now \<leftarrow> time_now; ret (p\<lparr>ups_start := Some now\<rparr>) } else ret p);
     now \<leftarrow> time_now;
     ret (u\<lparr>us_phases := mput phase p (us_phases u), us_phase := phase, us_updated := now\<rparr>) }"

definition get_nodes_by_status :: "string \<Rightarrow> upgrade_state \<Rightarrow> node_state list" where
  "get_nodes_by_status status u = filter (\<lambda>n. nst_status n = status) (map snd (us_nodes u))"

definition get_completed_node_count :: "upgrade_state \<Rightarrow> int" where
  "get_completed_node_count u = of_nat (length (filter (\<lambda>n. nst_status n = node_completed) (map snd (us_nodes u))))"

definition get_total_node_count :: "upgrade_state \<Rightarrow> int" where
  "get_total_node_count u = of_nat (length (us_nodes u))"

end
