(* ===== verification/Upgrade_Memory.thy ===== *)
theory Upgrade_Memory imports Upgrade_State Host_Exec begin

text \<open>
  The memory of an upgrade (\<^verbatim>\<open>pkg/upgrade/upgrade.go\<close>) and the programs that run on it beside the machine: the state that is
  checkpointed, what is left of the standard input, and what the implementation keeps for itself.

  The calls of operations on nodes are written down in a trace, with the state of the upgrade at the time. No program reads
  the trace: it is there for the theorems to speak about.
\<close>

section \<open>Memory\<close>

record node_call =
  nk_op :: string
  nk_node :: string
  nk_id :: string
  nk_state :: upgrade_state

record 'e up_run =
  ur_state :: upgrade_state
  ur_input :: string
  ur_trace :: "node_call list"
  ur_ext :: 'e

type_synonym ('e, 'a) up_prog = "('e up_run, 'a) prog"

definition get_up :: "('e, upgrade_state) up_prog" where
  "get_up = on_host (do { r \<leftarrow> State_Monad.get; ret (ur_state r) })"

definition put_up :: "upgrade_state \<Rightarrow> ('e, unit) up_prog" where
  "put_up u = on_host (State_Monad.update (\<lambda>r. r\<lparr>ur_state := u\<rparr>))"

definition on_state :: "(upgrade_state \<Rightarrow> ('a \<times> upgrade_state) io) \<Rightarrow> ('e, 'a) up_prog" where
  "on_state f = do { u \<leftarrow> get_up; r \<leftarrow> on_os (f u); _ \<leftarrow> put_up (snd r); ret (fst r) }"

definition step_state :: "(upgrade_state \<Rightarrow> upgrade_state io) \<Rightarrow> ('e, unit) up_prog" where
  "step_state f = on_state (\<lambda>u. do { u' \<leftarrow> f u; ret ((), u') })"

definition get_input :: "('e, string) up_prog" where
  "get_input = on_host (do { r \<leftarrow> State_Monad.get; ret (ur_input r) })"

definition put_input :: "string \<Rightarrow> ('e, unit) up_prog" where
  "put_input s = on_host (State_Monad.update (\<lambda>r. r\<lparr>ur_input := s\<rparr>))"

definition on_input :: "(string \<Rightarrow> 'a \<times> string) \<Rightarrow> ('e, 'a) up_prog" where
  "on_input f = do { s \<leftarrow> get_input; _ \<leftarrow> put_input (snd (f s)); ret (fst (f s)) }"

definition trace_call :: "string \<Rightarrow> string \<Rightarrow> string \<Rightarrow> ('e, unit) up_prog" where
  "trace_call what hp i = on_host (State_Monad.update (\<lambda>r.
     r\<lparr>ur_trace := ur_trace r @ [\<lparr>nk_op = what, nk_node = hp, nk_id = i, nk_state = ur_state r\<rparr>]\<rparr>))"

text \<open>A step that may fail, with what its error is wrapped in, and what follows when it does not.\<close>

definition try_step :: "('s, err option) state \<Rightarrow> (err \<Rightarrow> err) \<Rightarrow> ('s, err option) state \<Rightarrow> ('s, err option) state" where
  "try_step m f k = do { e \<leftarrow> m; case e of Some x \<Rightarrow> ret (Some (f x)) | None \<Rightarrow> k }"

section \<open>Rules\<close>

lemma wp_on_os_any: "wp (on_os m) Q s = wp m (\<lambda>r w. Q r (w, snd s)) (fst s)"
  by (cases s) (simp add: wp_on_os)

lemma wp_get_up [simp]: "wp get_up Q s = Q (ur_state (snd s)) s"
  by (cases s) (simp add: get_up_def wp_on_host wp_def)

lemma wp_put_up [simp]: "wp (put_up u) Q s = Q () (fst s, (snd s)\<lparr>ur_state := u\<rparr>)"
  by (cases s) (simp add: put_up_def wp_on_host wp_def State_Monad.update_def)

lemma wp_get_input [simp]: "wp get_input Q s = Q (ur_input (snd s)) s"
  by (cases s) (simp add: get_input_def wp_on_host wp_def)

lemma wp_put_input [simp]: "wp (put_input t) Q s = Q () (fst s, (snd s)\<lparr>ur_input := t\<rparr>)"
  by (cases s) (simp add: put_input_def wp_on_host wp_def State_Monad.update_def)

lemma wp_trace_call [simp]: "wp (trace_call what hp i) Q s = Q () (fst s, (snd s)\<lparr>ur_trace := ur_trace (snd s) @
    [\<lparr>nk_op = what, nk_node = hp, nk_id = i, nk_state = ur_state (snd s)\<rparr>]\<rparr>)"
  by (cases s) (simp add: trace_call_def wp_on_host wp_def State_Monad.update_def)

lemma wp_on_state: "wp (on_state f) Q s =
    wp (f (ur_state (snd s))) (\<lambda>r w. Q (fst r) (w, (snd s)\<lparr>ur_state := snd r\<rparr>)) (fst s)"
  by (simp add: on_state_def wp_on_os_any)

lemma wp_step_state: "wp (step_state f) Q s =
    wp (f (ur_state (snd s))) (\<lambda>u w. Q () (w, (snd s)\<lparr>ur_state := u\<rparr>)) (fst s)"
  by (simp add: step_state_def wp_on_state)

lemma wp_on_input [simp]: "wp (on_input f) Q s = (let r = f (ur_input (snd s)) in Q (fst r) (fst s, (snd s)\<lparr>ur_input := snd r\<rparr>))"
  by (simp add: on_input_def Let_def)

lemma wp_try_step: "wp (try_step m f k) Q s = wp m (\<lambda>e s'. case e of Some x \<Rightarrow> Q (Some (f x)) s' | None \<Rightarrow> wp k Q s') s"
proof -
  have "wp (case e of Some x \<Rightarrow> ret (Some (f x)) | None \<Rightarrow> k) Q = (\<lambda>s'. case e of Some x \<Rightarrow> Q (Some (f x)) s' | None \<Rightarrow> wp k Q s')" for e
    by (rule ext, cases e) simp_all
  then show ?thesis by (simp add: try_step_def)
qed

lemma wp_conjI: "wp m Q s \<Longrightarrow> wp m R s \<Longrightarrow> wp m (\<lambda>r s'. Q r s' \<and> R r s') s"
  by (simp add: wp_conj)

text \<open>A program that leaves the state of the upgrade and the trace alone.\<close>

definition still_prog :: "('e, 'a) up_prog \<Rightarrow> bool" where
  "still_prog m = (\<forall>s. wp m (\<lambda>_ s'. ur_state (snd s') = ur_state (snd s) \<and> ur_trace (snd s') = ur_trace (snd s)) s)"

named_theorems still_intros

lemma still_progI: "(\<And>s. wp m (\<lambda>_ s'. ur_state (snd s') = ur_state (snd s) \<and> ur_trace (snd s') = ur_trace (snd s)) s) \<Longrightarrow> still_prog m"
  by (simp add: still_prog_def)

lemma wp_still:
  assumes "still_prog m" "\<And>r s'. ur_state (snd s') = ur_state (snd s) \<Longrightarrow> ur_trace (snd s') = ur_trace (snd s) \<Longrightarrow> Q r s'"
  shows "wp m Q s"
  by (rule wp_mono [OF assms(1) [unfolded still_prog_def, rule_format]]) (auto intro: assms(2))

lemma still_on_os [still_intros]: "still_prog (on_os m)"
  by (rule still_progI) (simp add: wp_on_os_any)

lemma still_ret [still_intros]: "still_prog (ret x)"
  by (rule still_progI) simp

lemma still_bind [still_intros]:
  assumes m: "still_prog m" and f: "\<And>x. still_prog (f x)"
  shows "still_prog (State_Monad.bind m f)"
proof (rule still_progI)
  fix s :: "world \<times> 'a up_run"
  show "wp (State_Monad.bind m f) (\<lambda>_ s'. ur_state (snd s') = ur_state (snd s) \<and> ur_trace (snd s') = ur_trace (snd s)) s"
    unfolding wp_bind
  proof (rule wp_still [OF m])
    fix r and s1 :: "world \<times> 'a up_run"
    assume "ur_state (snd s1) = ur_state (snd s)" "ur_trace (snd s1) = ur_trace (snd s)"
    then show "wp (f r) (\<lambda>_ s'. ur_state (snd s') = ur_state (snd s) \<and> ur_trace (snd s') = ur_trace (snd s)) s1"
      by (intro wp_still [OF f]) simp
  qed
qed

lemma still_if [still_intros]: "still_prog m \<Longrightarrow> still_prog n \<Longrightarrow> still_prog (if b then m else n)"
  by simp

lemma still_cases [still_intros]:
  "still_prog m \<Longrightarrow> (\<And>y. still_prog (g y)) \<Longrightarrow> still_prog (case x of None \<Rightarrow> m | Some y \<Rightarrow> g y)"
  "(\<And>y. still_prog (h y)) \<Longrightarrow> (\<And>z. still_prog (k z)) \<Longrightarrow> still_prog (case z of Inl y \<Rightarrow> h y | Inr z \<Rightarrow> k z)"
  by (cases x, simp_all) (cases z, simp_all)

lemma still_input [still_intros]: "still_prog (on_input f)" "still_prog get_input" "still_prog (put_input t)" "still_prog get_up"
  by (rule still_progI, simp add: Let_def)+

lemma still_try [still_intros]: "still_prog m \<Longrightarrow> still_prog k \<Longrightarrow> still_prog (try_step m f k)"
  unfolding try_step_def by (intro still_intros)

lemma still_for_each [still_intros]: "(\<And>x. still_prog (f x)) \<Longrightarrow> still_prog (for_each f xs)"
  by (induction xs) (auto intro!: still_intros)

end
