(* ===== verification/Upgrade_Hooks.thy ===== *)
theory Upgrade_Hooks imports Hooks Upgrade_Memory begin

text \<open>
  \<^verbatim>\<open>pkg/upgrade/hooks.go\<close>: scripts and functions that run at the points of an upgrade's life, and the waiting times.

  The shell is the parameter of \<open>Hooks\<close>; it is given the environment that the program adds to its own. The permission
  bits of a file are a parameter too. The context of the program is never cancelled, and sleeping shows in the readings of
  the clock, so a wait is its duration.
\<close>

section \<open>Hook types\<close>

definition hook_before_node_upgrade :: string where "hook_before_node_upgrade = ''before-node-upgrade''"
definition hook_after_node_upgrade :: string where "hook_after_node_upgrade = ''after-node-upgrade''"
definition hook_on_node_failure :: string where "hook_on_node_failure = ''on-node-failure''"
definition hook_before_primary_stepdown :: string where "hook_before_primary_stepdown = ''before-primary-stepdown''"
definition hook_after_primary_stepdown :: string where "hook_after_primary_stepdown = ''after-primary-stepdown''"
definition hook_before_secondary_upgrade :: string where "hook_before_secondary_upgrade = ''before-secondary-upgrade''"
definition hook_after_secondary_upgrade :: string where "hook_after_secondary_upgrade = ''after-secondary-upgrade''"
definition hook_before_phase :: string where "hook_before_phase = ''before-phase''"
definition hook_after_phase :: string where "hook_after_phase = ''after-phase''"
definition hook_before_fcv_upgrade :: string where "hook_before_fcv_upgrade = ''before-fcv-upgrade''"
definition hook_after_fcv_upgrade :: string where "hook_after_fcv_upgrade = ''after-fcv-upgrade''"
definition hook_before_balancer_stop :: string where "hook_before_balancer_stop = ''before-balancer-stop''"
definition hook_after_balancer_start :: string where "hook_after_balancer_start = ''after-balancer-start''"
definition hook_before_shard_upgrade :: string where "hook_before_shard_upgrade = ''before-shard-upgrade''"
definition hook_after_shard_upgrade :: string where "hook_after_shard_upgrade = ''after-shard-upgrade''"
definition hook_on_upgrade_start :: string where "hook_on_upgrade_start = ''on-upgrade-start''"
definition hook_on_upgrade_complete :: string where "hook_on_upgrade_complete = ''on-upgrade-complete''"
definition hook_on_upgrade_failure :: string where "hook_on_upgrade_failure = ''on-upgrade-failure''"

section \<open>Hooks\<close>

record up_hook_context =
  uh_type :: string
  uh_cluster :: string
  uh_phase :: string
  uh_node :: string
  uh_role :: string
  uh_shard :: string
  uh_from :: string
  uh_to :: string
  uh_attempt :: int
  uh_error :: "err option"
  uh_metadata :: "(string, string) gomap"

text \<open>
  A hook is a command, with its name, type, text, timeout and environment, or a function. A function sees its context, the
  machine and the standard input, but not the state of the upgrade, which the code does not hand to it.
\<close>

datatype up_hook =
    CommandHook (uhk_name: string) (uhk_type: string) (uhk_command: string) (uhk_timeout: int) (uhk_env: "(string, string) gomap")
  | FunctionHook (uhk_name: string) (uhk_type: string) "up_hook_context \<Rightarrow> string \<Rightarrow> (err option \<times> string) io"

definition new_command_hook :: "string \<Rightarrow> string \<Rightarrow> string \<Rightarrow> int \<Rightarrow> up_hook" where
  "new_command_hook name ty command timeout =
     CommandHook name ty command (if timeout = 0 then 30 * 1000000000 else timeout) []"

definition set_hook_env :: "string \<Rightarrow> string \<Rightarrow> up_hook \<Rightarrow> up_hook" where
  "set_hook_env k v h = (case h of
     CommandHook n ty c t env \<Rightarrow> CommandHook n ty c t (mput k v env)
   | FunctionHook n ty f \<Rightarrow> h)"

text \<open>\<^verbatim>\<open>strings.ToUpper\<close> and \<^verbatim>\<open>strings.ToLower\<close> on the letters of ASCII.\<close>

definition upper_char :: "char \<Rightarrow> char" where
  "upper_char c = (if 97 \<le> (of_char c :: nat) \<and> (of_char c :: nat) \<le> 122 then char_of ((of_char c :: nat) - 32) else c)"

definition lower_char :: "char \<Rightarrow> char" where
  "lower_char c = (if 65 \<le> (of_char c :: nat) \<and> (of_char c :: nat) \<le> 90 then char_of ((of_char c :: nat) + 32) else c)"

definition to_upper :: "string \<Rightarrow> string" where "to_upper = map upper_char"
definition to_lower :: "string \<Rightarrow> string" where "to_lower = map lower_char"

definition hook_environment :: "(string, string) gomap \<Rightarrow> up_hook_context \<Rightarrow> string list" where
  "hook_environment env c =
     [env_entry ''MUP_HOOK_TYPE'' (uh_type c), env_entry ''MUP_CLUSTER_NAME'' (uh_cluster c),
      env_entry ''MUP_PHASE'' (uh_phase c), env_entry ''MUP_NODE'' (uh_node c), env_entry ''MUP_NODE_ROLE'' (uh_role c),
      env_entry ''MUP_SHARD_NAME'' (uh_shard c), env_entry ''MUP_FROM_VERSION'' (uh_from c),
      env_entry ''MUP_TO_VERSION'' (uh_to c), env_entry ''MUP_ATTEMPT'' (itoa (uh_attempt c))]
     @ (case uh_error c of None \<Rightarrow> [] | Some e \<Rightarrow> [env_entry ''MUP_ERROR'' e])
     @ map (\<lambda>(k, v). env_entry k v) env
     @ map (\<lambda>(k, v). env_entry (''MUP_META_'' @ to_upper k) v) (uh_metadata c)"

definition hook_failed :: "string \<Rightarrow> err \<Rightarrow> err" where
  "hook_failed name e = wrapf (''hook '' @ name @ '' failed'') e"

definition run_up_hook :: "shell \<Rightarrow> up_hook \<Rightarrow> up_hook_context \<Rightarrow> ('e, err option) up_prog" where
  "run_up_hook sh h c = (case h of
     CommandHook name ty command timeout env \<Rightarrow> do {
       r \<leftarrow> on_os (sh command timeout (hook_environment env c));
       ret (map_option (hook_failed name) (snd r)) }
   | FunctionHook name ty f \<Rightarrow> do {
       s \<leftarrow> get_input;
       r \<leftarrow> on_os (f c s);
       _ \<leftarrow> put_input (snd r);
       ret (map_option (hook_failed name) (fst r)) })"

lemma still_run_up_hook [still_intros]: "still_prog (run_up_hook sh h c)"
  by (cases h) (auto simp: run_up_hook_def intro!: still_intros)

section \<open>The registry\<close>

type_synonym hook_registry = "(string, up_hook list) gomap"

definition new_hook_registry :: "hook_registry" where "new_hook_registry = []"

definition register_up_hook :: "up_hook \<Rightarrow> hook_registry \<Rightarrow> hook_registry" where
  "register_up_hook h r = mappend (uhk_type h) h r"

definition run_hooks :: "shell \<Rightarrow> hook_registry \<Rightarrow> up_hook_context \<Rightarrow> ('e, err option) up_prog" where
  "run_hooks sh r c = for_each (\<lambda>h. do {
     e \<leftarrow> run_up_hook sh h c;
     ret (map_option (wrapf ''hook execution failed'') e) }) (mlist r (uh_type c))"

lemma still_run_hooks [still_intros]: "still_prog (run_hooks sh r c)"
  unfolding run_hooks_def by (intro still_intros)

definition has_hooks :: "hook_registry \<Rightarrow> string \<Rightarrow> bool" where
  "has_hooks r ty = (mlist r ty \<noteq> [])"

text \<open>A command whose first word has a slash must be an executable file.\<close>

definition validate_command :: "(string \<Rightarrow> bool) \<Rightarrow> string \<Rightarrow> err option io" where
  "validate_command executable command = (case go_fields (trim_space command) of
     [] \<Rightarrow> ret (Some ''empty command'')
   | first # _ \<Rightarrow>
       if slash \<notin> set first then ret None
       else do {
         s \<leftarrow> os_stat first;
         ret (case s of
           Inl e \<Rightarrow> Some (if is_not_exist e then ''script file not found: '' @ first
                           else wrapf (''cannot access script file '' @ first) (os_msg e))
         | Inr (FFile _ _) \<Rightarrow> if executable first then None
             else Some (''script file is not executable: '' @ first @ '' (use chmod +x)'')
         | Inr _ \<Rightarrow> Some (''script path is not a regular file: '' @ first)) })"

definition validate_up_hook :: "(string \<Rightarrow> bool) \<Rightarrow> string \<Rightarrow> up_hook \<Rightarrow> err option io" where
  "validate_up_hook executable ty h = (case h of
     CommandHook name _ command _ _ \<Rightarrow> do {
       e \<leftarrow> validate_command executable command;
       ret (map_option (wrapf (''hook '' @ name @ '' ('' @ ty @ '')'')) e) }
   | FunctionHook _ _ _ \<Rightarrow> ret None)"

text \<open>The walk over the map visits the types in the order of the list.\<close>

definition validate_registry :: "(string \<Rightarrow> bool) \<Rightarrow> hook_registry \<Rightarrow> err option io" where
  "validate_registry executable r = for_each (\<lambda>(ty, hs). for_each (validate_up_hook executable ty) hs) r"

section \<open>Waiting times\<close>

record wait_config =
  wc_after_node_upgrade :: int
  wc_after_node_failure :: int
  wc_after_primary_stepdown :: int
  wc_after_secondary_upgrade :: int
  wc_before_primary_upgrade :: int
  wc_between_shards :: int
  wc_after_shard_complete :: int
  wc_between_phases :: int
  wc_after_balancer_stop :: int
  wc_after_fcv_upgrade :: int
  wc_health_interval :: int
  wc_health_timeout :: int

definition seconds :: "int \<Rightarrow> int" where "seconds n = n * 1000000000"

definition default_wait_config :: wait_config where
  "default_wait_config = \<lparr>wc_after_node_upgrade = seconds 5, wc_after_node_failure = seconds 10,
     wc_after_primary_stepdown = seconds 30, wc_after_secondary_upgrade = seconds 10, wc_before_primary_upgrade = seconds 15,
     wc_between_shards = seconds 60, wc_after_shard_complete = seconds 30, wc_between_phases = seconds 10,
     wc_after_balancer_stop = seconds 30, wc_after_fcv_upgrade = seconds 60, wc_health_interval = seconds 5,
     wc_health_timeout = seconds 300\<rparr>"

definition wait_manager :: "wait_config option \<Rightarrow> wait_config" where
  "wait_manager c = (case c of None \<Rightarrow> default_wait_config | Some c \<Rightarrow> c)"

definition wait_duration :: "wait_config \<Rightarrow> string \<Rightarrow> int res" where
  "wait_duration w ty =
     (if ty = ''after-node-upgrade'' then Ok (wc_after_node_upgrade w)
      else if ty = ''after-node-failure'' then Ok (wc_after_node_failure w)
      else if ty = ''after-primary-stepdown'' then Ok (wc_after_primary_stepdown w)
      else if ty = ''after-secondary-upgrade'' then Ok (wc_after_secondary_upgrade w)
      else if ty = ''before-primary-upgrade'' then Ok (wc_before_primary_upgrade w)
      else if ty = ''between-shards'' then Ok (wc_between_shards w)
      else if ty = ''after-shard-complete'' then Ok (wc_after_shard_complete w)
      else if ty = ''between-phases'' then Ok (wc_between_phases w)
      else if ty = ''after-balancer-stop'' then Ok (wc_after_balancer_stop w)
      else if ty = ''after-fcv-upgrade'' then Ok (wc_after_fcv_upgrade w)
      else Err (''unknown wait type: '' @ ty))"

end
