(* ===== verification/Upgrade_Prompt.thy ===== *)
theory Upgrade_Prompt imports Upgrade_State Upgrade_Hooks begin

text \<open>
  \<^verbatim>\<open>pkg/upgrade/prompt.go\<close>: asking the operator. What is left of the standard input is a byte string that reading consumes;
  what is printed is not modelled. The letters of the answers are compared without case on ASCII.
\<close>

section \<open>Reading\<close>

text \<open>\<^verbatim>\<open>ReadString('\n')\<close>: the bytes, whether the input ended before a line break, and what is left.\<close>

definition read_string :: "string \<Rightarrow> (string \<times> bool) \<times> string" where
  "read_string s = (case dropWhile (\<lambda>c. c \<noteq> CHR 0x0A) s of
     [] \<Rightarrow> ((s, True), [])
   | c # r \<Rightarrow> ((takeWhile (\<lambda>c. c \<noteq> CHR 0x0A) s @ [c], False), r))"

definition answer_of :: "string \<Rightarrow> string" where
  "answer_of s = trim_space (to_lower s)"

text \<open>
  \<^verbatim>\<open>fmt.Scanln\<close> into one string: the first word of the line, nothing on an empty line. It reads up to the line break or
  one byte past what it did not expect.
\<close>

definition is_blank :: "char \<Rightarrow> bool" where "is_blank c = (is_white c \<and> c \<noteq> CHR 0x0A)"

definition scan_line :: "string \<Rightarrow> string \<times> string" where
  "scan_line s = (let t = dropWhile is_blank s;
       w = takeWhile (\<lambda>c. \<not> is_white c) t in
     (w, tl (dropWhile is_blank (drop (length w) t))))"

lemma read_string_shorter: "read_string s = ((x, False), r) \<Longrightarrow> length r < length s"
proof -
  assume "read_string s = ((x, False), r)"
  then obtain c where "dropWhile (\<lambda>c. c \<noteq> CHR 0x0A) s = c # r" by (auto simp: read_string_def split: list.splits)
  then show ?thesis using length_dropWhile_le [of "\<lambda>c. c \<noteq> CHR 0x0A" s] by simp
qed

lemma read_string_le: "length (snd (read_string s)) \<le> length s"
  using length_dropWhile_le [of "\<lambda>c. c \<noteq> CHR 0x0A" s] by (auto simp: read_string_def split: list.splits)

lemma read_string_shorter': "((x, eof), r) = read_string s \<Longrightarrow> \<not> eof \<Longrightarrow> length r < length s"
  using read_string_shorter [of s x r] by simp

lemma read_string_le': "(x, r) = read_string s \<Longrightarrow> length r \<le> length s"
  using read_string_le [of s] by (cases "read_string s") simp

section \<open>Levels and answers\<close>

definition level_none :: string where "level_none = ''none''"
definition level_phase :: string where "level_phase = ''phase''"
definition level_node :: string where "level_node = ''node''"
definition level_critical :: string where "level_critical = ''critical''"

lemmas level_defs = level_none_def level_phase_def level_node_def level_critical_def

datatype prompt_response = RContinue | RSkip | RPause | RAbort | RHealthCheck | RViewStatus

record prompt_context =
  pcx_phase :: string
  pcx_node :: string
  pcx_role :: string
  pcx_completed :: int
  pcx_total :: int
  pcx_minutes :: int
  pcx_critical :: bool
  pcx_operation :: string

definition should_prompt :: "string \<Rightarrow> prompt_context \<Rightarrow> bool" where
  "should_prompt level c =
     (if level = level_none then False
      else if level = level_phase then pcx_node c = []
      else if level = level_node then pcx_node c \<noteq> []
      else if level = level_critical then pcx_critical c
      else pcx_node c = [])"

text \<open>The loop of \<^verbatim>\<open>Prompt\<close>. It ends, since each round reads a line; without one it fails.\<close>

definition read_failed :: err where "read_failed = wrapf ''failed to read input'' ''EOF''"

definition says_yes :: "string \<Rightarrow> bool" where
  "says_yes s = (answer_of s = ''yes'' \<or> answer_of s = ''y'')"

function prompt_loop :: "string \<Rightarrow> string \<Rightarrow> prompt_response res \<times> string" where
  "prompt_loop level s = (case read_string s of ((line, eof), r) \<Rightarrow>
     if eof then (Err read_failed, r)
     else let a = answer_of line in
       if a = ''c'' \<or> a = ''continue'' then (Ok RContinue, r)
       else if a = ''s'' \<or> a = ''skip'' then (if level \<noteq> level_node then prompt_loop level r else (Ok RSkip, r))
       else if a = ''p'' \<or> a = ''pause'' then (Ok RPause, r)
       else if a = ''a'' \<or> a = ''abort'' then
         (case read_string r of ((confirm, _), r') \<Rightarrow> if says_yes confirm then (Ok RAbort, r') else prompt_loop level r')
       else prompt_loop level r)"
  by pat_completeness auto
termination
proof (relation "measure (length \<circ> snd)", goal_cases)
  case 3
  then show ?case
    using read_string_shorter' [OF 3(1) [unfolded 3(2) [symmetric]] 3(3)] read_string_le' [OF 3(9)] by simp
qed (auto dest: read_string_shorter')

declare prompt_loop.simps [simp del]

definition prompt :: "string \<Rightarrow> prompt_context \<Rightarrow> string \<Rightarrow> prompt_response res \<times> string" where
  "prompt level c s = (if \<not> should_prompt level c then (Ok RContinue, s) else prompt_loop level s)"

definition context_of :: "upgrade_state \<Rightarrow> prompt_context" where
  "context_of u = \<lparr>pcx_phase = us_phase u, pcx_node = [], pcx_role = [], pcx_completed = get_completed_node_count u,
     pcx_total = get_total_node_count u, pcx_minutes = 0, pcx_critical = False, pcx_operation = []\<rparr>"

definition prompt_for_phase :: "string \<Rightarrow> string \<Rightarrow> upgrade_state \<Rightarrow> string \<Rightarrow> prompt_response res \<times> string" where
  "prompt_for_phase level phase u = prompt level ((context_of u)\<lparr>pcx_phase := phase\<rparr>)"

definition prompt_for_node :: "string \<Rightarrow> string \<Rightarrow> string \<Rightarrow> upgrade_state \<Rightarrow> string \<Rightarrow> prompt_response res \<times> string" where
  "prompt_for_node level hp role u = prompt level ((context_of u)\<lparr>pcx_node := hp, pcx_role := role\<rparr>)"

definition prompt_for_critical :: "string \<Rightarrow> string \<Rightarrow> upgrade_state \<Rightarrow> string \<Rightarrow> prompt_response res \<times> string" where
  "prompt_for_critical level operation u = prompt level ((context_of u)\<lparr>pcx_critical := True, pcx_operation := operation\<rparr>)"

text \<open>The failover is asked about whatever the level is.\<close>

definition prompt_for_failover :: "string \<Rightarrow> prompt_response res \<times> string" where
  "prompt_for_failover s = (case read_string s of ((line, eof), r) \<Rightarrow>
     if eof then (Err read_failed, r) else (Ok (if says_yes line then RContinue else RAbort), r))"

definition parse_prompt_level :: "string \<Rightarrow> string res" where
  "parse_prompt_level s = (let l = to_lower s in
     if l = ''none'' \<or> l = [] then Ok level_none
     else if l = ''phase'' then Ok level_phase
     else if l = ''node'' then Ok level_node
     else if l = ''critical'' then Ok level_critical
     else Err (''invalid prompt level: '' @ s @ '' (expected 'none', 'phase', 'node', or 'critical')''))"

section \<open>Text\<close>

definition center :: "string \<Rightarrow> nat \<Rightarrow> string" where
  "center t width = (if width \<le> length t then take width t
     else let l = (width - length t) div 2 in
       replicate l CHR '' '' @ t @ replicate (width - length t - l) CHR '' '')"

definition pad :: "string \<Rightarrow> nat \<Rightarrow> string" where
  "pad t width = (if width \<le> length t then take width t else t @ replicate (width - length t) CHR '' '')"

definition format_phase_name :: "string \<Rightarrow> string" where
  "format_phase_name phase =
     (if phase = phase_pre_flight then ''Pre-Flight Validation''
      else if phase = phase_config_servers then ''Config Servers Upgrade''
      else if phase = phase_mongos then ''Mongos Upgrade''
      else if phase = phase_post_upgrade then ''Post-Upgrade Tasks''
      else phase)"

definition go_quot :: "int \<Rightarrow> int \<Rightarrow> int" where "go_quot a b = sgn a * sgn b * (\<bar>a\<bar> div \<bar>b\<bar>)"
definition go_rem :: "int \<Rightarrow> int \<Rightarrow> int" where "go_rem a b = a - b * go_quot a b"

definition format_duration :: "int \<Rightarrow> string" where
  "format_duration d =
     (if d < seconds 60 then itoa (go_quot d (seconds 1)) @ ''s''
      else if d < seconds 3600 then itoa (go_quot d (seconds 60)) @ ''m''
      else itoa (go_quot d (seconds 3600)) @ ''h '' @ itoa (go_rem (go_quot d (seconds 60)) 60) @ ''m'')"

section \<open>Lemmas\<close>

lemma center_length: "length (center t w) = w"
  by (auto simp: center_def Let_def)

lemma pad_length: "length (pad t w) = w"
  by (auto simp: pad_def)

text \<open>What the loop answers: never the two commands that it serves itself, and a skip only where a skip is allowed.\<close>

lemma prompt_loop_answers:
  "fst (prompt_loop level s) = Ok a \<Longrightarrow> a \<in> {RContinue, RPause, RAbort} \<or> a = RSkip \<and> level = level_node"
proof (induction level s rule: prompt_loop.induct)
  case (1 level s)
  obtain line eof r where l: "read_string s = ((line, eof), r)" by (metis surj_pair)
  obtain c e r' where c: "read_string r = ((c, e), r')" by (metis surj_pair)
  note ih = 1(1-3) [OF l [symmetric] refl _ refl]
  show ?case
    using 1(4) ih c unfolding prompt_loop.simps [of level s] l by (auto simp: Let_def split: if_splits)
qed

lemma prompt_loop_fails: "fst (prompt_loop level s) = Err x \<Longrightarrow> x = read_failed"
proof (induction level s rule: prompt_loop.induct)
  case (1 level s)
  obtain line eof r where l: "read_string s = ((line, eof), r)" by (metis surj_pair)
  obtain c e r' where c: "read_string r = ((c, e), r')" by (metis surj_pair)
  note ih = 1(1-3) [OF l [symmetric] refl _ refl]
  show ?case
    using 1(4) ih c unfolding prompt_loop.simps [of level s] l by (auto simp: Let_def split: if_splits)
qed

lemma prompt_fails: "fst (prompt level c s) = Err x \<Longrightarrow> x = read_failed"
  by (auto simp: prompt_def dest: prompt_loop_fails split: if_splits)

end
