(* ===== verification/Upgrade_Flow.thy ===== *)
theory Upgrade_Flow imports Upgrade_Prompt Topology Meta Versions begin

text \<open>
  \<^verbatim>\<open>pkg/upgrade/upgrade.go\<close> and \<^verbatim>\<open>node_ops.go\<close>: the phases of an upgrade, whatever carries them out.

  The two interfaces of the source, of the implementation and of the operations on nodes, are records of programs on the
  memory of the upgrade. The progress that is displayed is left out,
  with the readings of the clock that only feed it; sleeping shows in the other readings. The order in which Go walks over
  the map of shards is the function \<open>up_shuffle\<close>.
\<close>

section \<open>Interfaces\<close>

text \<open>\<^verbatim>\<open>NodeOperations\<close>, and what it answers of a process.\<close>

record node_status =
  ns_state :: string
  ns_healthy :: bool
  ns_version :: string
  ns_uptime :: int
  ns_error :: "err option"
  ns_pid :: int

record 's node_ops =
  no_stop :: "string \<Rightarrow> ('s, err option) prog"
  no_start :: "string \<Rightarrow> ('s, err option) prog"
  no_restart :: "string \<Rightarrow> ('s, err option) prog"
  no_status :: "string \<Rightarrow> ('s, node_status res) prog"
  no_wait :: "string \<Rightarrow> int \<Rightarrow> ('s, err option) prog"
  no_prepare :: "string \<Rightarrow> variant \<Rightarrow> ('s, err option) prog"
  no_update_config :: "string \<Rightarrow> string \<Rightarrow> ('s, err option) prog"
  no_verify :: "string \<Rightarrow> string \<Rightarrow> ('s, err option) prog"
  no_setup :: "string \<Rightarrow> ('s, err option) prog"
  no_switch :: "string \<Rightarrow> string \<Rightarrow> ('s, err option) prog"
  no_cleanup :: "string \<Rightarrow> ('s, err option) prog"

text \<open>\<^verbatim>\<open>UpgraderInterface\<close>; the last four are those of the local implementation, which the code finds by a type assertion.\<close>

record 's local_steps =
  ls_setup :: "('s, err option) prog"
  ls_regenerate :: "('s, err option) prog"
  ls_start :: "('s, err option) prog"
  ls_cleanup :: "('s, unit) prog"

record 's up_impl =
  im_validate :: "('s, err option) prog"
  im_config_servers :: "('s, err option) prog"
  im_shard :: "string \<Rightarrow> ('s, err option) prog"
  im_mongos :: "('s, err option) prog"
  im_post :: "('s, err option) prog"
  im_local :: "'s local_steps option"

record up_config =
  uf_cluster :: string
  uf_from :: string
  uf_to :: string
  uf_variant :: variant
  uf_fcv :: bool
  uf_parallel :: bool
  uf_level :: string
  uf_meta_dir :: string
  uf_topology :: topology
  uf_manager :: state_manager
  uf_prompter :: string          \<comment> \<open>the level the prompter was made with\<close>
  uf_dry_run :: bool
  uf_wait :: "wait_config option"
  uf_hooks :: "hook_registry option"

record up_env =
  ue_yaml :: up_codec
  ue_stamp :: "int \<Rightarrow> string"
  ue_shell :: shell

record 's upgrader =
  up_conf :: "up_config"
  up_meta :: cluster_metadata
  up_is_local :: bool
  up_nodes :: "'s node_ops option"
  up_env :: up_env
  up_shuffle :: "string list \<Rightarrow> string list"

section \<open>Creating\<close>

text \<open>The state of an upgrade that is underway is taken up, whatever versions it is about.\<close>

definition fill_config :: "cluster_metadata \<Rightarrow> up_config \<Rightarrow> up_config" where
  "fill_config cm c = c\<lparr>uf_from := (if uf_from c = [] then cm_version cm else uf_from c),
     uf_hooks := (case uf_hooks c of None \<Rightarrow> Some new_hook_registry | Some r \<Rightarrow> Some r),
     uf_wait := (case uf_wait c of None \<Rightarrow> Some default_wait_config | Some w \<Rightarrow> Some w)\<rparr>"

definition initial_state :: "up_env \<Rightarrow> cluster_metadata \<Rightarrow> up_config \<Rightarrow> upgrade_state io" where
  "initial_state env cm c = do {
     r \<leftarrow> load_upgrade (ue_yaml env) (uf_manager c);
     case r of
       Inr u \<Rightarrow> ret u
     | Inl _ \<Rightarrow> do {
         u \<leftarrow> initialize_upgrade (uf_cluster c) (cm_variant cm @ ''-'' @ uf_from c) (cm_variant cm @ ''-'' @ uf_to c);
         ret (u\<lparr>us_prompt_level := uf_level c\<rparr>) } }"

definition new_upgrader ::
  "up_env \<Rightarrow> yaml_codec \<Rightarrow> string res \<Rightarrow> (string list \<Rightarrow> string list) \<Rightarrow> up_config \<Rightarrow> ('s upgrader \<times> upgrade_state) res io" where
  "new_upgrader env ym home shuffle c = (case new_meta_manager home of
     Inl e \<Rightarrow> ret (Err (wrapf ''failed to create meta manager'' e))
   | Inr base \<Rightarrow> do {
       r \<leftarrow> load_metadata ym base (uf_cluster c);
       case r of
         Inl e \<Rightarrow> ret (Err (wrapf ''failed to load cluster metadata'' e))
       | Inr cm \<Rightarrow> do {
           let c = fill_config cm c;
           u \<leftarrow> initial_state env cm c;
           ret (Ok (\<lparr>up_conf = c, up_meta = cm, up_is_local = (cm_deploy_mode cm = ''local''), up_nodes = None,
             up_env = env, up_shuffle = shuffle\<rparr>, u)) } })"

section \<open>Saving, hooks and prompts\<close>

abbreviation up_topology :: "'s upgrader \<Rightarrow> topology" where "up_topology u \<equiv> uf_topology (up_conf u)"

definition save_up :: "('e up_run) upgrader \<Rightarrow> ('e, err option) up_prog" where
  "save_up u = on_state (save_upgrade (ue_yaml (up_env u)) (uf_manager (up_conf u)))"

definition checkpoint_up :: "('e up_run) upgrader \<Rightarrow> ('e, err option) up_prog" where
  "checkpoint_up u = on_state (checkpoint_upgrade (ue_yaml (up_env u)) (uf_manager (up_conf u)))"

definition set_node :: "string \<Rightarrow> string \<Rightarrow> string \<Rightarrow> ('e, unit) up_prog" where
  "set_node hp status msg = step_state (update_node_state hp status msg)"

definition set_phase :: "string \<Rightarrow> string \<Rightarrow> ('e, unit) up_prog" where
  "set_phase phase status = step_state (update_up_phase phase status)"

definition hook_context_of :: "'s upgrader \<Rightarrow> string \<Rightarrow> up_hook_context" where
  "hook_context_of u ty = \<lparr>uh_type = ty, uh_cluster = uf_cluster (up_conf u), uh_phase = [], uh_node = [], uh_role = [],
     uh_shard = [], uh_from = uf_from (up_conf u), uh_to = uf_to (up_conf u), uh_attempt = 0, uh_error = None, uh_metadata = []\<rparr>"

definition call_hooks :: "'s upgrader \<Rightarrow> up_hook_context \<Rightarrow> ('e, err option) up_prog" where
  "call_hooks u c = run_hooks (ue_shell (up_env u)) (case uf_hooks (up_conf u) of None \<Rightarrow> [] | Some r \<Rightarrow> r) c"

definition pause_up :: "('e up_run) upgrader \<Rightarrow> string \<Rightarrow> ('e, err option) up_prog" where
  "pause_up u reason = do {
     _ \<leftarrow> step_state (\<lambda>s. do {
       now \<leftarrow> time_now;
       ret (s\<lparr>us_status := overall_paused, us_paused_at := Some now, us_paused_reason := reason, us_pause_requested := True\<rparr>) });
     try_step (checkpoint_up u) (wrapf ''failed to save pause state'') (ret (Some ''upgrade paused'')) }"

definition ask_phase :: "('e up_run) upgrader \<Rightarrow> string \<Rightarrow> ('e, err option) up_prog" where
  "ask_phase u phase =
     (if uf_level (up_conf u) \<noteq> level_phase then ret None
      else do {
        s \<leftarrow> get_up;
        r \<leftarrow> on_input (prompt_for_phase (uf_prompter (up_conf u)) phase s);
        case r of
          Inl e \<Rightarrow> ret (Some (wrapf ''prompt failed'' e))
        | Inr RPause \<Rightarrow> pause_up u ''User requested pause''
        | Inr RAbort \<Rightarrow> ret (Some ''upgrade aborted by user'')
        | Inr _ \<Rightarrow> ret None })"

definition handle_response :: "('e up_run) upgrader \<Rightarrow> prompt_response \<Rightarrow> string \<Rightarrow> ('e, err option) up_prog" where
  "handle_response u r hp = (case r of
     RSkip \<Rightarrow> do {
       _ \<leftarrow> set_node hp node_skipped ''User skipped'';
       _ \<leftarrow> step_state (\<lambda>s. ret (s\<lparr>us_skipped := us_skipped s @ [hp]\<rparr>));
       _ \<leftarrow> save_up u;
       ret (Some ''node skipped'') }
   | RPause \<Rightarrow> pause_up u ''User requested pause''
   | RAbort \<Rightarrow> ret (Some ''upgrade aborted by user'')
   | _ \<Rightarrow> ret None)"

text \<open>The prompt before a node, which three loops share.\<close>

definition ask_node :: "('e up_run) upgrader \<Rightarrow> string \<Rightarrow> string \<Rightarrow> ('e, err option) up_prog" where
  "ask_node u hp role =
     (if uf_level (up_conf u) \<noteq> level_node then ret None
      else do {
        s \<leftarrow> get_up;
        r \<leftarrow> on_input (prompt_for_node (uf_prompter (up_conf u)) hp role s);
        case r of Inl e \<Rightarrow> ret (Some e) | Inr a \<Rightarrow> handle_response u a hp })"

section \<open>Phases\<close>

definition phase_is_completed :: "upgrade_state \<Rightarrow> string \<Rightarrow> bool" where
  "phase_is_completed s phase = (case mget (us_phases s) phase of None \<Rightarrow> False | Some p \<Rightarrow> ups_status p = phase_completed)"

definition execute_up_phase :: "('e up_run) upgrader \<Rightarrow> string \<Rightarrow> ('e, err option) up_prog \<Rightarrow> ('e, err option) up_prog" where
  "execute_up_phase u phase body = do {
     s \<leftarrow> get_up;
     if phase_is_completed s phase then ret None
     else try_step (ask_phase u phase) id (
       try_step (call_hooks u ((hook_context_of u hook_before_phase)\<lparr>uh_phase := phase\<rparr>)) (wrapf ''before-phase hook failed'') (do {
         _ \<leftarrow> set_phase phase phase_in_progress;
         try_step (save_up u) (wrapf ''failed to save state'') (do {
           e \<leftarrow> body;
           case e of
             Some x \<Rightarrow> do {
               _ \<leftarrow> set_phase phase phase_failed;
               _ \<leftarrow> save_up u;
               ret (Some x) }
           | None \<Rightarrow> do {
               _ \<leftarrow> set_phase phase phase_completed;
               _ \<leftarrow> call_hooks u ((hook_context_of u hook_after_phase)\<lparr>uh_phase := phase\<rparr>);
               try_step (checkpoint_up u) (wrapf ''checkpoint failed'') (ret None) } }) })) }"

definition shard_names :: "topology \<Rightarrow> string list" where
  "shard_names t = mkeys (group_by md_replica_set id (filter (\<lambda>n. md_replica_set n \<noteq> []) (t_mongod t)) [])"

definition upgrade_all_shards :: "('e up_run) upgrader \<Rightarrow> 'e up_run up_impl \<Rightarrow> ('e, err option) up_prog" where
  "upgrade_all_shards u im =
     (if uf_parallel (up_conf u) then ret (Some ''parallel shard upgrades not yet implemented'')
      else for_each (\<lambda>name. try_step (execute_up_phase u (''shard-'' @ name) (im_shard im name))
          (wrapf (''failed to upgrade shard '' @ name)) (ret None))
        (up_shuffle u (shard_names (up_topology u))))"

section \<open>Nodes\<close>

datatype up_node = UpMongod mongod_node | UpMongos mongos_node | UpConfig config_node

definition host_port :: "string \<Rightarrow> int \<Rightarrow> string" where "host_port host port = host @ '':'' @ itoa port"

fun up_node_id :: "up_node \<Rightarrow> string" where
  "up_node_id (UpMongod n) = ''mongod-'' @ itoa (md_port n)"
| "up_node_id (UpMongos n) = ''mongos-'' @ itoa (ms_port n)"
| "up_node_id (UpConfig n) = ''mongod-'' @ itoa (cs_port n)"

fun up_node_hp :: "up_node \<Rightarrow> string" where
  "up_node_hp (UpMongod n) = host_port (md_host n) (md_port n)"
| "up_node_hp (UpMongos n) = host_port (ms_host n) (ms_port n)"
| "up_node_hp (UpConfig n) = host_port (cs_host n) (cs_port n)"

definition node_hook :: "'s upgrader \<Rightarrow> string \<Rightarrow> string \<Rightarrow> string \<Rightarrow> up_hook_context" where
  "node_hook u ty hp role = (hook_context_of u ty)\<lparr>uh_node := hp, uh_role := role\<rparr>"

definition node_steps :: "'e up_run upgrader \<Rightarrow> 'e up_run node_ops \<Rightarrow> string \<Rightarrow> string \<Rightarrow> ('e, err option) up_prog" where
  "node_steps u ops hp i = do {
     _ \<leftarrow> trace_call ''stop'' hp i;
     try_step (no_stop ops i) (wrapf ''failed to stop process'') (do {
       _ \<leftarrow> trace_call ''start'' hp i;
       try_step (no_start ops i) (wrapf ''failed to start process'') (do {
         _ \<leftarrow> trace_call ''wait'' hp i;
         try_step (no_wait ops i (seconds 30)) (wrapf ''health check failed'') (do {
           _ \<leftarrow> trace_call ''verify'' hp i;
           try_step (no_verify ops i (uf_to (up_conf u))) (wrapf ''version verification failed'') (ret None) }) }) }) }"

definition upgrade_node :: "('e up_run) upgrader \<Rightarrow> up_node \<Rightarrow> string \<Rightarrow> ('e, err option) up_prog" where
  "upgrade_node u nd role = (case up_nodes u of
     None \<Rightarrow> ret (Some ''nodeOps not initialized (must be set by concrete upgrader)'')
   | Some ops \<Rightarrow> let hp = up_node_hp nd in
       try_step (call_hooks u (node_hook u hook_before_node_upgrade hp role)) (wrapf ''before-node-upgrade hook failed'') (do {
         e \<leftarrow> node_steps u ops hp (up_node_id nd);
         case e of
           Some x \<Rightarrow> do {
             _ \<leftarrow> call_hooks u ((node_hook u hook_on_node_failure hp role)\<lparr>uh_error := Some x\<rparr>);
             ret (Some x) }
         | None \<Rightarrow> do {
             _ \<leftarrow> call_hooks u (node_hook u hook_after_node_upgrade hp role);
             _ \<leftarrow> set_node hp node_completed [];
             _ \<leftarrow> checkpoint_up u;
             ret None } }))"

definition upgrade_standalone :: "('e up_run) upgrader \<Rightarrow> ('e, err option) up_prog" where
  "upgrade_standalone u = (case t_mongod (up_topology u) of
     [n] \<Rightarrow> let hp = host_port (md_host n) (md_port n) in
       try_step (ask_node u hp ''STANDALONE'') id (do {
         _ \<leftarrow> set_node hp node_in_progress [];
         _ \<leftarrow> save_up u;
         e \<leftarrow> upgrade_node u (UpMongod n) ''STANDALONE'';
         case e of
           Some x \<Rightarrow> do {
             _ \<leftarrow> set_node hp node_failed x;
             _ \<leftarrow> save_up u;
             ret (Some (wrapf (''failed to upgrade '' @ hp) x)) }
         | None \<Rightarrow> do {
             _ \<leftarrow> set_node hp node_completed [];
             _ \<leftarrow> checkpoint_up u;
             ret None } })
   | ns \<Rightarrow> ret (Some (''expected 1 mongod for standalone, found '' @ itoa (int (length ns)))))"

section \<open>The upgrade\<close>

text \<open>What the kind of the topology asks for. A replica set has a node, or it would not be one.\<close>

definition upgrade_topology :: "('e up_run) upgrader \<Rightarrow> 'e up_run up_impl \<Rightarrow> ('e, err option) up_prog" where
  "upgrade_topology u im = (let ty = get_topology_type (up_topology u) in
     if ty = ''sharded'' then
       try_step (execute_up_phase u phase_config_servers (im_config_servers im)) (wrapf ''config server upgrade failed'') (
       try_step (upgrade_all_shards u im) (wrapf ''shard upgrade failed'') (
       try_step (execute_up_phase u phase_mongos (im_mongos im)) (wrapf ''mongos upgrade failed'') (ret None)))
     else if ty = ''replica_set'' then
       try_step (execute_up_phase u phase_shard (im_shard im (md_replica_set (hd (t_mongod (up_topology u))))))
         (wrapf ''replica set upgrade failed'') (ret None)
     else if ty = ''standalone'' then
       try_step (execute_up_phase u phase_shard (upgrade_standalone u)) (wrapf ''standalone upgrade failed'') (ret None)
     else ret (Some (''unsupported topology type: '' @ ty)))"

definition upgrade_phases :: "('e up_run) upgrader \<Rightarrow> 'e up_run up_impl \<Rightarrow> ('e, err option) up_prog" where
  "upgrade_phases u im = try_step (upgrade_topology u im) id (
     try_step (execute_up_phase u phase_post_upgrade (im_post im)) (wrapf ''post-upgrade tasks failed'') (do {
       _ \<leftarrow> step_state (\<lambda>s. ret (s\<lparr>us_status := overall_completed\<rparr>));
       _ \<leftarrow> on_state (\<lambda>s. do {
         e \<leftarrow> archive_upgrade (ue_yaml (up_env u)) (ue_stamp (up_env u)) (uf_manager (up_conf u)) s;
         ret (e, s) });
       _ \<leftarrow> call_hooks u (hook_context_of u hook_on_upgrade_complete);
       ret None }))"

text \<open>The local steps before the phases, with the deferred removal of the link \<^verbatim>\<open>next\<close> unless the upgrade is complete.\<close>

definition upgrade_local :: "('e up_run) upgrader \<Rightarrow> 'e up_run up_impl \<Rightarrow> 'e up_run local_steps \<Rightarrow> ('e, err option) up_prog" where
  "upgrade_local u im l =
     try_step (ls_setup l) (wrapf ''failed to setup version directories'') (
     try_step (ls_regenerate l) (wrapf ''failed to generate supervisor config'') (do {
       e \<leftarrow> try_step (ls_start l) (wrapf ''failed to start new supervisor'') (upgrade_phases u im);
       s \<leftarrow> get_up;
       _ \<leftarrow> (if us_status s \<noteq> overall_completed then ls_cleanup l else ret ());
       ret e }))"

definition generate_upgrade_plan :: "'s up_impl \<Rightarrow> ('s, err option) prog" where
  "generate_upgrade_plan im = try_step (im_validate im) (wrapf ''pre-flight validation failed'') (ret None)"

definition upgrade :: "('e up_run) upgrader \<Rightarrow> 'e up_run up_impl \<Rightarrow> ('e, err option) up_prog" where
  "upgrade u im =
     (if uf_dry_run (up_conf u) then generate_upgrade_plan im
      else try_step (call_hooks u (hook_context_of u hook_on_upgrade_start)) (wrapf ''on-upgrade-start hook failed'') (do {
        e \<leftarrow> execute_up_phase u phase_pre_flight (im_validate im);
        case e of
          Some x \<Rightarrow> let x = wrapf ''pre-flight validation failed'' x in do {
            _ \<leftarrow> call_hooks u ((hook_context_of u hook_on_upgrade_failure)\<lparr>uh_error := Some x\<rparr>);
            ret (Some x) }
        | None \<Rightarrow> (case (if up_is_local u then im_local im else None) of
            Some l \<Rightarrow> upgrade_local u im l
          | None \<Rightarrow> upgrade_phases u im) }))"

definition resume_up :: "('e up_run) upgrader \<Rightarrow> 'e up_run up_impl \<Rightarrow> ('e, err option) up_prog" where
  "resume_up u im = do {
     s \<leftarrow> get_up;
     if us_status s \<noteq> overall_paused
     then ret (Some (''cannot resume: upgrade status is '' @ us_status s @ '' (expected paused)''))
     else do {
       a \<leftarrow> on_input scan_line;
       if a \<noteq> ''yes'' \<and> a \<noteq> ''y'' then ret (Some ''resume cancelled by user'')
       else do {
         _ \<leftarrow> step_state (\<lambda>s. ret (s\<lparr>us_status := overall_in_progress, us_pause_requested := False\<rparr>));
         upgrade u im } } }"

text \<open>The hook that waits for the operator (\<^verbatim>\<open>hooks.go\<close>): the answer does not matter.\<close>

definition create_custom_wait_hook :: up_hook where
  "create_custom_wait_hook = FunctionHook ''custom-wait'' hook_before_primary_stepdown
     (\<lambda>c s. ret (None, tl (dropWhile is_blank s)))"

end
