(* ===== verification/Upgrade_Mongo.thy ===== *)
theory Upgrade_Mongo imports Upgrade_Flow Handlers_Process begin

text \<open>
  \<^verbatim>\<open>pkg/upgrade/replica_set.go\<close> and the part of \<^verbatim>\<open>local.go\<close> that talks to MongoDB: the roles of the members of a replica
  set, the step down of a primary, the feature compatibility version, and the checks of health and lag.

  The MongoDB driver is a parameter. A client is the address it was made with and whether it connects directly. A document
  is an untyped map, in which an \<^verbatim>\<open>int32\<close> is a \<open>GInt\<close>; an instant and a BSON timestamp are both a \<open>GTime\<close>, in nanoseconds.
  Sleeping shows in the readings of the clock.
\<close>

section \<open>The driver\<close>

type_synonym doc = "(string, goval) gomap"

record up_driver =
  ud_connect :: "string \<Rightarrow> bool \<Rightarrow> err option io"
  ud_ping :: "string \<Rightarrow> bool \<Rightarrow> err option io"
  ud_run :: "string \<Rightarrow> bool \<Rightarrow> string \<Rightarrow> doc \<Rightarrow> doc res io"                 \<comment> \<open>database, command\<close>
  ud_find_one :: "string \<Rightarrow> bool \<Rightarrow> string \<Rightarrow> string \<Rightarrow> doc \<Rightarrow> doc res io"  \<comment> \<open>database, collection, filter\<close>
  ud_find :: "string \<Rightarrow> bool \<Rightarrow> string \<Rightarrow> string \<Rightarrow> doc \<Rightarrow> doc res list res io"
  ud_show :: "doc \<Rightarrow> string"          \<comment> \<open>the verb \<^verbatim>\<open>%v\<close>\<close>
  ud_type :: "goval \<Rightarrow> string"        \<comment> \<open>the verb \<^verbatim>\<open>%T\<close>\<close>

definition mongo_uri :: "string \<Rightarrow> string" where "mongo_uri s = ''mongodb://'' @ s"

definition set_uri :: "string list \<Rightarrow> string \<Rightarrow> string" where
  "set_uri hosts rs = mongo_uri (join_with '','' hosts @ ''/?replicaSet='' @ rs)"

section \<open>Members of a replica set\<close>

record rs_member =
  rsm_host :: string
  rsm_port :: int
  rsm_state_str :: string
  rsm_state :: int
  rsm_health :: int
  rsm_primary :: bool

definition str_field :: "doc \<Rightarrow> string \<Rightarrow> string" where
  "str_field d k = (case mget d k of Some (GStr s) \<Rightarrow> s | _ \<Rightarrow> [])"

definition int_field :: "doc \<Rightarrow> string \<Rightarrow> int option" where
  "int_field d k = (case mget d k of Some (GInt i) \<Rightarrow> Some i | _ \<Rightarrow> None)"

definition int_or_0 :: "int option \<Rightarrow> int" where "int_or_0 i = (case i of None \<Rightarrow> 0 | Some i \<Rightarrow> i)"

definition parse_member_name :: "string \<Rightarrow> string \<times> int" where
  "parse_member_name name = (case split_on CHR '':'' name of
     [host, port] \<Rightarrow> (host, int_or_0 (sscanf_d port))
   | _ \<Rightarrow> ([], 0))"

definition member_of :: "goval \<Rightarrow> rs_member option" where
  "member_of v = (case v of
     GMap d \<Rightarrow> (case parse_member_name (str_field d ''name'') of (host, port) \<Rightarrow>
       let state = int_or_0 (int_field d ''state'') in
       Some \<lparr>rsm_host = host, rsm_port = port, rsm_state_str = str_field d ''stateStr'', rsm_state = state,
         rsm_health = int_or_0 (int_field d ''health''), rsm_primary = (state = 1)\<rparr>)
   | _ \<Rightarrow> None)"

definition status_members :: "doc \<Rightarrow> goval list res" where
  "status_members d = (case mget d ''members'' of
     Some (GList ms) \<Rightarrow> Ok ms
   | _ \<Rightarrow> Err ''unexpected replica set status format'')"

definition get_replica_set_status :: "up_driver \<Rightarrow> string \<Rightarrow> string list \<Rightarrow> ('e, rs_member list res) up_prog" where
  "get_replica_set_status dr rs hosts = do {
     e \<leftarrow> on_os (ud_connect dr (set_uri hosts rs) False);
     case e of
       Some x \<Rightarrow> ret (Err (wrapf ''failed to connect to replica set'' x))
     | None \<Rightarrow> do {
         r \<leftarrow> on_os (ud_run dr (set_uri hosts rs) False ''admin'' status_command);
         ret (case r of
           Inl x \<Rightarrow> Err (wrapf ''failed to get replica set status'' x)
         | Inr d \<Rightarrow> map_sum id (List.map_filter member_of) (status_members d)) } }"

definition member_hp :: "rs_member \<Rightarrow> string" where "member_hp m = host_port (rsm_host m) (rsm_port m)"

definition detect_node_role :: "up_driver \<Rightarrow> string \<Rightarrow> string \<Rightarrow> string list \<Rightarrow> ('e, string res) up_prog" where
  "detect_node_role dr hp rs hosts = do {
     r \<leftarrow> get_replica_set_status dr rs hosts;
     ret (case r of
       Inl x \<Rightarrow> Err x
     | Inr ms \<Rightarrow> (case find (\<lambda>m. member_hp m = hp) ms of
         Some m \<Rightarrow> Ok (rsm_state_str m)
       | None \<Rightarrow> Err (''node '' @ hp @ '' not found in replica set''))) }"

section \<open>Stepping down\<close>

definition step_down_command :: doc where
  "step_down_command = [(''replSetStepDown'', GInt 60), (''secondaryCatchUpPeriodSecs'', GInt 10)]"

text \<open>
  The loop that looks for a primary other than the old one: every two seconds, for thirty seconds. The last primary that was
  seen is remembered.
\<close>

fun await_new_primary :: "nat \<Rightarrow> up_driver \<Rightarrow> string \<Rightarrow> string \<Rightarrow> string list \<Rightarrow> string \<Rightarrow> ('e, string) up_prog" where
  "await_new_primary 0 dr old rs hosts seen = ret seen"
| "await_new_primary (Suc n) dr old rs hosts seen = do {
     r \<leftarrow> get_replica_set_status dr rs hosts;
     case r of
       Inl _ \<Rightarrow> await_new_primary n dr old rs hosts seen
     | Inr ms \<Rightarrow> let seen = (case find rsm_primary ms of None \<Rightarrow> seen | Some m \<Rightarrow> member_hp m) in
         if seen \<noteq> [] \<and> seen \<noteq> old then ret seen else await_new_primary n dr old rs hosts seen }"

definition election_rounds :: nat where "election_rounds = 15"

definition step_down_failed :: "doc res \<Rightarrow> err option" where
  "step_down_failed r = (case r of
     Inl x \<Rightarrow> if contains x ''connection'' \<or> contains x ''socket'' then None else Some (wrapf ''stepdown command failed'' x)
   | Inr _ \<Rightarrow> None)"

definition step_down_primary :: "up_driver \<Rightarrow> string \<Rightarrow> string \<Rightarrow> string list \<Rightarrow> ('e, failover_event res) up_prog" where
  "step_down_primary dr hp rs hosts = do {
     started \<leftarrow> on_os time_now;
     e \<leftarrow> on_os (ud_connect dr (mongo_uri hp) True);
     case e of
       Some x \<Rightarrow> ret (Err (wrapf ''failed to connect to primary'' x))
     | None \<Rightarrow> do {
         r \<leftarrow> on_os (ud_run dr (mongo_uri hp) True ''admin'' step_down_command);
         case step_down_failed r of
           Some x \<Rightarrow> ret (Err x)
         | None \<Rightarrow> do {
             new \<leftarrow> await_new_primary election_rounds dr hp rs hosts [];
             now \<leftarrow> on_os time_now;
             ret (if new = [] then Err ''no new primary elected within 30s''
               else Ok \<lparr>fo_time = started, fo_replica_set = rs, fo_old_primary = hp, fo_new_primary = new,
                 fo_reason = ''stepdown'', fo_election_ms = go_quot (now - started) 1000000\<rparr>) } } }"

section \<open>Connecting to the cluster\<close>

type_synonym up_client = "string \<times> bool"

definition cluster_uri :: "topology \<Rightarrow> string res" where
  "cluster_uri t = (let ty = get_topology_type t in
     if ty = ''sharded'' then (case t_mongos t of
         [] \<Rightarrow> Err ''no mongos instances found in topology''
       | n # _ \<Rightarrow> Ok (mongo_uri (host_port (ms_host n) (ms_port n))))
     else if ty = ''replica_set'' then (case t_mongod t of
         [] \<Rightarrow> Err ''no mongod instances found in topology''
       | n # ns \<Rightarrow> Ok (set_uri (map (\<lambda>n. host_port (md_host n) (md_port n)) (n # ns)) (md_replica_set n)))
     else if ty = ''standalone'' then (case t_mongod t of
         [] \<Rightarrow> Err ''no mongod instance found in topology''
       | n # _ \<Rightarrow> Ok (mongo_uri (host_port (md_host n) (md_port n))))
     else Err (''unsupported topology type: '' @ ty))"

definition connect_to_cluster :: "up_driver \<Rightarrow> topology \<Rightarrow> ('e, up_client res) up_prog" where
  "connect_to_cluster dr t = (case cluster_uri t of
     Inl x \<Rightarrow> ret (Err x)
   | Inr uri \<Rightarrow> let direct = (get_topology_type t = ''standalone'') in do {
       e \<leftarrow> on_os (ud_connect dr uri direct);
       case e of
         Some x \<Rightarrow> ret (Err (wrapf ''failed to create MongoDB client'' x))
       | None \<Rightarrow> do {
           e \<leftarrow> on_os (ud_ping dr uri direct);
           ret (case e of Some x \<Rightarrow> Err (wrapf ''failed to ping MongoDB'' x) | None \<Rightarrow> Ok (uri, direct)) } })"

section \<open>Feature compatibility version\<close>

definition fcv_query :: doc where "fcv_query = [(''getParameter'', GInt 1), (''featureCompatibilityVersion'', GInt 1)]"
definition fcv_filter :: doc where "fcv_filter = [(''_id'', GStr ''featureCompatibilityVersion'')]"

text \<open>
  The version as the server stores it: from the parameter, or from the collection when there is no parameter. Reading it
  and reading it back differ in the texts of the errors, which are the three arguments.
\<close>

definition fcv_of_parameter :: "up_driver \<Rightarrow> string \<Rightarrow> goval \<Rightarrow> string res" where
  "fcv_of_parameter dr ctx v = (case v of
     GMap d \<Rightarrow> (case mget d ''version'' of
         Some (GStr s) \<Rightarrow> Ok s
       | _ \<Rightarrow> Err (''FCV version not found in nested '' @ ctx @ ''response''))
   | GStr s \<Rightarrow> Ok s
   | _ \<Rightarrow> Err (''unexpected FCV format in '' @ ctx @ ''response: '' @ ud_type dr v))"

definition fcv_of_collection :: "up_driver \<Rightarrow> string \<Rightarrow> string \<Rightarrow> doc res \<Rightarrow> string res" where
  "fcv_of_collection dr what after r = (case r of
     Inl x \<Rightarrow> Err (wrapf (''failed to '' @ what @ '' FCV from system.version collection'') x)
   | Inr d \<Rightarrow> (case mget d ''version'' of
       Some (GStr s) \<Rightarrow> Ok s
     | _ \<Rightarrow> Err (''FCV version not found in system.version document'' @ after @ '': '' @ ud_show dr d)))"

definition read_fcv :: "up_driver \<Rightarrow> string \<Rightarrow> string \<Rightarrow> string \<Rightarrow> up_client \<Rightarrow> ('e, string res) up_prog" where
  "read_fcv dr what after ctx cl = do {
     r \<leftarrow> on_os (ud_run dr (fst cl) (snd cl) ''admin'' fcv_query);
     case (case r of Inl _ \<Rightarrow> GNil | Inr d \<Rightarrow> (case mget d ''featureCompatibilityVersion'' of None \<Rightarrow> GNil | Some v \<Rightarrow> v)) of
       GNil \<Rightarrow> do {
         r \<leftarrow> on_os (ud_find_one dr (fst cl) (snd cl) ''admin'' ''system.version'' fcv_filter);
         ret (fcv_of_collection dr what after r) }
     | v \<Rightarrow> ret (fcv_of_parameter dr ctx v) }"

definition major_minor :: "string \<Rightarrow> string option" where
  "major_minor v = (case split_on CHR ''.'' v of a # b # _ \<Rightarrow> Some (a @ ''.'' @ b) | _ \<Rightarrow> None)"

definition fcv_mismatch :: "string \<Rightarrow> string \<Rightarrow> string \<Rightarrow> string \<Rightarrow> string \<Rightarrow> err" where
  "fcv_mismatch cluster current target fcv expected =
     ''FCV mismatch: current FCV is '' @ fcv @ '' but cluster is running version '' @ current @ '' (expected FCV '' @ expected @ '')'' @ nl @ nl
     @ ''The cluster was previously upgraded but the Feature Compatibility Version (FCV) was not updated.'' @ nl
     @ ''Before proceeding with the next upgrade, you must update the FCV to match the running version.'' @ nl @ nl
     @ ''To fix this, run the following commands:'' @ nl @ nl
     @ ''1. Connect to the cluster:'' @ nl @ ''   ./bin/mup cluster connect '' @ cluster @ nl @ nl
     @ ''2. Set the FCV to match the running version:'' @ nl
     @ ''   db.adminCommand({setFeatureCompatibilityVersion: '' @ dquoted expected @ ''})'' @ nl @ nl
     @ ''3. Verify the FCV was updated:'' @ nl
     @ ''   db.adminCommand({getParameter: 1, featureCompatibilityVersion: 1})'' @ nl @ nl
     @ ''   You should see: { '' @ dquoted ''featureCompatibilityVersion'' @ '': { '' @ dquoted ''version'' @ '': '' @ dquoted expected
       @ '' }, '' @ dquoted ''ok'' @ '': 1 }'' @ nl @ nl
     @ ''4. Exit the shell and retry the upgrade:'' @ nl @ ''   exit'' @ nl
     @ ''   ./bin/mup cluster upgrade '' @ cluster @ '' --from-version '' @ current @ '' --to-version '' @ target @ nl @ nl
     @ ''IMPORTANT: Only update FCV after verifying:'' @ nl
     @ ''  - All nodes are running version '' @ current @ nl
     @ ''  - The cluster is healthy'' @ nl
     @ ''  - Your application works correctly with the current version''"

definition check_fcv :: "up_driver \<Rightarrow> string \<Rightarrow> string \<Rightarrow> string \<Rightarrow> up_client \<Rightarrow> ('e, string res) up_prog" where
  "check_fcv dr cluster current target cl = do {
     r \<leftarrow> read_fcv dr ''get'' [] [] cl;
     ret (case r of
       Inl x \<Rightarrow> Err x
     | Inr fcv \<Rightarrow> (case major_minor current of
         None \<Rightarrow> Ok fcv
       | Some expected \<Rightarrow> if fcv \<noteq> expected then Err (fcv_mismatch cluster current target fcv expected) else Ok fcv)) }"

text \<open>\<^verbatim>\<open>strconv.Atoi\<close> gives the largest number for a number that is too large, and its error is ignored.\<close>

definition from_seven :: "string \<Rightarrow> bool" where
  "from_seven major = (case atoi major of
     Some n \<Rightarrow> 7 \<le> n
   | None \<Rightarrow> (case split_sign major of (neg, ds) \<Rightarrow> \<not> neg \<and> ds \<noteq> [] \<and> list_all is_digit ds))"

definition set_fcv_command :: "string \<Rightarrow> string \<Rightarrow> doc" where
  "set_fcv_command to fcv = [(''setFeatureCompatibilityVersion'', GStr fcv)]
     @ (if from_seven (hd (split_on CHR ''.'' to)) then [(''confirm'', GBool True)] else [])"

definition fcv_hook :: "'e up_run upgrader \<Rightarrow> string \<Rightarrow> string \<Rightarrow> string \<Rightarrow> up_hook_context" where
  "fcv_hook u ty k fcv = (hook_context_of u ty)\<lparr>uh_metadata := [(k, fcv)]\<rparr>"

definition set_fcv :: "up_driver \<Rightarrow> 'e up_run upgrader \<Rightarrow> up_client \<Rightarrow> string \<Rightarrow> ('e, err option) up_prog" where
  "set_fcv dr u cl fcv = do {
     r \<leftarrow> on_os (ud_run dr (fst cl) (snd cl) ''admin'' (set_fcv_command (uf_to (up_conf u)) fcv));
     case r of
       Inl x \<Rightarrow> ret (Some (wrapf ''setFeatureCompatibilityVersion command failed'' x))
     | Inr d \<Rightarrow>
         if mget d ''ok'' \<noteq> Some (GFloat 1)
         then ret (Some (''setFeatureCompatibilityVersion command returned non-ok status: '' @ ud_show dr d))
         else do {
           r \<leftarrow> read_fcv dr ''verify'' '' during verification'' ''verification '' cl;
           case r of
             Inl x \<Rightarrow> ret (Some x)
           | Inr current \<Rightarrow>
               if current \<noteq> fcv then ret (Some (''FCV verification failed: expected '' @ fcv @ '' but got '' @ current))
               else do {
                 _ \<leftarrow> call_hooks u (fcv_hook u hook_after_fcv_upgrade ''new_fcv'' current);
                 ret None } } }"

definition upgrade_fcv :: "up_driver \<Rightarrow> 'e up_run upgrader \<Rightarrow> ('e, err option) up_prog" where
  "upgrade_fcv dr u = do {
     c \<leftarrow> connect_to_cluster dr (up_topology u);
     case c of
       Inl x \<Rightarrow> ret (Some (wrapf ''failed to connect to cluster'' x))
     | Inr cl \<Rightarrow> (case major_minor (uf_to (up_conf u)) of
         None \<Rightarrow> ret (Some (''invalid target version format: '' @ uf_to (up_conf u)))
       | Some fcv \<Rightarrow> try_step (call_hooks u (fcv_hook u hook_before_fcv_upgrade ''target_fcv'' fcv))
           (wrapf ''before-fcv-upgrade hook failed'') (set_fcv dr u cl fcv)) }"

section \<open>Health and lag\<close>

definition check_sharded_health :: "up_driver \<Rightarrow> up_client \<Rightarrow> ('e, err option) up_prog" where
  "check_sharded_health dr cl = do {
     r \<leftarrow> on_os (ud_find dr (fst cl) (snd cl) ''config'' ''shards'' []);
     case r of
       Inl x \<Rightarrow> ret (Some (wrapf ''failed to list shards'' x))
     | Inr ds \<Rightarrow> (case find (\<lambda>d. \<not> is_ok d) ds of
         Some (Inl x) \<Rightarrow> ret (Some (wrapf ''failed to decode shard'' x))
       | _ \<Rightarrow>
           if ds = [] then ret (Some ''no shards found in cluster'')
           else do {
             _ \<leftarrow> on_os (ud_run dr (fst cl) (snd cl) ''config'' [(''balancerStatus'', GInt 1)]);
             ret None }) }"

text \<open>The health of a member: an \<^verbatim>\<open>int32\<close>, or a \<^verbatim>\<open>float64\<close> cut to one.\<close>

definition rat_trunc :: "rat \<Rightarrow> int" where "rat_trunc r = (if 0 \<le> r then \<lfloor>r\<rfloor> else \<lceil>r\<rceil>)"

definition member_health :: "doc \<Rightarrow> int" where
  "member_health d = (case mget d ''health'' of Some (GInt i) \<Rightarrow> i | Some (GFloat r) \<Rightarrow> rat_trunc r | _ \<Rightarrow> 0)"

text \<open>The members that have a state, with it.\<close>

definition member_states :: "goval list \<Rightarrow> (doc \<times> int) list" where
  "member_states ms = List.map_filter (\<lambda>v. case v of
     GMap d \<Rightarrow> map_option (Pair d) (int_field d ''state'')
   | _ \<Rightarrow> None) ms"

definition judge_members :: "goval list \<Rightarrow> err option" where
  "judge_members ms = (let sts = member_states ms;
       healthy = length (filter (\<lambda>(d, st). member_health d = 1 \<and> (st = 1 \<or> st = 2)) sts) in
     if \<not> list_ex (\<lambda>(d, st). st = 1) sts then Some ''no primary found in replica set''
     else if healthy < length ms
       then Some (''not all members are healthy: '' @ itoa (int healthy) @ ''/'' @ itoa (int (length ms)) @ '' healthy'')
     else None)"

definition check_set_health :: "up_driver \<Rightarrow> up_client \<Rightarrow> ('e, err option) up_prog" where
  "check_set_health dr cl = do {
     r \<leftarrow> on_os (ud_run dr (fst cl) (snd cl) ''admin'' status_command);
     ret (case r of
       Inl x \<Rightarrow> Some (wrapf ''failed to get replica set status'' x)
     | Inr d \<Rightarrow> (case status_members d of Inl x \<Rightarrow> Some x | Inr ms \<Rightarrow> judge_members ms)) }"

definition check_cluster_health :: "up_driver \<Rightarrow> topology \<Rightarrow> up_client \<Rightarrow> ('e, err option) up_prog" where
  "check_cluster_health dr t cl = (let ty = get_topology_type t in
     if ty = ''sharded'' then check_sharded_health dr cl
     else if ty = ''replica_set'' then check_set_health dr cl
     else if ty = ''standalone'' then ret None
     else ret (Some (''unsupported topology type: '' @ ty)))"

text \<open>The time of a member's last operation: the date, or the timestamp of older servers.\<close>

definition member_optime :: "doc \<Rightarrow> int option" where
  "member_optime d = (case mget d ''optimeDate'' of
     Some (GTime t) \<Rightarrow> Some t
   | _ \<Rightarrow> (case mget d ''optime'' of
       Some (GMap e) \<Rightarrow> (case mget e ''ts'' of Some (GTime t) \<Rightarrow> Some (t - t mod seconds 1) | _ \<Rightarrow> None)
     | _ \<Rightarrow> None))"

definition member_label :: "doc \<times> int \<Rightarrow> string" where
  "member_label m = (case m of (d, st) \<Rightarrow> (case mget d ''name'' of
     Some (GStr name) \<Rightarrow> name @ ''='' @ itoa st
   | _ \<Rightarrow> ''state:'' @ itoa st))"

definition replication_lag :: "goval list \<Rightarrow> int res" where
  "replication_lag ms = (let sts = member_states ms in
     case List.map_filter (\<lambda>(d, st). if st = 1 then member_optime d else None) sts of
       [] \<Rightarrow> if \<not> list_ex (\<lambda>(d, st). st = 1) sts
           then Err (''no primary found in replica set (member states: '' @ join_with '', '' (map member_label sts) @ '')'')
           else Err ''primary found but optimeDate not available (might be too old to check replication lag)''
     | t # _ \<Rightarrow> Ok (fold max (map (\<lambda>s. \<bar>t - s\<bar>) (List.map_filter (\<lambda>(d, st). if st = 2 then member_optime d else None) sts)) 0))"

definition check_replication_lag :: "up_driver \<Rightarrow> topology \<Rightarrow> up_client \<Rightarrow> ('e, int res) up_prog" where
  "check_replication_lag dr t cl =
     (if get_topology_type t = ''standalone'' \<or> get_topology_type t = ''sharded'' then ret (Ok 0)
      else do {
        r \<leftarrow> on_os (ud_run dr (fst cl) (snd cl) ''admin'' status_command);
        ret (case r of
          Inl x \<Rightarrow> Err (wrapf ''failed to get replica set status'' x)
        | Inr d \<Rightarrow> (case status_members d of Inl x \<Rightarrow> Err x | Inr ms \<Rightarrow> replication_lag ms)) })"

end
