(* ===== verification/Upgrade_Set.thy ===== *)
theory Upgrade_Set imports Upgrade_Mongo begin

text \<open>
  The part of \<^verbatim>\<open>pkg/upgrade/local.go\<close> that upgrades the members of a replica set, the secondaries before the primary, and
  the routers. It needs the driver and the operations on nodes only, whatever they are.
\<close>

section \<open>Members\<close>

definition node_is_completed :: "upgrade_state \<Rightarrow> string \<Rightarrow> bool" where
  "node_is_completed s hp = (case mget (us_nodes s) hp of None \<Rightarrow> False | Some n \<Rightarrow> nst_status n = node_completed)"

abbreviation mongod_hp :: "mongod_node \<Rightarrow> string" where "mongod_hp n \<equiv> host_port (md_host n) (md_port n)"

definition set_role :: "string \<Rightarrow> string \<Rightarrow> upgrade_state \<Rightarrow> upgrade_state" where
  "set_role hp role s = (case mget (us_nodes s) hp of
     None \<Rightarrow> s
   | Some n \<Rightarrow> s\<lparr>us_nodes := mput hp (n\<lparr>nst_role := role\<rparr>) (us_nodes s)\<rparr>)"

definition shard_hook :: "'s upgrader \<Rightarrow> string \<Rightarrow> string \<Rightarrow> string \<Rightarrow> string \<Rightarrow> up_hook_context" where
  "shard_hook u ty hp role rs = (node_hook u ty hp role)\<lparr>uh_shard := rs\<rparr>"

text \<open>The failover before a primary is upgraded: the question, the hooks, the step down and its record.\<close>

definition fail_over :: "up_driver \<Rightarrow> 'e up_run upgrader \<Rightarrow> string \<Rightarrow> string \<Rightarrow> string list \<Rightarrow> ('e, err option) up_prog" where
  "fail_over dr u hp rs hosts = do {
     a \<leftarrow> on_input prompt_for_failover;
     case a of
       Inl x \<Rightarrow> ret (Some (wrapf ''failover prompt failed'' x))
     | Inr RAbort \<Rightarrow> ret (Some ''failover aborted by user'')
     | Inr _ \<Rightarrow>
         try_step (call_hooks u (shard_hook u hook_before_primary_stepdown hp ''PRIMARY'' rs)) (wrapf ''before-primary-stepdown hook failed'') (do {
           r \<leftarrow> step_down_primary dr hp rs hosts;
           case r of
             Inl x \<Rightarrow> ret (Some (wrapf ''failed to step down primary'' x))
           | Inr ev \<Rightarrow> do {
               _ \<leftarrow> step_state (\<lambda>s. ret (s\<lparr>us_failovers := us_failovers s @ [ev]\<rparr>));
               _ \<leftarrow> save_up u;
               _ \<leftarrow> call_hooks u ((shard_hook u hook_after_primary_stepdown hp ''SECONDARY'' rs)
                 \<lparr>uh_metadata := [(''old_primary'', fo_old_primary ev), (''new_primary'', fo_new_primary ev),
                   (''election_time_ms'', itoa (fo_election_ms ev))]\<rparr>);
               ret None } }) }"

text \<open>The two tests that leave a member alone: it is completed, or the operator skips it.\<close>

definition member_steps :: "'e up_run upgrader \<Rightarrow> mongod_node \<Rightarrow> string \<Rightarrow> string \<Rightarrow> ('e, err option) up_prog" where
  "member_steps u n role rs = (let hp = mongod_hp n in do {
     _ \<leftarrow> set_node hp node_in_progress [];
     _ \<leftarrow> step_state (\<lambda>s. ret (set_role hp role s));
     _ \<leftarrow> save_up u;
     try_step (call_hooks u (shard_hook u hook_before_secondary_upgrade hp role rs)) (wrapf ''before-secondary-upgrade hook failed'') (
     try_step (upgrade_node u (UpMongod n) role) id (do {
       _ \<leftarrow> call_hooks u (shard_hook u hook_after_secondary_upgrade hp role rs);
       ret None })) })"

definition skip_is_fine :: "('s, err option) state \<Rightarrow> ('s, err option) state \<Rightarrow> ('s, err option) state" where
  "skip_is_fine m k = do {
     e \<leftarrow> m;
     case e of
       Some x \<Rightarrow> ret (if x = ''node skipped'' then None else Some x)
     | None \<Rightarrow> k }"

definition upgrade_member ::
  "up_driver \<Rightarrow> 'e up_run upgrader \<Rightarrow> mongod_node \<Rightarrow> string \<Rightarrow> string \<Rightarrow> string list \<Rightarrow> bool \<Rightarrow> ('e, err option) up_prog" where
  "upgrade_member dr u n role rs hosts primary = (let hp = mongod_hp n in do {
     s \<leftarrow> get_up;
     if node_is_completed s hp then ret None
     else skip_is_fine (ask_node u hp role) (
       try_step (if primary then fail_over dr u hp rs hosts else ret None) id (member_steps u n role rs)) })"

section \<open>The set\<close>

fun detect_roles ::
  "up_driver \<Rightarrow> string \<Rightarrow> string list \<Rightarrow> mongod_node list \<Rightarrow> ('e, (mongod_node \<times> string) list) up_prog" where
  "detect_roles dr rs hosts [] = ret []"
| "detect_roles dr rs hosts (n # ns) = do {
     s \<leftarrow> get_up;
     if node_is_completed s (mongod_hp n) then detect_roles dr rs hosts ns
     else do {
       r \<leftarrow> detect_node_role dr (mongod_hp n) rs hosts;
       rest \<leftarrow> detect_roles dr rs hosts ns;
       ret ((n, case r of Inl _ \<Rightarrow> ''SECONDARY'' | Inr role \<Rightarrow> role) # rest) } }"

definition is_primary :: "mongod_node \<times> string \<Rightarrow> bool" where "is_primary nr = (snd nr = ''PRIMARY'')"

definition upgrade_replica_set :: "up_driver \<Rightarrow> 'e up_run upgrader \<Rightarrow> mongod_node list \<Rightarrow> ('e, err option) up_prog" where
  "upgrade_replica_set dr u nodes = (case nodes of
     [] \<Rightarrow> ret (Some ''no nodes to upgrade'')
   | n # _ \<Rightarrow> let rs = md_replica_set n; hosts = map mongod_hp nodes in do {
       roles \<leftarrow> detect_roles dr rs hosts nodes;
       e \<leftarrow> for_each (\<lambda>(m, role). upgrade_member dr u m role rs hosts False) (filter (\<lambda>nr. \<not> is_primary nr) roles);
       case e of
         Some x \<Rightarrow> ret (Some x)
       | None \<Rightarrow> (case rev (filter is_primary roles) of
           [] \<Rightarrow> ret None
         | (m, _) # _ \<Rightarrow> upgrade_member dr u m ''PRIMARY'' rs hosts True) })"

definition config_as_mongod :: "config_node \<Rightarrow> mongod_node" where
  "config_as_mongod n = \<lparr>md_host = cs_host n, md_port = cs_port n, md_replica_set = cs_replica_set n, md_priority = None,
     md_hidden = None, md_votes = None, md_deploy_dir = [], md_data_dir = cs_data_dir n, md_log_dir = cs_log_dir n,
     md_config_dir = cs_config_dir n, md_runtime_config = None\<rparr>"

definition upgrade_config_servers :: "up_driver \<Rightarrow> 'e up_run upgrader \<Rightarrow> ('e, err option) up_prog" where
  "upgrade_config_servers dr u = (let ns = t_config_svr (up_topology u) in
     if ns = [] then ret None else upgrade_replica_set dr u (map config_as_mongod ns))"

definition upgrade_shard :: "up_driver \<Rightarrow> 'e up_run upgrader \<Rightarrow> string \<Rightarrow> ('e, err option) up_prog" where
  "upgrade_shard dr u name = (let ns = filter (\<lambda>n. md_replica_set n = name) (t_mongod (up_topology u)) in
     if ns = [] then ret (Some (''no nodes found for shard '' @ name)) else upgrade_replica_set dr u ns)"

text \<open>A router is upgraded again when it is completed already, and is not marked when its upgrade fails.\<close>

definition upgrade_router :: "'e up_run upgrader \<Rightarrow> mongos_node \<Rightarrow> ('e, err option) up_prog" where
  "upgrade_router u n = (let hp = host_port (ms_host n) (ms_port n) in
     skip_is_fine (ask_node u hp ''MONGOS'') (do {
       _ \<leftarrow> set_node hp node_in_progress [];
       _ \<leftarrow> save_up u;
       try_step (upgrade_node u (UpMongos n) ''MONGOS'') (wrapf (''failed to upgrade mongos '' @ hp)) (ret None) }))"

definition upgrade_routers :: "'e up_run upgrader \<Rightarrow> ('e, err option) up_prog" where
  "upgrade_routers u = for_each (upgrade_router u) (t_mongos (up_topology u))"

end
