(* ===== verification/Upgrade_Order.thy ===== *)
theory Upgrade_Order imports Upgrade_Set begin

text \<open>
  What upgrading the members of a replica set does to the state of the upgrade, and in what order it calls the operations
  on nodes. The operations themselves only have to leave the memory of the upgrade alone, which is the law of the locale
  \<open>node_operations\<close>.
\<close>

section \<open>Steps of the state\<close>

definition status_of :: "upgrade_state \<Rightarrow> string \<Rightarrow> string option" where
  "status_of u hp = map_option nst_status (mget (us_nodes u) hp)"

definition role_of :: "upgrade_state \<Rightarrow> string \<Rightarrow> string option" where
  "role_of u hp = map_option nst_role (mget (us_nodes u) hp)"

lemma completed_status: "node_is_completed u hp = (status_of u hp = Some node_completed)"
  by (simp add: node_is_completed_def status_of_def split: option.split)

text \<open>Everything the theorems speak about.\<close>

definition up_core :: "upgrade_state \<Rightarrow> (string, node_state) gomap \<times> (string, up_phase_state) gomap \<times> failover_event list \<times> string" where
  "up_core u = (us_nodes u, us_phases u, us_failovers u, us_status u)"

lemma wp_write_upgrade: "(\<And>e w'. Q e w') \<Longrightarrow> wp (write_upgrade uc sm u) Q w"
  by (simp add: wp_def split: prod.split)

lemma wp_time: "(\<And>t w'. Q t w') \<Longrightarrow> wp time_now Q w"
  by (simp add: wp_def split: prod.split)

lemma wp_save_upgrade:
  assumes "\<And>e u' w'. up_core u' = up_core u \<Longrightarrow> Q (e, u') w'"
  shows "wp (save_upgrade uc sm u) Q w"
  unfolding save_upgrade_def stamp_checkpoint_def wp_bind
  by (rule wp_time, rule wp_time, simp, rule wp_write_upgrade, simp add: assms up_core_def)

lemma wp_save_up:
  assumes "\<And>e w' u'. up_core u' = up_core (ur_state (snd s)) \<Longrightarrow> Q e (w', (snd s)\<lparr>ur_state := u'\<rparr>)"
  shows "wp (save_up u) Q s"
  unfolding save_up_def wp_on_state by (rule wp_save_upgrade) (simp add: assms)

lemma wp_checkpoint_up:
  assumes "\<And>e w' u'. up_core u' = up_core (ur_state (snd s)) \<Longrightarrow> Q e (w', (snd s)\<lparr>ur_state := u'\<rparr>)"
  shows "wp (checkpoint_up u) Q s"
  unfolding checkpoint_up_def wp_on_state checkpoint_upgrade_def wp_bind by (rule wp_save_upgrade) (simp add: assms)

lemma wp_set_node:
  assumes "\<And>w' u' n. us_nodes u' = mput hp n (us_nodes (ur_state (snd s))) \<Longrightarrow> nst_status n = status \<Longrightarrow>
      nst_role n = nst_role (node_or_fresh (ur_state (snd s)) hp) \<Longrightarrow>
      us_phases u' = us_phases (ur_state (snd s)) \<Longrightarrow> us_failovers u' = us_failovers (ur_state (snd s)) \<Longrightarrow>
      us_status u' = us_status (ur_state (snd s)) \<Longrightarrow> Q () (w', (snd s)\<lparr>ur_state := u'\<rparr>)"
  shows "wp (set_node hp status msg) Q s"
  unfolding set_node_def wp_step_state
proof (rule wpI)
  fix u' w'
  assume "run_state (update_node_state hp status msg (ur_state (snd s))) (fst s) = (u', w')"
  then obtain n where "us_nodes u' = mput hp n (us_nodes (ur_state (snd s)))" "nst_status n = status"
      "nst_role n = nst_role (node_or_fresh (ur_state (snd s)) hp)" "us_phases u' = us_phases (ur_state (snd s))"
      "us_failovers u' = us_failovers (ur_state (snd s))" "us_status u' = us_status (ur_state (snd s))"
    by (auto simp: update_node_state_def Let_def split: if_splits)
  then show "Q () (w', (snd s)\<lparr>ur_state := u'\<rparr>)" by (rule assms)
qed

lemma wp_set_phase:
  assumes "\<And>w' u' p. us_phases u' = mput ph p (us_phases (ur_state (snd s))) \<Longrightarrow> ups_status p = status \<Longrightarrow>
      us_nodes u' = us_nodes (ur_state (snd s)) \<Longrightarrow> us_failovers u' = us_failovers (ur_state (snd s)) \<Longrightarrow>
      us_status u' = us_status (ur_state (snd s)) \<Longrightarrow> Q () (w', (snd s)\<lparr>ur_state := u'\<rparr>)"
  shows "wp (set_phase ph status) Q s"
  unfolding set_phase_def wp_step_state
proof (rule wpI)
  fix u' w'
  assume "run_state (update_up_phase ph status (ur_state (snd s))) (fst s) = (u', w')"
  then obtain p where "us_phases u' = mput ph p (us_phases (ur_state (snd s)))" "ups_status p = status"
      "us_nodes u' = us_nodes (ur_state (snd s))"
      "us_failovers u' = us_failovers (ur_state (snd s))" "us_status u' = us_status (ur_state (snd s))"
    by (auto simp: update_up_phase_def Let_def split: if_splits)
  then show "Q () (w', (snd s)\<lparr>ur_state := u'\<rparr>)" by (rule assms)
qed

section \<open>Near states\<close>

text \<open>The state after steps that concern one node: phases and other nodes stay, and failovers are only added.\<close>

definition near :: "string \<Rightarrow> upgrade_state \<Rightarrow> upgrade_state \<Rightarrow> bool" where
  "near hp u u' = (us_phases u' = us_phases u \<and> (\<forall>h. h \<noteq> hp \<longrightarrow> mget (us_nodes u') h = mget (us_nodes u) h) \<and>
     set (us_failovers u) \<subseteq> set (us_failovers u'))"

lemma near_refl [simp]: "near hp u u"
  by (simp add: near_def)

lemma near_trans: "near hp u v \<Longrightarrow> near hp v w \<Longrightarrow> near hp u w"
  by (auto simp: near_def)

lemma near_core: "up_core u' = up_core u \<Longrightarrow> near hp u u'"
  by (auto simp: near_def up_core_def)

lemma up_core_simps: "up_core u' = up_core u \<Longrightarrow> status_of u' h = status_of u h \<and> role_of u' h = role_of u h \<and>
    us_failovers u' = us_failovers u \<and> us_phases u' = us_phases u \<and> us_nodes u' = us_nodes u"
  by (simp add: up_core_def status_of_def role_of_def)

text \<open>A program that keeps to one node, calls nothing, and does not complete the node when it fails.\<close>

definition local_to :: "string \<Rightarrow> ('e, 'a) up_prog \<Rightarrow> bool" where
  "local_to hp m = (\<forall>s. wp m (\<lambda>_ s'. near hp (ur_state (snd s)) (ur_state (snd s')) \<and> ur_trace (snd s') = ur_trace (snd s)) s)"

lemma wp_local_to:
  assumes "local_to hp m" "\<And>r s'. near hp (ur_state (snd s)) (ur_state (snd s')) \<Longrightarrow> ur_trace (snd s') = ur_trace (snd s) \<Longrightarrow> Q r s'"
  shows "wp m Q s"
  by (rule wp_mono [OF assms(1) [unfolded local_to_def, rule_format]]) (auto intro: assms(2))

named_theorems local_intros

lemma local_to_still: "still_prog m \<Longrightarrow> local_to hp m"
  unfolding local_to_def by (auto intro: wp_still)

lemma still_call_hooks [still_intros]: "still_prog (call_hooks u c)"
  unfolding call_hooks_def by (intro still_intros)

lemmas local_to_stills [local_intros] = still_on_os [THEN local_to_still] still_ret [THEN local_to_still]
  still_input [THEN local_to_still] still_call_hooks [THEN local_to_still]

lemma local_to_bind [local_intros]:
  fixes m :: "('e, 'a) up_prog"
  assumes m: "local_to hp m" and f: "\<And>x. local_to hp (f x)"
  shows "local_to hp (State_Monad.bind m f)"
  unfolding local_to_def wp_bind
proof (intro allI, rule wp_local_to [OF m])
  fix s s1 :: "world \<times> 'e up_run" and r
  assume "near hp (ur_state (snd s)) (ur_state (snd s1))" "ur_trace (snd s1) = ur_trace (snd s)"
  then show "wp (f r) (\<lambda>_ s'. near hp (ur_state (snd s)) (ur_state (snd s')) \<and> ur_trace (snd s') = ur_trace (snd s)) s1"
    by (intro wp_local_to [OF f]) (auto intro: near_trans)
qed

lemma local_to_save [local_intros]: "local_to hp (save_up u)" "local_to hp (checkpoint_up u)"
  unfolding local_to_def by (auto intro!: wp_save_up wp_checkpoint_up near_core)

lemma local_to_set_node [local_intros]: "local_to hp (set_node hp st msg)"
  unfolding local_to_def by (intro allI wp_set_node) (simp add: near_def)

lemma local_to_step:
  "(\<And>s. near hp s (f s)) \<Longrightarrow> local_to hp (step_state (\<lambda>s. ret (f s)))"
  unfolding local_to_def by (simp add: wp_step_state)

lemma local_to_option [local_intros]:
  "local_to hp m \<Longrightarrow> (\<And>y. local_to hp (g y)) \<Longrightarrow> local_to hp (case x of None \<Rightarrow> m | Some y \<Rightarrow> g y)"
  by (cases x) simp_all

lemma local_to_sum [local_intros]:
  "(\<And>y. local_to hp (g y)) \<Longrightarrow> (\<And>z. local_to hp (k z)) \<Longrightarrow> local_to hp (case x of Inl y \<Rightarrow> g y | Inr z \<Rightarrow> k z)"
  by (cases x) simp_all

lemma local_to_if [local_intros]: "local_to hp m \<Longrightarrow> local_to hp n \<Longrightarrow> local_to hp (if b then m else n)"
  by simp

lemma local_to_try [local_intros]: "local_to hp m \<Longrightarrow> local_to hp k \<Longrightarrow> local_to hp (try_step m f k)"
  unfolding try_step_def by (intro local_intros)

lemma local_to_pause [local_intros]: "local_to hp (pause_up u reason)"
  unfolding pause_up_def
proof (intro local_intros)
  show "local_to hp (step_state (\<lambda>s. time_now \<bind> (\<lambda>now. ret (s\<lparr>us_status := overall_paused,
      us_paused_at := Some now, us_paused_reason := reason, us_pause_requested := True\<rparr>))))"
    unfolding local_to_def wp_step_state wp_bind by (intro allI wp_time) (simp add: near_def)
qed

lemma local_to_response [local_intros]: "local_to hp (handle_response u r hp)"
  unfolding handle_response_def
  by (cases r) (auto intro!: local_to_step local_intros simp: near_def)

lemma local_to_ask [local_intros]: "local_to hp (ask_node u hp role)"
  unfolding ask_node_def by (intro local_intros)

section \<open>Calls\<close>

text \<open>The calls that a run adds to the trace concern one node, in states that satisfy a predicate.\<close>

definition calls_in :: "string \<Rightarrow> (upgrade_state \<Rightarrow> bool) \<Rightarrow> node_call list \<Rightarrow> node_call list \<Rightarrow> bool" where
  "calls_in hp P tr tr' = (\<exists>cs. tr' = tr @ cs \<and> (\<forall>c \<in> set cs. nk_node c = hp \<and> P (nk_state c)))"

lemma calls_in_refl [simp]: "calls_in hp P tr tr"
  by (simp add: calls_in_def)

lemma calls_in_add: "calls_in hp P tr tr' \<Longrightarrow> nk_node c = hp \<Longrightarrow> P (nk_state c) \<Longrightarrow> calls_in hp P tr (tr' @ [c])"
  unfolding calls_in_def by (elim exE conjE, rule exI [where x = "_ @ [c]"]) auto

lemma calls_in_mono: "calls_in hp P tr tr' \<Longrightarrow> (\<And>u. P u \<Longrightarrow> R u) \<Longrightarrow> calls_in hp R tr tr'"
  by (auto simp: calls_in_def)

section \<open>Asking and failing over\<close>

definition settled :: "upgrade_state \<Rightarrow> string \<Rightarrow> bool" where
  "settled u hp = (status_of u hp \<in> {Some node_completed, Some node_skipped})"

definition skipped_err :: err where "skipped_err = ''node skipped''"

lemma pause_not_skip: "wp (pause_up u reason) (\<lambda>e _. e \<noteq> Some skipped_err) s"
  unfolding pause_up_def wp_bind wp_step_state
  by (rule wp_time) (simp add: wp_try_step, rule wp_checkpoint_up, simp add: skipped_err_def wrapf_def split: option.split)

lemma response_skip:
  "wp (handle_response u r hp) (\<lambda>e s'. e = Some skipped_err \<longrightarrow> status_of (ur_state (snd s')) hp = Some node_skipped) s"
proof (cases r)
  case RSkip
  show ?thesis
    unfolding handle_response_def RSkip prompt_response.case wp_bind
    by (rule wp_set_node) (simp add: wp_step_state, rule wp_save_up, simp add: up_core_def status_of_def)
next
  case RPause
  show ?thesis
    unfolding handle_response_def RPause prompt_response.case by (rule wp_mono [OF pause_not_skip]) simp
qed (simp_all add: handle_response_def skipped_err_def)

lemma ask_skip:
  "wp (ask_node u hp role) (\<lambda>e s'. e = Some skipped_err \<longrightarrow> status_of (ur_state (snd s')) hp = Some node_skipped) s"
proof -
  have "read_failed \<noteq> skipped_err" by (simp add: read_failed_def skipped_err_def wrapf_def)
  then show ?thesis
    unfolding ask_node_def
    by (auto simp: Let_def prompt_for_node_def response_skip dest: prompt_fails split: sum.split)
qed

lemma wp_ask_node:
  assumes "\<And>e s'. near hp (ur_state (snd s)) (ur_state (snd s')) \<Longrightarrow> ur_trace (snd s') = ur_trace (snd s) \<Longrightarrow>
      (e = Some skipped_err \<Longrightarrow> status_of (ur_state (snd s')) hp = Some node_skipped) \<Longrightarrow> Q e s'"
  shows "wp (ask_node u hp role) Q s"
proof -
  have "wp (ask_node u hp role) (\<lambda>e s'. (near hp (ur_state (snd s)) (ur_state (snd s')) \<and> ur_trace (snd s') = ur_trace (snd s)) \<and>
      (e = Some skipped_err \<longrightarrow> status_of (ur_state (snd s')) hp = Some node_skipped)) s"
    by (rule wp_conjI [OF local_to_ask [unfolded local_to_def, rule_format] ask_skip])
  then show ?thesis by (rule wp_mono) (auto intro: assms)
qed

lemma still_status [still_intros]: "still_prog (get_replica_set_status dr rs hosts)"
  unfolding get_replica_set_status_def by (intro still_intros)

lemma still_detect [still_intros]: "still_prog (detect_node_role dr hp rs hosts)"
  unfolding detect_node_role_def by (intro still_intros)

lemma still_await [still_intros]: "still_prog (await_new_primary n dr old rs hosts seen)"
  by (induction n arbitrary: seen) (auto simp: Let_def intro!: still_intros)

lemma still_step_down [still_intros]: "still_prog (step_down_primary dr hp rs hosts)"
  unfolding step_down_primary_def by (intro still_intros)

lemma wp_step_down:
  assumes "\<And>r s'. ur_state (snd s') = ur_state (snd s) \<Longrightarrow> ur_trace (snd s') = ur_trace (snd s) \<Longrightarrow>
      (\<And>ev. r = Ok ev \<Longrightarrow> fo_old_primary ev = hp) \<Longrightarrow> Q r s'"
  shows "wp (step_down_primary dr hp rs hosts) Q s"
proof -
  have new: "wp (step_down_primary dr hp rs hosts) (\<lambda>r _. \<forall>ev. r = Ok ev \<longrightarrow> fo_old_primary ev = hp) s"
    unfolding step_down_primary_def by (simp add: wp_def split: prod.split option.split)
  have "wp (step_down_primary dr hp rs hosts) (\<lambda>r s'. (\<forall>ev. r = Ok ev \<longrightarrow> fo_old_primary ev = hp) \<and>
      ur_state (snd s') = ur_state (snd s) \<and> ur_trace (snd s') = ur_trace (snd s)) s"
    by (rule wp_conjI [OF new still_step_down [unfolded still_prog_def, rule_format]])
  then show ?thesis by (rule wp_mono) (auto intro: assms)
qed

text \<open>A failover that succeeds is recorded.\<close>

lemma wp_fail_over:
  assumes "\<And>e s'. near hp (ur_state (snd s)) (ur_state (snd s')) \<Longrightarrow> ur_trace (snd s') = ur_trace (snd s) \<Longrightarrow>
      (e = None \<Longrightarrow> \<exists>ev \<in> set (us_failovers (ur_state (snd s'))). fo_old_primary ev = hp) \<Longrightarrow> Q e s'"
  shows "wp (fail_over dr u hp rs hosts) Q s"
proof -
  have err: "Q (Some x) s'" if "ur_state (snd s') = ur_state (snd s)" "ur_trace (snd s') = ur_trace (snd s)" for x s'
    by (rule assms) (simp_all add: that)
  have rest: "wp (try_step (call_hooks u h) f (do {
      r \<leftarrow> step_down_primary dr hp rs hosts;
      case r of
        Inl x \<Rightarrow> ret (Some (wrapf ''failed to step down primary'' x))
      | Inr ev \<Rightarrow> do {
          _ \<leftarrow> step_state (\<lambda>s. ret (s\<lparr>us_failovers := us_failovers s @ [ev]\<rparr>));
          _ \<leftarrow> save_up u;
          _ \<leftarrow> call_hooks u (h' ev);
          ret None } })) Q s'"
    if s': "ur_state (snd s') = ur_state (snd s)" "ur_trace (snd s') = ur_trace (snd s)" for s' h h' f
    unfolding wp_try_step
  proof (rule wp_still [OF still_call_hooks], goal_cases)
    case (1 e s1)
    have "wp (do {
      r \<leftarrow> step_down_primary dr hp rs hosts;
      case r of
        Inl x \<Rightarrow> ret (Some (wrapf ''failed to step down primary'' x))
      | Inr ev \<Rightarrow> do {
          _ \<leftarrow> step_state (\<lambda>s. ret (s\<lparr>us_failovers := us_failovers s @ [ev]\<rparr>));
          _ \<leftarrow> save_up u;
          _ \<leftarrow> call_hooks u (h' ev);
          ret None } }) Q s1"
      unfolding wp_bind
    proof (rule wp_step_down, goal_cases)
      case (1 r s2)
      show ?case
      proof (cases r)
        case (Inr ev)
        then have "fo_old_primary ev = hp" using 1(3) by simp
        then show ?thesis
          unfolding Inr using 1(1,2) \<open>ur_state (snd s1) = _\<close> \<open>ur_trace (snd s1) = _\<close> s'
          by (auto simp: wp_step_state intro!: wp_save_up wp_still [OF still_call_hooks] assms) (auto simp: near_def up_core_def)
      qed (use 1 \<open>ur_state (snd s1) = _\<close> \<open>ur_trace (snd s1) = _\<close> s' in \<open>auto intro!: err\<close>)
    qed
    then show ?case using 1 s' err [of s1] by (cases e) auto
  qed
  show ?thesis
    unfolding fail_over_def wp_bind wp_on_input Let_def
    by (auto split: sum.split prompt_response.split intro!: err rest)
qed

text \<open>A member is called in states in which it is in progress under its role, and which are near the state before.\<close>

definition member_call :: "string \<Rightarrow> string \<Rightarrow> upgrade_state \<Rightarrow> upgrade_state \<Rightarrow> bool" where
  "member_call hp role u v = (near hp u v \<and> status_of v hp = Some node_in_progress \<and> role_of v hp = Some role)"

definition has_failed_over :: "string \<Rightarrow> upgrade_state \<Rightarrow> bool" where
  "has_failed_over hp v = (\<exists>ev \<in> set (us_failovers v). fo_old_primary ev = hp)"

lemma near_failed: "near hp u v \<Longrightarrow> has_failed_over h u \<Longrightarrow> has_failed_over h v"
  by (auto simp: near_def has_failed_over_def)

lemma member_call_near: "near hp u v \<Longrightarrow> member_call hp role v w \<Longrightarrow> member_call hp role u w"
  by (auto simp: member_call_def intro: near_trans)

locale node_operations =
  fixes ops :: "'e up_run node_ops"
  assumes stop_calm: "still_prog (no_stop ops i)"
    and start_calm: "still_prog (no_start ops i)"
    and wait_calm: "still_prog (no_wait ops i timeout)"
    and verify_calm: "still_prog (no_verify ops i version)"
begin

lemma traced_call:
  assumes m: "still_prog m" and s: "ur_state (snd s) = v" "calls_in hp ((=) v) tr (ur_trace (snd s))"
    and Q: "\<And>s'. ur_state (snd s') = v \<Longrightarrow> calls_in hp ((=) v) tr (ur_trace (snd s')) \<Longrightarrow> wp k Q s'"
    and err: "\<And>x s'. ur_state (snd s') = v \<Longrightarrow> calls_in hp ((=) v) tr (ur_trace (snd s')) \<Longrightarrow> Q (Some x) s'"
  shows "wp (do { _ \<leftarrow> trace_call what hp i; try_step m f k }) Q s"
  unfolding wp_bind wp_trace_call wp_try_step
proof (rule wp_still [OF m])
  let ?s = "(fst s, (snd s)\<lparr>ur_trace := ur_trace (snd s) @ [\<lparr>nk_op = what, nk_node = hp, nk_id = i, nk_state = ur_state (snd s)\<rparr>]\<rparr>)"
  fix e and s' :: "world \<times> 'a up_run"
  assume s': "ur_state (snd s') = ur_state (snd ?s)" "ur_trace (snd s') = ur_trace (snd ?s)"
  then have "calls_in hp ((=) v) tr (ur_trace (snd s'))" using s by (auto intro: calls_in_add)
  then show "case e of None \<Rightarrow> wp k Q s' | Some x \<Rightarrow> Q (Some (f x)) s'"
    using s s' Q [of s'] err [of s'] by (cases e) auto
qed

lemma wp_node_steps:
  assumes Q: "\<And>e s'. ur_state (snd s') = ur_state (snd s) \<Longrightarrow>
      calls_in hp ((=) (ur_state (snd s))) (ur_trace (snd s)) (ur_trace (snd s')) \<Longrightarrow> Q e s'"
  shows "wp (node_steps u ops hp i) Q s"
  unfolding node_steps_def
  by (rule traced_call [OF stop_calm refl calls_in_refl], rule traced_call [OF start_calm], assumption, assumption,
      rule traced_call [OF wait_calm], assumption, assumption, rule traced_call [OF verify_calm], assumption, assumption)
    (auto intro: Q)

lemma wp_upgrade_node:
  assumes u: "up_nodes u = Some ops" and hp: "up_node_hp nd = hp"
    and Q: "\<And>e s'. near hp (ur_state (snd s)) (ur_state (snd s')) \<Longrightarrow>
      calls_in hp ((=) (ur_state (snd s))) (ur_trace (snd s)) (ur_trace (snd s')) \<Longrightarrow>
      (e = None \<Longrightarrow> status_of (ur_state (snd s')) hp = Some node_completed) \<Longrightarrow> Q e s'"
  shows "wp (upgrade_node u nd role) Q s"
proof -
  let ?u = "ur_state (snd s)" and ?tr = "ur_trace (snd s)"
  have ok: "wp (do { _ \<leftarrow> call_hooks u h; _ \<leftarrow> set_node hp node_completed []; _ \<leftarrow> checkpoint_up u; ret None }) Q s'"
    if "ur_state (snd s') = ?u" "calls_in hp ((=) ?u) ?tr (ur_trace (snd s'))" for s' h
    unfolding wp_bind using that
    by (intro wp_still [OF still_call_hooks] wp_set_node wp_checkpoint_up)
      (auto intro!: Q simp: near_def up_core_def status_of_def)
  have failed: "wp (do { _ \<leftarrow> call_hooks u h; ret (Some x) }) Q s'"
    if "ur_state (snd s') = ?u" "calls_in hp ((=) ?u) ?tr (ur_trace (snd s'))" for s' h x
    unfolding wp_bind using that by (intro wp_still [OF still_call_hooks]) (auto intro!: Q)
  show ?thesis
    unfolding upgrade_node_def u hp Let_def option.case wp_try_step
  proof (rule wp_still [OF still_call_hooks])
    fix e and s1 :: "world \<times> 'e up_run"
    assume s1: "ur_state (snd s1) = ?u" "ur_trace (snd s1) = ?tr"
    have steps: "wp (node_steps u ops hp i) (\<lambda>e. wp (case e of None \<Rightarrow> m | Some x \<Rightarrow> f x) Q) s1"
      if "\<And>s'. ur_state (snd s') = ?u \<Longrightarrow> calls_in hp ((=) ?u) ?tr (ur_trace (snd s')) \<Longrightarrow> wp m Q s'"
        "\<And>x s'. ur_state (snd s') = ?u \<Longrightarrow> calls_in hp ((=) ?u) ?tr (ur_trace (snd s')) \<Longrightarrow> wp (f x) Q s'" for i m f
      by (rule wp_node_steps) (use that s1 in \<open>auto split: option.split\<close>)
    show "case e of None \<Rightarrow> wp (node_steps u ops hp (up_node_id nd) \<bind> (\<lambda>e. case e of
          None \<Rightarrow> call_hooks u (node_hook u hook_after_node_upgrade hp role) \<bind> (\<lambda>_. set_node hp node_completed [] \<bind> (\<lambda>_. checkpoint_up u \<bind> (\<lambda>_. ret None)))
        | Some x \<Rightarrow> call_hooks u (node_hook u hook_on_node_failure hp role\<lparr>uh_error := Some x\<rparr>) \<bind> (\<lambda>_. ret (Some x)))) Q s1
      | Some x \<Rightarrow> Q (Some (wrapf ''before-node-upgrade hook failed'' x)) s1"
    proof (cases e)
      case None
      show ?thesis
        unfolding None option.case wp_bind [of "node_steps u ops hp (up_node_id nd)"]
        by (rule steps) (rule ok failed; assumption)+
    next
      case (Some x)
      then show ?thesis using Q [of s1 "Some (wrapf ''before-node-upgrade hook failed'' x)"] s1 by simp
    qed
  qed
qed

lemma wp_member_steps:
  assumes u: "up_nodes u = Some ops"
    and Q: "\<And>e s'. near (mongod_hp n) (ur_state (snd s)) (ur_state (snd s')) \<Longrightarrow>
      calls_in (mongod_hp n) (member_call (mongod_hp n) role (ur_state (snd s))) (ur_trace (snd s)) (ur_trace (snd s')) \<Longrightarrow>
      (e = None \<Longrightarrow> status_of (ur_state (snd s')) (mongod_hp n) = Some node_completed) \<Longrightarrow> Q e s'"
  shows "wp (member_steps u n role rs) Q s"
  unfolding member_steps_def Let_def wp_bind
proof (rule wp_set_node, goal_cases)
  case (1 w1 u1 k)
  let ?hp = "mongod_hp n" and ?u = "ur_state (snd s)"
  have "member_call ?hp role ?u (set_role ?hp role u1)"
    using 1 by (auto simp: member_call_def near_def status_of_def role_of_def set_role_def)
  then show ?case
    unfolding wp_step_state wp_return
  proof (intro wp_save_up, goal_cases)
    case (1 e w2 u2)
    then have v: "member_call ?hp role ?u u2"
      by (auto simp: member_call_def near_def up_core_def status_of_def role_of_def)
    have err: "Q (Some x) s'" if "ur_state (snd s') = u2" "ur_trace (snd s') = ur_trace (snd s)" for x s'
      by (rule Q) (use v that in \<open>auto simp: member_call_def\<close>)
    show ?case
      unfolding wp_try_step
    proof (rule wp_still [OF still_call_hooks], goal_cases)
      case (1 e3 s3)
      then have s3: "ur_state (snd s3) = u2" "ur_trace (snd s3) = ur_trace (snd s)" by simp_all
      have post: "wp (call_hooks u h \<bind> (\<lambda>_. ret None)) Q s'"
        if "near ?hp u2 (ur_state (snd s'))" "calls_in ?hp ((=) u2) (ur_trace (snd s)) (ur_trace (snd s'))"
          "status_of (ur_state (snd s')) ?hp = Some node_completed" for s' h
        unfolding wp_bind by (intro wp_still [OF still_call_hooks], simp, rule Q)
          (use v that in \<open>auto simp: member_call_def intro: near_trans calls_in_mono\<close>)
      have "wp (upgrade_node u (UpMongod n) role)
          (\<lambda>e s'. case e of None \<Rightarrow> wp (call_hooks u h \<bind> (\<lambda>_. ret None)) Q s' | Some x \<Rightarrow> Q (Some (id x)) s') s3" for h
        by (rule wp_upgrade_node [OF u, of _ ?hp]) (use v s3 post in
            \<open>auto split: option.split intro!: Q intro: near_trans calls_in_mono simp: member_call_def\<close>)
      then show ?case using err [OF s3] by (cases e3) (auto simp: wp_try_step)
    qed
  qed
qed

lemma wp_upgrade_member:
  assumes u: "up_nodes u = Some ops" and hp: "mongod_hp n = hp"
    and Q: "\<And>e s'. near hp (ur_state (snd s)) (ur_state (snd s')) \<Longrightarrow>
      calls_in hp (\<lambda>v. member_call hp role (ur_state (snd s)) v \<and> (primary \<longrightarrow> has_failed_over hp v))
        (ur_trace (snd s)) (ur_trace (snd s')) \<Longrightarrow>
      (node_is_completed (ur_state (snd s)) hp \<Longrightarrow> s' = s) \<Longrightarrow>
      (e = None \<Longrightarrow> settled (ur_state (snd s')) hp) \<Longrightarrow> Q e s'"
  shows "wp (upgrade_member dr u n role rs hosts primary) Q s"
proof (cases "node_is_completed (ur_state (snd s)) hp")
  case True
  then show ?thesis
    by (auto simp: upgrade_member_def hp Let_def settled_def completed_status intro!: Q)
next
  case False
  let ?u = "ur_state (snd s)" and ?tr = "ur_trace (snd s)"
  have steps: "wp (member_steps u n role rs) Q s2"
    if "near hp ?u (ur_state (snd s2))" "ur_trace (snd s2) = ?tr" "primary \<longrightarrow> has_failed_over hp (ur_state (snd s2))" for s2
  proof (rule wp_member_steps [OF u, where n = n, unfolded hp], rule Q)
    fix e and s' :: "world \<times> 'a up_run"
    assume "calls_in hp (member_call hp role (ur_state (snd s2))) (ur_trace (snd s2)) (ur_trace (snd s'))"
    then show "calls_in hp (\<lambda>v. member_call hp role ?u v \<and> (primary \<longrightarrow> has_failed_over hp v)) ?tr (ur_trace (snd s'))"
      unfolding that(2) by (rule calls_in_mono) (use that in \<open>auto simp: member_call_def intro: near_failed near_trans\<close>)
  qed (use that False in \<open>auto simp: settled_def intro: near_trans\<close>)
  show ?thesis
    unfolding upgrade_member_def hp Let_def skip_is_fine_def wp_bind
  proof (simp only: wp_get_up False if_False wp_bind, rule wp_ask_node, goal_cases)
    case (1 e s1)
    have err: "Q (Some x) s'" if "near hp ?u (ur_state (snd s'))" "ur_trace (snd s') = ?tr" for x s'
      by (rule Q) (use that False in auto)
    show ?case
    proof (cases e)
      case None
      have "wp (if primary then fail_over dr u hp rs hosts else ret None)
          (\<lambda>e s'. case e of None \<Rightarrow> wp (member_steps u n role rs) Q s' | Some x \<Rightarrow> Q (Some (id x)) s') s1"
      proof (cases primary)
        case True
        then show ?thesis
          using 1(1,2) by (auto split: option.split intro!: wp_fail_over err steps simp: has_failed_over_def intro: near_trans)
      next
        case False
        then show ?thesis using 1(1,2) by (auto intro!: steps)
      qed
      then show ?thesis by (simp add: None wp_try_step)
    next
      case (Some x)
      then show ?thesis
        using 1 False Q [of s1 "if x = skipped_err then None else Some x"] by (auto simp: settled_def skipped_err_def)
    qed
  qed
qed

end

section \<open>Roles\<close>

lemma wp_detect_roles:
  assumes "\<And>roles s'. ur_state (snd s') = ur_state (snd s) \<Longrightarrow> ur_trace (snd s') = ur_trace (snd s) \<Longrightarrow>
      map fst roles = filter (\<lambda>n. \<not> node_is_completed (ur_state (snd s)) (mongod_hp n)) ns \<Longrightarrow> Q roles s'"
  shows "wp (detect_roles dr rs hosts ns) Q s"
  using assms
proof (induction ns arbitrary: s Q)
  case (Cons n ns)
  show ?case
  proof (cases "node_is_completed (ur_state (snd s)) (mongod_hp n)")
    case True
    then show ?thesis by (auto intro!: Cons.IH Cons.prems)
  next
    case False
    then show ?thesis
      by (auto intro!: wp_still [OF still_detect] Cons.IH Cons.prems)
  qed
qed simp

end
