(* ===== verification/Upgrade_Members.thy ===== *)
theory Upgrade_Members imports Upgrade_Order begin

text \<open>
  The order in which the members of a replica set are upgraded: what upgrading a whole set does to the state, and which
  calls it makes in which states.
\<close>

section \<open>States that differ at some nodes\<close>

definition near_set :: "string set \<Rightarrow> upgrade_state \<Rightarrow> upgrade_state \<Rightarrow> bool" where
  "near_set H u u' = (us_phases u' = us_phases u \<and> (\<forall>h. h \<notin> H \<longrightarrow> mget (us_nodes u') h = mget (us_nodes u) h) \<and>
     set (us_failovers u) \<subseteq> set (us_failovers u'))"

lemma near_set_refl [simp]: "near_set H u u"
  by (simp add: near_set_def)

lemma near_set_trans: "near_set H u v \<Longrightarrow> near_set H v w \<Longrightarrow> near_set H u w"
  by (auto simp: near_set_def)

lemma near_set_mono: "near_set H u v \<Longrightarrow> H \<subseteq> G \<Longrightarrow> near_set G u v"
  by (auto simp: near_set_def)

lemma near_in_set: "near hp u v \<Longrightarrow> hp \<in> H \<Longrightarrow> near_set H u v"
  by (auto simp: near_set_def near_def)

lemma near_set_settled: "near_set H u v \<Longrightarrow> h \<notin> H \<Longrightarrow> settled v h = settled u h"
  by (simp add: near_set_def settled_def status_of_def)

lemma near_set_completed: "near_set H u v \<Longrightarrow> h \<notin> H \<Longrightarrow> node_is_completed v h = node_is_completed u h"
  by (simp add: near_set_def node_is_completed_def)

lemma near_settled: "near hp u v \<Longrightarrow> h \<noteq> hp \<Longrightarrow> settled v h = settled u h"
  by (simp add: near_def settled_def status_of_def)

section \<open>The secondaries\<close>

text \<open>A call on a secondary: of the nodes in question, not completed before, in progress now, and not under the role of a primary.\<close>

definition secondary_call :: "upgrade_state \<Rightarrow> string set \<Rightarrow> node_call \<Rightarrow> bool" where
  "secondary_call u H c = (nk_node c \<in> H \<and> near_set H u (nk_state c) \<and> status_of (nk_state c) (nk_node c) = Some node_in_progress \<and>
     role_of (nk_state c) (nk_node c) \<noteq> Some ''PRIMARY'')"

lemma secondary_call_near:
  "secondary_call v H c \<Longrightarrow> near_set G u v \<Longrightarrow> H \<subseteq> G \<Longrightarrow> secondary_call u G c"
  unfolding secondary_call_def by (blast intro: near_set_trans near_set_mono)

context node_operations begin

lemma wp_secondaries:
  assumes u: "up_nodes u = Some ops"
    and L: "\<forall>(m, role) \<in> set L. role \<noteq> ''PRIMARY''" "distinct (map (\<lambda>nr. mongod_hp (fst nr)) L)"
    and Q: "\<And>e s' cs. near_set ((\<lambda>nr. mongod_hp (fst nr)) ` set L) (ur_state (snd s)) (ur_state (snd s')) \<Longrightarrow>
      ur_trace (snd s') = ur_trace (snd s) @ cs \<Longrightarrow>
      (\<forall>c \<in> set cs. secondary_call (ur_state (snd s)) ((\<lambda>nr. mongod_hp (fst nr)) ` set L) c) \<Longrightarrow>
      (e = None \<Longrightarrow> \<forall>nr \<in> set L. settled (ur_state (snd s')) (mongod_hp (fst nr))) \<Longrightarrow> Q e s'"
  shows "wp (for_each (\<lambda>(m, role). upgrade_member dr u m role rs hosts False) L) Q s"
  using L Q
proof (induction L arbitrary: s Q)
  case Nil
  show ?case by simp (rule Nil.prems(3) [where cs = "[]"], simp_all)
next
  case (Cons nr L)
  obtain m role where nr: "nr = (m, role)" by (cases nr)
  let ?hp = "mongod_hp m" and ?H = "(\<lambda>nr. mongod_hp (fst nr)) ` set L"
  let ?G = "(\<lambda>nr. mongod_hp (fst nr)) ` set (nr # L)"
  have new: "?hp \<notin> ?H" "role \<noteq> ''PRIMARY''" "insert ?hp ?H = ?G" using Cons.prems(1,2) by (auto simp: nr)
  show ?case
    unfolding for_each.simps nr prod.case wp_bind
  proof (rule wp_upgrade_member [OF u refl], goal_cases)
    case (1 e s1)
    then obtain cs where cs: "ur_trace (snd s1) = ur_trace (snd s) @ cs"
        "\<forall>c \<in> set cs. nk_node c = ?hp \<and> member_call ?hp role (ur_state (snd s)) (nk_state c)"
      unfolding calls_in_def by auto
    have near: "near_set ?G (ur_state (snd s)) (ur_state (snd s1))" using 1(1) new by (auto intro: near_in_set)
    have calls: "\<forall>c \<in> set cs. secondary_call (ur_state (snd s)) ?G c"
      using cs(2) new by (auto simp: secondary_call_def member_call_def intro: near_in_set)
    show ?case
    proof (cases e)
      case (Some x)
      then show ?thesis by simp (rule Cons.prems(3) [OF near cs(1) calls], simp)
    next
      case None
      then have settled: "settled (ur_state (snd s1)) ?hp" using 1(4) by simp
      show ?thesis
        unfolding None option.case
      proof (rule Cons.IH, goal_cases)
        case (3 s' ds e)
        have "settled (ur_state (snd s')) ?hp" using settled near_set_settled [OF 3(1) new(1)] by simp
        moreover have "near_set ?G (ur_state (snd s)) (ur_state (snd s'))"
          using near near_set_mono [OF 3(1)] new(3) by (auto intro: near_set_trans)
        moreover have "\<forall>c \<in> set (cs @ ds). secondary_call (ur_state (snd s)) ?G c"
          using calls 3(3) near new(3) by (auto intro: secondary_call_near)
        ultimately show ?case
          using 3(4) by (intro Cons.prems(3) [where cs = "cs @ ds"]) (auto simp: 3(2) cs(1) nr)
      qed (use Cons.prems(1,2) in \<open>auto simp: nr\<close>)
    qed
  qed
qed

end

section \<open>The set\<close>

text \<open>
  A call during the upgrade of a set: on a member that was not completed before and is in progress. On a primary it comes
  after the failover, when every other member is settled or is not touched at all.
\<close>

definition ordered_call :: "upgrade_state \<Rightarrow> string set \<Rightarrow> node_call list \<Rightarrow> node_call \<Rightarrow> bool" where
  "ordered_call u H cs c = (nk_node c \<in> H \<and> \<not> node_is_completed u (nk_node c) \<and>
     status_of (nk_state c) (nk_node c) = Some node_in_progress \<and>
     (role_of (nk_state c) (nk_node c) = Some ''PRIMARY'' \<longrightarrow> has_failed_over (nk_node c) (nk_state c) \<and>
        (\<forall>h \<in> H - {nk_node c}. settled (nk_state c) h \<or> h \<notin> nk_node ` set cs)))"

definition one_primary :: "up_driver \<Rightarrow> mongod_node list \<Rightarrow> world \<times> 'e up_run \<Rightarrow> bool" where
  "one_primary dr ns s = (length (filter is_primary (fst (run_state
     (detect_roles dr (md_replica_set (hd ns)) (map mongod_hp ns) ns) s))) \<le> 1)"

abbreviation role_hps :: "(mongod_node \<times> string) list \<Rightarrow> string list" where
  "role_hps L \<equiv> map (\<lambda>nr. mongod_hp (fst nr)) L"

lemma role_split:
  assumes "rev (filter is_primary L) = nr # ps" "distinct (role_hps L)"
  shows "nr \<in> set L" "snd nr = ''PRIMARY''" "mongod_hp (fst nr) \<notin> set (role_hps (filter (\<lambda>nr. \<not> is_primary nr) L))"
    "nr \<in> set (filter is_primary L)"
proof -
  have "nr \<in> set (rev (filter is_primary L))" using assms(1) by simp
  then show nr: "nr \<in> set (filter is_primary L)" by (simp only: set_rev)
  then show L: "nr \<in> set L" and "snd nr = ''PRIMARY''" by (simp_all add: is_primary_def)
  show "mongod_hp (fst nr) \<notin> set (role_hps (filter (\<lambda>nr. \<not> is_primary nr) L))"
  proof
    assume "mongod_hp (fst nr) \<in> set (role_hps (filter (\<lambda>nr. \<not> is_primary nr) L))"
    then obtain nr' where "nr' \<in> set L" "\<not> is_primary nr'" "mongod_hp (fst nr') = mongod_hp (fst nr)" by auto
    then have "nr' = nr" using assms(2) L by (auto simp: distinct_map dest: inj_onD)
    then show False using nr \<open>\<not> is_primary nr'\<close> by simp
  qed
qed

lemma filter_one_left: "length (filter P xs) \<le> 1 \<Longrightarrow> x \<in> set (filter P xs) \<Longrightarrow> filter P xs = [x]"
  by (cases "filter P xs") auto

lemma secondary_ordered:
  assumes "secondary_call u G c" "G \<subseteq> H" "\<forall>h \<in> G. \<not> node_is_completed u h"
  shows "ordered_call u H cs c"
  using assms by (auto simp: secondary_call_def ordered_call_def)

lemma completed_settled: "node_is_completed u h \<Longrightarrow> settled u h"
  by (simp add: completed_status settled_def)

text \<open>
  The members that are not completed at the start are \<open>R\<close>, the secondaries among them \<open>G\<close>. After the secondaries every member
  of the set \<open>H\<close> is settled, except the primaries.
\<close>

definition set_parts :: "upgrade_state \<Rightarrow> string set \<Rightarrow> string set \<Rightarrow> string set \<Rightarrow> bool" where
  "set_parts u H R G = ((\<forall>h \<in> R. \<not> node_is_completed u h) \<and> (\<forall>h \<in> H - R. node_is_completed u h) \<and> R \<subseteq> H \<and> G \<subseteq> R)"

lemma after_secondaries:
  assumes "set_parts u H R G" "near_set G u v" "\<forall>h \<in> G. settled v h" "h \<in> H" "h \<notin> R - G"
  shows "settled v h"
proof (cases "h \<in> G")
  case False
  then have "settled u h" using assms(1,4,5) by (auto simp: set_parts_def intro: completed_settled)
  then show ?thesis using near_set_settled [OF assms(2) False] by simp
qed (use assms(3) in simp)

lemma primary_ordered:
  assumes R: "set_parts u H R G" "hp \<in> R" "hp \<notin> G" and u: "near_set G u v" "\<forall>h \<in> G. settled v h"
    and c: "nk_node c = hp" "member_call hp ''PRIMARY'' v (nk_state c)" "has_failed_over hp (nk_state c)"
    and cs: "nk_node ` set cs \<subseteq> insert hp G"
  shows "ordered_call u H cs c"
proof -
  have "settled (nk_state c) h \<or> h \<notin> nk_node ` set cs" if h: "h \<in> H" "h \<noteq> hp" for h
  proof (cases "h \<in> R - G")
    case True
    then show ?thesis using cs h(2) by blast
  next
    case False
    then have "settled v h" using after_secondaries [OF R(1) u h(1)] by simp
    then show ?thesis using c(2) h(2) by (auto simp: member_call_def near_settled)
  qed
  then show ?thesis using c R by (auto simp: ordered_call_def member_call_def set_parts_def)
qed

context node_operations begin

lemma wp_last_primary:
  assumes u: "up_nodes u = Some ops" and R: "set_parts u0 H R G" "mongod_hp m \<in> R" "mongod_hp m \<notin> G"
    and v: "near_set G u0 (ur_state (snd s))" "\<forall>h \<in> G. settled (ur_state (snd s)) h"
    and tr: "ur_trace (snd s) = tr @ cs" "\<forall>c \<in> set cs. secondary_call u0 G c"
    and Q: "\<And>e s' ds. near_set H u0 (ur_state (snd s')) \<Longrightarrow> ur_trace (snd s') = tr @ ds \<Longrightarrow>
      \<forall>c \<in> set ds. ordered_call u0 H ds c \<Longrightarrow>
      (e = None \<Longrightarrow> R - G \<subseteq> {mongod_hp m} \<Longrightarrow> \<forall>h \<in> H. settled (ur_state (snd s')) h) \<Longrightarrow> Q e s'"
  shows "wp (upgrade_member dr u m ''PRIMARY'' rs hosts True) Q s"
proof (rule wp_upgrade_member [OF u refl], goal_cases)
  case (1 e s')
  let ?hp = "mongod_hp m"
  have sub: "G \<subseteq> H" "?hp \<in> H" "\<forall>h \<in> G. \<not> node_is_completed u0 h" using R by (auto simp: set_parts_def)
  obtain ds where ds: "ur_trace (snd s') = tr @ cs @ ds"
      "\<And>c. c \<in> set ds \<Longrightarrow> nk_node c = ?hp \<and> member_call ?hp ''PRIMARY'' (ur_state (snd s)) (nk_state c) \<and> has_failed_over ?hp (nk_state c)"
    using 1(2) tr(1) unfolding calls_in_def by auto
  have called: "nk_node ` set (cs @ ds) \<subseteq> insert ?hp G" using tr(2) ds(2) by (auto simp: secondary_call_def)
  have old: "ordered_call u0 H (cs @ ds) c" if "c \<in> set cs" for c
    by (rule secondary_ordered [OF _ sub(1,3)]) (use tr(2) that in simp)
  have new: "ordered_call u0 H (cs @ ds) c" if "c \<in> set ds" for c
    by (rule primary_ordered [OF R v]) (use ds(2) [OF that] called in simp_all)
  have all: "settled (ur_state (snd s')) h" if e: "e = None" and one: "R - G \<subseteq> {?hp}" and h: "h \<in> H" for h
  proof (cases "h = ?hp")
    case True
    then show ?thesis using 1(4) [OF e] by simp
  next
    case False
    then have "h \<notin> R - G" using one by blast
    then have "settled (ur_state (snd s)) h" by (rule after_secondaries [OF R(1) v h])
    then show ?thesis using near_settled [OF 1(1) False] by simp
  qed
  show ?case
  proof (rule Q)
    show "near_set H u0 (ur_state (snd s'))"
      by (rule near_set_trans [OF near_set_mono [OF v(1) sub(1)] near_in_set [OF 1(1) sub(2)]])
    show "ur_trace (snd s') = tr @ cs @ ds" by (rule ds(1))
    show "\<forall>c \<in> set (cs @ ds). ordered_call u0 H (cs @ ds) c" using old new by (simp add: ball_Un)
  qed (use all in blast)
qed

end

lemma roles_parts:
  assumes L: "map fst L = filter (\<lambda>n. \<not> node_is_completed u (mongod_hp n)) ns"
  shows "set_parts u (mongod_hp ` set ns) (set (role_hps L)) (set (role_hps (filter (\<lambda>nr. \<not> is_primary nr) L)))"
proof -
  have "role_hps L = map mongod_hp (filter (\<lambda>n. \<not> node_is_completed u (mongod_hp n)) ns)"
    unfolding L [symmetric] by simp
  then have "set (role_hps L) = mongod_hp ` {n \<in> set ns. \<not> node_is_completed u (mongod_hp n)}" by simp
  moreover have "set (role_hps (filter (\<lambda>nr. \<not> is_primary nr) L)) \<subseteq> set (role_hps L)" by auto
  ultimately show ?thesis unfolding set_parts_def by (simp only:) auto
qed

lemma roles_distinct:
  assumes L: "map fst L = filter (\<lambda>n. \<not> node_is_completed u (mongod_hp n)) ns" and "distinct (map mongod_hp ns)"
  shows "distinct (role_hps L)"
proof -
  have "role_hps L = map mongod_hp (filter (\<lambda>n. \<not> node_is_completed u (mongod_hp n)) ns)"
    unfolding L [symmetric] by simp
  then show ?thesis using assms(2) by (simp add: distinct_map_filter)
qed

lemma only_primaries:
  "filter is_primary L \<in> {[], [nr]} \<Longrightarrow> set (role_hps L) - set (role_hps (filter (\<lambda>nr. \<not> is_primary nr) L)) \<subseteq>
     mongod_hp ` fst ` set (filter is_primary L)"
  by auto

context node_operations begin

lemma wp_upgrade_replica_set:
  assumes u: "up_nodes u = Some ops" and dist: "distinct (map mongod_hp ns)"
    and Q: "\<And>e s' cs. near_set (mongod_hp ` set ns) (ur_state (snd s)) (ur_state (snd s')) \<Longrightarrow>
      ur_trace (snd s') = ur_trace (snd s) @ cs \<Longrightarrow> \<forall>c \<in> set cs. ordered_call (ur_state (snd s)) (mongod_hp ` set ns) cs c \<Longrightarrow>
      (e = None \<Longrightarrow> one_primary dr ns s \<Longrightarrow> \<forall>h \<in> mongod_hp ` set ns. settled (ur_state (snd s')) h) \<Longrightarrow> Q e s'"
  shows "wp (upgrade_replica_set dr u ns) Q s"
proof (cases ns)
  case Nil
  then show ?thesis by (auto simp: upgrade_replica_set_def intro!: Q [where cs = "[]"])
next
  case ns: (Cons n ns')
  let ?u = "ur_state (snd s)" and ?H = "mongod_hp ` set ns" and ?detect = "detect_roles dr (md_replica_set n) (map mongod_hp ns) ns"
  obtain L s1 where run: "run_state ?detect s = (L, s1)" by (metis surj_pair)
  have "wp ?detect (\<lambda>L s1. ur_state (snd s1) = ?u \<and> ur_trace (snd s1) = ur_trace (snd s) \<and>
      map fst L = filter (\<lambda>n. \<not> node_is_completed ?u (mongod_hp n)) ns) s"
    by (rule wp_detect_roles) simp
  then have s1: "ur_state (snd s1) = ?u" "ur_trace (snd s1) = ur_trace (snd s)"
      and L: "map fst L = filter (\<lambda>n. \<not> node_is_completed ?u (mongod_hp n)) ns" unfolding wp_def run by simp_all
  have one: "one_primary dr ns s = (length (filter is_primary L) \<le> 1)"
    unfolding one_primary_def ns list.sel unfolding ns [symmetric] run fst_conv ..
  let ?S = "filter (\<lambda>nr. \<not> is_primary nr) L"
  let ?G = "set (role_hps ?S)" and ?R = "set (role_hps L)"
  note R = roles_parts [OF L] and distL = roles_distinct [OF L dist]
  have sub: "?G \<subseteq> ?H" "\<forall>h \<in> ?G. \<not> node_is_completed ?u h" using R unfolding set_parts_def by blast+
  show ?thesis
    unfolding upgrade_replica_set_def ns list.case Let_def unfolding ns [symmetric] wp_bind
  proof (subst wp_def, unfold run prod.case, rule wp_secondaries [OF u], unfold s1 set_map [symmetric], goal_cases)
    case 1
    show ?case by (auto simp: is_primary_def)
  next
    case 2
    show ?case using distL by (simp add: distinct_map_filter)
  next
    case (3 e s2 cs)
    have near: "near_set ?H ?u (ur_state (snd s2))" using 3(1) sub(1) by (rule near_set_mono)
    have ord: "\<forall>c \<in> set cs. ordered_call ?u ?H ds c" for ds
      using 3(3) secondary_ordered [OF _ sub] by blast
    show ?case
    proof (cases e)
      case (Some x)
      show ?thesis unfolding Some option.case wp_return
        by (rule Q [OF near 3(2) ord]) simp
    next
      case None
      then have sec: "\<forall>h \<in> ?G. settled (ur_state (snd s2)) h" using 3(4) by simp
      show ?thesis
      proof (cases "rev (filter is_primary L)")
        case Nil
        then have "?R - ?G = {}" by (auto simp: filter_empty_conv)
        then have all: "\<forall>h \<in> ?H. settled (ur_state (snd s2)) h" using after_secondaries [OF R 3(1) sec] by blast
        show ?thesis unfolding None Nil option.case list.case wp_return
          by (rule Q [OF near 3(2) ord]) (rule all)
      next
        case (Cons nr ps)
        note split = role_split [OF Cons distL]
        obtain m where nr: "nr = (m, ''PRIMARY'')" using split(2) by (cases nr) auto
        have m: "mongod_hp m \<in> ?R" "mongod_hp m \<notin> ?G" using split(1,3) unfolding nr by force+
        show ?thesis
          unfolding None Cons nr option.case list.case prod.case
        proof (rule wp_last_primary [OF u R m 3(1) sec 3(2,3)])
          fix e :: "string option" and s' :: "world \<times> 'e up_run" and ds
          assume s': "near_set ?H ?u (ur_state (snd s'))" "ur_trace (snd s') = ur_trace (snd s) @ ds"
              "\<forall>c \<in> set ds. ordered_call ?u ?H ds c"
            and all: "e = None \<Longrightarrow> ?R - ?G \<subseteq> {mongod_hp m} \<Longrightarrow> \<forall>h \<in> ?H. settled (ur_state (snd s')) h"
          have "?R - ?G \<subseteq> {mongod_hp m}" if "one_primary dr ns s"
          proof -
            have "filter is_primary L = [nr]" using that split(4) unfolding one by (rule filter_one_left)
            then show ?thesis using only_primaries [of L nr] by (simp add: nr)
          qed
          then show "Q e s'" using all by (intro Q [OF s']) blast
        qed
      qed
    qed
  qed
qed

end

end
