(* ===== verification/Upgrade_Bodies.thy ===== *)
theory Upgrade_Bodies imports Upgrade_Members begin

text \<open>
  What the body of each phase does to the state of the upgrade: it keeps to the nodes of the phase, and when it succeeds it
  leaves all of them settled.
\<close>

section \<open>Bodies\<close>

definition node_body :: "string set \<Rightarrow> ('e, err option) up_prog \<Rightarrow> bool" where
  "node_body H m = (\<forall>s. wp m (\<lambda>e s'. near_set H (ur_state (snd s)) (ur_state (snd s')) \<and>
     (e = None \<longrightarrow> (\<forall>h \<in> H. settled (ur_state (snd s')) h))) s)"

lemma wp_node_body:
  assumes "node_body H m" "\<And>e s'. near_set H (ur_state (snd s)) (ur_state (snd s')) \<Longrightarrow>
      (e = None \<Longrightarrow> \<forall>h \<in> H. settled (ur_state (snd s')) h) \<Longrightarrow> Q e s'"
  shows "wp m Q s"
  by (rule wp_mono [OF assms(1) [unfolded node_body_def, rule_format]]) (auto intro: assms(2))

lemma still_body: "still_prog m \<Longrightarrow> node_body {} m"
  unfolding node_body_def by (auto intro: wp_still)

lemma wp_checkpoint_near:
  assumes "\<And>e s'. near_set H (ur_state (snd s)) (ur_state (snd s')) \<Longrightarrow>
      (\<And>h. settled (ur_state (snd s')) h = settled (ur_state (snd s)) h) \<Longrightarrow> Q e s'"
  shows "wp (checkpoint_up u) Q s" "wp (save_up u) Q s"
  by (rule wp_checkpoint_up wp_save_up, rule assms, simp_all add: near_set_def up_core_def settled_def status_of_def)+

lemma wp_set_node_near:
  assumes "\<And>s'. near_set {hp} (ur_state (snd s)) (ur_state (snd s')) \<Longrightarrow> ur_trace (snd s') = ur_trace (snd s) \<Longrightarrow>
      status_of (ur_state (snd s')) hp = Some status \<Longrightarrow> Q () s'"
  shows "wp (set_node hp status msg) Q s"
  by (rule wp_set_node) (simp add: assms near_set_def status_of_def)

lemma near_singleton: "near hp u v = near_set {hp} u v"
  by (auto simp: near_def near_set_def)

context node_operations begin

lemma node_body_replica_set:
  assumes "up_nodes u = Some ops" "distinct (map mongod_hp ns)" "\<And>s :: world \<times> 'e up_run. one_primary dr ns s"
  shows "node_body (mongod_hp ` set ns) (upgrade_replica_set dr u ns)"
  unfolding node_body_def by (intro allI, rule wp_upgrade_replica_set [OF assms(1,2)]) (use assms(3) in blast)

lemma wp_upgrade_node_near:
  assumes u: "up_nodes u = Some ops"
    and Q: "\<And>e s'. near_set {up_node_hp nd} (ur_state (snd s)) (ur_state (snd s')) \<Longrightarrow>
      (e = None \<Longrightarrow> settled (ur_state (snd s')) (up_node_hp nd)) \<Longrightarrow> Q e s'"
  shows "wp (upgrade_node u nd role) Q s"
  by (rule wp_upgrade_node [OF u]) (auto simp: near_singleton settled_def intro!: Q)

lemma node_body_router:
  assumes u: "up_nodes u = Some ops"
  shows "node_body {up_node_hp (UpMongos n)} (upgrade_router u n)"
  unfolding node_body_def upgrade_router_def skip_is_fine_def Let_def up_node_hp.simps wp_bind
proof (intro allI, rule wp_ask_node, goal_cases)
  case (1 s e s1)
  let ?hp = "host_port (ms_host n) (ms_port n)"
  show ?case
  proof (cases e)
    case (Some x)
    then show ?thesis using 1 by (auto simp: near_singleton settled_def skipped_err_def)
  next
    case None
    show ?thesis
      unfolding None option.case wp_bind
    proof (rule wp_set_node_near, rule wp_checkpoint_near(2) [where H = "{?hp}"], unfold wp_try_step, rule wp_upgrade_node_near [OF u], unfold up_node_hp.simps, goal_cases)
      case (1 s2 e3 s3 e4 s4)
      have "near_set {?hp} (ur_state (snd s)) (ur_state (snd s4))"
        using 1(1,4,6) \<open>near ?hp (ur_state (snd s)) (ur_state (snd s1))\<close> unfolding near_singleton by (blast intro: near_set_trans)
      then show ?case using 1(7) by (cases e4) auto
    qed
  qed
qed

end

lemma node_body_for_each:
  assumes "\<And>x. x \<in> set xs \<Longrightarrow> node_body {k x} (f x)" "distinct (map k xs)"
  shows "node_body (k ` set xs) (for_each f xs)"
  using assms
proof (induction xs)
  case Nil
  then show ?case by (simp add: node_body_def)
next
  case (Cons x xs)
  have f: "node_body {k x} (f x)" and new: "k x \<notin> k ` set xs" using Cons.prems by auto
  have IH: "node_body (k ` set xs) (for_each f xs)" using Cons.prems by (intro Cons.IH) auto
  show ?case
    unfolding node_body_def for_each.simps wp_bind
  proof (intro allI, rule wp_node_body [OF f], goal_cases)
    case (1 s e s1)
    have near: "near_set (k ` set (x # xs)) (ur_state (snd s)) (ur_state (snd s1))" using 1(1) by (rule near_set_mono) simp
    note first = 1(2)
    show ?case
    proof (cases e)
      case None
      show ?thesis
        unfolding None option.case
      proof (rule wp_node_body [OF IH], goal_cases)
        case (1 e s2)
        have "near_set (k ` set (x # xs)) (ur_state (snd s1)) (ur_state (snd s2))" using 1(1) by (rule near_set_mono) auto
        moreover have "settled (ur_state (snd s2)) (k x)"
          using near_set_settled [OF 1(1) new] first [OF None] by simp
        ultimately show ?case using near 1(2) by (auto intro: near_set_trans)
      qed
    qed (use near in simp)
  qed
qed

context node_operations begin

lemma node_body_routers:
  assumes u: "up_nodes u = Some ops" and "distinct (map (\<lambda>n. up_node_hp (UpMongos n)) (t_mongos (up_topology u)))"
  shows "node_body ((\<lambda>n. up_node_hp (UpMongos n)) ` set (t_mongos (up_topology u))) (upgrade_routers u)"
  unfolding upgrade_routers_def by (rule node_body_for_each [OF node_body_router [OF u] assms(2)])

lemma node_body_standalone:
  assumes u: "up_nodes u = Some ops"
  shows "node_body (mongod_hp ` set (t_mongod (up_topology u))) (upgrade_standalone u)"
proof (cases "\<exists>n. t_mongod (up_topology u) = [n]")
  case False
  then show ?thesis by (auto simp: upgrade_standalone_def node_body_def split: list.split)
next
  case True
  then obtain n where n: "t_mongod (up_topology u) = [n]" ..
  let ?hp = "mongod_hp n"
  have "node_body {?hp} (upgrade_standalone u)"
    unfolding node_body_def upgrade_standalone_def n list.case Let_def
  proof (intro allI, unfold wp_try_step, rule wp_ask_node, goal_cases)
    case (1 s e s1)
    have near: "near_set {?hp} (ur_state (snd s)) (ur_state (snd s1))" using 1(1) by (simp add: near_singleton)
    show ?case
    proof (cases e)
      case None
      show ?thesis
        unfolding None option.case wp_bind
      proof (rule wp_set_node_near, rule wp_checkpoint_near(2) [where H = "{?hp}"], rule wp_upgrade_node_near [OF u],
          unfold up_node_hp.simps, goal_cases)
        case (1 s2 e3 s3 e4 s4)
        then have near4: "near_set {?hp} (ur_state (snd s)) (ur_state (snd s4))" using near by (blast intro: near_set_trans)
        have tail: "wp (set_node ?hp st msg \<bind> (\<lambda>_. k \<bind> (\<lambda>_. ret r))) (\<lambda>e s'. near_set {?hp} (ur_state (snd s)) (ur_state (snd s')) \<and>
            (e = None \<longrightarrow> (\<forall>h \<in> {?hp}. settled (ur_state (snd s')) h))) s4"
          if "k = save_up u \<or> k = checkpoint_up u" "r = None \<Longrightarrow> st = node_completed" for st msg k r
          unfolding wp_bind
        proof (rule wp_set_node_near)
          fix s' :: "world \<times> 'e up_run"
          assume "near_set {?hp} (ur_state (snd s4)) (ur_state (snd s'))" "status_of (ur_state (snd s')) ?hp = Some st"
          then show "wp k (\<lambda>x. wp (ret r) (\<lambda>e s'. near_set {?hp} (ur_state (snd s)) (ur_state (snd s')) \<and>
            (e = None \<longrightarrow> (\<forall>h \<in> {?hp}. settled (ur_state (snd s')) h)))) s'"
            using that near4 by (elim disjE) (auto intro!: wp_checkpoint_near [where H = "{?hp}"] intro: near_set_trans simp: settled_def)
        qed
        show ?case by (cases e4) (simp_all only: option.case, (rule tail; simp)+)
      qed
    qed (use near in simp)
  qed
  then show ?thesis by (simp add: n)
qed

end

end
