(* ===== verification/Upgrade_Phases.thy ===== *)
theory Upgrade_Phases imports Upgrade_Bodies begin

text \<open>
  The phases of an upgrade: a phase that is completed has all its nodes settled, whatever the upgrade does, and an upgrade
  that succeeds has completed all phases of its topology.
\<close>

section \<open>The nodes of a phase\<close>

definition mongods_of :: "topology \<Rightarrow> string \<Rightarrow> string set" where
  "mongods_of t rs = mongod_hp ` {n \<in> set (t_mongod t). md_replica_set n = rs}"

definition config_hp :: "config_node \<Rightarrow> string" where "config_hp n = host_port (cs_host n) (cs_port n)"
definition router_hp :: "mongos_node \<Rightarrow> string" where "router_hp n = host_port (ms_host n) (ms_port n)"

definition upgrade_hps :: "topology \<Rightarrow> string list" where
  "upgrade_hps t = map config_hp (t_config_svr t) @ map mongod_hp (t_mongod t) @ map router_hp (t_mongos t)"

definition phase_nodes :: "topology \<Rightarrow> string \<Rightarrow> string set" where
  "phase_nodes t ph = (let ty = get_topology_type t in
     if ty = ''sharded'' then
       (if ph = phase_config_servers then config_hp ` set (t_config_svr t)
        else if ph = phase_mongos then router_hp ` set (t_mongos t)
        else mongod_hp ` {n \<in> set (t_mongod t). ''shard-'' @ md_replica_set n = ph})
     else if ph \<noteq> phase_shard then {}
     else if ty = ''replica_set'' then mongods_of t (md_replica_set (hd (t_mongod t)))
     else mongod_hp ` set (t_mongod t))"

lemma phases_apart:
  assumes "distinct (upgrade_hps t)" "ph \<noteq> ph'" "h \<in> phase_nodes t ph"
  shows "h \<notin> phase_nodes t ph'"
proof -
  have disj: "config_hp ` set (t_config_svr t) \<inter> mongod_hp ` set (t_mongod t) = {}"
    "config_hp ` set (t_config_svr t) \<inter> router_hp ` set (t_mongos t) = {}"
    "mongod_hp ` set (t_mongod t) \<inter> router_hp ` set (t_mongos t) = {}" and inj: "inj_on mongod_hp (set (t_mongod t))"
    using assms(1) by (auto simp: upgrade_hps_def distinct_map)
  show ?thesis
  proof
    assume h: "h \<in> phase_nodes t ph'"
    have sub: "phase_nodes t p \<subseteq> config_hp ` set (t_config_svr t) \<union> (router_hp ` set (t_mongos t) \<union> mongod_hp ` set (t_mongod t))" for p
      by (auto simp: phase_nodes_def mongods_of_def Let_def)
    show False
    proof (cases "get_topology_type t = ''sharded''")
      case False
      then show False using assms(2,3) h by (simp add: phase_nodes_def Let_def split: if_splits)
    next
      case True
      have shard: "False" if "h \<in> mongod_hp ` {n \<in> set (t_mongod t). ''shard-'' @ md_replica_set n = ph}"
        "h \<in> mongod_hp ` {n \<in> set (t_mongod t). ''shard-'' @ md_replica_set n = ph'}"
        using that inj assms(2) by (auto dest: inj_onD simp del: append_Cons append.simps)
      have inc: "mongod_hp ` {n \<in> set (t_mongod t). ''shard-'' @ md_replica_set n = p} \<subseteq> mongod_hp ` set (t_mongod t)" for p
        by auto
      show False
        using assms(2,3) h disj shard inc [of ph] inc [of ph'] unfolding phase_nodes_def True Let_def
        by (auto simp del: append_Cons append.simps split: if_splits)
    qed
  qed
qed

section \<open>Completed phases are settled\<close>

definition settled_phases :: "topology \<Rightarrow> upgrade_state \<Rightarrow> bool" where
  "settled_phases t u = (\<forall>ph. phase_is_completed u ph \<longrightarrow> (\<forall>h \<in> phase_nodes t ph. settled u h))"

text \<open>What every part of an upgrade does: completed phases stay completed, and settled when they were.\<close>

definition goes_on :: "topology \<Rightarrow> upgrade_state \<Rightarrow> upgrade_state \<Rightarrow> bool" where
  "goes_on t u u' = ((settled_phases t u \<longrightarrow> settled_phases t u') \<and> (\<forall>ph. phase_is_completed u ph \<longrightarrow> phase_is_completed u' ph))"

lemma goes_on_refl [simp]: "goes_on t u u"
  by (simp add: goes_on_def)

lemma goes_on_trans: "goes_on t u v \<Longrightarrow> goes_on t v w \<Longrightarrow> goes_on t u w"
  by (simp add: goes_on_def)

lemma completed_put: "us_phases u' = mput ph q (us_phases u) \<Longrightarrow>
    phase_is_completed u' p = (if p = ph then ups_status q = phase_completed else phase_is_completed u p)"
  by (simp add: phase_is_completed_def)

text \<open>A state with the same phases but one, whose nodes differ in that phase only.\<close>

lemma goes_on_phase:
  assumes apart: "distinct (upgrade_hps t)" and ph: "\<not> phase_is_completed u ph"
    and others: "\<And>p. p \<noteq> ph \<Longrightarrow> phase_is_completed u' p = phase_is_completed u p"
    and nodes: "\<And>h. h \<notin> phase_nodes t ph \<Longrightarrow> settled u' h = settled u h"
    and self: "phase_is_completed u' ph \<Longrightarrow> \<forall>h \<in> phase_nodes t ph. settled u' h"
  shows "goes_on t u u'"
  unfolding goes_on_def
proof (intro conjI impI allI)
  show "phase_is_completed u' p" if "phase_is_completed u p" for p using that others [of p] ph by (cases "p = ph") auto
  show "settled_phases t u'" if inv: "settled_phases t u"
    unfolding settled_phases_def
  proof (intro allI impI ballI)
    fix p h
    assume p: "phase_is_completed u' p" and h: "h \<in> phase_nodes t p"
    show "settled u' h"
    proof (cases "p = ph")
      case True
      then show ?thesis using self p h by blast
    next
      case False
      then have "h \<notin> phase_nodes t ph" using phases_apart [OF apart False h] by simp
      then show ?thesis using nodes others [OF False] p h inv by (auto simp: settled_phases_def)
    qed
  qed
qed

section \<open>A phase\<close>

lemma near_set_all: "(\<And>hp. near hp u v) \<Longrightarrow> near_set {} u v"
  unfolding near_def near_set_def
  by (metis empty_iff list.distinct(1))

lemma wp_ask_phase:
  assumes "\<And>e s'. near_set {} (ur_state (snd s)) (ur_state (snd s')) \<Longrightarrow> Q e s'"
  shows "wp (ask_phase u ph) Q s"
proof -
  have "local_to hp (ask_phase u ph)" for hp
    unfolding ask_phase_def by (intro local_intros) (auto split: prompt_response.split intro!: local_intros)
  then have "near hp (ur_state (snd s)) (ur_state (snd s'))" if "run_state (ask_phase u ph) s = (e, s')" for hp e s'
    using that unfolding local_to_def wp_def by (metis (no_types, lifting) case_prod_conv)
  then show ?thesis
    by (intro wpI assms near_set_all) blast
qed

lemma goes_on_near:
  assumes "near_set {} u u'" shows "goes_on t u u'" "phase_is_completed u' p = phase_is_completed u p" "settled u' h = settled u h"
proof -
  show c: "phase_is_completed u' p = phase_is_completed u p" for p
    using assms by (simp add: near_set_def phase_is_completed_def)
  show s: "settled u' h = settled u h" for h using near_set_settled [OF assms] by simp
  show "goes_on t u u'" by (simp add: goes_on_def settled_phases_def c s)
qed

lemma still_near: "ur_state (snd s') = ur_state (snd s) \<Longrightarrow> near_set H (ur_state (snd s)) (ur_state (snd s'))"
  by simp

text \<open>After the phase is marked with its result: whatever follows keeps the state of phases and nodes.\<close>

lemma wp_set_phase_result:
  assumes "\<And>s'. (\<And>p. p \<noteq> ph \<Longrightarrow> phase_is_completed (ur_state (snd s')) p = phase_is_completed (ur_state (snd s)) p) \<Longrightarrow>
      phase_is_completed (ur_state (snd s')) ph = (st = phase_completed) \<Longrightarrow>
      (\<And>h. settled (ur_state (snd s')) h = settled (ur_state (snd s)) h) \<Longrightarrow> Q () s'"
  shows "wp (set_phase ph st) Q s"
  by (rule wp_set_phase, rule assms) (simp_all add: completed_put settled_def status_of_def)

lemma wp_execute_up_phase:
  assumes apart: "distinct (upgrade_hps t)" and body: "node_body (phase_nodes t ph) body"
    and Q: "\<And>e s'. goes_on t (ur_state (snd s)) (ur_state (snd s')) \<Longrightarrow>
      (e = None \<Longrightarrow> phase_is_completed (ur_state (snd s')) ph) \<Longrightarrow> Q e s'"
  shows "wp (execute_up_phase u ph body) Q s"
proof (cases "phase_is_completed (ur_state (snd s)) ph")
  case True
  then show ?thesis by (auto simp: execute_up_phase_def intro!: Q)
next
  case False
  let ?u = "ur_state (snd s)"
  define same where "same v = ((\<forall>p. p \<noteq> ph \<longrightarrow> phase_is_completed v p = phase_is_completed ?u p) \<and>
    (\<forall>h. h \<notin> phase_nodes t ph \<longrightarrow> settled v h = settled ?u h))" for v
  have same_near: "same w" if "same v" "near_set H v w" "H \<subseteq> phase_nodes t ph" for v w H
  proof -
    have "phase_is_completed w p = phase_is_completed v p" for p using that(2) by (simp add: near_set_def phase_is_completed_def)
    moreover have "settled w h = settled v h" if "h \<notin> phase_nodes t ph" for h using near_set_settled \<open>near_set H v w\<close> that \<open>H \<subseteq> _\<close> by blast
    ultimately show ?thesis using that(1) by (simp add: same_def)
  qed
  have same_set: "same w" if "same v" "\<And>p. p \<noteq> ph \<Longrightarrow> phase_is_completed w p = phase_is_completed v p" "\<And>h. settled w h = settled v h" for v w
    using that by (simp add: same_def)
  have fin: "Q e s'" if "same (ur_state (snd s'))" "phase_is_completed (ur_state (snd s')) ph \<Longrightarrow> \<forall>h \<in> phase_nodes t ph. settled (ur_state (snd s')) h"
      "e = None \<Longrightarrow> phase_is_completed (ur_state (snd s')) ph" for e s'
    by (rule Q [OF goes_on_phase [OF apart False]]) (use that in \<open>auto simp: same_def\<close>)
  have stop: "Q (Some x) s'" if "same (ur_state (snd s'))" "\<not> phase_is_completed (ur_state (snd s')) ph" for x s'
    by (rule fin) (use that in simp_all)
  have failed: "wp (set_phase ph phase_failed \<bind> (\<lambda>_. save_up u \<bind> (\<lambda>_. ret (Some x)))) Q s'" if "same (ur_state (snd s'))" for x s'
    unfolding wp_bind
  proof (rule wp_set_phase_result, rule wp_checkpoint_near(2) [where H = "{}"], unfold wp_return, rule fin, goal_cases)
    case (1 s1 e s2)
    then show ?case using that same_near [OF same_set [OF that 1(1,3)] 1(4)] by simp
  next
    case (2 s1 e s2)
    then show ?case by (simp add: goes_on_near(2) phase_failed_def phase_completed_def)
  qed simp
  have ok: "wp (set_phase ph phase_completed \<bind> (\<lambda>_. call_hooks u h \<bind> (\<lambda>_. try_step (checkpoint_up u) f (ret None)))) Q s'"
    if "same (ur_state (snd s'))" "\<forall>h \<in> phase_nodes t ph. settled (ur_state (snd s')) h" for s' h f
    unfolding wp_bind wp_try_step
  proof (rule wp_set_phase_result, rule wp_still [OF still_call_hooks], rule wp_checkpoint_near(1) [where H = "{}"], goal_cases)
    case (1 s1 e2 s2 e3 s3)
    then have "same (ur_state (snd s3))" using that same_near [OF same_set [OF that(1) 1(1,3)], of "{}"] by simp
    moreover have "phase_is_completed (ur_state (snd s3)) ph" using 1 by (simp add: goes_on_near(2))
    ultimately have "Q r s3" for r using that 1 by (intro fin) (auto simp: goes_on_near(3))
    then show ?case by (cases e3) simp_all
  qed
  show ?thesis
    unfolding execute_up_phase_def wp_bind wp_get_up
  proof (simp only: False if_False wp_try_step, rule wp_ask_phase, goal_cases)
    case (1 e s1)
    have same1: "same (ur_state (snd s1))" by (rule same_near [OF _ 1]) (simp_all add: same_def)
    have not1: "\<not> phase_is_completed (ur_state (snd s1)) ph" using goes_on_near(2) [OF 1] False by simp
    show ?case
    proof (cases e)
      case (Some x)
      then show ?thesis using stop same1 not1 by simp
    next
      case None
      show ?thesis
        unfolding None option.case wp_try_step
      proof (rule wp_still [OF still_call_hooks], goal_cases)
        case (1 e2 s2)
        have err: "Q (Some x) s2" for x by (rule stop) (simp_all add: 1 same1 not1)
        have "wp (set_phase ph phase_in_progress \<bind> (\<lambda>_. try_step (save_up u) f (body \<bind> (\<lambda>e. case e of
            None \<Rightarrow> set_phase ph phase_completed \<bind> (\<lambda>_. call_hooks u h \<bind> (\<lambda>_. try_step (checkpoint_up u) g (ret None)))
          | Some x \<Rightarrow> set_phase ph phase_failed \<bind> (\<lambda>_. save_up u \<bind> (\<lambda>_. ret (Some x))))))) Q s2" for f g h
          unfolding wp_bind [of "set_phase ph phase_in_progress"] wp_try_step
        proof (rule wp_set_phase_result, rule wp_checkpoint_near(2) [where H = "{}"], goal_cases)
          case (1 s3 e4 s4)
          have same3: "same (ur_state (snd s3))" by (rule same_set [OF _ 1(1,3)]) (simp add: \<open>ur_state (snd s2) = _\<close> same1)
          have same4: "same (ur_state (snd s4))" by (rule same_near [OF same3 1(4)]) simp
          have not4: "\<not> phase_is_completed (ur_state (snd s4)) ph"
            using 1(2,4) by (simp add: goes_on_near(2) phase_in_progress_def phase_completed_def)
          show ?case
          proof (cases e4)
            case (Some x)
            then show ?thesis using stop same4 not4 by simp
          next
            case None
            show ?thesis
              unfolding None option.case wp_bind [of body]
            proof (rule wp_node_body [OF body], goal_cases)
              case (1 e5 s5)
              have "same (ur_state (snd s5))" by (rule same_near [OF same4 1(1)]) simp
              then show ?case using ok failed 1(2) by (cases e5) simp_all
            qed
          qed
        qed
        then show ?case using err by (cases e2) simp_all
      qed
    qed
  qed
qed

section \<open>The whole upgrade\<close>

text \<open>
  What an implementation of \<^verbatim>\<open>UpgraderInterface\<close> promises for the upgraders it accepts: each of its operations keeps to the
  nodes of its phase and settles them, and its local steps leave the state alone.
\<close>

locale phased_upgrade =
  fixes impl :: "'e up_run upgrader \<Rightarrow> 'e up_run up_impl" and accepts :: "'e up_run upgrader \<Rightarrow> bool"
  assumes apart: "accepts u \<Longrightarrow> distinct (upgrade_hps (up_topology u))"
    and shuffled: "accepts u \<Longrightarrow> set (up_shuffle u xs) = set xs"
    and validate_body: "accepts u \<Longrightarrow> node_body {} (im_validate (impl u))"
    and post_body: "accepts u \<Longrightarrow> node_body {} (im_post (impl u))"
    and config_body: "accepts u \<Longrightarrow> node_body (config_hp ` set (t_config_svr (up_topology u))) (im_config_servers (impl u))"
    and shard_body: "accepts u \<Longrightarrow> node_body (mongods_of (up_topology u) name) (im_shard (impl u) name)"
    and mongos_body: "accepts u \<Longrightarrow> node_body (router_hp ` set (t_mongos (up_topology u))) (im_mongos (impl u))"
    and standalone_body: "accepts u \<Longrightarrow> node_body (mongod_hp ` set (t_mongod (up_topology u))) (upgrade_standalone u)"
    and local_still: "accepts u \<Longrightarrow> im_local (impl u) = Some l \<Longrightarrow>
      still_prog (ls_setup l) \<and> still_prog (ls_regenerate l) \<and> still_prog (ls_start l) \<and> still_prog (ls_cleanup l)"

text \<open>The phases that an upgrade of a topology goes through, the last and the first apart.\<close>

definition topology_phases :: "topology \<Rightarrow> string set" where
  "topology_phases t = (if get_topology_type t = ''sharded''
     then {phase_config_servers, phase_mongos} \<union> (\<lambda>name. ''shard-'' @ name) ` set (shard_names t)
     else {phase_shard})"

definition phases_completed :: "string set \<Rightarrow> upgrade_state \<Rightarrow> bool" where
  "phases_completed P u = (\<forall>ph \<in> P. phase_is_completed u ph)"

lemma phases_completed_goes_on: "phases_completed P u \<Longrightarrow> goes_on t u v \<Longrightarrow> phases_completed P v"
  by (simp add: phases_completed_def goes_on_def)

lemma phase_nodes_names:
  "get_topology_type t = ''sharded'' \<Longrightarrow> phase_nodes t phase_config_servers = config_hp ` set (t_config_svr t)"
  "get_topology_type t = ''sharded'' \<Longrightarrow> phase_nodes t phase_mongos = router_hp ` set (t_mongos t)"
  "get_topology_type t = ''sharded'' \<Longrightarrow> phase_nodes t (''shard-'' @ name) = mongods_of t name"
  "phase_nodes t phase_pre_flight = {}" "phase_nodes t phase_post_upgrade = {}"
  by (auto simp: phase_nodes_def phase_name_defs mongods_of_def Let_def)

lemma phase_nodes_shard:
  "get_topology_type t = ''replica_set'' \<Longrightarrow> phase_nodes t phase_shard = mongods_of t (md_replica_set (hd (t_mongod t)))"
  "get_topology_type t = ''standalone'' \<Longrightarrow> phase_nodes t phase_shard = mongod_hp ` set (t_mongod t)"
  by (auto simp: phase_nodes_def)

context phased_upgrade begin

lemma wp_shards:
  assumes u: "accepts u" and ty: "get_topology_type (up_topology u) = ''sharded''"
    and Q: "\<And>e s'. goes_on (up_topology u) (ur_state (snd s)) (ur_state (snd s')) \<Longrightarrow>
      (e = None \<Longrightarrow> phases_completed ((\<lambda>name. ''shard-'' @ name) ` set (shard_names (up_topology u))) (ur_state (snd s'))) \<Longrightarrow> Q e s'"
  shows "wp (upgrade_all_shards u (impl u)) Q s"
proof (cases "uf_parallel (up_conf u)")
  case True
  then show ?thesis by (auto simp: upgrade_all_shards_def intro!: Q)
next
  case False
  let ?t = "up_topology u"
  have "wp (for_each (\<lambda>name. try_step (execute_up_phase u (''shard-'' @ name) (im_shard (impl u) name)) (f name) (ret None)) names)
      (\<lambda>e s'. goes_on ?t (ur_state (snd s)) (ur_state (snd s')) \<and>
        (e = None \<longrightarrow> phases_completed ((\<lambda>name. ''shard-'' @ name) ` set names) (ur_state (snd s')))) s" for names f
  proof (induction names arbitrary: s)
    case Nil
    show ?case by (simp add: phases_completed_def)
  next
    case (Cons name names)
    show ?case
      unfolding for_each.simps wp_bind wp_try_step
    proof (rule wp_execute_up_phase [OF apart [OF u]], unfold phase_nodes_names(3) [OF ty], rule shard_body [OF u], goal_cases)
      case (1 e s1)
      show ?case
      proof (cases e)
        case (Some x)
        then show ?thesis using 1 by simp
      next
        case None
        have "wp (for_each (\<lambda>name. try_step (execute_up_phase u (''shard-'' @ name) (im_shard (impl u) name)) (f name) (ret None)) names)
          (\<lambda>e s'. goes_on ?t (ur_state (snd s)) (ur_state (snd s')) \<and>
            (e = None \<longrightarrow> phases_completed ((\<lambda>name. ''shard-'' @ name) ` set (name # names)) (ur_state (snd s')))) s1"
          by (rule wp_mono [OF Cons.IH]) (use 1 None in \<open>auto simp: phases_completed_def goes_on_def\<close>)
        then show ?thesis by (simp add: None)
      qed
    qed
  qed
  from this [of "\<lambda>name. wrapf (''failed to upgrade shard '' @ name)"] show ?thesis
    unfolding upgrade_all_shards_def if_not_P [OF False] by (rule wp_mono) (auto intro: Q simp: shuffled [OF u])
qed

end

context phased_upgrade begin

lemma wp_phase_step:
  assumes u: "accepts u" and body: "node_body (phase_nodes (up_topology u) ph) body"
    and u0: "goes_on (up_topology u) u0 (ur_state (snd s))"
    and ok: "\<And>s'. goes_on (up_topology u) u0 (ur_state (snd s')) \<Longrightarrow> goes_on (up_topology u) (ur_state (snd s)) (ur_state (snd s')) \<Longrightarrow>
      phase_is_completed (ur_state (snd s')) ph \<Longrightarrow> wp k Q s'"
    and err: "\<And>x s'. goes_on (up_topology u) u0 (ur_state (snd s')) \<Longrightarrow> Q (Some x) s'"
  shows "wp (try_step (execute_up_phase u ph body) f k) Q s"
  unfolding wp_try_step
proof (rule wp_execute_up_phase [OF apart [OF u] body], goal_cases)
  case (1 e s')
  have "goes_on (up_topology u) u0 (ur_state (snd s'))" using u0 1(1) by (rule goes_on_trans)
  then show ?case using 1 ok err by (cases e) simp_all
qed

lemma wp_upgrade_topology:
  assumes u: "accepts u"
    and Q: "\<And>e s'. goes_on (up_topology u) (ur_state (snd s)) (ur_state (snd s')) \<Longrightarrow>
      (e = None \<Longrightarrow> phases_completed (topology_phases (up_topology u)) (ur_state (snd s'))) \<Longrightarrow> Q e s'"
  shows "wp (upgrade_topology u (impl u)) Q s"
proof -
  let ?t = "up_topology u" and ?u = "ur_state (snd s)"
  have err: "Q (Some x) s'" if "goes_on ?t ?u (ur_state (snd s'))" for x s' using that by (rule Q) simp
  consider "get_topology_type ?t = ''sharded''" | "get_topology_type ?t = ''replica_set''" | "get_topology_type ?t = ''standalone''"
    unfolding get_topology_type_def by meson
  then show ?thesis
  proof cases
    case ty: 1
    show ?thesis
      unfolding upgrade_topology_def Let_def ty if_P [OF refl]
    proof (rule wp_phase_step [where Q = Q, OF u _ goes_on_refl _ err], unfold phase_nodes_names(1) [OF ty], rule config_body [OF u], unfold wp_try_step [of "upgrade_all_shards u (impl u)"],
        rule wp_shards [OF u ty], goal_cases)
      case (1 s1 e s2)
      have on: "goes_on ?t ?u (ur_state (snd s2))" using 1(1,4) by (rule goes_on_trans)
      show ?case
      proof (cases e)
        case (Some x)
        then show ?thesis using err on by simp
      next
        case None
        show ?thesis
          unfolding None option.case
        proof (rule wp_phase_step [where Q = Q, OF u _ on _ err], unfold phase_nodes_names(2) [OF ty], rule mongos_body [OF u], unfold wp_return, rule Q, assumption, goal_cases)
          case (1 s3)
          then show ?case
            using \<open>e = None \<Longrightarrow> _\<close> None \<open>phase_is_completed (ur_state (snd s1)) _\<close> \<open>goes_on ?t (ur_state (snd s1)) _\<close>
            unfolding topology_phases_def ty by (auto simp: phases_completed_def goes_on_def)
        qed
      qed
    qed
  next
    case ty: 2
    show ?thesis
      unfolding upgrade_topology_def Let_def ty
      by (simp, rule wp_phase_step [where Q = Q, OF u _ goes_on_refl _ err], unfold phase_nodes_shard(1) [OF ty], rule shard_body [OF u])
        (auto intro!: Q simp: topology_phases_def ty phases_completed_def)
  next
    case ty: 3
    show ?thesis
      unfolding upgrade_topology_def Let_def ty
      by (simp, rule wp_phase_step [where Q = Q, OF u _ goes_on_refl _ err], unfold phase_nodes_shard(2) [OF ty], rule standalone_body [OF u])
        (auto intro!: Q simp: topology_phases_def ty phases_completed_def)
  qed
qed

end

text \<open>The state in which an upgrade ends well, but for the checks before it.\<close>

definition finished :: "topology \<Rightarrow> upgrade_state \<Rightarrow> bool" where
  "finished t u = (us_status u = overall_completed \<and> phases_completed (insert phase_post_upgrade (topology_phases t)) u)"

context phased_upgrade begin

lemma wp_upgrade_phases:
  assumes u: "accepts u" and u0: "goes_on (up_topology u) u0 (ur_state (snd s))"
    and Q: "\<And>e s'. goes_on (up_topology u) u0 (ur_state (snd s')) \<Longrightarrow>
      (e = None \<Longrightarrow> finished (up_topology u) (ur_state (snd s'))) \<Longrightarrow> Q e s'"
  shows "wp (upgrade_phases u (impl u)) Q s"
  unfolding upgrade_phases_def wp_try_step [of "upgrade_topology u (impl u)"]
proof (rule wp_upgrade_topology [OF u], goal_cases)
  case (1 e s1)
  let ?t = "up_topology u"
  have on: "goes_on ?t u0 (ur_state (snd s1))" using u0 1(1) by (rule goes_on_trans)
  have err: "Q (Some x) s'" if "goes_on ?t u0 (ur_state (snd s'))" for x s' using that by (rule Q) simp
  show ?case
  proof (cases e)
    case (Some x)
    then show ?thesis using err on by simp
  next
    case None
    show ?thesis
      unfolding None option.case
    proof (rule wp_phase_step [where Q = Q, OF u _ on _ err], unfold phase_nodes_names(5), rule post_body [OF u], goal_cases)
      case (1 s2)
      let ?v = "(ur_state (snd s2))\<lparr>us_status := overall_completed\<rparr>"
      have "goes_on ?t (ur_state (snd s2)) ?v" by (rule goes_on_near(1)) (simp add: near_set_def)
      then have v: "goes_on ?t u0 ?v" "finished ?t ?v"
        using 1 \<open>e = None \<Longrightarrow> _\<close> None goes_on_trans [OF 1(1)]
        by (auto simp: finished_def phases_completed_def goes_on_def)
      show ?case
        unfolding wp_bind wp_step_state wp_return wp_on_state
        by (rule wp_mono [OF wp_trivial(1)])
          (use v in \<open>auto simp: case_prod_unfold intro!: wp_still [OF still_call_hooks] Q\<close>)
    qed
  qed
qed

lemma wp_upgrade_local:
  assumes u: "accepts u" and l: "im_local (impl u) = Some l" and u0: "goes_on (up_topology u) u0 (ur_state (snd s))"
    and Q: "\<And>e s'. goes_on (up_topology u) u0 (ur_state (snd s')) \<Longrightarrow>
      (e = None \<Longrightarrow> finished (up_topology u) (ur_state (snd s'))) \<Longrightarrow> Q e s'"
  shows "wp (upgrade_local u (impl u) l) Q s"
proof -
  note still = local_still [OF u l]
  let ?t = "up_topology u"
  have err: "Q (Some x) s'" if "ur_state (snd s') = ur_state (snd s)" for x s'
    by (rule Q) (use u0 that in simp_all)
  have cleanup: "wp (get_up \<bind> (\<lambda>s. (if us_status s \<noteq> overall_completed then ls_cleanup l else ret ()) \<bind> (\<lambda>_. ret e))) Q s'"
    if "goes_on ?t u0 (ur_state (snd s'))" "e = None \<Longrightarrow> finished ?t (ur_state (snd s'))" for e s'
    unfolding wp_bind wp_get_up using still that
    by (intro wp_still [of "if _ then _ else _"]) (auto intro: Q still_intros)
  have start: "wp (try_step (ls_start l) f (upgrade_phases u (impl u)) \<bind> (\<lambda>e. get_up \<bind> (\<lambda>s.
      (if us_status s \<noteq> overall_completed then ls_cleanup l else ret ()) \<bind> (\<lambda>_. ret e)))) Q s'"
    if s': "ur_state (snd s') = ur_state (snd s)" for s' f
    unfolding wp_bind [of "try_step _ _ _"] wp_try_step
  proof (rule wp_still [OF still [THEN conjunct2, THEN conjunct2, THEN conjunct1]], goal_cases)
    case (1 e s2)
    then have on: "goes_on ?t u0 (ur_state (snd s2))" using s' u0 by simp
    show ?case
    proof (cases e)
      case None
      show ?thesis unfolding None option.case by (rule wp_upgrade_phases [OF u on], rule cleanup)
    next
      case (Some x)
      show ?thesis unfolding Some option.case by (rule cleanup [OF on]) simp
    qed
  qed
  show ?thesis
    unfolding upgrade_local_def wp_try_step
  proof (rule wp_still [OF still [THEN conjunct1]], goal_cases)
    case (1 e s1)
    show ?case
    proof (cases e)
      case None
      show ?thesis
        unfolding None option.case wp_try_step
      proof (rule wp_still [OF still [THEN conjunct2, THEN conjunct1]], goal_cases)
        case (1 e s2)
        then show ?case using start err \<open>ur_state (snd s1) = _\<close> by (cases e) simp_all
      qed
    qed (use 1 err in simp)
  qed
qed

end

context phased_upgrade begin

lemma wp_upgrade:
  assumes u: "accepts u" and real: "\<not> uf_dry_run (up_conf u)" and u0: "goes_on (up_topology u) u0 (ur_state (snd s))"
    and Q: "\<And>e s'. goes_on (up_topology u) u0 (ur_state (snd s')) \<Longrightarrow>
      (e = None \<Longrightarrow> finished (up_topology u) (ur_state (snd s'))) \<Longrightarrow> Q e s'"
  shows "wp (upgrade u (impl u)) Q s"
proof -
  let ?t = "up_topology u"
  have err: "Q (Some x) s'" if "goes_on ?t u0 (ur_state (snd s'))" for x s' using that by (rule Q) simp
  have phases: "wp (case if up_is_local u then im_local (impl u) else None of
      None \<Rightarrow> upgrade_phases u (impl u) | Some l \<Rightarrow> upgrade_local u (impl u) l) Q s'"
    if on: "goes_on ?t u0 (ur_state (snd s'))" for s'
  proof (cases "if up_is_local u then im_local (impl u) else None")
    case None
    show ?thesis unfolding None option.case by (rule wp_upgrade_phases [OF u on], rule Q)
  next
    case (Some l)
    then have l: "im_local (impl u) = Some l" by (simp split: if_splits)
    show ?thesis unfolding Some option.case by (rule wp_upgrade_local [OF u l on], rule Q)
  qed
  have failed: "wp (call_hooks u h \<bind> (\<lambda>_. ret (Some x))) Q s'" if "goes_on ?t u0 (ur_state (snd s'))" for h x s'
    unfolding wp_bind using that by (intro wp_still [OF still_call_hooks]) (auto intro: err)
  show ?thesis
    unfolding upgrade_def if_not_P [OF real] wp_try_step
  proof (rule wp_still [OF still_call_hooks], goal_cases)
    case (1 e s1)
    show ?case
    proof (cases e)
      case None
      show ?thesis
        unfolding None option.case wp_bind [of "execute_up_phase _ _ _"]
      proof (rule wp_execute_up_phase [OF apart [OF u]], unfold phase_nodes_names(4), rule validate_body [OF u], goal_cases)
        case (1 e s2)
        have "goes_on ?t u0 (ur_state (snd s2))" using goes_on_trans [OF u0] 1(1) \<open>ur_state (snd s1) = _\<close> by simp
        then show ?case using phases failed by (cases e) (simp_all add: Let_def)
      qed
    qed (use 1 u0 err in simp)
  qed
qed

lemma wp_resume:
  assumes u: "accepts u" and real: "\<not> uf_dry_run (up_conf u)"
    and Q: "\<And>e s'. goes_on (up_topology u) (ur_state (snd s)) (ur_state (snd s')) \<Longrightarrow>
      (e = None \<Longrightarrow> us_status (ur_state (snd s)) = overall_paused \<and> finished (up_topology u) (ur_state (snd s'))) \<Longrightarrow> Q e s'"
  shows "wp (resume_up u (impl u)) Q s"
proof -
  let ?u = "ur_state (snd s)" and ?t = "up_topology u"
  have err: "Q (Some x) s'" if "ur_state (snd s') = ?u" for x s' by (rule Q) (simp_all add: that)
  show ?thesis
  proof (cases "us_status ?u = overall_paused")
    case False
    then show ?thesis by (simp add: resume_up_def err)
  next
    case True
    have on: "goes_on ?t ?u (?u\<lparr>us_status := overall_in_progress, us_pause_requested := False\<rparr>)"
      by (rule goes_on_near(1)) (simp add: near_set_def)
    then show ?thesis
      unfolding resume_up_def wp_bind wp_get_up
      by (auto simp: True Let_def wp_step_state intro!: err wp_upgrade [OF u real] Q)
  qed
qed

end

end
