(* ===== verification/Deployer.thy ===== *)
theory Deployer imports Deploy_Planner Handlers_Config begin

text \<open>
  \<^verbatim>\<open>pkg/deploy/deployer.go\<close> and \<^verbatim>\<open>deploy.go\<close>: the deployment of a topology without a plan, and the generators of
  configuration files that an upgrade uses for its new version.

  The order in which Go walks over the map of directories is the function \<open>de_shuffle\<close>. A call on an executor that the
  map does not have is a call on a nil interface, which ends the program: it is the error \<open>nil_executor\<close>.
\<close>

section \<open>The deployer\<close>

record 's deployer =
  de_name :: string
  de_version :: string
  de_variant :: variant
  de_topology :: topology
  de_executors :: "(string, 's host_exec) gomap"
  de_meta_dir :: string
  de_local :: bool
  de_bin_path :: string
  de_supervisor :: "manager option"
  de_resolver :: local_resolver
  de_shuffle :: "string list \<Rightarrow> string list"

definition new_config_regenerator ::
  "'s host_exec \<Rightarrow> (string list \<Rightarrow> string list) \<Rightarrow> string \<Rightarrow> string \<Rightarrow> variant \<Rightarrow> topology \<Rightarrow> string \<Rightarrow> string \<Rightarrow> 's deployer" where
  "new_config_regenerator hx shuffle name version variant t meta_dir bin_path = \<lparr>de_name = name, de_version = version,
     de_variant = variant, de_topology = t, de_executors = [(''localhost'', hx)], de_meta_dir = meta_dir, de_local = True,
     de_bin_path = bin_path, de_supervisor = None, de_resolver = \<lparr>lr_dir = meta_dir, lr_version = version\<rparr>,
     de_shuffle = shuffle\<rparr>"

definition nil_executor :: err where
  "nil_executor = ''panic: runtime error: invalid memory address or nil pointer dereference''"

definition on_executor :: "'s deployer \<Rightarrow> string \<Rightarrow> ('s host_exec \<Rightarrow> ('s, err option) prog) \<Rightarrow> ('s, err option) prog" where
  "on_executor d host f = (case mget (de_executors d) host of None \<Rightarrow> ret (Some nil_executor) | Some hx \<Rightarrow> f hx)"

section \<open>Versions\<close>

definition not_a_number :: "string \<Rightarrow> bool" where "not_a_number s = (sscanf_d s = None)"

definition quoted1 :: "string \<Rightarrow> string" where "quoted1 s = [CHR 0x27] @ s @ [CHR 0x27]"

definition check_mongo_version :: "string \<Rightarrow> err option" where
  "check_mongo_version version = (case split_on CHR ''.'' version of
     major # minor # rest \<Rightarrow>
       (case sscanf_d major of
          None \<Rightarrow> Some (''invalid major version '' @ quoted1 major @ '': must be a number'')
        | Some n \<Rightarrow>
            if n < 3 then Some (''unsupported MongoDB major version '' @ itoa n @ '': minimum supported version is 3.x'')
            else if not_a_number minor then Some (''invalid minor version '' @ quoted1 minor @ '': must be a number'')
            else if rest \<noteq> [] \<and> not_a_number (hd rest)
              then Some (''invalid patch version '' @ quoted1 (hd rest) @ '': must be a number'')
            else None)
   | _ \<Rightarrow> Some (''invalid MongoDB version format '' @ quoted1 version @ '': expected X.Y or X.Y.Z (e.g., '' @ quoted1 ''7.0''
       @ '' or '' @ quoted1 ''7.0.5'' @ '')''))"

definition percona_format :: "string \<Rightarrow> string \<Rightarrow> err" where
  "percona_format version example = ''invalid Percona version format '' @ quoted1 version @ '': expected X.Y.Z-R'' @ example"

definition check_percona_version :: "string \<Rightarrow> err option" where
  "check_percona_version version = (let example = '' (e.g., '' @ quoted1 ''7.0.5-4'' @ '')'' in
     case split_on CHR ''-'' version of
       [_] \<Rightarrow> Some (percona_format version example)
     | [core, rnum] \<Rightarrow> (let parts = split_on CHR ''.'' core in
         if length parts < 3 then Some (percona_format version example)
         else (case sscanf_d (hd parts) of
             None \<Rightarrow> Some (''invalid major version '' @ quoted1 (hd parts) @ '': must be a number'')
           | Some n \<Rightarrow>
               if n < 3 \<or> 8 < n then Some (''unsupported Percona major version '' @ itoa n
                 @ '': Percona Server for MongoDB supports versions 3.6 through 8.0'')
               else if not_a_number rnum then Some (''invalid Percona release '' @ quoted1 rnum @ '': must be a number'')
               else None))
     | _ \<Rightarrow> Some (percona_format version []))"

definition validate_version :: "string \<Rightarrow> variant \<Rightarrow> err option" where
  "validate_version version v =
     (if version = [] then Some ''version cannot be empty''
      else case v of VariantMongo \<Rightarrow> check_mongo_version version | VariantPercona \<Rightarrow> check_percona_version version)"

section \<open>Directories\<close>

definition res_or :: "string res \<Rightarrow> string \<Rightarrow> string" where
  "res_or r d = (case r of Inl _ \<Rightarrow> d | Inr s \<Rightarrow> s)"

definition deployer_data_dir :: "'s deployer \<Rightarrow> string \<Rightarrow> int \<Rightarrow> string" where
  "deployer_data_dir d host port = res_or (local_data_dir (de_resolver d) host port)
     (path_join [de_meta_dir d, ''data'', host @ ''-'' @ itoa port])"

definition deployer_log_dir :: "'s deployer \<Rightarrow> string \<Rightarrow> string \<Rightarrow> int \<Rightarrow> string" where
  "deployer_log_dir d ty host port = res_or (local_log_dir (de_resolver d) ty host port)
     (path_join [de_meta_dir d, ''v'' @ de_version d, ty @ ''-'' @ itoa port, ''log''])"

definition deployer_config_dir :: "'s deployer \<Rightarrow> string \<Rightarrow> string \<Rightarrow> int \<Rightarrow> string" where
  "deployer_config_dir d ty host port = res_or (local_config_dir (de_resolver d) ty host port)
     (path_join [de_meta_dir d, ''v'' @ de_version d, ty @ ''-'' @ itoa port, ''config''])"

definition host_dirs :: "'s deployer \<Rightarrow> string \<Rightarrow> string list" where
  "host_dirs d host = (let t = de_topology d in remdups (
     concat (map (\<lambda>n. [deployer_data_dir d (md_host n) (md_port n), deployer_log_dir d ''mongod'' (md_host n) (md_port n),
         deployer_config_dir d ''mongod'' (md_host n) (md_port n)]) (filter (\<lambda>n. md_host n = host) (t_mongod t)))
     @ concat (map (\<lambda>n. [deployer_log_dir d ''mongos'' (ms_host n) (ms_port n),
         deployer_config_dir d ''mongos'' (ms_host n) (ms_port n)]) (filter (\<lambda>n. ms_host n = host) (t_mongos t)))
     @ concat (map (\<lambda>n. [deployer_data_dir d (cs_host n) (cs_port n), deployer_log_dir d ''config'' (cs_host n) (cs_port n),
         deployer_config_dir d ''config'' (cs_host n) (cs_port n)]) (filter (\<lambda>n. cs_host n = host) (t_config_svr t)))))"

definition create_directories :: "'s deployer \<Rightarrow> ('s, err option) prog" where
  "create_directories d = for_each (\<lambda>(host, hx). for_each (\<lambda>dir. do {
       e \<leftarrow> hx_create_directory hx dir 493;
       ret (map_option (wrapf (''failed to create directory '' @ dir)) e) })
     (de_shuffle d (host_dirs d host))) (de_executors d)"

section \<open>Configuration files\<close>

definition upload_config :: "'s deployer \<Rightarrow> string \<Rightarrow> string res \<Rightarrow> string \<Rightarrow> ('s, err option) prog" where
  "upload_config d host text path = (case text of
     Inl e \<Rightarrow> ret (Some (wrapf ''failed to get template'' e))
   | Inr s \<Rightarrow> on_executor d host (\<lambda>hx. do {
       e \<leftarrow> hx_upload_content hx (Text s) path;
       ret (map_option (wrapf ''failed to upload config'') e) }))"

definition deployer_mongod_config :: "go_version \<Rightarrow> (rat \<Rightarrow> string) \<Rightarrow> 's deployer \<Rightarrow> mongod_node \<Rightarrow> ('s, err option) prog" where
  "deployer_mongod_config gv ff d n =
     (let role = (if get_topology_type (de_topology d) = ''sharded'' then ''shardsvr'' else []);
          data = mongod_data role (md_port n) ''127.0.0.1'' (deployer_data_dir d (md_host n) (md_port n))
            (deployer_log_dir d ''mongod'' (md_host n) (md_port n)) (md_replica_set n) in
      upload_config d (md_host n) (map_sum id (\<lambda>t. render_mongod ff t data) (get_template gv ''mongod'' (de_version d)))
        (path_join [deployer_config_dir d ''mongod'' (md_host n) (md_port n), ''mongod.conf'']))"

definition deployer_config_connection :: "'s deployer \<Rightarrow> string" where
  "deployer_config_connection d = (case t_config_svr (de_topology d) of
     [] \<Rightarrow> []
   | c # _ \<Rightarrow> cs_replica_set c @ ''/''
       @ join_with '','' (map (\<lambda>n. normalize_host (cs_host n) @ '':'' @ itoa (cs_port n)) (t_config_svr (de_topology d))))"

definition deployer_mongos_config :: "go_version \<Rightarrow> 's deployer \<Rightarrow> mongos_node \<Rightarrow> ('s, err option) prog" where
  "deployer_mongos_config gv d n =
     (let data = mongos_data (ms_port n) ''127.0.0.1'' (deployer_log_dir d ''mongos'' (ms_host n) (ms_port n)) (deployer_config_connection d) in
      upload_config d (ms_host n) (map_sum id (\<lambda>t. render_mongos t data) (get_template gv ''mongos'' (de_version d)))
        (path_join [deployer_config_dir d ''mongos'' (ms_host n) (ms_port n), ''mongos.conf'']))"

text \<open>A config server has the replication section whatever its replica set is called.\<close>

definition deployer_config_server_config :: "go_version \<Rightarrow> (rat \<Rightarrow> string) \<Rightarrow> 's deployer \<Rightarrow> config_node \<Rightarrow> ('s, err option) prog" where
  "deployer_config_server_config gv ff d n =
     (let data = (mongod_data ''configsvr'' (cs_port n) ''127.0.0.1'' (deployer_data_dir d (cs_host n) (cs_port n))
            (deployer_log_dir d ''config'' (cs_host n) (cs_port n)) (cs_replica_set n))
            \<lparr>mdc_replication := Some \<lparr>rpc_name = cs_replica_set n, rpc_oplog_mb = 0, rpc_majority = True\<rparr>\<rparr> in
      upload_config d (cs_host n) (map_sum id (\<lambda>t. render_mongod ff t data) (get_template gv ''config'' (de_version d)))
        (path_join [deployer_config_dir d ''config'' (cs_host n) (cs_port n), ''config.conf'']))"

definition deploy_configurations :: "go_version \<Rightarrow> (rat \<Rightarrow> string) \<Rightarrow> 's deployer \<Rightarrow> ('s, err option) prog" where
  "deploy_configurations gv ff d = do {
     e \<leftarrow> for_each (\<lambda>n. do {
       e \<leftarrow> deployer_mongod_config gv ff d n;
       ret (map_option (wrapf (''failed to generate config for mongod '' @ md_host n @ '':'' @ itoa (md_port n))) e) })
       (t_mongod (de_topology d));
     case e of
       Some x \<Rightarrow> ret (Some x)
     | None \<Rightarrow> for_each (\<lambda>n. do {
         e \<leftarrow> deployer_config_server_config gv ff d n;
         ret (map_option (wrapf (''failed to generate config for config server '' @ cs_host n @ '':'' @ itoa (cs_port n))) e) })
         (t_config_svr (de_topology d)) }"

section \<open>Binaries and links\<close>

text \<open>\<^verbatim>\<open>os.Open\<close> for reading.\<close>

definition os_open :: "string \<Rightarrow> os_err option io" where
  "os_open p = do {
     flt \<leftarrow> io_fault;
     f \<leftarrow> get_fs;
     ret (case flt of
       Some e \<Rightarrow> Some (OsFail (fault_msg e))
     | None \<Rightarrow> (case fs_follow f p of
         None \<Rightarrow> Some (OsFail (''open '' @ p @ '': too many levels of symbolic links''))
       | Some q \<Rightarrow> if is_dir f q \<or> mhas f q then None else Some (enoent ''open'' p))) }"

definition copy_file :: "string \<Rightarrow> string \<Rightarrow> err option io" where
  "copy_file src dst = do {
     e \<leftarrow> os_open src;
     case e of
       Some m \<Rightarrow> ret (Some (os_msg m))
     | None \<Rightarrow> do {
         c \<leftarrow> os_create dst;
         case c of
           Inl m \<Rightarrow> ret (Some (os_msg m))
         | Inr q \<Rightarrow> do {
             r \<leftarrow> os_read_file src;
             case r of
               Inl m \<Rightarrow> ret (Some (os_msg m))
             | Inr data \<Rightarrow> do {
                 e \<leftarrow> write_file q (text_of data);
                 case e of
                   Some m \<Rightarrow> ret (Some (os_msg m))
                 | None \<Rightarrow> do { s \<leftarrow> io_fault; ret (map_option fault_msg s) } } } } }"

definition version_binaries :: "string list" where "version_binaries = [''mongod'', ''mongos'', ''mongosh'', ''mongo'']"

text \<open>One binary: nothing when the source does not exist, nor, if \<open>keep\<close>, when the destination does.\<close>

definition copy_version_binary :: "sup_os \<Rightarrow> bool \<Rightarrow> string \<Rightarrow> string \<Rightarrow> string \<Rightarrow> err option io" where
  "copy_version_binary so keep from_dir to_dir b = (let src = path_join [from_dir, b]; dst = path_join [to_dir, b] in do {
     s \<leftarrow> os_stat src;
     if (case s of Inl e \<Rightarrow> is_not_exist e | Inr _ \<Rightarrow> False) then ret None
     else do {
       present \<leftarrow> (if keep then do { t \<leftarrow> os_stat dst; ret (is_ok (map_sum os_msg id t)) } else ret False);
       if present then ret None
       else do {
         e \<leftarrow> copy_file src dst;
         case e of
           Some x \<Rightarrow> ret (Some (wrapf (''failed to copy '' @ b) x))
         | None \<Rightarrow> do {
             e \<leftarrow> so_chmod so dst;
             ret (map_option (wrapf (''failed to make '' @ b @ '' executable'')) e) } } } })"

definition setup_version_binaries :: "sup_os \<Rightarrow> 's deployer \<Rightarrow> string \<Rightarrow> err option io" where
  "setup_version_binaries so d vdir =
     (if \<not> de_local d then ret None
      else let bin = path_join [vdir, ''bin''] in do {
        e \<leftarrow> os_mkdir_all bin;
        case e of
          Some m \<Rightarrow> ret (Some (wrapf ''failed to create bin directory'' (os_msg m)))
        | None \<Rightarrow> for_each (copy_version_binary so True (de_bin_path d) bin) version_binaries })"

definition create_version_symlinks :: "'s deployer \<Rightarrow> err option io" where
  "create_version_symlinks d =
     (if \<not> de_local d then ret None
      else let name = ''v'' @ de_version d; current = path_join [de_meta_dir d, ''current''];
               previous = path_join [de_meta_dir d, ''previous''] in do {
        r \<leftarrow> os_readlink current;
        let old = (case r of Inr t \<Rightarrow> t | Inl _ \<Rightarrow> []);
        _ \<leftarrow> os_remove current;
        _ \<leftarrow> (if old \<noteq> [] then os_remove previous else ret None);
        e \<leftarrow> os_symlink name current;
        case e of
          Some m \<Rightarrow> ret (Some (wrapf ''failed to create current symlink'' (os_msg m)))
        | None \<Rightarrow> do {
            _ \<leftarrow> (if old \<noteq> [] \<and> old \<noteq> name then os_symlink old previous else ret None);
            ret None } })"

definition deploy_supervisor_configs :: "sup_os \<Rightarrow> 's deployer \<Rightarrow> err option io" where
  "deploy_supervisor_configs so d = (let vdir = path_join [de_meta_dir d, ''v'' @ de_version d] in do {
     e \<leftarrow> setup_version_binaries so d vdir;
     case e of
       Some x \<Rightarrow> ret (Some (wrapf ''failed to setup version binaries'' x))
     | None \<Rightarrow> do {
         e \<leftarrow> generate_all (so_env so) (new_config_generator vdir (de_name d) (de_topology d) (de_version d) (path_join [vdir, ''bin'']));
         case e of
           Some x \<Rightarrow> ret (Some (wrapf ''failed to generate supervisor configs'' x))
         | None \<Rightarrow> do {
             e \<leftarrow> create_version_symlinks d;
             ret (map_option (wrapf ''failed to create version symlinks'') e) } } })"

section \<open>Processes\<close>

definition verify_ports :: "'s deployer \<Rightarrow> ('s, err option) prog" where
  "verify_ports d = for_each (\<lambda>(host, port). on_executor d host (\<lambda>hx. do {
       r \<leftarrow> hx_check_port_available hx port;
       ret (case r of
         Inl e \<Rightarrow> Some (wrapf (''failed to verify port '' @ host @ '':'' @ itoa port) e)
       | Inr available \<Rightarrow> if available then None
           else Some (''port '' @ host @ '':'' @ itoa port @ '' is no longer available (was free during pre-flight checks)'')) }))
     (map (\<lambda>n. (cs_host n, cs_port n)) (t_config_svr (de_topology d))
      @ map (\<lambda>n. (md_host n, md_port n)) (t_mongod (de_topology d)))"

definition start_all :: "sup_os \<Rightarrow> 's deployer \<Rightarrow> manager \<Rightarrow> err option io" where
  "start_all so d m = do {
     e \<leftarrow> start_daemon so m;
     case e of
       Some x \<Rightarrow> ret (Some (wrapf ''failed to start supervisord'' x))
     | None \<Rightarrow> do {
         e \<leftarrow> reload_config so m;
         case e of
           Some x \<Rightarrow> ret (Some (wrapf ''failed to reload supervisor config'' x))
         | None \<Rightarrow> do {
             e \<leftarrow> start_processes so m (map (\<lambda>n. get_program_name ''config'' (cs_port n)) (t_config_svr (de_topology d)));
             case e of
               Some x \<Rightarrow> ret (Some (wrapf ''failed to start config servers'' x))
             | None \<Rightarrow> do {
                 e \<leftarrow> start_processes so m (map (\<lambda>n. ''mongod-'' @ itoa (md_port n)) (t_mongod (de_topology d)));
                 ret (map_option (wrapf ''failed to start mongod nodes'') e) } } } }"

definition deployer_start_processes :: "sup_os \<Rightarrow> 's deployer \<Rightarrow> ('s, err option \<times> 's deployer) prog" where
  "deployer_start_processes so d = do {
     e \<leftarrow> verify_ports d;
     case e of
       Some x \<Rightarrow> ret (Some (wrapf ''port verification failed'' x), d)
     | None \<Rightarrow> do {
         r \<leftarrow> on_os (load_manager so (path_join [de_meta_dir d, ''v'' @ de_version d]) (de_name d));
         case r of
           Inl x \<Rightarrow> ret (Some (wrapf ''failed to load supervisor manager'' x), d)
         | Inr m \<Rightarrow> do {
             e \<leftarrow> on_os (start_all so d m);
             ret (case e of Some x \<Rightarrow> (Some x, d) | None \<Rightarrow> (None, d\<lparr>de_supervisor := Some m\<rparr>)) } } }"

text \<open>The phase that deploys.\<close>

definition deployer_deploy :: "go_version \<Rightarrow> (rat \<Rightarrow> string) \<Rightarrow> sup_os \<Rightarrow> 's deployer \<Rightarrow> ('s, err option \<times> 's deployer) prog" where
  "deployer_deploy gv ff so d = do {
     e \<leftarrow> create_directories d;
     case e of
       Some x \<Rightarrow> ret (Some (wrapf ''failed to create directories'' x), d)
     | None \<Rightarrow> do {
         e \<leftarrow> deploy_configurations gv ff d;
         case e of
           Some x \<Rightarrow> ret (Some (wrapf ''failed to generate configurations'' x), d)
         | None \<Rightarrow> do {
             e \<leftarrow> on_os (deploy_supervisor_configs so d);
             case e of
               Some x \<Rightarrow> ret (Some (wrapf ''failed to generate supervisor configs'' x), d)
             | None \<Rightarrow> do {
                 r \<leftarrow> deployer_start_processes so d;
                 ret (map_option (wrapf ''failed to start processes'') (fst r), snd r) } } } }"

end
