(* ===== verification/Upgrade_Local.thy ===== *)
theory Upgrade_Local imports Upgrade_Phases Deployer begin

text \<open>
  \<^verbatim>\<open>pkg/upgrade/local.go\<close>, \<^verbatim>\<open>local_ops.go\<close> and \<^verbatim>\<open>plan.go\<close>: the upgrade of a local deployment, in which the supervisor
  of the old version and that of the new one run side by side while the nodes move from one to the other.

  The implementation keeps its variables in the part of the memory that \<open>Upgrade_Flow\<close> leaves to it. The supervisor, the
  binary manager, the driver and the permission bits of files are parameters, collected in \<open>local_env\<close>. The supervisor of
  the new version exists when the old one is stopped, and a manager that does not exist is \<open>None\<close>.
\<close>

section \<open>Variables\<close>

record 'd local_vars =
  lv_old :: manager
  lv_new :: "manager option"
  lv_dir :: string
  lv_bin :: string
  lv_ops_old :: manager             \<comment> \<open>the same four of \<^verbatim>\<open>LocalNodeOperations\<close>\<close>
  lv_ops_new :: "manager option"
  lv_ops_dir :: string
  lv_ops_bin :: string
  lv_ext :: 'd

type_synonym 'd local_run = "'d local_vars up_run"

record local_env =
  le_os :: sup_os
  le_bin :: bin_manager
  le_driver :: up_driver
  le_executable :: "string \<Rightarrow> bool"
  le_yaml :: yaml_codec
  le_version :: go_version
  le_float :: "rat \<Rightarrow> string"
  le_machine :: machine
  le_fuel :: nat                   \<comment> \<open>of the loops that poll\<close>

definition get_vars :: "('d local_run, 'd local_vars) prog" where
  "get_vars = on_host (do { r \<leftarrow> State_Monad.get; ret (ur_ext r) })"

definition set_vars :: "('d local_vars \<Rightarrow> 'd local_vars) \<Rightarrow> ('d local_run, unit) prog" where
  "set_vars f = on_host (State_Monad.update (\<lambda>r. r\<lparr>ur_ext := f (ur_ext r)\<rparr>))"

definition home_dir :: "local_env \<Rightarrow> string res" where "home_dir le = env_home_dir (so_env (le_os le))"

section \<open>Operations on nodes\<close>

text \<open>A node is stopped in the old supervisor and started in the new one.\<close>

definition local_stop :: "local_env \<Rightarrow> string \<Rightarrow> ('d local_run, err option) prog" where
  "local_stop le i = do { v \<leftarrow> get_vars; on_os (stop_process (le_os le) (lv_ops_old v) i) }"

definition local_start :: "local_env \<Rightarrow> string \<Rightarrow> ('d local_run, err option) prog" where
  "local_start le i = do {
     v \<leftarrow> get_vars;
     case lv_ops_new v of
       None \<Rightarrow> ret (Some ''new supervisor not initialized (call SetupVersionEnvironment first)'')
     | Some m \<Rightarrow> on_os (start_process (le_os le) m i) }"

definition local_restart :: "local_env \<Rightarrow> string \<Rightarrow> ('d local_run, err option) prog" where
  "local_restart le i = try_step (local_stop le i) (wrapf ''failed to stop'') (local_start le i)"

text \<open>The status and the error beside it.\<close>

definition local_status :: "local_env \<Rightarrow> string \<Rightarrow> ('d local_run, node_status res) prog" where
  "local_status le i = do {
     v \<leftarrow> get_vars;
     case lv_ops_new v of
       None \<Rightarrow> ret (Err ''new supervisor not initialized'')
     | Some m \<Rightarrow> do {
         r \<leftarrow> on_os (get_process_status (le_os le) m i);
         ret (case r of
           Inl e \<Rightarrow> Err e
         | Inr s \<Rightarrow> Ok \<lparr>ns_state = pst_state s, ns_healthy = (to_upper (pst_state s) = ''RUNNING''), ns_version = [],
             ns_uptime = seconds (pst_uptime s), ns_error = None, ns_pid = pst_pid s\<rparr>) } }"

definition last_lines :: "nat \<Rightarrow> string \<Rightarrow> string" where
  "last_lines n s = (let ls = split_on (CHR 0x0A) s in join_with nl (drop (length ls - n) ls))"

definition fatal_error :: "string \<Rightarrow> string \<Rightarrow> err io" where
  "fatal_error dir i = (let log = path_join [dir, i, ''log'', ''supervisor-'' @ i @ ''.log''] in do {
     r \<leftarrow> os_read_file log;
     ret (''process in FATAL state'' @ nl @ ''Log file: '' @ log @ nl
       @ (case r of Inl _ \<Rightarrow> [] | Inr c \<Rightarrow> last_lines 20 (text_of c))) })"

text \<open>
  Polling the status until the timeout has passed, with fuel. The last state and the last error are remembered for the
  message. \<open>None\<close> is that the fuel was used up.
\<close>

definition wait_message :: "int \<Rightarrow> string \<Rightarrow> err option \<Rightarrow> err" where
  "wait_message timeout state e = ''process did not start within '' @ itoa (go_quot timeout (seconds 1)) @ ''s''
     @ (if state \<noteq> [] then '' (last state: '' @ state @ '')'' else [])
     @ (case e of None \<Rightarrow> [] | Some x \<Rightarrow> '' (last error: '' @ x @ '')'')"

fun poll_healthy ::
  "nat \<Rightarrow> sup_os \<Rightarrow> manager \<Rightarrow> string \<Rightarrow> string \<Rightarrow> int \<Rightarrow> int \<Rightarrow> string \<Rightarrow> err option \<Rightarrow> err option option io" where
  "poll_healthy 0 so m dir i start timeout state e = ret None"
| "poll_healthy (Suc n) so m dir i start timeout state e = do {
     now \<leftarrow> time_now;
     if \<not> now - start < timeout then ret (Some (Some (wait_message timeout state e)))
     else do {
       r \<leftarrow> get_process_status so m i;
       case r of
         Inl x \<Rightarrow> poll_healthy n so m dir i start timeout state (Some x)
       | Inr s \<Rightarrow>
           if to_upper (pst_state s) = ''RUNNING'' then ret (Some None)
           else if to_upper (pst_state s) = ''FATAL'' then do { f \<leftarrow> fatal_error dir i; ret (Some (Some f)) }
           else poll_healthy n so m dir i start timeout (pst_state s) e } }"

definition out_of_fuel :: err where "out_of_fuel = ''still polling''"

definition local_wait :: "local_env \<Rightarrow> string \<Rightarrow> int \<Rightarrow> ('d local_run, err option) prog" where
  "local_wait le i timeout = do {
     v \<leftarrow> get_vars;
     case lv_ops_new v of
       None \<Rightarrow> ret (Some ''new supervisor not initialized'')
     | Some m \<Rightarrow> on_os (do {
         start \<leftarrow> time_now;
         r \<leftarrow> poll_healthy (le_fuel le) (le_os le) m (lv_ops_dir v) i start timeout [] None;
         ret (case r of None \<Rightarrow> Some out_of_fuel | Some e \<Rightarrow> e) }) }"

definition platform_os :: string where "platform_os = ''darwin''"
definition platform_arch :: string where "platform_arch = ''arm64''"

definition local_prepare :: "local_env \<Rightarrow> string \<Rightarrow> variant \<Rightarrow> ('d local_run, err option) prog" where
  "local_prepare le version var = do {
     r \<leftarrow> on_os (le_bin le version (variant_string var) platform_os platform_arch);
     case r of
       Inl e \<Rightarrow> ret (Some (wrapf ''failed to get binaries'' e))
     | Inr bin \<Rightarrow> do {
         s \<leftarrow> on_os (os_stat (path_join [bin, ''mongod'']));
         case s of
           Inl e \<Rightarrow> ret (Some (wrapf (''mongod binary not found at '' @ path_join [bin, ''mongod'']) (os_msg e)))
         | Inr _ \<Rightarrow> do { _ \<leftarrow> set_vars (\<lambda>v. v\<lparr>lv_ops_bin := bin\<rparr>); ret None } } }"

text \<open>The version itself is not asked for: a node that runs is taken to run the new version.\<close>

definition local_verify :: "local_env \<Rightarrow> string \<Rightarrow> string \<Rightarrow> ('d local_run, err option) prog" where
  "local_verify le i expected = do {
     r \<leftarrow> local_status le i;
     ret (case r of
       Inl e \<Rightarrow> Some (wrapf ''failed to get node status'' e)
     | Inr s \<Rightarrow> if ns_healthy s then None else Some (''node is not healthy (state: '' @ ns_state s @ '')'')) }"

section \<open>Links\<close>

definition switch_links :: "string \<Rightarrow> err option io" where
  "switch_links dir = do {
     r \<leftarrow> os_readlink (current_link dir);
     let old = (case r of Inr t \<Rightarrow> t | Inl _ \<Rightarrow> []);
     r \<leftarrow> os_readlink (next_link dir);
     case r of
       Inl e \<Rightarrow> ret (Some (wrapf ''failed to read next symlink'' (os_msg e) @ '' (upgrade state may be corrupted)''))
     | Inr new \<Rightarrow> do {
         _ \<leftarrow> os_remove (previous_link dir);
         _ \<leftarrow> os_remove (current_link dir);
         _ \<leftarrow> (if old \<noteq> [] then os_symlink old (previous_link dir) else ret None);
         e \<leftarrow> os_symlink new (current_link dir);
         case e of
           Some m \<Rightarrow> ret (Some (wrapf ''failed to create current symlink'' (os_msg m)))
         | None \<Rightarrow> do { _ \<leftarrow> os_remove (next_link dir); ret None } } }"

definition cleanup_next :: "string \<Rightarrow> err option io" where
  "cleanup_next dir = do {
     r \<leftarrow> os_lstat (next_link dir);
     case r of
       Inl _ \<Rightarrow> ret None
     | Inr _ \<Rightarrow> do { e \<leftarrow> os_remove (next_link dir); ret (map_option os_msg e) } }"

definition local_node_ops :: "local_env \<Rightarrow> string \<Rightarrow> 'd local_run node_ops" where
  "local_node_ops le meta_dir = \<lparr>no_stop = local_stop le, no_start = local_start le, no_restart = local_restart le,
     no_status = local_status le, no_wait = local_wait le, no_prepare = local_prepare le,
     no_update_config = (\<lambda>i version. ret None), no_verify = local_verify le,
     no_setup = (\<lambda>version. ret (Some ''SetupVersionEnvironment must be called through LocalUpgrader (not yet refactored)'')),
     no_switch = (\<lambda>old new. on_os (switch_links meta_dir)), no_cleanup = (\<lambda>version. on_os (cleanup_next meta_dir))\<rparr>"

section \<open>The environment of the new version\<close>

definition setup_directories :: "local_env \<Rightarrow> 'd local_run upgrader \<Rightarrow> ('d local_run, err option) prog" where
  "setup_directories le u = (let dir = version_dir (uf_meta_dir (up_conf u)) (uf_to (up_conf u)) in do {
     _ \<leftarrow> set_vars (\<lambda>v. v\<lparr>lv_dir := dir\<rparr>);
     try_step (on_os (for_each (\<lambda>d. do {
         e \<leftarrow> os_mkdir_all d;
         ret (map_option (\<lambda>m. wrapf (''failed to create directory '' @ d) (os_msg m)) e) })
       [path_join [dir, ''bin''], path_join [dir, ''conf''], path_join [dir, ''logs'']])) id (do {
     r \<leftarrow> on_os (le_bin le (uf_to (up_conf u)) (variant_string (uf_variant (up_conf u))) platform_os platform_arch);
     case r of
       Inl e \<Rightarrow> ret (Some (wrapf ''failed to download binaries'' e))
     | Inr bin \<Rightarrow> do {
         _ \<leftarrow> set_vars (\<lambda>v. v\<lparr>lv_bin := path_join [dir, ''bin'']\<rparr>);
         on_os (for_each (copy_version_binary (le_os le) False bin (path_join [dir, ''bin''])) version_binaries) } }) })"

definition make_log_dir :: "string \<Rightarrow> string \<Rightarrow> string \<Rightarrow> err option io" where
  "make_log_dir dir node label = do {
     e \<leftarrow> os_mkdir_all (path_join [dir, node, ''log'']);
     ret (map_option (\<lambda>m. wrapf (''failed to create log dir for '' @ label) (os_msg m)) e) }"

text \<open>The directories of config servers are made under the names of \<^verbatim>\<open>mongod\<close> processes.\<close>

definition make_log_dirs :: "string \<Rightarrow> topology \<Rightarrow> err option io" where
  "make_log_dirs dir t = for_each (\<lambda>(node, label). make_log_dir dir node label)
     (map (\<lambda>n. (''mongod-'' @ itoa (md_port n), ''mongod-'' @ itoa (md_port n))) (t_mongod t)
      @ map (\<lambda>n. (''mongod-'' @ itoa (cs_port n), ''config-server-'' @ itoa (cs_port n))) (t_config_svr t)
      @ map (\<lambda>n. (''mongos-'' @ itoa (ms_port n), ''mongos-'' @ itoa (ms_port n))) (t_mongos t))"

definition wrap_config :: "string \<Rightarrow> string \<Rightarrow> int \<Rightarrow> err \<Rightarrow> err" where
  "wrap_config ty host port e = wrapf (''failed to generate '' @ ty @ '' config for '' @ host_port host port) e"

definition regenerate_configs :: "local_env \<Rightarrow> 'd local_run deployer \<Rightarrow> ('d local_run, err option) prog" where
  "regenerate_configs le d = (let t = de_topology d in
     try_step (for_each (\<lambda>n. try_step (deployer_mongod_config (le_version le) (le_float le) d n)
         (wrap_config ''mongod'' (md_host n) (md_port n)) (ret None)) (t_mongod t)) id (
     try_step (for_each (\<lambda>n. try_step (deployer_config_server_config (le_version le) (le_float le) d n)
         (wrap_config ''config server'' (cs_host n) (cs_port n)) (ret None)) (t_config_svr t)) id (
     for_each (\<lambda>n. try_step (deployer_mongos_config (le_version le) d n)
         (wrap_config ''mongos'' (ms_host n) (ms_port n)) (ret None)) (t_mongos t))))"

text \<open>The metadata as the file has it; a topology that is missing there is a nil pointer.\<close>

definition load_cluster :: "local_env \<Rightarrow> string \<Rightarrow> (string \<times> cluster_metadata) res io" where
  "load_cluster le name = (case new_meta_manager (home_dir le) of
     Inl e \<Rightarrow> ret (Err (wrapf ''failed to create meta manager'' e))
   | Inr base \<Rightarrow> do {
       r \<leftarrow> load_metadata (le_yaml le) base name;
       ret (case r of
         Inl e \<Rightarrow> Err (wrapf ''failed to load cluster metadata'' e)
       | Inr cm \<Rightarrow> Ok (base, cm)) })"

definition regenerate_supervisor :: "local_env \<Rightarrow> 'd local_run upgrader \<Rightarrow> ('d local_run, err option) prog" where
  "regenerate_supervisor le u = (let c = up_conf u in do {
     r \<leftarrow> on_os (load_cluster le (uf_cluster c));
     case r of
       Inl e \<Rightarrow> ret (Some e)
     | Inr (_, cm) \<Rightarrow> (case cm_topology cm of
         None \<Rightarrow> ret (Some nil_executor)
       | Some t \<Rightarrow> do {
           v \<leftarrow> get_vars;
           try_step (on_os (make_log_dirs (lv_dir v) t)) id (
           try_step (regenerate_configs le (new_config_regenerator (local_executor (le_machine le)) id (uf_cluster c) (uf_to c)
               (uf_variant c) t (uf_meta_dir c) (lv_bin v))) id (
           try_step (on_os (generate_all (so_env (le_os le)) (new_config_generator (lv_dir v) (uf_cluster c) t (uf_to c) (lv_bin v))))
             (wrapf ''failed to generate supervisor config'') (ret None))) }) })"

definition start_new_supervisor :: "local_env \<Rightarrow> 'd local_run upgrader \<Rightarrow> ('d local_run, err option) prog" where
  "start_new_supervisor le u = (let c = up_conf u in do {
     _ \<leftarrow> on_os (os_remove (next_link (uf_meta_dir c)));
     e \<leftarrow> on_os (os_symlink (''v'' @ uf_to c) (next_link (uf_meta_dir c)));
     case e of
       Some m \<Rightarrow> ret (Some (wrapf ''failed to create next symlink'' (os_msg m)))
     | None \<Rightarrow> do {
         v \<leftarrow> get_vars;
         r \<leftarrow> on_os (new_manager (le_os le) (lv_dir v) (uf_cluster c));
         case r of
           Inl e \<Rightarrow> ret (Some (wrapf ''failed to create new supervisor manager'' e))
         | Inr m \<Rightarrow> try_step (on_os (start_daemon (le_os le) m)) (wrapf ''failed to start new supervisor'') (do {
             _ \<leftarrow> set_vars (\<lambda>v. v\<lparr>lv_new := Some m, lv_ops_new := Some m, lv_ops_dir := lv_dir v, lv_ops_bin := lv_bin v\<rparr>);
             ret None }) } })"

text \<open>What stopping the old supervisor answers is only printed.\<close>

definition stop_old_supervisor :: "local_env \<Rightarrow> ('d local_run, err option) prog" where
  "stop_old_supervisor le = do {
     v \<leftarrow> get_vars;
     _ \<leftarrow> on_os (stop_daemon (le_fuel le) (le_os le) (lv_old v));
     _ \<leftarrow> set_vars (\<lambda>v. v\<lparr>lv_old := (case lv_new v of None \<Rightarrow> lv_old v | Some m \<Rightarrow> m)\<rparr>);
     ret None }"

section \<open>Before and after\<close>

definition not_running :: "process_status list \<Rightarrow> bool" where
  "not_running ps = list_ex (\<lambda>p. to_upper (pst_state p) \<noteq> ''RUNNING'') ps"

definition version_mismatch :: "string \<Rightarrow> string \<Rightarrow> err" where
  "version_mismatch shown from_version =
     ''metadata version mismatch: meta.yaml shows version '' @ shown @ '' but upgrade is from '' @ from_version @ nl
     @ ''  The cluster metadata should reflect the currently running MongoDB version.'' @ nl
     @ ''  This mismatch indicates:'' @ nl
     @ ''    - A previous upgrade may have failed midway, or'' @ nl
     @ ''    - The metadata was incorrectly updated'' @ nl
     @ ''  To fix:'' @ nl
     @ ''    1. Check which MongoDB version is actually running (mup cluster display)'' @ nl
     @ ''    2. Update meta.yaml to reflect the running version, or'' @ nl
     @ ''    3. Use --from-version flag to specify the correct current version''"

definition newer_fcv :: "string \<Rightarrow> string \<Rightarrow> err" where
  "newer_fcv fcv from_version =
     ''FCV mismatch: cluster has FCV '' @ fcv @ '' but MongoDB version is '' @ from_version @ nl
     @ ''  This indicates the cluster was previously upgraded to a newer version.'' @ nl
     @ ''  The cluster cannot run MongoDB '' @ from_version @ '' with FCV '' @ fcv @ ''.'' @ nl
     @ ''  Either:'' @ nl
     @ ''    1. Start the cluster with the correct MongoDB version (>= '' @ fcv @ ''), or'' @ nl
     @ ''    2. Restore from a backup with compatible FCV''"

definition stat_checked :: "string \<Rightarrow> string \<Rightarrow> err option io" where
  "stat_checked what path = do {
     s \<leftarrow> os_stat path;
     ret (case s of Inl e \<Rightarrow> Some (wrapf what (os_msg e)) | Inr _ \<Rightarrow> None) }"

text \<open>The checks on the machine before any client connects.\<close>

definition check_processes :: "local_env \<Rightarrow> 'd local_run upgrader \<Rightarrow> manager \<Rightarrow> err option io" where
  "check_processes le u m = do {
     up \<leftarrow> is_running (le_os le) m;
     if \<not> up then ret (Some (''supervisord not running for cluster '' @ uf_cluster (up_conf u) @ nl
       @ ''  Start the cluster with: mup cluster start '' @ uf_cluster (up_conf u)))
     else do {
       r \<leftarrow> get_all_processes (le_os le) m;
       ret (case r of
         Inl e \<Rightarrow> Some (wrapf ''failed to list processes'' e)
       | Inr ps \<Rightarrow> if not_running ps then Some ''not all processes are running'' else None) } }"

definition check_binaries :: "local_env \<Rightarrow> 'd local_run upgrader \<Rightarrow> err option io" where
  "check_binaries le u = (case parse_variant (cm_variant (up_meta u)) of
     Inl e \<Rightarrow> ret (Some (wrapf ''invalid variant'' e))
   | Inr var \<Rightarrow> do {
       r \<leftarrow> le_bin le (uf_to (up_conf u)) (variant_string var) platform_os platform_arch;
       case r of
         Inl e \<Rightarrow> ret (Some (wrapf ''failed to get binaries'' e))
       | Inr bin \<Rightarrow> stat_checked ''mongod binary not found'' (path_join [bin, ''mongod'']) })"

definition check_home :: "local_env \<Rightarrow> err option io" where
  "check_home le = (case home_dir le of
     Inl e \<Rightarrow> ret (Some (wrapf ''failed to get home directory'' e))
   | Inr home \<Rightarrow> stat_checked ''.mup directory not accessible'' (path_join [home, ''.mup'']))"

text \<open>The lag is only printed, so what the check answers does not matter.\<close>

definition check_connected :: "local_env \<Rightarrow> 'd local_run upgrader \<Rightarrow> up_client \<Rightarrow> ('d local_run, err option) prog" where
  "check_connected le u cl = (let c = up_conf u; dr = le_driver le in do {
     f \<leftarrow> check_fcv dr (uf_cluster c) (uf_from c) (uf_to c) cl;
     case f of
       Inl e \<Rightarrow> ret (Some (wrapf ''failed to check FCV'' e))
     | Inr fcv \<Rightarrow>
         if fcv \<noteq> uf_from c \<and> uf_from c < fcv then ret (Some (newer_fcv fcv (uf_from c)))
         else try_step (on_os (check_binaries le u)) id (
           try_step (on_os (check_home le)) id (
           try_step (check_cluster_health dr (up_topology u) cl) (wrapf ''cluster health check failed'') (do {
             _ \<leftarrow> (if get_topology_type (up_topology u) \<noteq> ''standalone'' then check_replication_lag dr (up_topology u) cl else ret (Ok 0));
             try_step (on_os (validate_registry (le_executable le) (case uf_hooks c of None \<Rightarrow> [] | Some r \<Rightarrow> r)))
               (wrapf ''hook validation failed'') (ret None) }))) })"

definition validate_prerequisites :: "local_env \<Rightarrow> 'd local_run upgrader \<Rightarrow> ('d local_run, err option) prog" where
  "validate_prerequisites le u = (let c = up_conf u in
     if cm_version (up_meta u) \<noteq> uf_from c then ret (Some (version_mismatch (cm_version (up_meta u)) (uf_from c)))
     else case validate_upgrade_path_strings (uf_from c) (uf_to c) of
       Some e \<Rightarrow> ret (Some (wrapf ''invalid upgrade path'' e))
     | None \<Rightarrow> do {
         v \<leftarrow> get_vars;
         try_step (on_os (check_processes le u (lv_old v))) id (do {
           r \<leftarrow> connect_to_cluster (le_driver le) (up_topology u);
           case r of
             Inl e \<Rightarrow> ret (Some (wrapf ''failed to connect to cluster'' e))
           | Inr cl \<Rightarrow> check_connected le u cl }) })"

definition upgraded_metadata :: "'d local_run upgrader \<Rightarrow> 'd local_vars \<Rightarrow> cluster_metadata \<Rightarrow> cluster_metadata" where
  "upgraded_metadata u v cm = cm\<lparr>cm_version := uf_to (up_conf u), cm_bin_path := lv_bin v,
     cm_supervisor_config := path_join [lv_dir v, ''supervisor.ini''],
     cm_supervisor_pid_file := path_join [lv_dir v, ''supervisor.pid'']\<rparr>"

definition update_metadata :: "local_env \<Rightarrow> 'd local_run upgrader \<Rightarrow> 'd local_vars \<Rightarrow> err option io" where
  "update_metadata le u v = do {
     r \<leftarrow> load_cluster le (uf_cluster (up_conf u));
     case r of
       Inl e \<Rightarrow> ret (Some e)
     | Inr (base, cm) \<Rightarrow> do {
         e \<leftarrow> save_metadata (le_yaml le) base (upgraded_metadata u v cm);
         ret (map_option (wrapf ''failed to save metadata'') e) } }"

text \<open>At the level that asks before critical operations, only an abort stops the operation.\<close>

definition ask_fcv :: "'d local_run upgrader \<Rightarrow> ('d local_run, err option) prog" where
  "ask_fcv u =
     (if uf_level (up_conf u) \<noteq> level_critical then ret None
      else do {
        s \<leftarrow> get_up;
        r \<leftarrow> on_input (prompt_for_critical (uf_prompter (up_conf u)) ''Upgrade Feature Compatibility Version (FCV)'' s);
        ret (case r of
          Inl e \<Rightarrow> Some e
        | Inr a \<Rightarrow> if a = RAbort then Some ''FCV upgrade aborted by user'' else None) })"

definition post_upgrade_tasks :: "local_env \<Rightarrow> 'd local_run upgrader \<Rightarrow> ('d local_run, err option) prog" where
  "post_upgrade_tasks le u = do {
     v \<leftarrow> get_vars;
     try_step (on_os (update_metadata le u v)) id (
     try_step (if uf_fcv (up_conf u)
         then try_step (ask_fcv u) id (try_step (upgrade_fcv (le_driver le) u) (wrapf ''FCV upgrade failed'') (ret None))
         else ret None) id (do {
       _ \<leftarrow> stop_old_supervisor le;
       try_step (on_os (switch_links (uf_meta_dir (up_conf u)))) (wrapf ''failed to switch symlinks'') (ret None) })) }"

section \<open>The implementation\<close>

definition local_impl :: "local_env \<Rightarrow> 'd local_run upgrader \<Rightarrow> 'd local_run up_impl" where
  "local_impl le u = \<lparr>im_validate = validate_prerequisites le u, im_config_servers = upgrade_config_servers (le_driver le) u,
     im_shard = upgrade_shard (le_driver le) u, im_mongos = upgrade_routers u, im_post = post_upgrade_tasks le u,
     im_local = Some \<lparr>ls_setup = setup_directories le u, ls_regenerate = regenerate_supervisor le u,
       ls_start = start_new_supervisor le u,
       ls_cleanup = do { _ \<leftarrow> on_os (cleanup_next (uf_meta_dir (up_conf u))); ret () }\<rparr>\<rparr>"

text \<open>The upgrader with its operations on nodes, and the state and variables that it starts from.\<close>

definition new_local_upgrader ::
  "up_env \<Rightarrow> local_env \<Rightarrow> (string list \<Rightarrow> string list) \<Rightarrow> up_config \<Rightarrow> 'd
   \<Rightarrow> ('d local_run upgrader \<times> upgrade_state \<times> 'd local_vars) res io" where
  "new_local_upgrader env le shuffle c d = do {
     r \<leftarrow> new_upgrader env (le_yaml le) (home_dir le) shuffle c;
     case r of
       Inl e \<Rightarrow> ret (Err e)
     | Inr (u, s) \<Rightarrow> do {
         t \<leftarrow> os_readlink (current_link (uf_meta_dir c));
         let dir = path_join [uf_meta_dir c, case t of Inr target \<Rightarrow> target | Inl _ \<Rightarrow> ''v'' @ uf_from c];
         m \<leftarrow> load_manager (le_os le) dir (uf_cluster c);
         ret (case m of
           Inl e \<Rightarrow> Err (wrapf (''failed to load supervisor manager from '' @ dir) e)
         | Inr mgr \<Rightarrow> Ok (u\<lparr>up_nodes := Some (local_node_ops le (uf_meta_dir c))\<rparr>, s,
             \<lparr>lv_old = mgr, lv_new = None, lv_dir = [], lv_bin = [], lv_ops_old = mgr, lv_ops_new = None, lv_ops_dir = [],
              lv_ops_bin = [], lv_ext = d\<rparr>)) } }"

section \<open>The laws of the operations\<close>

text \<open>Nothing but the upgrader changes the state of the upgrade: the local operations keep to the processes and to variables.\<close>

lemma wp_get_vars [simp]: "wp get_vars Q s = Q (ur_ext (snd s)) s"
  by (cases s) (simp add: get_vars_def wp_on_host wp_def)

lemma wp_set_vars [simp]: "wp (set_vars f) Q s = Q () (fst s, (snd s)\<lparr>ur_ext := f (ur_ext (snd s))\<rparr>)"
  by (cases s) (simp add: set_vars_def wp_on_host wp_def State_Monad.update_def)

lemma still_vars [still_intros]: "still_prog get_vars" "still_prog (set_vars f)"
  by (rule still_progI, simp)+

lemma still_local_stop: "still_prog (local_stop le i)"
  unfolding local_stop_def by (intro still_intros)

lemma still_local_start: "still_prog (local_start le i)"
  unfolding local_start_def by (intro still_intros)

lemma still_local_status: "still_prog (local_status le i)"
  unfolding local_status_def by (intro still_intros)

lemma still_local_wait: "still_prog (local_wait le i timeout)"
  unfolding local_wait_def by (intro still_intros)

lemma still_local_verify: "still_prog (local_verify le i version)"
  unfolding local_verify_def by (intro still_intros still_local_status)

interpretation local: node_operations "local_node_ops le dir"
  by unfold_locales (simp_all add: local_node_ops_def still_local_stop still_local_start still_local_wait still_local_verify)

section \<open>The laws of the implementation\<close>

lemma still_mongo [still_intros]:
  "still_prog (connect_to_cluster dr t)" "still_prog (read_fcv dr what after c cl)" "still_prog (check_fcv dr a b c cl)"
  "still_prog (set_fcv dr u cl fcv)" "still_prog (check_sharded_health dr cl)" "still_prog (check_set_health dr cl)"
proof -
  show connect: "still_prog (connect_to_cluster dr t)" for dr t
    unfolding connect_to_cluster_def Let_def by (intro still_intros)
  show fcv: "still_prog (read_fcv dr what after c cl)" for dr what after c cl
    unfolding read_fcv_def by (intro still_intros) (auto split: goval.split intro!: still_intros)
  show "still_prog (check_fcv dr a b c cl)" unfolding check_fcv_def by (intro still_intros fcv)
  show "still_prog (set_fcv dr u cl fcv)" unfolding set_fcv_def by (intro still_intros fcv still_call_hooks)
  show "still_prog (check_sharded_health dr cl)"
    unfolding check_sharded_health_def by (intro still_intros)
  show "still_prog (check_set_health dr cl)" unfolding check_set_health_def by (intro still_intros)
qed

lemma still_upgrade_fcv: "still_prog (upgrade_fcv dr u)"
  unfolding upgrade_fcv_def by (intro still_intros still_mongo still_call_hooks)

lemma still_health: "still_prog (check_cluster_health dr t cl)" "still_prog (check_replication_lag dr t cl)"
  unfolding check_cluster_health_def check_replication_lag_def Let_def by (auto intro!: still_intros still_mongo)

lemma still_validate: "still_prog (validate_prerequisites le u)"
proof -
  have "still_prog (check_connected le u cl)" for cl
    unfolding check_connected_def Let_def by (intro still_intros still_mongo still_health)
  then show ?thesis
    unfolding validate_prerequisites_def Let_def by (intro still_intros still_mongo still_vars)
qed

lemma still_post: "still_prog (post_upgrade_tasks le u)"
proof -
  have "still_prog (ask_fcv u)" unfolding ask_fcv_def by (intro still_intros)
  moreover have "still_prog (stop_old_supervisor le)" unfolding stop_old_supervisor_def by (intro still_intros)
  ultimately show ?thesis
    unfolding post_upgrade_tasks_def by (intro still_intros still_vars still_upgrade_fcv)
qed

lemma still_upload: "(\<And>host hx. mget (de_executors d) host = Some hx \<Longrightarrow> \<forall>c p. still_prog (hx_upload_content hx c p)) \<Longrightarrow>
    still_prog (upload_config d host text path)"
  unfolding upload_config_def on_executor_def
  by (auto split: sum.split option.split intro!: still_intros)

lemma still_local_upload:
  "still_prog (upload_config (new_config_regenerator (local_executor mc) sh name version var t dir bin) host text path)"
  by (rule still_upload) (auto simp: new_config_regenerator_def local_executor_def split: if_splits intro!: still_intros)

lemma still_regenerate: "still_prog (regenerate_configs le (new_config_regenerator (local_executor mc) sh name version var t dir bin))"
  unfolding regenerate_configs_def Let_def deployer_mongod_config_def deployer_config_server_config_def deployer_mongos_config_def
  by (intro still_intros still_local_upload)

lemma still_pair [still_intros]: "(\<And>x y. still_prog (f x y)) \<Longrightarrow> still_prog (case z of (x, y) \<Rightarrow> f x y)"
  by (cases z) simp

lemma still_environment:
  "still_prog (setup_directories le u)" "still_prog (regenerate_supervisor le u)" "still_prog (start_new_supervisor le u)"
  unfolding setup_directories_def regenerate_supervisor_def start_new_supervisor_def Let_def
  by (intro still_intros still_vars still_regenerate)+

text \<open>
  The upgraders that the local implementation is for: the operations on nodes are the local ones, no two nodes share an
  address, Go's walk over the map of shards visits each, and a pass over the members of a set never finds two primaries.
\<close>

definition local_accepts :: "local_env \<Rightarrow> 'd local_run upgrader \<Rightarrow> bool" where
  "local_accepts le u = ((\<exists>dir. up_nodes u = Some (local_node_ops le dir)) \<and> distinct (upgrade_hps (up_topology u)) \<and>
     (\<forall>xs. set (up_shuffle u xs) = set xs) \<and>
     (\<forall>ns (s :: world \<times> 'd local_run). one_primary (le_driver le) ns s))"

lemma config_as_mongod_hp [simp]: "mongod_hp (config_as_mongod n) = config_hp n"
  by (simp add: config_as_mongod_def config_hp_def)

lemma node_body_accepted:
  assumes "local_accepts le u" "distinct (map mongod_hp ns)"
  shows "node_body (mongod_hp ` set ns) (upgrade_replica_set (le_driver le) u ns)"
proof -
  obtain dir where u: "up_nodes u = Some (local_node_ops le dir)" using assms(1) by (auto simp: local_accepts_def)
  have "one_primary (le_driver le) ns s" for s :: "world \<times> 'a local_run"
    using assms(1) unfolding local_accepts_def by blast
  then show ?thesis by (rule local.node_body_replica_set [OF u assms(2)])
qed

lemma node_body_config:
  assumes "local_accepts le u"
  shows "node_body (config_hp ` set (t_config_svr (up_topology u))) (upgrade_config_servers (le_driver le) u)"
proof (cases "t_config_svr (up_topology u) = []")
  case True
  then show ?thesis by (simp add: upgrade_config_servers_def node_body_def)
next
  case False
  have "distinct (map mongod_hp (map config_as_mongod (t_config_svr (up_topology u))))"
    using assms by (simp add: local_accepts_def upgrade_hps_def comp_def)
  from node_body_accepted [OF assms this] show ?thesis
    using False by (simp add: upgrade_config_servers_def image_image)
qed

lemma node_body_shard:
  assumes "local_accepts le u"
  shows "node_body (mongods_of (up_topology u) name) (upgrade_shard (le_driver le) u name)"
proof -
  let ?ns = "filter (\<lambda>n. md_replica_set n = name) (t_mongod (up_topology u))"
  have "distinct (map mongod_hp ?ns)" using assms by (simp add: local_accepts_def upgrade_hps_def distinct_map_filter)
  from node_body_accepted [OF assms this] show ?thesis
    by (cases "?ns = []") (auto simp: upgrade_shard_def Let_def mongods_of_def node_body_def filter_empty_conv)
qed

interpretation local_upgrade: phased_upgrade "local_impl le" "local_accepts le" for le
proof
  fix u :: "'a local_run upgrader" and l name
  assume u: "local_accepts le u"
  then obtain dir where ops: "up_nodes u = Some (local_node_ops le dir)" by (auto simp: local_accepts_def)
  show "distinct (upgrade_hps (up_topology u))" "set (up_shuffle u xs) = set xs" for xs
    using u by (simp_all add: local_accepts_def)
  then have dist: "distinct (map (\<lambda>n. up_node_hp (UpMongos n)) (t_mongos (up_topology u)))"
    by (simp add: upgrade_hps_def router_hp_def [abs_def])
  show "node_body {} (im_validate (local_impl le u))" "node_body {} (im_post (local_impl le u))"
    by (simp_all add: local_impl_def still_body still_validate still_post)
  show "node_body (config_hp ` set (t_config_svr (up_topology u))) (im_config_servers (local_impl le u))"
    "node_body (mongods_of (up_topology u) name) (im_shard (local_impl le u) name)"
    using node_body_config [OF u] node_body_shard [OF u] by (simp_all add: local_impl_def)
  show "node_body (router_hp ` set (t_mongos (up_topology u))) (im_mongos (local_impl le u))"
    using local.node_body_routers [OF ops dist] by (simp add: local_impl_def router_hp_def)
  show "node_body (mongod_hp ` set (t_mongod (up_topology u))) (upgrade_standalone u)"
    by (rule local.node_body_standalone [OF ops])
  show "still_prog (ls_setup l) \<and> still_prog (ls_regenerate l) \<and> still_prog (ls_start l) \<and> still_prog (ls_cleanup l)"
    if "im_local (local_impl le u) = Some l"
    using that still_environment [of le u] by (auto simp: local_impl_def intro!: still_intros)
qed

end
