(* ===== verification/Upgrade_Plan.thy ===== *)
theory Upgrade_Plan imports Upgrade_Set begin

text \<open>
  \<^verbatim>\<open>pkg/upgrade/plan.go\<close>: the description of an upgrade that a dry run shows, and what it agrees on with the upgrade itself.

  The order in which Go walks over the map of shards is the function \<open>up_shuffle\<close> of the upgrader.
\<close>

section \<open>Plans\<close>

record plan_step =
  pls_step :: int
  pls_action :: string
  pls_target :: string
  pls_description :: string
  pls_critical :: bool

record plan_phase =
  plp_phase :: int
  plp_name :: string
  plp_description :: string
  plp_steps :: "plan_step list"

record upgrade_plan =
  upl_cluster :: string
  upl_from :: string
  upl_to :: string
  upl_topology :: string
  upl_phases :: "plan_phase list"
  upl_prerequisites :: "string list"
  upl_warnings :: "string list"

definition spaced_arrow :: string where "spaced_arrow = '' '' @ [CHR 0xE2, CHR 0x86, CHR 0x92] @ '' ''"

definition plan_prerequisites :: "string \<Rightarrow> string list" where
  "plan_prerequisites to = [''All cluster processes must be running'', ''Supervisord must be running'',
     ''Target version '' @ to @ '' binaries will be downloaded'', ''Sufficient disk space must be available'',
     ''Cluster must be healthy with no replication lag > 10s'']"

definition plan_warnings :: "up_config \<Rightarrow> string list" where
  "plan_warnings c =
     (if uf_fcv c then [''FCV will be upgraded after binary upgrade - this is irreversible''] else [])
     @ (if \<not> uf_parallel c
        then [''Shards will be upgraded sequentially - use --parallel-shards for faster upgrades''] else [])"

definition plain_step :: "int \<Rightarrow> string \<Rightarrow> string \<Rightarrow> string \<Rightarrow> plan_step" where
  "plain_step i action target desc = \<lparr>pls_step = i, pls_action = action, pls_target = target, pls_description = desc, pls_critical = False\<rparr>"

definition preflight_phase :: "string \<Rightarrow> string \<Rightarrow> plan_phase" where
  "preflight_phase from_version to = \<lparr>plp_phase = 0, plp_name = ''Pre-Flight Validation'',
     plp_description = ''Validate prerequisites and cluster health'',
     plp_steps = [plain_step 1 ''validate'' ''upgrade path'' (''Validate '' @ from_version @ spaced_arrow @ to @ '' is allowed''),
       plain_step 2 ''check'' ''supervisord'' ''Verify supervisord is running'',
       plain_step 3 ''check'' ''processes'' ''Verify all MongoDB processes are running'',
       plain_step 4 ''download'' ''binaries'' (''Download and verify '' @ to @ '' binaries''),
       plain_step 5 ''check'' ''disk space'' ''Verify sufficient disk space'',
       plain_step 6 ''connect'' ''cluster'' ''Connect to MongoDB cluster'',
       plain_step 7 ''check'' ''FCV'' ''Verify Feature Compatibility Version'',
       plain_step 8 ''check'' ''health'' ''Verify cluster health'',
       plain_step 9 ''check'' ''replication'' ''Verify replication lag'']\<rparr>"

text \<open>One step for each node, numbered from a counter that all phases share.\<close>

definition node_step :: "string \<Rightarrow> string \<Rightarrow> int \<Rightarrow> string \<Rightarrow> plan_step" where
  "node_step before after i hp = plain_step i ''upgrade-node'' hp (before @ hp @ after)"

definition plan_steps :: "(int \<Rightarrow> string \<Rightarrow> plan_step) \<Rightarrow> int \<Rightarrow> string list \<Rightarrow> plan_step list" where
  "plan_steps f i hps = map (\<lambda>(k, hp). f (i + int k) hp) (enumerate 0 hps)"

definition plan_phase_of :: "int \<Rightarrow> string \<Rightarrow> string \<Rightarrow> plan_step list \<Rightarrow> plan_phase" where
  "plan_phase_of n name desc steps = \<lparr>plp_phase = n, plp_name = name, plp_description = desc, plp_steps = steps\<rparr>"

definition nodes_for_shard :: "topology \<Rightarrow> string \<Rightarrow> mongod_node list" where
  "nodes_for_shard t name = filter (\<lambda>n. md_replica_set n = name) (t_mongod t)"

definition get_shard_names :: "'s upgrader \<Rightarrow> string list" where
  "get_shard_names u = up_shuffle u (shard_names (up_topology u))"

fun shard_phases :: "topology \<Rightarrow> int \<Rightarrow> int \<Rightarrow> string list \<Rightarrow> plan_phase list" where
  "shard_phases t n i [] = []"
| "shard_phases t n i (name # names) =
     (let hps = map mongod_hp (nodes_for_shard t name) in
      plan_phase_of n (''Upgrade Shard: '' @ name) (''Upgrade shard replica set '' @ name)
        (plan_steps (node_step ''Stop, replace binary, start shard node '' []) i hps)
      # shard_phases t (n + 1) (i + int (length hps)) names)"

definition plan_size :: "plan_phase list \<Rightarrow> int" where
  "plan_size ps = int (length (concat (map plp_steps ps)))"

definition sharded_plan :: "'s upgrader \<Rightarrow> plan_phase list" where
  "sharded_plan u = (let t = up_topology u;
       configs = plan_phase_of 1 ''Upgrade Config Servers'' ''Upgrade config server replica set''
         (plan_steps (node_step ''Stop, replace binary, start config server '' []) 1
           (map (\<lambda>n. host_port (cs_host n) (cs_port n)) (t_config_svr t)));
       shards = shard_phases t 2 (1 + plan_size [configs]) (get_shard_names u);
       ps = configs # shards in
     ps @ [plan_phase_of (int (length ps) + 1) ''Upgrade Mongos Routers'' ''Upgrade mongos instances''
       (plan_steps (node_step ''Stop, replace binary, start mongos '' []) (1 + plan_size ps)
         (map (\<lambda>n. host_port (ms_host n) (ms_port n)) (t_mongos t)))])"

definition set_plan :: "topology \<Rightarrow> plan_phase list" where
  "set_plan t = [plan_phase_of 1 ''Upgrade Replica Set'' ''Upgrade replica set nodes (secondaries first, then primary)''
     (plan_steps (node_step ''Stop, replace binary, start node '' '' (runtime order: secondaries first)'') 1
       (map mongod_hp (t_mongod t)))]"

text \<open>The plan of a standalone node; it panics when there is none, which is \<open>None\<close>, and does not move the counter.\<close>

definition standalone_plan :: "topology \<Rightarrow> plan_phase list option" where
  "standalone_plan t = (case t_mongod t of
     [] \<Rightarrow> None
   | n # _ \<Rightarrow> Some [plan_phase_of 1 ''Upgrade Standalone Node'' ''Upgrade single MongoDB instance''
       [(node_step ''Stop, replace binary, start node '' [] 1 (mongod_hp n))\<lparr>pls_critical := True\<rparr>]])"

text \<open>The phases of the topology, and the value of the counter after them.\<close>

definition topology_plan :: "'s upgrader \<Rightarrow> (plan_phase list \<times> int) option" where
  "topology_plan u = (let t = up_topology u; ty = get_topology_type t in
     if ty = ''sharded'' then Some (sharded_plan u, 1 + plan_size (sharded_plan u))
     else if ty = ''replica_set'' then Some (set_plan t, 1 + plan_size (set_plan t))
     else map_option (\<lambda>ps. (ps, 1)) (standalone_plan t))"

definition fcv_phase :: "int \<Rightarrow> int \<Rightarrow> string \<Rightarrow> plan_phase" where
  "fcv_phase n i to = plan_phase_of n ''Feature Compatibility Version Upgrade'' ''Upgrade FCV to match new binary version''
     [(plain_step i ''upgrade-fcv'' ''cluster'' (''Set FCV to '' @ to))\<lparr>pls_critical := True\<rparr>]"

definition local_upgrade_plan :: "'s upgrader \<Rightarrow> upgrade_plan option" where
  "local_upgrade_plan u = (let c = up_conf u in
     map_option (\<lambda>(phases, i). let ps = preflight_phase (uf_from c) (uf_to c) # phases in
       \<lparr>upl_cluster = uf_cluster c, upl_from = uf_from c, upl_to = uf_to c, upl_topology = get_topology_type (uf_topology c),
        upl_phases = ps @ (if uf_fcv c then [fcv_phase (int (length ps) + 1) i (uf_to c)] else []),
        upl_prerequisites = plan_prerequisites (uf_to c), upl_warnings = plan_warnings c\<rparr>) (topology_plan u))"

section \<open>Lemmas\<close>

lemma plan_steps_simps [simp]:
  "length (plan_steps f i hps) = length hps"
  "map pls_step (plan_steps (node_step a b) i hps) = map (\<lambda>k. i + int k) [0..<length hps]"
  "map pls_target (plan_steps (node_step a b) i hps) = hps"
  unfolding plan_steps_def enumerate_eq_zip
  by (auto simp: node_step_def plain_step_def comp_def case_prod_unfold map_fst_zip_take intro: nth_equalityI)

end
