(* ===== verification/Upgrade_Save.thy ===== *)
theory Upgrade_Save imports Upgrade_State begin

text \<open>
  The file of the upgrade state: a save replaces it as a whole or leaves it alone, and what was saved is what the next load
  reads. The encoder and the decoder are arbitrary.
\<close>

text \<open>What a save leaves on the disk: the state that was stamped, encoded, or the file as it was.\<close>

definition saved_upgrade :: "up_codec \<Rightarrow> string \<Rightarrow> fs \<Rightarrow> err option \<Rightarrow> upgrade_state \<Rightarrow> fs \<Rightarrow> bool" where
  "saved_upgrade uc path f e u g = (fs_same_except {path, path @ ''.tmp''} f g \<and>
     (case e of
        None \<Rightarrow> \<exists>c t. uc_marshal uc u = Ok c \<and> mget g path = Some (FFile c t)
      | Some _ \<Rightarrow> mget g path = mget f path))"

lemma wp_write_upgrade_file:
  assumes clean: "path_clean (sm_file sm) = sm_file sm" "path_clean (sm_file sm @ ''.tmp'') = sm_file sm @ ''.tmp''"
    and plain: "\<not> is_link (w_fs w) (sm_file sm @ ''.tmp'')"
    and Q: "\<And>e w'. saved_upgrade uc (sm_file sm) (w_fs w) e u (w_fs w') \<Longrightarrow> Q e w'"
  shows "wp (write_upgrade uc sm u) Q w"
proof (cases "uc_marshal uc u")
  case (Inl x)
  then show ?thesis by (auto simp: write_upgrade_def saved_upgrade_def intro!: Q)
next
  case (Inr c)
  let ?p = "sm_file sm" and ?tmp = "sm_file sm @ ''.tmp''"
  show ?thesis
    unfolding write_upgrade_def Inr sum.case wp_bind
  proof (rule wp_write_file)
    show "fs_follow (w_fs w) ?tmp = Some ?tmp" using fs_follow_plain [of "w_fs w" ?tmp] clean plain by simp
  next
    fix e :: "os_err option" and w1 :: world
    assume w1: "fs_same_except {?tmp} (w_fs w) (w_fs w1)" and ok: "e = None \<Longrightarrow> \<exists>t. mget (w_fs w1) ?tmp = Some (FFile c t)"
    have p1: "mget (w_fs w1) ?p = mget (w_fs w) ?p" using fs_same_exceptD [OF w1] by simp
    show "wp (case e of Some m \<Rightarrow> ret (Some (wrapf ''failed to write temp state file'' (os_msg m)))
        | None \<Rightarrow> os_rename ?tmp ?p \<bind> (\<lambda>e. ret (map_option (\<lambda>m. wrapf ''failed to rename temp state file'' (os_msg m)) e))) Q w1"
    proof (cases e)
      case (Some m)
      then show ?thesis using w1 p1 by (auto simp: saved_upgrade_def fs_same_except_def intro!: Q)
    next
      case None
      then obtain t where tmp: "mget (w_fs w1) ?tmp = Some (FFile c t)" using ok by blast
      show ?thesis
        unfolding None option.case wp_bind
      proof (rule wp_rename, unfold clean wp_return)
        fix e2 :: "os_err option" and w2 :: world
        assume w2: "fs_same_except {?tmp, ?p} (w_fs w1) (w_fs w2)" "e2 \<noteq> None \<Longrightarrow> w_fs w2 = w_fs w1"
          "e2 = None \<Longrightarrow> mget (w_fs w2) ?p = mget (w_fs w1) ?tmp"
        show "Q (map_option (\<lambda>m. wrapf ''failed to rename temp state file'' (os_msg m)) e2) w2"
          by (rule Q) (use w1 w2 p1 tmp Inr in \<open>cases e2; auto simp: saved_upgrade_def fs_same_except_def\<close>)
      qed
    qed
  qed
qed

lemma wp_save_upgrade_file:
  assumes "path_clean (sm_file sm) = sm_file sm" "path_clean (sm_file sm @ ''.tmp'') = sm_file sm @ ''.tmp''"
    "\<not> is_link (w_fs w) (sm_file sm @ ''.tmp'')"
    and Q: "\<And>e u' w'. saved_upgrade uc (sm_file sm) (w_fs w) e u' (w_fs w') \<Longrightarrow> us_checkpoints u' = us_checkpoints u + 1 \<Longrightarrow> Q (e, u') w'"
  shows "wp (save_upgrade uc sm u) Q w"
proof -
  have "wp stamp f w = f (fst (run_state stamp w)) (snd (run_state stamp w))" for stamp :: "upgrade_state io" and f
    by (simp add: wp_def case_prod_unfold)
  moreover have "w_fs (snd (run_state (stamp_checkpoint u) w)) = w_fs w"
      "us_checkpoints (fst (run_state (stamp_checkpoint u) w)) = us_checkpoints u + 1"
    by (simp_all add: stamp_checkpoint_def)
  ultimately show ?thesis
    unfolding save_upgrade_def wp_bind wp_return using assms(1-3) by (auto intro!: wp_write_upgrade_file Q)
qed

lemma state_file_clean:
  assumes "comps_ok cs" "p = path_join [abs_path cs, ''upgrade-state.yaml'']"
  shows "path_clean p = p" "path_clean (p @ ''.tmp'') = p @ ''.tmp''"
proof -
  have c: "comps_ok [''upgrade-state.yaml'']" "comps_ok [''upgrade-state.yaml.tmp'']" by (simp_all add: comps_ok_def comp_ok_def dot_def dotdot_def)
  have p: "p = abs_path (cs @ [''upgrade-state.yaml''])" using assms c by (simp add: path_join_abs)
  have tmp: "p @ ''.tmp'' = abs_path (cs @ [''upgrade-state.yaml.tmp''])" unfolding p abs_path_snoc_append by simp
  show "path_clean p = p" unfolding p by (rule path_clean_abs_path) (use assms(1) c in \<open>simp add: comps_ok_def\<close>)
  show "path_clean (p @ ''.tmp'') = p @ ''.tmp''"
    unfolding tmp by (rule path_clean_abs_path) (use assms(1) c in \<open>simp add: comps_ok_def\<close>)
qed


definition example_upgrade :: upgrade_state where
  "example_upgrade = \<lparr>us_id = ''upg-1'', us_cluster = ''c'', us_previous = ''mongo-6.0.0'', us_target = ''mongo-7.0.0'', us_started = 0,
     us_updated = 0, us_status = overall_in_progress, us_phase = phase_pre_flight, us_phases = [], us_nodes = [],
     us_checkpoints = 0, us_checkpoint = None, us_paused_at = None, us_paused_reason = [], us_prompt_level = [],
     us_skipped = [], us_pause_requested = False, us_failovers = []\<rparr>"

definition example_codec :: up_codec where
  "example_codec = \<lparr>uc_marshal = (\<lambda>u. Ok (Text (itoa (us_checkpoints u)))), uc_unmarshal = (\<lambda>_. Err ''no decoder'')\<rparr>"

definition example_state_manager :: state_manager where
  "example_state_manager = \<lparr>sm_file = path_join [abs_path [''c''], ''upgrade-state.yaml''], sm_history = abs_path [''c'']\<rparr>"


end
