(* ===== verification/Upgrade_Claims.thy ===== *)
theory Upgrade_Claims imports Upgrade_Local Upgrade_Plan Upgrade_Save begin

text \<open>
  The properties of the upgrade of a local deployment: the order in which members of a replica set are touched, the progress
  that is never lost, and what an upgrade that succeeds has done.
\<close>

section \<open>The order of the members\<close>


section \<open>Progress\<close>


text \<open>A replica set topology whose nodes are all in one set, and shards that all have a name.\<close>

definition named_sets :: "topology \<Rightarrow> bool" where
  "named_sets t = (if get_topology_type t = ''sharded'' then list_all (\<lambda>n. md_replica_set n \<noteq> []) (t_mongod t)
     else if get_topology_type t = ''replica_set'' then list_all (\<lambda>n. md_replica_set n = md_replica_set (hd (t_mongod t))) (t_mongod t)
     else True)"

lemma set_shard_names: "set (shard_names t) = md_replica_set ` {n \<in> set (t_mongod t). md_replica_set n \<noteq> []}"
proof -
  have "name \<in> set (shard_names t) \<longleftrightarrow> name \<in> md_replica_set ` {n \<in> set (t_mongod t). md_replica_set n \<noteq> []}" for name
    using mhas_group_by [of md_replica_set id "filter (\<lambda>n. md_replica_set n \<noteq> []) (t_mongod t)" "[]" name]
    unfolding shard_names_def mhas_iff_key by (simp add: mhas_def)
  then show ?thesis by blast
qed

lemma finished_settled:
  assumes "finished t u" "settled_phases t u" "named_sets t" "h \<in> set (upgrade_hps t)"
  shows "settled u h"
proof -
  have in_phase: "settled u h" if "ph \<in> topology_phases t" "h \<in> phase_nodes t ph" for ph
    using that assms(1,2) by (auto simp: finished_def phases_completed_def settled_phases_def)
  show ?thesis
  proof (cases "get_topology_type t = ''sharded''")
    case True
    note names = phase_nodes_names(1-3) [OF True]
    have "phase_config_servers \<in> topology_phases t" "phase_mongos \<in> topology_phases t" by (simp_all add: topology_phases_def True)
    moreover have "''shard-'' @ md_replica_set n \<in> topology_phases t \<and> mongod_hp n \<in> phase_nodes t (''shard-'' @ md_replica_set n)"
      if "n \<in> set (t_mongod t)" for n
      using that assms(3) True
      by (auto simp: topology_phases_def set_shard_names named_sets_def list_all_iff names(3) mongods_of_def simp del: append.simps)
    ultimately show ?thesis using assms(4) in_phase names(1,2) unfolding upgrade_hps_def by fastforce
  next
    case False
    then have "t_mongos t = []" "t_config_svr t = []" by (auto simp: get_topology_type_def split: if_splits)
    then have "h \<in> mongod_hp ` set (t_mongod t)" using assms(4) by (simp add: upgrade_hps_def)
    then have "h \<in> phase_nodes t phase_shard"
      using False assms(3) by (auto simp: phase_nodes_def named_sets_def mongods_of_def list_all_iff)
    then show ?thesis using in_phase [of phase_shard] False by (simp add: topology_phases_def)
  qed
qed


section \<open>An example\<close>

text \<open>A machine whose supervisor answers that every process runs, and a driver that reaches no server.\<close>

definition running_machine :: sup_os where
  "running_machine = stuck_machine\<lparr>so_run := (\<lambda>_. ret (''mongod-27017 RUNNING pid 12, uptime 0:01'', None))\<rparr>"

definition no_driver :: up_driver where
  "no_driver = \<lparr>ud_connect = (\<lambda>_ _. ret (Some ''refused'')), ud_ping = (\<lambda>_ _. ret (Some ''refused'')), ud_run = (\<lambda>_ _ _ _. ret (Err ''refused'')),
     ud_find_one = (\<lambda>_ _ _ _ _. ret (Err ''refused'')), ud_find = (\<lambda>_ _ _ _ _. ret (Err ''refused'')),
     ud_show = (\<lambda>_. []), ud_type = (\<lambda>_. [])\<rparr>"

definition example_local_env :: local_env where
  "example_local_env = \<lparr>le_os = running_machine, le_bin = (\<lambda>_ _ _ _. ret (Ok ''/bin'')), le_driver = no_driver,
     le_executable = (\<lambda>_. True), le_yaml = status_codec, le_version = plain_go_version, le_float = (\<lambda>_. ''1''),
     le_machine = silent_machine, le_fuel = 31\<rparr>"

definition example_up_config :: "topology \<Rightarrow> string \<Rightarrow> up_config" where
  "example_up_config t level = \<lparr>uf_cluster = ''c'', uf_from = ''6.0.0'', uf_to = ''7.0.0'', uf_variant = VariantMongo, uf_fcv = False,
     uf_parallel = False, uf_level = level, uf_meta_dir = ''/c'', uf_topology = t, uf_manager = example_state_manager,
     uf_prompter = level, uf_dry_run = False, uf_wait = None, uf_hooks = None\<rparr>"

definition example_up_env :: up_env where
  "example_up_env = \<lparr>ue_yaml = example_codec, ue_stamp = (\<lambda>_. ''now''), ue_shell = (\<lambda>_ _ _. ret ([], None))\<rparr>"

definition example_upgrader :: "topology \<Rightarrow> string \<Rightarrow> unit local_run upgrader" where
  "example_upgrader t level = \<lparr>up_conf = example_up_config t level, up_meta = example_metadata, up_is_local = False,
     up_nodes = Some (local_node_ops example_local_env ''/c''), up_env = example_up_env, up_shuffle = id\<rparr>"

definition single_topology :: topology where
  "single_topology = \<lparr>t_global = example_global, t_mongod = [(example_mongod ''localhost'' 27017)\<lparr>md_replica_set := []\<rparr>],
     t_mongos = [], t_config_svr = [], t_replica_sets = []\<rparr>"

definition done_phase :: "string \<Rightarrow> up_phase_state" where
  "done_phase ph = \<lparr>ups_name = ph, ups_status = phase_completed, ups_nodes = [], ups_start = None, ups_checkpoint = None\<rparr>"

text \<open>An upgrade that was interrupted between its first and its last phase.\<close>

definition example_run :: "world \<times> unit local_run" where
  "example_run = (example_world\<lparr>w_fs := [(''/c'', FDir)]\<rparr>, \<lparr>ur_state = example_upgrade\<lparr>us_phases :=
       [(phase_pre_flight, done_phase phase_pre_flight), (phase_post_upgrade, done_phase phase_post_upgrade)]\<rparr>,
     ur_input = [], ur_trace = [], ur_ext = \<lparr>lv_old = example_manager, lv_new = Some example_manager, lv_dir = ''/c/v7.0.0'',
       lv_bin = ''/bin'', lv_ops_old = example_manager, lv_ops_new = Some example_manager, lv_ops_dir = ''/c/v7.0.0'',
       lv_ops_bin = ''/bin'', lv_ext = ()\<rparr>\<rparr>)"

lemma no_driver_roles: "wp (detect_roles no_driver rs hosts ns) (\<lambda>L _. filter is_primary L = []) s"
proof (induction ns arbitrary: s)
  case (Cons n ns)
  have "wp (detect_node_role no_driver hp rs hosts) Q s = Q (Err (wrapf ''failed to connect to replica set'' ''refused'')) s" for hp Q
    by (cases s) (simp add: detect_node_role_def get_replica_set_status_def no_driver_def wp_on_os)
  then show ?case using Cons.IH by (auto simp: is_primary_def intro: wp_mono [OF Cons.IH])
qed simp

lemma no_driver_one: "one_primary no_driver ns s"
  using no_driver_roles [of "md_replica_set (hd ns)" "map mongod_hp ns" ns s]
  by (simp add: one_primary_def wp_def case_prod_unfold)

lemma example_accepts: "distinct (upgrade_hps t) \<Longrightarrow> local_accepts example_local_env (example_upgrader t level)"
  by (auto simp: local_accepts_def example_upgrader_def example_up_config_def example_local_env_def no_driver_one)

definition example_members :: "mongod_node list" where
  "example_members = [example_mongod ''localhost'' 27017, example_mongod ''localhost'' 27018]"



text \<open>An upgrade that was paused after its last phase, and the operator who resumes it.\<close>

definition paused_run :: "world \<times> unit local_run" where
  "paused_run = (fst example_run, (snd example_run)\<lparr>ur_state := (ur_state (snd example_run))\<lparr>us_status := overall_paused,
       us_phases := map (\<lambda>ph. (ph, done_phase ph)) [phase_pre_flight, phase_shard, phase_post_upgrade],
       us_nodes := [(host_port ''localhost'' 27017, (fresh_node example_upgrade (host_port ''localhost'' 27017))\<lparr>nst_status := node_completed\<rparr>)]\<rparr>,
     ur_input := ''yes'' @ nl\<rparr>)"


end
