(* ===== verification/Import_Config.thy ===== *)
theory Import_Config imports Templates Meta begin

text \<open>
  \<^verbatim>\<open>pkg/import/config_importer.go\<close> and \<^verbatim>\<open>systemd.go\<close>: what an import reads out of the configuration files and systemd
  units of a running deployment.

  A regular expression of the source is written out as a function that matches at the beginning of a text and gives what it
  captured and the text behind the match; \<open>re_find\<close> and \<open>re_find_all\<close> look for the leftmost match and for all of them.
\<close>

section \<open>Regular expressions\<close>

type_synonym 'a matcher = "string \<Rightarrow> ('a \<times> string) option"

fun re_find :: "'a matcher \<Rightarrow> string \<Rightarrow> 'a option" where
  "re_find m [] = map_option fst (m [])"
| "re_find m (c # s) = (case m (c # s) of Some (x, _) \<Rightarrow> Some x | None \<Rightarrow> re_find m s)"

text \<open>Every match of the patterns below takes at least one character.\<close>

fun re_find_all :: "'a matcher \<Rightarrow> string \<Rightarrow> 'a list" where
  "re_find_all m [] = []"
| "re_find_all m (c # s) = (case m (c # s) of
     Some (x, r) \<Rightarrow> x # (if length r \<le> length s then re_find_all m r else [])
   | None \<Rightarrow> re_find_all m s)"

text \<open>The classes \<^verbatim>\<open>\s\<close> and \<^verbatim>\<open>[^\s]\<close>, which leave the vertical tab out of white space.\<close>

definition re_space :: "char \<Rightarrow> bool" where
  "re_space c = (c \<in> {CHR '' '', CHR 0x09, CHR 0x0A, CHR 0x0C, CHR 0x0D})"

definition re_run :: "(char \<Rightarrow> bool) \<Rightarrow> string matcher" where
  "re_run P s = (if takeWhile P s = [] then None else Some (takeWhile P s, dropWhile P s))"

definition re_word :: "string matcher" where "re_word = re_run (\<lambda>c. \<not> re_space c)"

definition re_lit :: "string \<Rightarrow> string \<Rightarrow> string option" where
  "re_lit p s = (if has_prefix s p then Some (drop (length p) s) else None)"

text \<open>\<^verbatim>\<open>(?:=|\s+)\<close> and \<^verbatim>\<open>[= ]\<close>.\<close>

definition re_sep :: "string \<Rightarrow> string option" where
  "re_sep s = (case s of
     [] \<Rightarrow> None
   | c # r \<Rightarrow> if c = CHR ''='' then Some r else if re_space c then Some (dropWhile re_space r) else None)"

definition re_eq_or_blank :: "string \<Rightarrow> string option" where
  "re_eq_or_blank s = (case s of [] \<Rightarrow> None | c # r \<Rightarrow> if c = CHR ''='' \<or> c = CHR '' '' then Some r else None)"

text \<open>\<^verbatim>\<open>--name[= ](...)\<close>, where \<open>v\<close> is the pattern of the value.\<close>

definition re_flag :: "string \<Rightarrow> string matcher \<Rightarrow> string matcher" where
  "re_flag name v s = Option.bind (re_lit (''--'' @ name) s) (\<lambda>r. Option.bind (re_eq_or_blank r) v)"

section \<open>systemd units\<close>

record systemd_unit =
  su_description :: string
  su_documentation :: string
  su_user :: string
  su_group :: string
  su_exec_start :: string
  su_exec_start_pre :: "string list"
  su_environment :: "string list"
  su_environment_file :: string
  su_pid_file :: string
  su_type :: string
  su_restart :: string
  su_config_path :: string
  su_params :: "(string, string) gomap"

definition empty_unit :: systemd_unit where
  "empty_unit = \<lparr>su_description = [], su_documentation = [], su_user = [], su_group = [], su_exec_start = [],
     su_exec_start_pre = [], su_environment = [], su_environment_file = [], su_pid_file = [], su_type = [], su_restart = [],
     su_config_path = [], su_params = []\<rparr>"

text \<open>\<^verbatim>\<open>strings.Trim\<close> with a set of characters, and \<^verbatim>\<open>strings.HasSuffix\<close>.\<close>

definition trim_chars :: "string \<Rightarrow> string \<Rightarrow> string" where
  "trim_chars cs s = rev (dropWhile (\<lambda>c. c \<in> set cs) (rev (dropWhile (\<lambda>c. c \<in> set cs) s)))"

definition has_suffix :: "string \<Rightarrow> string \<Rightarrow> bool" where
  "has_suffix s p = has_prefix (rev s) (rev p)"

definition parse_unit_section :: "string \<Rightarrow> systemd_unit \<Rightarrow> systemd_unit" where
  "parse_unit_section line u =
     (if has_prefix line ''Description='' then u\<lparr>su_description := trim_prefix line ''Description=''\<rparr>
      else if has_prefix line ''Documentation='' then u\<lparr>su_documentation := trim_prefix line ''Documentation=''\<rparr>
      else u)"

definition parse_environment_line :: "string \<Rightarrow> systemd_unit \<Rightarrow> systemd_unit" where
  "parse_environment_line line u =
     u\<lparr>su_environment := su_environment u @ [trim_chars [CHR 0x22] (trim_prefix line ''Environment='')]\<rparr>"

definition parse_service_section :: "string \<Rightarrow> systemd_unit \<Rightarrow> systemd_unit" where
  "parse_service_section line u =
     (if has_prefix line ''User='' then u\<lparr>su_user := trim_prefix line ''User=''\<rparr>
      else if has_prefix line ''Group='' then u\<lparr>su_group := trim_prefix line ''Group=''\<rparr>
      else if has_prefix line ''ExecStart='' then u\<lparr>su_exec_start := trim_prefix line ''ExecStart=''\<rparr>
      else if has_prefix line ''ExecStartPre='' then
        u\<lparr>su_exec_start_pre := su_exec_start_pre u @ [trim_prefix line ''ExecStartPre='']\<rparr>
      else if has_prefix line ''Environment='' then parse_environment_line line u
      else if has_prefix line ''EnvironmentFile='' then
        u\<lparr>su_environment_file := trim_prefix (trim_prefix line ''EnvironmentFile='') ''-''\<rparr>
      else if has_prefix line ''PIDFile='' then u\<lparr>su_pid_file := trim_prefix line ''PIDFile=''\<rparr>
      else if has_prefix line ''Type='' then u\<lparr>su_type := trim_prefix line ''Type=''\<rparr>
      else if has_prefix line ''Restart='' then u\<lparr>su_restart := trim_prefix line ''Restart=''\<rparr>
      else u)"

text \<open>\<^verbatim>\<open>(?:--config|-f)(?:=|\s+)([^\s]+)\<close>\<close>

definition re_config :: "string matcher" where
  "re_config s = Option.bind (case re_lit ''--config'' s of Some r \<Rightarrow> Some r | None \<Rightarrow> re_lit ''-f'' s)
     (\<lambda>r. Option.bind (re_sep r) re_word)"

definition extract_config_path :: "systemd_unit \<Rightarrow> systemd_unit" where
  "extract_config_path u =
     (if su_exec_start u = [] then u
      else case re_find re_config (su_exec_start u) of None \<Rightarrow> u | Some p \<Rightarrow> u\<lparr>su_config_path := p\<rparr>)"

definition lower_letter :: "char \<Rightarrow> bool" where
  "lower_letter c = (97 \<le> (of_char c :: nat) \<and> (of_char c :: nat) \<le> 122)"

definition letter_or_underscore :: "char \<Rightarrow> bool" where
  "letter_or_underscore c = (lower_letter c \<or> 65 \<le> (of_char c :: nat) \<and> (of_char c :: nat) \<le> 90 \<or> c = CHR ''_'')"

text \<open>
  \<^verbatim>\<open>--([a-zA-Z_]+)(?:=|\s+)([^\s]+)\<close>: the name runs as far as it can, because what follows it is not a letter.
  \<^verbatim>\<open>-([a-z])\s+([^\s]+)\<close>.
\<close>

definition re_param :: "(string \<times> string) matcher" where
  "re_param s = Option.bind (re_lit ''--'' s) (\<lambda>r.
     Option.bind (re_run letter_or_underscore r) (\<lambda>(name, r).
     Option.bind (re_sep r) (\<lambda>r.
     map_option (\<lambda>(v, r). ((name, v), r)) (re_word r))))"

definition re_short :: "(char \<times> string) matcher" where
  "re_short s = Option.bind (re_lit ''-'' s) (\<lambda>r. case r of
     c # b # r \<Rightarrow> if lower_letter c \<and> re_space b
       then map_option (\<lambda>(v, r). ((c, v), r)) (re_word (dropWhile re_space r)) else None
   | _ \<Rightarrow> None)"

definition extract_exec_start_params :: "string \<Rightarrow> (string, string) gomap" where
  "extract_exec_start_params cmd =
     fold (\<lambda>(c, v) m. if c = CHR ''f'' then mput ''config'' v m else m) (re_find_all re_short cmd)
       (fold (\<lambda>(k, v). mput k v) (re_find_all re_param cmd) [])"

text \<open>The loop over the lines carries the current section and the unit.\<close>

definition unit_line :: "string \<Rightarrow> string \<times> systemd_unit \<Rightarrow> string \<times> systemd_unit" where
  "unit_line raw st = (case st of (sec, u) \<Rightarrow> let line = trim_space raw in
     if line = [] \<or> has_prefix line ''#'' \<or> has_prefix line '';'' then (sec, u)
     else if has_prefix line ''['' \<and> has_suffix line '']'' then (trim_chars ''[]'' line, u)
     else if sec = ''Unit'' then (sec, parse_unit_section line u)
     else if sec = ''Service'' then (sec, parse_service_section line u)
     else (sec, u))"

definition parse_unit :: "string \<Rightarrow> systemd_unit" where
  "parse_unit content = (let u = snd (fold unit_line (split_on (CHR 0x0A) content) ([], empty_unit)) in
     if su_exec_start u \<noteq> [] then (extract_config_path u)\<lparr>su_params := extract_exec_start_params (su_exec_start u)\<rparr> else u)"

definition parse_unit_file :: "string \<Rightarrow> systemd_unit res" where
  "parse_unit_file content = (if content = [] then Err ''empty unit file content'' else Ok (parse_unit content))"

section \<open>Discovered instances\<close>

record mongo_instance =
  mi_host :: string
  mi_port :: int
  mi_pid :: int
  mi_config_file :: string
  mi_data_dir :: string
  mi_log_path :: string
  mi_version :: string
  mi_variant :: string
  mi_topology_type :: string
  mi_replica_set :: string
  mi_process_type :: string

definition empty_instance :: mongo_instance where
  "empty_instance = \<lparr>mi_host = [], mi_port = 0, mi_pid = 0, mi_config_file = [], mi_data_dir = [], mi_log_path = [],
     mi_version = [], mi_variant = [], mi_topology_type = [], mi_replica_set = [], mi_process_type = []\<rparr>"

definition parse_int :: "string \<Rightarrow> int \<Rightarrow> int" where
  "parse_int s fallback = (case sscanf_d s of None \<Rightarrow> fallback | Some n \<Rightarrow> n)"

definition connect_host :: "string option \<Rightarrow> string" where
  "connect_host b = (case b of
     None \<Rightarrow> ''localhost''
   | Some h \<Rightarrow> if h = ''0.0.0.0'' \<or> h = ''::'' then ''localhost'' else h)"

definition detect_mongodb_params :: "systemd_unit \<Rightarrow> mongo_instance" where
  "detect_mongodb_params u =
     (if su_config_path u \<noteq> [] then empty_instance\<lparr>mi_config_file := su_config_path u\<rparr>
      else let ps = su_params u; get = (\<lambda>k. case mget ps k of None \<Rightarrow> [] | Some v \<Rightarrow> v) in
        empty_instance\<lparr>mi_port := (case mget ps ''port'' of None \<Rightarrow> 27017 | Some p \<Rightarrow> parse_int p 27017),
          mi_data_dir := get ''dbpath'', mi_log_path := get ''logpath'', mi_host := connect_host (mget ps ''bind_ip'')\<rparr>)"

section \<open>Configuration files\<close>

record config_paths =
  cp_data_dir :: string
  cp_log_path :: string

text \<open>\<^verbatim>\<open>yaml.Unmarshal\<close> into the two structs.\<close>

record conf_yaml =
  cy_mongod :: "string \<Rightarrow> mongod_config res"
  cy_mongos :: "string \<Rightarrow> mongos_config res"

definition parse_mongo_config :: "conf_yaml \<Rightarrow> string \<Rightarrow> mongod_config res" where
  "parse_mongo_config cy s = wrap_err ''failed to parse MongoDB config'' (cy_mongod cy s)"

definition parse_mongos_config :: "conf_yaml \<Rightarrow> string \<Rightarrow> mongos_config res" where
  "parse_mongos_config cy s = wrap_err ''failed to parse mongos config'' (cy_mongos cy s)"

definition mup_log :: "string \<Rightarrow> system_log_config \<Rightarrow> system_log_config" where
  "mup_log path l = l\<lparr>slc_path := path,
     slc_destination := (if slc_destination l = [] then ''file'' else slc_destination l), slc_append := True\<rparr>"

definition generate_mup_config :: "mongod_config \<Rightarrow> config_paths \<Rightarrow> mongod_config" where
  "generate_mup_config e p =
     e\<lparr>mdc_storage := (mdc_storage e)\<lparr>stc_db_path := cp_data_dir p\<rparr>, mdc_log := mup_log (cp_log_path p) (mdc_log e),
       mdc_process := \<lparr>pmc_fork = False, pmc_pid_file = []\<rparr>\<rparr>"

text \<open>
  The copy of a configuration of \<^verbatim>\<open>mongos\<close> shares the pointer to the process management with the original, so the original
  changes with it (the first component); without process management the pointer is nil and the write panics (\<open>None\<close>).
\<close>

definition generate_mup_mongos_config :: "mongos_config \<Rightarrow> string \<Rightarrow> (mongos_config \<times> mongos_config) option" where
  "generate_mup_mongos_config e log_path = (case msc_process e of
     None \<Rightarrow> None
   | Some _ \<Rightarrow> let shared = e\<lparr>msc_process := Some \<lparr>pmc_fork = False, pmc_pid_file = []\<rparr>\<rparr> in
       Some (shared, shared\<lparr>msc_log := mup_log log_path (msc_log e)\<rparr>))"

subsection \<open>The format of old releases\<close>

definition legacy_defaults :: mongod_config where
  "legacy_defaults = \<lparr>mdc_net = \<lparr>nc_port = 0, nc_bind_ip = [], nc_max_incoming = 0, nc_tls = None\<rparr>,
     mdc_storage = \<lparr>stc_db_path = [], stc_journal_enabled = True, stc_engine = [], stc_directory_per_db = False, stc_wired_tiger = None\<rparr>,
     mdc_log = \<lparr>slc_destination = ''file'', slc_path = [], slc_append = True, slc_time_format = []\<rparr>,
     mdc_process = \<lparr>pmc_fork = False, pmc_pid_file = []\<rparr>,
     mdc_replication = None, mdc_sharding = None, mdc_security = None, mdc_profiling = None, mdc_parameters = []\<rparr>"

definition empty_replication :: replication_config where
  "empty_replication = \<lparr>rpc_name = [], rpc_oplog_mb = 0, rpc_majority = False\<rparr>"

definition or_empty_replication :: "replication_config option \<Rightarrow> replication_config" where
  "or_empty_replication r = (case r of None \<Rightarrow> empty_replication | Some x \<Rightarrow> x)"

definition legacy_bool :: "string \<Rightarrow> bool" where
  "legacy_bool v = (v = ''true'' \<or> v = ''1'')"

definition legacy_setting :: "string \<Rightarrow> string \<Rightarrow> mongod_config \<Rightarrow> mongod_config" where
  "legacy_setting key v c =
     (if key = ''port'' then (case atoi v of None \<Rightarrow> c | Some p \<Rightarrow> c\<lparr>mdc_net := (mdc_net c)\<lparr>nc_port := p\<rparr>\<rparr>)
      else if key = ''bind_ip'' \<or> key = ''bindIp'' then c\<lparr>mdc_net := (mdc_net c)\<lparr>nc_bind_ip := v\<rparr>\<rparr>
      else if key = ''dbpath'' then c\<lparr>mdc_storage := (mdc_storage c)\<lparr>stc_db_path := v\<rparr>\<rparr>
      else if key = ''logpath'' then c\<lparr>mdc_log := (mdc_log c)\<lparr>slc_path := v\<rparr>\<rparr>
      else if key = ''fork'' then c\<lparr>mdc_process := (mdc_process c)\<lparr>pmc_fork := legacy_bool v\<rparr>\<rparr>
      else if key = ''pidfilepath'' then c\<lparr>mdc_process := (mdc_process c)\<lparr>pmc_pid_file := v\<rparr>\<rparr>
      else if key = ''replSet'' then
        c\<lparr>mdc_replication := Some ((or_empty_replication (mdc_replication c))\<lparr>rpc_name := v\<rparr>)\<rparr>
      else if key = ''journal'' then c\<lparr>mdc_storage := (mdc_storage c)\<lparr>stc_journal_enabled := legacy_bool v\<rparr>\<rparr>
      else if key = ''storageEngine'' then c\<lparr>mdc_storage := (mdc_storage c)\<lparr>stc_engine := v\<rparr>\<rparr>
      else c)"

definition legacy_line :: "string \<Rightarrow> mongod_config \<Rightarrow> mongod_config" where
  "legacy_line raw c = (let line = trim_space raw in
     if line = [] \<or> has_prefix line ''#'' then c
     else case split_first CHR ''='' line of
       None \<Rightarrow> c
     | Some (k, v) \<Rightarrow> legacy_setting (trim_space k) (trim_space v) c)"

text \<open>The lines of \<^verbatim>\<open>bufio.Scanner\<close>, whose buffer holds 65536 bytes; a line that fills it is an error.\<close>

definition scan_limit :: nat where "scan_limit = 65536"

definition scan_lines :: "string \<Rightarrow> string list res" where
  "scan_lines s = (let ls = split_on (CHR 0x0A) s in
     if list_ex (\<lambda>l. scan_limit \<le> length l) ls then Err ''bufio.Scanner: token too long''
     else Ok (if last ls = [] then butlast ls else ls))"

definition parse_legacy_config :: "string \<Rightarrow> mongod_config res" where
  "parse_legacy_config content = (case scan_lines content of
     Inl e \<Rightarrow> Err (wrapf ''failed to scan legacy config'' e)
   | Inr ls \<Rightarrow> Ok (fold legacy_line ls legacy_defaults))"

subsection \<open>Merging\<close>

text \<open>
  The pointers and the map that \<^verbatim>\<open>merged\<close> shares with \<^verbatim>\<open>base\<close> are written through it; \<^verbatim>\<open>base\<close> is dropped by the only
  caller, so the function gives the merged configuration. The order in which the parameters are put does not show in a map.
\<close>

definition merge_wired_tiger :: "wired_tiger_config option \<Rightarrow> wired_tiger_config option \<Rightarrow> wired_tiger_config option" where
  "merge_wired_tiger base custom = (case custom of
     None \<Rightarrow> base
   | Some c \<Rightarrow>
       let b = (case base of None \<Rightarrow> \<lparr>wt_cache_size_gb = 0, wt_block_compressor = [], wt_prefix_compression = False\<rparr> | Some b \<Rightarrow> b);
         b1 = (if wt_cache_size_gb c > 0 then b\<lparr>wt_cache_size_gb := wt_cache_size_gb c\<rparr> else b) in
       Some (if wt_block_compressor c \<noteq> [] then b1\<lparr>wt_block_compressor := wt_block_compressor c\<rparr> else b1))"

definition merge_replication :: "replication_config option \<Rightarrow> replication_config option \<Rightarrow> replication_config option" where
  "merge_replication base custom = (case custom of
     None \<Rightarrow> base
   | Some c \<Rightarrow> if rpc_oplog_mb c > 0 then Some ((or_empty_replication base)\<lparr>rpc_oplog_mb := rpc_oplog_mb c\<rparr>) else base)"

definition custom_or :: "'a option \<Rightarrow> 'a option \<Rightarrow> 'a option" where
  "custom_or custom base = (case custom of None \<Rightarrow> base | Some x \<Rightarrow> Some x)"

definition merge_net :: "net_config \<Rightarrow> net_config \<Rightarrow> net_config" where
  "merge_net base custom = base\<lparr>nc_tls := custom_or (nc_tls custom) (nc_tls base),
     nc_max_incoming := (if nc_max_incoming custom > 0 then nc_max_incoming custom else nc_max_incoming base)\<rparr>"

definition merge_custom_settings :: "mongod_config \<Rightarrow> mongod_config \<Rightarrow> mongod_config" where
  "merge_custom_settings base custom = base\<lparr>
     mdc_parameters := fold (\<lambda>(k, v). mput k v) (mdc_parameters custom) (mdc_parameters base),
     mdc_profiling := custom_or (mdc_profiling custom) (mdc_profiling base),
     mdc_security := custom_or (mdc_security custom) (mdc_security base),
     mdc_net := merge_net (mdc_net base) (mdc_net custom),
     mdc_storage := (mdc_storage base)\<lparr>stc_wired_tiger :=
       merge_wired_tiger (stc_wired_tiger (mdc_storage base)) (stc_wired_tiger (mdc_storage custom))\<rparr>,
     mdc_replication := merge_replication (mdc_replication base) (mdc_replication custom)\<rparr>"

subsection \<open>Importing a file\<close>

text \<open>The first line that is one or the other decides.\<close>

definition line_format :: "string \<Rightarrow> string option" where
  "line_format raw = (let line = trim_space raw in
     if line = [] \<or> has_prefix line ''#'' then None
     else if CHR '':'' \<in> set line \<and> CHR ''='' \<notin> set line then Some ''yaml''
     else if CHR ''='' \<in> set line \<and> CHR '':'' \<notin> set line then Some ''legacy''
     else None)"

definition detect_config_format :: "string \<Rightarrow> string" where
  "detect_config_format s = (case List.map_filter line_format (split_on (CHR 0x0A) s) of [] \<Rightarrow> ''yaml'' | f # _ \<Rightarrow> f)"

definition import_config :: "conf_yaml \<Rightarrow> string \<Rightarrow> string \<Rightarrow> config_paths \<Rightarrow> mongod_config res" where
  "import_config cy content node_type paths =
     (if detect_config_format content = ''yaml'' \<and> node_type = ''mongos''
      then Err ''mongos config import not yet supported in this function''
      else case (if detect_config_format content = ''yaml'' then parse_mongo_config cy content else parse_legacy_config content) of
        Inl e \<Rightarrow> Err (wrapf ''failed to parse existing config'' e)
      | Inr existing \<Rightarrow> Ok (merge_custom_settings (generate_mup_config existing paths) existing))"

section \<open>What an import keeps of a configuration\<close>

lemma mput_same: "mget m k = Some v \<Longrightarrow> mput k v m = m"
  by (induction m) (auto split: if_splits)

lemma fold_mput_same: "(\<And>k v. (k, v) \<in> set ps \<Longrightarrow> mget m k = Some v) \<Longrightarrow> fold (\<lambda>(k, v). mput k v) ps m = m"
  by (induction ps) (auto simp: mput_same)

lemma merge_same [simp]:
  "merge_wired_tiger w w = w" "merge_replication r r = r" "custom_or x x = x" "merge_net n n = n"
  by (auto simp: merge_wired_tiger_def merge_replication_def custom_or_def or_empty_replication_def merge_net_def Let_def
      split: option.splits)

text \<open>
  The configuration that is generated is a copy of the existing one, so merging the custom settings into it changes nothing:
  what is kept of them is what the copy keeps.
\<close>

lemma merge_is_idle:
  "gomap_ok (mdc_parameters e) \<Longrightarrow> merge_custom_settings (generate_mup_config e p) e = generate_mup_config e p"
  by (simp add: merge_custom_settings_def generate_mup_config_def fold_mput_same gomap_ok_def)

lemma import_config_keeps:
  assumes "import_config cy content ty p = Ok c"
  obtains e where "c = merge_custom_settings (generate_mup_config e p) e"
    "(if detect_config_format content = ''yaml'' then parse_mongo_config cy content else parse_legacy_config content) = Ok e"
  using assms unfolding import_config_def by (auto split: if_splits sum.splits)

lemma imported_config_runs:
  assumes "import_config cy content ty p = Ok c"
  shows "stc_db_path (mdc_storage c) = cp_data_dir p \<and> slc_path (mdc_log c) = cp_log_path p \<and>
    mdc_process c = \<lparr>pmc_fork = False, pmc_pid_file = []\<rparr> \<and> slc_append (mdc_log c) \<and> slc_destination (mdc_log c) \<noteq> []"
  by (rule import_config_keeps [OF assms])
    (simp add: merge_custom_settings_def generate_mup_config_def mup_log_def)

end
