(* ===== verification/Import_Files.thy ===== *)
theory Import_Files imports Import_Config Operation_Exec Paths begin

text \<open>
  \<^verbatim>\<open>pkg/import/structure.go\<close> and \<^verbatim>\<open>topology_generator.go\<close>: the directories and links that an import makes around the
  data of a running cluster, and the topology it writes down.

  The builder reaches the machine through an executor, but makes and reads links itself. The working directory of the
  process and the order in which the map of data directories is walked are parameters.
\<close>

section \<open>The structure\<close>

record structure_config =
  sc_cluster_dir :: string
  sc_version :: string
  sc_data_dirs :: "(string, string) gomap"

abbreviation version_path :: "string \<Rightarrow> string \<Rightarrow> string" where
  "version_path dir version \<equiv> path_join [dir, ''v'' @ version]"

definition create_version_directories :: "'s host_exec \<Rightarrow> string \<Rightarrow> string \<Rightarrow> ('s, err option) prog" where
  "create_version_directories hx dir version = (let vd = version_path dir version in
     for_each (\<lambda>d. do {
         e \<leftarrow> hx_create_directory hx d 493;
         ret (map_option (wrapf (''failed to create directory '' @ d)) e) })
       [vd, path_join [vd, ''bin''], path_join [vd, ''conf''], path_join [vd, ''logs'']])"

text \<open>\<^verbatim>\<open>filepath.Abs\<close>\<close>

definition path_abs :: "string res \<Rightarrow> string \<Rightarrow> string res" where
  "path_abs cwd p = (if is_abs p then Ok (path_clean p) else map_sum id (\<lambda>d. path_join [d, p]) cwd)"

text \<open>The link is there already and points to the right place.\<close>

definition link_is :: "string \<Rightarrow> string \<Rightarrow> bool io" where
  "link_is path target = do {
     r \<leftarrow> os_lstat path;
     case r of
       Inr (FLink _) \<Rightarrow> do { t \<leftarrow> os_readlink path; ret (t = Inr target) }
     | _ \<Rightarrow> ret False }"

text \<open>What is at the path is removed first, if something was found there.\<close>

definition put_link :: "string \<Rightarrow> 's host_exec \<Rightarrow> string \<Rightarrow> string \<Rightarrow> bool \<Rightarrow> ('s, err option) prog" where
  "put_link what hx link target there = do {
     d \<leftarrow> (if there then hx_remove_file hx link else ret None);
     case d of
       Some x \<Rightarrow> ret (Some (wrapf (''failed to remove existing '' @ what) x))
     | None \<Rightarrow> do {
         s \<leftarrow> on_os (os_symlink target link);
         ret (map_option (\<lambda>x. wrapf (''failed to create '' @ what) (os_msg x)) s) } }"

definition create_data_symlink :: "'s host_exec \<Rightarrow> string res \<Rightarrow> string \<Rightarrow> string \<Rightarrow> string \<Rightarrow> ('s, err option) prog" where
  "create_data_symlink hx cwd data_dir node_id existing = do {
     e \<leftarrow> hx_create_directory hx data_dir 493;
     case e of
       Some x \<Rightarrow> ret (Some (wrapf ''failed to create data directory'' x))
     | None \<Rightarrow> let link = path_join [data_dir, node_id] in
       case path_abs cwd link of
         Inl x \<Rightarrow> ret (Some (wrapf ''failed to resolve symlink path'' x))
       | Inr abs_link \<Rightarrow> (case path_abs cwd existing of
           Inl x \<Rightarrow> ret (Some (wrapf ''failed to resolve existing data dir path'' x))
         | Inr abs_existing \<Rightarrow>
             if abs_link = abs_existing then ret None
             else do {
               found \<leftarrow> hx_file_exists hx link;
               case found of
                 Inl x \<Rightarrow> ret (Some (wrapf ''failed to check if symlink exists'' x))
               | Inr there \<Rightarrow> do {
                   right \<leftarrow> (if there then on_os (link_is link existing) else ret False);
                   if right then ret None else put_link ''symlink'' hx link existing there } }) }"

definition create_version_symlink :: "string \<Rightarrow> 's host_exec \<Rightarrow> string \<Rightarrow> string \<Rightarrow> ('s, err option) prog" where
  "create_version_symlink name hx dir version = (let link = path_join [dir, name] in do {
     found \<leftarrow> hx_file_exists hx link;
     case found of
       Inl x \<Rightarrow> ret (Some (wrapf (''failed to check if '' @ name @ '' symlink exists'') x))
     | Inr there \<Rightarrow> put_link (name @ '' symlink'') hx link (''v'' @ version) there })"

definition create_current_symlink :: "'s host_exec \<Rightarrow> string \<Rightarrow> string \<Rightarrow> ('s, err option) prog" where
  "create_current_symlink = create_version_symlink ''current''"

definition create_previous_symlink :: "'s host_exec \<Rightarrow> string \<Rightarrow> string \<Rightarrow> ('s, err option) prog" where
  "create_previous_symlink = create_version_symlink ''previous''"

definition setup_import_structure ::
  "'s host_exec \<Rightarrow> string res \<Rightarrow> ((string \<times> string) list \<Rightarrow> (string \<times> string) list) \<Rightarrow> structure_config \<Rightarrow> ('s, err option) prog" where
  "setup_import_structure hx cwd shuffle c = do {
     e \<leftarrow> create_version_directories hx (sc_cluster_dir c) (sc_version c);
     case e of
       Some x \<Rightarrow> ret (Some (wrapf ''failed to create version directories'' x))
     | None \<Rightarrow> do {
         e \<leftarrow> for_each (\<lambda>(i, d). do {
               e \<leftarrow> create_data_symlink hx cwd (path_join [sc_cluster_dir c, ''data'']) i d;
               ret (map_option (wrapf (''failed to create data symlink for '' @ i)) e) })
             (shuffle (sc_data_dirs c));
         case e of
           Some x \<Rightarrow> ret (Some x)
         | None \<Rightarrow> do {
             e \<leftarrow> create_current_symlink hx (sc_cluster_dir c) (sc_version c);
             ret (map_option (wrapf ''failed to create current symlink'') e) } } }"

definition import_node_conf_dir :: "string \<Rightarrow> string \<Rightarrow> string \<Rightarrow> string" where
  "import_node_conf_dir dir version i = path_join [dir, ''v'' @ version, ''conf'', i]"

definition import_node_log_path :: "string \<Rightarrow> string \<Rightarrow> string \<Rightarrow> string" where
  "import_node_log_path dir version i = path_join [dir, ''v'' @ version, ''logs'', i @ ''.log'']"

definition import_bin_dir :: "string \<Rightarrow> string \<Rightarrow> string" where
  "import_bin_dir dir version = path_join [dir, ''v'' @ version, ''bin'']"

definition import_version_dir :: "string \<Rightarrow> string \<Rightarrow> string" where
  "import_version_dir dir version = path_join [dir, ''v'' @ version]"

definition import_data_dir :: "string \<Rightarrow> string \<Rightarrow> string" where
  "import_data_dir dir i = path_join [dir, ''data'', i]"

text \<open>Looking for a file: an error counts as absence.\<close>

definition must_exist :: "'s host_exec \<Rightarrow> string \<Rightarrow> err \<Rightarrow> ('s, err option) prog" where
  "must_exist hx p message = do { r \<leftarrow> hx_file_exists hx p; ret (if r = Ok True then None else Some message) }"

definition validate_link :: "'s host_exec \<Rightarrow> string \<Rightarrow> string \<Rightarrow> ('s, err option) prog" where
  "validate_link hx link expected = do {
     e \<leftarrow> must_exist hx link (''data symlink does not exist: '' @ link);
     case e of
       Some x \<Rightarrow> ret (Some x)
     | None \<Rightarrow> do {
         r \<leftarrow> on_os (os_lstat link);
         case r of
           Inl x \<Rightarrow> ret (Some (wrapf ''failed to stat symlink'' (os_msg x)))
         | Inr (FLink _) \<Rightarrow> do {
             t \<leftarrow> on_os (os_readlink link);
             ret (case t of
               Inl x \<Rightarrow> Some (wrapf ''failed to read symlink'' (os_msg x))
             | Inr target \<Rightarrow> if target \<noteq> expected
                 then Some (''symlink points to wrong target: expected '' @ expected @ '', got '' @ target) else None) }
         | Inr _ \<Rightarrow> ret (Some (''expected symlink but found regular file/dir: '' @ link)) } }"

definition validate_structure ::
  "'s host_exec \<Rightarrow> ((string \<times> string) list \<Rightarrow> (string \<times> string) list) \<Rightarrow> structure_config \<Rightarrow> ('s, err option) prog" where
  "validate_structure hx shuffle c = (let vd = version_path (sc_cluster_dir c) (sc_version c) in do {
     e \<leftarrow> must_exist hx vd (''version directory does not exist: '' @ vd);
     case e of
       Some x \<Rightarrow> ret (Some x)
     | None \<Rightarrow> do {
         e \<leftarrow> for_each (\<lambda>d. must_exist hx (path_join [vd, d]) (''required directory does not exist: '' @ path_join [vd, d]))
             [''bin'', ''conf'', ''logs''];
         case e of
           Some x \<Rightarrow> ret (Some x)
         | None \<Rightarrow> do {
             e \<leftarrow> for_each (\<lambda>(i, d). validate_link hx (path_join [path_join [sc_cluster_dir c, ''data''], i]) d)
                 (shuffle (sc_data_dirs c));
             case e of
               Some x \<Rightarrow> ret (Some x)
             | None \<Rightarrow> must_exist hx (path_join [sc_cluster_dir c, ''current'']) ''current symlink does not exist'' } } })"

section \<open>The topology\<close>

text \<open>What discovery hands over.\<close>

record systemd_service =
  ss_name :: string
  ss_unit_file :: string
  ss_status :: string

record discovery_result =
  dr_auto :: bool
  dr_instances :: "mongo_instance list"
  dr_services :: "systemd_service list"

definition imported_mongos :: "mongo_instance \<Rightarrow> mongos_node" where
  "imported_mongos i = \<lparr>ms_host = mi_host i, ms_port = mi_port i, ms_deploy_dir = [], ms_log_dir = [], ms_config_dir = [],
     ms_runtime_config = None\<rparr>"

definition imported_config :: "mongo_instance \<Rightarrow> config_node" where
  "imported_config i = \<lparr>cs_host = mi_host i, cs_port = mi_port i, cs_replica_set = mi_replica_set i, cs_deploy_dir = [],
     cs_data_dir = [], cs_log_dir = [], cs_config_dir = [], cs_runtime_config = None\<rparr>"

definition imported_mongod :: "mongo_instance \<Rightarrow> mongod_node" where
  "imported_mongod i = \<lparr>md_host = mi_host i, md_port = mi_port i, md_replica_set = mi_replica_set i, md_priority = None,
     md_hidden = None, md_votes = None, md_deploy_dir = [], md_data_dir = [], md_log_dir = [], md_config_dir = [],
     md_runtime_config = None\<rparr>"

definition add_instance :: "mongo_instance \<Rightarrow> topology \<Rightarrow> topology" where
  "add_instance i t =
     (if mi_process_type i = ''mongos'' then t\<lparr>t_mongos := t_mongos t @ [imported_mongos i]\<rparr>
      else if mi_process_type i = ''configsvr'' then t\<lparr>t_config_svr := t_config_svr t @ [imported_config i]\<rparr>
      else t\<lparr>t_mongod := t_mongod t @ [imported_mongod i]\<rparr>)"

definition imported_global :: "string \<Rightarrow> global_config" where
  "imported_global dir = \<lparr>g_user = ''mongodb'', g_ssh_port = 0, g_deploy_dir = dir, g_data_dir = path_join [dir, ''data''],
     g_log_dir = path_join [dir, ''current'', ''logs''], g_config_dir = path_join [dir, ''current'', ''conf''],
     g_runtime_config = None, g_systemd_config = None, g_os_config = None, g_resource_control = None\<rparr>"

definition generate_topology :: "discovery_result option \<Rightarrow> string \<Rightarrow> topology res" where
  "generate_topology d dir = (case d of
     None \<Rightarrow> Err ''no instances to generate topology from''
   | Some r \<Rightarrow> if dr_instances r = [] then Err ''no instances to generate topology from''
       else Ok (fold add_instance (dr_instances r)
         \<lparr>t_global = imported_global dir, t_mongod = [], t_mongos = [], t_config_svr = [], t_replica_sets = []\<rparr>))"

text \<open>\<^verbatim>\<open>yaml.Marshal\<close> of a topology is the first parameter.\<close>

definition save_topology :: "(topology \<Rightarrow> fcontent res) \<Rightarrow> topology \<Rightarrow> string \<Rightarrow> err option io" where
  "save_topology yaml t path = do {
     e \<leftarrow> os_mkdir_all (path_dir path);
     case e of
       Some x \<Rightarrow> ret (Some (wrapf (''failed to create directory '' @ path_dir path) (os_msg x)))
     | None \<Rightarrow> (case yaml t of
         Inl x \<Rightarrow> ret (Some (wrapf ''failed to marshal topology to YAML'' x))
       | Inr data \<Rightarrow> do {
           e \<leftarrow> os_write_file path data;
           ret (map_option (\<lambda>x. wrapf ''failed to write topology file'' (os_msg x)) e) }) }"

definition generate_and_save :: "(topology \<Rightarrow> fcontent res) \<Rightarrow> discovery_result option \<Rightarrow> string \<Rightarrow> err option io" where
  "generate_and_save yaml d dir = (case generate_topology d dir of
     Inl x \<Rightarrow> ret (Some x)
   | Inr t \<Rightarrow> save_topology yaml t (path_join [dir, ''topology.yaml'']))"

section \<open>No data is moved\<close>

text \<open>The calls of the builder on the local machine.\<close>

definition link_made :: "string \<Rightarrow> string \<Rightarrow> bool \<Rightarrow> world \<times> 's \<Rightarrow> err option \<Rightarrow> world \<times> 's \<Rightarrow> bool" where
  "link_made link target P s e s' = (snd s' = snd s \<and> kept_but {link} (w_fs (fst s)) (w_fs (fst s'))
     \<and> (e = None \<longrightarrow> P \<longrightarrow> mget (w_fs (fst s')) link = Some (FLink target)))"

lemma wp_local_mkdir:
  "(\<And>e w'. kept_but {} (w_fs w) (w_fs w') \<Longrightarrow> Q e (w', s)) \<Longrightarrow> wp (hx_create_directory (local_executor mc) p m) Q (w, s)"
  unfolding local_executor_def by (simp add: wp_on_os local_create_directory_def) (rule wp_mkdir_all, auto simp: kept_but_def)

lemma wp_local_exists:
  "(\<And>r w'. w_fs w' = w_fs w \<Longrightarrow> Q r (w', s)) \<Longrightarrow> wp (hx_file_exists (local_executor mc) p) Q (w, s)"
  unfolding local_executor_def by (simp add: wp_on_os local_file_exists_def) (rule wp_stat, auto)

lemma wp_local_remove:
  "path_clean p = p \<Longrightarrow> (\<And>e w'. kept_but {p} (w_fs w) (w_fs w') \<Longrightarrow> Q e (w', s)) \<Longrightarrow>
   wp (hx_remove_file (local_executor mc) p) Q (w, s)"
  unfolding local_executor_def
  by (simp add: wp_on_os os_remove_def Let_def)
    (auto simp: kept_but_def split: option.split)

lemma wp_symlink:
  assumes clean: "path_clean p = p"
    and Q: "\<And>e w'. kept_but {p} (w_fs w) (w_fs w') \<Longrightarrow> (e = None \<Longrightarrow> mget (w_fs w') p = Some (FLink t)) \<Longrightarrow> Q e w'"
  shows "wp (os_symlink t p) Q w"
proof (rule wpI)
  fix e w'
  assume "run_state (os_symlink t p) w = (e, w')"
  then show "Q e w'"
    by (intro Q) (use clean in \<open>auto simp: os_symlink_def Let_def kept_but_def split: option.splits if_splits\<close>)
qed

lemma wp_link_is:
  assumes clean: "path_clean p = p" and Q: "\<And>b w'. w_fs w' = w_fs w \<Longrightarrow> (b \<Longrightarrow> mget (w_fs w) p = Some (FLink t)) \<Longrightarrow> Q b w'"
  shows "wp (link_is p t) Q w"
proof (rule wpI)
  fix b w'
  assume "run_state (link_is p t) w = (b, w')"
  then show "Q b w'"
    by (intro Q) (use clean in \<open>auto simp: link_is_def os_lstat_def os_readlink_def split: option.splits fnode.splits sum.splits if_splits\<close>)
qed

text \<open>One link.\<close>

lemma put_link_made:
  assumes "path_clean link = link" "kept_but {link} (w_fs w) (w_fs w1)"
  shows "wp (put_link what (local_executor mc) link target there) (link_made link target P (w, h)) (w1, h)"
proof -
  have put: "wp (do { x \<leftarrow> on_os (os_symlink target link); ret (map_option f x) }) (link_made link target P (w, h)) (w2, h)"
    if k: "kept_but {link} (w_fs w) (w_fs w2)" for w2 and f :: "os_err \<Rightarrow> err"
    unfolding wp_bind wp_on_os
  proof (rule wp_symlink [OF assms(1)], goal_cases)
    case (1 e w3)
    then show ?case using kept_but_trans [OF k 1(1)] by (simp add: link_made_def)
  qed
  show ?thesis
  proof (cases there)
    case True
    show ?thesis unfolding put_link_def if_P [OF True] wp_bind [of "hx_remove_file _ _"]
    proof (rule wp_local_remove [OF assms(1)], goal_cases)
      case (1 e w2)
      note k = kept_but_trans [OF assms(2) 1, of "{link}"]
      then show ?case using put [of w2] by (cases e) (simp_all add: link_made_def)
    qed
  next
    case False
    then show ?thesis using put [OF assms(2)] by (simp add: put_link_def)
  qed
qed

lemma data_symlink_made:
  assumes link: "path_clean link = link" "is_abs link" "path_join [dd, i] = link"
  shows "wp (create_data_symlink (local_executor mc) cwd dd i d) (link_made link d (path_abs cwd d \<noteq> Ok link) (w, h)) (w, h)"
proof -
  let ?Q = "link_made link d (path_abs cwd d \<noteq> Ok link) (w, h)"
  have replaced: "wp (do {
       right \<leftarrow> (if there then on_os (link_is link d) else ret False);
       if right then ret None else put_link ''symlink'' (local_executor mc) link d there }) ?Q (w1, h)"
    if k: "kept_but {link} (w_fs w) (w_fs w1)" for there w1
  proof (cases there)
    case True
    show ?thesis unfolding if_P [OF True] wp_bind wp_on_os
    proof (rule wp_link_is [OF link(1)], goal_cases)
      case (1 b w2)
      then show ?case using put_link_made [OF link(1), of w w2] k by (cases b) (simp_all add: link_made_def)
    qed
  next
    case False
    then show ?thesis using put_link_made [OF link(1) k] by simp
  qed
  have rest: "wp (do {
       found \<leftarrow> hx_file_exists (local_executor mc) link;
       case found of
         Inl x \<Rightarrow> ret (Some (wrapf ''failed to check if symlink exists'' x))
       | Inr there \<Rightarrow> do {
           right \<leftarrow> (if there then on_os (link_is link d) else ret False);
           if right then ret None else put_link ''symlink'' (local_executor mc) link d there } }) ?Q (w1, h)"
    if k: "kept_but {link} (w_fs w) (w_fs w1)" for w1
    unfolding wp_bind [of "hx_file_exists _ _"]
  proof (rule wp_local_exists, goal_cases)
    case (1 found w2)
    then show ?case using k replaced [of w2] by (cases found) (simp_all add: link_made_def del: wp_bind)
  qed
  show ?thesis
    unfolding create_data_symlink_def link(3) wp_bind [of "hx_create_directory _ _ _"]
  proof (rule wp_local_mkdir, goal_cases)
    case (1 e w1)
    then have k: "kept_but {link} (w_fs w) (w_fs w1)" by (auto simp: kept_but_def)
    have "path_abs cwd link = Ok link" by (simp add: path_abs_def link)
    then show ?case
      using rest [OF k] k by (auto simp: link_made_def Let_def simp del: wp_bind split: option.split sum.split)
  qed
qed

text \<open>A loop that makes links, each of its own.\<close>

lemma links_made:
  assumes "\<And>x w. x \<in> set xs \<Longrightarrow> wp (f x) (link_made (lk x) (tg x) (P x) (w, h)) (w, h)" "distinct (map lk xs)"
  shows "wp (for_each f xs) (\<lambda>e s'. snd s' = h \<and> kept_but (lk ` set xs) (w_fs w) (w_fs (fst s')) \<and>
    (e = None \<longrightarrow> (\<forall>x \<in> set xs. P x \<longrightarrow> mget (w_fs (fst s')) (lk x) = Some (FLink (tg x))))) (w, h)"
  using assms
proof (induction xs arbitrary: w)
  case (Cons x xs)
  show ?case unfolding for_each.simps wp_bind
  proof (rule wp_mono [OF Cons.prems(1) [of x]], simp, goal_cases)
    case (1 e s1)
    obtain w1 where s1: "s1 = (w1, h)" using 1 by (cases s1) (simp add: link_made_def)
    have k1: "kept_but {lk x} (w_fs w) (w_fs w1)"
      and m1: "e = None \<Longrightarrow> P x \<Longrightarrow> mget (w_fs w1) (lk x) = Some (FLink (tg x))" using 1 by (simp_all add: link_made_def s1)
    show ?case
    proof (cases e)
      case None
      have IH: "wp (for_each f xs) (\<lambda>e s'. snd s' = h \<and> kept_but (lk ` set xs) (w_fs w1) (w_fs (fst s')) \<and>
          (e = None \<longrightarrow> (\<forall>x \<in> set xs. P x \<longrightarrow> mget (w_fs (fst s')) (lk x) = Some (FLink (tg x))))) (w1, h)"
        by (rule Cons.IH) (use Cons.prems in auto)
      have "wp (for_each f xs) (\<lambda>e s'. snd s' = h \<and> kept_but (lk ` set (x # xs)) (w_fs w) (w_fs (fst s')) \<and>
          (e = None \<longrightarrow> (\<forall>x \<in> set (x # xs). P x \<longrightarrow> mget (w_fs (fst s')) (lk x) = Some (FLink (tg x))))) (w1, h)"
      proof (rule wp_mono [OF IH], goal_cases)
        case (1 e2 s2)
        then have k2: "kept_but (lk ` set xs) (w_fs w1) (w_fs (fst s2))" by (elim conjE)
        have "kept_but (lk ` set (x # xs)) (w_fs w) (w_fs (fst s2))" by (rule kept_but_trans [OF k1 k2]) simp
        moreover have "mget (w_fs (fst s2)) (lk x) = Some (FLink (tg x))" if "P x"
          using k2 by (rule kept_but_get) (use Cons.prems(2) m1 [OF None that] in simp_all)
        ultimately show ?case using 1 by simp
      qed
      then show ?thesis unfolding None s1 option.case .
    qed (use k1 in \<open>simp add: s1 kept_but_def\<close>)
  qed
qed simp

lemma version_directories_made:
  "wp (create_version_directories (local_executor mc) dir v) (\<lambda>e s'. snd s' = h \<and> kept_but {} (w_fs w) (w_fs (fst s'))) (w, h)"
proof -
  have step: "wp (for_each (\<lambda>d. do { e \<leftarrow> hx_create_directory (local_executor mc) d 493; ret (map_option (f d) e) }) ds)
      (\<lambda>e s'. snd s' = h \<and> kept_but {} (w_fs w) (w_fs (fst s'))) (w1, h)"
    if "kept_but {} (w_fs w) (w_fs w1)" for f :: "string \<Rightarrow> err \<Rightarrow> err" and ds w1
    using that
  proof (induction ds arbitrary: w1)
    case (Cons d ds)
    show ?case unfolding for_each.simps wp_bind
    proof (rule wp_local_mkdir, goal_cases)
      case (1 e w2)
      note k = kept_but_trans [OF Cons.prems 1, of "{}"]
      then show ?case using Cons.IH [of w2] by (cases e) simp_all
    qed
  qed simp
  show ?thesis unfolding create_version_directories_def Let_def by (rule step) simp
qed

lemma current_link_made:
  assumes "path_clean link = link" "path_join [dir, ''current''] = link"
  shows "wp (create_current_symlink (local_executor mc) dir v) (link_made link (''v'' @ v) True (w, h)) (w, h)"
  unfolding create_current_symlink_def create_version_symlink_def Let_def assms(2) wp_bind
proof (rule wp_local_exists, goal_cases)
  case (1 found w1)
  then show ?case
    using put_link_made [OF assms(1), of w w1] by (cases found) (simp_all add: link_made_def)
qed

text \<open>
  C29. An import moves no data. Whatever fails on the way, in whatever order the data directories are walked: every file and
  directory that was there is there as it was, but for the links that the import makes (the link \<^verbatim>\<open>current\<close> and one for each
  node in the data directory of the cluster). When it reports success these links exist: each node's link points to the data
  directory it had (unless that is where the link would be), and \<^verbatim>\<open>current\<close> points to the directory of the version.
\<close>
theorem import_moves_no_data:
  assumes cs: "comps_ok cs" and c: "sc_cluster_dir c = abs_path cs"
    and nodes: "\<And>i d. (i, d) \<in> set (sc_data_dirs c) \<Longrightarrow> comp_ok i"
    and order: "set (shuffle (sc_data_dirs c)) = set (sc_data_dirs c)" "distinct (map fst (shuffle (sc_data_dirs c)))"
  shows "wp (setup_import_structure (local_executor mc) cwd shuffle c) (\<lambda>e (w', h').
      h' = h \<and>
      (\<forall>q n. q \<noteq> abs_path (cs @ [''current'']) \<and> (\<forall>(i, d) \<in> set (sc_data_dirs c). q \<noteq> abs_path (cs @ [''data'', i])) \<longrightarrow>
         mget (w_fs w) q = Some n \<longrightarrow> mget (w_fs w') q = Some n) \<and>
      (e = None \<longrightarrow> mget (w_fs w') (abs_path (cs @ [''current''])) = Some (FLink (''v'' @ sc_version c)) \<and>
         (\<forall>(i, d) \<in> set (sc_data_dirs c). path_abs cwd d \<noteq> Ok (abs_path (cs @ [''data'', i])) \<longrightarrow>
            mget (w_fs w') (abs_path (cs @ [''data'', i])) = Some (FLink d)))) (w, h)"
proof -
  let ?cur = "abs_path (cs @ [''current''])" and ?lk = "\<lambda>(i, d). abs_path (cs @ [''data'', i])"
  let ?xs = "shuffle (sc_data_dirs c)"
  let ?P = "\<lambda>(i, d). path_abs cwd d \<noteq> Ok (abs_path (cs @ [''data'', i]))"
  let ?Q = "\<lambda>e s'. snd s' = h \<and> kept_but (insert ?cur (?lk ` set (sc_data_dirs c))) (w_fs w) (w_fs (fst s')) \<and>
    (e = None \<longrightarrow> mget (w_fs (fst s')) ?cur = Some (FLink (''v'' @ sc_version c)) \<and>
      (\<forall>x \<in> set ?xs. ?P x \<longrightarrow> mget (w_fs (fst s')) (?lk x) = Some (FLink (snd x))))"
  have parts: "comp_ok ''data''" "comp_ok ''current''" by (simp_all add: comp_ok_def dot_def dotdot_def)
  then have ok: "comps_ok (cs @ [''data''])" "comps_ok (cs @ [''current''])" using cs by (simp_all add: comps_ok_def)
  have okn: "comps_ok (cs @ [''data'', i])" if "(i, d) \<in> set (sc_data_dirs c)" for i d
    using cs parts nodes [OF that] by (simp add: comps_ok_def)
  have join: "path_join [abs_path cs, ''data''] = abs_path (cs @ [''data''])" "path_join [abs_path cs, ''current''] = ?cur"
    using cs parts by (simp_all add: path_join_abs comps_ok_def)
  have joinn: "path_join [abs_path (cs @ [''data'']), i] = abs_path (cs @ [''data'', i])" if "(i, d) \<in> set (sc_data_dirs c)" for i d
    using path_join_abs [OF ok(1), of "[i]"] nodes [OF that] by (simp add: comps_ok_def)
  have dist: "distinct (map ?lk ?xs)"
    unfolding distinct_map
  proof (rule conjI)
    show "distinct ?xs" using order(2) by (simp add: distinct_map)
    show "inj_on ?lk (set ?xs)"
    proof (rule inj_onI, clarify)
      fix i d j d'
      assume "(i, d) \<in> set ?xs" "(j, d') \<in> set ?xs" "abs_path (cs @ [''data'', i]) = abs_path (cs @ [''data'', j])"
      then show "i = j \<and> d = d'" using okn order eq_key_imp_eq_value [OF order(2)] by (auto simp: comps_ok_def)
    qed
  qed
  have absolute: "is_abs (abs_path ds)" for ds by (simp add: is_abs_def abs_path_def)
  have apart: "?cur \<notin> ?lk ` set (sc_data_dirs c)" using okn ok by auto
  have one: "wp (do { e \<leftarrow> create_data_symlink (local_executor mc) cwd (path_join [sc_cluster_dir c, ''data'']) (fst x) (snd x);
        ret (map_option (wrapf (''failed to create data symlink for '' @ fst x)) e) }) (link_made (?lk x) (snd x) (?P x) (w1, h)) (w1, h)"
    if "x \<in> set ?xs" for x w1
  proof -
    obtain i d where x: "x = (i, d)" by (cases x)
    then have m: "(i, d) \<in> set (sc_data_dirs c)" using that order by simp
    show ?thesis unfolding c join x fst_conv snd_conv split wp_bind
      by (rule wp_mono [OF data_symlink_made [OF _ _ joinn [OF m]]]) (use okn [OF m] in \<open>simp_all add: link_made_def absolute\<close>)
  qed
  have "wp (setup_import_structure (local_executor mc) cwd shuffle c) ?Q (w, h)"
    unfolding setup_import_structure_def wp_bind [of "create_version_directories _ _ _"]
  proof (rule wp_mono [OF version_directories_made], goal_cases)
    case (1 e s1)
    obtain w1 where s1: "s1 = (w1, h)" using 1 by (cases s1) simp
    have k1: "kept_but {} (w_fs w) (w_fs w1)" using 1 s1 by simp
    show ?case
    proof (cases e)
      case (Some x)
      then show ?thesis using k1 by (simp add: s1 kept_but_def)
    next
      case None
      show ?thesis unfolding None option.case s1 wp_bind [of "for_each _ _"] case_prod_unfold
      proof (rule wp_mono [OF links_made [where lk = ?lk and tg = snd and P = ?P, OF one dist, unfolded case_prod_unfold]], goal_cases)
        case (2 e s2)
        obtain w2 where s2: "s2 = (w2, h)" using 2 by (cases s2) simp
        have k2: "kept_but (?lk ` set (sc_data_dirs c)) (w_fs w) (w_fs w2)"
          by (rule kept_but_trans [OF k1, where M = "?lk ` set ?xs"]) (use 2 s2 order in \<open>simp_all add: case_prod_unfold\<close>)
        have m2: "mget (w_fs w2) (?lk x) = Some (FLink (snd x))" if "e = None" "x \<in> set ?xs" "?P x" for x
          using 2 s2 that by (simp add: case_prod_unfold)
        show ?case
        proof (cases e)
          case (Some x)
          then show ?thesis using k2 by (auto simp: s2 kept_but_def case_prod_unfold)
        next
          case None
          show ?thesis unfolding None option.case s2 wp_bind c
          proof (rule wp_mono [OF current_link_made [OF _ join(2)]], goal_cases)
            case (2 e s3)
            have k3: "kept_but {?cur} (w_fs w2) (w_fs (fst s3))" using 2 by (simp add: link_made_def)
            have "mget (w_fs (fst s3)) (?lk x) = Some (FLink (snd x))" if "x \<in> set ?xs" "?P x" for x
              using k3
            proof (rule kept_but_get)
              show "?lk x \<notin> {?cur}" using imageI [of x "set ?xs" ?lk] that(1) apart order(1) by (metis singletonD)
            qed (rule m2 [OF None that])
            moreover have "kept_but (insert ?cur (?lk ` set (sc_data_dirs c))) (w_fs w) (w_fs (fst s3))"
              by (rule kept_but_trans [OF k2 k3]) blast
            ultimately show ?case using 2 by (cases e) (auto simp: link_made_def case_prod_unfold)
          qed (use ok in simp)
        qed
      qed simp
    qed
  qed
  then show ?thesis
    unfolding case_prod_unfold kept_but_def order(1) by (rule wp_mono) blast
qed

definition example_structure :: structure_config where
  "example_structure = \<lparr>sc_cluster_dir = abs_path [''m''], sc_version = ''7.0.5'',
     sc_data_dirs = [(''h-1'', ''/var/lib/db'')]\<rparr>"

lemma import_moves_no_data_witness:
  "wp (setup_import_structure (local_executor silent_machine) (Ok ''/'') rev example_structure) (\<lambda>e (w', h').
      e = None \<longrightarrow> mget (w_fs w') (abs_path [''m'', ''data'', ''h-1'']) = Some (FLink ''/var/lib/db'')) (example_world, ())"
proof -
  have "path_abs (Ok ''/'') ''/var/lib/db'' \<noteq> Ok (abs_path [''m'', ''data'', ''h-1''])"
    by (simp add: path_abs_def is_abs_def abs_path_def path_clean_def dot_def dotdot_def)
  then show ?thesis
    using import_moves_no_data [where cs = "[''m'']" and c = example_structure and shuffle = rev and mc = silent_machine
      and cwd = "Ok ''/''" and w = example_world and h = "()"]
    by (auto simp: example_structure_def comps_ok_def comp_ok_def dot_def dotdot_def elim!: wp_mono)
qed

section \<open>The topology that is written down\<close>

lemma instances_added:
  "fold add_instance is t = t\<lparr>
     t_mongos := t_mongos t @ map imported_mongos (filter (\<lambda>i. mi_process_type i = ''mongos'') is),
     t_config_svr := t_config_svr t @ map imported_config (filter (\<lambda>i. mi_process_type i = ''configsvr'') is),
     t_mongod := t_mongod t @ map imported_mongod (filter (\<lambda>i. mi_process_type i \<notin> {''mongos'', ''configsvr''}) is)\<rparr>"
  by (induction "is" arbitrary: t) (auto simp: add_instance_def)

lemma generated_topology:
  assumes "generate_topology (Some r) dir = Ok t"
  shows "t_global t = imported_global dir"
    "mset (all_addrs t) = mset (map (\<lambda>i. (mi_host i, mi_port i)) (dr_instances r))"
    "set (t_config_svr t) = imported_config ` {i \<in> set (dr_instances r). mi_process_type i = ''configsvr''}"
    "dr_instances r \<noteq> []"
proof -
  have t: "t = fold add_instance (dr_instances r)
      \<lparr>t_global = imported_global dir, t_mongod = [], t_mongos = [], t_config_svr = [], t_replica_sets = []\<rparr>"
    and ne: "dr_instances r \<noteq> []"
    using assms by (auto simp: generate_topology_def split: if_splits)
  show "t_global t = imported_global dir"
    "set (t_config_svr t) = imported_config ` {i \<in> set (dr_instances r). mi_process_type i = ''configsvr''}" "dr_instances r \<noteq> []"
    using ne by (simp_all add: t instances_added)
  have addrs: "all_addrs (fold add_instance is u) = map (\<lambda>n. (md_host n, md_port n)) (t_mongod u)
        @ map (\<lambda>i. (mi_host i, mi_port i)) (filter (\<lambda>i. mi_process_type i \<notin> {''mongos'', ''configsvr''}) is)
      @ map (\<lambda>n. (ms_host n, ms_port n)) (t_mongos u)
        @ map (\<lambda>i. (mi_host i, mi_port i)) (filter (\<lambda>i. mi_process_type i = ''mongos'') is)
      @ map (\<lambda>n. (cs_host n, cs_port n)) (t_config_svr u)
        @ map (\<lambda>i. (mi_host i, mi_port i)) (filter (\<lambda>i. mi_process_type i = ''configsvr'') is)" for "is" u
    by (simp add: instances_added all_addrs_def imported_mongod_def imported_mongos_def imported_config_def)
  have parts: "mset (map f (filter (\<lambda>i. mi_process_type i \<notin> {''mongos'', ''configsvr''}) is))
      + mset (map f (filter (\<lambda>i. mi_process_type i = ''mongos'') is))
      + mset (map f (filter (\<lambda>i. mi_process_type i = ''configsvr'') is)) = mset (map f is)"
    for f :: "mongo_instance \<Rightarrow> string \<times> int" and "is"
    by (induction "is") auto
  show "mset (all_addrs t) = mset (map (\<lambda>i. (mi_host i, mi_port i)) (dr_instances r))"
    by (subst parts [symmetric]) (simp only: t addrs topology.simps map_append list.map append_Nil append.right_neutral mset_append add.assoc)
qed

text \<open>
  What an import writes down is a topology that the program accepts, with one node for each instance, when the instances have
  a host, a port and, for config servers, a replica set, and no two the same address.
\<close>

theorem imported_topology_valid:
  assumes t: "generate_topology (Some r) dir = Ok t" and dir: "dir \<noteq> []"
    and "\<And>i. i \<in> set (dr_instances r) \<Longrightarrow> mi_host i \<noteq> [] \<and> 0 < mi_port i \<and>
      (mi_process_type i = ''configsvr'' \<longrightarrow> mi_replica_set i \<noteq> [])"
    and "distinct (map (\<lambda>i. (mi_host i, mi_port i)) (dr_instances r))"
  shows "fst (topo_validate t) = None"
proof -
  note g = generated_topology [OF t]
  have addrs: "set (all_addrs t) = (\<lambda>i. (mi_host i, mi_port i)) ` set (dr_instances r)"
    using arg_cong [OF g(2), of set_mset] by simp
  have "distinct (all_addrs t)" using g(2) assms(4) mset_eq_imp_distinct_iff by blast
  then have "distinct (used_addrs (all_addrs t))" by (simp add: used_addrs_def)
  moreover have "all_addrs t \<noteq> []" using g(2,4) by auto
  ultimately show ?thesis
    unfolding topo_validate_iff topo_wf_def
    using assms(3) dir addrs g(1,3) by (fastforce simp: imported_global_def imported_config_def)
qed

end
