(* ===== verification/Import_Run.thy ===== *)
theory Import_Run imports Import_Files Upgrade_Mongo begin

text \<open>
  \<^verbatim>\<open>pkg/import/discovery.go\<close>, \<^verbatim>\<open>systemd_manager.go\<close> and \<^verbatim>\<open>orchestrator.go\<close>: finding the processes and services of a
  running deployment, taking the services away from systemd, and the import as a whole.

  Commands run through an executor; the MongoDB driver is that of the upgrade. What the program prints is left out.
\<close>

section \<open>What is outside\<close>

record import_env =
  ie_driver :: up_driver
  ie_show :: "goval option \<Rightarrow> string"      \<comment> \<open>the verb \<^verbatim>\<open>%v\<close> on what is not a string\<close>
  ie_seconds :: "rat \<Rightarrow> string"              \<comment> \<open>the verb \<^verbatim>\<open>%.2f\<close>\<close>
  ie_cwd :: "string res"
  ie_home :: "string res"
  ie_topology_yaml :: "topology \<Rightarrow> fcontent res"
  ie_meta_yaml :: yaml_codec
  ie_shuffle :: "(string \<times> string) list \<Rightarrow> (string \<times> string) list"

section \<open>Asking MongoDB\<close>

record mongodb_info =
  mf_version :: string
  mf_variant :: string
  mf_topology_type :: string
  mf_replica_set :: string

definition instance_uri :: "string \<Rightarrow> int \<Rightarrow> string" where
  "instance_uri host port = mongo_uri (host_port host port)"

definition is_percona :: "string \<Rightarrow> bool" where "is_percona s = contains (to_lower s) ''percona''"

definition module_percona :: "goval \<Rightarrow> bool" where
  "module_percona v = (case v of GStr s \<Rightarrow> is_percona s | _ \<Rightarrow> False)"

definition show_value :: "import_env \<Rightarrow> goval option \<Rightarrow> string" where
  "show_value ie v = (case v of Some (GStr s) \<Rightarrow> s | _ \<Rightarrow> ie_show ie v)"

definition build_variant :: "import_env \<Rightarrow> doc \<Rightarrow> string" where
  "build_variant ie d =
     (if (case mget d ''modules'' of Some (GList ms) \<Rightarrow> list_ex module_percona ms | _ \<Rightarrow> False)
        \<or> is_percona (show_value ie (mget d ''version''))
      then ''percona'' else ''mongo'')"

definition info_of :: "string \<Rightarrow> string \<Rightarrow> doc \<Rightarrow> mongodb_info" where
  "info_of version variant m =
     (if str_field m ''msg'' = ''isdbgrid''
      then \<lparr>mf_version = version, mf_variant = variant, mf_topology_type = ''sharded'', mf_replica_set = []\<rparr>
      else if str_field m ''setName'' \<noteq> []
      then \<lparr>mf_version = version, mf_variant = variant, mf_topology_type = ''replica_set'', mf_replica_set = str_field m ''setName''\<rparr>
      else \<lparr>mf_version = version, mf_variant = variant, mf_topology_type = ''standalone'', mf_replica_set = []\<rparr>)"

definition query_mongodb_info :: "import_env \<Rightarrow> mongo_instance \<Rightarrow> mongodb_info res io" where
  "query_mongodb_info ie i = (let dr = ie_driver ie; uri = instance_uri (mi_host i) (mi_port i) in do {
     e \<leftarrow> ud_connect dr uri True;
     case e of
       Some x \<Rightarrow> ret (Err (wrapf ''failed to connect to MongoDB'' x))
     | None \<Rightarrow> do {
         b \<leftarrow> ud_run dr uri True ''admin'' [(''buildInfo'', GInt 1)];
         case b of
           Inl x \<Rightarrow> ret (Err (wrapf ''failed to get buildInfo'' x))
         | Inr info \<Rightarrow> do {
             m \<leftarrow> ud_run dr uri True ''admin'' [(''isMaster'', GInt 1)];
             m \<leftarrow> (case m of Inr d \<Rightarrow> ret (Ok d) | Inl _ \<Rightarrow> ud_run dr uri True ''admin'' [(''ismaster'', GInt 1)]);
             ret (case m of
               Inl x \<Rightarrow> Err (wrapf ''failed to get isMaster'' x)
             | Inr d \<Rightarrow> Ok (info_of (str_field info ''version'') (build_variant ie info) d)) } } })"

definition add_info :: "mongodb_info res \<Rightarrow> mongo_instance \<Rightarrow> mongo_instance" where
  "add_info r i = (case r of
     Inl _ \<Rightarrow> i
   | Inr f \<Rightarrow> i\<lparr>mi_version := mf_version f, mi_variant := mf_variant f, mi_topology_type := mf_topology_type f,
       mi_replica_set := mf_replica_set f\<rparr>)"

section \<open>Discovery\<close>

record process_line =
  pl_pid :: int
  pl_command :: string
  pl_user :: string

definition parse_ps_line :: "string \<Rightarrow> process_line option" where
  "parse_ps_line line = (let fs = go_fields line in
     if length fs < 2 then None
     else case atoi (fs ! 1) of
       None \<Rightarrow> None
     | Some pid \<Rightarrow> Some \<lparr>pl_pid = pid, pl_command = join_with '' '' (if length fs > 10 then drop 10 fs else drop 2 fs),
         pl_user = hd fs\<rparr>)"

definition text_lines :: "string \<Rightarrow> string list" where
  "text_lines s = filter (\<lambda>l. l \<noteq> []) (split_on (CHR 0x0A) (trim_space s))"

definition ps_command :: string where
  "ps_command = ''ps aux | grep -E 'mongod|mongos' | grep -v grep''"

definition scan_processes :: "'s host_exec \<Rightarrow> ('s, process_line list res) prog" where
  "scan_processes hx = do {
     r \<leftarrow> hx_execute hx ps_command;
     ret (case r of
       Inl _ \<Rightarrow> Err ''no MongoDB processes found''
     | Inr out \<Rightarrow> Ok (List.map_filter parse_ps_line (text_lines out))) }"

text \<open>The regular expressions of the command line: \<^verbatim>\<open>--name[= ]([^\s]+)\<close>, and \<^verbatim>\<open>(\d+)\<close> for the port.\<close>

definition command_flag :: "string \<Rightarrow> string \<Rightarrow> string option" where
  "command_flag name cmd = re_find (re_flag name re_word) cmd"

definition process_to_instance :: "process_line \<Rightarrow> mongo_instance" where
  "process_to_instance p = (let get = (\<lambda>k. case command_flag k (pl_command p) of None \<Rightarrow> [] | Some v \<Rightarrow> v) in
     empty_instance\<lparr>mi_pid := pl_pid p, mi_config_file := get ''config'',
       mi_port := (case re_find (re_flag ''port'' (re_run is_digit)) (pl_command p) of
         None \<Rightarrow> 27017
       | Some ds \<Rightarrow> (if in_int64 (int (digits_val 0 ds)) then int (digits_val 0 ds) else int64_max)),
       mi_data_dir := get ''dbpath'', mi_log_path := get ''logpath'',
       mi_host := connect_host (command_flag ''bind_ip'' (pl_command p))\<rparr>)"

definition list_units_command :: string where
  "list_units_command = ''systemctl list-units --type=service --all | grep -E 'mongo[ds]' || true''"

definition fragment_path :: "string \<Rightarrow> string" where
  "fragment_path out = (if has_prefix out ''FragmentPath='' then trim_prefix (trim_space out) ''FragmentPath='' else [])"

fun unit_services :: "'s host_exec \<Rightarrow> string list \<Rightarrow> ('s, systemd_service list) prog" where
  "unit_services hx [] = ret []"
| "unit_services hx (line # ls) = (let fs = go_fields line in
     if length fs < 4 then unit_services hx ls
     else let name = trim_suffix (hd fs) ''.service'' in do {
       r \<leftarrow> hx_execute hx (''systemctl show -p FragmentPath '' @ name);
       ss \<leftarrow> unit_services hx ls;
       ret (case r of
         Inl _ \<Rightarrow> ss
       | Inr out \<Rightarrow> \<lparr>ss_name = name, ss_unit_file = fragment_path out, ss_status = fs ! 2\<rparr> # ss) })"

definition detect_systemd_services :: "'s host_exec \<Rightarrow> ('s, systemd_service list) prog" where
  "detect_systemd_services hx = do {
     r \<leftarrow> hx_execute hx list_units_command;
     case r of Inl _ \<Rightarrow> ret [] | Inr out \<Rightarrow> unit_services hx (text_lines out) }"

fun query_all :: "import_env \<Rightarrow> process_line list \<Rightarrow> ('s, mongo_instance list) prog" where
  "query_all ie [] = ret []"
| "query_all ie (p # ps) = do {
     r \<leftarrow> on_os (query_mongodb_info ie (process_to_instance p));
     is \<leftarrow> query_all ie ps;
     ret (add_info r (process_to_instance p) # is) }"

definition discover_auto :: "import_env \<Rightarrow> 's host_exec \<Rightarrow> ('s, discovery_result res) prog" where
  "discover_auto ie hx = do {
     r \<leftarrow> scan_processes hx;
     case r of
       Inl x \<Rightarrow> ret (Err (wrapf ''failed to scan processes'' x))
     | Inr ps \<Rightarrow> do {
         is \<leftarrow> query_all ie ps;
         ss \<leftarrow> detect_systemd_services hx;
         ret (if is = [] then Err ''no MongoDB instances found''
              else Ok \<lparr>dr_auto = True, dr_instances = is, dr_services = ss\<rparr>) } }"

record discovery_options =
  do_auto :: bool
  do_config_file :: string
  do_data_dir :: string
  do_port :: int
  do_host :: string

definition discover_manual :: "import_env \<Rightarrow> discovery_options \<Rightarrow> ('s, discovery_result res) prog" where
  "discover_manual ie c = (let i = empty_instance\<lparr>mi_host := (if do_host c = [] then ''localhost'' else do_host c),
       mi_port := do_port c, mi_config_file := do_config_file c, mi_data_dir := do_data_dir c\<rparr> in do {
     r \<leftarrow> on_os (query_mongodb_info ie i);
     ret (Ok \<lparr>dr_auto = False, dr_instances = [add_info r i], dr_services = []\<rparr>) })"

definition discover :: "import_env \<Rightarrow> 's host_exec \<Rightarrow> discovery_options \<Rightarrow> ('s, discovery_result res) prog" where
  "discover ie hx c = (if do_auto c then discover_auto ie hx else discover_manual ie c)"

section \<open>The manager of systemd services\<close>

text \<open>
  The names of the services that were disabled are the state of the manager; it is passed along. An operation takes
  what runs a command, which is \<open>hx_execute\<close> of an executor.
\<close>

type_synonym 's runner = "string \<Rightarrow> ('s, string res) prog"

definition normalize_service :: "string \<Rightarrow> string" where
  "normalize_service n = trim_suffix n ''.service''"

definition disable_command :: "string \<Rightarrow> string" where "disable_command n = ''systemctl disable '' @ n"
definition enable_command :: "string \<Rightarrow> string" where "enable_command n = ''systemctl enable '' @ n"
definition stop_command :: "string \<Rightarrow> string" where "stop_command n = ''systemctl stop '' @ n"
definition start_command :: "string \<Rightarrow> string" where "start_command n = ''systemctl start '' @ n"
definition active_command :: "string \<Rightarrow> string" where "active_command n = ''systemctl is-active '' @ n"

definition systemctl :: "'s runner \<Rightarrow> string \<Rightarrow> string \<Rightarrow> string \<Rightarrow> ('s, err option) prog" where
  "systemctl run what cmd n = do {
     r \<leftarrow> run cmd;
     ret (case r of Inl x \<Rightarrow> Some (wrapf (''failed to '' @ what @ '' systemd service '' @ n) x) | Inr _ \<Rightarrow> None) }"

definition track_disabled_service :: "string \<Rightarrow> string list \<Rightarrow> string list" where
  "track_disabled_service n ts = (if normalize_service n \<in> set ts then ts else ts @ [normalize_service n])"

definition clear_tracked_services :: "string list \<Rightarrow> string list" where "clear_tracked_services ts = []"

definition disable_service :: "'s runner \<Rightarrow> string \<Rightarrow> string list \<Rightarrow> ('s, err option \<times> string list) prog" where
  "disable_service run name ts = (let n = normalize_service name in do {
     e \<leftarrow> systemctl run ''disable'' (disable_command n) n;
     ret (case e of Some x \<Rightarrow> (Some x, ts) | None \<Rightarrow> (None, track_disabled_service n ts)) })"

definition stop_service :: "'s runner \<Rightarrow> string \<Rightarrow> ('s, err option) prog" where
  "stop_service run name = (let n = normalize_service name in systemctl run ''stop'' (stop_command n) n)"

definition disable_and_stop_service :: "'s runner \<Rightarrow> string \<Rightarrow> string list \<Rightarrow> ('s, err option \<times> string list) prog" where
  "disable_and_stop_service run name ts = (let n = normalize_service name in do {
     (e, ts) \<leftarrow> disable_service run n ts;
     case e of
       Some x \<Rightarrow> ret (Some x, ts)
     | None \<Rightarrow> do { _ \<leftarrow> stop_service run n; ret (None, ts) } })"

definition enable_service :: "'s runner \<Rightarrow> string \<Rightarrow> ('s, err option) prog" where
  "enable_service run name = (let n = normalize_service name in systemctl run ''enable'' (enable_command n) n)"

definition start_service :: "'s runner \<Rightarrow> string \<Rightarrow> ('s, err option) prog" where
  "start_service run name = (let n = normalize_service name in systemctl run ''start'' (start_command n) n)"

definition enable_and_start_service :: "'s runner \<Rightarrow> string \<Rightarrow> ('s, err option) prog" where
  "enable_and_start_service run name = (let n = normalize_service name in do {
     e \<leftarrow> enable_service run n;
     case e of
       Some x \<Rightarrow> ret (Some x)
     | None \<Rightarrow> do { _ \<leftarrow> start_service run n; ret None } })"

definition is_service_active :: "'s runner \<Rightarrow> string \<Rightarrow> ('s, bool res) prog" where
  "is_service_active run name = do {
     r \<leftarrow> run (active_command (normalize_service name));
     ret (Ok (case r of Inl _ \<Rightarrow> False | Inr out \<Rightarrow> trim_space out = ''active'')) }"

fun rollback_each :: "'s runner \<Rightarrow> string list \<Rightarrow> ('s, string list) prog" where
  "rollback_each run [] = ret []"
| "rollback_each run (n # ns) = do {
     e \<leftarrow> enable_and_start_service run n;
     es \<leftarrow> rollback_each run ns;
     ret (case e of None \<Rightarrow> es | Some x \<Rightarrow> (''failed to rollback '' @ n @ '': '' @ x) # es) }"

definition rollback_all :: "'s runner \<Rightarrow> string list \<Rightarrow> ('s, err option) prog" where
  "rollback_all run ts = do {
     es \<leftarrow> rollback_each run ts;
     ret (if es = [] then None else Some (''rollback errors: '' @ join_with ''; '' es)) }"

definition rollback_commands :: "string list \<Rightarrow> string list" where
  "rollback_commands ts = concat (map (\<lambda>n. [enable_command n, start_command n]) ts)"

fun disable_multiple_services :: "'s runner \<Rightarrow> string list \<Rightarrow> string list \<Rightarrow> ('s, err option \<times> string list) prog" where
  "disable_multiple_services run [] ts = ret (None, ts)"
| "disable_multiple_services run (n # ns) ts = do {
     (e, ts) \<leftarrow> disable_service run n ts;
     case e of
       Some x \<Rightarrow> ret (Some (wrapf (''failed to disable service '' @ n) x), ts)
     | None \<Rightarrow> disable_multiple_services run ns ts }"

fun stop_multiple_services :: "'s runner \<Rightarrow> string list \<Rightarrow> ('s, err option) prog" where
  "stop_multiple_services run [] = ret None"
| "stop_multiple_services run (n # ns) = do { _ \<leftarrow> stop_service run n; stop_multiple_services run ns }"

section \<open>The import\<close>

record import_options =
  io_cluster_name :: string
  io_cluster_dir :: string
  io_auto_detect :: bool
  io_config_file :: string
  io_data_dir :: string
  io_port :: int
  io_host :: string
  io_dry_run :: bool
  io_skip_restart :: bool
  io_keep_systemd :: bool

record import_result =
  im_cluster_name :: string
  im_version :: string
  im_variant :: string
  im_topology_type :: string
  im_nodes :: nat
  im_disabled :: "string list"
  im_success :: bool
  im_error :: "err option"

definition empty_result :: "string \<Rightarrow> import_result" where
  "empty_result n = \<lparr>im_cluster_name = n, im_version = [], im_variant = [], im_topology_type = [], im_nodes = 0,
     im_disabled = [], im_success = False, im_error = None\<rparr>"

definition existing_data_dirs :: "mongo_instance list \<Rightarrow> (string, string) gomap" where
  "existing_data_dirs is = fold (\<lambda>i. mput (mi_host i @ ''-'' @ itoa (mi_port i)) (mi_data_dir i)) is []"

definition result_of :: "string \<Rightarrow> mongo_instance list \<Rightarrow> import_result" where
  "result_of name is = (case is of
     [] \<Rightarrow> empty_result name
   | i # _ \<Rightarrow> (empty_result name)\<lparr>im_version := mi_version i, im_variant := mi_variant i,
       im_topology_type := mi_topology_type i, im_nodes := length is\<rparr>)"

text \<open>The fourth phase: every service is disabled, or those that were are given back.\<close>

fun take_services :: "'s runner \<Rightarrow> string list \<Rightarrow> import_result \<Rightarrow> string list \<Rightarrow> ('s, import_result \<times> string list) prog" where
  "take_services run [] r ts = ret (r\<lparr>im_success := True\<rparr>, ts)"
| "take_services run (n # ns) r ts = do {
     (e, ts) \<leftarrow> disable_service run n ts;
     case e of
       Some x \<Rightarrow> do {
         _ \<leftarrow> rollback_all run ts;
         ret (r\<lparr>im_error := Some (wrapf ''failed to disable systemd service'' x)\<rparr>, ts) }
     | None \<Rightarrow> take_services run ns (r\<lparr>im_disabled := im_disabled r @ [n]\<rparr>) ts }"

definition import_cluster ::
  "import_env \<Rightarrow> 's host_exec \<Rightarrow> import_options \<Rightarrow> string list \<Rightarrow> ('s, import_result \<times> string list) prog" where
  "import_cluster ie hx c ts = do {
     d \<leftarrow> discover ie hx \<lparr>do_auto = io_auto_detect c, do_config_file = io_config_file c, do_data_dir = io_data_dir c,
       do_port = io_port c, do_host = io_host c\<rparr>;
     case d of
       Inl x \<Rightarrow> ret ((empty_result (io_cluster_name c))\<lparr>im_error := Some (wrapf ''discovery failed'' x)\<rparr>, ts)
     | Inr found \<Rightarrow>
         let r = result_of (io_cluster_name c) (dr_instances found) in
         if dr_instances found = [] then ret (r\<lparr>im_error := Some ''no MongoDB instances found''\<rparr>, ts)
         else do {
           e \<leftarrow> (if io_dry_run c then ret None
                 else setup_import_structure hx (ie_cwd ie) (ie_shuffle ie) \<lparr>sc_cluster_dir = io_cluster_dir c,
                   sc_version = im_version r, sc_data_dirs = existing_data_dirs (dr_instances found)\<rparr>);
           case e of
             Some x \<Rightarrow> ret (r\<lparr>im_error := Some (wrapf ''failed to create directory structure'' x)\<rparr>, ts)
           | None \<Rightarrow> do {
               e \<leftarrow> (if io_dry_run c then ret None
                     else on_os (generate_and_save (ie_topology_yaml ie) (Some found) (io_cluster_dir c)));
               case e of
                 Some x \<Rightarrow> ret (r\<lparr>im_error := Some (wrapf ''failed to generate topology.yaml'' x)\<rparr>, ts)
               | None \<Rightarrow>
                   if io_skip_restart c \<or> io_dry_run c then ret (r\<lparr>im_success := True\<rparr>, ts)
                   else take_services (hx_execute hx) (map ss_name (dr_services found)) r ts } } }"

section \<open>Helpers for moving a running cluster\<close>

record import_member =
  imm_host :: string
  imm_port :: int
  imm_state :: string
  imm_state_str :: string
  imm_health :: int

definition state_name :: "int \<Rightarrow> string" where
  "state_name n = (case mget [(0, ''STARTUP''), (1, ''PRIMARY''), (2, ''SECONDARY''), (3, ''RECOVERING''), (5, ''STARTUP2''),
       (6, ''UNKNOWN''), (7, ''ARBITER''), (8, ''DOWN''), (9, ''ROLLBACK''), (10, ''REMOVED'')] n of
     Some s \<Rightarrow> s
   | None \<Rightarrow> ''UNKNOWN('' @ itoa n @ '')'')"

definition import_member_of :: "goval \<Rightarrow> import_member option" where
  "import_member_of v = (case v of
     GMap d \<Rightarrow> (case parse_member_name (str_field d ''name'') of (host, port) \<Rightarrow>
       Some \<lparr>imm_host = host, imm_port = port, imm_state = (case int_field d ''state'' of None \<Rightarrow> [] | Some n \<Rightarrow> state_name n),
         imm_state_str = str_field d ''stateStr'', imm_health = int_or_0 (int_field d ''health'')\<rparr>)
   | _ \<Rightarrow> None)"

definition list_field :: "doc \<Rightarrow> string \<Rightarrow> goval list" where
  "list_field d k = (case mget d k of Some (GList vs) \<Rightarrow> vs | _ \<Rightarrow> [])"

definition direct_run :: "up_driver \<Rightarrow> string \<Rightarrow> int \<Rightarrow> string \<Rightarrow> doc \<Rightarrow> doc res io" where
  "direct_run dr host port what cmd = do {
     e \<leftarrow> ud_connect dr (instance_uri host port) True;
     case e of
       Some x \<Rightarrow> ret (Err (wrapf ''failed to connect to MongoDB'' x))
     | None \<Rightarrow> do {
         r \<leftarrow> ud_run dr (instance_uri host port) True ''admin'' cmd;
         ret (wrap_err what r) } }"

definition import_replica_set_status :: "up_driver \<Rightarrow> string \<Rightarrow> int \<Rightarrow> import_member list res io" where
  "import_replica_set_status dr host port = do {
     r \<leftarrow> direct_run dr host port ''failed to get replica set status'' status_command;
     ret (map_sum id (\<lambda>d. List.map_filter import_member_of (list_field d ''members'')) r) }"

definition import_step_down :: "up_driver \<Rightarrow> string \<Rightarrow> int \<Rightarrow> int \<Rightarrow> err option io" where
  "import_step_down dr host port secs = do {
     e \<leftarrow> ud_connect dr (instance_uri host port) True;
     case e of
       Some x \<Rightarrow> ret (Some (wrapf ''failed to connect to MongoDB'' x))
     | None \<Rightarrow> do {
         r \<leftarrow> ud_run dr (instance_uri host port) True ''admin'' [(''replSetStepDown'', GInt secs), (''force'', GBool False)];
         ret (case r of
           Inr _ \<Rightarrow> None
         | Inl x \<Rightarrow> if contains x ''connection'' \<or> contains x ''closed'' then None
             else Some (wrapf ''failed to step down primary'' x)) } }"

text \<open>
  The zero \<^verbatim>\<open>time.Time\<close> in nanoseconds from the epoch, and \<^verbatim>\<open>Time.Sub\<close>, which saturates. The date of a member is asserted to be
  a \<^verbatim>\<open>time.Time\<close>; whether the driver delivers one is told by the type that it reports for the value.
\<close>

definition zero_time :: int where "zero_time = - 62135596800000000000"

definition time_sub :: "int \<Rightarrow> int \<Rightarrow> int" where "time_sub a b = max int64_min (min int64_max (a - b))"

definition asserted_time :: "up_driver \<Rightarrow> doc \<Rightarrow> int" where
  "asserted_time dr d = (case mget d ''optimeDate'' of
     Some (GTime t) \<Rightarrow> if ud_type dr (GTime t) = ''time.Time'' then t else zero_time
   | _ \<Rightarrow> zero_time)"

definition import_optimes :: "up_driver \<Rightarrow> goval list \<Rightarrow> int \<times> int list" where
  "import_optimes dr ms = (let ds = List.map_filter (\<lambda>v. case v of GMap d \<Rightarrow> Some d | _ \<Rightarrow> None) ms in
     (fold (\<lambda>d p. if str_field d ''stateStr'' = ''PRIMARY'' then asserted_time dr d else p) ds zero_time,
      map (asserted_time dr) (filter (\<lambda>d. str_field d ''stateStr'' = ''SECONDARY'') ds)))"

definition import_check_lag :: "import_env \<Rightarrow> string \<Rightarrow> int \<Rightarrow> int \<Rightarrow> err option io" where
  "import_check_lag ie host port limit = do {
     r \<leftarrow> direct_run (ie_driver ie) host port ''failed to get replica set status'' status_command;
     ret (case r of
       Inl x \<Rightarrow> Some x
     | Inr d \<Rightarrow> (case import_optimes (ie_driver ie) (list_field d ''members'') of (p, ss) \<Rightarrow>
         map_option (\<lambda>s. ''replication lag too high: '' @ ie_seconds ie (of_int (time_sub p s) / 1000000000)
             @ '' seconds (max: '' @ itoa limit @ '')'')
           (find (\<lambda>s. of_int (time_sub p s) / 1000000000 > (of_int limit :: rat)) ss))) }"

definition import_save_metadata :: "import_env \<Rightarrow> import_result \<Rightarrow> err option io" where
  "import_save_metadata ie r = (case new_meta_manager (ie_home ie) of
     Inl x \<Rightarrow> ret (Some (wrapf ''failed to create meta manager'' x))
   | Inr base \<Rightarrow> do {
       now \<leftarrow> time_now;
       e \<leftarrow> save_metadata (ie_meta_yaml ie) base \<lparr>cm_name = im_cluster_name r, cm_version = im_version r, cm_variant = im_variant r,
         cm_bin_path = [], cm_created_at = now, cm_status = ''running'', cm_topology = None, cm_deploy_mode = [], cm_nodes = [],
         cm_connection = [], cm_supervisor_config = [], cm_supervisor_pid_file = [], cm_supervisor_running = False,
         cm_monitoring = None\<rparr>;
       ret (map_option (wrapf ''failed to save metadata'') e) })"

definition start_under_supervisor :: "sup_os \<Rightarrow> string \<Rightarrow> string \<Rightarrow> string \<Rightarrow> err option io" where
  "start_under_supervisor so dir cluster program = do {
     m \<leftarrow> load_manager so dir cluster;
     case m of
       Inl x \<Rightarrow> ret (Some (wrapf ''failed to load supervisor manager'' x))
     | Inr mgr \<Rightarrow> do {
         up \<leftarrow> is_running so mgr;
         e \<leftarrow> (if up then ret None else start_daemon so mgr);
         case e of
           Some x \<Rightarrow> ret (Some (wrapf ''failed to start supervisor'' x))
         | None \<Rightarrow> do {
             e \<leftarrow> start_process so mgr program;
             ret (map_option (wrapf (''failed to start process '' @ program)) e) } } }"

section \<open>Services are given back\<close>

text \<open>A runner that keeps a log of its commands and of their success.\<close>

definition logged :: "'s runner \<Rightarrow> ((string \<times> bool) list \<times> 's) runner" where
  "logged run c = State (\<lambda>(w, l, s). case run_state (run c) (w, s) of (r, (w', s')) \<Rightarrow> (r, (w', l @ [(c, is_ok r)], s')))"

text \<open>The services that were disabled and that no later command tried to enable.\<close>

definition log_step :: "string \<times> bool \<Rightarrow> string set \<Rightarrow> string set" where
  "log_step x P = (case x of (c, ok) \<Rightarrow>
     if has_prefix c ''systemctl disable '' then (if ok then insert (trim_prefix c ''systemctl disable '') P else P)
     else if has_prefix c ''systemctl enable '' then P - {trim_prefix c ''systemctl enable ''}
     else P)"

definition taken_away :: "(string \<times> bool) list \<Rightarrow> string set" where
  "taken_away l = fold log_step l {}"

lemma taken_away_snoc [simp]: "taken_away (l @ [x]) = log_step x (taken_away l)"
  by (simp add: taken_away_def)

lemma log_step_commands [simp]:
  "log_step (disable_command n, ok) P = (if ok then insert n P else P)"
  "log_step (enable_command n, ok) P = P - {n}"
  "log_step (start_command n, ok) P = P"
proof -
  have "\<not> has_prefix (enable_command n) ''systemctl disable ''" "\<not> has_prefix (start_command n) ''systemctl disable ''"
    "\<not> has_prefix (start_command n) ''systemctl enable ''"
    by (simp_all add: has_prefix_def enable_command_def start_command_def)
  moreover have "has_prefix (disable_command n) ''systemctl disable ''" "trim_prefix (disable_command n) ''systemctl disable '' = n"
    "has_prefix (enable_command n) ''systemctl enable ''" "trim_prefix (enable_command n) ''systemctl enable '' = n"
    unfolding disable_command_def enable_command_def by (simp_all only: has_prefix_append)
  ultimately show "log_step (disable_command n, ok) P = (if ok then insert n P else P)"
    "log_step (enable_command n, ok) P = P - {n}" "log_step (start_command n, ok) P = P"
    by (simp_all add: log_step_def)
qed

lemma wp_logged: "(\<And>r w' s'. Q r (w', l @ [(c, is_ok r)], s')) \<Longrightarrow> wp (logged run c) Q (w, l, s)"
  by (simp add: logged_def wp_def split: prod.split)

lemma wp_systemctl:
  "(\<And>e w' l' s'. taken_away l' = log_step (c, e = None) (taken_away l) \<Longrightarrow> Q e (w', l', s')) \<Longrightarrow>
   wp (systemctl (logged run) what c n) Q (w, l, s)"
  unfolding systemctl_def wp_bind by (rule wp_logged) (auto simp: is_ok_def split: sum.split)

lemma wp_enable_and_start:
  assumes "normalize_service n = n" "\<And>e w' l' s'. taken_away l' = taken_away l - {n} \<Longrightarrow> Q e (w', l', s')"
  shows "wp (enable_and_start_service (logged run) n) Q (w, l, s)"
  unfolding enable_and_start_service_def enable_service_def start_service_def Let_def assms(1) wp_bind
proof (rule wp_systemctl, goal_cases)
  case (1 e w1 l1 s1)
  then show ?case by (cases e) (auto intro!: wp_systemctl assms(2))
qed

lemma wp_rollback:
  "\<forall>n \<in> set ts. normalize_service n = n \<Longrightarrow> taken_away l \<subseteq> set ts \<union> P \<Longrightarrow>
   wp (rollback_each (logged run) ts) (\<lambda>_ (w', l', s'). taken_away l' \<subseteq> P) (w, l, s)"
proof (induction ts arbitrary: w l s)
  case (Cons n ts)
  show ?case unfolding rollback_each.simps wp_bind
  proof (rule wp_enable_and_start, goal_cases)
    case (2 e w1 l1 s1)
    then show ?case using Cons.IH [of l1 w1 s1] Cons.prems by (auto elim: wp_mono split: option.split)
  qed (use Cons.prems in simp)
qed simp

text \<open>
  C16. An import takes all services away from systemd or none. Whatever the commands answer, when the phase that disables the
  services of a deployment succeeds each of them is disabled, and when it fails every service that it had disabled was asked
  to be enabled again afterwards. The names must not end in the suffix \<^verbatim>\<open>.service\<close> twice, because tracking a service strips
  it once more than disabling it does.
\<close>
theorem services_given_back:
  assumes names: "\<And>n. n \<in> set ns \<Longrightarrow> normalize_service (normalize_service n) = normalize_service n"
    and fresh: "im_error r = None" "\<not> im_success r"
  shows "wp (take_services (logged run) ns r []) (\<lambda>(r', ts) (w', l', s').
      (im_success r' \<longrightarrow> taken_away l' = normalize_service ` set ns \<and> set ts = normalize_service ` set ns) \<and>
      (im_error r' \<noteq> None \<longrightarrow> taken_away l' = {}) \<and> (im_error r' = None \<longrightarrow> im_success r')) (w, [], s)"
proof -
  have "wp (take_services (logged run) ns r ts) (\<lambda>(r', ts') (w', l', s').
      (im_success r' \<longrightarrow> im_success r \<or> taken_away l' = normalize_service ` set ns \<union> set ts \<and> set ts' = normalize_service ` set ns \<union> set ts) \<and>
      (im_error r' \<noteq> None \<longrightarrow> taken_away l' = {}) \<and> (im_error r' = None \<longrightarrow> im_success r')) (w, l, s)"
    if "\<forall>n \<in> set ts. normalize_service n = n" "taken_away l = set ts" for ts l
    using that names fresh(1)
  proof (induction ns arbitrary: r ts w l s)
    case (Cons n ns)
    note nn = Cons.prems(3) [of n, simplified]
    show ?case unfolding take_services.simps disable_service_def Let_def wp_bind
    proof (rule wp_systemctl, goal_cases)
      case (1 e w1 l1 s1)
      show ?case
      proof (cases e)
        case (Some x)
        then have "taken_away l1 \<subseteq> set ts \<union> {}" using 1 Cons.prems(2) by simp
        from wp_rollback [OF Cons.prems(1) this] show ?thesis
          using Some by (auto simp: rollback_all_def elim!: wp_mono)
      next
        case None
        have ts: "set (track_disabled_service n ts) = insert (normalize_service n) (set ts)"
          "set (track_disabled_service (normalize_service n) ts) = insert (normalize_service n) (set ts)"
          by (auto simp: track_disabled_service_def nn)
        have "wp (take_services (logged run) ns (r\<lparr>im_disabled := im_disabled r @ [n]\<rparr>) (track_disabled_service (normalize_service n) ts))
            (\<lambda>(r', ts') (w', l', s'). (im_success r' \<longrightarrow> im_success r \<or>
                taken_away l' = normalize_service ` set ns \<union> set (track_disabled_service (normalize_service n) ts) \<and>
                set ts' = normalize_service ` set ns \<union> set (track_disabled_service (normalize_service n) ts)) \<and>
              (im_error r' \<noteq> None \<longrightarrow> taken_away l' = {}) \<and> (im_error r' = None \<longrightarrow> im_success r')) (w1, l1, s1)"
          using Cons.IH [of "track_disabled_service (normalize_service n) ts" l1 "r\<lparr>im_disabled := im_disabled r @ [n]\<rparr>" w1 s1]
            Cons.prems 1 None nn by (simp add: ts)
        then show ?thesis using None by (simp add: ts)
      qed
    qed
  qed simp
  from this [of "[]" "[]"] show ?thesis
    by (rule wp_mono) (use fresh in \<open>auto simp: taken_away_def\<close>)
qed

lemma services_given_back_witness:
  "wp (take_services (logged (\<lambda>_. ret (Ok []))) [''mongod'', ''mongos.service''] (empty_result ''c'') []) (\<lambda>(r', ts) (w', l', s').
      (im_success r' \<longrightarrow> taken_away l' = {''mongod'', ''mongos''}) \<and> (im_error r' \<noteq> None \<longrightarrow> taken_away l' = {}))
    (example_world, [], ())"
proof -
  have n: "normalize_service ''mongod'' = ''mongod''" "normalize_service ''mongos.service'' = ''mongos''"
    "normalize_service ''mongos'' = ''mongos''"
    by (simp_all add: normalize_service_def trim_suffix_def has_prefix_def)
  show ?thesis
    by (rule wp_mono [OF services_given_back [where ns = "[''mongod'', ''mongos.service'']"]])
      (auto simp: n empty_result_def)
qed

section \<open>A dry run changes nothing\<close>

text \<open>
  The commands that a dry run may issue: the two that list processes and units, and the one that shows a unit. Whatever they and
  the questions to MongoDB leave alone, the dry run leaves alone.
\<close>

definition listing_command :: "string \<Rightarrow> bool" where
  "listing_command c = (c = ps_command \<or> c = list_units_command \<or> has_prefix c ''systemctl show -p FragmentPath '')"

lemma keeps_on_os_all: "keeps P (on_os m) \<longleftrightarrow> (\<forall>h. keeps (\<lambda>w. P (w, h)) m)"
  by (auto simp: keeps_def wp_on_os)

lemma listing_commands:
  "listing_command ps_command" "listing_command list_units_command"
  "listing_command (''systemctl show -p FragmentPath '' @ n)"
  unfolding listing_command_def by (blast, blast, metis has_prefix_append(1))

lemma keeps_query:
  assumes "\<And>u d. keeps P (on_os (ud_connect (ie_driver ie) u d))" "\<And>u d b c. keeps P (on_os (ud_run (ie_driver ie) u d b c))"
  shows "keeps P (on_os (query_mongodb_info ie i))"
  unfolding keeps_on_os_all query_mongodb_info_def Let_def
  by (intro allI keeps_bind keeps_case_option keeps_case_sum keeps_return assms [unfolded keeps_on_os_all, rule_format])

theorem dry_run_keeps:
  assumes "\<And>u d. keeps P (on_os (ud_connect (ie_driver ie) u d))" "\<And>u d b c. keeps P (on_os (ud_run (ie_driver ie) u d b c))"
    and "\<And>c. listing_command c \<Longrightarrow> keeps P (hx_execute hx c)" and "io_dry_run c"
  shows "keeps P (import_cluster ie hx c ts)"
proof -
  note run = listing_commands [THEN assms(3)]
  have services: "keeps P (unit_services hx ls)" for ls
  proof (induction ls)
    case (Cons l ls)
    show ?case unfolding unit_services.simps Let_def
      by (intro keeps_if keeps_bind keeps_return run(3) Cons.IH)
  qed simp
  have detect: "keeps P (detect_systemd_services hx)"
    unfolding detect_systemd_services_def by (intro keeps_bind keeps_case_sum keeps_return run(2) services)
  have queries: "keeps P (query_all ie ps)" for ps
    by (induction ps) (auto intro!: keeps_query [OF assms(1,2)])
  have "keeps P (discover ie hx d)" for d
    unfolding discover_def discover_auto_def discover_manual_def scan_processes_def Let_def
    by (intro keeps_if keeps_bind keeps_case_sum keeps_return run(1) queries detect keeps_query [OF assms(1,2)])
  then show ?thesis
    unfolding import_cluster_def Let_def
    by (intro keeps_bind keeps_case_sum keeps_if keeps_case_option keeps_return) (simp_all add: assms(4))
qed

text \<open>
  What discovery never finds out is the kind of a process: everything it finds becomes a \<^verbatim>\<open>mongod\<close> node of the topology.
\<close>

lemma process_type_unknown:
  "mi_process_type (add_info r (process_to_instance p)) = []"
  by (simp add: add_info_def process_to_instance_def empty_instance_def Let_def split: sum.split)

lemma discovered_instances:
  "wp (query_all ie ps) (\<lambda>is _. \<forall>i \<in> set is. mi_process_type i = []) s"
proof (induction ps arbitrary: s)
  case (Cons p ps)
  show ?case unfolding query_all.simps wp_bind
    by (rule wp_mono [OF wp_trivial(1)], rule wp_mono [OF Cons.IH]) (simp add: process_type_unknown)
qed simp

theorem discovered_only_mongod:
  "wp (discover_auto ie hx) (\<lambda>r _. \<forall>d dir t. r = Ok d \<longrightarrow> generate_topology (Some d) dir = Ok t \<longrightarrow>
     t_mongos t = [] \<and> t_config_svr t = [] \<and> length (t_mongod t) = length (dr_instances d)) s"
proof -
  have gen: "t_mongos t = [] \<and> t_config_svr t = [] \<and> length (t_mongod t) = length (dr_instances d)"
    if "generate_topology (Some d) dir = Ok t" "\<forall>i \<in> set (dr_instances d). mi_process_type i = []" for d dir t
    using that by (auto simp: generate_topology_def instances_added filter_empty_conv split: if_splits)
  show ?thesis unfolding discover_auto_def wp_bind
  proof (rule wp_mono [OF wp_trivial(1)], goal_cases)
    case (1 r s1)
    show ?case
    proof (cases r)
      case (Inr ps)
      show ?thesis unfolding Inr sum.case wp_bind wp_case_sum
        by (rule wp_mono [OF discovered_instances], rule wp_mono [OF wp_trivial(1)]) (auto dest: gen)
    qed simp
  qed
qed

section \<open>The check of the lag\<close>

text \<open>
  The driver gives dates a type of its own, so the assertion never succeeds and no lag is ever found, however far the
  secondaries are behind.
\<close>

theorem lag_never_found:
  assumes "\<And>t. ud_type dr (GTime t) \<noteq> ''time.Time''" "0 \<le> limit" "import_optimes dr ms = (p, ss)"
  shows "find (\<lambda>s. of_int (time_sub p s) / 1000000000 > (of_int limit :: rat)) ss = None"
proof -
  have zero: "asserted_time dr d = zero_time" for d
    using assms(1) by (auto simp: asserted_time_def split: option.split goval.split)
  have "fold (\<lambda>d p. if Q d then zero_time else p) ds zero_time = zero_time" for Q :: "doc \<Rightarrow> bool" and ds
    by (induction ds) auto
  then have "p = zero_time" "set ss \<subseteq> {zero_time}" using assms(3) by (auto simp: import_optimes_def zero Let_def)
  then show ?thesis using assms(2) by (auto simp: find_None_iff time_sub_def int64_min_def int64_max_def)
qed

end
