(* ===== verification/Binary_Urls.thy ===== *)
theory Binary_Urls imports Handlers_Process Upgrade_Hooks begin

text \<open>
  \<^verbatim>\<open>pkg/deploy/binary_manager.go\<close>, the part that finds out which release to fetch and from where.

  The network, the decoder of the list of releases and the comparison of semantic versions are parameters. The memory of a
  manager is the state that programs of this theory run on beside the machine; its mutexes make each look into it one step.
\<close>

section \<open>What is outside\<close>

record download =
  dl_arch :: string
  dl_target :: string
  dl_url :: string
  dl_edition :: string

record mongodb_release =
  rl_version :: string
  rl_downloads :: "download list"

text \<open>
  A \<^verbatim>\<open>GET\<close> answers with a status and a body, which may fail to be read; \<^verbatim>\<open>HEAD\<close> with a status. An entry of an archive is
  its name, what it is, and what reading it gives: bytes, and the error that ended the reading, if any.
\<close>

datatype entry_kind = EntryDir | EntryFile | EntryOther

record archive_entry =
  ae_name :: string
  ae_kind :: entry_kind
  ae_bytes :: string
  ae_error :: "err option"
  ae_open :: "err option"      \<comment> \<open>opening the entry of a zip archive\<close>

record platform =
  pf_os :: string
  pf_arch :: string

definition platform_key :: "platform \<Rightarrow> string" where "platform_key p = pf_os p @ ''-'' @ pf_arch p"

record binary_env =
  be_get :: "string \<Rightarrow> (int \<times> string res) res io"
  be_head :: "string \<Rightarrow> int res io"
  be_releases :: "string \<Rightarrow> mongodb_release list res"                        \<comment> \<open>\<^verbatim>\<open>json.Unmarshal\<close>\<close>
  be_compare :: "string \<Rightarrow> string \<Rightarrow> int"                            \<comment> \<open>\<^verbatim>\<open>semver.Compare\<close>\<close>
  be_tar_gz :: "string \<Rightarrow> (archive_entry list \<times> err option) res"      \<comment> \<open>the entries, and the error that ends them\<close>
  be_zip :: "string \<Rightarrow> archive_entry list res"
  be_data_tar :: "string \<Rightarrow> string \<Rightarrow> (archive_entry list \<times> err option) res io"  \<comment> \<open>by the name of the file, \<^verbatim>\<open>.gz\<close>, \<^verbatim>\<open>.xz\<close> or plain\<close>
  be_ar :: "string \<Rightarrow> string \<Rightarrow> (string \<times> err option) io"            \<comment> \<open>\<^verbatim>\<open>ar -x\<close> in a directory\<close>
  be_temp_dir :: "string \<Rightarrow> string res io"
  be_temp_file :: "string \<Rightarrow> string res io"
  be_executable :: "string \<Rightarrow> bool"
  be_os :: string
  be_arch :: string
  be_home :: "string res"
  be_walk :: "platform list \<Rightarrow> platform list"
  be_order :: "(string \<times> string) list \<Rightarrow> (string \<times> string) list"  \<comment> \<open>in which a map is walked\<close>

section \<open>The manager\<close>

definition current_platform :: "binary_env \<Rightarrow> platform" where
  "current_platform be = \<lparr>pf_os = be_os be, pf_arch = be_arch be\<rparr>"

record binary_manager =
  bg_cache :: string
  bg_storage :: string

record binary_memory =
  bm_paths :: "(string, string) gomap"
  bm_releases :: "mongodb_release list option"

definition empty_memory :: binary_memory where "empty_memory = \<lparr>bm_paths = [], bm_releases = None\<rparr>"

type_synonym 'a binary_prog = "(binary_memory, 'a) prog"

definition new_binary_manager :: "binary_env \<Rightarrow> binary_manager res" where
  "new_binary_manager be = (case be_home be of
     Inl e \<Rightarrow> Err (wrapf ''failed to get home directory'' e)
   | Inr home \<Rightarrow> let storage = path_join [home, ''.mup'', ''storage''] in
       Ok \<lparr>bg_cache = path_join [storage, ''packages''], bg_storage = storage\<rparr>)"

section \<open>The list of releases\<close>

definition remember_releases :: "mongodb_release list \<Rightarrow> unit binary_prog" where
  "remember_releases rs = on_host (State_Monad.update (\<lambda>m. m\<lparr>bm_releases := Some rs\<rparr>))"

definition cache_max_age :: int where "cache_max_age = 86400000000000"

text \<open>The list on disk, when it is younger than a day and can be read.\<close>

definition cached_releases :: "binary_env \<Rightarrow> string \<Rightarrow> mongodb_release list option io" where
  "cached_releases be file = do {
     s \<leftarrow> os_stat file;
     case s of
       Inr (FFile _ t) \<Rightarrow> do {
         now \<leftarrow> time_now;
         if now - t < cache_max_age then do {
           r \<leftarrow> os_read_file file;
           ret (case r of
             Inl _ \<Rightarrow> None
           | Inr c \<Rightarrow> (case be_releases be (text_of c) of Inl _ \<Rightarrow> None | Inr rs \<Rightarrow> Some rs)) }
         else ret None }
     | _ \<Rightarrow> ret None }"

definition fetch_releases :: "binary_env \<Rightarrow> string res io" where
  "fetch_releases be = do {
     r \<leftarrow> be_get be ''https://downloads.mongodb.org/full.json'';
     ret (case r of
       Inl x \<Rightarrow> Err (wrapf ''failed to fetch MongoDB versions'' x)
     | Inr (status, body) \<Rightarrow> if status \<noteq> 200 then Err (''failed to fetch MongoDB versions: HTTP '' @ itoa status)
         else wrap_err ''failed to read MongoDB versions'' body) }"

definition store_releases :: "string \<Rightarrow> string \<Rightarrow> string \<Rightarrow> unit io" where
  "store_releases dir file data = do {
     e \<leftarrow> os_mkdir_all dir;
     case e of
       Some _ \<Rightarrow> ret ()
     | None \<Rightarrow> do { _ \<leftarrow> os_write_file file (Text data); ret () } }"

definition get_mongodb_versions :: "binary_env \<Rightarrow> binary_manager \<Rightarrow> mongodb_release list res binary_prog" where
  "get_mongodb_versions be bg = do {
     m \<leftarrow> on_host State_Monad.get;
     case bm_releases m of
       Some rs \<Rightarrow> ret (Ok rs)
     | None \<Rightarrow> let file = path_join [bg_storage bg, ''mongo-versions.json''] in do {
         c \<leftarrow> on_os (cached_releases be file);
         case c of
           Some rs \<Rightarrow> do { _ \<leftarrow> remember_releases rs; ret (Ok rs) }
         | None \<Rightarrow> do {
             d \<leftarrow> on_os (fetch_releases be);
             case d of
               Inl x \<Rightarrow> ret (Err x)
             | Inr data \<Rightarrow> (case be_releases be data of
                 Inl x \<Rightarrow> ret (Err (wrapf ''failed to parse MongoDB versions'' x))
               | Inr rs \<Rightarrow> do {
                   _ \<leftarrow> on_os (store_releases (bg_storage bg) file data);
                   _ \<leftarrow> remember_releases rs;
                   ret (Ok rs) }) } } }"

section \<open>Choosing a release\<close>

definition is_prerelease :: "string \<Rightarrow> bool" where
  "is_prerelease v = (let l = to_lower v in contains l ''rc'' \<or> contains l ''alpha'' \<or> contains l ''beta'')"

definition releases_of :: "string \<Rightarrow> mongodb_release list \<Rightarrow> mongodb_release list" where
  "releases_of major_minor = filter (\<lambda>r. has_prefix (rl_version r) (major_minor @ ''.'') \<and> \<not> is_prerelease (rl_version r))"

text \<open>The first of the latest, by the comparison of the library.\<close>

definition latest_release :: "binary_env \<Rightarrow> mongodb_release list \<Rightarrow> mongodb_release option" where
  "latest_release be rs = (case rs of
     [] \<Rightarrow> None
   | r # rs \<Rightarrow> Some (fold (\<lambda>v l. if be_compare be (''v'' @ rl_version v) (''v'' @ rl_version l) > 0 then v else l) rs r))"

definition major_minor_of :: "string list \<Rightarrow> string" where
  "major_minor_of parts = parts ! 0 @ ''.'' @ parts ! 1"

definition resolve_in :: "binary_env \<Rightarrow> string \<Rightarrow> mongodb_release list \<Rightarrow> string res" where
  "resolve_in be version rs = (let parts = split_on CHR ''.'' version in
     if length parts < 2 then Err (''invalid version format: '' @ version @ '' (expected X.Y or X.Y.Z)'')
     else if length parts \<ge> 3 then
       (if list_ex (\<lambda>r. rl_version r = version) rs then Ok version
        else Err (''exact version '' @ version @ '' not found''))
     else (case latest_release be (releases_of (major_minor_of parts) rs) of
         None \<Rightarrow> Err (''no versions found for MongoDB '' @ major_minor_of parts)
       | Some r \<Rightarrow> Ok (rl_version r)))"

definition resolve_version :: "binary_env \<Rightarrow> binary_manager \<Rightarrow> string \<Rightarrow> string res binary_prog" where
  "resolve_version be bg version = do {
     r \<leftarrow> get_mongodb_versions be bg;
     ret (case r of Inl x \<Rightarrow> Err x | Inr rs \<Rightarrow> resolve_in be version rs) }"

section \<open>Addresses of downloads\<close>

definition found_status :: "int \<Rightarrow> bool" where "found_status s = (s \<in> {200, 301, 302})"

fun first_found :: "binary_env \<Rightarrow> string list \<Rightarrow> string option io" where
  "first_found be [] = ret None"
| "first_found be (u # us) = do {
     r \<leftarrow> be_head be u;
     case r of
       Inr s \<Rightarrow> if found_status s then ret (Some u) else first_found be us
     | Inl _ \<Rightarrow> first_found be us }"

definition fallback_urls :: "string \<Rightarrow> string \<Rightarrow> string \<Rightarrow> string list" where
  "fallback_urls version os arch = (let base = ''https://fastdl.mongodb.org/'' in
     if os = ''osx'' \<and> arch \<in> {''x86_64'', ''arm64''}
     then [base @ ''osx/mongodb-macos-'' @ arch @ ''-'' @ version @ ''.tgz'', base @ ''osx/mongodb-osx-'' @ arch @ ''-'' @ version @ ''.tgz'']
     else if os = ''linux'' then [base @ ''linux/mongodb-linux-'' @ arch @ ''-'' @ version @ ''.tgz'']
     else [])"

definition construct_fallback_url :: "binary_env \<Rightarrow> string \<Rightarrow> string \<Rightarrow> string \<Rightarrow> string res io" where
  "construct_fallback_url be version os arch = do {
     r \<leftarrow> first_found be (fallback_urls version os arch);
     ret (case r of
       Some u \<Rightarrow> Ok u
     | None \<Rightarrow> Err (''no download URL found for MongoDB '' @ version @ '' on '' @ os @ ''/'' @ arch
         @ (if os = ''osx'' \<and> arch = ''arm64'' then '' (Apple Silicon requires MongoDB 6.0+)'' else []))) }"

definition matches_os :: "string \<Rightarrow> download \<Rightarrow> bool" where
  "matches_os os d = (let t = to_lower (dl_target d) in
     if os = ''darwin'' then dl_target d \<in> {''osx'', ''osx-ssl''} \<or> contains t ''macos'' \<or> contains t ''osx''
     else if os = ''linux'' then contains t ''linux'' \<or> contains t ''ubuntu'' \<or> contains t ''rhel'' \<or> contains t ''debian''
       \<or> contains (to_lower (dl_url d)) ''linux''
     else False)"

definition download_fits :: "platform \<Rightarrow> download \<Rightarrow> bool" where
  "download_fits p d = (dl_arch d = (if pf_arch p = ''amd64'' then ''x86_64'' else pf_arch p) \<and> matches_os (pf_os p) d
     \<and> dl_url d \<noteq> [] \<and> dl_edition d \<in> {[], ''base'', ''targeted''})"

text \<open>Reading the second part of a version that has no dot ends the program.\<close>

definition index_panic :: err where "index_panic = ''panic: runtime error: index out of range [1] with length 1''"

definition target_release :: "binary_env \<Rightarrow> string \<Rightarrow> mongodb_release list \<Rightarrow> mongodb_release option" where
  "target_release be version rs = (let parts = split_on CHR ''.'' version in
     if length parts \<ge> 3 then find (\<lambda>r. rl_version r = version) rs
     else latest_release be (releases_of (major_minor_of parts) rs))"

definition get_download_url :: "binary_env \<Rightarrow> binary_manager \<Rightarrow> string \<Rightarrow> platform \<Rightarrow> string res binary_prog" where
  "get_download_url be bg version p = do {
     r \<leftarrow> get_mongodb_versions be bg;
     case r of
       Inl x \<Rightarrow> ret (Err x)
     | Inr rs \<Rightarrow>
         if pf_os p \<notin> {''darwin'', ''linux''} then ret (Err (''unsupported OS: '' @ pf_os p))
         else if length (split_on CHR ''.'' version) < 2 then ret (Err index_panic)
         else (case target_release be version rs of
             None \<Rightarrow> ret (Err (''version '' @ version @ '' not found''))
           | Some t \<Rightarrow> (case find (download_fits p) (rl_downloads t) of
               Some d \<Rightarrow> ret (Ok (dl_url d))
             | None \<Rightarrow> on_os (construct_fallback_url be (rl_version t) (if pf_os p = ''darwin'' then ''osx'' else ''linux'')
                 (if pf_arch p = ''amd64'' then ''x86_64'' else pf_arch p)))) }"

subsection \<open>Percona\<close>

definition percona_arch :: "string \<Rightarrow> string" where
  "percona_arch a = (if a = ''amd64'' then ''x86_64'' else if a = ''arm64'' then ''aarch64'' else a)"

definition percona_tarballs :: "string \<Rightarrow> string \<Rightarrow> string \<Rightarrow> string list" where
  "percona_tarballs major_minor version arch =
     map (\<lambda>os. ''https://downloads.percona.com/downloads/percona-server-mongodb-'' @ major_minor @ ''/percona-server-mongodb-''
         @ version @ ''/binary/tarball/percona-server-mongodb-'' @ version @ ''-'' @ arch @ os @ ''-minimal.tar.gz'')
       [''.bookworm'', ''.jammy'', ''.focal'', ''.noble'', ''.bullseye'', [] ]"

text \<open>The last error is reported with the failure.\<close>

fun percona_found :: "binary_env \<Rightarrow> string list \<Rightarrow> err option \<Rightarrow> (err option + string) io" where
  "percona_found be [] x = ret (Inl x)"
| "percona_found be (u # us) y = do {
     r \<leftarrow> be_head be u;
     case r of
       Inl x \<Rightarrow> percona_found be us (Some x)
     | Inr s \<Rightarrow> if found_status s then ret (Inr u) else percona_found be us (Some (''HTTP '' @ itoa s @ '' for '' @ u)) }"

definition build_percona_url :: "binary_env \<Rightarrow> string \<Rightarrow> platform \<Rightarrow> string res io" where
  "build_percona_url be version p = (let parts = split_on CHR ''.'' version in
     if length parts < 2 then ret (Err (''invalid Percona version format: '' @ version))
     else if pf_os p = ''darwin'' then ret (Err ''percona Server for MongoDB does not provide macOS binaries (only Linux)'')
     else if pf_os p \<noteq> ''linux'' then ret (Err (''unsupported OS for Percona: '' @ pf_os p @ '' (only Linux is supported)''))
     else do {
       r \<leftarrow> percona_found be (percona_tarballs (major_minor_of parts) version (percona_arch (pf_arch p))) None;
       ret (case r of
         Inr u \<Rightarrow> Ok u
       | Inl y \<Rightarrow> let m = ''no valid Percona tarball URL found for version '' @ version @ '' on '' @ pf_os p @ ''/'' @ pf_arch p in
           Err (case y of None \<Rightarrow> m | Some x \<Rightarrow> wrapf m x)) })"

definition deb_distros :: "string list" where
  "deb_distros = [''noble'', ''jammy'', ''focal'', ''bookworm'', ''bullseye'', ''bionic'', ''xenial'', ''stretch'', ''buster'']"

definition deb_version :: "bool \<Rightarrow> string \<Rightarrow> string" where
  "deb_version is36 version =
     (if is36 \<and> CHR ''-'' \<in> set version \<and> \<not> has_prefix (rev version) (rev ''.0'') then version @ ''.0'' else version)"

definition deb_package :: "string list \<Rightarrow> string \<Rightarrow> string \<Rightarrow> string \<Rightarrow> string" where
  "deb_package parts version distro component =
     (let is36 = (major_minor_of parts = ''3.6''); v = deb_version is36 version;
          prefix = (if is36 then ''percona-server-mongodb-36'' else ''percona-server-mongodb'');
          name = (if component = ''shell'' \<and> \<not> is36 \<and> parts ! 0 \<ge> ''5'' then ''percona-mongodb-mongosh'' else prefix @ ''-'' @ component) in
      ''http://repo.percona.com/psmdb-'' @ replace_all ''.'' [] (major_minor_of parts) @ ''/apt/pool/main/p/'' @ prefix
        @ ''/'' @ name @ ''_'' @ v @ ''.'' @ distro @ ''_amd64.deb'')"

fun deb_urls :: "binary_env \<Rightarrow> (string \<Rightarrow> string) \<Rightarrow> string list \<Rightarrow> (string, string) gomap option io" where
  "deb_urls be url [] = ret (Some [])"
| "deb_urls be url (c # cs) = do {
     r \<leftarrow> be_head be (url c);
     if r = Ok 200 then do { rest \<leftarrow> deb_urls be url cs; ret (map_option (\<lambda>m. (c, url c) # m) rest) }
     else ret None }"

fun first_distro :: "binary_env \<Rightarrow> (string \<Rightarrow> string \<Rightarrow> string) \<Rightarrow> string list \<Rightarrow> (string, string) gomap option io" where
  "first_distro be url [] = ret None"
| "first_distro be url (d # ds) = do {
     r \<leftarrow> deb_urls be (url d) [''server'', ''mongos'', ''shell''];
     case r of Some m \<Rightarrow> ret (Some m) | None \<Rightarrow> first_distro be url ds }"

definition build_percona_deb_urls :: "binary_env \<Rightarrow> string \<Rightarrow> platform \<Rightarrow> (string, string) gomap res io" where
  "build_percona_deb_urls be version p = (let parts = split_on CHR ''.'' version in
     if pf_os p \<noteq> ''linux'' then ret (Err ''.deb packages only available for Linux'')
     else if pf_arch p \<noteq> ''amd64'' then ret (Err (''.deb packages only available for amd64, not '' @ pf_arch p))
     else if length parts < 2 then ret (Err (''invalid Percona version format: '' @ version))
     else do {
       r \<leftarrow> first_distro be (deb_package parts version) deb_distros;
       ret (case r of
         Some m \<Rightarrow> Ok m
       | None \<Rightarrow> Err (''no valid .deb packages found for Percona '' @ deb_version (major_minor_of parts = ''3.6'') version)) })"

subsection \<open>The shell\<close>

definition mongosh_version :: string where "mongosh_version = ''2.5.9''"

definition mongosh_extension :: "string \<Rightarrow> string" where
  "mongosh_extension os = (if os = ''darwin'' then ''zip'' else ''tgz'')"

definition get_mongosh_url :: "binary_env \<Rightarrow> platform \<Rightarrow> string res io" where
  "get_mongosh_url be p =
     (if pf_os p \<notin> {''darwin'', ''linux''} then ret (Err (''unsupported OS for mongosh: '' @ pf_os p))
      else let url = ''https://github.com/mongodb-js/mongosh/releases/download/v'' @ mongosh_version @ ''/mongosh-'' @ mongosh_version
          @ ''-'' @ pf_os p @ ''-'' @ (if pf_arch p = ''amd64'' then ''x64'' else pf_arch p) @ ''.'' @ mongosh_extension (pf_os p) in do {
        r \<leftarrow> be_head be url;
        ret (case r of
          Inl x \<Rightarrow> Err (wrapf ''failed to verify mongosh URL'' x)
        | Inr s \<Rightarrow> if found_status s then Ok url
            else Err (''mongosh download URL not found (HTTP '' @ itoa s @ ''): '' @ url)) })"

end
