(* ===== verification/Binary_Manager.thy ===== *)
theory Binary_Manager imports Binary_Urls begin

text \<open>
  \<^verbatim>\<open>pkg/deploy/binary_manager.go\<close>, the part that downloads releases, takes them out of their archives and keeps them in a
  cache on disk.

  Moving around in an open file does not fail. The file system of the model has no permission bits: which files are
  executable is a parameter. What the program prints is left out.
\<close>

section \<open>Archives\<close>

definition with_temp_dir :: "binary_env \<Rightarrow> string \<Rightarrow> (string \<Rightarrow> 'a res io) \<Rightarrow> 'a res io" where
  "with_temp_dir be pat body = do {
     t \<leftarrow> be_temp_dir be pat;
     case t of
       Inl x \<Rightarrow> ret (Err (wrapf ''failed to create temp directory'' x))
     | Inr dir \<Rightarrow> do { r \<leftarrow> body dir; _ \<leftarrow> os_remove_all dir; ret r } }"

text \<open>Where an entry goes: below the target, without the first component of its name.\<close>

definition entry_path :: "string \<Rightarrow> string \<Rightarrow> string option" where
  "entry_path target name = (case split_on slash name of
     _ # c # cs \<Rightarrow> Some (path_join [target, path_join (c # cs)])
   | _ \<Rightarrow> None)"

definition write_entry :: "archive_entry \<Rightarrow> string \<Rightarrow> err option io" where
  "write_entry e path = do {
     c \<leftarrow> os_create path;
     case c of
       Inl x \<Rightarrow> ret (Some (wrapf ''failed to create file'' (os_msg x)))
     | Inr q \<Rightarrow> do {
         w \<leftarrow> write_file q (ae_bytes e);
         ret (case w of
           Some x \<Rightarrow> Some (wrapf ''failed to write file'' (os_msg x))
         | None \<Rightarrow> map_option (wrapf ''failed to write file'') (ae_error e)) } }"

definition make_dir :: "string \<Rightarrow> string \<Rightarrow> err option io" where
  "make_dir what path = do {
     e \<leftarrow> os_mkdir_all path;
     ret (map_option (\<lambda>x. wrapf (''failed to create '' @ what) (os_msg x)) e) }"

definition extract_file :: "archive_entry \<Rightarrow> string \<Rightarrow> err option io" where
  "extract_file e path = do {
     d \<leftarrow> make_dir ''parent directory'' (path_dir path);
     case d of
       Some x \<Rightarrow> ret (Some x)
     | None \<Rightarrow> (case ae_open e of
         Some x \<Rightarrow> ret (Some (wrapf ''failed to open file in zip'' x))
       | None \<Rightarrow> write_entry e path) }"

definition extract_entry :: "string \<Rightarrow> archive_entry \<Rightarrow> err option io" where
  "extract_entry target e = (case entry_path target (ae_name e) of
     None \<Rightarrow> ret None
   | Some path \<Rightarrow> (case ae_kind e of
       EntryDir \<Rightarrow> make_dir ''directory'' path
     | EntryFile \<Rightarrow> extract_file e path
     | EntryOther \<Rightarrow> ret None))"

text \<open>The entries of a \<^verbatim>\<open>tar\<close> are read in place, without being opened.\<close>

definition extract_archive :: "binary_env \<Rightarrow> string \<Rightarrow> string \<Rightarrow> err option io" where
  "extract_archive be archive target = (case be_tar_gz be archive of
     Inl x \<Rightarrow> ret (Some (wrapf ''failed to create gzip reader'' x))
   | Inr (es, failure) \<Rightarrow> do {
       r \<leftarrow> for_each (extract_entry target) (map (\<lambda>e. e\<lparr>ae_open := None\<rparr>) es);
       ret (case r of Some x \<Rightarrow> Some x | None \<Rightarrow> map_option (wrapf ''failed to read tar archive'') failure) })"

text \<open>An entry of a zip archive is a directory or is treated as a file.\<close>

definition extract_zip_archive :: "binary_env \<Rightarrow> string \<Rightarrow> string \<Rightarrow> err option io" where
  "extract_zip_archive be archive target = (case be_zip be archive of
     Inl x \<Rightarrow> ret (Some (wrapf ''failed to create zip reader'' x))
   | Inr es \<Rightarrow> for_each (extract_entry target)
       (map (\<lambda>e. if ae_kind e = EntryDir then e else e\<lparr>ae_kind := EntryFile\<rparr>) es))"

section \<open>Debian packages\<close>

definition file_base :: "string \<Rightarrow> string" where
  "file_base p = path_base (rev (dropWhile (\<lambda>c. c = slash) (rev p)))"

definition wanted_binaries :: "string list" where "wanted_binaries = [''mongod'', ''mongos'', ''mongosh'', ''mongo'']"

definition extract_binary :: "string \<Rightarrow> archive_entry \<Rightarrow> err option io" where
  "extract_binary target e =
     (if ae_kind e = EntryFile \<and> file_base (ae_name e) \<in> set wanted_binaries then
        let path = path_join [target, file_base (ae_name e)] in do {
          c \<leftarrow> os_create path;
          case c of
            Inl x \<Rightarrow> ret (Some (wrapf (''failed to create file '' @ path) (os_msg x)))
          | Inr q \<Rightarrow> do {
              w \<leftarrow> write_file q (ae_bytes e);
              ret (case w of
                Some x \<Rightarrow> Some (wrapf (''failed to write file '' @ path) (os_msg x))
              | None \<Rightarrow> map_option (wrapf (''failed to write file '' @ path)) (ae_error e)) } }
      else ret None)"

definition read_text :: "string \<Rightarrow> string res io" where
  "read_text p = do { r \<leftarrow> os_read_file p; ret (map_sum os_msg text_of r) }"

definition extract_data_tar :: "binary_env \<Rightarrow> string \<Rightarrow> string \<Rightarrow> err option io" where
  "extract_data_tar be tar target = do {
     c \<leftarrow> read_text tar;
     case c of
       Inl x \<Rightarrow> ret (Some (wrapf ''failed to open data tar'' x))
     | Inr content \<Rightarrow> do {
         r \<leftarrow> be_data_tar be tar content;
         case r of
           Inl x \<Rightarrow> ret (Some x)
         | Inr (es, failure) \<Rightarrow> do {
             e \<leftarrow> for_each (extract_binary target) es;
             ret (case e of Some x \<Rightarrow> Some x | None \<Rightarrow> map_option (wrapf ''failed to read tar'') failure) } } }"

definition to_error :: "unit res \<Rightarrow> err option" where
  "to_error r = (case r of Inl x \<Rightarrow> Some x | Inr _ \<Rightarrow> None)"

definition from_error :: "err option \<Rightarrow> unit res" where
  "from_error e = (case e of Some x \<Rightarrow> Err x | None \<Rightarrow> Ok ())"

definition extract_deb_package :: "binary_env \<Rightarrow> string \<Rightarrow> string \<Rightarrow> err option io" where
  "extract_deb_package be deb target = do {
     r \<leftarrow> with_temp_dir be ''deb-extract-*'' (\<lambda>dir. do {
       a \<leftarrow> be_ar be deb dir;
       case snd a of
         Some x \<Rightarrow> ret (Err (''ar extraction failed: '' @ x @ nl @ ''Output: '' @ fst a))
       | None \<Rightarrow> do {
           es \<leftarrow> os_read_dir dir;
           case es of
             Inl x \<Rightarrow> ret (Err (wrapf ''failed to read temp directory'' (os_msg x)))
           | Inr entries \<Rightarrow> (case find (\<lambda>(n, _). has_prefix n ''data.tar'') entries of
               None \<Rightarrow> ret (Err ''data.tar.* not found in .deb package'')
             | Some (n, _) \<Rightarrow> do {
                 m \<leftarrow> make_dir ''data extract directory'' (path_join [dir, ''data'']);
                 case m of
                   Some x \<Rightarrow> ret (Err x)
                 | None \<Rightarrow> do {
                     e \<leftarrow> extract_data_tar be (path_join [dir, n]) target;
                     ret (from_error e) } }) } });
     ret (to_error r) }"

definition download_body :: "binary_env \<Rightarrow> string \<Rightarrow> string \<Rightarrow> string res res io" where
  "download_body be what url = do {
     r \<leftarrow> be_get be url;
     ret (case r of
       Inl x \<Rightarrow> Err (wrapf (''failed to download'' @ what) x)
     | Inr (status, body) \<Rightarrow> if status \<noteq> 200 then Err (''failed to download'' @ what @ '': HTTP '' @ itoa status) else Ok body) }"

text \<open>A body that breaks off leaves what was read of it nowhere but in the temporary file, which goes away.\<close>

definition fetch_deb :: "binary_env \<Rightarrow> string \<Rightarrow> string \<Rightarrow> string \<Rightarrow> string \<Rightarrow> err option io" where
  "fetch_deb be dir target component url = do {
     r \<leftarrow> download_body be ('' '' @ component) url;
     case r of
       Inl x \<Rightarrow> ret (Some x)
     | Inr body \<Rightarrow> let deb = path_join [dir, component @ ''.deb''] in do {
         c \<leftarrow> os_create deb;
         case c of
           Inl x \<Rightarrow> ret (Some (wrapf ''failed to create temp file'' (os_msg x)))
         | Inr q \<Rightarrow> (case body of
             Inl x \<Rightarrow> ret (Some (wrapf ''failed to save .deb file'' x))
           | Inr data \<Rightarrow> do {
               w \<leftarrow> write_file q data;
               case w of
                 Some x \<Rightarrow> ret (Some (wrapf ''failed to save .deb file'' (os_msg x)))
               | None \<Rightarrow> do {
                   e \<leftarrow> extract_deb_package be deb target;
                   ret (map_option (wrapf (''failed to extract '' @ component)) e) } }) } }"

definition download_and_extract_deb_packages :: "binary_env \<Rightarrow> (string, string) gomap \<Rightarrow> string \<Rightarrow> err option io" where
  "download_and_extract_deb_packages be urls target = do {
     r \<leftarrow> with_temp_dir be ''percona-deb-*'' (\<lambda>dir. do {
       e \<leftarrow> for_each (\<lambda>(component, url). fetch_deb be dir target component url) (be_order be urls);
       ret (from_error e) });
     ret (to_error r) }"

section \<open>Copying\<close>

definition dir_in :: "string \<Rightarrow> string \<Rightarrow> string list \<Rightarrow> err \<Rightarrow> string res io" where
  "dir_in dir prefix sub message = do {
     s \<leftarrow> os_stat (path_join (dir # sub));
     case s of
       Inr _ \<Rightarrow> ret (Ok (path_join (dir # sub)))
     | Inl _ \<Rightarrow> do {
         es \<leftarrow> os_read_dir dir;
         case es of
           Inl x \<Rightarrow> ret (Err (os_msg x))
         | Inr entries \<Rightarrow> do {
             r \<leftarrow> for_each (\<lambda>(n, _). do {
                 s \<leftarrow> os_stat (path_join (dir # n # sub));
                 ret (case s of Inr _ \<Rightarrow> Some (path_join (dir # n # sub)) | Inl _ \<Rightarrow> None) })
               (filter (\<lambda>(n, k). k = FDir \<and> has_prefix n prefix) entries);
             ret (case r of Some p \<Rightarrow> Ok p | None \<Rightarrow> Err message) } } }"

definition find_bin_directory :: "string \<Rightarrow> string res io" where
  "find_bin_directory dir = dir_in dir ''mongodb-'' [''bin''] ''bin directory not found in extracted archive''"

definition exe :: "string \<Rightarrow> string \<Rightarrow> string" where
  "exe os name = (if os = ''windows'' then name @ ''.exe'' else name)"

definition find_mongosh_binary :: "string \<Rightarrow> platform \<Rightarrow> string res io" where
  "find_mongosh_binary dir p =
     dir_in dir ''mongosh'' [''bin'', exe (pf_os p) ''mongosh''] ''mongosh binary not found in extracted archive''"

definition executable_name :: "binary_env \<Rightarrow> string \<Rightarrow> string \<Rightarrow> bool" where
  "executable_name be dir name =
     (if be_os be = ''windows'' then list_ex (\<lambda>x. has_prefix (rev (to_lower name)) (rev x)) [''.exe'', ''.bat'', ''.cmd'']
      else be_executable be (path_join [dir, name]))"

text \<open>A file is read as a whole and written as a whole; looking at its mode can fail, and then it is passed over.\<close>

definition copy_whole :: "string \<Rightarrow> string \<Rightarrow> err option io" where
  "copy_whole src dst = do {
     r \<leftarrow> os_read_file src;
     case r of
       Inl x \<Rightarrow> ret (Some (wrapf (''failed to read '' @ src) (os_msg x)))
     | Inr data \<Rightarrow> do {
         w \<leftarrow> os_write_file dst data;
         ret (map_option (\<lambda>x. wrapf (''failed to write '' @ dst) (os_msg x)) w) } }"

definition copy_binary :: "binary_env \<Rightarrow> string \<Rightarrow> string \<Rightarrow> string \<times> fnode \<Rightarrow> err option io" where
  "copy_binary be src dst entry = (case entry of (name, node) \<Rightarrow>
     if node = FDir then ret None
     else do {
       flt \<leftarrow> io_fault;
       if flt \<noteq> None \<or> \<not> executable_name be src name then ret None
       else copy_whole (path_join [src, name]) (path_join [dst, name]) })"

definition copy_all_binaries :: "binary_env \<Rightarrow> string \<Rightarrow> string \<Rightarrow> err option io" where
  "copy_all_binaries be src dst = do {
     es \<leftarrow> os_read_dir src;
     case es of
       Inl x \<Rightarrow> ret (Some (os_msg x))
     | Inr entries \<Rightarrow> for_each (copy_binary be src dst) entries }"

section \<open>The shell\<close>

text \<open>A temporary file that holds what was downloaded, removed in the end.\<close>

definition with_download :: "binary_env \<Rightarrow> string \<Rightarrow> string res \<Rightarrow> (string \<Rightarrow> unit res io) \<Rightarrow> unit res io" where
  "with_download be pat body f = do {
     t \<leftarrow> be_temp_file be pat;
     case t of
       Inl x \<Rightarrow> ret (Err (wrapf ''failed to create temp file'' x))
     | Inr tmp \<Rightarrow> do {
         r \<leftarrow> (case body of
             Inl x \<Rightarrow> ret (Err (wrapf ''failed to download to temp file'' x))
           | Inr data \<Rightarrow> do {
               w \<leftarrow> write_file tmp data;
               case w of
                 Some x \<Rightarrow> ret (Err (wrapf ''failed to download to temp file'' (os_msg x)))
               | None \<Rightarrow> f data });
         _ \<leftarrow> os_remove tmp;
         ret r } }"

definition place_mongosh :: "binary_env \<Rightarrow> platform \<Rightarrow> string \<Rightarrow> string \<Rightarrow> err option io" where
  "place_mongosh be p dir bin_path = do {
     f \<leftarrow> find_mongosh_binary dir p;
     case f of
       Inl x \<Rightarrow> ret (Some (wrapf ''failed to find mongosh binary'' x))
     | Inr found \<Rightarrow> do {
         r \<leftarrow> os_read_file found;
         case r of
           Inl x \<Rightarrow> ret (Some (wrapf ''failed to read mongosh binary'' (os_msg x)))
         | Inr data \<Rightarrow> do {
             s \<leftarrow> os_stat found;
             case s of
               Inl x \<Rightarrow> ret (Some (wrapf ''failed to stat mongosh binary'' (os_msg x)))
             | Inr _ \<Rightarrow> do {
                 w \<leftarrow> os_write_file (path_join [bin_path, path_base found]) data;
                 ret (map_option (\<lambda>x. wrapf ''failed to write mongosh binary'' (os_msg x)) w) } } } }"

definition install_mongosh :: "binary_env \<Rightarrow> platform \<Rightarrow> string \<Rightarrow> string res \<Rightarrow> err option io" where
  "install_mongosh be p bin_path body = (let tag = mongosh_version @ ''-'' @ platform_key p in do {
     r \<leftarrow> with_temp_dir be (''mongosh-'' @ tag @ ''-*'') (\<lambda>dir.
       with_download be (''mongosh-'' @ platform_key p @ ''-*.'' @ mongosh_extension (pf_os p)) body (\<lambda>data. do {
         e \<leftarrow> (if pf_os p = ''darwin'' then do {
                 e \<leftarrow> extract_zip_archive be data dir;
                 ret (map_option (wrapf ''failed to extract mongosh zip archive'') e) }
               else do {
                 e \<leftarrow> extract_archive be data dir;
                 ret (map_option (wrapf ''failed to extract mongosh archive'') e) });
         case e of
           Some x \<Rightarrow> ret (Err x)
         | None \<Rightarrow> do { e \<leftarrow> place_mongosh be p dir bin_path; ret (from_error e) } }));
     ret (to_error r) })"

definition ensure_mongosh :: "binary_env \<Rightarrow> string \<Rightarrow> platform \<Rightarrow> string \<Rightarrow> err option io" where
  "ensure_mongosh be version p bin_path = do {
     s \<leftarrow> os_stat (path_join [bin_path, exe (pf_os p) ''mongosh'']);
     case s of
       Inr _ \<Rightarrow> ret None
     | Inl _ \<Rightarrow> let parts = split_on CHR ''.'' version in
         if length parts < 2 then ret (Some ''invalid version format for mongosh check'')
         else if hd parts < ''4'' then ret None
         else do {
           u \<leftarrow> get_mongosh_url be p;
           case u of
             Inl x \<Rightarrow> ret (Some (wrapf ''failed to get mongosh download URL'' x))
           | Inr url \<Rightarrow> do {
               r \<leftarrow> download_body be '' mongosh'' url;
               case r of
                 Inl x \<Rightarrow> ret (Some x)
               | Inr body \<Rightarrow> install_mongosh be p bin_path body } } }"

definition ensure_mongo :: "platform \<Rightarrow> string \<Rightarrow> err option io" where
  "ensure_mongo p bin_path = do {
     s \<leftarrow> os_stat (path_join [bin_path, exe (pf_os p) ''mongo'']);
     ret (case s of
       Inr _ \<Rightarrow> None
     | Inl _ \<Rightarrow> Some ''mongo binary not found in binPath (expected in server archive for MongoDB < 4.0)'') }"

text \<open>The failure to provide a shell is only printed.\<close>

definition ensure_shell :: "binary_env \<Rightarrow> string \<Rightarrow> platform \<Rightarrow> string \<Rightarrow> unit io" where
  "ensure_shell be version p bin_path = (let parts = split_on CHR ''.'' version in
     if length parts < 2 then ret ()
     else do {
       _ \<leftarrow> (if hd parts \<ge> ''4'' then ensure_mongosh be version p bin_path else ensure_mongo p bin_path);
       ret () })"

section \<open>Downloading a release\<close>

definition cache_dir_of :: "binary_manager \<Rightarrow> variant \<Rightarrow> string \<Rightarrow> platform \<Rightarrow> string" where
  "cache_dir_of bg v version p = path_join [bg_cache bg, variant_string v @ ''-'' @ version @ ''-'' @ platform_key p]"

definition bin_dir_of :: "binary_manager \<Rightarrow> variant \<Rightarrow> string \<Rightarrow> platform \<Rightarrow> string" where
  "bin_dir_of bg v version p = path_join [cache_dir_of bg v version p, ''bin'']"

text \<open>A release counts as there when its directory and the file of \<^verbatim>\<open>mongod\<close> exist.\<close>

definition is_cached :: "string \<Rightarrow> platform \<Rightarrow> bool io" where
  "is_cached bin_path p = do {
     s \<leftarrow> os_stat bin_path;
     case s of
       Inl _ \<Rightarrow> ret False
     | Inr _ \<Rightarrow> do { t \<leftarrow> os_stat (path_join [bin_path, exe (pf_os p) ''mongod'']); ret (case t of Inr _ \<Rightarrow> True | Inl _ \<Rightarrow> False) } }"

text \<open>What is to be fetched: from an address for a platform, out of packages, or nothing because it is there already.\<close>

datatype fetch_plan = FromTarball string platform | FromPackages "(string, string) gomap" | AlreadyThere platform

definition x86_mac :: platform where "x86_mac = \<lparr>pf_os = ''darwin'', pf_arch = ''amd64''\<rparr>"

definition plan_mongo :: "binary_env \<Rightarrow> binary_manager \<Rightarrow> string \<Rightarrow> platform \<Rightarrow> fetch_plan res binary_prog" where
  "plan_mongo be bg version p = do {
     u \<leftarrow> get_download_url be bg version p;
     case u of
       Inr url \<Rightarrow> ret (Ok (FromTarball url p))
     | Inl x \<Rightarrow>
         if p \<noteq> \<lparr>pf_os = ''darwin'', pf_arch = ''arm64''\<rparr> then ret (Err (wrapf ''failed to get download URL'' x))
         else do {
           u \<leftarrow> get_download_url be bg version x86_mac;
           case u of
             Inl x \<Rightarrow> ret (Err (wrapf ''failed to get download URL (tried arm64 and x86_64)'' x))
           | Inr url \<Rightarrow> do {
               there \<leftarrow> on_os (is_cached (bin_dir_of bg VariantMongo version x86_mac) x86_mac);
               ret (Ok (if there then AlreadyThere x86_mac else FromTarball url x86_mac)) } } }"

definition plan_percona :: "binary_env \<Rightarrow> string \<Rightarrow> platform \<Rightarrow> fetch_plan res io" where
  "plan_percona be version p = do {
     u \<leftarrow> build_percona_url be version p;
     case u of
       Inr url \<Rightarrow> ret (Ok (FromTarball url p))
     | Inl _ \<Rightarrow> do {
         d \<leftarrow> build_percona_deb_urls be version p;
         ret (case d of
           Inl x \<Rightarrow> Err (wrapf ''failed to get Percona binaries: no tarballs or .deb packages available'' x)
         | Inr urls \<Rightarrow> Ok (FromPackages urls)) } }"

definition unpack_release :: "binary_env \<Rightarrow> string \<Rightarrow> string \<Rightarrow> string \<Rightarrow> err option io" where
  "unpack_release be data dir bin_path = do {
     e \<leftarrow> extract_archive be data dir;
     case e of
       Some x \<Rightarrow> ret (Some (wrapf ''failed to extract archive'' x))
     | None \<Rightarrow> do {
         b \<leftarrow> find_bin_directory dir;
         case b of
           Inl x \<Rightarrow> ret (Some (wrapf ''failed to find bin directory'' x))
         | Inr src \<Rightarrow> do {
             e \<leftarrow> copy_all_binaries be src bin_path;
             ret (map_option (wrapf ''failed to copy binaries'') e) } } }"

definition fetch_tarball :: "binary_env \<Rightarrow> string \<Rightarrow> platform \<Rightarrow> string \<Rightarrow> string \<Rightarrow> err option io" where
  "fetch_tarball be version p url bin_path = do {
     r \<leftarrow> download_body be [] url;
     case r of
       Inl x \<Rightarrow> ret (Some x)
     | Inr body \<Rightarrow> do {
         r \<leftarrow> with_temp_dir be (''mongodb-'' @ version @ ''-'' @ platform_key p @ ''-*'') (\<lambda>dir.
           with_download be (''mongodb-'' @ platform_key p @ ''-*.tgz'') body (\<lambda>data. do {
             e \<leftarrow> unpack_release be data dir bin_path;
             ret (from_error e) }));
         ret (to_error r) } }"

definition fetch_release :: "binary_env \<Rightarrow> string \<Rightarrow> fetch_plan \<Rightarrow> platform \<Rightarrow> string \<Rightarrow> err option io" where
  "fetch_release be version f p bin_path = do {
     e \<leftarrow> make_dir ''cache directory'' bin_path;
     case e of
       Some x \<Rightarrow> ret (Some x)
     | None \<Rightarrow> (case f of
         FromTarball url _ \<Rightarrow> fetch_tarball be version p url bin_path
       | FromPackages urls \<Rightarrow> do {
           e \<leftarrow> download_and_extract_deb_packages be urls bin_path;
           ret (map_option (wrapf ''failed to download and extract .deb packages'') e) }
       | AlreadyThere _ \<Rightarrow> ret None) }"

definition fetched_platform :: "fetch_plan \<Rightarrow> platform \<Rightarrow> platform" where
  "fetched_platform f p = (case f of FromTarball _ q \<Rightarrow> q | AlreadyThere q \<Rightarrow> q | FromPackages _ \<Rightarrow> p)"

definition download_with_variant :: "binary_env \<Rightarrow> binary_manager \<Rightarrow> string \<Rightarrow> variant \<Rightarrow> platform \<Rightarrow> string res binary_prog" where
  "download_with_variant be bg version v p = do {
     there \<leftarrow> on_os (is_cached (bin_dir_of bg v version p) p);
     if there then do { _ \<leftarrow> on_os (ensure_shell be version p (bin_dir_of bg v version p)); ret (Ok (bin_dir_of bg v version p)) }
     else do {
       f \<leftarrow> (case v of VariantMongo \<Rightarrow> plan_mongo be bg version p | VariantPercona \<Rightarrow> on_os (plan_percona be version p));
       case f of
         Inl x \<Rightarrow> ret (Err x)
       | Inr f \<Rightarrow> let q = fetched_platform f p; bin_path = bin_dir_of bg v version q in
           (case f of
              AlreadyThere _ \<Rightarrow> ret (Ok bin_path)
            | _ \<Rightarrow> do {
                e \<leftarrow> on_os (fetch_release be version f q bin_path);
                case e of
                  Some x \<Rightarrow> ret (Err x)
                | None \<Rightarrow> do { _ \<leftarrow> on_os (ensure_shell be version q bin_path); ret (Ok bin_path) } }) } }"

definition remember_path :: "string \<Rightarrow> string \<Rightarrow> unit binary_prog" where
  "remember_path key path = on_host (State_Monad.update (\<lambda>m. m\<lparr>bm_paths := mput key path (bm_paths m)\<rparr>))"

definition cache_key :: "string \<Rightarrow> variant \<Rightarrow> platform \<Rightarrow> string" where
  "cache_key version v p = variant_string v @ ''-'' @ version @ ''-'' @ platform_key p"

definition get_bin_path_with_variant :: "binary_env \<Rightarrow> binary_manager \<Rightarrow> string \<Rightarrow> variant \<Rightarrow> platform \<Rightarrow> string res binary_prog" where
  "get_bin_path_with_variant be bg version v p = do {
     m \<leftarrow> on_host State_Monad.get;
     case mget (bm_paths m) (cache_key version v p) of
       Some path \<Rightarrow> ret (Ok path)
     | None \<Rightarrow> do {
         rv \<leftarrow> (if v = VariantMongo then do { r \<leftarrow> resolve_version be bg version; ret (wrap_err ''failed to resolve version'' r) }
               else ret (Ok version));
         case rv of
           Inl x \<Rightarrow> ret (Err x)
         | Inr resolved \<Rightarrow> do {
             r \<leftarrow> download_with_variant be bg resolved v p;
             case r of
               Inl x \<Rightarrow> ret (Err (wrapf (''failed to download '' @ variant_string v @ '' '' @ resolved @ '' for platform '' @ platform_key p) x))
             | Inr path \<Rightarrow> do { _ \<leftarrow> remember_path (cache_key version v p) path; ret (Ok path) } } } }"

definition get_bin_path_for_platform :: "binary_env \<Rightarrow> binary_manager \<Rightarrow> string \<Rightarrow> platform \<Rightarrow> string res binary_prog" where
  "get_bin_path_for_platform be bg version p = get_bin_path_with_variant be bg version VariantMongo p"

definition download_for_platform :: "binary_env \<Rightarrow> binary_manager \<Rightarrow> string \<Rightarrow> platform \<Rightarrow> string res binary_prog" where
  "download_for_platform be bg version p = download_with_variant be bg version VariantMongo p"

end
