(* ===== verification/Binary_Claims.thy ===== *)
theory Binary_Claims imports Binary_Manager begin

text \<open>
  What the binary manager promises: an archive whose names do not climb stays inside the directory it is taken out to, a path
  that was handed out is handed out again, and a short version resolves to the latest release of its line.
\<close>

section \<open>Names of entries\<close>

lemma clean_comps_kept:
  assumes "comps_ok st" "dotdot \<notin> set cs" "\<forall>c \<in> set cs. slash \<notin> set c"
  shows "\<exists>ds. comps_ok ds \<and> clean_comps r (rev st) cs = st @ ds"
  using assms
proof (induction cs arbitrary: st)
  case (Cons c cs)
  show ?case
  proof (cases "c = [] \<or> c = dot")
    case False
    then have "comp_ok c" using Cons.prems by (auto simp: comp_ok_def)
    then show ?thesis using Cons.IH [of "st @ [c]"] Cons.prems False by auto
  qed (use Cons in auto)
qed (auto intro: exI [of _ "[]"])

lemma path_join_rest:
  assumes "comps_ok ts" "comps_ok ds"
  shows "path_join [abs_path ts, join_with [slash] ds] = abs_path (ts @ ds)" "path_join [abs_path ts, dot] = abs_path ts"
proof -
  have "comps_ok ts \<Longrightarrow> clean_comps True [] (split_on slash (abs_path ts) @ xs) = clean_comps True (rev ts) xs" for xs
    by (cases "ts = []") (auto simp: split_abs_path clean_comps_ok)
  moreover have "split_on slash (join_with [slash] ds) = (if ds = [] then [[]] else ds)"
    using assms(2) by (auto intro!: split_join dest: comps_ok_no_slash)
  moreover have "is_abs (abs_path ts @ s)" for s by (simp add: abs_path_def)
  ultimately show "path_join [abs_path ts, join_with [slash] ds] = abs_path (ts @ ds)" "path_join [abs_path ts, dot] = abs_path ts"
    using assms by (auto simp: path_join_def path_clean_def split_on_append_abs Let_def abs_path_def [of "_ @ _"] dot_def abs_path_def [of ts, symmetric])
qed

lemma path_join_relative:
  assumes "dotdot \<notin> set cs" "\<forall>c \<in> set cs. slash \<notin> set c"
  shows "path_join cs = dot \<or> (\<exists>ds. comps_ok ds \<and> path_join cs = join_with [slash] ds)"
proof (cases "dropWhile (\<lambda>c. c = []) cs")
  case Nil
  then have "path_join cs = join_with [slash] []" unfolding path_join_def Nil by simp
  then show ?thesis using comps_ok_simps(1) by blast
next
  case (Cons x xs)
  have sub: "set (x # xs) \<subseteq> set cs" using set_dropWhileD [of _ "\<lambda>c. c = []" cs] Cons by (metis subsetI)
  have x: "x \<noteq> []" using hd_dropWhile [of "\<lambda>c. c = []" cs] Cons by simp
  have split: "split_on slash (join_with [slash] (x # xs)) = x # xs"
    using assms(2) sub by (intro split_join) auto
  have rel: "\<not> is_abs (join_with [slash] (x # xs))" "join_with [slash] (x # xs) \<noteq> []"
    using x assms(2) sub by (cases xs; cases x; auto simp: is_abs_def)+
  obtain ds where ds: "comps_ok ds" "clean_comps False [] (x # xs) = ds"
    using clean_comps_kept [of "[]" "x # xs" False] assms sub by (metis append_Nil comps_ok_simps(1) rev.simps(1) subsetD)
  have "path_join cs = (if join_with [slash] ds = [] then dot else join_with [slash] ds)"
    using Cons rel split ds(2) by (simp add: path_join_def path_clean_def del: clean_comps.simps join_with.simps split_on.simps)
  with ds(1) show ?thesis by metis
qed

lemma entry_path_inside:
  assumes "comps_ok ts" "entry_path (abs_path ts) name = Some p" "dotdot \<notin> set (split_on slash name)"
  shows "\<exists>ds. comps_ok ds \<and> p = abs_path (ts @ ds)"
proof -
  obtain x c cs where s: "split_on slash name = x # c # cs" "p = path_join [abs_path ts, path_join (c # cs)]"
    using assms(2) by (auto simp: entry_path_def split: list.splits)
  have "dotdot \<notin> set (c # cs)" "\<forall>c \<in> set (c # cs). slash \<notin> set c"
    using assms(3) split_on_pieces [of _ slash name] s(1) by auto
  from path_join_relative [OF this] show ?thesis
    using path_join_rest [OF assms(1)] assms(1) unfolding s(2) by (metis append_Nil2 comps_ok_simps(1))
qed

text \<open>A name that climbs leaves the directory: nothing in the code looks at where an entry goes.\<close>

lemma entry_path_escapes: "entry_path ''/tmp/x'' ''a/../../etc/passwd'' = Some ''/etc/passwd''"
  by (simp add: entry_path_def path_join_def path_clean_def dot_def dotdot_def is_abs_def)

section \<open>Extraction stays inside\<close>

text \<open>Since \<open>f\<close> files have changed below \<open>t\<close> only, where there are no links, and the directories down to \<open>t\<close> are there.\<close>

definition inside :: "string list \<Rightarrow> fs \<Rightarrow> fs \<Rightarrow> bool" where
  "inside ts f g = (fs_same_except {q. below (abs_path ts) q} f g \<and> (\<forall>q. below (abs_path ts) q \<longrightarrow> \<not> is_link g q)
     \<and> (\<forall>k \<le> length ts. is_dir g (abs_path (take k ts))))"

lemma below_abs_path: "comps_ok ts \<Longrightarrow> ts \<noteq> [] \<Longrightarrow> below (abs_path ts) (abs_path (ts @ ds))"
  by (cases "ds = []") (auto simp: below_def abs_path_def join_with_append)

lemma prefixes_abs_path: "comps_ok cs \<Longrightarrow> cs \<noteq> [] \<Longrightarrow> set (path_prefixes (abs_path cs)) = (\<lambda>k. abs_path (take k cs)) ` {1..length cs}"
  by (auto simp: path_prefixes_def split_abs_path Let_def intro!: image_eqI)

lemma inside_put:
  "inside ts f g \<Longrightarrow> below (abs_path ts) q \<Longrightarrow> is_dir g q \<longrightarrow> n = FDir \<Longrightarrow> (\<And>t. n \<noteq> FLink t) \<Longrightarrow> inside ts f (mput q n g)"
  by (cases n) (auto simp: inside_def fs_same_except_def is_link_def is_dir_def)

lemma inside_mkdirs:
  "inside ts f g \<Longrightarrow> \<forall>p \<in> set ps. is_dir g p \<or> below (abs_path ts) p \<Longrightarrow> inside ts f (snd (mkdirs ps g))"
proof (induction ps arbitrary: g)
  case (Cons p ps)
  show ?case
  proof (cases "is_dir g p \<or> mhas g p")
    case False
    then have "inside ts f (mput p FDir g)" using Cons.prems by (intro inside_put) auto
    moreover have "is_dir g x \<Longrightarrow> is_dir (mput p FDir g) x" for x by (auto simp: is_dir_def)
    ultimately show ?thesis using Cons False by auto
  qed (use Cons in auto)
qed simp

lemma inside_mkdir_all:
  assumes ok: "comps_ok ts" "ts \<noteq> []" and ds: "comps_ok ds" and w: "inside ts f (w_fs w)"
  shows "wp (os_mkdir_all (abs_path (ts @ ds))) (\<lambda>_ w'. inside ts f (w_fs w')) w"
proof -
  have "is_dir (w_fs w) p \<or> below (abs_path ts) p" if "p \<in> set (path_prefixes (abs_path (ts @ ds)))" for p
  proof -
    obtain k where "p = abs_path (take k (ts @ ds))"
      using \<open>p \<in> _\<close> ok ds by (auto simp: prefixes_abs_path)
    then show ?thesis
      using w below_abs_path [OF ok] by (cases "k \<le> length ts") (auto simp: inside_def)
  qed
  then have "inside ts f (snd (mkdirs (path_prefixes (abs_path (ts @ ds))) (w_fs w)))"
    using w by (intro inside_mkdirs) auto
  then show ?thesis
    using w by (auto simp: os_mkdir_all_def split: option.split prod.split)
qed

text \<open>The parent of what lies inside is inside, or above and there already.\<close>

lemma inside_parent:
  assumes ok: "comps_ok ts" "ts \<noteq> []" and ds: "comps_ok ds" and w: "inside ts f (w_fs w)"
  shows "wp (os_mkdir_all (path_dir (abs_path (ts @ ds)))) (\<lambda>_ w'. inside ts f (w_fs w')) w"
proof (cases ds rule: rev_cases)
  case (snoc es d)
  then have "path_dir (abs_path (ts @ ds)) = abs_path (ts @ es)" using ok ds by (simp flip: append_assoc)
  then show ?thesis using inside_mkdir_all [OF ok _ w, of es] ds snoc by simp
next
  case Nil
  obtain us u where u: "ts = us @ [u]" using ok(2) by (cases ts rule: rev_cases) auto
  have "mkdirs ps g = (None, g)" if "\<forall>p \<in> set ps. is_dir g p" for ps g
    using that by (induction ps) auto
  moreover have "is_dir (w_fs w) p" if p: "p \<in> set (path_prefixes (abs_path us))" for p
  proof (cases "us = []")
    case True
    then show ?thesis using p by (auto simp: path_prefixes_def abs_path_def is_dir_def path_clean_def is_abs_def)
  next
    case False
    then obtain k where "p = abs_path (take k us)" "k \<le> length us"
      using p ok u by (auto simp: prefixes_abs_path)
    then show ?thesis using w u by (auto simp: inside_def dest: spec [of _ k])
  qed
  ultimately have "mkdirs (path_prefixes (abs_path us)) (w_fs w) = (None, w_fs w)" by blast
  then show ?thesis
    using w ok u Nil by (auto simp: os_mkdir_all_def split: option.split prod.split)
qed

lemma inside_create:
  assumes ok: "comps_ok ts" "ts \<noteq> []" and ds: "comps_ok ds" and w: "inside ts f (w_fs w)"
  shows "wp (os_create (abs_path (ts @ ds))) (\<lambda>r w'. inside ts f (w_fs w') \<and> (\<forall>q. r = Inr q \<longrightarrow> q = abs_path (ts @ ds) \<and> \<not> is_dir (w_fs w') q)) w"
proof -
  let ?p = "abs_path (ts @ ds)"
  have b: "below (abs_path ts) ?p" by (rule below_abs_path [OF ok])
  then have "fs_follow (w_fs w) ?p = Some ?p" using w ok ds by (subst fs_follow_plain) (auto simp: inside_def)
  moreover have "\<not> is_dir (w_fs w) ?p \<Longrightarrow> inside ts f (mput ?p (FFile (Text []) t) (w_fs w))" for t
    using inside_put [OF w b, of "FFile (Text []) t"] by blast
  moreover have "\<not> is_dir (w_fs w) ?p \<Longrightarrow> \<not> is_dir (mput ?p (FFile (Text []) t) (w_fs w)) ?p" for t
    by (simp add: is_dir_def)
  ultimately show ?thesis using w by (auto simp: os_create_def split: option.split)
qed

lemma inside_write_file:
  assumes "below (abs_path ts) q" "inside ts f (w_fs w)" "\<not> is_dir (w_fs w) q"
  shows "wp (write_file q s) (\<lambda>_ w'. inside ts f (w_fs w')) w"
proof -
  have "inside ts f (append_text q s t (w_fs w))" for s t
    using assms by (auto simp: append_text_def intro!: inside_put split: option.split fnode.split fcontent.split)
  then show ?thesis using assms(2) by (auto simp: write_file_def split: option.split fault.split)
qed

lemma inside_write_entry:
  assumes ok: "comps_ok ts" "ts \<noteq> []" and ds: "comps_ok ds" and w: "inside ts f (w_fs w)"
  shows "wp (write_entry e (abs_path (ts @ ds))) (\<lambda>_ w'. inside ts f (w_fs w')) w"
  unfolding write_entry_def wp_bind
  by (rule wp_mono [OF inside_create [OF assms]])
    (auto split: sum.split intro!: wp_mono [OF inside_write_file] below_abs_path [OF ok])

lemma inside_extract_entry:
  assumes ok: "comps_ok ts" "ts \<noteq> []" and name: "dotdot \<notin> set (split_on slash (ae_name e))"
  shows "keeps (\<lambda>w. inside ts f (w_fs w)) (extract_entry (abs_path ts) e)"
proof (rule keepsI)
  fix w :: world
  assume w: "inside ts f (w_fs w)"
  show "wp (extract_entry (abs_path ts) e) (\<lambda>_ w'. inside ts f (w_fs w')) w"
  proof (cases "entry_path (abs_path ts) (ae_name e)")
    case (Some p)
    then obtain ds where ds: "comps_ok ds" "p = abs_path (ts @ ds)"
      using entry_path_inside [OF ok(1) _ name] by blast
    note dir = inside_mkdir_all [OF ok ds(1) w] and parent = inside_parent [OF ok ds(1) w]
    have "wp (extract_file e p) (\<lambda>_ w'. inside ts f (w_fs w')) w"
      unfolding extract_file_def make_dir_def wp_bind ds(2)
      by (rule wp_mono [OF parent]) (auto split: option.split intro!: inside_write_entry ok ds(1))
    moreover have "wp (make_dir what p) (\<lambda>_ w'. inside ts f (w_fs w')) w" for what
      unfolding make_dir_def wp_bind ds(2) by (rule wp_mono [OF dir]) auto
    ultimately show ?thesis using w by (simp add: extract_entry_def Some split: entry_kind.split)
  qed (use w in \<open>simp add: extract_entry_def\<close>)
qed

text \<open>An entry that is a file is one afterwards, when nothing failed.\<close>

lemma grows_write_entry [grows]: "keeps (grown f) (write_entry e p)"
  unfolding write_entry_def by (intro keeps_intros grows)

lemma grows_extract_entry [grows]: "keeps (grown f) (extract_entry target e)"
  unfolding extract_entry_def extract_file_def make_dir_def
  by (cases "ae_kind e") (auto intro!: keeps_intros grows)

definition extracted :: "string \<Rightarrow> archive_entry \<Rightarrow> world \<Rightarrow> bool" where
  "extracted target e w = (\<forall>p. ae_kind e = EntryFile \<longrightarrow> entry_path target (ae_name e) = Some p \<longrightarrow> is_file (w_fs w) p)"

lemma wp_write_entry: "wp (write_entry e p) (\<lambda>x w'. x = None \<longrightarrow> is_file (w_fs w') p) w"
  unfolding write_entry_def wp_bind
proof (rule wp_create)
  fix q t and w1 :: world
  assume there: "is_file (w_fs w1) p"
  have "wp (write_file q (ae_bytes e)) (\<lambda>_ w'. is_file (w_fs w') p) w1"
    by (rule wp_grown [OF grows_write_file]) (rule fs_grows_is_file [OF _ there])
  then show "wp (case Inr q of Inl x \<Rightarrow> ret (Some (wrapf ''failed to create file'' (os_msg x)))
       | Inr q \<Rightarrow> do {
           w \<leftarrow> write_file q (ae_bytes e);
           ret (case w of
             Some x \<Rightarrow> Some (wrapf ''failed to write file'' (os_msg x))
           | None \<Rightarrow> map_option (wrapf ''failed to write file'') (ae_error e)) })
     (\<lambda>x w'. x = None \<longrightarrow> is_file (w_fs w') p) w1"
    by (auto elim!: wp_mono)
qed simp

lemma extracted_entry: "wp (extract_entry target e) (\<lambda>x w'. x = None \<longrightarrow> extracted target e w') w"
proof (cases "ae_kind e = EntryFile \<and> entry_path target (ae_name e) \<noteq> None")
  case True
  then obtain p where p: "entry_path target (ae_name e) = Some p" by auto
  have "wp (extract_file e p) (\<lambda>x w'. x = None \<longrightarrow> is_file (w_fs w') p) w"
    unfolding extract_file_def make_dir_def
    by (auto split: option.split intro!: wp_mkdir_all wp_write_entry)
  then show ?thesis using True p by (auto simp: extract_entry_def extracted_def elim!: wp_mono)
qed (auto simp: extracted_def intro!: wpI)

lemma extracted_kept: "extracted target x w \<Longrightarrow> wp (extract_entry target e) (\<lambda>_ w'. extracted target x w') w"
  by (rule wp_grown [OF grows_extract_entry]) (auto simp: extracted_def intro: fs_grows_is_file)

lemma wp_for_each_all:
  assumes "\<And>x w. wp (body x) (\<lambda>e w'. e = None \<longrightarrow> P x w') w" "\<And>x y w. P x w \<Longrightarrow> wp (body y) (\<lambda>_ w'. P x w') w"
  shows "wp (for_each body xs) (\<lambda>e w'. e = None \<longrightarrow> (\<forall>x \<in> set xs. P x w')) w"
proof (induction xs arbitrary: w)
  case (Cons x xs)
  have k: "keeps (P x) (for_each body xs)" by (intro keeps_for_each keepsI assms(2))
  have "wp (for_each body xs) (\<lambda>e w'. e = None \<longrightarrow> P x w' \<and> (\<forall>y \<in> set xs. P y w')) w" if "P x w" for w
    using keepsD [OF k that] Cons.IH [of w] by (auto simp: wp_def split: prod.splits)
  then show ?case
    unfolding for_each.simps wp_bind by (intro wp_mono [OF assms(1)]) (auto split: option.split elim!: wp_mono)
qed simp

text \<open>A directory that is ready: it and what it lies in are there, and there are no links in it.\<close>

definition ready_dir :: "string list \<Rightarrow> fs \<Rightarrow> bool" where
  "ready_dir ts f = (comps_ok ts \<and> ts \<noteq> [] \<and> (\<forall>k \<le> length ts. is_dir f (abs_path (take k ts)))
     \<and> (\<forall>q. below (abs_path ts) q \<longrightarrow> \<not> is_link f q))"

definition no_climbing :: "archive_entry list \<Rightarrow> bool" where
  "no_climbing es = list_all (\<lambda>e. dotdot \<notin> set (split_on slash (ae_name e))) es"

lemma extract_entries_inside:
  assumes "ready_dir ts (w_fs w)" "no_climbing es"
  shows "wp (for_each (extract_entry (abs_path ts)) es) (\<lambda>x w'. inside ts (w_fs w) (w_fs w') \<and>
    (x = None \<longrightarrow> (\<forall>e \<in> set es. extracted (abs_path ts) e w'))) w"
proof -
  have "keeps (\<lambda>w'. inside ts (w_fs w) (w_fs w')) (for_each (extract_entry (abs_path ts)) es)"
    using assms by (intro keeps_for_each inside_extract_entry) (auto simp: ready_dir_def no_climbing_def list_all_iff)
  moreover have "inside ts (w_fs w) (w_fs w)" using assms(1) by (simp add: inside_def ready_dir_def)
  ultimately have "wp (for_each (extract_entry (abs_path ts)) es) (\<lambda>x w'. inside ts (w_fs w) (w_fs w')) w"
    by (rule keepsD)
  then show ?thesis
    using wp_for_each_all [of "extract_entry (abs_path ts)" "extracted (abs_path ts)" es w, OF extracted_entry extracted_kept]
    by (simp add: wp_conj)
qed

text \<open>
  C26. An archive of MongoDB none of whose names has a component \<^verbatim>\<open>..\<close> is taken out below the target directory only, when that
  directory and what it lies in are there and hold no links: every other path is what it was, whatever fails. When nothing fails
  each of its files whose name has two components at least is a file at its place.
\<close>
theorem archives_stay_inside:
  assumes "ready_dir ts (w_fs w)" "be_tar_gz be archive = Inr (es, failure)" "no_climbing es"
  shows "wp (extract_archive be archive (abs_path ts)) (\<lambda>x w'.
    fs_same_except {q. below (abs_path ts) q} (w_fs w) (w_fs w') \<and>
    (x = None \<longrightarrow> (\<forall>e \<in> set es. extracted (abs_path ts) e w'))) w"
proof -
  let ?es = "map (\<lambda>e. e\<lparr>ae_open := None\<rparr>) es"
  have "no_climbing ?es" using assms(3) by (simp add: no_climbing_def list_all_iff)
  from extract_entries_inside [OF assms(1) this] show ?thesis
    unfolding extract_archive_def assms(2)
    by (auto simp: inside_def extracted_def split: option.split elim!: wp_mono)
qed

text \<open>An archive of one file, on a machine where the network answers nothing.\<close>

definition example_binary_env :: "archive_entry list \<Rightarrow> binary_env" where
  "example_binary_env es = \<lparr>be_get = (\<lambda>_. ret (Err ''no network'')), be_head = (\<lambda>_. ret (Err ''no network'')),
     be_releases = (\<lambda>_. Err ''no list''), be_compare = (\<lambda>a b. int (length a) - int (length b)), be_tar_gz = (\<lambda>_. Ok (es, None)),
     be_zip = (\<lambda>_. Ok es), be_data_tar = (\<lambda>_ _. ret (Ok (es, None))), be_ar = (\<lambda>_ _. ret ([], None)),
     be_temp_dir = (\<lambda>_. ret (Ok ''/tmp/d'')), be_temp_file = (\<lambda>_. ret (Ok ''/tmp/f'')), be_executable = (\<lambda>_. True),
     be_os = ''linux'', be_arch = ''amd64'', be_home = Ok ''/root'', be_walk = rev, be_order = rev\<rparr>"

definition example_entry :: archive_entry where
  "example_entry = \<lparr>ae_name = ''m/mongod'', ae_kind = EntryFile, ae_bytes = ''ELF'', ae_error = None, ae_open = None\<rparr>"

lemma archives_stay_inside_witness:
  "wp (extract_archive (example_binary_env [example_entry]) [] (abs_path [''t''])) (\<lambda>x w'.
     fs_same_except {q. below (abs_path [''t'']) q} [(abs_path [''t''], FDir)] (w_fs w') \<and>
     (x = None \<longrightarrow> is_file (w_fs w') (abs_path [''t'', ''mongod'']))) (example_world\<lparr>w_fs := [(abs_path [''t''], FDir)]\<rparr>)"
proof -
  have path: "entry_path (abs_path [''t'']) ''m/mongod'' = Some (abs_path [''t'', ''mongod''])"
    by (simp add: entry_path_def abs_path_def path_join_def path_clean_def is_abs_def dot_def dotdot_def)
  have ready: "ready_dir [''t''] (w_fs (example_world\<lparr>w_fs := [(abs_path [''t''], FDir)]\<rparr>))"
    by (auto simp: ready_dir_def comp_ok_def dot_def dotdot_def is_dir_def is_link_def abs_path_def le_Suc_eq)
  have tar: "be_tar_gz (example_binary_env [example_entry]) [] = Inr ([example_entry], None)" by (simp add: example_binary_env_def)
  have "no_climbing [example_entry]" by (simp add: no_climbing_def example_entry_def dotdot_def)
  from archives_stay_inside [OF ready tar this] show ?thesis
    by (rule wp_mono) (simp add: extracted_def example_entry_def path)
qed

section \<open>What counts as cached\<close>

text \<open>
  On a machine without failures a release counts as there as soon as its directory holds a file \<^verbatim>\<open>mongod\<close>, also one that a copy
  that broke off has left with a part of its bytes.
\<close>

lemma torn_download_counts:
  assumes "quiet w" "comps_ok cs" "cs \<noteq> []" "mget (w_fs w) (abs_path cs) = Some FDir"
    "mget (w_fs w) (abs_path (cs @ [''mongod''])) = Some (FFile torn t)" "pf_os p \<noteq> ''windows''"
  shows "wp (is_cached (abs_path cs) p) (\<lambda>there w'. there \<and> w_fs w' = w_fs w) w"
proof -
  have ok: "comps_ok (cs @ [''mongod''])" using assms(2) by (simp add: comp_ok_def dot_def dotdot_def)
  have mongod: "path_join [abs_path cs, exe (pf_os p) ''mongod''] = abs_path (cs @ [''mongod''])"
    using ok assms(6) path_join_abs [of cs "[''mongod'']"] by (simp add: exe_def)
  have "abs_path (cs @ [''mongod'']) \<noteq> dot" "abs_path (cs @ [''mongod'']) \<noteq> [slash]"
    using assms(3) by (auto simp: abs_path_def dot_def join_with_append)
  then have there: "wp (os_stat (abs_path cs)) (\<lambda>r w'. r = Inr FDir \<and> quiet w' \<and> w_fs w' = w_fs w) w"
    using assms(1,4) fs_follow_plain [of "w_fs w" "abs_path cs"] ok
    by (auto simp: os_stat_def is_link_def is_dir_def quiet_def)
  show ?thesis
    unfolding is_cached_def wp_bind
    by (rule wp_mono [OF there])
      (use assms(5) ok fs_follow_plain [of "w_fs w" "abs_path (cs @ [''mongod''])"] in
        \<open>auto simp: mongod os_stat_def is_link_def is_dir_def quiet_def\<close>)
qed

section \<open>The memory of paths\<close>

lemma path_hit:
  "mget (bm_paths m) (cache_key version v p) = Some path \<Longrightarrow>
   run_state (get_bin_path_with_variant be bg version v p) (w, m) = (Ok path, (w, m))"
  by (simp add: get_bin_path_with_variant_def on_host_def)

lemma run_remember_path:
  "run_state (remember_path key path) (w, m) = ((), (w, m\<lparr>bm_paths := mput key path (bm_paths m)\<rparr>))"
  by (simp add: remember_path_def on_host_def State_Monad.update_def)

text \<open>
  A path that was handed out is handed out again, whatever has become of the machine, the network and the cache: the second
  request does nothing.
\<close>

theorem path_remembered:
  "wp (get_bin_path_with_variant be bg version v p) (\<lambda>r s. \<forall>path. r = Ok path \<longrightarrow>
     (\<forall>be' bg' w. run_state (get_bin_path_with_variant be' bg' version v p) (w, snd s) = (Ok path, (w, snd s)))) s"
proof (rule wpI, intro allI impI, rule path_hit)
  fix r s' path
  assume run: "run_state (get_bin_path_with_variant be bg version v p) s = (r, s')" and r: "r = Ok path"
  show "mget (bm_paths (snd s')) (cache_key version v p) = Some path"
  proof (cases "mget (bm_paths (snd s)) (cache_key version v p)")
    case (Some q)
    then show ?thesis using run r path_hit [OF Some, of be bg "fst s"] by simp
  next
    case None
    then show ?thesis
      using run r by (cases s) (auto simp: get_bin_path_with_variant_def on_host_def run_remember_path split: prod.splits sum.splits if_splits)
  qed
qed

section \<open>The release of a short version\<close>

lemma fold_latest:
  assumes "\<And>a b c. \<not> newer a b \<Longrightarrow> \<not> newer b c \<Longrightarrow> \<not> newer a c" "\<And>a b. newer a b \<Longrightarrow> \<not> newer b a"
  shows "fold (\<lambda>v l. if newer v l then v else l) rs r \<in> set (r # rs) \<and>
    (\<forall>x \<in> set (r # rs). \<not> newer x (fold (\<lambda>v l. if newer v l then v else l) rs r))"
proof (induction rs arbitrary: r)
  case (Cons y rs)
  let ?m = "if newer y r then y else r"
  let ?g = "fold (\<lambda>v l. if newer v l then v else l) rs ?m"
  have IH: "?g \<in> set (?m # rs)" "\<forall>x \<in> set (?m # rs). \<not> newer x ?g" using Cons by blast+
  have "\<not> newer y ?m" "\<not> newer r ?m" using assms(2) by metis+
  moreover have "\<not> newer ?m ?g" using IH(2) by (meson list.set_intros(1))
  ultimately have "\<not> newer y ?g" "\<not> newer r ?g" using assms(1) by blast+
  moreover have "?g \<in> set (r # y # rs)" using IH(1) by (cases "newer y r") auto
  ultimately show ?case using IH(2) by simp
next
  case Nil
  show ?case using assms(2) by simp blast
qed

theorem short_version_is_latest:
  assumes order: "\<And>a b c. be_compare be a b \<le> 0 \<Longrightarrow> be_compare be b c \<le> 0 \<Longrightarrow> be_compare be a c \<le> 0"
      "\<And>a b. be_compare be a b > 0 \<Longrightarrow> be_compare be b a \<le> 0"
    and short: "split_on CHR ''.'' version = [major, minor]" and found: "resolve_in be version rs = Ok full"
  shows "\<exists>r \<in> set rs. rl_version r = full \<and> has_prefix full (version @ ''.'') \<and> \<not> is_prerelease full \<and>
    (\<forall>x \<in> set rs. has_prefix (rl_version x) (version @ ''.'') \<longrightarrow> \<not> is_prerelease (rl_version x) \<longrightarrow>
       be_compare be (''v'' @ rl_version x) (''v'' @ full) \<le> 0)"
proof -
  let ?newer = "\<lambda>v l. be_compare be (''v'' @ rl_version v) (''v'' @ rl_version l) > 0"
  have version: "major_minor_of [major, minor] = version"
    using join_split [of "CHR ''.''" version] unfolding short major_minor_of_def by simp
  obtain r where r: "latest_release be (releases_of version rs) = Some r" "rl_version r = full"
    using found unfolding resolve_in_def Let_def short version by (auto split: option.splits)
  then obtain y ys where y: "releases_of version rs = y # ys" "r = fold (\<lambda>v l. if ?newer v l then v else l) ys y"
    unfolding latest_release_def by (cases "releases_of version rs") (simp_all only: list.case option.distinct option.inject)
  have "r \<in> set (y # ys) \<and> (\<forall>x \<in> set (y # ys). \<not> ?newer x r)"
    unfolding y(2) by (rule fold_latest; unfold not_less) (erule (1) order(1), rule order(2))
  then have "r \<in> set (releases_of version rs) \<and> (\<forall>x \<in> set (releases_of version rs). \<not> ?newer x r)"
    unfolding y(1) .
  then show ?thesis
    unfolding releases_of_def set_filter mem_Collect_eq not_less r(2) [symmetric] by blast
qed

end
