(* ===== verification/Deployer_Init.thy ===== *)
theory Deployer_Init imports Deployer Upgrade_Mongo begin

text \<open>
  \<^verbatim>\<open>pkg/deploy/initialize.go\<close>: the deployment without a plan waits for the processes, initiates the replica sets, then starts
  the routers and adds the shards.

  The context of the caller has no end of its own; a context with a deadline is a reading of the clock. The replica sets are
  initiated at the same time; here they are taken one after the other, in the order \<open>de_shuffle\<close>, in which their results
  arrive. The polls of a port and of a router take fuel; running out of it is the error \<open>polling_on\<close>.
\<close>

section \<open>Waiting for a process\<close>

definition polling_on :: err where "polling_on = ''still polling''"

definition read_log :: "'s deployer \<Rightarrow> string \<Rightarrow> int \<Rightarrow> unit io" where
  "read_log d host port = (case de_supervisor d of
     None \<Rightarrow> ret ()
   | Some _ \<Rightarrow> do { _ \<leftarrow> os_read_file (path_join [deployer_log_dir d ''mongod'' host port, get_log_file_name]); ret () })"

definition poll_node :: "nat \<Rightarrow> 's deployer \<Rightarrow> string \<Rightarrow> int \<Rightarrow> int \<Rightarrow> ('s, bool option res) prog" where
  "poll_node fuel d host port deadline = (case mget (de_executors d) host of
     None \<Rightarrow> do { now \<leftarrow> on_os time_now; ret (if now < deadline then Err nil_executor else Ok (Some False)) }
   | Some hx \<Rightarrow> do { r \<leftarrow> poll_port fuel hx port deadline; ret (Ok r) })"

definition wait_for_node :: "nat \<Rightarrow> 's deployer \<Rightarrow> string \<Rightarrow> int \<Rightarrow> int \<Rightarrow> ('s, err option) prog" where
  "wait_for_node fuel d host port deadline = do {
     r \<leftarrow> poll_node fuel d host port deadline;
     case r of
       Inl x \<Rightarrow> ret (Some x)
     | Inr None \<Rightarrow> ret (Some polling_on)
     | Inr (Some True) \<Rightarrow> ret None
     | Inr (Some False) \<Rightarrow> do {
         _ \<leftarrow> on_os (read_log d host port);
         ret (Some ''timeout waiting for node to be ready'') } }"

definition at_node :: "string \<Rightarrow> string \<Rightarrow> int \<Rightarrow> string" where
  "at_node what host port = what @ '' '' @ host @ '':'' @ itoa port"

definition wait_for_processes :: "nat \<Rightarrow> 's deployer \<Rightarrow> ('s, err option) prog" where
  "wait_for_processes fuel d = do {
     now \<leftarrow> on_os time_now;
     let deadline = now + 120 * second;
     for_each (\<lambda>(what, host, port). do {
         e \<leftarrow> wait_for_node fuel d host port deadline;
         ret (map_option (wrapf (at_node what host port @ '' not ready'')) e) })
       (map (\<lambda>n. (''config server'', cs_host n, cs_port n)) (t_config_svr (de_topology d))
        @ map (\<lambda>n. (''mongod'', md_host n, md_port n)) (t_mongod (de_topology d))) }"

section \<open>Replica sets\<close>

record set_member =
  sm_host :: string
  sm_port :: int
  sm_priority :: rat
  sm_hidden :: bool
  sm_votes :: int

definition or_default :: "'a option \<Rightarrow> 'a \<Rightarrow> 'a" where
  "or_default x y = (case x of None \<Rightarrow> y | Some z \<Rightarrow> z)"

definition mongod_set_member :: "mongod_node \<Rightarrow> set_member" where
  "mongod_set_member n = \<lparr>sm_host = normalize_host (md_host n), sm_port = md_port n, sm_priority = or_default (md_priority n) 1,
     sm_hidden = or_default (md_hidden n) False, sm_votes = or_default (md_votes n) 1\<rparr>"

definition config_set_member :: "config_node \<Rightarrow> set_member" where
  "config_set_member n = \<lparr>sm_host = normalize_host (cs_host n), sm_port = cs_port n, sm_priority = 1, sm_hidden = False, sm_votes = 1\<rparr>"

definition add_member :: "string \<times> set_member \<Rightarrow> (string, set_member list) gomap \<Rightarrow> (string, set_member list) gomap" where
  "add_member x m = (case x of (rs, s) \<Rightarrow> mput rs (or_default (mget m rs) [] @ [s]) m)"

definition named_members :: "topology \<Rightarrow> (string \<times> set_member) list" where
  "named_members t = map (\<lambda>n. (md_replica_set n, mongod_set_member n)) (filter (\<lambda>n. md_replica_set n \<noteq> []) (t_mongod t))
     @ map (\<lambda>n. (cs_replica_set n, config_set_member n)) (t_config_svr t)"

definition collect_replica_sets :: "topology \<Rightarrow> (string, set_member list) gomap" where
  "collect_replica_sets t = fold add_member (named_members t) []"

definition sm_addr :: "set_member \<Rightarrow> string" where "sm_addr m = sm_host m @ '':'' @ itoa (sm_port m)"

text \<open>Fields are left out where they have their default.\<close>

definition set_member_doc :: "nat \<Rightarrow> set_member \<Rightarrow> goval" where
  "set_member_doc i m = GMap ([(''_id'', GInt (int i)), (''host'', GStr (sm_addr m))]
     @ (if sm_priority m \<noteq> 1 then [(''priority'', GFloat (sm_priority m))] else [])
     @ (if sm_hidden m then [(''hidden'', GBool True)] else [])
     @ (if sm_votes m \<noteq> 1 then [(''votes'', GInt (sm_votes m))] else []))"

definition set_docs :: "set_member list \<Rightarrow> goval list" where
  "set_docs ms = map (\<lambda>(i, m). set_member_doc i m) (zip [0..<length ms] ms)"

section \<open>Waiting for a set\<close>

definition states_of :: "doc \<Rightarrow> string list" where
  "states_of status = (case mget status ''members'' of
     Some (GList ms) \<Rightarrow> concat (map (\<lambda>m. case m of GMap d \<Rightarrow> [str_field d ''stateStr''] | _ \<Rightarrow> []) ms)
   | _ \<Rightarrow> [])"

definition set_is_ready :: "doc \<Rightarrow> bool" where
  "set_is_ready status = (let ss = states_of status;
     has_primary = ''PRIMARY'' \<in> set ss;
     all_valid = list_all (\<lambda>s. s \<in> {''PRIMARY'', ''SECONDARY'', ''ARBITER'', []}) ss;
     all_ready = list_all (\<lambda>s. s \<in> {''PRIMARY'', ''SECONDARY'', []}) ss in
     has_primary \<and> all_valid \<and> all_ready)"

fun verify_set :: "nat \<Rightarrow> up_driver \<Rightarrow> string \<Rightarrow> bool io" where
  "verify_set 0 dr uri = ret False"
| "verify_set (Suc n) dr uri = do {
     e \<leftarrow> ud_connect dr uri False;
     case e of
       Some _ \<Rightarrow> verify_set n dr uri
     | None \<Rightarrow> do {
         p \<leftarrow> ud_ping dr uri False;
         if p = None then ret True else verify_set n dr uri } }"

definition check_set :: "up_driver \<Rightarrow> string \<Rightarrow> string \<Rightarrow> bool io" where
  "check_set dr uri full = do {
     e \<leftarrow> ud_connect dr uri True;
     case e of
       Some _ \<Rightarrow> ret False
     | None \<Rightarrow> do {
         s \<leftarrow> ud_run dr uri True ''admin'' status_command;
         case s of
           Inl _ \<Rightarrow> ret False
         | Inr status \<Rightarrow> if set_is_ready status then verify_set 5 dr full else ret False } }"

fun await_set :: "nat \<Rightarrow> up_driver \<Rightarrow> string \<Rightarrow> string \<Rightarrow> string \<Rightarrow> int \<Rightarrow> err option io" where
  "await_set 0 dr rs uri full deadline = ret (Some (''timeout waiting for primary to be elected in replica set '' @ rs))"
| "await_set (Suc n) dr rs uri full deadline = do {
     now \<leftarrow> time_now;
     if deadline \<le> now then ret (Some ''context cancelled while waiting for primary: context deadline exceeded'')
     else do {
       later \<leftarrow> time_now;
       if deadline \<le> later then ret (Some (''timeout waiting for primary election in replica set '' @ rs))
       else do {
         up \<leftarrow> check_set dr uri full;
         if up then ret None else await_set n dr rs uri full deadline } } }"

section \<open>Initiating a set\<close>

definition ghost_text :: "err \<Rightarrow> bool" where
  "ghost_text x = (contains x ''RSGhost'' \<or> contains x ''server selection error'')"

definition await_initiated :: "up_driver \<Rightarrow> string \<Rightarrow> set_member list \<Rightarrow> err option io" where
  "await_initiated dr rs ms = do {
     now \<leftarrow> time_now;
     await_set 60 dr rs (mongo_uri (sm_addr (hd ms))) (set_uri (map sm_addr ms) rs) (now + 120 * second) }"

definition initialize_replica_set :: "up_driver \<Rightarrow> string \<Rightarrow> set_member list \<Rightarrow> err option io" where
  "initialize_replica_set dr rs ms =
     (if ms = [] then ret (Some (''replica set '' @ rs @ '' has no members''))
      else let uri = mongo_uri (sm_addr (hd ms)) in do {
        e \<leftarrow> ud_connect dr uri True;
        case e of
          Some x \<Rightarrow> ret (Some (wrapf (''failed to connect to primary node '' @ sm_addr (hd ms)) x))
        | None \<Rightarrow> do {
            s \<leftarrow> ud_run dr uri True ''admin'' status_command;
            if is_ok s then ret None
            else do {
              r \<leftarrow> ud_run dr uri True ''admin'' (initiate_command rs (set_docs ms));
              case r of
                Inr _ \<Rightarrow> await_initiated dr rs ms
              | Inl x \<Rightarrow>
                  if already_text x then ret None
                  else if ghost_text x then await_initiated dr rs ms
                  else ret (Some (wrapf ''failed to initialize replica set'' x)) } } })"

text \<open>All sets are initiated; the first error that arrives is the one that is returned.\<close>

fun initialize_sets :: "up_driver \<Rightarrow> (string, set_member list) gomap \<Rightarrow> string list \<Rightarrow> err option io" where
  "initialize_sets dr m [] = ret None"
| "initialize_sets dr m (rs # rss) = do {
     e \<leftarrow> initialize_replica_set dr rs (or_default (mget m rs) []);
     e' \<leftarrow> initialize_sets dr m rss;
     ret (case e of Some x \<Rightarrow> Some (wrapf (''failed to initialize replica set '' @ rs) x) | None \<Rightarrow> e') }"

definition initialize_replica_sets :: "up_driver \<Rightarrow> 's deployer \<Rightarrow> err option io" where
  "initialize_replica_sets dr d = (let m = collect_replica_sets (de_topology d) in
     initialize_sets dr m (de_shuffle d (mkeys m)))"

section \<open>Shards\<close>

definition add_shard :: "up_driver \<Rightarrow> string \<Rightarrow> string \<Rightarrow> set_member list \<Rightarrow> err option io" where
  "add_shard dr uri rs ms = do {
     s \<leftarrow> ud_run dr uri False ''admin'' [(''listShards'', GInt 1)];
     if lists_shard rs s then ret None
     else do {
       r \<leftarrow> ud_run dr uri False ''admin'' [(''addShard'', GStr (rs @ ''/'' @ join_with '','' (map sm_addr ms)))];
       ret (case r of
         Inr _ \<Rightarrow> None
       | Inl x \<Rightarrow> if contains x ''already exists'' then None else Some (wrapf (''failed to add shard '' @ rs) x)) } }"

definition is_config_set :: "topology \<Rightarrow> string \<Rightarrow> bool" where
  "is_config_set t rs = list_ex (\<lambda>c. cs_replica_set c = rs) (t_config_svr t)"

definition configure_sharding :: "up_driver \<Rightarrow> 's deployer \<Rightarrow> err option io" where
  "configure_sharding dr d = (case t_mongos (de_topology d) of
     [] \<Rightarrow> ret (Some ''no mongos nodes found for sharded cluster'')
   | r # _ \<Rightarrow> let addr = ms_host r @ '':'' @ itoa (ms_port r); m = collect_replica_sets (de_topology d) in do {
       e \<leftarrow> ud_connect dr (mongo_uri addr) False;
       case e of
         Some x \<Rightarrow> ret (Some (wrapf (''failed to connect to mongos at '' @ addr) x))
       | None \<Rightarrow> for_each (\<lambda>rs. add_shard dr (mongo_uri addr) rs (or_default (mget m rs) []))
           (filter (\<lambda>rs. \<not> is_config_set (de_topology d) rs) (de_shuffle d (mkeys m))) })"

section \<open>Routers\<close>

definition generate_mongos_configs :: "go_version \<Rightarrow> 's deployer \<Rightarrow> ('s, err option) prog" where
  "generate_mongos_configs gv d = for_each (\<lambda>n. do {
       e \<leftarrow> deployer_mongos_config gv d n;
       ret (map_option (wrapf (at_node ''failed to generate config for mongos'' (ms_host n) (ms_port n))) e) })
     (t_mongos (de_topology d))"

definition verify_mongos_port :: "'s deployer \<Rightarrow> mongos_node \<Rightarrow> ('s, err option) prog" where
  "verify_mongos_port d n = on_executor d (ms_host n) (\<lambda>hx. do {
     r \<leftarrow> hx_check_port_available hx (ms_port n);
     ret (case r of
       Inl x \<Rightarrow> Some (wrapf (at_node ''failed to verify mongos port'' (ms_host n) (ms_port n)) x)
     | Inr available \<Rightarrow> if available then None
         else Some (at_node ''mongos port'' (ms_host n) (ms_port n) @ '' is no longer available'')) })"

text \<open>A call on a manager that is not there reads its binary, which ends the program.\<close>

definition start_mongos :: "sup_os \<Rightarrow> 's deployer \<Rightarrow> mongos_node \<Rightarrow> err option io" where
  "start_mongos so d n = (case de_supervisor d of
     None \<Rightarrow> ret (Some nil_executor)
   | Some m \<Rightarrow> do {
       e \<leftarrow> start_process so m (get_program_name ''mongos'' (ms_port n));
       ret (map_option (wrapf (at_node ''failed to start mongos'' (ms_host n) (ms_port n))) e) })"

definition start_mongos_processes :: "sup_os \<Rightarrow> 's deployer \<Rightarrow> ('s, err option) prog" where
  "start_mongos_processes so d = do {
     e \<leftarrow> for_each (verify_mongos_port d) (t_mongos (de_topology d));
     case e of
       Some x \<Rightarrow> ret (Some x)
     | None \<Rightarrow> for_each (\<lambda>n. on_os (start_mongos so d n)) (t_mongos (de_topology d)) }"

fun await_mongos :: "nat \<Rightarrow> up_driver \<Rightarrow> string \<Rightarrow> int \<Rightarrow> err option io" where
  "await_mongos 0 dr uri deadline = ret (Some polling_on)"
| "await_mongos (Suc n) dr uri deadline = do {
     now \<leftarrow> time_now;
     if now < deadline then do {
       up \<leftarrow> verify_set 1 dr uri;
       if up then ret None else await_mongos n dr uri deadline }
     else ret (Some ''timeout waiting for mongos to connect to config servers'') }"

definition wait_for_mongos_health :: "nat \<Rightarrow> up_driver \<Rightarrow> int \<Rightarrow> mongos_node \<Rightarrow> err option io" where
  "wait_for_mongos_health fuel dr deadline n = do {
     e \<leftarrow> await_mongos fuel dr (mongo_uri (ms_host n @ '':'' @ itoa (ms_port n))) deadline;
     ret (map_option (wrapf (at_node ''mongos'' (ms_host n) (ms_port n) @ '' not healthy'')) e) }"

definition wait_for_mongos_processes :: "nat \<Rightarrow> up_driver \<Rightarrow> 's deployer \<Rightarrow> ('s, err option) prog" where
  "wait_for_mongos_processes fuel dr d =
     (if t_mongos (de_topology d) = [] then ret None
      else do {
        now \<leftarrow> on_os time_now;
        let deadline = now + 180 * second;
        e \<leftarrow> for_each (\<lambda>n. do {
            e \<leftarrow> wait_for_node fuel d (ms_host n) (ms_port n) deadline;
            ret (map_option (wrapf (at_node ''mongos'' (ms_host n) (ms_port n) @ '' port not ready'')) e) })
          (t_mongos (de_topology d));
        case e of
          Some x \<Rightarrow> ret (Some x)
        | None \<Rightarrow> for_each (\<lambda>n. on_os (wait_for_mongos_health fuel dr deadline n)) (t_mongos (de_topology d)) })"

section \<open>The phase\<close>

definition then_try :: "string \<Rightarrow> ('s, err option) prog \<Rightarrow> ('s, err option) prog \<Rightarrow> ('s, err option) prog" where
  "then_try what m rest = do {
     e \<leftarrow> m;
     case e of Some x \<Rightarrow> ret (Some (wrapf what x)) | None \<Rightarrow> rest }"

definition initialize_routers :: "nat \<Rightarrow> go_version \<Rightarrow> sup_os \<Rightarrow> up_driver \<Rightarrow> 's deployer \<Rightarrow> ('s, err option) prog" where
  "initialize_routers fuel gv so dr d =
     (if get_topology_type (de_topology d) \<noteq> ''sharded'' then ret None
      else then_try ''failed to generate mongos configs'' (generate_mongos_configs gv d)
        (then_try ''failed to start mongos processes'' (start_mongos_processes so d)
        (then_try ''failed waiting for mongos processes'' (wait_for_mongos_processes fuel dr d)
        (then_try ''failed to configure sharding'' (on_os (configure_sharding dr d)) (ret None)))))"

definition deployer_initialize :: "nat \<Rightarrow> go_version \<Rightarrow> sup_os \<Rightarrow> up_driver \<Rightarrow> 's deployer \<Rightarrow> ('s, err option) prog" where
  "deployer_initialize fuel gv so dr d =
     then_try ''failed waiting for processes'' (wait_for_processes fuel d)
       (then_try ''failed to initialize replica sets'' (on_os (initialize_replica_sets dr d))
         (initialize_routers fuel gv so dr d))"

end
