(* ===== verification/Deployer_Phases.thy ===== *)
theory Deployer_Phases imports Deployer_Init Binary_Manager begin

text \<open>
  \<^verbatim>\<open>pkg/deploy/deployer.go\<close>, \<^verbatim>\<open>prepare.go\<close> and \<^verbatim>\<open>finalize.go\<close>: making a deployer, the checks before a deployment, its
  binaries, its metadata, and the phases one after the other.

  The checks of the hosts run at the same time, and so do the downloads for several platforms: here they run in the order of
  \<open>de_shuffle\<close> and \<open>be_walk\<close>. Monitoring is a parameter.
\<close>

section \<open>A new deployer\<close>

record deploy_config =
  dc_name :: string
  dc_version :: string
  dc_variant :: variant
  dc_file :: string

definition checked_topology :: "(nat \<Rightarrow> int \<Rightarrow> bool) \<Rightarrow> deploy_config \<Rightarrow> topology \<Rightarrow> topology res" where
  "checked_topology avail c t0 = (case topo_validate t0 of
     (Some x, _) \<Rightarrow> Err (wrapf ''topology validation failed'' x)
   | (None, t) \<Rightarrow> (case validate_version (dc_version c) (dc_variant c) of
       Some x \<Rightarrow> Err (wrapf ''version validation failed'' x)
     | None \<Rightarrow>
         if \<not> is_local_deployment t then Err ''remote deployment not yet implemented''
         else (case allocate_ports_for_topology avail t of
           (Some x, _) \<Rightarrow> Err (wrapf ''failed to allocate ports'' x)
         | (None, t') \<Rightarrow> Ok t')))"

definition new_deployer :: "(fcontent \<Rightarrow> topology res) \<Rightarrow> (nat \<Rightarrow> int \<Rightarrow> bool) \<Rightarrow> string res \<Rightarrow> sup_os \<Rightarrow> 's host_exec
    \<Rightarrow> (string list \<Rightarrow> string list) \<Rightarrow> deploy_config \<Rightarrow> 's deployer res io" where
  "new_deployer yaml avail home so hx shuffle c = do {
     r \<leftarrow> parse_topology_file yaml (dc_file c);
     case r of
       Inl x \<Rightarrow> ret (Err (wrapf ''failed to parse topology'' x))
     | Inr t0 \<Rightarrow> (case checked_topology avail c t0 of
         Inl x \<Rightarrow> ret (Err x)
       | Inr t \<Rightarrow> (case home of
           Inl x \<Rightarrow> ret (Err (wrapf ''failed to get home directory'' x))
         | Inr h \<Rightarrow> let dir = path_join [h, ''.mup'', ''storage'', ''clusters'', dc_name c] in do {
             m \<leftarrow> new_manager so dir (dc_name c);
             ret (case m of
               Inl x \<Rightarrow> Err (wrapf ''failed to initialize supervisor manager'' x)
             | Inr mg \<Rightarrow> Ok \<lparr>de_name = dc_name c, de_version = dc_version c, de_variant = dc_variant c, de_topology = t,
                 de_executors = map (\<lambda>host. (host, hx)) (get_all_hosts t), de_meta_dir = dir, de_local = True,
                 de_bin_path = [], de_supervisor = Some mg,
                 de_resolver = \<lparr>lr_dir = dir, lr_version = dc_version c\<rparr>, de_shuffle = shuffle\<rparr>) })) }"

section \<open>Checks of a host\<close>

record preflight_issue =
  pi_severity :: string
  pi_message :: string
  pi_node :: string

abbreviation warning :: "string \<Rightarrow> string \<Rightarrow> preflight_issue list" where
  "warning node text \<equiv> [\<lparr>pi_severity = ''warning'', pi_message = text, pi_node = node\<rparr>]"

abbreviation failing :: "string \<Rightarrow> string \<Rightarrow> preflight_issue list" where
  "failing node text \<equiv> [\<lparr>pi_severity = ''error'', pi_message = text, pi_node = node\<rparr>]"

definition gigabyte :: "64 word" where "gigabyte = 1073741824"

definition min_disk_space :: "64 word" where "min_disk_space = 10 * gigabyte"

definition show_gigabytes :: "64 word \<Rightarrow> string" where "show_gigabytes n = itoa (uint (n div gigabyte))"

definition check_host_disk :: "'s host_exec \<Rightarrow> string \<Rightarrow> string \<Rightarrow> ('s, preflight_issue list) prog" where
  "check_host_disk hx host path =
     (if path = [] then ret []
      else do {
        r \<leftarrow> hx_get_disk_space hx path;
        ret (case r of
          Inl x \<Rightarrow> warning host (wrapf ''Cannot check disk space'' x)
        | Inr available \<Rightarrow> if available < min_disk_space
            then failing host (''Insufficient disk space: '' @ show_gigabytes available @ '' GB available, ''
              @ show_gigabytes min_disk_space @ '' GB required'')
            else []) })"

definition ports_for_host :: "topology \<Rightarrow> string \<Rightarrow> int list" where
  "ports_for_host t host = map md_port (filter (\<lambda>n. md_host n = host) (t_mongod t))
     @ map ms_port (filter (\<lambda>n. ms_host n = host) (t_mongos t))
     @ map cs_port (filter (\<lambda>n. cs_host n = host) (t_config_svr t))"

fun check_ports :: "'s host_exec \<Rightarrow> string \<Rightarrow> int list \<Rightarrow> ('s, preflight_issue list) prog" where
  "check_ports hx host [] = ret []"
| "check_ports hx host (p # ps) = do {
     r \<leftarrow> hx_check_port_available hx p;
     is \<leftarrow> check_ports hx host ps;
     ret ((case r of
       Inl x \<Rightarrow> warning (host @ '':'' @ itoa p) (wrapf (''Cannot check port '' @ itoa p) x)
     | Inr available \<Rightarrow> if available then [] else failing (host @ '':'' @ itoa p) (''Port '' @ itoa p @ '' already in use'')) @ is) }"

definition check_user :: "'s deployer \<Rightarrow> 's host_exec \<Rightarrow> string \<Rightarrow> ('s, preflight_issue list) prog" where
  "check_user d hx host = (let user = g_user (t_global (de_topology d)) in
     if de_local d \<or> user = [] then ret []
     else do {
       r \<leftarrow> hx_user_exists hx user;
       ret (case r of
         Inl x \<Rightarrow> warning host (wrapf (''Cannot check user '' @ user) x)
       | Inr there \<Rightarrow> if there then [] else warning host (''User '' @ user @ '' does not exist, will be created'')) })"

definition check_host :: "string res \<Rightarrow> 's deployer \<Rightarrow> string \<Rightarrow> 's host_exec \<Rightarrow> ('s, preflight_issue list) prog" where
  "check_host home d host hx = do {
     c \<leftarrow> hx_check_connectivity hx;
     case c of
       Some x \<Rightarrow> ret (failing host (wrapf ''Cannot connect'' x))
     | None \<Rightarrow> do {
         info \<leftarrow> hx_get_os_info hx;
         let data_dir = g_data_dir (t_global (de_topology d));
         disk \<leftarrow> check_host_disk hx host (if de_local d then res_or home data_dir else data_dir);
         ports \<leftarrow> check_ports hx host (ports_for_host (de_topology d) host);
         user \<leftarrow> check_user d hx host;
         ret ((case info of Inl x \<Rightarrow> warning host (wrapf ''Cannot get OS info'' x) | Inr _ \<Rightarrow> [])
           @ (if de_local d then (case home of Inl x \<Rightarrow> warning host (wrapf ''Cannot get home directory'' x) | Inr _ \<Rightarrow> []) else [])
           @ disk @ ports @ user) } }"

fun check_hosts :: "string res \<Rightarrow> 's deployer \<Rightarrow> string list \<Rightarrow> ('s, preflight_issue list res) prog" where
  "check_hosts home d [] = ret (Ok [])"
| "check_hosts home d (h # hs) = (case mget (de_executors d) h of
     None \<Rightarrow> ret (Err nil_executor)
   | Some hx \<Rightarrow> do {
       is \<leftarrow> check_host home d h hx;
       r \<leftarrow> check_hosts home d hs;
       ret (map_sum id (\<lambda>js. is @ js) r) })"

definition is_failing :: "preflight_issue \<Rightarrow> bool" where "is_failing i = (pi_severity i = ''error'')"

definition preflight_checks :: "string res \<Rightarrow> 's deployer \<Rightarrow> ('s, err option) prog" where
  "preflight_checks home d = do {
     r \<leftarrow> check_hosts home d (de_shuffle d (get_all_hosts (de_topology d)));
     ret (case r of
       Inl x \<Rightarrow> Some x
     | Inr is \<Rightarrow> let n = length (filter is_failing is) in
         if n > 0 then Some (''pre-flight checks failed with '' @ itoa (int n) @ '' error(s)'') else None) }"

section \<open>Binaries\<close>

definition platform_of :: "os_info \<Rightarrow> platform" where
  "platform_of i = \<lparr>pf_os = oi_os i, pf_arch = (if oi_arch i = ''x86_64'' then ''amd64'' else oi_arch i)\<rparr>"

text \<open>A host that does not answer is left out.\<close>

fun platforms_of_hosts :: "'s deployer \<Rightarrow> string list \<Rightarrow> ('s, platform list res) prog" where
  "platforms_of_hosts d [] = ret (Ok [])"
| "platforms_of_hosts d (h # hs) = (case mget (de_executors d) h of
     None \<Rightarrow> ret (Err nil_executor)
   | Some hx \<Rightarrow> do {
       info \<leftarrow> hx_get_os_info hx;
       r \<leftarrow> platforms_of_hosts d hs;
       ret (case info of Inl _ \<Rightarrow> r | Inr i \<Rightarrow> map_sum id (List.insert (platform_of i)) r) })"

definition collect_platforms :: "'s deployer \<Rightarrow> ('s, platform list res) prog" where
  "collect_platforms d = platforms_of_hosts d (de_shuffle d (get_all_hosts (de_topology d)))"

fun fetch_platforms :: "binary_env \<Rightarrow> binary_manager \<Rightarrow> 's deployer \<Rightarrow> platform list \<Rightarrow> (string, string) gomap binary_prog" where
  "fetch_platforms be bg d [] = ret []"
| "fetch_platforms be bg d (p # ps) = do {
     r \<leftarrow> get_bin_path_with_variant be bg (de_version d) (de_variant d) p;
     m \<leftarrow> fetch_platforms be bg d ps;
     ret (case r of Inl _ \<Rightarrow> m | Inr path \<Rightarrow> mput (platform_key p) path m) }"

definition no_percona_on_mac :: err where
  "no_percona_on_mac = ''percona Server for MongoDB does not provide macOS binaries, please use:'' @ nl
     @ ''  - Official MongoDB (--variant mongo) on macOS, or'' @ nl @ ''  - Deploy to a Linux host for Percona support''"

definition ensure_local :: "binary_env \<Rightarrow> binary_manager \<Rightarrow> 's deployer \<Rightarrow> string res binary_prog" where
  "ensure_local be bg d = (let p = current_platform be;
       what = ''failed to ensure '' @ variant_string (de_variant d) @ '' '' @ de_version d @ '' for current platform'' in do {
     r \<leftarrow> get_bin_path_with_variant be bg (de_version d) (de_variant d) p;
     case r of
       Inr path \<Rightarrow> ret (Ok path)
     | Inl x \<Rightarrow>
         if de_variant d = VariantPercona \<and> pf_os p = ''darwin'' then ret (Err no_percona_on_mac)
         else if p = \<lparr>pf_os = ''darwin'', pf_arch = ''arm64''\<rparr> then do {
           r \<leftarrow> get_bin_path_with_variant be bg (de_version d) (de_variant d) x86_mac;
           ret (wrap_err (what @ '' (tried arm64 and x86_64 fallback)'') r) }
         else ret (Err (wrapf what x)) })"

definition choose_bin_path :: "binary_env \<Rightarrow> binary_manager \<Rightarrow> 's deployer \<Rightarrow> (string, string) gomap \<Rightarrow> string res binary_prog" where
  "choose_bin_path be bg d paths =
     (if de_local d then (case mget paths (platform_key (current_platform be)) of
         Some path \<Rightarrow> ret (Ok path)
       | None \<Rightarrow> ensure_local be bg d)
      else ret (Ok (case be_order be paths of [] \<Rightarrow> de_bin_path d | (_, path) # _ \<Rightarrow> path)))"

text \<open>The memory of a manager that is made for one preparation.\<close>

definition with_memory :: "'a binary_prog \<Rightarrow> 'a io" where
  "with_memory m = State (\<lambda>w. case run_state m (w, empty_memory) of (r, (w', _)) \<Rightarrow> (r, w'))"

definition fetch_binaries :: "binary_env \<Rightarrow> binary_manager \<Rightarrow> 's deployer \<Rightarrow> platform list \<Rightarrow> string res io" where
  "fetch_binaries be bg d ps = with_memory (do {
     paths \<leftarrow> fetch_platforms be bg d (be_walk be (if ps = [] then [current_platform be] else ps));
     choose_bin_path be bg d paths })"

definition verify_mongod :: "binary_env \<Rightarrow> string \<Rightarrow> err option io" where
  "verify_mongod be path =
     (if path = [] then ret None
      else let file = path_join [path, exe (be_os be) ''mongod''] in do {
        s \<leftarrow> os_stat file;
        ret (case s of Inl x \<Rightarrow> Some (wrapf (''mongod binary not found at '' @ file) (os_msg x)) | Inr _ \<Rightarrow> None) })"

definition prepare_binaries :: "binary_env \<Rightarrow> 's deployer \<Rightarrow> ('s, err option \<times> 's deployer) prog" where
  "prepare_binaries be d = (case new_binary_manager be of
     Inl x \<Rightarrow> ret (Some (wrapf ''failed to create binary manager'' x), d)
   | Inr bg \<Rightarrow> do {
       ps \<leftarrow> collect_platforms d;
       case ps of
         Inl x \<Rightarrow> ret (Some x, d)
       | Inr ps \<Rightarrow> do {
           r \<leftarrow> on_os (fetch_binaries be bg d ps);
           case r of
             Inl x \<Rightarrow> ret (Some x, d)
           | Inr path \<Rightarrow> do {
               e \<leftarrow> on_os (verify_mongod be path);
               ret (e, d\<lparr>de_bin_path := path\<rparr>) } } })"

definition deployer_prepare :: "binary_env \<Rightarrow> 's deployer \<Rightarrow> ('s, err option \<times> 's deployer) prog" where
  "deployer_prepare be d = do {
     e \<leftarrow> preflight_checks (be_home be) d;
     case e of
       Some x \<Rightarrow> ret (Some (wrapf ''pre-flight checks failed'' x), d)
     | None \<Rightarrow> do {
         r \<leftarrow> prepare_binaries be d;
         ret (map_option (wrapf ''binary preparation failed'') (fst r), snd r) } }"

section \<open>Metadata\<close>

definition deployed_uri :: "'s deployer \<Rightarrow> string" where
  "deployed_uri d = (let t = de_topology d; fallback = ''mongodb://localhost:27017'' in
     if get_topology_type t = ''sharded'' then
       (case t_mongos t of n # _ \<Rightarrow> mongo_uri (ms_host n @ '':'' @ itoa (ms_port n)) | [] \<Rightarrow> fallback)
     else if get_topology_type t = ''replica_set'' then
       (case t_mongod t of
          n # _ \<Rightarrow> set_uri (map (\<lambda>k. md_host k @ '':'' @ itoa (md_port k)) (filter (\<lambda>k. md_replica_set k = md_replica_set n) (t_mongod t)))
            (md_replica_set n)
        | [] \<Rightarrow> fallback)
     else if get_topology_type t = ''standalone'' then
       (case t_mongod t of n # _ \<Rightarrow> mongo_uri (md_host n @ '':'' @ itoa (md_port n)) | [] \<Rightarrow> fallback)
     else fallback)"

definition deployed_command :: "'s deployer \<Rightarrow> string" where
  "deployed_command d = path_join [path_join [de_meta_dir d, ''v'' @ de_version d, ''bin''], get_shell_binary (de_version d)]
     @ '' '' @ [CHR 0x22] @ deployed_uri d @ [CHR 0x22]"

definition node_pid :: "sup_os \<Rightarrow> 's deployer \<Rightarrow> string \<Rightarrow> int io" where
  "node_pid so d program = (case de_supervisor d of
     None \<Rightarrow> ret 0
   | Some m \<Rightarrow> do {
       r \<leftarrow> get_process_status so m program;
       ret (case r of Inl _ \<Rightarrow> 0 | Inr s \<Rightarrow> pst_pid s) })"

definition supervisor_ini :: "'s deployer \<Rightarrow> string \<Rightarrow> int \<Rightarrow> string \<Rightarrow> string" where
  "supervisor_ini d host port file = path_join [de_meta_dir d, ''conf'', host @ ''-'' @ itoa port, file]"

definition mongod_metadata :: "'s deployer \<Rightarrow> mongod_node \<Rightarrow> node_metadata" where
  "mongod_metadata d n = (let dir = deployer_config_dir d ''mongod'' (md_host n) (md_port n) in
     \<lparr>nm_type = ''mongod'', nm_host = md_host n, nm_port = md_port n, nm_replica_set = md_replica_set n,
      nm_data_dir = deployer_data_dir d (md_host n) (md_port n), nm_log_dir = deployer_log_dir d ''mongod'' (md_host n) (md_port n),
      nm_config_dir = dir, nm_config_file = path_join [dir, ''mongod.conf''], nm_pid = 0, nm_program = ''mongod-'' @ itoa (md_port n),
      nm_supervisor_config = supervisor_ini d (md_host n) (md_port n) ''supervisor-mongod.ini''\<rparr>)"

definition mongos_metadata :: "'s deployer \<Rightarrow> mongos_node \<Rightarrow> node_metadata" where
  "mongos_metadata d n = (let dir = deployer_config_dir d ''mongos'' (ms_host n) (ms_port n) in
     \<lparr>nm_type = ''mongos'', nm_host = ms_host n, nm_port = ms_port n, nm_replica_set = [], nm_data_dir = [],
      nm_log_dir = deployer_log_dir d ''mongos'' (ms_host n) (ms_port n),
      nm_config_dir = dir, nm_config_file = path_join [dir, ''mongos.conf''], nm_pid = 0, nm_program = ''mongos-'' @ itoa (ms_port n),
      nm_supervisor_config = supervisor_ini d (ms_host n) (ms_port n) ''supervisor-mongos.ini''\<rparr>)"

text \<open>A config server has the names of a \<^verbatim>\<open>mongod\<close> here.\<close>

definition config_metadata :: "'s deployer \<Rightarrow> config_node \<Rightarrow> node_metadata" where
  "config_metadata d n = (let dir = deployer_config_dir d ''mongod'' (cs_host n) (cs_port n) in
     \<lparr>nm_type = ''config'', nm_host = cs_host n, nm_port = cs_port n, nm_replica_set = cs_replica_set n,
      nm_data_dir = deployer_data_dir d (cs_host n) (cs_port n), nm_log_dir = deployer_log_dir d ''mongod'' (cs_host n) (cs_port n),
      nm_config_dir = dir, nm_config_file = path_join [dir, ''mongod.conf''], nm_pid = 0, nm_program = ''mongod-'' @ itoa (cs_port n),
      nm_supervisor_config = supervisor_ini d (cs_host n) (cs_port n) ''supervisor-mongod.ini''\<rparr>)"

fun with_pids :: "sup_os \<Rightarrow> 's deployer \<Rightarrow> node_metadata list \<Rightarrow> node_metadata list io" where
  "with_pids so d [] = ret []"
| "with_pids so d (n # ns) = do {
     pid \<leftarrow> node_pid so d (nm_program n);
     rest \<leftarrow> with_pids so d ns;
     ret (n\<lparr>nm_pid := pid\<rparr> # rest) }"

definition collect_node_metadata :: "sup_os \<Rightarrow> 's deployer \<Rightarrow> node_metadata list io" where
  "collect_node_metadata so d = with_pids so d (map (mongod_metadata d) (t_mongod (de_topology d))
     @ map (mongos_metadata d) (t_mongos (de_topology d)) @ map (config_metadata d) (t_config_svr (de_topology d)))"

definition deployed_metadata :: "'s deployer \<Rightarrow> int \<Rightarrow> node_metadata list \<Rightarrow> monitoring_metadata option \<Rightarrow> cluster_metadata" where
  "deployed_metadata d now nodes mon = \<lparr>cm_name = de_name d, cm_version = de_version d, cm_variant = variant_string (de_variant d),
     cm_bin_path = de_bin_path d, cm_created_at = now, cm_status = ''running'', cm_topology = Some (de_topology d),
     cm_deploy_mode = (if de_local d then ''local'' else ''remote''), cm_nodes = nodes, cm_connection = deployed_command d,
     cm_supervisor_config = [], cm_supervisor_pid_file = [], cm_supervisor_running = False, cm_monitoring = mon\<rparr>"

definition save_deployed :: "yaml_codec \<Rightarrow> sup_os \<Rightarrow> 's deployer \<Rightarrow> monitoring_metadata option \<Rightarrow> err option io" where
  "save_deployed ym so d mon = do {
     e \<leftarrow> os_mkdir_all (de_meta_dir d);
     case e of
       Some m \<Rightarrow> ret (Some (wrapf ''failed to create metadata directory'' (os_msg m)))
     | None \<Rightarrow> do {
         now \<leftarrow> time_now;
         nodes \<leftarrow> collect_node_metadata so d;
         case ym_marshal ym (deployed_metadata d now nodes mon) of
           Inl x \<Rightarrow> ret (Some (wrapf ''failed to marshal metadata'' x))
         | Inr data \<Rightarrow> do {
             w \<leftarrow> os_write_file (path_join [de_meta_dir d, ''meta.yaml'']) data;
             ret (map_option (\<lambda>m. wrapf ''failed to write metadata file'' (os_msg m)) w) } } }"

definition deployer_finalize :: "yaml_codec \<Rightarrow> sup_os \<Rightarrow> 's deployer \<Rightarrow> monitoring_metadata option \<Rightarrow> err option io" where
  "deployer_finalize ym so d mon = do {
     e \<leftarrow> save_deployed ym so d mon;
     ret (map_option (wrapf ''failed to save metadata'') e) }"

section \<open>The deployment\<close>

text \<open>Monitoring, when it is enabled, gives metadata or fails, which is only printed.\<close>

definition deployer_monitoring :: "monitoring_metadata res io option \<Rightarrow> monitoring_metadata option io" where
  "deployer_monitoring mon = (case mon of
     None \<Rightarrow> ret None
   | Some m \<Rightarrow> do { r \<leftarrow> m; ret (case r of Inl _ \<Rightarrow> None | Inr x \<Rightarrow> Some x) })"

record deploy_env =
  dv_fuel :: nat
  dv_version :: go_version
  dv_float :: "rat \<Rightarrow> string"
  dv_sup :: sup_os
  dv_driver :: up_driver
  dv_binaries :: binary_env
  dv_yaml :: yaml_codec
  dv_monitoring :: "monitoring_metadata res io option"

definition run_deployer :: "deploy_env \<Rightarrow> 's deployer \<Rightarrow> ('s, err option \<times> 's deployer) prog" where
  "run_deployer v d = do {
     r \<leftarrow> deployer_prepare (dv_binaries v) d;
     case r of
       (Some x, d1) \<Rightarrow> ret (Some (wrapf ''phase 2 (prepare) failed'' x), d1)
     | (None, d1) \<Rightarrow> do {
         r \<leftarrow> deployer_deploy (dv_version v) (dv_float v) (dv_sup v) d1;
         case r of
           (Some x, d2) \<Rightarrow> ret (Some (wrapf ''phase 3 (deploy) failed'' x), d2)
         | (None, d2) \<Rightarrow> do {
             e \<leftarrow> deployer_initialize (dv_fuel v) (dv_version v) (dv_sup v) (dv_driver v) d2;
             case e of
               Some x \<Rightarrow> ret (Some (wrapf ''phase 4 (initialize) failed'' x), d2)
             | None \<Rightarrow> do {
                 mon \<leftarrow> on_os (deployer_monitoring (dv_monitoring v));
                 e \<leftarrow> on_os (deployer_finalize (dv_yaml v) (dv_sup v) d2 mon);
                 ret (map_option (wrapf ''phase 5 (finalize) failed'') e, d2) } } } }"

definition close_deployer :: "'s deployer \<Rightarrow> ('s, err option) prog" where
  "close_deployer d = for_each (\<lambda>(host, hx). hx_close hx) (de_executors d)"

end
