(* ===== verification/Deployer_Claims.thy ===== *)
theory Deployer_Claims imports Deployer_Phases begin

text \<open>
  What the deployment without a plan promises: a port that is taken stops it before anything is fetched; every node with a
  replica set becomes a member of its set, once and in the order of the topology; a set that never reports itself ready
  never counts as initialized; and a deployment that succeeds has written the metadata that describes it.
\<close>

section \<open>Replica sets\<close>

lemma fold_add_member:
  "mget (fold add_member xs m) rs = (let ms = or_default (mget m rs) [] @ map snd (filter (\<lambda>x. fst x = rs) xs) in
     if mget m rs = None \<and> ms = [] then None else Some ms)"
proof (induction xs arbitrary: m)
  case (Cons x xs)
  obtain r s where x: "x = (r, s)" by (cases x)
  have step: "mget (add_member x m) rs = (if r = rs then Some (or_default (mget m rs) [] @ [s]) else mget m rs)"
    by (simp add: add_member_def x update_conv)
  show ?case
    unfolding fold.simps o_apply Cons step by (cases "r = rs") (simp_all add: x or_default_def Let_def split: option.split)
qed (simp add: or_default_def split: option.split)

text \<open>
  The sets that are initiated are those that the topology names, and the members of each are its nodes in the order of the
  topology, the \<^verbatim>\<open>mongod\<close> nodes before the config servers.
\<close>

theorem sets_are_complete:
  "mget (collect_replica_sets t) rs = (let ms = map snd (filter (\<lambda>x. fst x = rs) (named_members t)) in
     if ms = [] then None else Some ms)"
  by (simp add: collect_replica_sets_def fold_add_member or_default_def)

lemma sets_have_members: "mget (collect_replica_sets t) rs \<noteq> Some []"
  by (simp add: sets_are_complete Let_def)

lemma wp_every: "(\<And>r s'. Q r s') \<Longrightarrow> wp m Q s"
  by (rule wpI)

section \<open>A set that is not ready\<close>

definition never_ready :: "up_driver \<Rightarrow> string \<Rightarrow> bool" where
  "never_ready dr uri = (\<forall>w. wp (ud_run dr uri True ''admin'' status_command) (\<lambda>r _. \<forall>st. r = Ok st \<longrightarrow> \<not> set_is_ready st) w)"

lemma check_never_ready: "never_ready dr uri \<Longrightarrow> wp (check_set dr uri full) (\<lambda>up _. \<not> up) w"
  unfolding check_set_def wp_bind
  by (rule wpI) (auto simp: never_ready_def wp_def split: option.split sum.split prod.splits elim: allE)

lemma await_never_ready: "never_ready dr uri \<Longrightarrow> wp (await_set n dr rs uri full deadline) (\<lambda>e _. e \<noteq> None) w"
proof (induction n arbitrary: w)
  case (Suc n)
  have "wp (check_set dr uri full) (\<lambda>up. wp (if up then ret None else await_set n dr rs uri full deadline) (\<lambda>e _. e \<noteq> None)) w" for w
    by (rule wp_mono [OF check_never_ready [OF Suc.prems]]) (use Suc in simp)
  then show ?case by (simp add: Let_def)
qed simp

text \<open>
  A set whose first member is reached, does not answer the status command at first and never reports a ready set afterwards is
  not taken for initialized, unless the server says that it has been initiated before.
\<close>

theorem initialized_was_ready:
  assumes "ms \<noteq> []" "never_ready dr (mongo_uri (sm_addr (hd ms)))"
    and "\<And>w. wp (ud_run dr (mongo_uri (sm_addr (hd ms))) True ''admin'' status_command) (\<lambda>r _. \<not> is_ok r) w"
    and "\<And>w. wp (ud_run dr (mongo_uri (sm_addr (hd ms))) True ''admin'' (initiate_command rs (set_docs ms))) (\<lambda>r _. \<forall>x. r = Err x \<longrightarrow> \<not> already_text x) w"
  shows "wp (initialize_replica_set dr rs ms) (\<lambda>e _. e \<noteq> None) w"
proof -
  let ?uri = "mongo_uri (sm_addr (hd ms))"
  have waits: "wp (await_initiated dr rs ms) (\<lambda>e _. e \<noteq> None) w" for w
    using await_never_ready [OF assms(2)] by (simp add: await_initiated_def)
  have initiates: "wp (do {
        r \<leftarrow> ud_run dr ?uri True ''admin'' (initiate_command rs (set_docs ms));
        case r of
          Inr _ \<Rightarrow> await_initiated dr rs ms
        | Inl x \<Rightarrow> if already_text x then ret None else if ghost_text x then await_initiated dr rs ms
            else ret (Some (wrapf ''failed to initialize replica set'' x)) }) (\<lambda>e _. e \<noteq> None) w" for w
    unfolding wp_bind by (rule wp_mono [OF assms(4)]) (use waits in \<open>auto split: sum.split\<close>)
  have asks: "wp (do {
      s \<leftarrow> ud_run dr ?uri True ''admin'' status_command;
      if is_ok s then ret None
      else do {
        r \<leftarrow> ud_run dr ?uri True ''admin'' (initiate_command rs (set_docs ms));
        case r of
          Inr _ \<Rightarrow> await_initiated dr rs ms
        | Inl x \<Rightarrow> if already_text x then ret None else if ghost_text x then await_initiated dr rs ms
            else ret (Some (wrapf ''failed to initialize replica set'' x)) } }) (\<lambda>e _. e \<noteq> None) w" for w
    by (subst wp_bind, rule wp_mono [OF assms(3)]) (simp only: if_False initiates)
  show ?thesis
    unfolding initialize_replica_set_def Let_def if_not_P [OF assms(1)]
  proof (subst wp_bind, rule wp_every)
    fix e w'
    show "wp (case e of Some x \<Rightarrow> ret (Some (wrapf (''failed to connect to primary node '' @ sm_addr (hd ms)) x))
      | None \<Rightarrow> do {
          s \<leftarrow> ud_run dr ?uri True ''admin'' status_command;
          if is_ok s then ret None
          else do {
            r \<leftarrow> ud_run dr ?uri True ''admin'' (initiate_command rs (set_docs ms));
            case r of
              Inr _ \<Rightarrow> await_initiated dr rs ms
            | Inl x \<Rightarrow> if already_text x then ret None else if ghost_text x then await_initiated dr rs ms
                else ret (Some (wrapf ''failed to initialize replica set'' x)) } }) (\<lambda>e _. e \<noteq> None) w'"
      by (cases e) (simp_all only: option.case asks wp_return option.distinct simp_thms)
  qed
qed

section \<open>Checks before a deployment\<close>

text \<open>A port that somebody listens on.\<close>

definition port_taken :: "'s host_exec \<Rightarrow> int \<Rightarrow> bool" where
  "port_taken hx p = (\<forall>s. wp (hx_check_port_available hx p) (\<lambda>r _. r = Ok False) s)"

lemma failing_is_failing [simp]: "is_failing \<lparr>pi_severity = ''error'', pi_message = m, pi_node = n\<rparr>"
  by (simp add: is_failing_def)

lemma taken_port_found:
  "port_taken hx p \<Longrightarrow> p \<in> set ps \<Longrightarrow> wp (check_ports hx host ps) (\<lambda>is _. list_ex is_failing is) s"
proof (induction ps arbitrary: s)
  case (Cons q ps s)
  show ?case
    unfolding check_ports.simps wp_bind wp_return
  proof (cases "p = q")
    case True
    have "wp (hx_check_port_available hx q) (\<lambda>r _. r = Ok False) s" using Cons.prems(1) unfolding port_taken_def True by blast
    then show "wp (hx_check_port_available hx q) (\<lambda>r. wp (check_ports hx host ps) (\<lambda>is _. list_ex is_failing (
        (case r of Inl x \<Rightarrow> warning (host @ '':'' @ itoa q) (wrapf (''Cannot check port '' @ itoa q) x)
         | Inr available \<Rightarrow> if available then [] else failing (host @ '':'' @ itoa q) (''Port '' @ itoa q @ '' already in use'')) @ is))) s"
      by (rule wp_mono) (rule wp_every, simp add: is_failing_def)
  next
    case False
    then have p: "p \<in> set ps" using Cons.prems(2) by simp
    show "wp (hx_check_port_available hx q) (\<lambda>r. wp (check_ports hx host ps) (\<lambda>is _. list_ex is_failing (
        (case r of Inl x \<Rightarrow> warning (host @ '':'' @ itoa q) (wrapf (''Cannot check port '' @ itoa q) x)
         | Inr available \<Rightarrow> if available then [] else failing (host @ '':'' @ itoa q) (''Port '' @ itoa q @ '' already in use'')) @ is))) s"
      by (rule wp_every, rule wp_mono [OF Cons.IH [OF Cons.prems(1) p]]) simp
  qed
qed simp

lemma taken_port_fails_host:
  assumes "port_taken hx p" "p \<in> set (ports_for_host (de_topology d) host)"
  shows "wp (check_host home d host hx) (\<lambda>is _. list_ex is_failing is) s"
proof -
  have "wp (do {
      info \<leftarrow> hx_get_os_info hx;
      disk \<leftarrow> check_host_disk hx host path;
      ports \<leftarrow> check_ports hx host (ports_for_host (de_topology d) host);
      user \<leftarrow> check_user d hx host;
      ret (f info @ xs @ disk @ ports @ user) }) (\<lambda>is _. list_ex is_failing is) s" for f path xs s
    unfolding wp_bind by (rule wp_every, rule wp_every, rule wp_mono [OF taken_port_found [OF assms]], rule wp_every) simp
  note rest = this
  show ?thesis
    unfolding check_host_def Let_def by (subst wp_bind, rule wp_every) (simp add: rest rest [where xs = "[]", unfolded append_Nil] split: option.split del: wp_bind)
qed

lemma map_sum_Inr_iff: "map_sum f g r = Inr y \<longleftrightarrow> (\<exists>x. r = Inr x \<and> y = g x)"
  by (cases r) auto

lemma taken_port_fails_hosts:
  assumes "port_taken hx p" "p \<in> set (ports_for_host (de_topology d) host)" "mget (de_executors d) host = Some hx" "host \<in> set hs"
  shows "wp (check_hosts home d hs) (\<lambda>r _. \<forall>is. r = Ok is \<longrightarrow> list_ex is_failing is) s"
  using assms(4)
proof (induction hs arbitrary: s)
  case (Cons h hs s)
  show ?case
  proof (cases "mget (de_executors d) h")
    case (Some hx')
    show ?thesis
    proof (cases "h = host")
      case True
      then have "wp (check_host home d h hx') (\<lambda>is _. list_ex is_failing is) s"
        using taken_port_fails_host [OF assms(1,2)] assms(3) Some by simp
      then show ?thesis unfolding check_hosts.simps Some option.case wp_bind wp_return
        by (rule wp_mono) (rule wp_every, auto simp: map_sum_Inr_iff)
    next
      case False
      then have host: "host \<in> set hs" using Cons.prems by simp
      show ?thesis unfolding check_hosts.simps Some option.case wp_bind wp_return
        by (rule wp_every, rule wp_mono [OF Cons.IH [OF host]]) (auto simp: map_sum_Inr_iff)
    qed
  qed simp
qed simp

lemma taken_port_fails_checks:
  assumes "port_taken hx p" "p \<in> set (ports_for_host (de_topology d) host)" "mget (de_executors d) host = Some hx"
    and "host \<in> set (de_shuffle d (get_all_hosts (de_topology d)))"
  shows "wp (preflight_checks home d) (\<lambda>e _. e \<noteq> None) s"
  unfolding preflight_checks_def wp_bind wp_return
  by (rule wp_mono [OF taken_port_fails_hosts [OF assms]])
    (auto simp: Let_def list_ex_iff filter_empty_conv split: sum.split)

lemma host_of_port: "p \<in> set (ports_for_host t host) \<Longrightarrow> host \<in> set (get_all_hosts t)"
  unfolding get_all_hosts_def host_map_def host_map_keys by (auto simp: ports_for_host_def)

text \<open>
  C31. A port of the topology on which somebody listens ends a deployment in its first phase, whatever else is the case on its
  hosts, with an error and with the deployer as it was: no binary has been fetched, no directory made and no process started.
\<close>
theorem taken_port_stops:
  assumes "p \<in> set (ports_for_host (de_topology d) host)" "mget (de_executors d) host = Some hx" "port_taken hx p"
    and "set (de_shuffle d (get_all_hosts (de_topology d))) = set (get_all_hosts (de_topology d))"
  shows "wp (run_deployer v d) (\<lambda>r _. fst r \<noteq> None \<and> snd r = d) s"
proof -
  have "host \<in> set (de_shuffle d (get_all_hosts (de_topology d)))" using assms(4) host_of_port [OF assms(1)] by simp
  note checks = taken_port_fails_checks [OF assms(3,1,2) this]
  have "wp (deployer_prepare (dv_binaries v) d) (\<lambda>r _. fst r \<noteq> None \<and> snd r = d) s"
    unfolding deployer_prepare_def wp_bind by (rule wp_mono [OF checks]) auto
  then show ?thesis
    unfolding run_deployer_def wp_bind by (rule wp_mono) (auto split: prod.split option.split)
qed

definition busy_deployer :: "unit deployer" where
  "busy_deployer = new_config_regenerator ((local_executor silent_machine)\<lparr>hx_check_port_available := (\<lambda>_. ret (Ok False))\<rparr>)
     rev ''c'' ''7.0.5'' VariantMongo example_topology ''/m'' []"

lemma taken_port_stops_witness:
  "\<forall>v s. wp (run_deployer v busy_deployer) (\<lambda>r _. fst r \<noteq> None \<and> snd r = busy_deployer) s"
proof (intro allI, rule taken_port_stops)
  let ?hx = "(local_executor silent_machine)\<lparr>hx_check_port_available := (\<lambda>_. ret (Ok False))\<rparr> :: unit host_exec"
  show "27017 \<in> set (ports_for_host (de_topology busy_deployer) ''localhost'')"
    by (simp add: busy_deployer_def new_config_regenerator_def ports_for_host_def example_topology_def example_mongod_def)
  show "mget (de_executors busy_deployer) ''localhost'' = Some ?hx"
    by (simp add: busy_deployer_def new_config_regenerator_def)
  show "port_taken ?hx 27017" by (simp add: port_taken_def)
  show "set (de_shuffle busy_deployer (get_all_hosts (de_topology busy_deployer))) = set (get_all_hosts (de_topology busy_deployer))"
    by (simp add: busy_deployer_def new_config_regenerator_def)
qed

section \<open>The metadata\<close>

text \<open>The metadata name a \<^verbatim>\<open>mongod\<close> and a router as they were deployed, a config server otherwise.\<close>

lemma names_of_metadata:
  "nm_program (mongod_metadata d n) = ''mongod-'' @ itoa (md_port n)"
  "nm_config_file (mongod_metadata d n) = path_join [deployer_config_dir d ''mongod'' (md_host n) (md_port n), ''mongod.conf'']"
  "nm_program (mongos_metadata d r) = get_program_name ''mongos'' (ms_port r)"
  "nm_program (config_metadata d c) \<noteq> get_program_name ''config'' (cs_port c)"
  by (simp_all add: mongod_metadata_def mongos_metadata_def config_metadata_def Let_def get_program_name_def)

text \<open>A deployment that returns no error has left a file of metadata that describe the deployer it ended with.\<close>

definition describes :: "yaml_codec \<Rightarrow> 's deployer \<Rightarrow> fs \<Rightarrow> bool" where
  "describes ym d f = (\<exists>now nodes mon data q t. ym_marshal ym (deployed_metadata d now nodes mon) = Ok data \<and>
     fs_follow f (path_join [de_meta_dir d, ''meta.yaml'']) = Some q \<and> mget f q = Some (FFile data t))"

lemma wp_written:
  "wp (os_write_file p c) (\<lambda>e w'. e = None \<longrightarrow> (\<exists>q t. fs_follow (w_fs w') p = Some q \<and> mget (w_fs w') q = Some (FFile c t))) w"
proof (rule wpI)
  fix e w'
  assume run: "run_state (os_write_file p c) w = (e, w')"
  have "fs_grows (w_fs w) (w_fs w')"
    using keepsD [OF grows_os_write_file [of "w_fs w" p c], of w] run by (simp add: wp_def grown_def)
  then have same: "fs_follow (w_fs w') p = fs_follow (w_fs w) p" by (rule fs_grows_follow)
  show "e = None \<longrightarrow> (\<exists>q t. fs_follow (w_fs w') p = Some q \<and> mget (w_fs w') q = Some (FFile c t))"
    unfolding same using run
    by (cases "fs_follow (w_fs w) p") (auto simp: os_write_file_def split: option.splits fault.splits if_splits)
qed

lemma wp_skip: "(\<And>x s'. wp (f x) Q s') \<Longrightarrow> wp (State_Monad.bind m f) Q s"
  unfolding wp_bind by (rule wp_every)

lemma save_describes: "wp (save_deployed ym so d mon) (\<lambda>e w'. e = None \<longrightarrow> describes ym d (w_fs w')) w"
proof -
  have part: "wp (do {
      w \<leftarrow> os_write_file (path_join [de_meta_dir d, ''meta.yaml'']) data;
      ret (map_option (\<lambda>m. wrapf ''failed to write metadata file'' (os_msg m)) w) }) (\<lambda>e w'. e = None \<longrightarrow> describes ym d (w_fs w')) w"
    if "ym_marshal ym (deployed_metadata d now nodes mon) = Ok data" for data now nodes w
    unfolding wp_bind wp_return by (rule wp_mono [OF wp_written]) (use that in \<open>unfold describes_def option.map_disc_iff, blast\<close>)
  have writes: "wp (case ym_marshal ym (deployed_metadata d now nodes mon) of
      Inl x \<Rightarrow> ret (Some (wrapf ''failed to marshal metadata'' x))
    | Inr data \<Rightarrow> do {
        w \<leftarrow> os_write_file (path_join [de_meta_dir d, ''meta.yaml'']) data;
        ret (map_option (\<lambda>m. wrapf ''failed to write metadata file'' (os_msg m)) w) }) (\<lambda>e w'. e = None \<longrightarrow> describes ym d (w_fs w')) w"
    for now nodes w
    by (cases "ym_marshal ym (deployed_metadata d now nodes mon)") (simp_all add: part del: wp_bind)
  show ?thesis
    unfolding save_deployed_def by (rule wp_skip) (auto simp del: wp_bind split: option.split intro!: wp_skip writes)
qed

lemma finalize_describes: "wp (deployer_finalize ym so d mon) (\<lambda>e w'. e = None \<longrightarrow> describes ym d (w_fs w')) w"
  unfolding deployer_finalize_def wp_bind by (rule wp_mono [OF save_describes]) simp

theorem success_is_recorded:
  "wp (run_deployer v d) (\<lambda>r s'. fst r = None \<longrightarrow> describes (dv_yaml v) (snd r) (w_fs (fst s'))) s"
proof -
  have ends: "wp (do {
      e \<leftarrow> on_os (deployer_finalize (dv_yaml v) (dv_sup v) d' mon);
      ret (map_option (wrapf ''phase 5 (finalize) failed'') e, d') })
    (\<lambda>r s'. fst r = None \<longrightarrow> describes (dv_yaml v) (snd r) (w_fs (fst s'))) s" for d' :: "'a deployer" and mon s
    unfolding wp_bind wp_on_os_any by (rule wp_mono [OF finalize_describes]) simp
  have monitors: "wp (do {
      mon \<leftarrow> on_os (deployer_monitoring (dv_monitoring v));
      e \<leftarrow> on_os (deployer_finalize (dv_yaml v) (dv_sup v) d' mon);
      ret (map_option (wrapf ''phase 5 (finalize) failed'') e, d') })
    (\<lambda>r s'. fst r = None \<longrightarrow> describes (dv_yaml v) (snd r) (w_fs (fst s'))) s" for d' :: "'a deployer" and s
    by (subst wp_bind, rule wp_every, rule ends)
  have initializes: "wp (do {
      e \<leftarrow> deployer_initialize (dv_fuel v) (dv_version v) (dv_sup v) (dv_driver v) d';
      case e of
        Some x \<Rightarrow> ret (Some (wrapf ''phase 4 (initialize) failed'' x), d')
      | None \<Rightarrow> do {
          mon \<leftarrow> on_os (deployer_monitoring (dv_monitoring v));
          e \<leftarrow> on_os (deployer_finalize (dv_yaml v) (dv_sup v) d' mon);
          ret (map_option (wrapf ''phase 5 (finalize) failed'') e, d') } })
    (\<lambda>r s'. fst r = None \<longrightarrow> describes (dv_yaml v) (snd r) (w_fs (fst s'))) s" for d' :: "'a deployer" and s
    by (rule wp_skip) (simp add: monitors split: option.split del: wp_bind)
  show ?thesis
    unfolding run_deployer_def
    by (rule wp_skip) (auto simp: initializes split: option.split prod.split simp del: wp_bind intro!: wp_skip)
qed

end
