(* ===== verification/Spec2Isabelle.thy ===== *)
theory Spec2Isabelle imports Port_Alloc Apply_Run Apply_Files Validator Locks Paths Versions Path_Sim Supervisor_Mgr Simulation Templates Meta Deploy_Run Upgrade_Claims Import_Run Binary_Claims Deployer_Claims begin

text \<open>
  A model of mup, a Go program that deploys, upgrades and imports MongoDB clusters.

  \<^bold>\<open>The program.\<close> A cluster is described by a topology (\<^verbatim>\<open>pkg/topology\<close>). The planner (\<^verbatim>\<open>pkg/deploy/planner.go\<close>)
  validates it and turns it into a plan (\<^verbatim>\<open>pkg/plan\<close>): phases of operations, with pre-flight checks and
  resources. Plans are stored on disk with a checksum. The applier (\<^verbatim>\<open>pkg/apply\<close>) carries a plan out phase by phase, in
  sequence or in parallel groups, under a lock of the cluster, and records its progress in a state file with checkpoints,
  from which it can resume. Each operation is carried out by a handler (\<^verbatim>\<open>pkg/operation\<close>) through an executor, the
  interface to a machine (\<^verbatim>\<open>pkg/executor\<close>); the executor of a simulation (\<^verbatim>\<open>pkg/simulation\<close>) only records what would
  have happened. Handlers write configuration files from templates (\<^verbatim>\<open>pkg/template\<close>), lay out directories by version
  (\<^verbatim>\<open>pkg/naming\<close>, \<^verbatim>\<open>pkg/paths\<close>), drive supervisord (\<^verbatim>\<open>pkg/supervisor\<close>) and keep the metadata of the cluster
  (\<^verbatim>\<open>pkg/meta\<close>). An upgrade (\<^verbatim>\<open>pkg/upgrade\<close>) replaces the binaries of a running cluster node by node, secondaries
  before primaries, with a state of its own.

  \<^bold>\<open>The language and the operating system.\<close>
  \<^item> \<open>Go_Prelude\<close>: hint collections; a Go error is its message, a fallible function returns \<open>err + 'a\<close>, a Go map is an
    association list that is read by \<open>mget\<close>; where the program ranges over a map, the order is an argument of the model.
  \<^item> \<open>Go_Strings\<close>, \<open>Go_Files\<close>: the functions of \<^verbatim>\<open>strings\<close>, \<^verbatim>\<open>strconv\<close>, \<^verbatim>\<open>fmt\<close>, \<^verbatim>\<open>path/filepath\<close> and
    \<^verbatim>\<open>text/template\<close> that are used, on strings of bytes; files that are written while they are open.
  \<^item> \<open>Go_World\<close>: the record \<open>world\<close> is a file system, a supply of clock readings, a supply of identifiers and a supply of
    failures. Each system call asks whether it fails, so a theorem about all worlds covers each place at which the disk can
    fail; a failing write may leave a part of the data. Effects are state monads over it, and \<open>wp\<close> is their
    weakest precondition.
  \<^item> \<open>Go_Json\<close>: \<^verbatim>\<open>encoding/json\<close> on syntax trees; the locale \<open>codec\<close> is what an encoder and a decoder promise each
    other, and it is interpreted for plans, topologies, apply states and locks.

  \<^bold>\<open>Topology and plan.\<close> \<open>Topology\<close> (defaults, validation, kinds, identifiers) and \<open>Port_Alloc\<close> model \<^verbatim>\<open>pkg/topology\<close>: validation
  accepts exactly the topologies it describes, defaults cascade, allocated ports are distinct and the lowest free
  ones. \<open>Plan\<close>, \<open>Plan_Json\<close>, \<open>Plan_Store\<close> and \<open>Validator\<close> model \<^verbatim>\<open>pkg/plan\<close>: a save replaces the plan as a
  whole or leaves the old one, what was saved is what is loaded, and concurrent validation gives what sequential validation gives.

  \<^bold>\<open>Apply.\<close> \<open>Apply_State\<close> (\<^verbatim>\<open>state.go\<close>), \<open>Checkpoints\<close> (\<^verbatim>\<open>checkpoint.go\<close>), \<open>Hooks\<close> (\<^verbatim>\<open>hooks.go\<close>), \<open>Locks\<close>
  (\<^verbatim>\<open>lock.go\<close>) and \<open>Applier\<close> (\<^verbatim>\<open>applier.go\<close>) hold the operations; \<open>Apply_Exec\<close>, \<open>Apply_Run\<close> and \<open>Apply_Files\<close> what holds of
  them. The goroutines of a parallel group are runs of atomic steps that a schedule interleaves; each method of the state is
  one step because it holds the mutex. A plan that succeeds has completed each of its operations; a failing operation stops
  what follows it; the invariant of the state holds under each schedule, and a group of one is the sequential run. Lock
  acquisition refines an atomic test-and-set as long as one process acquires at a time; the interleavings of two processes
  are modelled as well, and a finding says what they can do.

  \<^bold>\<open>Machines.\<close> \<open>Host_Exec\<close> is the interface of executors and the local one; the locale \<open>file_host\<close> states what clients
  expect of one and is interpreted for the local executor and for that of \<open>Simulation\<close>. \<open>Paths\<close> and \<open>Path_Sim\<close> model the
  layout of versions, its links, the resolvers (locale \<open>path_resolver\<close>) and the in-memory file system, which refines a set of
  paths. \<open>Versions\<close> models versions, their order (a \<open>preorder\<close>) and the upgrade paths that are allowed. \<open>Supervisor_Conf\<close> and
  \<open>Supervisor_Mgr\<close> model \<^verbatim>\<open>pkg/supervisor\<close>, the files byte for byte; \<open>Templates\<close> all templates of \<^verbatim>\<open>pkg/template\<close>; \<open>Meta\<close>
  \<^verbatim>\<open>pkg/meta\<close>.

  \<^bold>\<open>Operations and deployments.\<close> \<open>Handler_Base\<close>, \<open>Handlers_Files\<close>, \<open>Handlers_Config\<close>, \<open>Handlers_Process\<close> and
  \<open>Operation_Exec\<close> model \<^verbatim>\<open>pkg/operation\<close>: each handler with its validation, execution, hooks and rollback. The locale
  \<open>host_invariant\<close> carries a property of a machine through all handlers; its instance says that operations of a simulation leave
  the files of the machine alone. \<open>Handler_Types\<close> is a discipline of types for the untyped parameters of operations,
  \<open>Deploy_Planner\<close> shows that planned operations keep it, so that no handler panics on them, and \<open>Deploy_Run\<close> puts planner,
  applier and handlers together. \<open>Deployer\<close> (the regeneration of configurations and the phase that deploys), \<open>Deployer_Init\<close> (the phase
  that waits, initiates replica sets and adds shards) and \<open>Deployer_Phases\<close> (the other phases and their sequence) model the deployment
  without a plan; \<open>Deployer_Claims\<close> shows that a taken port ends it before it has changed anything, that a set that is never ready
  does not count as initialized, and that a success leaves the metadata that describe it.

  \<^bold>\<open>Upgrades.\<close> \<open>Upgrade_State\<close>, \<open>Upgrade_Hooks\<close>, \<open>Upgrade_Prompt\<close>, \<open>Upgrade_Mongo\<close>, \<open>Upgrade_Flow\<close>, \<open>Upgrade_Set\<close>,
  \<open>Upgrade_Local\<close> and \<open>Upgrade_Plan\<close> model \<^verbatim>\<open>pkg/upgrade\<close>; \<open>Upgrade_Memory\<close> is the record they run on, the machine
  beside the state of the upgrade. \<open>Upgrade_Order\<close> and \<open>Upgrade_Members\<close> show in which order the members of a replica set are
  touched, within the locale \<open>node_operations\<close>; \<open>Upgrade_Bodies\<close> and \<open>Upgrade_Phases\<close> show that a completed phase
  has settled its nodes, within the locale \<open>phased_upgrade\<close>. Both are interpreted on the local upgrader in \<open>Upgrade_Local\<close>.
  \<open>Upgrade_Save\<close> is about its state file, and \<open>Upgrade_Claims\<close> puts the pieces together.

  \<^bold>\<open>Imports.\<close> \<open>Import_Config\<close> (configuration files and systemd units, with the regular expressions written out as
  matchers), \<open>Import_Files\<close> (directories, links and the generated topology) and \<open>Import_Run\<close> (discovery, systemd services,
  the import as a whole) model \<^verbatim>\<open>pkg/import\<close>: an import moves no data, gives back the services it took when it fails, and
  changes nothing in a dry run; the topology it writes is one that the program accepts.

  \<^bold>\<open>Binaries.\<close> \<open>Binary_Urls\<close> (the list of releases, the choice of a release and its address) and \<open>Binary_Manager\<close>
  (downloads, archives, packages, the cache) model \<^verbatim>\<open>pkg/deploy/binary_manager.go\<close>. \<open>Binary_Claims\<close> shows that an archive without a
  name that climbs stays inside its target directory, and that one with such a name does not; that a path once handed out is
  handed out again; that a short version resolves to the latest release of its line; and that a torn \<^verbatim>\<open>mongod\<close> counts as cached.

  \<^bold>\<open>Bounds and fuel.\<close> A loop that polls takes fuel, and running out of it is a value of its own. A sleep is not an action of
  the model: it shows in the clock readings. With clock readings that advance as the sleeps demand, stopping the supervisor
  needs 61 rounds for its thirty seconds (\<open>stop_returns\<close>), and waiting for a process as many rounds as its timeout has seconds and one
  more (\<open>wait_returns\<close>). Waiting for a new primary takes 15 rounds, the thirty seconds of the code in steps of two. The
  upgrade waits for a node within \<open>le_fuel\<close> rounds; running out is the error \<open>out_of_fuel\<close>, so that a success never rests on it;
  the deployment without a plan does the same with \<open>dv_fuel\<close> and \<open>polling_on\<close>, and asks a replica set 60 times, as the code does. Integers
  are \<open>int\<close>: the ones of the program are ports, counts and times, far from the limits of 64 bits.

  \<^bold>\<open>Parameters.\<close> What is not code of the repository is an argument: SHA-256 and the rendering of JSON, the YAML encoder
  and decoder, the shell, processes and ports, the supervisord binary, the MongoDB driver, the library of semantic versions, the
  printing of floating-point numbers, the order of Go's maps, schedules of goroutines, the network, the decoders of archives
  and the permission bits of files. Where a component uses another through an interface (an executor, the manager of MongoDB
  binaries, the drivers of the upgrade), that other component is an argument of it too.

  \<^bold>\<open>Not modelled.\<close> The commands on clusters (start and stop through the supervisor, and printing); monitoring (containers and
  exporters, calls of Docker and of the network); the executors over SSH; the playground, the command line, the logger and
  the progress display, which print.
\<close>

end
